(* ===== verification/Prelude.thy ===== *)
theory Prelude
  imports Main "HOL-Library.AList" "HOL-Library.Sublist" "HOL-Library.Word"
begin

text \<open>
  Shared vocabulary of the development.

  Go's strings are byte strings (\<open>string\<close>, a list of characters); the functions of Go's
  \<open>strings\<close> package the sources call are defined here, case mapping and white space on
  ASCII.  A Go map is an association list with distinct keys (\<open>wf_map\<close>): looking up,
  storing and deleting are \<open>map_of\<close>, \<open>AList.update\<close> and \<open>AList.delete\<close>, a \<open>range\<close> loop
  runs over the list, and since theorems quantify over every list they cover every iteration
  order.  Instants (\<open>time.Time\<close>) and durations are nanoseconds as \<open>int\<close>.
\<close>

section \<open>Fact collections\<close>

named_theorems go_string "characterisations of the string functions"
named_theorems wf_intros "well-formedness of Go maps is preserved"

section \<open>Time\<close>

type_synonym gotime = int
type_synonym duration = int

definition nanosecond :: duration where "nanosecond = 1"
definition second :: duration where "second = 1000000000"
definition minute :: duration where "minute = 60 * second"
definition hour :: duration where "hour = 60 * minute"

text \<open>The zero \<open>time.Time\<close> lies before every instant the program can read from its clock; it is
  the instant 0 here and clock readings are positive wherever that matters.\<close>

definition After :: "gotime \<Rightarrow> gotime \<Rightarrow> bool" where
  [simp]: "After t u \<longleftrightarrow> u < t"

definition Before :: "gotime \<Rightarrow> gotime \<Rightarrow> bool" where
  [simp]: "Before t u \<longleftrightarrow> t < u"

text \<open>Durations computed from other integers wrap around at 64 bits.\<close>

definition wrap64 :: "int \<Rightarrow> int" where
  "wrap64 i = (i + 2 ^ 63) mod 2 ^ 64 - 2 ^ 63"

lemma wrap64_id: "- (2 ^ 63) \<le> i \<Longrightarrow> i < 2 ^ 63 \<Longrightarrow> wrap64 i = i"
  by (simp add: wrap64_def)

section \<open>Go maps\<close>

type_synonym ('k, 'v) gomap = "('k \<times> 'v) list"

definition wf_map :: "('k, 'v) gomap \<Rightarrow> bool" where
  "wf_map m \<longleftrightarrow> distinct (map fst m)"

abbreviation get :: "('k, 'v) gomap \<Rightarrow> 'k \<Rightarrow> 'v option" where
  "get \<equiv> map_of"

abbreviation put :: "'k \<Rightarrow> 'v \<Rightarrow> ('k, 'v) gomap \<Rightarrow> ('k, 'v) gomap" where
  "put \<equiv> AList.update"

abbreviation del :: "'k \<Rightarrow> ('k, 'v) gomap \<Rightarrow> ('k, 'v) gomap" where
  "del \<equiv> AList.delete"

text \<open>Reading an absent key of a Go map gives the zero value of the element type.\<close>

definition get_zero :: "'v \<Rightarrow> ('k, 'v) gomap \<Rightarrow> 'k \<Rightarrow> 'v" where
  "get_zero z m k = (case get m k of None \<Rightarrow> z | Some v \<Rightarrow> v)"

definition has :: "('k, 'v) gomap \<Rightarrow> 'k \<Rightarrow> bool" where
  "has m k \<longleftrightarrow> get m k \<noteq> None"

text \<open>A \<open>range\<close> loop that deletes the entries it selects.\<close>

definition del_if :: "('k \<Rightarrow> 'v \<Rightarrow> bool) \<Rightarrow> ('k, 'v) gomap \<Rightarrow> ('k, 'v) gomap" where
  "del_if P m = filter (\<lambda>(k, v). \<not> P k v) m"

text \<open>Changing the value under a key in place, when there is one.\<close>

definition adjust :: "'k \<Rightarrow> ('v \<Rightarrow> 'v) \<Rightarrow> ('k, 'v) gomap \<Rightarrow> ('k, 'v) gomap" where
  "adjust k f m = map (\<lambda>(k', v). (k', if k' = k then f v else v)) m"

lemma wf_map_Nil [simp, wf_intros]: "wf_map []"
  by (simp add: wf_map_def)

lemma wf_map_put [simp, wf_intros]: "wf_map m \<Longrightarrow> wf_map (put k v m)"
  by (simp add: wf_map_def distinct_update)

lemma wf_map_del [simp, wf_intros]: "wf_map m \<Longrightarrow> wf_map (del k m)"
  by (simp add: wf_map_def distinct_delete)

lemma get_put: "get (put k v m) k' = (if k' = k then Some v else get m k')"
  by (simp add: update_conv')

lemma get_del: "get (del k m) k' = (if k' = k then None else get m k')"
  by (simp add: delete_conv')

lemma get_zero_put: "get_zero z (put k v m) k' = (if k' = k then v else get_zero z m k')"
  by (simp add: get_zero_def get_put)

lemma get_zero_del: "get_zero z (del k m) k' = (if k' = k then z else get_zero z m k')"
  by (simp add: get_zero_def get_del)

lemma get_filter:
  "wf_map m \<Longrightarrow>
   get (filter P m) k = (case get m k of None \<Rightarrow> None | Some v \<Rightarrow> if P (k, v) then Some v else None)"
proof (induction m)
  case Nil
  then show ?case by simp
next
  case (Cons a m)
  obtain k' v' where a: "a = (k', v')" by (cases a)
  with Cons.prems have *: "k' \<notin> fst ` set m" and "wf_map m"
    by (auto simp: wf_map_def)
  with Cons.IH have IH: "get (filter P m) k =
      (case get m k of None \<Rightarrow> None | Some v \<Rightarrow> if P (k, v) then Some v else None)"
    by simp
  from * have "get m k' = None" by (simp add: map_of_eq_None_iff)
  with a IH show ?case by (auto split: option.splits)
qed

lemma wf_map_filter [simp, wf_intros]: "wf_map m \<Longrightarrow> wf_map (filter P m)"
  unfolding wf_map_def by (induction m) auto

lemma wf_map_del_if [simp, wf_intros]: "wf_map m \<Longrightarrow> wf_map (del_if P m)"
  by (simp add: del_if_def)

lemma get_del_if:
  "wf_map m \<Longrightarrow>
   get (del_if P m) k = (case get m k of None \<Rightarrow> None | Some v \<Rightarrow> if P k v then None else Some v)"
  by (auto simp: del_if_def get_filter split: option.splits)

lemma fst_adjust [simp]: "map fst (adjust k f m) = map fst m"
  by (simp add: adjust_def case_prod_beta comp_def)

lemma wf_map_adjust [simp, wf_intros]: "wf_map m \<Longrightarrow> wf_map (adjust k f m)"
  by (simp add: wf_map_def)

lemma get_adjust: "get (adjust k f m) k' = (if k' = k then map_option f (get m k) else get m k')"
  by (induction m) (auto simp: adjust_def)

lemma get_Some_in: "get m k = Some v \<Longrightarrow> (k, v) \<in> set m"
  by (rule map_of_SomeD)

lemma get_iff_in: "wf_map m \<Longrightarrow> get m k = Some v \<longleftrightarrow> (k, v) \<in> set m"
  by (simp add: wf_map_def)

lemma has_iff: "has m k \<longleftrightarrow> k \<in> fst ` set m"
  by (auto simp: has_def map_of_eq_None_iff)

lemma length_put: "length (put k v m) = (if has m k then length m else Suc (length m))"
  by (induction m) (auto simp: has_def)

lemma put_new: "\<not> has t i \<Longrightarrow> put i k t = t @ [(i, k)]"
  by (induction t) (auto simp: has_def split: if_splits)

lemma length_del_le: "length (del k m) \<le> length m"
  by (rule length_delete_le)

lemma length_del: "wf_map m \<Longrightarrow> has m k \<Longrightarrow> length (del k m) = length m - 1"
proof (induction m)
  case Nil
  then show ?case by (simp add: has_def)
next
  case (Cons a m)
  obtain k' v' where a: "a = (k', v')" by (cases a)
  show ?case
  proof (cases "k' = k")
    case True
    with Cons.prems a have "k \<notin> fst ` set m" by (auto simp: wf_map_def)
    then have "del k m = m" by (rule delete_id)
    with True a show ?thesis by simp
  next
    case False
    with Cons.prems a have "wf_map m" "has m k" by (auto simp: wf_map_def has_def)
    with Cons.IH have "length (del k m) = length m - 1" by simp
    moreover from \<open>has m k\<close> have "length m > 0" by (cases m) (auto simp: has_def)
    ultimately show ?thesis using False a by simp
  qed
qed

lemma wf_map_ConsD: "wf_map ((k, v) # m) \<Longrightarrow> wf_map m \<and> get m k = None"
  by (auto simp: wf_map_def map_of_eq_None_iff)

section \<open>Go strings\<close>

definition HasPrefix :: "string \<Rightarrow> string \<Rightarrow> bool" where
  "HasPrefix s p \<longleftrightarrow> prefix p s"

definition HasSuffix :: "string \<Rightarrow> string \<Rightarrow> bool" where
  "HasSuffix s p \<longleftrightarrow> prefix (rev p) (rev s)"

definition TrimPrefix :: "string \<Rightarrow> string \<Rightarrow> string" where
  "TrimPrefix s p = (if HasPrefix s p then drop (length p) s else s)"

definition TrimSuffix :: "string \<Rightarrow> string \<Rightarrow> string" where
  "TrimSuffix s p = (if HasSuffix s p then take (length s - length p) s else s)"

definition Contains :: "string \<Rightarrow> string \<Rightarrow> bool" where
  "Contains s p \<longleftrightarrow> list_ex (\<lambda>t. prefix p t) (suffixes s)"

definition ContainsAny :: "string \<Rightarrow> string \<Rightarrow> bool" where
  "ContainsAny s cs \<longleftrightarrow> list_ex (\<lambda>c. c \<in> set cs) s"

definition is_space :: "char \<Rightarrow> bool" where
  "is_space c \<longleftrightarrow> (let n = (of_char c :: nat) in n = 32 \<or> (9 \<le> n \<and> n \<le> 13))"

definition TrimSpace :: "string \<Rightarrow> string" where
  "TrimSpace s = rev (dropWhile is_space (rev (dropWhile is_space s)))"

definition lower_char :: "char \<Rightarrow> char" where
  "lower_char c = (let n = (of_char c :: nat) in if 65 \<le> n \<and> n \<le> 90 then char_of (n + 32) else c)"

definition upper_char :: "char \<Rightarrow> char" where
  "upper_char c = (let n = (of_char c :: nat) in if 97 \<le> n \<and> n \<le> 122 then char_of (n - 32) else c)"

definition ToLower :: "string \<Rightarrow> string" where
  "ToLower s = map lower_char s"

definition ToUpper :: "string \<Rightarrow> string" where
  "ToUpper s = map upper_char s"

text \<open>\<open>strings.Split\<close> on a one-character separator and \<open>strings.Join\<close>.\<close>

fun Split :: "char \<Rightarrow> string \<Rightarrow> string list" where
  "Split c [] = [[]]"
| "Split c (x # xs) =
     (if x = c then [] # Split c xs
      else (case Split c xs of [] \<Rightarrow> [[x]] | w # ws \<Rightarrow> (x # w) # ws))"

fun Join :: "string \<Rightarrow> string list \<Rightarrow> string" where
  "Join sep [] = []"
| "Join sep [w] = w"
| "Join sep (w # v # ws) = w @ sep @ Join sep (v # ws)"

lemma HasPrefix_iff [go_string]: "HasPrefix s p \<longleftrightarrow> (\<exists>t. s = p @ t)"
  by (auto simp: HasPrefix_def prefix_def)

lemma HasSuffix_iff [go_string]: "HasSuffix s p \<longleftrightarrow> (\<exists>t. s = t @ p)"
  unfolding HasSuffix_def by (metis suffix_to_prefix suffix_def)

lemma HasPrefix_same_length:
  assumes "HasPrefix s p" "HasPrefix s q" "length p = length q"
  shows "p = q"
proof -
  from assms obtain t u where "p @ t = s" "q @ u = s" by (auto simp: HasPrefix_iff)
  then have "p @ t = q @ u" by simp
  with assms(3) show ?thesis by simp
qed

lemma HasPrefix_drop: "HasPrefix s p \<Longrightarrow> s = p @ drop (length p) s"
  by (auto simp: HasPrefix_iff)

lemma ContainsAny_iff [go_string]: "ContainsAny s cs \<longleftrightarrow> (\<exists>c \<in> set s. c \<in> set cs)"
  by (auto simp: ContainsAny_def list_ex_iff)

lemma Contains_iff [go_string]: "Contains s p \<longleftrightarrow> (\<exists>a b. s = a @ p @ b)"
proof
  assume "Contains s p"
  then show "\<exists>a b. s = a @ p @ b"
    by (auto simp: Contains_def list_ex_iff suffix_def prefix_def) blast
next
  assume "\<exists>a b. s = a @ p @ b"
  then obtain a b where s: "s = a @ p @ b" by blast
  then have "suffix (p @ b) s" by (simp add: suffix_def)
  then show "Contains s p" by (auto simp: Contains_def list_ex_iff intro!: bexI [of _ "p @ b"])
qed

lemma Split_ne [simp]: "Split c s \<noteq> []"
  by (cases s) (auto split: list.splits)

lemma Join_Split: "Join [c] (Split c s) = s"
proof (induction s)
  case Nil
  then show ?case by simp
next
  case (Cons x xs)
  obtain w ws where w: "Split c xs = w # ws" by (cases "Split c xs") auto
  show ?case
  proof (cases "x = c")
    case True
    with w Cons show ?thesis by simp
  next
    case False
    with w Cons show ?thesis by (cases ws) auto
  qed
qed

lemma Split_no_sep: "w \<in> set (Split c s) \<Longrightarrow> c \<notin> set w"
  by (induction s arbitrary: w) (auto split: if_splits list.splits)

lemma Split_id: "c \<notin> set s \<Longrightarrow> Split c s = [s]"
  by (induction s) auto

lemma Split_append: "c \<notin> set s \<Longrightarrow> Split c (s @ c # t) = s # Split c t"
  by (induction s) auto

lemma Split_Join:
  "ws \<noteq> [] \<Longrightarrow> \<forall>w \<in> set ws. c \<notin> set w \<Longrightarrow> Split c (Join [c] ws) = ws"
proof (induction "[c]" ws rule: Join.induct)
  case 1
  then show ?case by simp
next
  case (2 w)
  then show ?case by (simp add: Split_id)
next
  case (3 w v ws)
  then show ?case by (simp add: Split_append)
qed

lemma in_map_filterI: "x \<in> set xs \<Longrightarrow> f x = Some y \<Longrightarrow> y \<in> set (List.map_filter f xs)"
  unfolding List.map_filter_def by force

section \<open>Trimmed strings\<close>

definition trimmed :: "string \<Rightarrow> bool" where
  "trimmed s \<longleftrightarrow> s = [] \<or> \<not> is_space (hd s) \<and> \<not> is_space (last s)"

lemma trimmed_TrimSpace [simp]: "trimmed (TrimSpace s)"
proof -
  define u where "u = dropWhile is_space s"
  define v where "v = dropWhile is_space (rev u)"
  have t: "TrimSpace s = rev v" by (simp add: TrimSpace_def u_def v_def)
  show ?thesis
  proof (cases "v = []")
    case False
    then have "\<not> is_space (last (rev v))" by (simp add: last_rev v_def hd_dropWhile)
    moreover obtain w where "rev u = w @ v" unfolding v_def by (metis takeWhile_dropWhile_id)
    then have u: "u = rev v @ rev w" by (metis rev_append rev_rev_ident)
    with False have "hd (rev v) = hd u" "u \<noteq> []" by simp_all
    then have "\<not> is_space (hd (rev v))" unfolding u_def by (simp add: hd_dropWhile)
    ultimately show ?thesis by (simp add: t trimmed_def)
  qed (simp add: t trimmed_def)
qed

lemma dropWhile_trimmed [simp]: "trimmed s \<Longrightarrow> dropWhile is_space s = s" "trimmed s \<Longrightarrow> dropWhile is_space (rev s) = rev s"
  by (cases s; simp add: trimmed_def) (cases s rule: rev_cases; simp add: trimmed_def)

lemma TrimSpace_trimmed [simp]: "trimmed s \<Longrightarrow> TrimSpace s = s"
  by (simp add: TrimSpace_def)

lemma TrimSpace_blank [simp]: "TrimSpace (CHR '' '' # s) = TrimSpace s"
  by (simp add: TrimSpace_def is_space_def)

lemma TrimSpace_sub: "set (TrimSpace s) \<subseteq> set s"
  unfolding TrimSpace_def by (auto dest!: set_dropWhileD)

end
