(* ===== verification/Types.thy ===== *)
theory Types
  imports Prelude
begin

text \<open>
  The shared data types of \<open>internal/types/types.go\<close> that the gateway's components pass
  around: catalog apps, routes, discovery proposals.  Go strings are strings, optional
  pointers are options, the JSON/YAML tags are dropped.
\<close>

section \<open>Apps\<close>

record discovery_metadata =
  dm_Source :: string
  dm_ContainerID :: string
  dm_PodName :: string
  dm_ServiceName :: string

record app =
  app_ID :: string
  app_Name :: string
  app_Icon :: string
  app_Tags :: "string list"
  app_Endpoints :: "(string, string) gomap"
  app_ProxyPath :: string
  app_URL :: string
  app_FaviconURL :: string
  app_HealthStatus :: string
  app_LastHealthCheck :: "gotime option"
  app_DiscoveryMeta :: "discovery_metadata option"

section \<open>Routes\<close>

record route =
  RouteID :: string
  AppID :: string
  PathBase :: string
  To :: string
  ContainerID :: string
  Scopes :: "string list"
  PublicAccess :: bool
  Websocket :: bool
  StripPrefix :: bool
  StripResponseCookies :: bool
  RewriteCookiePaths :: bool
  RewriteHTML :: bool
  PersistCookies :: bool
  RoutingMode :: string
  Subdomain :: string
  ExcludePaths :: "string list"
  HealthCheckPath :: string
  HealthCheckTimeout :: string
  HealthCheckInterval :: string
  ExpectedStatusCodes :: "int list"
  SkipHealthCheck :: bool
  Status :: string

text \<open>Go's zero value of the struct, the starting point of concrete routes.\<close>

definition zero_route :: route where
  "zero_route = \<lparr>RouteID = [], AppID = [], PathBase = [], To = [], ContainerID = [], Scopes = [],
     PublicAccess = False, Websocket = False, StripPrefix = False, StripResponseCookies = False,
     RewriteCookiePaths = False, RewriteHTML = False, PersistCookies = False, RoutingMode = [],
     Subdomain = [], ExcludePaths = [], HealthCheckPath = [], HealthCheckTimeout = [],
     HealthCheckInterval = [], ExpectedStatusCodes = [], SkipHealthCheck = False, Status = []\<rparr>"

definition zero_app :: app where
  "zero_app = \<lparr>app_ID = [], app_Name = [], app_Icon = [], app_Tags = [], app_Endpoints = [],
     app_ProxyPath = [], app_URL = [], app_FaviconURL = [], app_HealthStatus = [],
     app_LastHealthCheck = None, app_DiscoveryMeta = None\<rparr>"

definition GetEffectiveScopes :: "route \<Rightarrow> string list \<Rightarrow> string list" where
  "GetEffectiveScopes r defaultScopes =
     (if PublicAccess r then []
      else if length (Scopes r) > 0 then Scopes r
      else defaultScopes)"

definition GetEffectiveRoutingMode :: "route \<Rightarrow> string \<Rightarrow> string" where
  "GetEffectiveRoutingMode r globalDefault =
     (if RoutingMode r \<noteq> [] then RoutingMode r
      else if globalDefault \<noteq> [] then globalDefault
      else ''path'')"

definition GetEffectiveExcludePaths :: "route \<Rightarrow> string list" where
  "GetEffectiveExcludePaths r =
     (if length (ExcludePaths r) > 0 then ExcludePaths r else [''/api/v1/''])"

text \<open>The test the router repeats: does the route take part in subdomain routing?\<close>

definition subdomain_mode :: "route \<Rightarrow> bool" where
  "subdomain_mode r \<longleftrightarrow> RoutingMode r = ''subdomain'' \<or> RoutingMode r = ''both''"

section \<open>Proposals\<close>

record port_option =
  po_Port :: int
  po_Scheme :: string

text \<open>A proposal's confidence is only compared and copied; any linearly ordered type serves,
  and integers (say, thousandths) stand for the \<open>float64\<close>.\<close>

record proposal =
  pr_ID :: string
  pr_Source :: string
  pr_DetectedScheme :: string
  pr_DetectedHost :: string
  pr_DetectedPort :: int
  pr_AvailablePorts :: "port_option list"
  pr_Confidence :: int
  pr_SuggestedApp :: app
  pr_SuggestedRoute :: route
  pr_Tags :: "string list"
  pr_LastSeen :: string
  pr_SecurityNotes :: "string list"

end
