(* ===== verification/Store.thy ===== *)
theory Store
  imports Types "HOL-Library.List_Lexorder" "HOL-Library.Char_ord"
begin

text \<open>
  The persistent tables of \<open>internal/storage/storage.go\<close> that the modelled components use:
  apps, routes, paired devices and queued notifications.  A table is a map from its primary
  key to its rows; each exported function is the effect of the SQL statement it executes.
  SQLite itself is not in the repository: what it may do to one call is the connection \<open>conn\<close>
  the call is given, whose fields say whether the statement is carried out, whether this
  connection enforces foreign keys (the pragma is set on one connection of the pool) and what
  its clock reads.  Columns that hold JSON text hold the decoded value here, as
  \<open>json.Unmarshal\<close> recovers what \<open>json.Marshal\<close> wrote.
\<close>

section \<open>Connections and errors\<close>

record conn =
  cn_ok :: bool
  cn_fk :: bool
  cn_now :: gotime

datatype db_error = DbFault | ForeignKeyFailed | UniqueFailed | NotFound

section \<open>Rows\<close>

record app_row =
  ar_name :: string
  ar_icon :: string
  ar_tags :: "string list"
  ar_endpoints :: "(string, string) gomap"
  ar_discovery_meta :: "discovery_metadata option"

record route_row =
  rr_app_id :: string
  rr_path_base :: string
  rr_target_url :: string
  rr_container_id :: string
  rr_scopes :: "string list"
  rr_websocket :: int
  rr_strip_prefix :: int
  rr_rewrite_html :: int
  rr_health_check_path :: string
  rr_health_check_timeout :: string
  rr_health_check_interval :: string
  rr_expected_status_codes :: "int list"
  rr_routing_mode :: string
  rr_subdomain :: string
  rr_exclude_paths :: "string list"

record device_row =
  dr_name :: string
  dr_platform :: string
  dr_platform_version :: string
  dr_scopes :: "string list"
  dr_created_at :: gotime
  dr_last_seen :: gotime

datatype notif_status = NPending | NDelivered | NFailed | NExpired | NDismissed

record stored_notification =
  sn_ID :: int
  sn_DeviceID :: string
  sn_Type :: string
  sn_Payload :: string
  sn_Status :: notif_status
  sn_RetryCount :: int
  sn_MaxRetries :: int
  sn_CreatedAt :: gotime
  sn_ExpiresAt :: gotime
  sn_DeliveredAt :: "gotime option"
  sn_LastAttemptAt :: "gotime option"
  sn_ErrorMessage :: "string option"

record store =
  st_apps :: "(string, app_row) gomap"
  st_routes :: "(string, route_row) gomap"
  st_devices :: "(string, device_row) gomap"
  st_notifs :: "(int, stored_notification) gomap"
  st_next_notif :: int

definition empty_store :: store where
  "empty_store = \<lparr>st_apps = [], st_routes = [], st_devices = [], st_notifs = [], st_next_notif = 1\<rparr>"

section \<open>Apps\<close>

definition SaveApp :: "conn \<Rightarrow> store \<Rightarrow> app \<Rightarrow> db_error + store" where
  "SaveApp c st a =
     (if \<not> cn_ok c then Inl DbFault
      else Inr (st\<lparr>st_apps := put (app_ID a)
             \<lparr>ar_name = app_Name a, ar_icon = app_Icon a, ar_tags = app_Tags a,
              ar_endpoints = app_Endpoints a, ar_discovery_meta = app_DiscoveryMeta a\<rparr>
             (st_apps st)\<rparr>))"

definition app_of_row :: "string \<Rightarrow> app_row \<Rightarrow> app" where
  "app_of_row i r = zero_app\<lparr>app_ID := i, app_Name := ar_name r, app_Icon := ar_icon r,
     app_Tags := ar_tags r, app_Endpoints := ar_endpoints r, app_DiscoveryMeta := ar_discovery_meta r\<rparr>"

definition GetApp :: "conn \<Rightarrow> store \<Rightarrow> string \<Rightarrow> db_error + app option" where
  "GetApp c st i = (if \<not> cn_ok c then Inl DbFault else Inr (map_option (app_of_row i) (get (st_apps st) i)))"

definition ListApps :: "conn \<Rightarrow> store \<Rightarrow> db_error + app list" where
  "ListApps c st =
     (if \<not> cn_ok c then Inl DbFault
      else Inr (map (\<lambda>(i, r). app_of_row i r) (sort_key (\<lambda>(i, r). ar_name r) (st_apps st))))"

text \<open>Deleting an app cascades to its routes on a connection that enforces foreign keys.\<close>

definition DeleteApp :: "conn \<Rightarrow> store \<Rightarrow> string \<Rightarrow> db_error + store" where
  "DeleteApp c st i =
     (if \<not> cn_ok c then Inl DbFault
      else Inr (st\<lparr>st_apps := del i (st_apps st),
                   st_routes := (if cn_fk c then del_if (\<lambda>_ r. rr_app_id r = i) (st_routes st)
                                 else st_routes st)\<rparr>))"

section \<open>Routes\<close>

definition row_of_route :: "route \<Rightarrow> route_row" where
  "row_of_route r = \<lparr>rr_app_id = AppID r, rr_path_base = PathBase r, rr_target_url = To r,
     rr_container_id = ContainerID r, rr_scopes = Scopes r,
     rr_websocket = (if Websocket r then 1 else 0),
     rr_strip_prefix = (if StripPrefix r then 1 else 0),
     rr_rewrite_html = (if RewriteHTML r then 1 else 0),
     rr_health_check_path = HealthCheckPath r, rr_health_check_timeout = HealthCheckTimeout r,
     rr_health_check_interval = HealthCheckInterval r,
     rr_expected_status_codes = ExpectedStatusCodes r,
     rr_routing_mode = RoutingMode r, rr_subdomain = Subdomain r, rr_exclude_paths = ExcludePaths r\<rparr>"

text \<open>Saving is an upsert on the route ID; it fails when the app is missing (on a connection that
  enforces foreign keys) and when another row has the same non-empty subdomain (the partial
  unique index \<open>idx_routes_subdomain\<close>).\<close>

definition SaveRoute :: "conn \<Rightarrow> store \<Rightarrow> route \<Rightarrow> db_error + store" where
  "SaveRoute c st r =
     (if \<not> cn_ok c then Inl DbFault
      else if Subdomain r \<noteq> [] \<and>
              list_ex (\<lambda>(i, row). i \<noteq> RouteID r \<and> rr_subdomain row = Subdomain r) (st_routes st)
      then Inl UniqueFailed
      else if cn_fk c \<and> \<not> has (st_apps st) (AppID r) then Inl ForeignKeyFailed
      else Inr (st\<lparr>st_routes := put (RouteID r) (row_of_route r) (st_routes st)\<rparr>))"

definition route_of_row :: "string \<Rightarrow> route_row \<Rightarrow> route" where
  "route_of_row i r = zero_route\<lparr>RouteID := i, AppID := rr_app_id r, PathBase := rr_path_base r,
     To := rr_target_url r, ContainerID := rr_container_id r, Scopes := rr_scopes r,
     Websocket := (rr_websocket r = 1), StripPrefix := (rr_strip_prefix r = 1),
     RewriteHTML := (rr_rewrite_html r = 1), HealthCheckPath := rr_health_check_path r,
     HealthCheckTimeout := rr_health_check_timeout r,
     HealthCheckInterval := rr_health_check_interval r,
     ExpectedStatusCodes := rr_expected_status_codes r, RoutingMode := rr_routing_mode r,
     Subdomain := rr_subdomain r, ExcludePaths := rr_exclude_paths r\<rparr>"

definition GetRoute :: "conn \<Rightarrow> store \<Rightarrow> string \<Rightarrow> db_error + route option" where
  "GetRoute c st i =
     (if \<not> cn_ok c then Inl DbFault else Inr (map_option (route_of_row i) (get (st_routes st) i)))"

definition ListRoutes :: "conn \<Rightarrow> store \<Rightarrow> db_error + route list" where
  "ListRoutes c st =
     (if \<not> cn_ok c then Inl DbFault
      else Inr (map (\<lambda>(i, r). route_of_row i r) (sort_key (\<lambda>(i, r). rr_path_base r) (st_routes st))))"

definition DeleteRoute :: "conn \<Rightarrow> store \<Rightarrow> string \<Rightarrow> db_error + store" where
  "DeleteRoute c st i =
     (if \<not> cn_ok c then Inl DbFault else Inr (st\<lparr>st_routes := del i (st_routes st)\<rparr>))"

section \<open>Devices\<close>

definition SaveDevice ::
  "conn \<Rightarrow> store \<Rightarrow> string \<Rightarrow> string \<Rightarrow> string \<Rightarrow> string \<Rightarrow> string list \<Rightarrow> db_error + store" where
  "SaveDevice c st i name platform version scopes =
     (if \<not> cn_ok c then Inl DbFault
      else Inr (st\<lparr>st_devices := put i
             \<lparr>dr_name = name, dr_platform = platform, dr_platform_version = version,
              dr_scopes = scopes,
              dr_created_at = (case get (st_devices st) i of Some d \<Rightarrow> dr_created_at d | None \<Rightarrow> cn_now c),
              dr_last_seen = cn_now c\<rparr> (st_devices st)\<rparr>))"

definition GetDevice :: "conn \<Rightarrow> store \<Rightarrow> string \<Rightarrow> db_error + device_row option" where
  "GetDevice c st i = (if \<not> cn_ok c then Inl DbFault else Inr (get (st_devices st) i))"

text \<open>The devices last seen first; the count of the day's requests is joined from a table of its own.\<close>

definition ListDevices :: "conn \<Rightarrow> store \<Rightarrow> db_error + (string \<times> device_row) list" where
  "ListDevices c st =
     (if \<not> cn_ok c then Inl DbFault else Inr (sort_key (\<lambda>(i, d). - dr_last_seen d) (st_devices st)))"

definition DeleteDevice :: "conn \<Rightarrow> store \<Rightarrow> string \<Rightarrow> db_error + store" where
  "DeleteDevice c st i =
     (if \<not> cn_ok c then Inl DbFault
      else Inr (st\<lparr>st_devices := del i (st_devices st),
                   st_notifs := (if cn_fk c then del_if (\<lambda>_ n. sn_DeviceID n = i) (st_notifs st)
                                 else st_notifs st)\<rparr>))"

definition UpdateDeviceLastSeen :: "conn \<Rightarrow> store \<Rightarrow> string \<Rightarrow> db_error + store" where
  "UpdateDeviceLastSeen c st i =
     (if \<not> cn_ok c then Inl DbFault
      else Inr (st\<lparr>st_devices := adjust i (\<lambda>d. d\<lparr>dr_last_seen := cn_now c\<rparr>) (st_devices st)\<rparr>))"

definition ComputeStatus :: "gotime \<Rightarrow> gotime \<Rightarrow> string" where
  "ComputeStatus now lastSeen = (if now - lastSeen < 5 * minute then ''online'' else ''offline'')"

section \<open>Notifications\<close>

definition EnqueueNotification ::
  "conn \<Rightarrow> store \<Rightarrow> string \<Rightarrow> string \<Rightarrow> string \<Rightarrow> duration \<Rightarrow> int \<Rightarrow> db_error + (store \<times> int)" where
  "EnqueueNotification c st deviceID msgType payload ttl maxRetries =
     (if \<not> cn_ok c then Inl DbFault
      else if cn_fk c \<and> \<not> has (st_devices st) deviceID then Inl ForeignKeyFailed
      else
        (let i = st_next_notif st;
             n = \<lparr>sn_ID = i, sn_DeviceID = deviceID, sn_Type = msgType, sn_Payload = payload,
                  sn_Status = NPending, sn_RetryCount = 0, sn_MaxRetries = maxRetries,
                  sn_CreatedAt = cn_now c, sn_ExpiresAt = cn_now c + ttl, sn_DeliveredAt = None,
                  sn_LastAttemptAt = None, sn_ErrorMessage = None\<rparr>
         in Inr (st\<lparr>st_notifs := put i n (st_notifs st), st_next_notif := i + 1\<rparr>, i)))"

text \<open>The queries compare instants with \<open>datetime(...)\<close>, which counts whole seconds.\<close>

definition unexpired :: "gotime \<Rightarrow> stored_notification \<Rightarrow> bool" where
  "unexpired now n \<longleftrightarrow> sn_ExpiresAt n div second > now div second"

definition GetPendingNotifications :: "conn \<Rightarrow> store \<Rightarrow> string \<Rightarrow> db_error + stored_notification list" where
  "GetPendingNotifications c st deviceID =
     (if \<not> cn_ok c then Inl DbFault
      else Inr (sort_key sn_CreatedAt
             (filter (\<lambda>n. sn_DeviceID n = deviceID \<and> sn_Status n \<in> {NPending, NFailed}
                          \<and> unexpired (cn_now c) n) (map snd (st_notifs st)))))"

definition GetAllRetryableNotifications :: "conn \<Rightarrow> store \<Rightarrow> db_error + stored_notification list" where
  "GetAllRetryableNotifications c st =
     (if \<not> cn_ok c then Inl DbFault
      else Inr (sort_key sn_CreatedAt
             (filter (\<lambda>n. sn_Status n = NPending \<and> unexpired (cn_now c) n) (map snd (st_notifs st)))))"

definition GetNotificationByID :: "conn \<Rightarrow> store \<Rightarrow> int \<Rightarrow> db_error + stored_notification option" where
  "GetNotificationByID c st i = (if \<not> cn_ok c then Inl DbFault else Inr (get (st_notifs st) i))"

definition MarkNotificationDelivered :: "conn \<Rightarrow> store \<Rightarrow> int \<Rightarrow> db_error + store" where
  "MarkNotificationDelivered c st i =
     (if \<not> cn_ok c then Inl DbFault
      else Inr (st\<lparr>st_notifs := adjust i
             (\<lambda>n. n\<lparr>sn_Status := NDelivered, sn_DeliveredAt := Some (cn_now c)\<rparr>) (st_notifs st)\<rparr>))"

definition MarkNotificationExpired :: "conn \<Rightarrow> store \<Rightarrow> int \<Rightarrow> db_error + store" where
  "MarkNotificationExpired c st i =
     (if \<not> cn_ok c then Inl DbFault
      else Inr (st\<lparr>st_notifs := adjust i
             (\<lambda>n. n\<lparr>sn_Status := NExpired, sn_ErrorMessage := Some ''notification expired''\<rparr>)
             (st_notifs st)\<rparr>))"

text \<open>Both statements run in one transaction, so a fault leaves the table as it was.\<close>

definition UpdateNotificationRetry :: "conn \<Rightarrow> store \<Rightarrow> int \<Rightarrow> string \<Rightarrow> db_error + store" where
  "UpdateNotificationRetry c st i errorMsg =
     (if \<not> cn_ok c then Inl DbFault
      else
        (let m1 = adjust i (\<lambda>n. n\<lparr>sn_RetryCount := sn_RetryCount n + 1,
                     sn_LastAttemptAt := Some (cn_now c), sn_ErrorMessage := Some errorMsg\<rparr>) (st_notifs st);
             m2 = adjust i (\<lambda>n. if sn_RetryCount n \<ge> sn_MaxRetries n then n\<lparr>sn_Status := NFailed\<rparr> else n) m1
         in Inr (st\<lparr>st_notifs := m2\<rparr>)))"

definition ResetNotificationForRetry :: "conn \<Rightarrow> store \<Rightarrow> int \<Rightarrow> db_error + store" where
  "ResetNotificationForRetry c st i =
     (if \<not> cn_ok c then Inl DbFault
      else if \<not> has (st_notifs st) i then Inl NotFound
      else Inr (st\<lparr>st_notifs := adjust i
             (\<lambda>n. n\<lparr>sn_Status := NPending, sn_RetryCount := 0, sn_ErrorMessage := None\<rparr>)
             (st_notifs st)\<rparr>))"

definition DeleteNotificationsForDevice :: "conn \<Rightarrow> store \<Rightarrow> string \<Rightarrow> db_error + (store \<times> int)" where
  "DeleteNotificationsForDevice c st deviceID =
     (if \<not> cn_ok c then Inl DbFault
      else
        (let P = (\<lambda>(i::int) n. sn_DeviceID n = deviceID \<and> sn_Status n = NPending) in
         Inr (st\<lparr>st_notifs := del_if P (st_notifs st)\<rparr>,
              int (length (filter (\<lambda>(i, n). P i n) (st_notifs st))))))"

end
