(* ===== verification/Federation.thy ===== *)
theory Federation
  imports Store Complex_Main "HOL-Library.Word"
begin

text \<open>
  \<open>internal/federation\<close>: the vector clocks (\<open>vector_clock.go\<close>), the choice between two versions
  of a service (\<open>resolver.go\<close>), the catalog kept in step with the peers (\<open>syncer.go\<close>), the peer
  table and the gossip delegates (\<open>federation.go\<close>, \<open>peer.go\<close>, \<open>config.go\<close>), and the federation
  tables of \<open>internal/storage/storage.go\<close>.  The memberlist library is not in the repository:
  what it calls (the delegates) are operations here, and its member list is an argument.
\<close>

section \<open>Vector clocks\<close>

text \<open>A clock is a Go map from peer IDs to 64-bit counters; \<open>None\<close> is the nil map.\<close>

type_synonym clock = "(string, 64 word) gomap option"

definition NewVectorClock :: clock where
  "NewVectorClock = Some []"

definition count_of :: "clock \<Rightarrow> string \<Rightarrow> 64 word" where
  "count_of vc p = (case vc of None \<Rightarrow> 0 | Some m \<Rightarrow> get_zero 0 m p)"

definition peers_of :: "clock \<Rightarrow> string list" where
  "peers_of vc = (case vc of None \<Rightarrow> [] | Some m \<Rightarrow> map fst m)"

text \<open>The receiver is a copy of the map header, so a nil map stays nil for the caller.\<close>

definition Increment :: "clock \<Rightarrow> string \<Rightarrow> clock" where
  "Increment vc peerID =
     (case vc of None \<Rightarrow> None | Some m \<Rightarrow> Some (put peerID (get_zero 0 m peerID + 1) m))"

text \<open>Writing to a nil map panics: that is the outer \<open>None\<close> of the result.\<close>

definition merge_entry :: "(string, 64 word) gomap \<Rightarrow> string \<times> 64 word \<Rightarrow> (string, 64 word) gomap" where
  "merge_entry m pc = (case pc of (peer, count) \<Rightarrow>
     if count > get_zero 0 m peer then put peer count m else m)"

definition MergeClock :: "clock \<Rightarrow> clock \<Rightarrow> clock option" where
  "MergeClock vc other =
     (case other of
        None \<Rightarrow> Some vc
      | Some o' \<Rightarrow>
          (case vc of
             None \<Rightarrow> if list_ex (\<lambda>(peer, count). count > 0) o' then None else Some None
           | Some m \<Rightarrow> Some (Some (foldl merge_entry m o'))))"

definition CompareClock :: "clock \<Rightarrow> clock \<Rightarrow> int" where
  "CompareClock vc other =
     (let allPeers = remdups (peers_of vc @ peers_of other);
          lessThan = list_ex (\<lambda>p. count_of vc p < count_of other p) allPeers;
          greaterThan = list_ex (\<lambda>p. count_of vc p > count_of other p) allPeers
      in if lessThan \<and> \<not> greaterThan then -1
         else if greaterThan \<and> \<not> lessThan then 1
         else 0)"

definition CopyClock :: "clock \<Rightarrow> clock" where
  "CopyClock vc = (case vc of None \<Rightarrow> NewVectorClock | Some m \<Rightarrow> Some m)"

section \<open>Federated services and conflict resolution\<close>

record fed_service =
  ServiceID :: string
  OriginPeerID :: string
  App :: "app option"
  Confidence :: rat
  LastSeen :: gotime
  Tombstone :: bool
  VectorClock :: clock

text \<open>Which of the two pointers is returned.\<close>

datatype winner = LocalWins | RemoteWins

definition resolveTieBreaker :: "fed_service \<Rightarrow> fed_service \<Rightarrow> winner" where
  "resolveTieBreaker loc rem =
     (if After (LastSeen loc) (LastSeen rem) then LocalWins
      else if After (LastSeen rem) (LastSeen loc) then RemoteWins
      else LocalWins)"

definition resolveByVectorClock :: "fed_service \<Rightarrow> fed_service \<Rightarrow> winner" where
  "resolveByVectorClock loc rem =
     (let comparison = CompareClock (VectorClock loc) (VectorClock rem) in
      if comparison = -1 then RemoteWins
      else if comparison = 1 then LocalWins
      else if comparison = 0 then resolveTieBreaker loc rem
      else LocalWins)"

definition ResolveConflict :: "fed_service option \<Rightarrow> fed_service option \<Rightarrow> string \<Rightarrow> winner option" where
  "ResolveConflict loc rem localPeerID =
     (case (loc, rem) of
        (None, None) \<Rightarrow> None
      | (None, Some r) \<Rightarrow> Some RemoteWins
      | (Some l, None) \<Rightarrow> Some LocalWins
      | (Some l, Some r) \<Rightarrow>
          (let localOwnsService = (OriginPeerID l = localPeerID) in
           if OriginPeerID l = OriginPeerID r then
             (if localOwnsService then Some (resolveByVectorClock l r) else Some RemoteWins)
           else Some (resolveByVectorClock l r)))"

section \<open>The federation tables\<close>

record peer_info =
  pi_Name :: string
  pi_APIAddress :: string
  pi_GossipAddress :: string
  pi_Status :: string
  pi_LastSeen :: gotime
  pi_Metadata :: "(string, string) gomap"
  pi_CreatedAt :: gotime
  pi_UpdatedAt :: gotime

text \<open>The JSON columns hold decoded values: \<open>app_data\<close> is \<open>null\<close> for a nil app.\<close>

record service_row =
  sr_origin_peer_id :: string
  sr_app_data :: "app option"
  sr_confidence :: rat
  sr_last_seen :: gotime
  sr_tombstone :: int
  sr_vector_clock :: clock
  sr_created_at :: gotime
  sr_updated_at :: gotime

record fed_store =
  ft_peers :: "(string, peer_info) gomap"
  ft_services :: "(string, service_row) gomap"

definition SavePeer :: "conn \<Rightarrow> fed_store \<Rightarrow> string \<Rightarrow> peer_info \<Rightarrow> db_error + fed_store" where
  "SavePeer c st i peer =
     (if \<not> cn_ok c then Inl DbFault
      else Inr (st\<lparr>ft_peers := put i
             (peer\<lparr>pi_CreatedAt := (case get (ft_peers st) i of Some p \<Rightarrow> pi_CreatedAt p | None \<Rightarrow> cn_now c),
                   pi_UpdatedAt := cn_now c\<rparr>) (ft_peers st)\<rparr>))"

definition DeletePeer :: "conn \<Rightarrow> fed_store \<Rightarrow> string \<Rightarrow> db_error + fed_store" where
  "DeletePeer c st i =
     (if \<not> cn_ok c then Inl DbFault
      else Inr (st\<lparr>ft_peers := del i (ft_peers st),
                   ft_services := (if cn_fk c then del_if (\<lambda>_ r. sr_origin_peer_id r = i) (ft_services st)
                                   else ft_services st)\<rparr>))"

definition SaveFederatedService ::
  "conn \<Rightarrow> fed_store \<Rightarrow> string \<Rightarrow> string \<Rightarrow> app option \<Rightarrow> rat \<Rightarrow> gotime \<Rightarrow> bool \<Rightarrow> clock \<Rightarrow> db_error + fed_store" where
  "SaveFederatedService c st serviceID originPeerID appData confidence lastSeen tombstone vectorClock =
     (if \<not> cn_ok c then Inl DbFault
      else if cn_fk c \<and> \<not> has (ft_peers st) originPeerID then Inl ForeignKeyFailed
      else Inr (st\<lparr>ft_services := put serviceID
             \<lparr>sr_origin_peer_id = originPeerID, sr_app_data = appData, sr_confidence = confidence,
              sr_last_seen = lastSeen, sr_tombstone = (if tombstone then 1 else 0),
              sr_vector_clock = vectorClock,
              sr_created_at = (case get (ft_services st) serviceID of
                                 Some r \<Rightarrow> sr_created_at r | None \<Rightarrow> cn_now c),
              sr_updated_at = cn_now c\<rparr> (ft_services st)\<rparr>))"

definition GetFederatedService :: "conn \<Rightarrow> fed_store \<Rightarrow> string \<Rightarrow> db_error + service_row option" where
  "GetFederatedService c st serviceID =
     (if \<not> cn_ok c then Inl DbFault else Inr (get (ft_services st) serviceID))"

definition ListFederatedServices :: "conn \<Rightarrow> fed_store \<Rightarrow> db_error + (string \<times> service_row) list" where
  "ListFederatedServices c st =
     (if \<not> cn_ok c then Inl DbFault else Inr (sort_key fst (ft_services st)))"

definition ListActiveFederatedServices :: "conn \<Rightarrow> fed_store \<Rightarrow> db_error + (string \<times> service_row) list" where
  "ListActiveFederatedServices c st =
     (if \<not> cn_ok c then Inl DbFault
      else Inr (sort_key fst (filter (\<lambda>(i, r). sr_tombstone r = 0) (ft_services st))))"

text \<open>Decoding the JSON \<open>null\<close> into a fresh app leaves it zero.\<close>

definition saveFederatedServiceToStorage :: "conn \<Rightarrow> fed_store \<Rightarrow> fed_service \<Rightarrow> db_error + fed_store" where
  "saveFederatedServiceToStorage c st fs =
     (let confidence = (if Confidence fs = 0 then 1 else Confidence fs) in
      SaveFederatedService c st (ServiceID fs) (OriginPeerID fs) (App fs) confidence
        (LastSeen fs) (Tombstone fs) (VectorClock fs))"

definition federatedServiceFromStorage :: "string \<Rightarrow> service_row \<Rightarrow> fed_service" where
  "federatedServiceFromStorage i r =
     \<lparr>ServiceID = i, OriginPeerID = sr_origin_peer_id r,
      App = Some (case sr_app_data r of None \<Rightarrow> zero_app | Some a \<Rightarrow> a),
      Confidence = sr_confidence r, LastSeen = sr_last_seen r,
      Tombstone = (sr_tombstone r = 1), VectorClock = sr_vector_clock r\<rparr>"

section \<open>The catalog syncer\<close>

text \<open>A gossip document is seen through its effect on the fields of the message structs
  (\<open>encoding/json\<close> ignores unknown members): a member is absent, \<open>null\<close>, of the right type or
  mistyped.  A mistyped member makes \<open>Unmarshal\<close> return an error.\<close>

datatype 'a field = Absent | Null | Value 'a | Mistyped

record msg_fields =
  jf_serviceId :: "string field"
  jf_originPeerId :: "string field"
  jf_app :: "app field"
  jf_confidence :: "rat field"
  jf_vectorClock :: "(string, 64 word) gomap field"
  jf_tombstone :: "bool field"

datatype document = NotJSON | JsonNull | OtherValue | Object msg_fields

record app_update_msg =
  um_ServiceID :: string
  um_OriginPeerID :: string
  um_App :: "app option"
  um_Confidence :: rat
  um_VectorClock :: clock
  um_Tombstone :: bool

record app_delete_msg =
  dg_ServiceID :: string
  dg_OriginPeerID :: string
  dg_VectorClock :: clock

definition scalar_field :: "'a field \<Rightarrow> 'a \<Rightarrow> 'a option" where
  "scalar_field f z = (case f of Absent \<Rightarrow> Some z | Null \<Rightarrow> Some z | Value v \<Rightarrow> Some v | Mistyped \<Rightarrow> None)"

definition pointer_field :: "'a field \<Rightarrow> 'a option option" where
  "pointer_field f = (case f of Absent \<Rightarrow> Some None | Null \<Rightarrow> Some None
                      | Value v \<Rightarrow> Some (Some v) | Mistyped \<Rightarrow> None)"

definition unmarshal_update :: "document \<Rightarrow> app_update_msg option" where
  "unmarshal_update d =
     (case d of
        NotJSON \<Rightarrow> None
      | OtherValue \<Rightarrow> None
      | JsonNull \<Rightarrow> Some \<lparr>um_ServiceID = [], um_OriginPeerID = [], um_App = None, um_Confidence = 0,
                        um_VectorClock = None, um_Tombstone = False\<rparr>
      | Object j \<Rightarrow>
          (case (scalar_field (jf_serviceId j) [], scalar_field (jf_originPeerId j) [],
                 pointer_field (jf_app j), scalar_field (jf_confidence j) 0,
                 pointer_field (jf_vectorClock j), scalar_field (jf_tombstone j) False) of
             (Some i, Some p, Some a, Some q, Some v, Some t) \<Rightarrow>
               Some \<lparr>um_ServiceID = i, um_OriginPeerID = p, um_App = a, um_Confidence = q,
                     um_VectorClock = v, um_Tombstone = t\<rparr>
           | _ \<Rightarrow> None))"

definition unmarshal_delete :: "document \<Rightarrow> app_delete_msg option" where
  "unmarshal_delete d =
     (case d of
        NotJSON \<Rightarrow> None
      | OtherValue \<Rightarrow> None
      | JsonNull \<Rightarrow> Some \<lparr>dg_ServiceID = [], dg_OriginPeerID = [], dg_VectorClock = None\<rparr>
      | Object j \<Rightarrow>
          (case (scalar_field (jf_serviceId j) [], scalar_field (jf_originPeerId j) [],
                 pointer_field (jf_vectorClock j)) of
             (Some i, Some p, Some v) \<Rightarrow>
               Some \<lparr>dg_ServiceID = i, dg_OriginPeerID = p, dg_VectorClock = v\<rparr>
           | _ \<Rightarrow> None))"

definition pointer_value :: "'a option \<Rightarrow> 'a field" where
  "pointer_value v = (case v of None \<Rightarrow> Null | Some x \<Rightarrow> Value x)"

lemma pointer_round_trip [simp]: "pointer_field (pointer_value v) = Some v"
  by (simp add: pointer_field_def pointer_value_def split: option.split)

lemma pointer_absent [simp]: "pointer_field Absent = Some None"
  by (simp add: pointer_field_def)

text \<open>\<open>broadcastServiceUpdate\<close> leaves the confidence of the message at its zero value.\<close>

definition update_message :: "fed_service \<Rightarrow> document" where
  "update_message s = Object
     \<lparr>jf_serviceId = Value (ServiceID s), jf_originPeerId = Value (OriginPeerID s),
      jf_app = pointer_value (App s), jf_confidence = Value 0,
      jf_vectorClock = pointer_value (VectorClock s), jf_tombstone = Value (Tombstone s)\<rparr>"

definition delete_message :: "fed_service \<Rightarrow> document" where
  "delete_message s = Object
     \<lparr>jf_serviceId = Value (ServiceID s), jf_originPeerId = Value (OriginPeerID s),
      jf_app = Absent, jf_confidence = Absent,
      jf_vectorClock = pointer_value (VectorClock s), jf_tombstone = Absent\<rparr>"

record syncer =
  cs_localPeerID :: string
  cs_storage :: "fed_store option"
  cs_vectorClock :: clock
  cs_broadcastFunc :: bool
  cs_eventCallback :: bool

definition NewCatalogSyncer :: "string \<Rightarrow> fed_store option \<Rightarrow> syncer" where
  "NewCatalogSyncer localPeerID store =
     \<lparr>cs_localPeerID = localPeerID, cs_storage = store, cs_vectorClock = NewVectorClock,
      cs_broadcastFunc = False, cs_eventCallback = False\<rparr>"

definition SetBroadcastFunc :: "syncer \<Rightarrow> syncer" where
  "SetBroadcastFunc cs = cs\<lparr>cs_broadcastFunc := True\<rparr>"

definition SetEventCallback :: "syncer \<Rightarrow> syncer" where
  "SetEventCallback cs = cs\<lparr>cs_eventCallback := True\<rparr>"

definition broadcastServiceUpdate :: "syncer \<Rightarrow> fed_service \<Rightarrow> document list" where
  "broadcastServiceUpdate cs s = (if \<not> cs_broadcastFunc cs then [] else [update_message s])"

definition broadcastServiceDelete :: "syncer \<Rightarrow> fed_service \<Rightarrow> document list" where
  "broadcastServiceDelete cs s = (if \<not> cs_broadcastFunc cs then [] else [delete_message s])"

text \<open>Local changes only log a failed save.\<close>

definition save_quietly_service :: "conn \<Rightarrow> syncer \<Rightarrow> fed_service \<Rightarrow> syncer" where
  "save_quietly_service c cs s =
     (case cs_storage cs of
        None \<Rightarrow> cs
      | Some st \<Rightarrow> (case saveFederatedServiceToStorage c st s of
                      Inl e \<Rightarrow> cs | Inr st' \<Rightarrow> cs\<lparr>cs_storage := Some st'\<rparr>))"

definition stored_service :: "conn \<Rightarrow> syncer \<Rightarrow> string \<Rightarrow> fed_service option" where
  "stored_service c cs i =
     (case cs_storage cs of
        None \<Rightarrow> None
      | Some st \<Rightarrow> (case GetFederatedService c st i of
                      Inl e \<Rightarrow> None
                    | Inr None \<Rightarrow> None
                    | Inr (Some r) \<Rightarrow> Some (federatedServiceFromStorage i r)))"

definition OnLocalServiceAdded :: "conn \<Rightarrow> gotime \<Rightarrow> syncer \<Rightarrow> app \<Rightarrow> syncer \<times> document list" where
  "OnLocalServiceAdded c now cs a =
     (let cs1 = cs\<lparr>cs_vectorClock := Increment (cs_vectorClock cs) (cs_localPeerID cs)\<rparr>;
          s = \<lparr>ServiceID = app_ID a, OriginPeerID = cs_localPeerID cs1, App = Some a, Confidence = 0,
               LastSeen = now, Tombstone = False, VectorClock = CopyClock (cs_vectorClock cs1)\<rparr>;
          cs2 = save_quietly_service c cs1 s
      in (cs2, broadcastServiceUpdate cs2 s))"

definition OnLocalServiceUpdated :: "conn \<Rightarrow> gotime \<Rightarrow> syncer \<Rightarrow> app \<Rightarrow> syncer \<times> document list" where
  "OnLocalServiceUpdated c now cs a =
     (let cs1 = cs\<lparr>cs_vectorClock := Increment (cs_vectorClock cs) (cs_localPeerID cs)\<rparr>;
          s = \<lparr>ServiceID = app_ID a, OriginPeerID = cs_localPeerID cs1, App = Some a, Confidence = 0,
               LastSeen = now, Tombstone = False, VectorClock = CopyClock (cs_vectorClock cs1)\<rparr>;
          cs2 = save_quietly_service c cs1 s
      in (cs2, broadcastServiceUpdate cs2 s))"

definition OnLocalServiceDeleted ::
  "conn \<Rightarrow> conn \<Rightarrow> gotime \<Rightarrow> syncer \<Rightarrow> string \<Rightarrow> syncer \<times> document list" where
  "OnLocalServiceDeleted c1 c2 now cs serviceID =
     (let cs1 = cs\<lparr>cs_vectorClock := Increment (cs_vectorClock cs) (cs_localPeerID cs)\<rparr>;
          existingService = stored_service c1 cs1 serviceID;
          tombstone = \<lparr>ServiceID = serviceID, OriginPeerID = cs_localPeerID cs1,
                       App = (case existingService of Some e \<Rightarrow> App e | None \<Rightarrow> None), Confidence = 0,
                       LastSeen = now, Tombstone = True, VectorClock = CopyClock (cs_vectorClock cs1)\<rparr>;
          cs2 = save_quietly_service c2 cs1 tombstone
      in (cs2, broadcastServiceDelete cs2 tombstone))"

datatype fed_event =
    ServiceAdded fed_service
  | ServiceRemoved fed_service

datatype outcome = Finished | SaveFailed db_error | Panicked

text \<open>One remote version against the stored one; a failed look-up counts as no version.\<close>

definition accept_remote ::
  "conn \<Rightarrow> conn \<Rightarrow> syncer \<Rightarrow> fed_service \<Rightarrow> syncer \<times> fed_event list \<times> outcome" where
  "accept_remote c1 c2 cs rem =
     (case ResolveConflict (stored_service c1 cs (ServiceID rem)) (Some rem) (cs_localPeerID cs) of
        Some RemoteWins \<Rightarrow>
          (case (case cs_storage cs of
                   None \<Rightarrow> Inr None
                 | Some st \<Rightarrow> (case saveFederatedServiceToStorage c2 st rem of
                                 Inl e \<Rightarrow> Inl e | Inr st' \<Rightarrow> Inr (Some st'))) of
             Inl e \<Rightarrow> (cs, [], SaveFailed e)
           | Inr st \<Rightarrow>
               (case MergeClock (cs_vectorClock cs) (VectorClock rem) of
                  None \<Rightarrow> (cs\<lparr>cs_storage := st\<rparr>, [], Panicked)
                | Some vc \<Rightarrow>
                    (cs\<lparr>cs_storage := st, cs_vectorClock := vc\<rparr>,
                     if cs_eventCallback cs
                     then [if Tombstone rem then ServiceRemoved rem else ServiceAdded rem] else [],
                     Finished)))
      | _ \<Rightarrow> (cs, [], Finished))"

definition OnRemoteServiceUpdate ::
  "conn \<Rightarrow> conn \<Rightarrow> syncer \<Rightarrow> fed_service \<Rightarrow> syncer \<times> fed_event list \<times> outcome" where
  "OnRemoteServiceUpdate c1 c2 cs rem = accept_remote c1 c2 cs rem"

text \<open>The batch goes on after a failed save; every service comes with the connections of its two
  statements.\<close>

fun MergeRemoteServices ::
  "syncer \<Rightarrow> (conn \<times> conn \<times> fed_service) list \<Rightarrow> syncer \<times> fed_event list \<times> outcome" where
  "MergeRemoteServices cs [] = (cs, [], Finished)"
| "MergeRemoteServices cs ((c1, c2, rem) # services) =
     (if OriginPeerID rem = cs_localPeerID cs then MergeRemoteServices cs services
      else (case accept_remote c1 c2 cs rem of
              (cs', ev, Panicked) \<Rightarrow> (cs', ev, Panicked)
            | (cs', ev, _) \<Rightarrow>
                (case MergeRemoteServices cs' services of (cs'', ev', r) \<Rightarrow> (cs'', ev @ ev', r))))"

definition GetLocalVectorClock :: "syncer \<Rightarrow> clock" where
  "GetLocalVectorClock cs = CopyClock (cs_vectorClock cs)"

definition GetAllServices :: "conn \<Rightarrow> syncer \<Rightarrow> db_error + fed_service list" where
  "GetAllServices c cs =
     (case cs_storage cs of
        None \<Rightarrow> Inr []
      | Some st \<Rightarrow> (case ListFederatedServices c st of
                      Inl e \<Rightarrow> Inl e
                    | Inr rows \<Rightarrow> Inr (map (\<lambda>(i, r). federatedServiceFromStorage i r) rows)))"

definition GetFederatedCatalog :: "conn \<Rightarrow> syncer \<Rightarrow> db_error + fed_service list" where
  "GetFederatedCatalog c cs =
     (case cs_storage cs of
        None \<Rightarrow> Inr []
      | Some st \<Rightarrow> (case ListActiveFederatedServices c st of
                      Inl e \<Rightarrow> Inl e
                    | Inr rows \<Rightarrow> Inr (map (\<lambda>(i, r). federatedServiceFromStorage i r) rows)))"

section \<open>Vector clocks order events\<close>

definition clock_le :: "clock \<Rightarrow> clock \<Rightarrow> bool" where
  "clock_le a b \<longleftrightarrow> (\<forall>p. count_of a p \<le> count_of b p)"

definition clock_less :: "clock \<Rightarrow> clock \<Rightarrow> bool" where
  "clock_less a b \<longleftrightarrow> clock_le a b \<and> \<not> clock_le b a"

definition wf_clock :: "clock \<Rightarrow> bool" where
  "wf_clock vc = (case vc of None \<Rightarrow> True | Some m \<Rightarrow> wf_map m)"

interpretation causal: preordering clock_le clock_less
  by unfold_locales (auto simp: clock_le_def clock_less_def intro: order_trans)

lemma clock_le_refl [simp]: "clock_le a a"
  by (rule causal.refl)

lemma count_of_absent: "p \<notin> set (peers_of vc) \<Longrightarrow> count_of vc p = 0"
  by (auto simp: count_of_def peers_of_def get_zero_def map_of_eq_None_iff[THEN iffD2] split: option.splits)

lemma count_of_put: "count_of (Some (put k v m)) p = (if p = k then v else count_of (Some m) p)"
  by (simp add: count_of_def get_zero_def get_put)

lemma compare_some_peer:
  "list_ex (\<lambda>p. count_of a p < count_of b p) (remdups (peers_of a @ peers_of b))
   \<longleftrightarrow> (\<exists>p. count_of a p < count_of b p)"
proof
  assume "\<exists>p. count_of a p < count_of b p"
  then obtain p where p: "count_of a p < count_of b p" by blast
  have "p \<in> set (peers_of a @ peers_of b)"
  proof (rule ccontr)
    assume "p \<notin> set (peers_of a @ peers_of b)"
    then have "count_of a p = 0" "count_of b p = 0" by (auto intro: count_of_absent)
    with p show False by simp
  qed
  with p show "list_ex (\<lambda>p. count_of a p < count_of b p) (remdups (peers_of a @ peers_of b))"
    by (auto simp: list_ex_iff)
qed (auto simp: list_ex_iff)

lemma compare_some_peer':
  "list_ex (\<lambda>p. count_of b p < count_of a p) (remdups (peers_of a @ peers_of b))
   \<longleftrightarrow> (\<exists>p. count_of b p < count_of a p)"
  using compare_some_peer [of b a] by (auto simp: list_ex_iff)

lemma not_clock_le: "(\<exists>p. count_of b p < count_of a p) \<longleftrightarrow> \<not> clock_le a b"
  by (auto simp: clock_le_def not_le)

lemma CompareClock_eq:
  "CompareClock a b = (if clock_less a b then -1 else if clock_less b a then 1 else 0)"
  unfolding CompareClock_def Let_def compare_some_peer compare_some_peer' not_clock_le clock_less_def
  by auto

lemma CompareClock_less [simp]: "clock_less a b \<Longrightarrow> CompareClock a b = -1"
  by (simp add: CompareClock_eq)

lemma count_Increment:
  "count_of (Increment (Some m) p) q = (if q = p then count_of (Some m) p + 1 else count_of (Some m) q)"
  by (simp add: Increment_def count_of_put) (simp add: count_of_def)

lemma word_less_plus_1: "(n::64 word) \<noteq> -1 \<Longrightarrow> n < n + 1"
proof -
  assume "n \<noteq> -1"
  then have "1 + n \<noteq> 0" by (metis add.commute add_eq_0_iff)
  then have "unat (1 + n) = Suc (unat n)" by (rule unatSuc)
  then show ?thesis by (simp add: word_less_nat_alt add.commute)
qed

lemma Increment_later:
  assumes "count_of (Some m) p \<noteq> -1"
  shows "clock_less (Some m) (Increment (Some m) p)"
  using word_less_plus_1 [OF assms]
  by (auto simp: clock_less_def clock_le_def count_Increment not_le intro!: exI [of _ p] less_imp_le)

lemma wf_Increment [simp]: "wf_clock vc \<Longrightarrow> wf_clock (Increment vc p)"
  by (auto simp: wf_clock_def Increment_def split: option.splits)

lemma merge_entry_count:
  "get_zero 0 (merge_entry m (k, c)) p = (if p = k then max (get_zero 0 m p) c else get_zero 0 m p)"
  by (auto simp: merge_entry_def get_zero_def get_put max_def split: option.splits)

lemma wf_merge_entry [simp]: "wf_map m \<Longrightarrow> wf_map (merge_entry m e)"
  by (cases e) (simp add: merge_entry_def)

lemma foldl_merge:
  "wf_map es \<Longrightarrow> get_zero 0 (foldl merge_entry m es) p = max (get_zero 0 m p) (get_zero 0 es p)"
proof (induction es arbitrary: m)
  case Nil
  then show ?case by (simp add: get_zero_def)
next
  case (Cons e es)
  obtain k c where e: "e = (k, c)" by (cases e)
  from Cons.prems have wf: "wf_map es" and absent: "get es k = None" by (auto simp: e dest: wf_map_ConsD)
  from absent have "get_zero 0 es k = 0" by (simp add: get_zero_def)
  moreover have "get_zero 0 (e # es) p = (if p = k then c else get_zero 0 es p)"
    by (simp add: e get_zero_def)
  moreover have "get_zero 0 (foldl merge_entry m (e # es)) p
    = max (get_zero 0 (merge_entry m e) p) (get_zero 0 es p)" by (simp add: Cons.IH [OF wf])
  ultimately show ?case by (simp add: e merge_entry_count)
qed

lemma wf_foldl_merge [simp]: "wf_map m \<Longrightarrow> wf_map (foldl merge_entry m es)"
  by (induction es arbitrary: m) auto

lemma MergeClock_Some:
  "\<exists>m'. MergeClock (Some m) vc = Some (Some m') \<and> (wf_map m \<longrightarrow> wf_map m')"
  by (cases vc) (auto simp: MergeClock_def)

lemma MergeClock_count:
  assumes "MergeClock a b = Some c" "wf_clock b"
  shows "count_of c p = max (count_of a p) (count_of b p)"
proof (cases b)
  case None
  with assms show ?thesis by (simp add: MergeClock_def count_of_def max_def)
next
  case (Some es)
  with assms(2) have wf: "wf_map es" by (simp add: wf_clock_def)
  show ?thesis
  proof (cases a)
    case None
    with assms(1) Some have c: "c = None" and z: "\<not> list_ex (\<lambda>(peer, count). count > 0) es"
      by (auto simp: MergeClock_def split: if_splits)
    have "get_zero 0 es p = 0"
    proof (cases "get es p")
      case (Some v)
      then have "(p, v) \<in> set es" by (rule get_Some_in)
      with z have "\<not> v > 0" by (auto simp: list_ex_iff)
      with Some show ?thesis by (simp add: get_zero_def word_gt_0)
    qed (simp add: get_zero_def)
    with None Some c show ?thesis by (simp add: count_of_def)
  next
    case (Some m)
    with assms(1) \<open>b = Some es\<close> have "c = Some (foldl merge_entry m es)" by (simp add: MergeClock_def)
    with Some \<open>b = Some es\<close> wf show ?thesis by (simp add: count_of_def foldl_merge)
  qed
qed

text \<open>C33: Vector clocks decide causality: \<open>Compare\<close> answers \<open>-1\<close> exactly when every counter of the
  first clock is at most the second's and the clocks differ, \<open>1\<close> exactly in the converse case;
  \<open>Merge\<close> computes the least clock above both; and an \<open>Increment\<close> makes a clock strictly later
  than it was, and than everything it already dominated, unless the 64-bit counter is exhausted.\<close>
theorem vector_clocks_order_events:
  assumes "wf_clock b" "MergeClock a b = Some c" "count_of c p \<noteq> -1" "c \<noteq> None"
  shows "(CompareClock a b = -1 \<longleftrightarrow>
            (\<forall>q. count_of a q \<le> count_of b q) \<and> (\<exists>q. count_of a q < count_of b q))
       \<and> (CompareClock a b = 1 \<longleftrightarrow>
            (\<forall>q. count_of b q \<le> count_of a q) \<and> (\<exists>q. count_of b q < count_of a q))
       \<and> clock_le a c \<and> clock_le b c
       \<and> (\<forall>d. clock_le a d \<longrightarrow> clock_le b d \<longrightarrow> clock_le c d)
       \<and> CompareClock a (Increment c p) = -1 \<and> CompareClock b (Increment c p) = -1"
proof -
  have max: "count_of c q = max (count_of a q) (count_of b q)" for q
    by (rule MergeClock_count [OF assms(2,1)])
  then have le: "clock_le a c" "clock_le b c" by (simp_all add: clock_le_def)
  obtain m where "c = Some m" using assms(4) by blast
  with assms(3) have "clock_less c (Increment c p)" by (auto intro: Increment_later)
  with le have later: "clock_less a (Increment c p)" "clock_less b (Increment c p)"
    by (blast intro: causal.strict_trans1)+
  have less: "clock_less x y \<longleftrightarrow> (\<forall>q. count_of x q \<le> count_of y q) \<and> (\<exists>q. count_of x q < count_of y q)"
    for x y by (simp add: clock_less_def not_clock_le [symmetric]) (simp add: clock_le_def)
  have "CompareClock a b = 1 \<longleftrightarrow> clock_less b a" "CompareClock a b = -1 \<longleftrightarrow> clock_less a b"
    by (auto simp: CompareClock_eq clock_less_def)
  moreover have "\<forall>d. clock_le a d \<longrightarrow> clock_le b d \<longrightarrow> clock_le c d"
    by (simp add: clock_le_def max)
  ultimately show ?thesis using le later by (simp add: less)
qed

theorem vector_clocks_order_events_witness:
  "CompareClock (Some [(''a'', 1)]) (Increment (Some [(''a'', 1), (''b'', 2)]) ''a'') = -1"
  using vector_clocks_order_events [where a = "Some [(''a'', 1)]" and b = "Some [(''b'', 2)]"
      and c = "Some [(''a'', 1), (''b'', 2)]" and p = "''a''"]
  by (simp add: wf_clock_def wf_map_def MergeClock_def merge_entry_def get_zero_def count_of_def)

section \<open>Runs of the syncer\<close>

datatype syncer_op =
    OpAdded conn gotime app
  | OpUpdated conn gotime app
  | OpDeleted conn conn gotime string
  | OpRemote conn conn fed_service
  | OpBatch "(conn \<times> conn \<times> fed_service) list"

fun syncer_step :: "syncer \<Rightarrow> syncer_op \<Rightarrow> syncer" where
  "syncer_step cs (OpAdded c now a) = fst (OnLocalServiceAdded c now cs a)"
| "syncer_step cs (OpUpdated c now a) = fst (OnLocalServiceUpdated c now cs a)"
| "syncer_step cs (OpDeleted c1 c2 now i) = fst (OnLocalServiceDeleted c1 c2 now cs i)"
| "syncer_step cs (OpRemote c1 c2 rem) = fst (OnRemoteServiceUpdate c1 c2 cs rem)"
| "syncer_step cs (OpBatch services) = fst (MergeRemoteServices cs services)"

fun syncer_broadcasts :: "syncer \<Rightarrow> syncer_op \<Rightarrow> document list" where
  "syncer_broadcasts cs (OpAdded c now a) = snd (OnLocalServiceAdded c now cs a)"
| "syncer_broadcasts cs (OpUpdated c now a) = snd (OnLocalServiceUpdated c now cs a)"
| "syncer_broadcasts cs (OpDeleted c1 c2 now i) = snd (OnLocalServiceDeleted c1 c2 now cs i)"
| "syncer_broadcasts cs (OpRemote c1 c2 rem) = []"
| "syncer_broadcasts cs (OpBatch services) = []"

fun is_local :: "syncer_op \<Rightarrow> bool" where
  "is_local (OpRemote c1 c2 rem) = False"
| "is_local (OpBatch services) = False"
| "is_local _ = True"

text \<open>The local counter is not exhausted when a local change increments it.\<close>

fun no_wrap :: "syncer \<Rightarrow> syncer_op list \<Rightarrow> bool" where
  "no_wrap cs [] = True"
| "no_wrap cs (x # xs) =
     ((is_local x \<longrightarrow> count_of (cs_vectorClock cs) (cs_localPeerID cs) \<noteq> -1) \<and> no_wrap (syncer_step cs x) xs)"

lemma save_quietly_service_simps [simp]:
  "cs_vectorClock (save_quietly_service c cs s) = cs_vectorClock cs"
  "cs_localPeerID (save_quietly_service c cs s) = cs_localPeerID cs"
  "cs_broadcastFunc (save_quietly_service c cs s) = cs_broadcastFunc cs"
  "cs_eventCallback (save_quietly_service c cs s) = cs_eventCallback cs"
  by (simp_all add: save_quietly_service_def split: option.split sum.split)

lemmas local_change_defs =
  OnLocalServiceAdded_def OnLocalServiceUpdated_def OnLocalServiceDeleted_def Let_def

lemma local_step_simps:
  "is_local x \<Longrightarrow> cs_vectorClock (syncer_step cs x) = Increment (cs_vectorClock cs) (cs_localPeerID cs)"
  "is_local x \<Longrightarrow> cs_localPeerID (syncer_step cs x) = cs_localPeerID cs"
  by (cases x; simp add: local_change_defs)+

lemma merge_entry_mono: "get_zero 0 m p \<le> get_zero 0 (merge_entry m e) p"
  by (cases e) (simp add: merge_entry_count)

lemma foldl_merge_mono: "get_zero 0 m p \<le> get_zero 0 (foldl merge_entry m es) p"
  by (induction es arbitrary: m) (auto intro: order_trans [OF merge_entry_mono])

lemma accept_remote_clock:
  assumes "cs_vectorClock cs = Some m"
  shows "cs_localPeerID (fst (accept_remote c1 c2 cs rem)) = cs_localPeerID cs \<and>
         (\<exists>m'. cs_vectorClock (fst (accept_remote c1 c2 cs rem)) = Some m' \<and> clock_le (Some m) (Some m')) \<and>
         snd (snd (accept_remote c1 c2 cs rem)) \<noteq> Panicked"
proof -
  have "\<exists>m'. MergeClock (Some m) vc = Some (Some m') \<and> clock_le (Some m) (Some m')" for vc
    by (cases vc) (auto simp: MergeClock_def clock_le_def count_of_def foldl_merge_mono)
  from this [of "VectorClock rem"] obtain m' where
    "MergeClock (Some m) (VectorClock rem) = Some (Some m')" "clock_le (Some m) (Some m')" by blast
  then show ?thesis
    using assms by (auto simp: accept_remote_def split: option.split winner.split sum.split)
qed

lemma MergeRemoteServices_clock:
  assumes "cs_vectorClock cs = Some m"
  shows "cs_localPeerID (fst (MergeRemoteServices cs services)) = cs_localPeerID cs \<and>
         (\<exists>m'. cs_vectorClock (fst (MergeRemoteServices cs services)) = Some m' \<and> clock_le (Some m) (Some m')) \<and>
         snd (snd (MergeRemoteServices cs services)) \<noteq> Panicked"
  using assms
proof (induction cs services arbitrary: m rule: MergeRemoteServices.induct)
  case (1 cs)
  then show ?case by simp
next
  case (2 cs c1 c2 rem services)
  show ?case
  proof (cases "OriginPeerID rem = cs_localPeerID cs")
    case True
    then show ?thesis using 2 by simp
  next
    case False
    obtain cs' ev r where a: "accept_remote c1 c2 cs rem = (cs', ev, r)" by (metis prod_cases3)
    from accept_remote_clock [OF 2(4), of c1 c2 rem] a obtain m' where
      m': "cs_localPeerID cs' = cs_localPeerID cs" "cs_vectorClock cs' = Some m'"
        "clock_le (Some m) (Some m')" "r \<noteq> Panicked" by auto
    have "cs_localPeerID (fst (MergeRemoteServices cs' services)) = cs_localPeerID cs' \<and>
         (\<exists>m''. cs_vectorClock (fst (MergeRemoteServices cs' services)) = Some m'' \<and> clock_le (Some m') (Some m'')) \<and>
         snd (snd (MergeRemoteServices cs' services)) \<noteq> Panicked"
      by (cases r) (use m'(2,4) 2(2,3) [OF False a [symmetric] refl] in auto)
    with a m' False show ?thesis
      by (cases r) (auto split: prod.splits intro: causal.trans)
  qed
qed


lemma syncer_step_clock:
  assumes "cs_vectorClock cs = Some m"
    and "is_local x \<longrightarrow> count_of (cs_vectorClock cs) (cs_localPeerID cs) \<noteq> -1"
  shows "cs_localPeerID (syncer_step cs x) = cs_localPeerID cs \<and>
         (\<exists>m'. cs_vectorClock (syncer_step cs x) = Some m' \<and> clock_le (Some m) (Some m'))"
proof (cases "is_local x")
  case True
  then have "count_of (Some m) (cs_localPeerID cs) \<noteq> -1" using assms by simp
  then have "clock_le (Some m) (Increment (Some m) (cs_localPeerID cs))"
    using Increment_later clock_less_def by blast
  with True assms(1) show ?thesis by (simp add: local_step_simps) (simp add: Increment_def)
next
  case False
  then show ?thesis
    using accept_remote_clock [OF assms(1)] MergeRemoteServices_clock [OF assms(1)]
    by (cases x) (simp_all add: OnRemoteServiceUpdate_def)
qed

lemma syncer_run_clock:
  assumes "cs_vectorClock cs = Some m" "no_wrap cs xs"
  shows "cs_localPeerID (foldl syncer_step cs xs) = cs_localPeerID cs \<and>
         (\<exists>m'. cs_vectorClock (foldl syncer_step cs xs) = Some m' \<and> clock_le (Some m) (Some m'))"
  using assms
proof (induction xs arbitrary: cs m)
  case Nil
  then show ?case by simp
next
  case (Cons x xs)
  from Cons.prems(2) have nw: "no_wrap (syncer_step cs x) xs" by simp
  obtain m' where m': "cs_localPeerID (syncer_step cs x) = cs_localPeerID cs"
      "cs_vectorClock (syncer_step cs x) = Some m'" "clock_le (Some m) (Some m')"
    using syncer_step_clock [OF Cons.prems(1), of x] Cons.prems(2) by auto
  from Cons.IH [OF m'(2) nw] m' show ?case by (auto intro: causal.trans)
qed

lemma no_wrap_append: "no_wrap cs (xs @ ys) \<longleftrightarrow> no_wrap cs xs \<and> no_wrap (foldl syncer_step cs xs) ys"
  by (induction xs arbitrary: cs) auto

text \<open>What a local change announces decodes, as an update, to the clock after the change.\<close>

lemma announced_clock:
  assumes "cs_vectorClock cs = Some m" "d \<in> set (syncer_broadcasts cs x)"
  shows "is_local x \<and> (\<exists>u. unmarshal_update d = Some u \<and> um_VectorClock u = cs_vectorClock (syncer_step cs x)
           \<and> um_OriginPeerID u = cs_localPeerID cs)"
  using assms
  by (cases x)
     (auto simp: local_change_defs broadcastServiceUpdate_def broadcastServiceDelete_def
        unmarshal_update_def update_message_def delete_message_def scalar_field_def pointer_field_def
        pointer_value_def CopyClock_def Increment_def split: if_splits option.splits)

text \<open>C34: A peer stamps its changes in causal order: whatever a fresh syncer does in between
  (further local changes, gossip and full-state merges from other peers, failed writes), the
  message of a later local change carries a strictly later vector clock than the message of an
  earlier one, as long as the 64-bit local counter is not exhausted; and no remote version can
  make the syncer panic.\<close>
theorem later_changes_carry_later_clocks:
  assumes "cs = foldl syncer_step (SetBroadcastFunc (NewCatalogSyncer peer st)) before"
    and "d1 \<in> set (syncer_broadcasts cs x)"
    and "d2 \<in> set (syncer_broadcasts (foldl syncer_step cs (x # between)) y)"
    and "no_wrap (SetBroadcastFunc (NewCatalogSyncer peer st)) (before @ x # between @ [y])"
  shows "(\<exists>u1 u2. unmarshal_update d1 = Some u1 \<and> unmarshal_update d2 = Some u2
            \<and> um_OriginPeerID u1 = peer \<and> um_OriginPeerID u2 = peer
            \<and> CompareClock (um_VectorClock u1) (um_VectorClock u2) = -1)
         \<and> snd (snd (OnRemoteServiceUpdate c1 c2 cs rem)) \<noteq> Panicked"
proof -
  let ?cs0 = "SetBroadcastFunc (NewCatalogSyncer peer st)" and ?cs2 = "foldl syncer_step cs (x # between)"
  have init: "cs_vectorClock ?cs0 = Some []" "cs_localPeerID ?cs0 = peer"
    by (simp_all add: SetBroadcastFunc_def NewCatalogSyncer_def NewVectorClock_def)
  have nw: "no_wrap ?cs0 before" "no_wrap cs [x]" "no_wrap (syncer_step cs x) between" "no_wrap ?cs2 [y]"
    using assms(1,4) by (simp_all add: no_wrap_append)
  obtain m where m: "cs_vectorClock cs = Some m" and pid: "cs_localPeerID cs = peer"
    using syncer_run_clock [OF init(1) nw(1)] init(2) assms(1) by auto
  from announced_clock [OF m assms(2)] obtain u1 where u1: "is_local x" "unmarshal_update d1 = Some u1"
      "um_VectorClock u1 = cs_vectorClock (syncer_step cs x)" "um_OriginPeerID u1 = peer"
    using pid by blast
  obtain m1 where m1: "cs_vectorClock (syncer_step cs x) = Some m1"
    using syncer_step_clock [OF m] nw(2) by auto
  from syncer_run_clock [OF m1 nw(3)] obtain m2 where m2: "cs_vectorClock ?cs2 = Some m2"
      "clock_le (Some m1) (Some m2)" and pid2: "cs_localPeerID ?cs2 = peer"
    using local_step_simps(2) [OF u1(1)] pid by auto
  from announced_clock [OF m2(1) assms(3)] obtain u2 where u2: "is_local y" "unmarshal_update d2 = Some u2"
      "um_VectorClock u2 = cs_vectorClock (syncer_step ?cs2 y)" "um_OriginPeerID u2 = peer"
    using pid2 by blast
  have "count_of (Some m2) peer \<noteq> -1" using nw(4) u2(1) m2(1) pid2 by simp
  then have "clock_less (Some m2) (Increment (Some m2) peer)" by (rule Increment_later)
  then have "clock_less (um_VectorClock u1) (um_VectorClock u2)"
    using causal.strict_trans1 [OF m2(2)] u1(3) u2(3) m1 local_step_simps(1) [OF u2(1)] m2(1) pid2 by simp
  with u1 u2 accept_remote_clock [OF m] show ?thesis by (auto simp: OnRemoteServiceUpdate_def)
qed

definition fed_conn :: conn where
  "fed_conn = \<lparr>cn_ok = True, cn_fk = True, cn_now = 5\<rparr>"

definition fed_tables :: fed_store where
  "fed_tables = \<lparr>ft_peers = [(''b'', \<lparr>pi_Name = ''b'', pi_APIAddress = ''10.0.0.2'', pi_GossipAddress = ''10.0.0.2:7946'',
     pi_Status = ''online'', pi_LastSeen = 1, pi_Metadata = [], pi_CreatedAt = 1, pi_UpdatedAt = 1\<rparr>)], ft_services = []\<rparr>"

definition fed_remote :: fed_service where
  "fed_remote = \<lparr>ServiceID = ''wiki'', OriginPeerID = ''b'', App = Some zero_app, Confidence = 0, LastSeen = 7,
     Tombstone = False, VectorClock = Some [(''b'', 3)]\<rparr>"

definition fed_syncer :: syncer where
  "fed_syncer = SetBroadcastFunc (NewCatalogSyncer ''a'' (Some fed_tables))"

definition fed_x :: syncer_op where
  "fed_x = OpAdded fed_conn 10 (zero_app\<lparr>app_ID := ''git''\<rparr>)"

definition fed_between :: "syncer_op list" where
  "fed_between = [OpRemote fed_conn fed_conn fed_remote]"

definition fed_y :: syncer_op where
  "fed_y = OpDeleted fed_conn fed_conn 12 ''git''"

lemma fed_run_hyps:
  "hd (syncer_broadcasts fed_syncer fed_x) \<in> set (syncer_broadcasts fed_syncer fed_x)"
  "hd (syncer_broadcasts (foldl syncer_step fed_syncer (fed_x # fed_between)) fed_y)
     \<in> set (syncer_broadcasts (foldl syncer_step fed_syncer (fed_x # fed_between)) fed_y)"
  "no_wrap fed_syncer ([] @ fed_x # fed_between @ [fed_y])"
  by code_simp+

theorem later_changes_carry_later_clocks_witness:
  "\<exists>u1 u2. unmarshal_update (hd (syncer_broadcasts fed_syncer fed_x)) = Some u1
     \<and> unmarshal_update (hd (syncer_broadcasts (foldl syncer_step fed_syncer (fed_x # fed_between)) fed_y)) = Some u2
     \<and> CompareClock (um_VectorClock u1) (um_VectorClock u2) = -1"
proof -
  have "fed_syncer = foldl syncer_step (SetBroadcastFunc (NewCatalogSyncer ''a'' (Some fed_tables))) []"
    by (simp add: fed_syncer_def)
  from later_changes_carry_later_clocks [OF this fed_run_hyps(1,2)
      fed_run_hyps(3) [unfolded fed_syncer_def]]
  show ?thesis by blast
qed

end
