(* ===== verification/Peers.thy ===== *)
theory Peers
  imports Federation
begin

text \<open>
  The peer manager of \<open>internal/federation/federation.go\<close> with its configuration (\<open>config.go\<close>)
  and peer records (\<open>peer.go\<close>), the gossip delegates that connect it to the catalog syncer, and
  the look-up of a remote service in \<open>cmd/nekzus/proxy_handlers.go\<close>.  Starting and stopping the
  memberlist library, its timers and the metrics are not modelled: a tick of the health worker
  and every delegate call are operations, the members of the cluster are an argument.
\<close>

section \<open>Configuration\<close>

record fed_config =
  fc_LocalPeerID :: string
  fc_LocalPeerName :: string
  fc_APIAddress :: string
  fc_GossipBindAddr :: string
  fc_GossipBindPort :: int
  fc_GossipAdvertiseAddr :: string
  fc_GossipAdvertisePort :: int
  fc_ClusterSecret :: string
  fc_MDNSEnabled :: bool
  fc_MDNSServiceName :: string
  fc_BootstrapPeers :: "string list"
  fc_FullSyncInterval :: duration
  fc_AntiEntropyPeriod :: duration
  fc_PeerTimeout :: duration
  fc_AllowRemoteRoutes :: bool

datatype config_error =
    PeerIDRequired | PeerNameRequired | APIAddressRequired | ShortClusterSecret
  | BadBindPort | BadAdvertisePort | ShortSyncInterval | ShortAntiEntropy | ShortPeerTimeout

definition ValidateConfig :: "fed_config \<Rightarrow> config_error option" where
  "ValidateConfig c =
     (if fc_LocalPeerID c = [] then Some PeerIDRequired
      else if fc_LocalPeerName c = [] then Some PeerNameRequired
      else if fc_APIAddress c = [] then Some APIAddressRequired
      else if length (fc_ClusterSecret c) < 32 then Some ShortClusterSecret
      else if fc_GossipBindPort c < 1024 \<or> fc_GossipBindPort c > 65535 then Some BadBindPort
      else if fc_GossipAdvertisePort c < 1024 \<or> fc_GossipAdvertisePort c > 65535 then Some BadAdvertisePort
      else if fc_FullSyncInterval c < minute then Some ShortSyncInterval
      else if fc_AntiEntropyPeriod c < 30 * second then Some ShortAntiEntropy
      else if fc_PeerTimeout c < 10 * second then Some ShortPeerTimeout
      else None)"

definition SetDefaults :: "fed_config \<Rightarrow> fed_config" where
  "SetDefaults c0 =
     (let c1 = (if fc_GossipBindAddr c0 = [] then c0\<lparr>fc_GossipBindAddr := ''0.0.0.0''\<rparr> else c0);
          c2 = (if fc_GossipBindPort c1 = 0 then c1\<lparr>fc_GossipBindPort := 7946\<rparr> else c1);
          c3 = (if fc_GossipAdvertisePort c2 = 0 then c2\<lparr>fc_GossipAdvertisePort := fc_GossipBindPort c2\<rparr> else c2);
          c4 = (if fc_MDNSServiceName c3 = [] then c3\<lparr>fc_MDNSServiceName := ''_nekzus-peer._tcp''\<rparr> else c3);
          c5 = (if fc_FullSyncInterval c4 = 0 then c4\<lparr>fc_FullSyncInterval := 5 * minute\<rparr> else c4);
          c6 = (if fc_AntiEntropyPeriod c5 = 0 then c5\<lparr>fc_AntiEntropyPeriod := 1 * minute\<rparr> else c5)
      in if fc_PeerTimeout c6 = 0 then c6\<lparr>fc_PeerTimeout := 30 * second\<rparr> else c6)"

section \<open>Peers\<close>

datatype peer_status = Online | Offline | Unreachable

record peer_instance =
  peer_ID :: string
  peer_Name :: string
  peer_Address :: string
  peer_GossipAddr :: string
  peer_Status :: peer_status
  peer_LastSeen :: gotime
  peer_Metadata :: "(string, string) gomap"
  peer_CreatedAt :: gotime
  peer_UpdatedAt :: gotime

definition NewPeerInstance :: "gotime \<Rightarrow> string \<Rightarrow> string \<Rightarrow> string \<Rightarrow> string \<Rightarrow> peer_instance" where
  "NewPeerInstance now i name address gossipAddr =
     \<lparr>peer_ID = i, peer_Name = name, peer_Address = address, peer_GossipAddr = gossipAddr,
      peer_Status = Online, peer_LastSeen = now, peer_Metadata = [], peer_CreatedAt = now,
      peer_UpdatedAt = now\<rparr>"

definition IsAlive :: "gotime \<Rightarrow> peer_instance \<Rightarrow> duration \<Rightarrow> bool" where
  "IsAlive now p threshold \<longleftrightarrow> now - peer_LastSeen p < threshold"

definition UpdateLastSeen :: "gotime \<Rightarrow> peer_instance \<Rightarrow> peer_instance" where
  "UpdateLastSeen now p = p\<lparr>peer_LastSeen := now, peer_UpdatedAt := now\<rparr>"

definition SetStatus :: "gotime \<Rightarrow> peer_instance \<Rightarrow> peer_status \<Rightarrow> peer_instance" where
  "SetStatus now p status = p\<lparr>peer_Status := status, peer_UpdatedAt := now\<rparr>"

datatype peer_event =
    PeerJoined peer_instance
  | PeerLeft peer_instance
  | PeerOnline peer_instance
  | PeerOffline peer_instance

text \<open>The store is shared with the syncer, whose field it is; the broadcast queue is a channel of
  capacity 256.\<close>

record peer_manager =
  fm_config :: fed_config
  fm_peers :: "(string, peer_instance) gomap"
  fm_catalogSyncer :: syncer
  fm_broadcastQueue :: "document list"
  fm_eventBus :: bool

definition NewPeerManager :: "fed_config \<Rightarrow> fed_store option \<Rightarrow> bool \<Rightarrow> config_error + peer_manager" where
  "NewPeerManager config0 store eventBus =
     (let config = SetDefaults config0 in
      case ValidateConfig config of
        Some e \<Rightarrow> Inl e
      | None \<Rightarrow>
          (let cs = NewCatalogSyncer (fc_LocalPeerID config) store in
           Inr \<lparr>fm_config = config, fm_peers = [],
                fm_catalogSyncer = (if eventBus then SetEventCallback cs else cs),
                fm_broadcastQueue = [], fm_eventBus = eventBus\<rparr>))"

text \<open>The part of \<open>Start\<close> that touches the modelled state.\<close>

definition StartWiring :: "peer_manager \<Rightarrow> peer_manager" where
  "StartWiring pm = pm\<lparr>fm_catalogSyncer := SetBroadcastFunc (fm_catalogSyncer pm)\<rparr>"

definition LocalPeerID :: "peer_manager \<Rightarrow> string" where
  "LocalPeerID pm = fc_LocalPeerID (fm_config pm)"

definition GetPeers :: "peer_manager \<Rightarrow> peer_instance list" where
  "GetPeers pm = filter (\<lambda>p. peer_ID p \<noteq> fc_LocalPeerID (fm_config pm)) (map snd (fm_peers pm))"

definition GetPeerByID :: "peer_manager \<Rightarrow> string \<Rightarrow> peer_instance option" where
  "GetPeerByID pm peerID = get (fm_peers pm) peerID"

definition GetPeerCount :: "peer_manager \<Rightarrow> int" where
  "GetPeerCount pm = int (length (fm_peers pm))"

definition GetPeerCountByStatus :: "peer_manager \<Rightarrow> (peer_status, int) gomap" where
  "GetPeerCountByStatus pm =
     foldl (\<lambda>counts (i, p). put (peer_Status p) (get_zero 0 counts (peer_Status p) + 1) counts) [] (fm_peers pm)"

definition status_text :: "peer_status \<Rightarrow> string" where
  "status_text s = (case s of Online \<Rightarrow> ''online'' | Offline \<Rightarrow> ''offline'' | Unreachable \<Rightarrow> ''unreachable'')"

definition peer_info_of :: "peer_instance \<Rightarrow> peer_info" where
  "peer_info_of p =
     \<lparr>pi_Name = peer_Name p, pi_APIAddress = peer_Address p, pi_GossipAddress = peer_GossipAddr p,
      pi_Status = status_text (peer_Status p), pi_LastSeen = peer_LastSeen p,
      pi_Metadata = peer_Metadata p, pi_CreatedAt = peer_CreatedAt p, pi_UpdatedAt = peer_UpdatedAt p\<rparr>"

text \<open>Persisting and deleting peers only log their failures.\<close>

definition store_quietly :: "(fed_store \<Rightarrow> db_error + fed_store) \<Rightarrow> peer_manager \<Rightarrow> peer_manager" where
  "store_quietly f pm =
     (case cs_storage (fm_catalogSyncer pm) of
        None \<Rightarrow> pm
      | Some st \<Rightarrow> (case f st of
                      Inl e \<Rightarrow> pm
                    | Inr st' \<Rightarrow> pm\<lparr>fm_catalogSyncer := (fm_catalogSyncer pm)\<lparr>cs_storage := Some st'\<rparr>\<rparr>))"

definition AddPeer :: "conn \<Rightarrow> gotime \<Rightarrow> peer_manager \<Rightarrow> peer_instance \<Rightarrow> peer_manager \<times> peer_event list" where
  "AddPeer c now pm peer =
     (case get (fm_peers pm) (peer_ID peer) of
        Some existing \<Rightarrow>
          (pm\<lparr>fm_peers := put (peer_ID peer)
             (UpdateLastSeen now (existing\<lparr>peer_Address := peer_Address peer,
                peer_GossipAddr := peer_GossipAddr peer, peer_Status := peer_Status peer\<rparr>))
             (fm_peers pm)\<rparr>, [])
      | None \<Rightarrow>
          (store_quietly (\<lambda>st. SavePeer c st (peer_ID peer) (peer_info_of peer))
             (pm\<lparr>fm_peers := put (peer_ID peer) peer (fm_peers pm)\<rparr>),
           if fm_eventBus pm then [PeerJoined peer] else []))"

datatype peer_error = ErrPeerNotFound

definition RemovePeer :: "conn \<Rightarrow> peer_manager \<Rightarrow> string \<Rightarrow> peer_manager \<times> peer_event list \<times> peer_error option" where
  "RemovePeer c pm peerID =
     (case get (fm_peers pm) peerID of
        None \<Rightarrow> (pm, [], Some ErrPeerNotFound)
      | Some peer \<Rightarrow>
          (store_quietly (\<lambda>st. DeletePeer c st peerID) (pm\<lparr>fm_peers := del peerID (fm_peers pm)\<rparr>),
           if fm_eventBus pm then [PeerLeft peer] else [], None))"

text \<open>A member of the cluster as memberlist reports it, its address also with the port.\<close>

record member =
  mb_Name :: string
  mb_Addr :: string
  mb_AddrPort :: string

definition peer_of_member :: "gotime \<Rightarrow> member \<Rightarrow> peer_instance" where
  "peer_of_member now m = NewPeerInstance now (mb_Name m) (mb_Name m) (mb_Addr m) (mb_AddrPort m)"

definition member_map :: "peer_manager \<Rightarrow> member list \<Rightarrow> (string, member) gomap" where
  "member_map pm members =
     foldl (\<lambda>m member. if mb_Name member \<noteq> fc_LocalPeerID (fm_config pm) then put (mb_Name member) member m else m)
       [] members"

definition readd_member :: "gotime \<Rightarrow> peer_manager \<times> peer_event list \<Rightarrow> string \<times> member \<Rightarrow> peer_manager \<times> peer_event list" where
  "readd_member now acc e =
     (case acc of (pm, evs) \<Rightarrow> case e of (peerID, member) \<Rightarrow>
        if has (fm_peers pm) peerID then (pm, evs)
        else (let peer = peer_of_member now member in
              (pm\<lparr>fm_peers := put peerID peer (fm_peers pm)\<rparr>,
               if fm_eventBus pm then evs @ [PeerJoined peer] else evs)))"

definition check_peer :: "gotime \<Rightarrow> fed_config \<Rightarrow> (string, member) gomap \<Rightarrow> string \<Rightarrow> peer_instance
    \<Rightarrow> peer_instance \<times> peer_event list" where
  "check_peer now config memberMap peerID peer =
     (if peerID = fc_LocalPeerID config then (peer, [])
      else if has memberMap peerID then
        (if peer_Status peer \<noteq> Online
         then (let p = SetStatus now peer Online in (UpdateLastSeen now p, [PeerOnline p]))
         else (UpdateLastSeen now peer, []))
      else if \<not> IsAlive now peer (fc_PeerTimeout config) then
        (if peer_Status peer \<noteq> Offline
         then (let p = SetStatus now peer Offline in (p, [PeerOffline p]))
         else (peer, []))
      else (peer, []))"

definition checkPeerHealth :: "gotime \<Rightarrow> member list \<Rightarrow> peer_manager \<Rightarrow> peer_manager \<times> peer_event list" where
  "checkPeerHealth now members pm0 =
     (let memberMap = member_map pm0 members in
      case foldl (readd_member now) (pm0, []) memberMap of
        (pm, evs) \<Rightarrow>
          (pm\<lparr>fm_peers := map (\<lambda>(i, p). (i, fst (check_peer now (fm_config pm) memberMap i p))) (fm_peers pm)\<rparr>,
           evs @ (if fm_eventBus pm
                  then concat (map (\<lambda>(i, p). snd (check_peer now (fm_config pm) memberMap i p)) (fm_peers pm))
                  else [])))"

definition NotifyJoin :: "conn \<Rightarrow> gotime \<Rightarrow> peer_manager \<Rightarrow> member \<Rightarrow> peer_manager \<times> peer_event list" where
  "NotifyJoin c now pm node =
     (if mb_Name node = fc_LocalPeerID (fm_config pm) then (pm, [])
      else AddPeer c now pm (peer_of_member now node))"

definition NotifyLeave :: "conn \<Rightarrow> peer_manager \<Rightarrow> member \<Rightarrow> peer_manager \<times> peer_event list" where
  "NotifyLeave c pm node = (case RemovePeer c pm (mb_Name node) of (pm', evs, _) \<Rightarrow> (pm', evs))"

definition NotifyUpdate :: "gotime \<Rightarrow> peer_manager \<Rightarrow> member \<Rightarrow> peer_manager" where
  "NotifyUpdate now pm node =
     (case get (fm_peers pm) (mb_Name node) of
        None \<Rightarrow> pm
      | Some peer \<Rightarrow>
          (let p = UpdateLastSeen now peer in
           pm\<lparr>fm_peers := put (mb_Name node) (if peer_Status p \<noteq> Online then SetStatus now p Online else p)
                (fm_peers pm)\<rparr>))"

section \<open>The gossip delegates\<close>

definition broadcastCatalogMessage :: "peer_manager \<Rightarrow> document \<Rightarrow> peer_manager" where
  "broadcastCatalogMessage pm msg =
     (if length (fm_broadcastQueue pm) < 256
      then pm\<lparr>fm_broadcastQueue := fm_broadcastQueue pm @ [msg]\<rparr> else pm)"

text \<open>A local change of the catalog and the messages it queues.\<close>

definition local_change :: "peer_manager \<Rightarrow> syncer \<times> document list \<Rightarrow> peer_manager" where
  "local_change pm r = (case r of (cs, docs) \<Rightarrow>
     foldl broadcastCatalogMessage (pm\<lparr>fm_catalogSyncer := cs\<rparr>) docs)"

definition AppRegistered :: "conn \<Rightarrow> gotime \<Rightarrow> peer_manager \<Rightarrow> app \<Rightarrow> peer_manager" where
  "AppRegistered c now pm a = local_change pm (OnLocalServiceAdded c now (fm_catalogSyncer pm) a)"

definition AppRemoved :: "conn \<Rightarrow> conn \<Rightarrow> gotime \<Rightarrow> peer_manager \<Rightarrow> string \<Rightarrow> peer_manager" where
  "AppRemoved c1 c2 now pm i = local_change pm (OnLocalServiceDeleted c1 c2 now (fm_catalogSyncer pm) i)"

definition NotifyMsg :: "conn \<Rightarrow> conn \<Rightarrow> gotime \<Rightarrow> peer_manager \<Rightarrow> document \<Rightarrow> peer_manager \<times> fed_event list \<times> outcome" where
  "NotifyMsg c1 c2 now pm msg =
     (case unmarshal_update msg of
        Some u \<Rightarrow>
          (case OnRemoteServiceUpdate c1 c2 (fm_catalogSyncer pm)
                  \<lparr>ServiceID = um_ServiceID u, OriginPeerID = um_OriginPeerID u, App = um_App u,
                   Confidence = um_Confidence u, LastSeen = now, Tombstone = um_Tombstone u,
                   VectorClock = um_VectorClock u\<rparr> of
             (cs, evs, r) \<Rightarrow> (pm\<lparr>fm_catalogSyncer := cs\<rparr>, evs, r))
      | None \<Rightarrow>
          (case unmarshal_delete msg of
             Some d \<Rightarrow>
               (case OnRemoteServiceUpdate c1 c2 (fm_catalogSyncer pm)
                       \<lparr>ServiceID = dg_ServiceID d, OriginPeerID = dg_OriginPeerID d, App = None,
                        Confidence = 0, LastSeen = now, Tombstone = True,
                        VectorClock = dg_VectorClock d\<rparr> of
                  (cs, evs, r) \<Rightarrow> (pm\<lparr>fm_catalogSyncer := cs\<rparr>, evs, r))
           | None \<Rightarrow> (pm, [], Finished)))"

text \<open>\<open>msg_len\<close> is the length of the encoded message, which the document does not show.\<close>

fun take_broadcasts :: "(document \<Rightarrow> int) \<Rightarrow> int \<Rightarrow> int \<Rightarrow> document list \<Rightarrow> document list \<times> document list" where
  "take_broadcasts msg_len overhead limit [] = ([], [])"
| "take_broadcasts msg_len overhead limit (msg # queue) =
     (let msgLen = msg_len msg + overhead in
      if msgLen > limit then take_broadcasts msg_len overhead limit queue
      else if limit - msgLen \<le> 0 then ([msg], queue)
      else (case take_broadcasts msg_len overhead (limit - msgLen) queue of
              (bs, queue') \<Rightarrow> (msg # bs, queue')))"

definition GetBroadcasts ::
  "(document \<Rightarrow> int) \<Rightarrow> peer_manager \<Rightarrow> int \<Rightarrow> int \<Rightarrow> peer_manager \<times> document list" where
  "GetBroadcasts msg_len pm overhead limit =
     (case take_broadcasts msg_len overhead limit (fm_broadcastQueue pm) of
        (bs, queue) \<Rightarrow> (pm\<lparr>fm_broadcastQueue := queue\<rparr>, bs))"

record anti_entropy_state =
  ae_SenderID :: string
  ae_Timestamp :: gotime
  ae_Services :: "fed_service list"
  ae_VectorClock :: clock

definition LocalState :: "conn \<Rightarrow> gotime \<Rightarrow> peer_manager \<Rightarrow> anti_entropy_state option" where
  "LocalState c now pm =
     (case GetAllServices c (fm_catalogSyncer pm) of
        Inl e \<Rightarrow> None
      | Inr services \<Rightarrow>
          Some \<lparr>ae_SenderID = fc_LocalPeerID (fm_config pm), ae_Timestamp = now, ae_Services = services,
                ae_VectorClock = GetLocalVectorClock (fm_catalogSyncer pm)\<rparr>)"

text \<open>An undecodable buffer is \<open>None\<close>; each service comes with the connections of its statements.\<close>

definition MergeRemoteState ::
  "(nat \<Rightarrow> conn \<times> conn) \<Rightarrow> gotime \<Rightarrow> peer_manager \<Rightarrow> anti_entropy_state option
   \<Rightarrow> peer_manager \<times> fed_event list \<times> outcome" where
  "MergeRemoteState cn now pm buf =
     (case buf of
        None \<Rightarrow> (pm, [], Finished)
      | Some state \<Rightarrow>
          if ae_SenderID state = fc_LocalPeerID (fm_config pm) then (pm, [], Finished)
          else
            (let services = map (\<lambda>(n, svc). (fst (cn n), snd (cn n), svc\<lparr>LastSeen := now\<rparr>))
                              (enumerate 0 (ae_Services state))
             in case MergeRemoteServices (fm_catalogSyncer pm) services of
                  (cs, evs, r) \<Rightarrow> (pm\<lparr>fm_catalogSyncer := cs\<rparr>, evs, r)))"

section \<open>Finding the peer that serves an app\<close>

definition getRemoteServiceAddress :: "conn \<Rightarrow> peer_manager option \<Rightarrow> string \<Rightarrow> string option" where
  "getRemoteServiceAddress c peers appID =
     (case peers of
        None \<Rightarrow> None
      | Some pm \<Rightarrow>
          (case GetFederatedCatalog c (fm_catalogSyncer pm) of
             Inl e \<Rightarrow> None
           | Inr services \<Rightarrow>
               (case find (\<lambda>s. ServiceID s = appID) services of
                  None \<Rightarrow> None
                | Some service \<Rightarrow>
                    if OriginPeerID service \<noteq> LocalPeerID pm
                    then (case GetPeerByID pm (OriginPeerID service) of
                            None \<Rightarrow> None
                          | Some peer \<Rightarrow> Some (''http://'' @ peer_Address peer))
                    else None)))"

section \<open>The HTTP handlers\<close>

definition handleRemovePeer :: "conn \<Rightarrow> peer_manager \<Rightarrow> string \<Rightarrow> string \<Rightarrow> peer_manager \<times> peer_event list \<times> int" where
  "handleRemovePeer c pm meth path =
     (if meth \<noteq> ''DELETE'' then (pm, [], 405)
      else let peerID = TrimPrefix path ''/api/v1/federation/peers/'' in
        if peerID = [] then (pm, [], 400)
        else (case RemovePeer c pm peerID of
                (pm', evs, Some e) \<Rightarrow> (pm', evs, 500)
              | (pm', evs, None) \<Rightarrow> (pm', evs, 200)))"

definition handleGetPeer :: "peer_manager \<Rightarrow> string \<Rightarrow> string \<Rightarrow> int + peer_instance" where
  "handleGetPeer pm meth path =
     (if meth \<noteq> ''GET'' then Inl 405
      else let peerID = TrimPrefix path ''/api/v1/federation/peers/'' in
        if peerID = [] then Inl 400
        else (case GetPeerByID pm peerID of None \<Rightarrow> Inl 404 | Some peer \<Rightarrow> Inr peer))"

section \<open>Membership\<close>

lemma get_map_values: "get (map (\<lambda>(i, p). (i, f i p)) m) k = map_option (f k) (get m k)"
  by (induction m) auto

lemma member_map_get:
  "has (member_map pm members) i \<longleftrightarrow> i \<noteq> fc_LocalPeerID (fm_config pm) \<and> i \<in> mb_Name ` set members"
proof -
  have "has (foldl (\<lambda>m member. if mb_Name member \<noteq> l then put (mb_Name member) member m else m) acc members) i
    \<longleftrightarrow> has acc i \<or> (i \<noteq> l \<and> i \<in> mb_Name ` set members)" for acc l
  proof (induction members arbitrary: acc)
    case Nil
    then show ?case by simp
  next
    case (Cons a members)
    show ?case by (auto simp: Cons.IH) (auto simp: has_def get_put split: if_splits)
  qed
  then show ?thesis by (simp add: member_map_def) (simp add: has_def)
qed

lemma wf_member_map: "wf_map (member_map pm members)"
proof -
  have "wf_map acc \<Longrightarrow>
    wf_map (foldl (\<lambda>m member. if mb_Name member \<noteq> l then put (mb_Name member) member m else m) acc members)"
    for acc l by (induction members arbitrary: acc) auto
  then show ?thesis by (simp add: member_map_def)
qed

lemma readd_members:
  assumes "wf_map mm"
  shows "get (fm_peers (fst (foldl (readd_member now) (pm, evs) mm))) i =
           (case get (fm_peers pm) i of Some p \<Rightarrow> Some p | None \<Rightarrow> map_option (peer_of_member now) (get mm i))
         \<and> fm_config (fst (foldl (readd_member now) (pm, evs) mm)) = fm_config pm"
  using assms
proof (induction mm arbitrary: pm evs)
  case Nil
  then show ?case by (simp split: option.split)
next
  case (Cons e mm)
  obtain k m where e: "e = (k, m)" by (cases e)
  from Cons.prems have wf: "wf_map mm" and absent: "get mm k = None" by (auto simp: e dest: wf_map_ConsD)
  obtain pm' evs' where s: "readd_member now (pm, evs) e = (pm', evs')" by (cases "readd_member now (pm, evs) e")
  then have *: "get (fm_peers pm') i =
      (case get (fm_peers pm) i of Some p \<Rightarrow> Some p
       | None \<Rightarrow> if i = k then Some (peer_of_member now m) else None)" "fm_config pm' = fm_config pm"
    by (auto simp: e readd_member_def has_def Let_def get_put split: if_splits option.splits)
  show ?case using Cons.IH [OF wf, of pm' evs'] * absent e s by (auto split: option.splits)
qed

lemma checkPeerHealth_get:
  "get (fm_peers (fst (checkPeerHealth now members pm))) i =
   map_option (\<lambda>p. fst (check_peer now (fm_config pm) (member_map pm members) i p))
     (case get (fm_peers pm) i of Some p \<Rightarrow> Some p
      | None \<Rightarrow> map_option (peer_of_member now) (get (member_map pm members) i))"
proof -
  obtain pm' evs where f: "foldl (readd_member now) (pm, []) (member_map pm members) = (pm', evs)"
    by (cases "foldl (readd_member now) (pm, []) (member_map pm members)")
  from readd_members [where now = now and pm = pm and evs = "[]" and i = i and mm = "member_map pm members",
      OF wf_member_map] f have
    "get (fm_peers pm') i = (case get (fm_peers pm) i of Some p \<Rightarrow> Some p
      | None \<Rightarrow> map_option (peer_of_member now) (get (member_map pm members) i))"
    "fm_config pm' = fm_config pm" by simp_all
  with f show ?thesis by (simp add: checkPeerHealth_def Let_def get_map_values)
qed

text \<open>After a health check every other instance that memberlist reports is known, online and seen
  just now (also one that had been removed); a known peer that is not reported is offline once the
  peer timeout has passed since it was last seen, and unchanged before; nobody else is known.\<close>
theorem checkPeerHealth_status:
  assumes "checkPeerHealth now members pm = (pm', evs)" "i \<noteq> LocalPeerID pm"
  shows "(i \<in> mb_Name ` set members \<longrightarrow>
            (\<exists>p. get (fm_peers pm') i = Some p \<and> peer_Status p = Online \<and> peer_LastSeen p = now))
       \<and> (i \<notin> mb_Name ` set members \<longrightarrow> get (fm_peers pm) i = None \<longrightarrow> get (fm_peers pm') i = None)
       \<and> (\<forall>p. i \<notin> mb_Name ` set members \<longrightarrow> get (fm_peers pm) i = Some p \<longrightarrow>
            (\<exists>p'. get (fm_peers pm') i = Some p' \<and> peer_LastSeen p' = peer_LastSeen p
               \<and> (if now - peer_LastSeen p < fc_PeerTimeout (fm_config pm) then p' = p
                  else peer_Status p' = Offline)))"
proof -
  have g: "get (fm_peers pm') i =
   map_option (\<lambda>p. fst (check_peer now (fm_config pm) (member_map pm members) i p))
     (case get (fm_peers pm) i of Some p \<Rightarrow> Some p
      | None \<Rightarrow> map_option (peer_of_member now) (get (member_map pm members) i))"
    using checkPeerHealth_get [of now members pm i] assms(1) by simp
  have m: "has (member_map pm members) i \<longleftrightarrow> i \<in> mb_Name ` set members"
    using assms(2) by (simp add: member_map_get LocalPeerID_def)
  have c: "fst (check_peer now (fm_config pm) (member_map pm members) i p) =
      (if i \<in> mb_Name ` set members then UpdateLastSeen now (p\<lparr>peer_Status := Online\<rparr>)
       else if now - peer_LastSeen p < fc_PeerTimeout (fm_config pm) then p
       else if peer_Status p = Offline then p else SetStatus now p Offline)" for p
    using assms(2) by (simp add: check_peer_def m LocalPeerID_def IsAlive_def SetStatus_def UpdateLastSeen_def Let_def)
  show ?thesis
  proof (cases "get (fm_peers pm) i")
    case None
    with g c m show ?thesis
      by (cases "get (member_map pm members) i")
         (auto simp: has_def UpdateLastSeen_def SetStatus_def)
  next
    case (Some p)
    with g c show ?thesis by (auto simp: UpdateLastSeen_def SetStatus_def)
  qed
qed

definition fed_cfg :: fed_config where
  "fed_cfg = \<lparr>fc_LocalPeerID = ''a'', fc_LocalPeerName = ''A'', fc_APIAddress = ''10.0.0.1'', fc_GossipBindAddr = [],
     fc_GossipBindPort = 0, fc_GossipAdvertiseAddr = [], fc_GossipAdvertisePort = 0,
     fc_ClusterSecret = replicate 32 (CHR ''s''), fc_MDNSEnabled = False, fc_MDNSServiceName = [],
     fc_BootstrapPeers = [], fc_FullSyncInterval = 0, fc_AntiEntropyPeriod = 0, fc_PeerTimeout = 0,
     fc_AllowRemoteRoutes = False\<rparr>"

definition fed_pm :: peer_manager where
  "fed_pm = (case NewPeerManager fed_cfg (Some \<lparr>ft_peers = [], ft_services = []\<rparr>) True of
     Inr pm \<Rightarrow> fst (NotifyJoin fed_conn 1 (StartWiring pm)
                      \<lparr>mb_Name = ''b'', mb_Addr = ''10.0.0.2'', mb_AddrPort = ''10.0.0.2:7946''\<rparr>)
   | Inl e \<Rightarrow> undefined)"

theorem checkPeerHealth_status_witness:
  "\<exists>p. get (fm_peers (fst (checkPeerHealth (40 * second) [] fed_pm))) ''b'' = Some p \<and> peer_Status p = Offline"
proof -
  obtain pm' evs where r: "checkPeerHealth (40 * second) [] fed_pm = (pm', evs)"
    by (cases "checkPeerHealth (40 * second) [] fed_pm")
  have n: "''b'' \<noteq> LocalPeerID fed_pm" by code_simp
  have "case get (fm_peers fed_pm) ''b'' of None \<Rightarrow> False
        | Some p \<Rightarrow> 40 * second - peer_LastSeen p \<ge> fc_PeerTimeout (fm_config fed_pm)" by code_simp
  then obtain p where p: "get (fm_peers fed_pm) ''b'' = Some p"
      "\<not> 40 * second - peer_LastSeen p < fc_PeerTimeout (fm_config fed_pm)"
    by (auto split: option.splits)
  from checkPeerHealth_status [OF r n] p r show ?thesis by auto
qed

section \<open>Receiving versions\<close>

text \<open>What reading back a stored service gives.\<close>

definition as_stored :: "fed_service \<Rightarrow> fed_service" where
  "as_stored s = s\<lparr>App := Some (case App s of None \<Rightarrow> zero_app | Some a \<Rightarrow> a),
                   Confidence := (if Confidence s = 0 then 1 else Confidence s)\<rparr>"

text \<open>The connection can store services of this origin.\<close>

definition can_store :: "conn \<Rightarrow> fed_store \<Rightarrow> string \<Rightarrow> bool" where
  "can_store c st origin \<longleftrightarrow> cn_ok c \<and> (cn_fk c \<longrightarrow> has (ft_peers st) origin)"

text \<open>The table holds this version of a service.\<close>

definition holds :: "fed_store \<Rightarrow> string \<Rightarrow> fed_service \<Rightarrow> bool" where
  "holds st i s = (case get (ft_services st) i of None \<Rightarrow> False
     | Some r \<Rightarrow> sr_tombstone r = (if Tombstone s then 1 else 0) \<and> federatedServiceFromStorage i r = s)"

lemma save_service:
  assumes "can_store c st (OriginPeerID s)"
  obtains st' where "saveFederatedServiceToStorage c st s = Inr st'" "ft_peers st' = ft_peers st"
    "wf_map (ft_services st) \<longrightarrow> wf_map (ft_services st')" "holds st' (ServiceID s) (as_stored s)"
proof -
  obtain r where r: "saveFederatedServiceToStorage c st s = Inr (st\<lparr>ft_services := put (ServiceID s) r (ft_services st)\<rparr>)"
    and m: "sr_origin_peer_id r = OriginPeerID s" "sr_app_data r = App s" "sr_confidence r = (if Confidence s = 0 then 1 else Confidence s)"
      "sr_last_seen r = LastSeen s" "sr_tombstone r = (if Tombstone s then 1 else 0)" "sr_vector_clock r = VectorClock s"
  proof (rule that)
    show "saveFederatedServiceToStorage c st s = Inr (st\<lparr>ft_services := put (ServiceID s)
        \<lparr>sr_origin_peer_id = OriginPeerID s, sr_app_data = App s, sr_confidence = (if Confidence s = 0 then 1 else Confidence s),
         sr_last_seen = LastSeen s, sr_tombstone = (if Tombstone s then 1 else 0), sr_vector_clock = VectorClock s,
         sr_created_at = (case get (ft_services st) (ServiceID s) of Some r \<Rightarrow> sr_created_at r | None \<Rightarrow> cn_now c),
         sr_updated_at = cn_now c\<rparr> (ft_services st)\<rparr>)"
      using assms by (simp add: can_store_def saveFederatedServiceToStorage_def SaveFederatedService_def Let_def)
  qed simp_all
  have "federatedServiceFromStorage (ServiceID s) r = as_stored s"
    by (cases s) (simp add: federatedServiceFromStorage_def as_stored_def m)
  moreover have "Tombstone (as_stored s) = Tombstone s" by (simp add: as_stored_def)
  ultimately show ?thesis by (intro that [OF r]) (simp_all add: holds_def get_put m)
qed

lemma as_stored_simps [simp]:
  "OriginPeerID (as_stored s) = OriginPeerID s" "Tombstone (as_stored s) = Tombstone s"
  "ServiceID (as_stored s) = ServiceID s" "VectorClock (as_stored s) = VectorClock s"
  by (simp_all add: as_stored_def)

lemma holds_origin: "holds st i s \<Longrightarrow> get (ft_services st) i = Some r \<Longrightarrow> sr_origin_peer_id r = OriginPeerID s"
  by (auto simp: holds_def federatedServiceFromStorage_def)

lemma holds_stored:
  "cs_storage cs = Some st \<Longrightarrow> holds st i s \<Longrightarrow> cn_ok c \<Longrightarrow> stored_service c cs i = Some s"
  by (auto simp: holds_def stored_service_def GetFederatedService_def split: option.splits)

lemma catalog_holds:
  assumes "cs_storage cs = Some st" "cn_ok c" "wf_map (ft_services st)" "holds st i s"
  shows "\<exists>services. GetFederatedCatalog c cs = Inr services
    \<and> filter (\<lambda>s'. ServiceID s' = i) services = (if Tombstone s then [] else [s])"
proof -
  let ?P = "\<lambda>(i, r). sr_tombstone r = 0"
  let ?f = "\<lambda>(i, r). federatedServiceFromStorage i r"
  from assms(4) obtain r where r: "get (ft_services st) i = Some r" "s = federatedServiceFromStorage i r"
      "sr_tombstone r = (if Tombstone s then 1 else 0)"
    by (auto simp: holds_def split: option.splits)
  have ids: "filter (\<lambda>s'. ServiceID s' = i) (map ?f xs) = map ?f (filter (\<lambda>e. fst e = i) xs)" for xs
    by (induction xs) (auto simp: federatedServiceFromStorage_def)
  have one: "filter (\<lambda>e. fst e = i) m = (case get m i of None \<Rightarrow> [] | Some r \<Rightarrow> [(i, r)])"
    if "wf_map m" for m :: "(string, service_row) gomap"
    using that
  proof (induction m)
    case (Cons e m)
    then show ?case by (cases e) (auto dest: wf_map_ConsD split: option.splits)
  qed simp
  have "filter (\<lambda>e. fst e = i) (sort_key fst (filter ?P (ft_services st)))
      = sort_key fst (filter (\<lambda>e. fst e = i) (filter ?P (ft_services st)))"
    by (simp add: filter_sort)
  also have "\<dots> = (if Tombstone s then [] else [(i, r)])"
    using one [OF wf_map_filter [OF assms(3)], of ?P] r(1,3) by (simp add: get_filter [OF assms(3)])
  finally show ?thesis
    using assms(1,2) r(2) by (simp add: GetFederatedCatalog_def ListActiveFederatedServices_def ids)
qed

text \<open>A peer that does not own a service takes whatever version it is sent.\<close>

lemma accept_remote_foreign:
  assumes "cs_storage cs = Some st" "cs_vectorClock cs = Some m" "wf_map (ft_services st)"
    and "can_store c2 st (OriginPeerID s)" "OriginPeerID s \<noteq> cs_localPeerID cs"
    and "\<And>l. stored_service c1 cs (ServiceID s) = Some l \<Longrightarrow> OriginPeerID l = OriginPeerID s"
  obtains cs' st' m' where "accept_remote c1 c2 cs s =
      (cs', if cs_eventCallback cs then [if Tombstone s then ServiceRemoved s else ServiceAdded s] else [], Finished)"
    "cs_storage cs' = Some st'" "cs_vectorClock cs' = Some m'" "wf_map (ft_services st')"
    "ft_peers st' = ft_peers st" "holds st' (ServiceID s) (as_stored s)"
    "cs_localPeerID cs' = cs_localPeerID cs"
proof -
  have r: "ResolveConflict (stored_service c1 cs (ServiceID s)) (Some s) (cs_localPeerID cs) = Some RemoteWins"
    using assms(5,6) by (auto simp: ResolveConflict_def split: option.splits)
  obtain st' where st': "saveFederatedServiceToStorage c2 st s = Inr st'" "ft_peers st' = ft_peers st"
    "wf_map (ft_services st) \<longrightarrow> wf_map (ft_services st')" "holds st' (ServiceID s) (as_stored s)"
    using save_service [OF assms(4)] by blast
  obtain m' where m': "MergeClock (Some m) (VectorClock s) = Some (Some m')"
    using MergeClock_Some by blast
  show ?thesis
    by (rule that [of "cs\<lparr>cs_storage := Some st', cs_vectorClock := Some m'\<rparr>" st' m'])
       (use assms(1-3) r st' m' in \<open>simp_all add: accept_remote_def\<close>)
qed

definition deliver :: "conn \<Rightarrow> syncer \<Rightarrow> fed_service \<Rightarrow> syncer" where
  "deliver c cs s = fst (OnRemoteServiceUpdate c c cs s)"

text \<open>A peer that does not own a service ends up with the version that arrived last, not with
  the latest one: whatever vector clocks, time stamps and deletion marks a sequence of versions
  from the owner carries, after receiving them the catalog holds the last of the sequence, and
  lists the service exactly when that one is no tombstone.\<close>
theorem last_received_version_wins:
  assumes "vs \<noteq> []" "\<forall>s \<in> set vs. ServiceID s = i \<and> OriginPeerID s = origin"
    and "origin \<noteq> cs_localPeerID cs" "cs_vectorClock cs = Some m"
    and "cs_storage cs = Some st" "wf_map (ft_services st)" "can_store c st origin"
    and "\<forall>r. get (ft_services st) i = Some r \<longrightarrow> sr_origin_peer_id r = origin"
  shows "stored_service c (foldl (deliver c) cs vs) i = Some (as_stored (last vs))
       \<and> (\<exists>services. GetFederatedCatalog c (foldl (deliver c) cs vs) = Inr services
            \<and> filter (\<lambda>s. ServiceID s = i) services = (if Tombstone (last vs) then [] else [as_stored (last vs)]))"
  using assms
proof (induction vs arbitrary: cs st m)
  case Nil
  then show ?case by simp
next
  case (Cons s vs)
  have s: "ServiceID s = i" "OriginPeerID s = origin" using Cons.prems(2) by auto
  have ok: "cn_ok c" using Cons.prems(7) by (simp add: can_store_def)
  have o: "OriginPeerID l = OriginPeerID s" if "stored_service c cs (ServiceID s) = Some l" for l
    using that Cons.prems(8) s ok \<open>cs_storage cs = Some st\<close>
    by (auto simp: stored_service_def GetFederatedService_def federatedServiceFromStorage_def split: option.splits)
  have cst: "can_store c st (OriginPeerID s)" and foreign: "OriginPeerID s \<noteq> cs_localPeerID cs"
    using Cons.prems(3,7) s by simp_all
  obtain cs' st' m' where a: "deliver c cs s = cs'" "cs_storage cs' = Some st'" "cs_vectorClock cs' = Some m'"
      "wf_map (ft_services st')" "ft_peers st' = ft_peers st" "holds st' i (as_stored s)"
      "cs_localPeerID cs' = cs_localPeerID cs"
    by (rule accept_remote_foreign [OF Cons.prems(5,4,6) cst foreign o])
       (auto simp: deliver_def OnRemoteServiceUpdate_def s)
  show ?case
  proof (cases "vs = []")
    case True
    have "stored_service c cs' i = Some (as_stored s)"
      by (rule holds_stored [OF a(2,6) ok])
    moreover have "Tombstone (as_stored s) = Tombstone s" by (simp add: as_stored_def)
    ultimately show ?thesis using catalog_holds [OF a(2) ok a(4,6)] a(1) True by (auto split: if_splits)
  next
    case False
    have o': "\<forall>r. get (ft_services st') i = Some r \<longrightarrow> sr_origin_peer_id r = origin"
      using holds_origin [OF a(6)] s(2) by simp
    have cst': "can_store c st' origin" using Cons.prems(7) a(5) by (simp add: can_store_def)
    have vs: "\<forall>s \<in> set vs. ServiceID s = i \<and> OriginPeerID s = origin" using Cons.prems(2) by simp
    have foreign': "origin \<noteq> cs_localPeerID cs'" using Cons.prems(3) a(7) by simp
    have l: "last (s # vs) = last vs" using False by simp
    from Cons.IH [OF False vs foreign' a(3,2,4) cst' o'] show ?thesis by (simp only: foldl_Cons a(1) l)
  qed
qed


definition fed_old :: fed_service where
  "fed_old = \<lparr>ServiceID = ''wiki'', OriginPeerID = ''b'', App = Some zero_app, Confidence = 1, LastSeen = 7,
     Tombstone = False, VectorClock = Some [(''b'', 3)]\<rparr>"

definition fed_deleted :: fed_service where
  "fed_deleted = fed_old\<lparr>Tombstone := True, LastSeen := 9, VectorClock := Some [(''b'', 4)]\<rparr>"

text \<open>A deletion (clock 4) followed by a stale copy of the service (clock 3): the service is back.\<close>

theorem last_received_version_wins_witness:
  "CompareClock (VectorClock fed_deleted) (VectorClock fed_old) = 1
   \<and> stored_service fed_conn (foldl (deliver fed_conn) fed_syncer [fed_deleted, fed_old]) ''wiki'' = Some (as_stored fed_old)
   \<and> \<not> Tombstone (as_stored fed_old)"
proof -
  have h: "\<forall>s \<in> set [fed_deleted, fed_old]. ServiceID s = ''wiki'' \<and> OriginPeerID s = ''b''"
    "''b'' \<noteq> cs_localPeerID fed_syncer" "cs_vectorClock fed_syncer = Some []"
    "cs_storage fed_syncer = Some fed_tables" "wf_map (ft_services fed_tables)"
    "can_store fed_conn fed_tables ''b''"
    by code_simp+
  have r: "\<forall>r. get (ft_services fed_tables) ''wiki'' = Some r \<longrightarrow> sr_origin_peer_id r = ''b''"
    by (simp add: fed_tables_def)
  have "CompareClock (VectorClock fed_deleted) (VectorClock fed_old) = 1 \<and> \<not> Tombstone (as_stored fed_old)"
    by code_simp
  with last_received_version_wins [OF _ h r] show ?thesis by simp
qed

text \<open>A deletion does not reach the other peers as a deletion.  The message \<open>OnLocalServiceDeleted\<close>
  broadcasts also decodes as an update, which \<open>NotifyMsg\<close> tries first; so a peer that receives it
  announces the service as added and its catalog lists it, alive and with an empty app, where it
  should have stored a tombstone.\<close>
theorem deletion_arrives_as_update:
  assumes "OnLocalServiceDeleted c1 c2 t csA i = (csA', [msg])"
    and "cs_localPeerID csA \<noteq> cs_localPeerID (fm_catalogSyncer pm)"
    and "cs_vectorClock (fm_catalogSyncer pm) = Some m" "cs_storage (fm_catalogSyncer pm) = Some st"
    and "wf_map (ft_services st)" "can_store d2 st (cs_localPeerID csA)"
    and "\<forall>r. get (ft_services st) i = Some r \<longrightarrow> sr_origin_peer_id r = cs_localPeerID csA" "cn_ok d3"
  shows "\<exists>pm' s services. NotifyMsg d1 d2 now pm msg =
            (pm', if cs_eventCallback (fm_catalogSyncer pm) then [ServiceAdded s] else [], Finished)
         \<and> ServiceID s = i \<and> OriginPeerID s = cs_localPeerID csA \<and> \<not> Tombstone s
         \<and> GetFederatedCatalog d3 (fm_catalogSyncer pm') = Inr services
         \<and> filter (\<lambda>s'. ServiceID s' = i) services = [as_stored s]
         \<and> App (as_stored s) = Some zero_app"
proof -
  let ?s = "\<lparr>ServiceID = i, OriginPeerID = cs_localPeerID csA, App = None, Confidence = 0,
             LastSeen = now, Tombstone = False,
             VectorClock = CopyClock (Increment (cs_vectorClock csA) (cs_localPeerID csA))\<rparr>"
  let ?B = "fm_catalogSyncer pm"
  obtain app vc where msg: "msg = delete_message \<lparr>ServiceID = i, OriginPeerID = cs_localPeerID csA, App = app,
        Confidence = 0, LastSeen = t, Tombstone = True, VectorClock = vc\<rparr>"
      "vc = CopyClock (Increment (cs_vectorClock csA) (cs_localPeerID csA))"
    using assms(1)
    by (auto simp: OnLocalServiceDeleted_def Let_def broadcastServiceDelete_def split: if_splits)
  then have u: "unmarshal_update msg = Some \<lparr>um_ServiceID = i, um_OriginPeerID = cs_localPeerID csA, um_App = None,
        um_Confidence = 0, um_VectorClock = vc, um_Tombstone = False\<rparr>"
    by (simp add: unmarshal_update_def delete_message_def scalar_field_def)
  have o: "OriginPeerID l = OriginPeerID ?s" if "stored_service d1 ?B (ServiceID ?s) = Some l" for l
    using that assms(4,7)
    by (auto simp: stored_service_def GetFederatedService_def federatedServiceFromStorage_def
        split: option.splits sum.splits if_splits)
  have cst: "can_store d2 st (OriginPeerID ?s)" and foreign: "OriginPeerID ?s \<noteq> cs_localPeerID ?B"
    using assms(2,6) by simp_all
  obtain cs' st' where a: "accept_remote d1 d2 ?B ?s =
       (cs', if cs_eventCallback ?B then [if Tombstone ?s then ServiceRemoved ?s else ServiceAdded ?s] else [], Finished)"
      "cs_storage cs' = Some st'" "wf_map (ft_services st')" "holds st' (ServiceID ?s) (as_stored ?s)"
    by (rule accept_remote_foreign [OF assms(4,3,5) cst foreign o]) simp_all
  have n: "NotifyMsg d1 d2 now pm msg = (pm\<lparr>fm_catalogSyncer := cs'\<rparr>,
      if cs_eventCallback ?B then [ServiceAdded ?s] else [], Finished)"
    using a(1) msg(2) by (simp add: NotifyMsg_def u OnRemoteServiceUpdate_def)
  have "\<exists>services. GetFederatedCatalog d3 cs' = Inr services
      \<and> filter (\<lambda>s'. ServiceID s' = i) services = [as_stored ?s]"
    using catalog_holds [OF a(2) assms(8) a(3,4)] by (simp add: as_stored_def)
  then obtain services where "GetFederatedCatalog d3 cs' = Inr services"
      "filter (\<lambda>s'. ServiceID s' = i) services = [as_stored ?s]" by blast
  then show ?thesis
    by (intro exI [of _ "pm\<lparr>fm_catalogSyncer := cs'\<rparr>"] exI [of _ ?s] exI [of _ services])
       (use n in \<open>simp_all add: as_stored_def\<close>)
qed

definition fed_peer_b :: syncer where
  "fed_peer_b = SetBroadcastFunc (NewCatalogSyncer ''b'' None)"

theorem deletion_arrives_as_update_witness:
  "\<exists>pm' s services. NotifyMsg fed_conn fed_conn 20 fed_pm
      (hd (snd (OnLocalServiceDeleted fed_conn fed_conn 9 fed_peer_b ''wiki'')))
        = (pm', [ServiceAdded s], Finished)
     \<and> GetFederatedCatalog fed_conn (fm_catalogSyncer pm') = Inr services
     \<and> filter (\<lambda>s'. ServiceID s' = ''wiki'') services = [as_stored s]"
proof -
  let ?r = "OnLocalServiceDeleted fed_conn fed_conn 9 fed_peer_b ''wiki''"
  have "snd ?r = [hd (snd ?r)]" by code_simp
  then have r: "?r = (fst ?r, [hd (snd ?r)])" by (metis prod.collapse)
  let ?st = "the (cs_storage (fm_catalogSyncer fed_pm))"
  have h: "cs_localPeerID fed_peer_b \<noteq> cs_localPeerID (fm_catalogSyncer fed_pm)"
    "cs_vectorClock (fm_catalogSyncer fed_pm) = Some []" "cs_storage (fm_catalogSyncer fed_pm) = Some ?st"
    "wf_map (ft_services ?st)" "can_store fed_conn ?st (cs_localPeerID fed_peer_b)"
    "get (ft_services ?st) ''wiki'' = None" "cn_ok fed_conn" "cs_eventCallback (fm_catalogSyncer fed_pm)"
    by code_simp+
  have o: "\<forall>r. get (ft_services ?st) ''wiki'' = Some r \<longrightarrow> sr_origin_peer_id r = cs_localPeerID fed_peer_b"
    using h(6) by simp
  show ?thesis
    using deletion_arrives_as_update [OF r h(1-5) o h(7), of fed_conn 20] h(8) by simp blast
qed


section \<open>Foreign keys and the local peer\<close>

text \<open>The states of a peer manager whose database connections enforce foreign keys: \<open>NotifyJoin\<close> is the
  only way into the peer table, and it skips the local instance.\<close>

inductive pm_reach :: "fed_config \<Rightarrow> peer_manager \<Rightarrow> bool" for config where
  created: "NewPeerManager config (Some \<lparr>ft_peers = [], ft_services = []\<rparr>) ev = Inr pm \<Longrightarrow> pm_reach config (StartWiring pm)"
| joined: "pm_reach config pm \<Longrightarrow> pm_reach config (fst (NotifyJoin c now pm node))"
| left: "pm_reach config pm \<Longrightarrow> pm_reach config (fst (NotifyLeave c pm node))"
| updated: "pm_reach config pm \<Longrightarrow> pm_reach config (NotifyUpdate now pm node)"
| checked: "pm_reach config pm \<Longrightarrow> pm_reach config (fst (checkPeerHealth now members pm))"
| received: "pm_reach config pm \<Longrightarrow> cn_fk c2 \<Longrightarrow> pm_reach config (fst (NotifyMsg c1 c2 now pm msg))"
| merged: "pm_reach config pm \<Longrightarrow> \<forall>n. cn_fk (snd (cn n)) \<Longrightarrow> pm_reach config (fst (MergeRemoteState cn now pm buf))"
| registered: "pm_reach config pm \<Longrightarrow> cn_fk c \<Longrightarrow> pm_reach config (AppRegistered c now pm a)"
| removed: "pm_reach config pm \<Longrightarrow> cn_fk c2 \<Longrightarrow> pm_reach config (AppRemoved c1 c2 now pm i)"
| sent: "pm_reach config pm \<Longrightarrow> pm_reach config (fst (GetBroadcasts msg_len pm overhead limit))"

definition unowned_store :: "string \<Rightarrow> fed_store \<Rightarrow> bool" where
  "unowned_store l st \<longleftrightarrow> \<not> has (ft_peers st) l \<and> (\<forall>(i, r) \<in> set (ft_services st). sr_origin_peer_id r \<noteq> l)"

definition unowned :: "string \<Rightarrow> syncer \<Rightarrow> bool" where
  "unowned l cs \<longleftrightarrow> cs_localPeerID cs = l \<and> (\<exists>st. cs_storage cs = Some st \<and> unowned_store l st)"

lemma set_put: "set (put k v m) \<subseteq> insert (k, v) (set m)"
  by (induction m) auto

lemma save_unowned:
  "unowned_store l st \<Longrightarrow> cn_fk c \<Longrightarrow> saveFederatedServiceToStorage c st s = Inr st' \<Longrightarrow> unowned_store l st'"
  using set_put [of "ServiceID s" _ "ft_services st"]
  by (fastforce simp: saveFederatedServiceToStorage_def SaveFederatedService_def Let_def unowned_store_def
      split: if_splits)

lemma save_own_fails:
  "unowned_store (OriginPeerID s) st \<Longrightarrow> cn_fk c \<Longrightarrow> \<exists>e. saveFederatedServiceToStorage c st s = Inl e"
  by (simp add: saveFederatedServiceToStorage_def SaveFederatedService_def Let_def unowned_store_def)

lemma accept_unowned:
  assumes "unowned l cs" "cn_fk c2" shows "unowned l (fst (accept_remote c1 c2 cs rem))"
proof -
  from assms(1) obtain st where st: "cs_storage cs = Some st" "unowned_store l st" "cs_localPeerID cs = l"
    by (auto simp: unowned_def)
  from save_unowned [OF st(2) assms(2), of rem] st assms(1) show ?thesis
    by (auto simp: accept_remote_def unowned_def split: option.split winner.split sum.split)
qed

lemma merge_unowned:
  "unowned l cs \<Longrightarrow> \<forall>(c1, c2, s) \<in> set services. cn_fk c2 \<Longrightarrow> unowned l (fst (MergeRemoteServices cs services))"
proof (induction cs services rule: MergeRemoteServices.induct)
  case (1 cs)
  then show ?case by simp
next
  case (2 cs c1 c2 rem services)
  from 2(5) have fk: "cn_fk c2" and fks: "\<forall>(c1, c2, s) \<in> set services. cn_fk c2" by auto
  show ?case
  proof (cases "OriginPeerID rem = cs_localPeerID cs")
    case True
    with 2(1) 2(4) fks show ?thesis by simp
  next
    case False
    obtain cs' ev r where a: "accept_remote c1 c2 cs rem = (cs', ev, r)" by (metis prod_cases3)
    with accept_unowned [OF 2(4) fk, of c1 rem] have u: "unowned l cs'" by simp
    have "unowned l (fst (MergeRemoteServices cs' services))" if "r \<noteq> Panicked"
      by (cases r) (use that u fks 2(2,3) [OF False a [symmetric] refl] in auto)
    with a u False show ?thesis by (cases r) (auto split: prod.splits)
  qed
qed

lemma save_quietly_unowned:
  assumes "unowned l cs" "cn_fk c" "OriginPeerID s = l" shows "save_quietly_service c cs s = cs"
proof -
  from assms(1) obtain st where st: "cs_storage cs = Some st" "unowned_store l st" by (auto simp: unowned_def)
  with save_own_fails [of s st c] assms(2,3) show ?thesis by (auto simp: save_quietly_service_def)
qed

lemma unowned_clock [simp]: "unowned l (cs\<lparr>cs_vectorClock := v\<rparr>) \<longleftrightarrow> unowned l cs"
  by (simp add: unowned_def)

lemma local_change_syncer [simp]:
  "fm_catalogSyncer (local_change pm r) = fst r" "fm_config (local_change pm r) = fm_config pm"
proof -
  have "fm_catalogSyncer (foldl broadcastCatalogMessage pm' docs) = fm_catalogSyncer pm' \<and>
        fm_config (foldl broadcastCatalogMessage pm' docs) = fm_config pm'" for pm' docs
    by (induction docs arbitrary: pm') (auto simp: broadcastCatalogMessage_def)
  then show "fm_catalogSyncer (local_change pm r) = fst r" "fm_config (local_change pm r) = fm_config pm"
    by (simp_all add: local_change_def split: prod.split)
qed

text \<open>On such a connection a local change moves the clock and nothing else.\<close>

lemma local_changes_not_stored:
  assumes "unowned l cs"
  shows "cn_fk c \<Longrightarrow> fst (OnLocalServiceAdded c now cs a) = cs\<lparr>cs_vectorClock := Increment (cs_vectorClock cs) l\<rparr>"
    and "cn_fk c2 \<Longrightarrow> fst (OnLocalServiceDeleted c1 c2 now cs i) = cs\<lparr>cs_vectorClock := Increment (cs_vectorClock cs) l\<rparr>"
proof -
  have l: "cs_localPeerID cs = l" using assms by (simp add: unowned_def)
  let ?cs1 = "cs\<lparr>cs_vectorClock := Increment (cs_vectorClock cs) l\<rparr>"
  have u: "unowned l ?cs1" using assms by simp
  show "fst (OnLocalServiceAdded c now cs a) = ?cs1" if "cn_fk c"
    using save_quietly_unowned [OF u that] l by (simp add: OnLocalServiceAdded_def Let_def)
  show "fst (OnLocalServiceDeleted c1 c2 now cs i) = ?cs1" if "cn_fk c2"
    using save_quietly_unowned [OF u that] l by (simp add: OnLocalServiceDeleted_def Let_def)
qed


lemma store_quietly_unowned:
  assumes "unowned l (fm_catalogSyncer pm)" "\<And>st st'. unowned_store l st \<Longrightarrow> f st = Inr st' \<Longrightarrow> unowned_store l st'"
  shows "unowned l (fm_catalogSyncer (store_quietly f pm))"
  using assms by (auto simp: store_quietly_def unowned_def split: option.split sum.split)

lemma store_quietly_config [simp]: "fm_config (store_quietly f pm) = fm_config pm"
  by (simp add: store_quietly_def split: option.split sum.split)

lemma SavePeer_unowned:
  "unowned_store l st \<Longrightarrow> i \<noteq> l \<Longrightarrow> SavePeer c st i p = Inr st' \<Longrightarrow> unowned_store l st'"
  by (auto simp: SavePeer_def unowned_store_def has_def get_put split: if_splits)

lemma DeletePeer_unowned: "unowned_store l st \<Longrightarrow> DeletePeer c st i = Inr st' \<Longrightarrow> unowned_store l st'"
  by (auto simp: DeletePeer_def unowned_store_def has_def get_del del_if_def split: if_splits)

lemma readd_syncer:
  "fm_catalogSyncer (fst (foldl (readd_member now) (pm, evs) mm)) = fm_catalogSyncer pm \<and>
   fm_config (fst (foldl (readd_member now) (pm, evs) mm)) = fm_config pm"
proof (induction mm arbitrary: pm evs)
  case (Cons e mm)
  obtain pm' evs' where "readd_member now (pm, evs) e = (pm', evs')" by (cases "readd_member now (pm, evs) e")
  moreover from this have "fm_catalogSyncer pm' = fm_catalogSyncer pm" "fm_config pm' = fm_config pm"
    by (auto simp: readd_member_def Let_def split: prod.splits if_splits)
  ultimately show ?case using Cons.IH [of pm' evs'] by simp
qed simp

lemma pm_reach_unowned:
  "pm_reach config pm \<Longrightarrow> unowned (LocalPeerID pm) (fm_catalogSyncer pm)"
proof (induction rule: pm_reach.induct)
  case (created ev pm)
  then show ?case
    by (auto simp: NewPeerManager_def Let_def StartWiring_def LocalPeerID_def unowned_def SetBroadcastFunc_def
        SetEventCallback_def NewCatalogSyncer_def unowned_store_def has_def split: option.splits if_splits)
next
  case (joined pm c now node)
  let ?l = "LocalPeerID pm"
  show ?case
  proof (cases "mb_Name node = ?l \<or> get (fm_peers pm) (mb_Name node) \<noteq> None")
    case True
    with joined show ?thesis
      by (auto simp: NotifyJoin_def AddPeer_def LocalPeerID_def peer_of_member_def NewPeerInstance_def split: option.splits)
  next
    case False
    then have "unowned ?l (fm_catalogSyncer (store_quietly (\<lambda>st. SavePeer c st (mb_Name node) p)
        (pm\<lparr>fm_peers := put (mb_Name node) q (fm_peers pm)\<rparr>)))" for p q
      by (intro store_quietly_unowned) (use joined.IH in \<open>auto intro: SavePeer_unowned\<close>)
    with False show ?thesis
      by (simp add: NotifyJoin_def AddPeer_def LocalPeerID_def peer_of_member_def NewPeerInstance_def)
  qed
next
  case (left pm c node)
  have "unowned (LocalPeerID pm) (fm_catalogSyncer (store_quietly (\<lambda>st. DeletePeer c st (mb_Name node))
      (pm\<lparr>fm_peers := q\<rparr>)))" for q
    by (rule store_quietly_unowned) (use left.IH in \<open>auto intro: DeletePeer_unowned\<close>)
  with left.IH show ?case
    by (auto simp: NotifyLeave_def RemovePeer_def LocalPeerID_def split: option.split)
next
  case (updated pm now node)
  then show ?case by (simp add: NotifyUpdate_def LocalPeerID_def Let_def split: option.split)
next
  case (checked pm now members)
  from readd_syncer [of now pm "[]" "member_map pm members"] checked.IH show ?case
    by (simp add: checkPeerHealth_def Let_def LocalPeerID_def split_beta)
next
  case (received pm c2 c1 now msg)
  from accept_unowned [OF received.IH received.hyps(2), of c1] received.IH show ?case
    by (auto simp: NotifyMsg_def OnRemoteServiceUpdate_def LocalPeerID_def split_beta split: option.split)
next
  case (merged pm cn now buf)
  have "unowned (LocalPeerID pm) (fst (MergeRemoteServices (fm_catalogSyncer pm)
      (map (\<lambda>(n, svc). (fst (cn n), snd (cn n), svc\<lparr>LastSeen := now\<rparr>)) (enumerate 0 ss))))" for ss
    by (rule merge_unowned [OF merged.IH]) (use merged.hyps in auto)
  with merged.IH show ?case
    by (auto simp: MergeRemoteState_def LocalPeerID_def Let_def split_beta split: option.split)
next
  case (registered pm c now a)
  then show ?case
    by (simp add: AppRegistered_def LocalPeerID_def local_changes_not_stored(1) [where l = "fc_LocalPeerID (fm_config pm)"])
next
  case (removed pm c2 c1 now i)
  then show ?case
    by (simp add: AppRemoved_def LocalPeerID_def local_changes_not_stored(2) [where l = "fc_LocalPeerID (fm_config pm)"])
next
  case (sent pm msg_len overhead limit)
  then show ?case by (simp add: GetBroadcasts_def LocalPeerID_def split: prod.split)
qed



definition fed_pm0 :: peer_manager where
  "fed_pm0 = (case NewPeerManager fed_cfg (Some \<lparr>ft_peers = [], ft_services = []\<rparr>) True of Inr pm \<Rightarrow> pm | Inl e \<Rightarrow> undefined)"

definition fed_pm1 :: peer_manager where
  "fed_pm1 = fst (NotifyMsg fed_conn fed_conn 3
     (fst (NotifyJoin fed_conn 1 (StartWiring fed_pm0)
        \<lparr>mb_Name = ''b'', mb_Addr = ''10.0.0.2'', mb_AddrPort = ''10.0.0.2:7946''\<rparr>))
     (update_message fed_old))"

lemma fed_pm1_reach: "pm_reach fed_cfg fed_pm1"
proof -
  have "NewPeerManager fed_cfg (Some \<lparr>ft_peers = [], ft_services = []\<rparr>) True = Inr fed_pm0" by code_simp
  moreover have "cn_fk fed_conn" by code_simp
  ultimately show ?thesis unfolding fed_pm1_def by (intro received joined created)
qed


end
