(* ===== verification/Topics.thy ===== *)
theory Topics
  imports Prelude
begin

text \<open>
  \<open>internal/websocket/topics.go\<close>: matching message topics against subscription patterns with the
  wildcards \<open>+\<close> (one level) and \<open>#\<close> (any number of levels, last), and the validation of topics and
  patterns.  The specification of matching is an inductive relation on the levels.
\<close>

section \<open>Matching\<close>

text \<open>The two indices of the code run over the lists; here the lists themselves shrink.\<close>

fun matchParts :: "string list \<Rightarrow> string list \<Rightarrow> bool" where
  "matchParts [] topic = (topic = [])"
| "matchParts (pp # pattern) topic =
     (if pp = ''#'' then pattern = []
      else (case topic of
              [] \<Rightarrow> False
            | tp # topic' \<Rightarrow>
                if pp = ''+'' then matchParts pattern topic'
                else if pp \<noteq> tp then False
                else matchParts pattern topic'))"

definition MatchTopic :: "string \<Rightarrow> string \<Rightarrow> bool" where
  "MatchTopic pattern topic =
     (if pattern = [] \<or> topic = [] then False
      else if pattern = ''#'' then True
      else matchParts (Split (CHR ''.'') pattern) (Split (CHR ''.'') topic))"

definition MatchesAnyTopic :: "string list \<Rightarrow> string \<Rightarrow> bool" where
  "MatchesAnyTopic patterns topic \<longleftrightarrow> list_ex (\<lambda>pattern. MatchTopic pattern topic) patterns"

section \<open>Validation\<close>

datatype topic_error =
    ErrEmptyTopic | ErrEmptyPattern | ErrInvalidTopic | ErrInvalidPattern | ErrHashNotAtEnd
  | ErrInvalidWildcard | ErrInvalidCharInTopic | ErrTopicRequired | ErrPatternRequired

definition topic_spaces :: string where
  "topic_spaces = [CHR '' '', char_of (9::nat), char_of (10::nat), char_of (13::nat)]"

definition ValidateTopic :: "string \<Rightarrow> topic_error option" where
  "ValidateTopic topic =
     (if topic = [] then Some ErrEmptyTopic
      else if ContainsAny topic ''+#'' then Some ErrInvalidCharInTopic
      else if ContainsAny topic topic_spaces then Some ErrInvalidCharInTopic
      else if HasPrefix topic ''.'' \<or> HasSuffix topic ''.'' then Some ErrInvalidTopic
      else if Contains topic ''..'' then Some ErrInvalidTopic
      else if topic = ''.'' then Some ErrInvalidTopic
      else None)"

fun check_parts :: "string list \<Rightarrow> topic_error option" where
  "check_parts [] = None"
| "check_parts (part # parts) =
     (if part = [] then Some ErrInvalidPattern
      else if part = ''#'' \<and> parts \<noteq> [] then Some ErrHashNotAtEnd
      else if part \<noteq> ''+'' \<and> part \<noteq> ''#'' \<and> ContainsAny part ''+#'' then Some ErrInvalidWildcard
      else check_parts parts)"

definition ValidatePattern :: "string \<Rightarrow> topic_error option" where
  "ValidatePattern pattern =
     (if pattern = [] then Some ErrEmptyPattern
      else if HasPrefix pattern ''.'' \<or> HasSuffix pattern ''.'' then Some ErrInvalidPattern
      else if Contains pattern ''..'' then Some ErrInvalidPattern
      else check_parts (Split (CHR ''.'') pattern))"

definition ParseTopics :: "string list \<Rightarrow> topic_error + string list" where
  "ParseTopics topics =
     (if topics = [] then Inl ErrTopicRequired
      else (let validated = filter (\<lambda>t. t \<noteq> []) (map TrimSpace topics) in
            if validated = [] then Inl ErrTopicRequired else Inr validated))"

fun parse_patterns :: "string list \<Rightarrow> string list \<Rightarrow> topic_error + string list" where
  "parse_patterns [] validated = Inr validated"
| "parse_patterns (p # ps) validated =
     (let pattern = TrimSpace p in
      if pattern = [] then parse_patterns ps validated
      else (case ValidatePattern pattern of
              Some e \<Rightarrow> Inl e
            | None \<Rightarrow> parse_patterns ps (validated @ [pattern])))"

definition ParsePatterns :: "string list \<Rightarrow> topic_error + string list" where
  "ParsePatterns patterns =
     (if patterns = [] then Inl ErrPatternRequired
      else (case parse_patterns patterns [] of
              Inl e \<Rightarrow> Inl e
            | Inr validated \<Rightarrow> if validated = [] then Inl ErrPatternRequired else Inr validated))"

section \<open>What a pattern means\<close>

inductive matches :: "string list \<Rightarrow> string list \<Rightarrow> bool" where
  finished: "matches [] []"
| rest: "matches [''#''] topic"
| one: "matches pattern topic \<Longrightarrow> matches (''+'' # pattern) (tp # topic)"
| same: "matches pattern topic \<Longrightarrow> tp \<noteq> ''#'' \<Longrightarrow> tp \<noteq> ''+'' \<Longrightarrow> matches (tp # pattern) (tp # topic)"

inductive_cases matches_NilE: "matches [] topic"
inductive_cases matches_ConsE: "matches (pp # pattern) topic"
inductive_simps matches_hash: "matches (''#'' # pattern) topic"
inductive_simps matches_plus: "matches (''+'' # pattern) (tp # topic)"

lemma matchParts_iff: "matchParts pattern topic \<longleftrightarrow> matches pattern topic"
proof (induction pattern topic rule: matchParts.induct)
  case (1 topic)
  show ?case by (auto intro: finished elim: matches_NilE)
next
  case (2 pp pattern topic)
  show ?case
  proof (cases "pp = ''#''")
    case True
    then show ?thesis by (auto simp: matches_hash)
  next
    case False
    show ?thesis
    proof (cases topic)
      case Nil
      with False show ?thesis by (auto elim: matches_ConsE)
    next
      case (Cons tp topic')
      show ?thesis
      proof (cases "pp = ''+''")
        case True
        with Cons 2(1) [OF False Cons] show ?thesis by (simp add: matches_plus)
      next
        case no: False
        show ?thesis
        proof (cases "pp = tp")
          case True
          with 2(2) [OF False Cons no] no False Cons show ?thesis
            by (auto intro: same elim: matches_ConsE)
        next
          case neq: False
          with no False Cons show ?thesis by (auto elim: matches_ConsE)
        qed
      qed
    qed
  qed
qed

lemma check_parts_None:
  "check_parts parts = None \<longleftrightarrow>
   (\<forall>part \<in> set parts. part \<noteq> [] \<and> (part \<in> {''+'', ''#''} \<or> \<not> ContainsAny part ''+#''))
   \<and> ''#'' \<notin> set (butlast parts)"
  by (induction parts) auto

text \<open>The text of a list of levels.\<close>

abbreviation dotted :: "string list \<Rightarrow> string" where
  "dotted \<equiv> Join ''.''"

lemma Split_dotted: "ls \<noteq> [] \<Longrightarrow> \<forall>l \<in> set ls. CHR ''.'' \<notin> set l \<Longrightarrow> Split (CHR ''.'') (dotted ls) = ls"
  by (rule Split_Join)

lemma dotted_empty: "ls \<noteq> [] \<Longrightarrow> \<forall>l \<in> set ls. l \<noteq> [] \<Longrightarrow> dotted ls \<noteq> []"
  by (cases ls rule: remdups_adj.cases) auto

lemma Split_sep: "Split c (a @ c # b) = Split c a @ Split c b"
  by (induction a) (auto split: list.split)

lemma empty_levels:
  "HasPrefix s ''.'' \<or> HasSuffix s ''.'' \<or> Contains s ''..'' \<Longrightarrow> [] \<in> set (Split (CHR ''.'') s)"
proof (elim disjE)
  assume "HasPrefix s ''.''"
  then obtain t where "s = [] @ CHR ''.'' # t" by (auto simp: HasPrefix_iff)
  then show ?thesis by simp
next
  assume "HasSuffix s ''.''"
  then obtain t where "s = t @ CHR ''.'' # []" by (auto simp: HasSuffix_iff)
  then show ?thesis by (simp add: Split_sep)
next
  assume "Contains s ''..''"
  then obtain a b where "s = a @ CHR ''.'' # ([] @ CHR ''.'' # b)" by (auto simp: Contains_iff)
  then show ?thesis by (simp only: Split_sep) simp
qed

text \<open>C36: On dotted names a subscription matches exactly by the rules of the levels (a level matches
  itself, \<open>+\<close> any one level, a final \<open>#\<close> any remainder, also none), and a pattern is accepted exactly
  when wildcards stand alone in their level and \<open>#\<close> only in the last one.\<close>
theorem MatchTopic_meaning:
  assumes "ps \<noteq> []" "ts \<noteq> []"
    and "\<forall>l \<in> set ps \<union> set ts. l \<noteq> [] \<and> CHR ''.'' \<notin> set l"
  shows "(MatchTopic (dotted ps) (dotted ts) \<longleftrightarrow> matches ps ts)
       \<and> (ValidatePattern (dotted ps) = None \<longleftrightarrow>
            (\<forall>p \<in> set ps. p = ''+'' \<or> p = ''#'' \<or> \<not> ContainsAny p ''+#'') \<and> ''#'' \<notin> set (butlast ps))"
proof -
  have s: "Split (CHR ''.'') (dotted ps) = ps" "Split (CHR ''.'') (dotted ts) = ts"
    using assms by (simp_all add: Split_dotted)
  have ne: "dotted ps \<noteq> []" "dotted ts \<noteq> []" using assms by (simp_all add: dotted_empty)
  have "ps = [''#'']" if "dotted ps = ''#''" using that s(1) by simp
  then have "MatchTopic (dotted ps) (dotted ts) \<longleftrightarrow> matches ps ts"
    using ne by (auto simp: MatchTopic_def s matchParts_iff matches_hash)
  moreover have "[] \<notin> set ps" using assms(3) by auto
  then have "\<not> (HasPrefix (dotted ps) ''.'' \<or> HasSuffix (dotted ps) ''.'' \<or> Contains (dotted ps) ''..'')"
    using empty_levels [of "dotted ps"] s(1) by auto
  then have "ValidatePattern (dotted ps) = None \<longleftrightarrow> check_parts ps = None"
    using ne(1) by (simp add: ValidatePattern_def s(1))
  ultimately show ?thesis using assms(3) by (auto simp: check_parts_None)
qed

theorem MatchTopic_meaning_witness:
  "MatchTopic (dotted [''container'', ''+'', ''#'']) (dotted [''container'', ''logs'']) = matches [''container'', ''+'', ''#''] [''container'', ''logs'']
   \<and> ValidatePattern (dotted [''container'', ''+'', ''#'']) = None"
proof -
  have "\<not> ContainsAny ''container'' ''+#''" by code_simp
  with MatchTopic_meaning [of "[''container'', ''+'', ''#'']" "[''container'', ''logs'']"] show ?thesis by simp
qed

end
