(* ===== verification/Json.thy ===== *)
theory Json
  imports Prelude "HOL-Library.Char_ord" "HOL-Library.List_Lexorder"
begin

text \<open>
  JSON values as \<open>encoding/json\<close> gives them to the program (\<open>interface{}\<close>), and its decoding into
  structs: member names are matched ignoring case, \<open>null\<close> leaves a field as it is (and empties a
  slice), unknown members are skipped, a value of another type is an error.  An \<open>interface{}\<close> that is
  encoded and decoded again has its members sorted by name.  \<open>JFloat\<close> is a number that no integer
  field accepts.
\<close>

datatype json = JNull | JBool bool | JInt int | JFloat | JStr string | JArr "json list" | JObj "(string \<times> json) list"

fun member :: "json \<Rightarrow> string \<Rightarrow> json option" where
  "member (JObj m) k = get m k"
| "member _ k = None"

definition string_member :: "json \<Rightarrow> string \<Rightarrow> string" where
  "string_member j k = (case member j k of Some (JStr s) \<Rightarrow> s | _ \<Rightarrow> [])"

fun decode_string :: "json \<Rightarrow> string \<Rightarrow> string option" where
  "decode_string (JStr s) old = Some s"
| "decode_string JNull old = Some old"
| "decode_string _ old = None"

fun decode_bool :: "json \<Rightarrow> bool \<Rightarrow> bool option" where
  "decode_bool (JBool b) old = Some b"
| "decode_bool JNull old = Some old"
| "decode_bool _ old = None"

fun decode_int :: "json \<Rightarrow> int \<Rightarrow> int option" where
  "decode_int (JInt i) old = (if - (2 ^ 63) \<le> i \<and> i < 2 ^ 63 then Some i else None)"
| "decode_int JNull old = Some old"
| "decode_int _ old = None"

fun all_some :: "'a option list \<Rightarrow> 'a list option" where
  "all_some [] = Some []"
| "all_some (x # xs) = (case x of None \<Rightarrow> None | Some y \<Rightarrow> map_option ((#) y) (all_some xs))"

fun decode_strings :: "json \<Rightarrow> string list \<Rightarrow> string list option" where
  "decode_strings (JArr js) old = all_some (map (\<lambda>j. decode_string j []) js)"
| "decode_strings JNull old = Some []"
| "decode_strings _ old = None"

fun decode_members :: "(string \<Rightarrow> json \<Rightarrow> 'a \<Rightarrow> 'a option) \<Rightarrow> (string \<times> json) list \<Rightarrow> 'a \<Rightarrow> 'a option" where
  "decode_members f [] a = Some a"
| "decode_members f ((k, v) # m) a =
     (case f (ToLower k) v a of None \<Rightarrow> None | Some a' \<Rightarrow> decode_members f m a')"

definition decode_struct :: "(string \<Rightarrow> json \<Rightarrow> 'a \<Rightarrow> 'a option) \<Rightarrow> json \<Rightarrow> 'a \<Rightarrow> 'a option" where
  "decode_struct f j a =
     (case j of JNull \<Rightarrow> Some a | JObj m \<Rightarrow> decode_members f m a | _ \<Rightarrow> None)"

text \<open>Encoding an \<open>interface{}\<close> and decoding the text into a struct.\<close>

definition via_text :: "(string \<Rightarrow> json \<Rightarrow> 'a \<Rightarrow> 'a option) \<Rightarrow> json \<Rightarrow> 'a \<Rightarrow> 'a option" where
  "via_text f j a =
     (case j of JObj m \<Rightarrow> decode_members f (sort_key fst m) a | _ \<Rightarrow> decode_struct f j a)"

lemma all_some_iff: "all_some xs = Some ys \<longleftrightarrow> xs = map Some ys"
  by (induction xs arbitrary: ys) (auto split: option.splits)

end
