(* ===== verification/WebSocket.thy ===== *)
theory WebSocket
  imports Topics Types Json
begin

text \<open>
  \<open>internal/websocket/manager.go\<close>, \<open>types.go\<close>, \<open>adapter.go\<close> and \<open>session.go\<close>: clients with their
  bounded send channels and subscriptions, the manager's tables of clients, last wills, retained
  messages, and the adapter the notification system sends through.  Clients are pointers that two
  tables share, so the manager state has a heap of clients and the tables hold their addresses.
  The goroutines that drain the channels and the sockets themselves are not modelled.
\<close>

section \<open>Messages and clients\<close>

datatype ws_error = SubscriptionLimit | BadPattern string topic_error | DeviceNotConnected string

datatype ack_error = InvalidFormat | NoTopics | Failed ws_error

text \<open>The payload of a message: the JSON text it encodes to, a decoded JSON value, the string fields the
  manager sets, or one of the acknowledgements, whose error text is the error itself here.\<close>

datatype ws_data =
    JSONText string
  | JsonData json
  | Fields "(string \<times> string) list"
  | SubAckData "string list" bool "ack_error option"
  | UnsubAckData "string list" bool
  | LWTAckData bool bool "ack_error option"

record ws_message =
  ms_Type :: string
  ms_Topic :: string
  ms_NotificationID :: string
  ms_MessageID :: string
  ms_QoS :: int
  ms_Data :: ws_data
  ms_Timestamp :: gotime
  ms_ExpiresAt :: "gotime option"
  ms_Retain :: bool

definition ws_msg :: "string \<Rightarrow> ws_data \<Rightarrow> ws_message" where
  "ws_msg t d = \<lparr>ms_Type = t, ms_Topic = [], ms_NotificationID = [], ms_MessageID = [], ms_QoS = 0,
     ms_Data = d, ms_Timestamp = 0, ms_ExpiresAt = None, ms_Retain = False\<rparr>"

record last_will =
  lw_Topic :: string
  lw_Message :: ws_message
  lw_QoS :: int

definition MaxSubscriptionsPerClient :: nat where "MaxSubscriptionsPerClient = 100"

text \<open>The channel holds the messages not yet written to the socket; \<open>None\<close> is a nil channel.\<close>

record client =
  cl_deviceID :: string
  cl_sendChan :: "ws_message list option"
  cl_cap :: nat
  cl_subscriptions :: "(string, int) gomap"
  cl_lastWill :: "last_will option"
  cl_chanClosed :: bool

definition NewClient :: "string \<Rightarrow> nat \<Rightarrow> client" where
  "NewClient deviceID cap = \<lparr>cl_deviceID = deviceID, cl_sendChan = Some [], cl_cap = cap,
     cl_subscriptions = [], cl_lastWill = None, cl_chanClosed = False\<rparr>"

fun add_subscriptions :: "string list \<Rightarrow> int \<Rightarrow> client \<Rightarrow> client \<times> ws_error option" where
  "add_subscriptions [] qos c = (c, None)"
| "add_subscriptions (pattern # patterns) qos c =
     (case ValidatePattern pattern of
        Some e \<Rightarrow> (c, Some (BadPattern pattern e))
      | None \<Rightarrow> add_subscriptions patterns qos (c\<lparr>cl_subscriptions := put pattern qos (cl_subscriptions c)\<rparr>))"

definition SubscribeToTopics :: "string list \<Rightarrow> int \<Rightarrow> client \<Rightarrow> client \<times> ws_error option" where
  "SubscribeToTopics patterns qos c =
     (let newCount = length (filter (\<lambda>p. \<not> has (cl_subscriptions c) p) patterns) in
      if length (cl_subscriptions c) + newCount > MaxSubscriptionsPerClient then (c, Some SubscriptionLimit)
      else add_subscriptions patterns qos c)"

definition UnsubscribeFromTopics :: "string list \<Rightarrow> client \<Rightarrow> client" where
  "UnsubscribeFromTopics patterns c =
     c\<lparr>cl_subscriptions := foldl (\<lambda>m p. del p m) (cl_subscriptions c) patterns\<rparr>"

definition IsSubscribedTo :: "client \<Rightarrow> string \<Rightarrow> bool" where
  "IsSubscribedTo c topic =
     (if length (cl_subscriptions c) = 0 then True
      else list_ex (\<lambda>(pattern, qos). MatchTopic pattern topic) (cl_subscriptions c))"

text \<open>The first matching pattern of the iteration order.\<close>

definition GetSubscriptionQoS :: "client \<Rightarrow> string \<Rightarrow> int" where
  "GetSubscriptionQoS c topic =
     (case find (\<lambda>(pattern, qos). MatchTopic pattern topic) (cl_subscriptions c) of
        Some (pattern, qos) \<Rightarrow> qos | None \<Rightarrow> 0)"

definition closeSendChanSafe :: "client \<Rightarrow> client" where
  "closeSendChanSafe c =
     (if \<not> cl_chanClosed c \<and> cl_sendChan c \<noteq> None then c\<lparr>cl_chanClosed := True\<rparr> else c)"

definition TrySend :: "ws_message \<Rightarrow> client \<Rightarrow> client \<times> bool" where
  "TrySend msg c =
     (case cl_sendChan c of
        None \<Rightarrow> (c, False)
      | Some buf \<Rightarrow>
          if cl_chanClosed c then (c, False)
          else if length buf < cl_cap c then (c\<lparr>cl_sendChan := Some (buf @ [msg])\<rparr>, True)
          else (c, False))"

section \<open>The manager\<close>

record retained_message =
  rm_Topic :: string
  rm_Message :: ws_message
  rm_ExpiresAt :: "gotime option"
  rm_CreatedAt :: gotime
  rm_UpdatedAt :: gotime

definition IsExpired :: "gotime \<Rightarrow> retained_message \<Rightarrow> bool" where
  "IsExpired now rm = (case rm_ExpiresAt rm of None \<Rightarrow> False | Some e \<Rightarrow> After now e)"

record ws_manager =
  wm_heap :: "(nat, client) gomap"
  wm_clients :: "nat list"
  wm_clientsByDevice :: "(string, nat list) gomap"
  wm_retainedMessages :: "(string, retained_message) gomap"
  wm_onDeviceConnect :: bool

definition NewManager_ws :: ws_manager where
  "NewManager_ws = \<lparr>wm_heap = [], wm_clients = [], wm_clientsByDevice = [], wm_retainedMessages = [],
     wm_onDeviceConnect = False\<rparr>"

definition on_client :: "nat \<Rightarrow> (client \<Rightarrow> client) \<Rightarrow> ws_manager \<Rightarrow> ws_manager" where
  "on_client p f wm = wm\<lparr>wm_heap := adjust p f (wm_heap wm)\<rparr>"

definition device_of :: "ws_manager \<Rightarrow> nat \<Rightarrow> string" where
  "device_of wm p = (case get (wm_heap wm) p of Some c \<Rightarrow> cl_deviceID c | None \<Rightarrow> [])"

definition client_at :: "ws_manager \<Rightarrow> nat \<Rightarrow> client" where
  "client_at wm p = (case get (wm_heap wm) p of Some c \<Rightarrow> c | None \<Rightarrow> NewClient [] 0)"

definition send_to :: "ws_message \<Rightarrow> nat \<Rightarrow> ws_manager \<Rightarrow> ws_manager \<times> bool" where
  "send_to msg p wm =
     (on_client p (\<lambda>c. fst (TrySend msg c)) wm, snd (TrySend msg (client_at wm p)))"

definition BroadcastFiltered :: "ws_message \<Rightarrow> (client \<Rightarrow> bool) \<Rightarrow> ws_manager \<Rightarrow> ws_manager" where
  "BroadcastFiltered msg P wm =
     (let clients = filter (\<lambda>p. P (client_at wm p)) (wm_clients wm)
      in foldl (\<lambda>wm p. fst (send_to msg p wm)) wm clients)"

definition Broadcast :: "ws_message \<Rightarrow> ws_manager \<Rightarrow> ws_manager" where
  "Broadcast msg wm = BroadcastFiltered msg (\<lambda>c. True) wm"

definition PublishDeviceStatus :: "string \<Rightarrow> string \<Rightarrow> ws_manager \<Rightarrow> ws_manager" where
  "PublishDeviceStatus deviceID status wm =
     Broadcast (ws_msg ''device_status'' (Fields [(''deviceId'', deviceID), (''status'', status)])) wm"

text \<open>The other announcements differ in their type and fields; \<open>unix\<close> is the text of the clock's seconds.\<close>

definition PublishConfigReload :: "ws_manager \<Rightarrow> ws_manager" where
  "PublishConfigReload wm = Broadcast (ws_msg ''config_reload'' (Fields [(''message'', ''Configuration reloaded'')])) wm"

definition PublishConfigWarning :: "string \<Rightarrow> ws_manager \<Rightarrow> ws_manager" where
  "PublishConfigWarning warning wm = Broadcast (ws_msg ''config_warning'' (Fields [(''warning'', warning)])) wm"

definition PublishDevicePaired :: "string \<Rightarrow> string \<Rightarrow> string \<Rightarrow> ws_manager \<Rightarrow> ws_manager" where
  "PublishDevicePaired deviceID deviceName platform wm =
     Broadcast (ws_msg ''device_paired''
       (Fields [(''deviceId'', deviceID), (''deviceName'', deviceName), (''platform'', platform)])) wm"

definition PublishDeviceRevoked :: "string \<Rightarrow> ws_manager \<Rightarrow> ws_manager" where
  "PublishDeviceRevoked deviceID wm = Broadcast (ws_msg ''device_revoked'' (Fields [(''deviceId'', deviceID)])) wm"

definition PublishHealthChange ::
  "string \<Rightarrow> string \<Rightarrow> string \<Rightarrow> string \<Rightarrow> string \<Rightarrow> string \<Rightarrow> ws_manager \<Rightarrow> ws_manager" where
  "PublishHealthChange unix appID appName proxyPath status message wm =
     Broadcast (ws_msg ''health_change''
       (Fields [(''appId'', appID), (''appName'', appName), (''proxyPath'', proxyPath), (''status'', status),
                (''message'', message), (''timestamp'', unix)])) wm"

definition timed :: "gotime \<Rightarrow> ws_message \<Rightarrow> ws_message" where
  "timed now m = m\<lparr>ms_Timestamp := now\<rparr>"

definition PublishRouteRemoved :: "gotime \<Rightarrow> string \<Rightarrow> string \<Rightarrow> ws_manager \<Rightarrow> ws_manager" where
  "PublishRouteRemoved now unix routeID wm =
     Broadcast (timed now (ws_msg ''route_removed'' (Fields [(''routeId'', routeID), (''timestamp'', unix)]))) wm"

definition PublishProposalApproved :: "gotime \<Rightarrow> string \<Rightarrow> string \<Rightarrow> ws_manager \<Rightarrow> ws_manager" where
  "PublishProposalApproved now unix proposalID wm =
     Broadcast (timed now (ws_msg ''proposal_approved'' (Fields [(''proposalId'', proposalID), (''timestamp'', unix)]))) wm"

definition PublishProposalDismissed :: "gotime \<Rightarrow> string \<Rightarrow> string \<Rightarrow> ws_manager \<Rightarrow> ws_manager" where
  "PublishProposalDismissed now unix proposalID wm =
     Broadcast (timed now (ws_msg ''proposal_dismissed'' (Fields [(''proposalId'', proposalID), (''timestamp'', unix)]))) wm"

definition PublishRepairRequired :: "gotime \<Rightarrow> string \<Rightarrow> string \<Rightarrow> string \<Rightarrow> ws_manager \<Rightarrow> ws_manager" where
  "PublishRepairRequired now unix reason newBaseURL wm =
     Broadcast (timed now (ws_msg ''repair_required''
       (Fields [(''reason'', reason), (''newBaseUrl'', newBaseURL),
         (''message'', ''Server TLS configuration has changed. Please re-pair your device to establish a secure connection with certificate pinning.''),
         (''timestamp'', unix)]))) wm"

definition PublishEvent :: "gotime \<Rightarrow> string \<Rightarrow> json \<Rightarrow> ws_manager \<Rightarrow> ws_manager" where
  "PublishEvent now eventType data wm = Broadcast (timed now (ws_msg eventType (JsonData data))) wm"

text \<open>\<open>p\<close> is the address of the new client; the second result says whether the connect callback runs.\<close>

definition Subscribe :: "nat \<Rightarrow> client \<Rightarrow> ws_manager \<Rightarrow> ws_manager \<times> bool" where
  "Subscribe p c wm =
     (let deviceID = cl_deviceID c;
          wm1 = wm\<lparr>wm_heap := put p c (wm_heap wm),
                   wm_clients := List.insert p (wm_clients wm),
                   wm_clientsByDevice := put deviceID (get_zero [] (wm_clientsByDevice wm) deviceID @ [p])
                     (wm_clientsByDevice wm)\<rparr>
      in (PublishDeviceStatus deviceID ''online'' wm1, wm_onDeviceConnect wm))"

definition SetRetainedMessage :: "gotime \<Rightarrow> string \<Rightarrow> ws_message \<Rightarrow> ws_manager \<Rightarrow> ws_manager" where
  "SetRetainedMessage now topic msg wm =
     wm\<lparr>wm_retainedMessages := put topic
          \<lparr>rm_Topic = topic, rm_Message = msg, rm_ExpiresAt = ms_ExpiresAt msg, rm_CreatedAt = now, rm_UpdatedAt = now\<rparr>
          (wm_retainedMessages wm)\<rparr>"

definition PublishToTopic :: "gotime \<Rightarrow> string \<Rightarrow> ws_message \<Rightarrow> ws_manager \<Rightarrow> ws_manager" where
  "PublishToTopic now topic0 msg0 wm =
     (let topic = (if topic0 = [] then ms_Type msg0 else topic0);
          msg = msg0\<lparr>ms_Topic := topic\<rparr>;
          wm1 = (if ms_Retain msg then SetRetainedMessage now topic msg wm else wm)
      in if (case ms_ExpiresAt msg of None \<Rightarrow> False | Some e \<Rightarrow> After now e) then wm1
         else BroadcastFiltered msg (\<lambda>c. IsSubscribedTo c topic) wm1)"

definition publishLastWillMessage :: "gotime \<Rightarrow> last_will \<Rightarrow> ws_manager \<Rightarrow> ws_manager" where
  "publishLastWillMessage now lw wm =
     PublishToTopic now (lw_Topic lw)
       ((lw_Message lw)\<lparr>ms_Topic := lw_Topic lw, ms_QoS := lw_QoS lw, ms_Timestamp := now\<rparr>) wm"

definition unsubscribeClient :: "gotime \<Rightarrow> nat \<Rightarrow> bool \<Rightarrow> ws_manager \<Rightarrow> ws_manager" where
  "unsubscribeClient now p publishLastWill wm =
     (let lastWill = (if publishLastWill then cl_lastWill (client_at wm p) else None);
          wm1 =
            (if p \<in> set (wm_clients wm) then
               (let deviceID = device_of wm p;
                    byDevice = put deviceID (remove1 p (get_zero [] (wm_clientsByDevice wm) deviceID))
                      (wm_clientsByDevice wm);
                    offline = (get_zero [] byDevice deviceID = []);
                    wm' = on_client p closeSendChanSafe
                      (wm\<lparr>wm_clients := remove1 p (wm_clients wm),
                          wm_clientsByDevice := (if offline then del deviceID byDevice else byDevice)\<rparr>)
                in if offline then PublishDeviceStatus deviceID ''offline'' wm' else wm')
             else wm)
      in (case lastWill of None \<Rightarrow> wm1 | Some lw \<Rightarrow> publishLastWillMessage now lw wm1))"

definition Unsubscribe :: "gotime \<Rightarrow> nat \<Rightarrow> ws_manager \<Rightarrow> ws_manager" where
  "Unsubscribe now p wm = unsubscribeClient now p False wm"

definition UnsubscribeUnexpected :: "gotime \<Rightarrow> nat \<Rightarrow> ws_manager \<Rightarrow> ws_manager" where
  "UnsubscribeUnexpected now p wm = unsubscribeClient now p True wm"

definition ActiveConnections :: "ws_manager \<Rightarrow> int" where
  "ActiveConnections wm = int (length (wm_clients wm))"

definition HasDeviceConnection :: "ws_manager \<Rightarrow> string \<Rightarrow> bool" where
  "HasDeviceConnection wm deviceID \<longleftrightarrow> list_ex (\<lambda>p. device_of wm p = deviceID) (wm_clients wm)"

definition GetConnectedDevices :: "ws_manager \<Rightarrow> (string, int) gomap" where
  "GetConnectedDevices wm =
     foldl (\<lambda>m p. put (device_of wm p) (get_zero 0 m (device_of wm p) + 1) m) [] (wm_clients wm)"

definition DisconnectDevice :: "string \<Rightarrow> ws_manager \<Rightarrow> ws_manager \<times> int" where
  "DisconnectDevice deviceID wm =
     (let gone = filter (\<lambda>p. device_of wm p = deviceID) (wm_clients wm)
      in ((foldl (\<lambda>wm p. on_client p closeSendChanSafe wm) wm gone)
            \<lparr>wm_clients := filter (\<lambda>p. device_of wm p \<noteq> deviceID) (wm_clients wm)\<rparr>,
          int (length gone)))"

definition SendToDevice :: "string \<Rightarrow> ws_message \<Rightarrow> ws_manager \<Rightarrow> ws_manager \<times> ws_error option" where
  "SendToDevice deviceID msg wm =
     (case foldl (\<lambda>(wm, sent) p. case send_to msg p wm of (wm', ok) \<Rightarrow> (wm', sent \<or> ok)) (wm, False)
             (filter (\<lambda>p. device_of wm p = deviceID) (wm_clients wm)) of
        (wm', sent) \<Rightarrow> (wm', if sent then None else Some (DeviceNotConnected deviceID)))"

section \<open>Topics of a device\<close>

definition GetRetainedMessage :: "gotime \<Rightarrow> ws_manager \<Rightarrow> string \<Rightarrow> retained_message option" where
  "GetRetainedMessage now wm topic =
     (case get (wm_retainedMessages wm) topic of
        None \<Rightarrow> None | Some rm \<Rightarrow> if IsExpired now rm then None else Some rm)"

definition ClearRetainedMessage :: "string \<Rightarrow> ws_manager \<Rightarrow> ws_manager" where
  "ClearRetainedMessage topic wm = wm\<lparr>wm_retainedMessages := del topic (wm_retainedMessages wm)\<rparr>"

definition CleanExpiredRetainedMessages :: "gotime \<Rightarrow> ws_manager \<Rightarrow> ws_manager \<times> int" where
  "CleanExpiredRetainedMessages now wm =
     (wm\<lparr>wm_retainedMessages := del_if (\<lambda>topic rm. IsExpired now rm) (wm_retainedMessages wm)\<rparr>,
      int (length (filter (\<lambda>(topic, rm). IsExpired now rm) (wm_retainedMessages wm))))"

definition sendRetainedMessages :: "gotime \<Rightarrow> nat list \<Rightarrow> string list \<Rightarrow> ws_manager \<Rightarrow> ws_manager" where
  "sendRetainedMessages now clients patterns wm =
     foldl (\<lambda>wm (topic, rm). foldl (\<lambda>wm p. fst (send_to (rm_Message rm) p wm)) wm clients) wm
       (filter (\<lambda>(topic, rm). \<not> IsExpired now rm \<and> MatchesAnyTopic patterns topic) (wm_retainedMessages wm))"

fun subscribe_clients :: "nat list \<Rightarrow> string list \<Rightarrow> int \<Rightarrow> ws_manager \<Rightarrow> ws_manager \<times> ws_error option" where
  "subscribe_clients [] patterns qos wm = (wm, None)"
| "subscribe_clients (p # ps) patterns qos wm =
     (case SubscribeToTopics patterns qos (client_at wm p) of
        (c, e) \<Rightarrow>
          (let wm' = on_client p (\<lambda>_. c) wm in
           case e of Some err \<Rightarrow> (wm', Some err) | None \<Rightarrow> subscribe_clients ps patterns qos wm'))"

definition SubscribeClientToTopics ::
  "gotime \<Rightarrow> string \<Rightarrow> string list \<Rightarrow> int \<Rightarrow> ws_manager \<Rightarrow> ws_manager \<times> ws_error option" where
  "SubscribeClientToTopics now deviceID patterns qos wm =
     (let clients = get_zero [] (wm_clientsByDevice wm) deviceID in
      if clients = [] then (wm, Some (DeviceNotConnected deviceID))
      else (case subscribe_clients clients patterns qos wm of
              (wm', Some e) \<Rightarrow> (wm', Some e)
            | (wm', None) \<Rightarrow> (sendRetainedMessages now clients patterns wm', None)))"

definition on_device_clients :: "string \<Rightarrow> (client \<Rightarrow> client) \<Rightarrow> ws_manager \<Rightarrow> ws_manager \<times> ws_error option" where
  "on_device_clients deviceID f wm =
     (let clients = get_zero [] (wm_clientsByDevice wm) deviceID in
      if clients = [] then (wm, Some (DeviceNotConnected deviceID))
      else (foldl (\<lambda>wm p. on_client p f wm) wm clients, None))"

definition UnsubscribeClientFromTopics :: "string \<Rightarrow> string list \<Rightarrow> ws_manager \<Rightarrow> ws_manager \<times> ws_error option" where
  "UnsubscribeClientFromTopics deviceID patterns wm = on_device_clients deviceID (UnsubscribeFromTopics patterns) wm"

definition SetClientLastWill :: "string \<Rightarrow> last_will \<Rightarrow> ws_manager \<Rightarrow> ws_manager \<times> ws_error option" where
  "SetClientLastWill deviceID lw wm = on_device_clients deviceID (\<lambda>c. c\<lparr>cl_lastWill := Some lw\<rparr>) wm"

definition ClearClientLastWill :: "string \<Rightarrow> ws_manager \<Rightarrow> ws_manager \<times> ws_error option" where
  "ClearClientLastWill deviceID wm = on_device_clients deviceID (\<lambda>c. c\<lparr>cl_lastWill := None\<rparr>) wm"

definition GetClientSubscriptions :: "ws_manager \<Rightarrow> string \<Rightarrow> ws_error + (string, int) gomap" where
  "GetClientSubscriptions wm deviceID =
     (case get_zero [] (wm_clientsByDevice wm) deviceID of
        [] \<Rightarrow> Inl (DeviceNotConnected deviceID)
      | p # _ \<Rightarrow> Inr (cl_subscriptions (client_at wm p)))"

section \<open>The adapter\<close>

definition SendNotification :: "gotime \<Rightarrow> string \<Rightarrow> string \<Rightarrow> string \<Rightarrow> string \<Rightarrow> ws_manager \<Rightarrow> ws_manager \<times> ws_error option" where
  "SendNotification now deviceID notifID msgType payload wm =
     (let wsType = (if msgType = ''webhook.notify'' \<or> msgType = ''webhook.activity'' then ''webhook'' else msgType)
      in SendToDevice deviceID
           ((ws_msg wsType (JSONText payload))\<lparr>ms_NotificationID := notifID, ms_Timestamp := now\<rparr>) wm)"

section \<open>Delivery\<close>

definition known :: "ws_manager \<Rightarrow> nat \<Rightarrow> bool" where
  "known wm p \<longleftrightarrow> has (wm_heap wm) p"

lemma client_at_on_client [simp]:
  "client_at (on_client p f wm) q = (if q = p \<and> known wm p then f (client_at wm p) else client_at wm q)"
  by (auto simp: client_at_def on_client_def known_def has_def get_adjust split: option.split)

lemma on_client_simps [simp]:
  "wm_clients (on_client p f wm) = wm_clients wm"
  "wm_clientsByDevice (on_client p f wm) = wm_clientsByDevice wm"
  "wm_retainedMessages (on_client p f wm) = wm_retainedMessages wm"
  "known (on_client p f wm) q = known wm q"
  "wm_onDeviceConnect (on_client p f wm) = wm_onDeviceConnect wm"
  by (auto simp: on_client_def known_def has_def get_adjust)

lemma TrySend_device [simp]: "cl_deviceID (fst (TrySend msg c)) = cl_deviceID c"
  by (simp add: TrySend_def split: option.split)

lemma device_of_client: "known wm p \<Longrightarrow> device_of wm p = cl_deviceID (client_at wm p)"
  by (auto simp: device_of_def client_at_def known_def has_def)

lemma device_of_on_client:
  "(\<And>c. cl_deviceID (f c) = cl_deviceID c) \<Longrightarrow> device_of (on_client p f wm) q = device_of wm q"
  by (auto simp: device_of_def on_client_def get_adjust split: option.split)

lemma device_of_send [simp]: "device_of (fst (send_to msg p wm)) q = device_of wm q"
  by (simp add: send_to_def device_of_on_client)

lemma send_to_simps [simp]:
  "wm_clients (fst (send_to msg p wm)) = wm_clients wm"
  "wm_clientsByDevice (fst (send_to msg p wm)) = wm_clientsByDevice wm"
  "wm_retainedMessages (fst (send_to msg p wm)) = wm_retainedMessages wm"
  "known (fst (send_to msg p wm)) q = known wm q"
  "client_at (fst (send_to msg p wm)) q =
     (if q = p \<and> known wm p then fst (TrySend msg (client_at wm p)) else client_at wm q)"
  by (simp_all add: send_to_def)

lemma send_all:
  "wm_clients (foldl (\<lambda>wm p. fst (send_to msg p wm)) wm ps) = wm_clients wm"
  "wm_clientsByDevice (foldl (\<lambda>wm p. fst (send_to msg p wm)) wm ps) = wm_clientsByDevice wm"
  "wm_retainedMessages (foldl (\<lambda>wm p. fst (send_to msg p wm)) wm ps) = wm_retainedMessages wm"
  "known (foldl (\<lambda>wm p. fst (send_to msg p wm)) wm ps) q = known wm q"
  "device_of (foldl (\<lambda>wm p. fst (send_to msg p wm)) wm ps) q = device_of wm q"
  by (induction ps arbitrary: wm) auto

lemma send_all_client:
  "distinct ps \<Longrightarrow> client_at (foldl (\<lambda>wm p. fst (send_to msg p wm)) wm ps) q =
     (if q \<in> set ps \<and> known wm q then fst (TrySend msg (client_at wm q)) else client_at wm q)"
  by (induction ps arbitrary: wm) auto

lemmas broadcast_simps = BroadcastFiltered_def Broadcast_def PublishDeviceStatus_def Let_def send_all

lemma BroadcastFiltered_client:
  assumes "distinct (wm_clients wm)"
  shows "client_at (BroadcastFiltered msg P wm) p =
     (if p \<in> set (wm_clients wm) \<and> known wm p \<and> P (client_at wm p)
      then fst (TrySend msg (client_at wm p)) else client_at wm p)"
  using assms by (auto simp: BroadcastFiltered_def Let_def send_all_client)

section \<open>The two tables agree\<close>

text \<open>Every connected client is known, and the table by device lists exactly the connected clients of
  each device.\<close>

definition ws_inv :: "ws_manager \<Rightarrow> bool" where
  "ws_inv wm \<longleftrightarrow> distinct (wm_clients wm) \<and> (\<forall>p \<in> set (wm_clients wm). known wm p) \<and>
     (\<forall>d. distinct (get_zero [] (wm_clientsByDevice wm) d) \<and>
          set (get_zero [] (wm_clientsByDevice wm) d) = {p \<in> set (wm_clients wm). device_of wm p = d})"

lemma ws_inv_cong:
  assumes "ws_inv wm" "wm_clients wm' = wm_clients wm" "wm_clientsByDevice wm' = wm_clientsByDevice wm"
    and "\<And>p. known wm' p = known wm p" "\<And>p. device_of wm' p = device_of wm p"
  shows "ws_inv wm'"
  using assms by (simp add: ws_inv_def)

lemma ws_inv_send_all: "ws_inv wm \<Longrightarrow> ws_inv (foldl (\<lambda>wm p. fst (send_to msg p wm)) wm ps)"
  by (erule ws_inv_cong) (simp_all add: send_all)

lemma ws_inv_broadcast [intro]: "ws_inv wm \<Longrightarrow> ws_inv (BroadcastFiltered msg P wm)"
  by (simp add: BroadcastFiltered_def Let_def ws_inv_send_all)

lemma ws_inv_status [intro]: "ws_inv wm \<Longrightarrow> ws_inv (PublishDeviceStatus d s wm)"
  by (simp add: PublishDeviceStatus_def Broadcast_def ws_inv_broadcast)

lemma ws_inv_retained [simp]: "ws_inv (wm\<lparr>wm_retainedMessages := r\<rparr>) = ws_inv wm"
  by (simp add: ws_inv_def known_def device_of_def)

lemma ws_inv_publish [intro]: "ws_inv wm \<Longrightarrow> ws_inv (PublishToTopic now topic msg wm)"
  by (auto simp: PublishToTopic_def Let_def SetRetainedMessage_def)

lemma ws_inv_New: "ws_inv NewManager_ws"
  by (simp add: ws_inv_def NewManager_ws_def get_zero_def)

lemma Subscribe_inv:
  assumes "ws_inv wm" "\<not> known wm p"
  shows "ws_inv (fst (Subscribe p c wm))"
proof -
  let ?wm = "wm\<lparr>wm_heap := put p c (wm_heap wm), wm_clients := List.insert p (wm_clients wm),
      wm_clientsByDevice := put (cl_deviceID c) (get_zero [] (wm_clientsByDevice wm) (cl_deviceID c) @ [p])
        (wm_clientsByDevice wm)\<rparr>"
  have new: "p \<notin> set (wm_clients wm)" using assms by (auto simp: ws_inv_def)
  have known: "known ?wm q \<longleftrightarrow> q = p \<or> known wm q" for q
    by (simp add: known_def has_def get_put)
  have dev: "device_of ?wm q = (if q = p then cl_deviceID c else device_of wm q)" for q
    by (simp add: device_of_def get_put)
  have *: "set (get_zero [] (wm_clientsByDevice wm) d) = {q \<in> set (wm_clients wm). device_of wm q = d}"
    "distinct (get_zero [] (wm_clientsByDevice wm) d)" for d using assms(1) by (simp_all add: ws_inv_def)
  have "ws_inv ?wm"
    unfolding ws_inv_def known dev
    using assms(1) new by (auto simp: get_zero_put * ws_inv_def)
  then show ?thesis by (auto simp: Subscribe_def Let_def)
qed

lemma unsubscribe_core_inv:
  assumes "ws_inv wm" "p \<in> set (wm_clients wm)"
  defines "d \<equiv> device_of wm p"
  defines "b \<equiv> put d (remove1 p (get_zero [] (wm_clientsByDevice wm) d)) (wm_clientsByDevice wm)"
  shows "ws_inv (on_client p closeSendChanSafe (wm\<lparr>wm_clients := remove1 p (wm_clients wm),
           wm_clientsByDevice := (if get_zero [] b d = [] then del d b else b)\<rparr>))" (is "ws_inv ?wm")
proof -
  have dev: "device_of ?wm q = device_of wm q" for q
    by (subst device_of_on_client) (simp_all add: closeSendChanSafe_def device_of_def)
  have known: "known ?wm q = known wm q" for q by (simp only: on_client_simps) (simp add: known_def)
  have *: "set (get_zero [] (wm_clientsByDevice wm) e) = {q \<in> set (wm_clients wm). device_of wm q = e}"
    "distinct (get_zero [] (wm_clientsByDevice wm) e)" for e using assms(1) by (simp_all add: ws_inv_def)
  have dc: "distinct (wm_clients wm)" using assms(1) by (simp add: ws_inv_def)
  have "get_zero [] (if get_zero [] b d = [] then del d b else b) e = get_zero [] b e" for e
    by (simp add: get_zero_del)
  moreover have "get_zero [] b e = (if e = d then remove1 p (get_zero [] (wm_clientsByDevice wm) d)
      else get_zero [] (wm_clientsByDevice wm) e)" for e by (simp add: b_def get_zero_put)
  ultimately show ?thesis
    unfolding ws_inv_def known dev
    using assms(1,2) dc by (auto simp: * distinct_remove1 set_remove1_eq d_def ws_inv_def)
qed

lemma unsubscribeClient_inv: "ws_inv wm \<Longrightarrow> ws_inv (unsubscribeClient now p lw wm)"
  unfolding unsubscribeClient_def Let_def publishLastWillMessage_def
  using unsubscribe_core_inv [of wm p]
  by (simp split: option.split) (auto intro!: ws_inv_publish ws_inv_status)


lemma fold_on_client:
  "wm_clients (foldl (\<lambda>wm p. on_client p f wm) wm ps) = wm_clients wm"
  "wm_clientsByDevice (foldl (\<lambda>wm p. on_client p f wm) wm ps) = wm_clientsByDevice wm"
  "known (foldl (\<lambda>wm p. on_client p f wm) wm ps) q = known wm q"
  "(\<And>c. cl_deviceID (f c) = cl_deviceID c) \<Longrightarrow>
     device_of (foldl (\<lambda>wm p. on_client p f wm) wm ps) q = device_of wm q"
  by (induction ps arbitrary: wm) (auto simp: device_of_on_client)

lemma add_subscriptions_device: "cl_deviceID (fst (add_subscriptions ps q c)) = cl_deviceID c"
  by (induction ps q c rule: add_subscriptions.induct) (auto split: option.split)

lemma SubscribeToTopics_device: "cl_deviceID (fst (SubscribeToTopics ps q c)) = cl_deviceID c"
  by (simp add: SubscribeToTopics_def Let_def add_subscriptions_device)

lemma device_of_replace:
  "cl_deviceID c = cl_deviceID (client_at wm p) \<Longrightarrow> device_of (on_client p (\<lambda>_. c) wm) q = device_of wm q"
  by (auto simp: device_of_def on_client_def get_adjust client_at_def split: option.split)

lemma subscribe_clients_inv: "ws_inv wm \<Longrightarrow> ws_inv (fst (subscribe_clients ps patterns qos wm))"
proof (induction ps patterns qos wm rule: subscribe_clients.induct)
  case (2 p ps patterns qos wm)
  obtain c e where r: "SubscribeToTopics patterns qos (client_at wm p) = (c, e)"
    by (cases "SubscribeToTopics patterns qos (client_at wm p)")
  then have "cl_deviceID c = cl_deviceID (client_at wm p)"
    using SubscribeToTopics_device [of patterns qos "client_at wm p"] by simp
  then have "ws_inv (on_client p (\<lambda>_. c) wm)"
    by (intro ws_inv_cong [OF 2(2)]) (simp_all add: device_of_replace)
  with 2(1) [OF r [symmetric] refl] r show ?case by (cases e) simp_all
qed simp

lemma retained_inv: "ws_inv wm \<Longrightarrow> ws_inv (sendRetainedMessages now clients patterns wm)"
proof -
  have "ws_inv wm \<Longrightarrow>
      ws_inv (foldl (\<lambda>wm (topic, rm). foldl (\<lambda>wm p. fst (send_to (rm_Message rm) p wm)) wm clients) wm rs)" for rs
    by (induction rs arbitrary: wm) (auto intro: ws_inv_send_all)
  then show "ws_inv wm \<Longrightarrow> ws_inv (sendRetainedMessages now clients patterns wm)"
    by (simp add: sendRetainedMessages_def)
qed

lemma on_device_clients_inv:
  assumes "ws_inv wm" "\<And>c. cl_deviceID (f c) = cl_deviceID c"
  shows "ws_inv (fst (on_device_clients d f wm))"
proof -
  have "ws_inv (foldl (\<lambda>wm p. on_client p f wm) wm ps)" for ps
    by (rule ws_inv_cong [OF assms(1)]) (simp_all add: fold_on_client assms(2))
  with assms(1) show ?thesis by (simp add: on_device_clients_def Let_def)
qed

text \<open>The states the manager reaches when nobody calls \<open>DisconnectDevice\<close>.\<close>

inductive ws_reach :: "ws_manager \<Rightarrow> bool" where
  ws_new: "ws_reach NewManager_ws"
| ws_subscribe: "ws_reach wm \<Longrightarrow> \<not> known wm p \<Longrightarrow> ws_reach (fst (Subscribe p c wm))"
| ws_unsubscribe: "ws_reach wm \<Longrightarrow> ws_reach (unsubscribeClient now p lw wm)"
| ws_publish: "ws_reach wm \<Longrightarrow> ws_reach (PublishToTopic now topic msg wm)"
| ws_broadcast: "ws_reach wm \<Longrightarrow> ws_reach (BroadcastFiltered msg P wm)"
| ws_topics: "ws_reach wm \<Longrightarrow> ws_reach (fst (SubscribeClientToTopics now d patterns qos wm))"
| ws_untopics: "ws_reach wm \<Longrightarrow> ws_reach (fst (UnsubscribeClientFromTopics d patterns wm))"
| ws_will: "ws_reach wm \<Longrightarrow> ws_reach (fst (SetClientLastWill d lw wm))"
| ws_clear: "ws_reach wm \<Longrightarrow> ws_reach (fst (ClearClientLastWill d wm))"

lemma ws_reach_inv: "ws_reach wm \<Longrightarrow> ws_inv wm"
proof (induction rule: ws_reach.induct)
  case (ws_topics wm now d patterns qos)
  from subscribe_clients_inv [OF ws_topics.IH, of "get_zero [] (wm_clientsByDevice wm) d" patterns qos] ws_topics.IH
  show ?case
    by (auto simp: SubscribeClientToTopics_def Let_def intro: retained_inv split: prod.split option.split)
qed (auto intro: ws_inv_New Subscribe_inv unsubscribeClient_inv on_device_clients_inv
      simp: UnsubscribeClientFromTopics_def SetClientLastWill_def ClearClientLastWill_def UnsubscribeFromTopics_def)


definition chan :: "ws_manager \<Rightarrow> nat \<Rightarrow> ws_message list" where
  "chan wm p = (case cl_sendChan (client_at wm p) of None \<Rightarrow> [] | Some buf \<Rightarrow> buf)"

definition can_send :: "client \<Rightarrow> bool" where
  "can_send c \<longleftrightarrow> (case cl_sendChan c of None \<Rightarrow> False | Some buf \<Rightarrow> \<not> cl_chanClosed c \<and> length buf < cl_cap c)"

lemma TrySend_iff: "snd (TrySend msg c) \<longleftrightarrow> can_send c"
  by (simp add: TrySend_def can_send_def split: option.split)

lemma TrySend_chan:
  "(case cl_sendChan (fst (TrySend msg c)) of None \<Rightarrow> [] | Some buf \<Rightarrow> buf) =
   (case cl_sendChan c of None \<Rightarrow> [] | Some buf \<Rightarrow> buf) @ (if can_send c then [msg] else [])"
  by (simp add: TrySend_def can_send_def split: option.split)

lemma publish_chan:
  assumes "ws_reach wm" "topic = (if topic0 = [] then ms_Type msg else topic0)"
  shows "chan (PublishToTopic now topic0 msg wm) p =
           chan wm p @ (if p \<in> set (wm_clients wm) \<and> IsSubscribedTo (client_at wm p) topic
                           \<and> can_send (client_at wm p) \<and> (\<forall>e. ms_ExpiresAt msg = Some e \<longrightarrow> now \<le> e)
                        then [msg\<lparr>ms_Topic := topic\<rparr>] else [])"
proof -
  have inv: "distinct (wm_clients wm)" "\<forall>p \<in> set (wm_clients wm). known wm p"
    using ws_reach_inv [OF assms(1)] by (simp_all add: ws_inv_def)
  let ?msg = "msg\<lparr>ms_Topic := topic\<rparr>"
  let ?wm1 = "if ms_Retain msg then SetRetainedMessage now topic ?msg wm else wm"
  have w1: "wm_clients ?wm1 = wm_clients wm" "client_at ?wm1 q = client_at wm q" "known ?wm1 q = known wm q" for q
    by (simp_all add: SetRetainedMessage_def client_at_def known_def)
  have eq: "PublishToTopic now topic0 msg wm =
      (if \<exists>e. ms_ExpiresAt msg = Some e \<and> e < now then ?wm1
       else BroadcastFiltered ?msg (\<lambda>c. IsSubscribedTo c topic) ?wm1)"
    by (simp add: PublishToTopic_def Let_def assms(2) split: option.split)
  have "client_at (BroadcastFiltered ?msg (\<lambda>c. IsSubscribedTo c topic) ?wm1) p =
     (if p \<in> set (wm_clients wm) \<and> IsSubscribedTo (client_at wm p) topic
      then fst (TrySend ?msg (client_at wm p)) else client_at wm p)"
    by (subst BroadcastFiltered_client) (use inv w1 in auto)
  then have "chan (BroadcastFiltered ?msg (\<lambda>c. IsSubscribedTo c topic) ?wm1) p =
      chan wm p @ (if p \<in> set (wm_clients wm) \<and> IsSubscribedTo (client_at wm p) topic
        \<and> can_send (client_at wm p) then [?msg] else [])"
    by (simp add: chan_def TrySend_chan)
  moreover have "chan ?wm1 p = chan wm p" by (simp only: chan_def w1)
  ultimately show ?thesis by (auto simp: eq not_less)
qed


definition ws_two :: ws_manager where
  "ws_two = fst (SubscribeClientToTopics 1 ''tv'' [''news.+''] 0
     (fst (Subscribe 2 (NewClient ''tv'' 5) (fst (Subscribe 1 (NewClient ''phone'' 5) NewManager_ws)))))"

lemma ws_two_reach: "ws_reach ws_two"
proof -
  have "\<not> known NewManager_ws 1" "\<not> known (fst (Subscribe 1 (NewClient ''phone'' 5) NewManager_ws)) 2" by code_simp+
  then show ?thesis unfolding ws_two_def by (intro ws_topics ws_subscribe ws_new)
qed


lemma DisconnectDevice_clients:
  "wm_clients (fst (DisconnectDevice d wm)) = filter (\<lambda>p. device_of wm p \<noteq> d) (wm_clients wm)"
  "wm_clientsByDevice (fst (DisconnectDevice d wm)) = wm_clientsByDevice wm"
  "device_of (fst (DisconnectDevice d wm)) p = device_of wm p"
proof -
  have "device_of (wm\<lparr>wm_clients := x\<rparr>) p = device_of wm p" for wm x by (simp add: device_of_def)
  then show "wm_clients (fst (DisconnectDevice d wm)) = filter (\<lambda>p. device_of wm p \<noteq> d) (wm_clients wm)"
    "wm_clientsByDevice (fst (DisconnectDevice d wm)) = wm_clientsByDevice wm"
    "device_of (fst (DisconnectDevice d wm)) p = device_of wm p"
    by (simp_all add: DisconnectDevice_def Let_def fold_on_client closeSendChanSafe_def)
qed

text \<open>As long as devices come and go by \<open>Subscribe\<close> and \<open>Unsubscribe\<close>, a device has an entry in the
  table by device exactly while it is connected.  \<open>DisconnectDevice\<close>, which revoking a device calls,
  breaks this for good: the device is no longer connected, but its entry stays, the later
  \<open>Unsubscribe\<close> of the closed connections changes nothing at all, and requests for the device's
  topics still succeed on the dead clients.\<close>
theorem disconnected_device_stays_indexed:
  assumes "ws_reach wm" "HasDeviceConnection wm d" "DisconnectDevice d wm = (wm', n)"
  shows "(\<forall>e. get_zero [] (wm_clientsByDevice wm) e \<noteq> [] \<longleftrightarrow> HasDeviceConnection wm e)
       \<and> \<not> HasDeviceConnection wm' d \<and> get_zero [] (wm_clientsByDevice wm') d \<noteq> []
       \<and> (\<forall>p \<in> set (get_zero [] (wm_clientsByDevice wm') d). Unsubscribe now p wm' = wm')
       \<and> snd (UnsubscribeClientFromTopics d patterns wm') = None
       \<and> snd (SendToDevice d msg wm') = Some (DeviceNotConnected d)"
proof -
  have inv: "ws_inv wm" by (rule ws_reach_inv [OF assms(1)])
  have idx: "set (get_zero [] (wm_clientsByDevice wm) e) = {p \<in> set (wm_clients wm). device_of wm p = e}" for e
    using inv by (simp add: ws_inv_def)
  have conn: "get_zero [] (wm_clientsByDevice wm) e \<noteq> [] \<longleftrightarrow> HasDeviceConnection wm e" for e
  proof -
    have "get_zero [] (wm_clientsByDevice wm) e \<noteq> [] \<longleftrightarrow> set (get_zero [] (wm_clientsByDevice wm) e) \<noteq> {}" by simp
    then show ?thesis unfolding idx by (auto simp: HasDeviceConnection_def list_ex_iff)
  qed
  have w: "wm_clients wm' = filter (\<lambda>p. device_of wm p \<noteq> d) (wm_clients wm)"
    "wm_clientsByDevice wm' = wm_clientsByDevice wm" "device_of wm' p = device_of wm p" for p
    using DisconnectDevice_clients [of d wm] assms(3) by simp_all
  have gone: "\<not> HasDeviceConnection wm' d" by (simp add: HasDeviceConnection_def w list_ex_iff)
  have "Unsubscribe now p wm' = wm'" if "p \<in> set (get_zero [] (wm_clientsByDevice wm') d)" for p
    using that by (simp add: Unsubscribe_def unsubscribeClient_def Let_def w idx)
  moreover have "get_zero [] (wm_clientsByDevice wm') d \<noteq> []" using conn assms(2) by (simp add: w)
  moreover from this have "snd (UnsubscribeClientFromTopics d patterns wm') = None"
    by (simp add: UnsubscribeClientFromTopics_def on_device_clients_def Let_def)
  moreover have "filter (\<lambda>p. device_of wm' p = d) (wm_clients wm') = []"
    by (simp add: w filter_empty_conv)
  then have "snd (SendToDevice d msg wm') = Some (DeviceNotConnected d)" by (simp add: SendToDevice_def)
  ultimately show ?thesis using conn gone by blast
qed

theorem disconnected_device_stays_indexed_witness:
  "\<not> HasDeviceConnection (fst (DisconnectDevice ''tv'' ws_two)) ''tv''
   \<and> get_zero [] (wm_clientsByDevice (fst (DisconnectDevice ''tv'' ws_two))) ''tv'' \<noteq> []"
proof -
  have c: "HasDeviceConnection ws_two ''tv''" by code_simp
  have d: "DisconnectDevice ''tv'' ws_two = (fst (DisconnectDevice ''tv'' ws_two), snd (DisconnectDevice ''tv'' ws_two))" by simp
  from disconnected_device_stays_indexed [OF ws_two_reach c d] show ?thesis by blast
qed

end
