(* ===== verification/Expiry.thy ===== *)
theory Expiry
  imports Prelude
begin

text \<open>
  The interface of a table whose entries expire: a key is granted until an instant, a periodic
  sweep drops what has expired, and a look-up at some instant says whether the key is still live.
  Its client lemma is that sweeping can never be noticed: a table that is swept at any moments
  answers as one that only remembers the last grant.
\<close>

datatype 'k expiry_op = Grant 'k gotime | Purge gotime

fun last_grant :: "'k expiry_op list \<Rightarrow> 'k \<Rightarrow> gotime option \<Rightarrow> gotime option" where
  "last_grant [] k d = d"
| "last_grant (Grant k' e # ops) k d = last_grant ops k (if k' = k then Some e else d)"
| "last_grant (Purge t # ops) k d = last_grant ops k d"

fun purges_before :: "gotime \<Rightarrow> 'k expiry_op list \<Rightarrow> bool" where
  "purges_before t [] = True"
| "purges_before t (Grant k e # ops) = purges_before t ops"
| "purges_before t (Purge u # ops) = (u \<le> t \<and> purges_before t ops)"

lemma last_grant_default:
  "last_grant ops k d = (case last_grant ops k None of None \<Rightarrow> d | Some e \<Rightarrow> Some e)"
proof (induction ops arbitrary: d)
  case Nil
  then show ?case by simp
next
  case (Cons x ops)
  show ?case
  proof (cases x)
    case (Grant k' e)
    then show ?thesis using Cons.IH [of d] Cons.IH [of "Some e"] by (auto split: option.splits)
  next
    case (Purge t)
    then show ?thesis using Cons.IH [of d] by simp
  qed
qed

locale expiring_store =
  fixes live :: "'s \<Rightarrow> gotime \<Rightarrow> 'k \<Rightarrow> bool"
    and grant :: "'s \<Rightarrow> 'k \<Rightarrow> gotime \<Rightarrow> 's"
    and purge :: "'s \<Rightarrow> gotime \<Rightarrow> 's"
    and inv :: "'s \<Rightarrow> bool"
    and opn :: "'s \<Rightarrow> 'k \<Rightarrow> bool"
  assumes inv_grant: "inv s \<Longrightarrow> inv (grant s k e)"
    and inv_purge: "inv s \<Longrightarrow> inv (purge s now)"
    and opn_grant: "opn (grant s k e) k' = opn s k'"
    and opn_purge: "opn (purge s now) k = opn s k"
    and live_grant: "inv s \<Longrightarrow> live (grant s k e) t k' = (if k' = k then opn s k \<and> t \<le> e else live s t k')"
    and live_purge: "inv s \<Longrightarrow> now \<le> t \<Longrightarrow> live (purge s now) t k = live s t k"
    and live_until: "inv s \<Longrightarrow> live s t' k \<Longrightarrow> t \<le> t' \<Longrightarrow> live s t k"
begin

fun apply_op :: "'s \<Rightarrow> 'k expiry_op \<Rightarrow> 's" where
  "apply_op s (Grant k e) = grant s k e"
| "apply_op s (Purge t) = purge s t"

lemma run_inv: "inv s \<Longrightarrow> inv (foldl apply_op s ops)"
proof (induction ops arbitrary: s)
  case (Cons x ops)
  then show ?case by (cases x) (simp_all add: inv_grant inv_purge)
qed simp

lemma run_opn: "opn (foldl apply_op s ops) k = opn s k"
proof (induction ops arbitrary: s)
  case (Cons x ops)
  then show ?case by (cases x) (simp_all add: opn_grant opn_purge)
qed simp

lemma live_run:
  assumes "inv s" "purges_before t ops"
  shows "live (foldl apply_op s ops) t k =
    (case last_grant ops k None of None \<Rightarrow> live s t k | Some e \<Rightarrow> opn s k \<and> t \<le> e)"
  using assms
proof (induction ops arbitrary: s)
  case Nil
  then show ?case by simp
next
  case (Cons x ops)
  show ?case
  proof (cases x)
    case (Grant k' e)
    have "live (foldl apply_op s (x # ops)) t k =
        (case last_grant ops k None of None \<Rightarrow> live (grant s k' e) t k | Some e' \<Rightarrow> opn s k \<and> t \<le> e')"
      using Cons.IH [of "grant s k' e"] Cons.prems Grant by (simp add: inv_grant opn_grant split: option.split)
    also have "\<dots> = (case last_grant (x # ops) k None of None \<Rightarrow> live s t k | Some e \<Rightarrow> opn s k \<and> t \<le> e)"
      using Cons.prems(1) Grant last_grant_default [of ops k "Some e"]
      by (auto simp: live_grant split: option.splits)
    finally show ?thesis .
  next
    case (Purge u)
    then show ?thesis using Cons.IH [of "purge s u"] Cons.prems 
      by (simp add: inv_purge opn_purge live_purge split: option.split)
  qed
qed

text \<open>What a grant promises: it lasts until its expiry, through any sweeps and other grants.\<close>

lemma granted_until:
  assumes "inv s" "opn s k" "purges_before t ops" "last_grant ops k None = None"
  shows "live (foldl apply_op (grant s k e) ops) t k \<longleftrightarrow> t \<le> e"
  using live_run [OF inv_grant [OF assms(1)] assms(3)] assms by (simp add: live_grant)

text \<open>Once dead, a key stays dead until it is granted again.\<close>

lemma dead_stays_dead:
  assumes "inv s" "\<not> live s t k" "t \<le> t'" "purges_before t' ops" "last_grant ops k None = None"
  shows "\<not> live (foldl apply_op s ops) t' k"
  using live_run [OF assms(1,4), of k] live_until [OF assms(1), of t' k t] assms by auto

end

end
