(* ===== verification/QoS.thy ===== *)
theory QoS
  imports WebSocket Expiry
begin

text \<open>
  \<open>internal/websocket/qos.go\<close> and \<open>session.go\<close>: the tracker that resends unacknowledged messages (QoS 1),
  the table that recognises duplicates (QoS 2), and sessions that carry a client's subscriptions over
  a reconnection.  The check loop is a step; its two callbacks are the events it returns.
  \<open>uuid n\<close> is the \<open>n\<close>-th identifier the uuid library hands out.
\<close>

section \<open>At least once\<close>

record pending_ack =
  pk_MessageID :: string
  pk_DeviceID :: string
  pk_Topic :: string
  pk_Message :: ws_message
  pk_QoS :: int
  pk_Status :: string
  pk_RetryCount :: int
  pk_SentAt :: gotime
  pk_ExpiresAt :: gotime

record qos_tracker =
  qt_pending :: "(string, pending_ack) gomap"
  qt_ACKTimeout :: duration
  qt_MaxRetries :: int
  qt_issued :: nat

definition NewQoSTracker :: "duration \<Rightarrow> int \<Rightarrow> qos_tracker" where
  "NewQoSTracker ackTimeout maxRetries =
     \<lparr>qt_pending = [], qt_ACKTimeout = (if ackTimeout = 0 then 30 * second else ackTimeout),
      qt_MaxRetries = (if maxRetries = 0 then 3 else maxRetries), qt_issued = 0\<rparr>"

definition RegisterQoS1 ::
  "(nat \<Rightarrow> string) \<Rightarrow> gotime \<Rightarrow> string \<Rightarrow> string \<Rightarrow> ws_message \<Rightarrow> qos_tracker \<Rightarrow> qos_tracker \<times> string" where
  "RegisterQoS1 uuid now deviceID topic msg t =
     (let messageID = uuid (qt_issued t) in
      (t\<lparr>qt_issued := qt_issued t + 1,
         qt_pending := put messageID
           \<lparr>pk_MessageID = messageID, pk_DeviceID = deviceID, pk_Topic = topic, pk_Message = msg, pk_QoS = 1,
            pk_Status = ''pending'', pk_RetryCount = 0, pk_SentAt = now, pk_ExpiresAt = now + qt_ACKTimeout t\<rparr>
           (qt_pending t)\<rparr>, messageID))"

definition QoS_ACK :: "string \<Rightarrow> qos_tracker \<Rightarrow> qos_tracker \<times> bool" where
  "QoS_ACK messageID t =
     (if has (qt_pending t) messageID then (t\<lparr>qt_pending := del messageID (qt_pending t)\<rparr>, True) else (t, False))"

definition QoS_Cancel :: "string \<Rightarrow> qos_tracker \<Rightarrow> qos_tracker" where
  "QoS_Cancel messageID t = t\<lparr>qt_pending := del messageID (qt_pending t)\<rparr>"

definition CancelForDevice :: "string \<Rightarrow> qos_tracker \<Rightarrow> qos_tracker \<times> int" where
  "CancelForDevice deviceID t =
     (t\<lparr>qt_pending := del_if (\<lambda>i p. pk_DeviceID p = deviceID) (qt_pending t)\<rparr>,
      int (length (filter (\<lambda>(i, p). pk_DeviceID p = deviceID) (qt_pending t))))"

definition PendingCount :: "qos_tracker \<Rightarrow> int" where
  "PendingCount t = int (length (qt_pending t))"

definition GetPending :: "qos_tracker \<Rightarrow> string \<Rightarrow> pending_ack option" where
  "GetPending t messageID = get (qt_pending t) messageID"

datatype qos_event = Retry string string string int | TimedOut string string string

definition late_ack :: "gotime \<Rightarrow> pending_ack \<Rightarrow> bool" where
  "late_ack now p \<longleftrightarrow> After now (pk_ExpiresAt p)"

definition resend :: "gotime \<Rightarrow> qos_tracker \<Rightarrow> pending_ack \<Rightarrow> pending_ack" where
  "resend now t p = p\<lparr>pk_RetryCount := pk_RetryCount p + 1, pk_ExpiresAt := now + qt_ACKTimeout t, pk_Status := ''sent''\<rparr>"

definition check_entry ::
  "gotime \<Rightarrow> qos_tracker \<Rightarrow> string \<times> pending_ack \<Rightarrow> (string \<times> pending_ack) list \<times> qos_event list \<times> qos_event list" where
  "check_entry now t e =
     (case e of (i, p) \<Rightarrow>
        if late_ack now p
        then if pk_RetryCount p \<ge> qt_MaxRetries t
             then ([], [], [TimedOut (pk_MessageID p) (pk_DeviceID p) (pk_Topic p)])
             else (let p' = resend now t p in
                   ([(i, p')], [Retry (pk_MessageID p) (pk_DeviceID p) (pk_Topic p) (pk_RetryCount p')], []))
        else ([(i, p)], [], []))"

text \<open>The retry callbacks start while the loop runs, the time-out callbacks follow it.\<close>

definition QoS_checkTimeouts :: "gotime \<Rightarrow> qos_tracker \<Rightarrow> qos_tracker \<times> qos_event list" where
  "QoS_checkTimeouts now t =
     (let rs = map (check_entry now t) (qt_pending t) in
      (t\<lparr>qt_pending := concat (map fst rs)\<rparr>,
       concat (map (\<lambda>r. fst (snd r)) rs) @ concat (map (\<lambda>r. snd (snd r)) rs)))"

section \<open>Exactly once\<close>

record qos2_tracker =
  q2_processed :: "(string, string \<times> gotime) gomap"
  q2_DedupWindow :: duration

definition NewQoS2Tracker :: "duration \<Rightarrow> qos2_tracker" where
  "NewQoS2Tracker w = \<lparr>q2_processed = [], q2_DedupWindow = (if w = 0 then 5 * minute else w)\<rparr>"

definition dedup_key :: "string \<Rightarrow> string \<Rightarrow> string" where
  "dedup_key messageID deviceID = messageID @ '':'' @ deviceID"

definition Register2 :: "gotime \<Rightarrow> string \<Rightarrow> string \<Rightarrow> qos2_tracker \<Rightarrow> qos2_tracker \<times> bool" where
  "Register2 now messageID deviceID t =
     (let key = dedup_key messageID deviceID;
          add = (\<lambda>m. t\<lparr>q2_processed := put key (deviceID, now + q2_DedupWindow t) m\<rparr>)
      in case get (q2_processed t) key of
           Some (d, e) \<Rightarrow> if After now e then (add (del key (q2_processed t)), True) else (t, False)
         | None \<Rightarrow> (add (q2_processed t), True))"

definition IsProcessed :: "gotime \<Rightarrow> string \<Rightarrow> string \<Rightarrow> qos2_tracker \<Rightarrow> bool" where
  "IsProcessed now messageID deviceID t =
     (case get (q2_processed t) (dedup_key messageID deviceID) of
        None \<Rightarrow> False
      | Some (d, e) \<Rightarrow> \<not> After now e)"

definition Remove2 :: "string \<Rightarrow> string \<Rightarrow> qos2_tracker \<Rightarrow> qos2_tracker" where
  "Remove2 messageID deviceID t = t\<lparr>q2_processed := del (dedup_key messageID deviceID) (q2_processed t)\<rparr>"

definition cleanExpired2 :: "gotime \<Rightarrow> qos2_tracker \<Rightarrow> qos2_tracker" where
  "cleanExpired2 now t = t\<lparr>q2_processed := del_if (\<lambda>k (d, e). After now e) (q2_processed t)\<rparr>"

definition ProcessedCount :: "qos2_tracker \<Rightarrow> int" where
  "ProcessedCount t = int (length (q2_processed t))"

section \<open>Sessions\<close>

record session =
  se_DeviceID :: string
  se_Subscriptions :: "(string, int) gomap"
  se_LastWill :: "last_will option"
  se_CreatedAt :: gotime
  se_LastSeen :: gotime

type_synonym session_store = "(string, session) gomap"

definition SaveSession :: "session \<Rightarrow> session_store \<Rightarrow> session_store" where
  "SaveSession s m = put (se_DeviceID s) s m"

definition GetSession :: "session_store \<Rightarrow> string \<Rightarrow> session option" where
  "GetSession m deviceID = get m deviceID"

definition DeleteSession :: "string \<Rightarrow> session_store \<Rightarrow> session_store" where
  "DeleteSession deviceID m = del deviceID m"

definition SessionUpdateLastSeen :: "gotime \<Rightarrow> string \<Rightarrow> session_store \<Rightarrow> session_store" where
  "SessionUpdateLastSeen now deviceID m = adjust deviceID (\<lambda>s. s\<lparr>se_LastSeen := now\<rparr>) m"

definition CleanExpiredSessions :: "gotime \<Rightarrow> duration \<Rightarrow> session_store \<Rightarrow> session_store \<times> int" where
  "CleanExpiredSessions now maxAge m =
     (let old = (\<lambda>i s. Before (se_LastSeen s) (now - maxAge)) in
      (del_if old m, int (length (filter (\<lambda>(i, s). old i s) m))))"

definition SessionFromClient :: "gotime \<Rightarrow> client \<Rightarrow> session" where
  "SessionFromClient now c =
     \<lparr>se_DeviceID = cl_deviceID c, se_Subscriptions = cl_subscriptions c, se_LastWill = cl_lastWill c,
      se_CreatedAt = now, se_LastSeen = now\<rparr>"

definition RestoreClientFromSession :: "session option \<Rightarrow> client \<Rightarrow> client" where
  "RestoreClientFromSession s c =
     (case s of
        None \<Rightarrow> c
      | Some s \<Rightarrow>
          (let c1 = foldl (\<lambda>c (pattern, qos). fst (SubscribeToTopics [pattern] qos c)) c (se_Subscriptions s)
           in case se_LastWill s of None \<Rightarrow> c1 | Some lw \<Rightarrow> c1\<lparr>cl_lastWill := Some lw\<rparr>))"

text \<open>The session manager; a nil store makes every operation do nothing.\<close>

record session_manager =
  sm_store :: "session_store option"
  sm_sessionExpiry :: duration

definition NewSessionManager :: "session_store option \<Rightarrow> duration \<Rightarrow> session_manager" where
  "NewSessionManager st expiry =
     \<lparr>sm_store = st, sm_sessionExpiry = (if expiry = 0 then 24 * hour else expiry)\<rparr>"

definition SaveClientSession :: "gotime \<Rightarrow> client \<Rightarrow> session_manager \<Rightarrow> session_manager" where
  "SaveClientSession now c m = m\<lparr>sm_store := map_option (SaveSession (SessionFromClient now c)) (sm_store m)\<rparr>"

definition RestoreClientSession :: "session_manager \<Rightarrow> client \<Rightarrow> client" where
  "RestoreClientSession m c =
     (case sm_store m of None \<Rightarrow> c | Some st \<Rightarrow> RestoreClientFromSession (GetSession st (cl_deviceID c)) c)"

definition DeleteClientSession :: "string \<Rightarrow> session_manager \<Rightarrow> session_manager" where
  "DeleteClientSession deviceID m = m\<lparr>sm_store := map_option (DeleteSession deviceID) (sm_store m)\<rparr>"

definition UpdateClientLastSeen :: "gotime \<Rightarrow> string \<Rightarrow> session_manager \<Rightarrow> session_manager" where
  "UpdateClientLastSeen now deviceID m = m\<lparr>sm_store := map_option (SessionUpdateLastSeen now deviceID) (sm_store m)\<rparr>"

definition CleanSessions :: "gotime \<Rightarrow> session_manager \<Rightarrow> session_manager \<times> int" where
  "CleanSessions now m =
     (case sm_store m of
        None \<Rightarrow> (m, 0)
      | Some st \<Rightarrow> (case CleanExpiredSessions now (sm_sessionExpiry m) st of
                     (st', n) \<Rightarrow> (m\<lparr>sm_store := Some st'\<rparr>, n)))"

section \<open>The table of pending messages\<close>

text \<open>What a check makes of the entry of one message, and of the whole table.\<close>

definition checked :: "gotime \<Rightarrow> qos_tracker \<Rightarrow> pending_ack \<Rightarrow> pending_ack option" where
  "checked now t p =
     (if \<not> late_ack now p then Some p else if pk_RetryCount p \<ge> qt_MaxRetries t then None else Some (resend now t p))"

definition qos_wf :: "(nat \<Rightarrow> string) \<Rightarrow> qos_tracker \<Rightarrow> bool" where
  "qos_wf uuid t \<longleftrightarrow> inj uuid \<and> wf_map (qt_pending t) \<and>
     (\<forall>i p. get (qt_pending t) i = Some p \<longrightarrow> pk_MessageID p = i \<and> (\<exists>n < qt_issued t. i = uuid n))"

lemma check_entry_fst:
  "fst (check_entry now t (i, p)) = (case checked now t p of None \<Rightarrow> [] | Some p' \<Rightarrow> [(i, p')])"
  by (simp add: check_entry_def checked_def Let_def)

lemma keys_of_check: "fst ` set (concat (map (\<lambda>e. fst (check_entry now t e)) m)) \<subseteq> fst ` set m"
  by (induction m) (auto simp: check_entry_fst split: option.splits)

lemma check_table:
  "QoS_checkTimeouts now t = (t', evs) \<Longrightarrow>
     qt_pending t' = concat (map (\<lambda>e. fst (check_entry now t e)) (qt_pending t)) \<and> qt_issued t' = qt_issued t
     \<and> qt_ACKTimeout t' = qt_ACKTimeout t \<and> qt_MaxRetries t' = qt_MaxRetries t"
  by (auto simp: QoS_checkTimeouts_def Let_def comp_def)

lemma wf_map_check: "wf_map m \<Longrightarrow> wf_map (concat (map (\<lambda>e. fst (check_entry now t e)) m))"
proof (induction m)
  case (Cons e m)
  obtain i p where e: "e = (i, p)" by (cases e)
  have "i \<notin> fst ` set (concat (map (\<lambda>e. fst (check_entry now t e)) m))"
    using keys_of_check [of now t m] Cons.prems by (auto simp: e wf_map_def)
  then show ?case using Cons by (auto simp: e wf_map_def check_entry_fst split: option.split)
qed simp

lemma get_check:
  "wf_map m \<Longrightarrow> get (concat (map (\<lambda>e. fst (check_entry now t e)) m)) i = Option.bind (get m i) (checked now t)"
proof (induction m)
  case (Cons e m)
  obtain j p where e: "e = (j, p)" by (cases e)
  have "get (concat (map (\<lambda>e. fst (check_entry now t e)) m)) j = None"
    using keys_of_check [of now t m] Cons.prems by (auto simp: e wf_map_def map_of_eq_None_iff)
  then show ?case using Cons by (auto simp: e check_entry_fst wf_map_def split: option.split)
qed simp

section \<open>Runs of the tracker\<close>

datatype qos_op =
    QRegister gotime string string ws_message
  | QAck string
  | QCancel string
  | QCancelDevice string
  | QCheck gotime

fun qos_step :: "(nat \<Rightarrow> string) \<Rightarrow> qos_op \<Rightarrow> qos_tracker \<Rightarrow> qos_tracker \<times> qos_event list" where
  "qos_step uuid (QRegister now d topic msg) t = (fst (RegisterQoS1 uuid now d topic msg t), [])"
| "qos_step uuid (QAck i) t = (fst (QoS_ACK i t), [])"
| "qos_step uuid (QCancel i) t = (QoS_Cancel i t, [])"
| "qos_step uuid (QCancelDevice d) t = (fst (CancelForDevice d t), [])"
| "qos_step uuid (QCheck now) t = QoS_checkTimeouts now t"

fun qos_run :: "(nat \<Rightarrow> string) \<Rightarrow> qos_op list \<Rightarrow> qos_tracker \<Rightarrow> qos_tracker \<times> qos_event list" where
  "qos_run uuid [] t = (t, [])"
| "qos_run uuid (op # ops) t =
     (case qos_step uuid op t of (t1, evs) \<Rightarrow> case qos_run uuid ops t1 of (t2, evs') \<Rightarrow> (t2, evs @ evs'))"

fun leaves_alone :: "string \<Rightarrow> string \<Rightarrow> qos_op \<Rightarrow> bool" where
  "leaves_alone m d (QAck i) \<longleftrightarrow> i \<noteq> m"
| "leaves_alone m d (QCancel i) \<longleftrightarrow> i \<noteq> m"
| "leaves_alone m d (QCancelDevice d') \<longleftrightarrow> d' \<noteq> d"
| "leaves_alone m d op \<longleftrightarrow> True"

text \<open>The checks that find the deadline passed, the deadline moving with each of them.\<close>

fun late_checks :: "duration \<Rightarrow> gotime \<Rightarrow> qos_op list \<Rightarrow> nat" where
  "late_checks d e [] = 0"
| "late_checks d e (QCheck now # ops) = (if now > e then Suc (late_checks d (now + d) ops) else late_checks d e ops)"
| "late_checks d e (op # ops) = late_checks d e ops"

fun attempts_of :: "string \<Rightarrow> qos_event list \<Rightarrow> int list" where
  "attempts_of m [] = []"
| "attempts_of m (Retry i d topic k # evs) = (if i = m then [k] else []) @ attempts_of m evs"
| "attempts_of m (TimedOut i d topic # evs) = attempts_of m evs"

fun timeouts_of :: "string \<Rightarrow> qos_event list \<Rightarrow> nat" where
  "timeouts_of m [] = 0"
| "timeouts_of m (Retry i d topic k # evs) = timeouts_of m evs"
| "timeouts_of m (TimedOut i d topic # evs) = (if i = m then 1 else 0) + timeouts_of m evs"

lemma attempts_append [simp]: "attempts_of m (xs @ ys) = attempts_of m xs @ attempts_of m ys"
  by (induction m xs rule: attempts_of.induct) simp_all

lemma timeouts_append [simp]: "timeouts_of m (xs @ ys) = timeouts_of m xs + timeouts_of m ys"
  by (induction m xs rule: timeouts_of.induct) simp_all

lemma check_entry_snd:
  "snd (check_entry now t (i, p)) =
     (if \<not> late_ack now p then ([], [])
      else if pk_RetryCount p \<ge> qt_MaxRetries t then ([], [TimedOut (pk_MessageID p) (pk_DeviceID p) (pk_Topic p)])
      else ([Retry (pk_MessageID p) (pk_DeviceID p) (pk_Topic p) (pk_RetryCount p + 1)], []))"
  by (simp add: check_entry_def resend_def Let_def)

lemma check_events:
  fixes now :: gotime and t :: qos_tracker
  assumes "wf_map ps" "\<forall>(i, p) \<in> set ps. pk_MessageID p = i"
  defines "rs \<equiv> map (check_entry now t) ps"
  shows "attempts_of m (concat (map (\<lambda>r. fst (snd r)) rs) @ concat (map (\<lambda>r. snd (snd r)) rs)) =
      (case get ps m of
         Some p \<Rightarrow> if late_ack now p \<and> pk_RetryCount p < qt_MaxRetries t then [pk_RetryCount p + 1] else []
       | None \<Rightarrow> [])"
    "timeouts_of m (concat (map (\<lambda>r. fst (snd r)) rs) @ concat (map (\<lambda>r. snd (snd r)) rs)) =
      (case get ps m of
         Some p \<Rightarrow> if late_ack now p \<and> pk_RetryCount p \<ge> qt_MaxRetries t then 1 else 0
       | None \<Rightarrow> 0)"
proof -
  have none: "attempts_of m (concat (map (\<lambda>r. fst (snd r)) (map (check_entry now t) qs))) = []
     \<and> timeouts_of m (concat (map (\<lambda>r. snd (snd r)) (map (check_entry now t) qs))) = 0"
    if "get qs m = None" "\<forall>(i, p) \<in> set qs. pk_MessageID p = i" for qs
    using that by (induction qs) (auto simp: check_entry_snd split: if_splits)
  have zero: "attempts_of m (concat (map (\<lambda>r. snd (snd r)) (map (check_entry now t) qs))) = []
     \<and> timeouts_of m (concat (map (\<lambda>r. fst (snd r)) (map (check_entry now t) qs))) = 0" for qs
    by (induction qs) (auto simp: check_entry_snd)
  have "attempts_of m (concat (map (\<lambda>r. fst (snd r)) rs)) =
      (case get ps m of
         Some p \<Rightarrow> if late_ack now p \<and> pk_RetryCount p < qt_MaxRetries t then [pk_RetryCount p + 1] else []
       | None \<Rightarrow> []) \<and>
     timeouts_of m (concat (map (\<lambda>r. snd (snd r)) rs)) =
      (case get ps m of
         Some p \<Rightarrow> if late_ack now p \<and> pk_RetryCount p \<ge> qt_MaxRetries t then 1 else 0
       | None \<Rightarrow> 0)"
    unfolding rs_def using assms(1,2)
  proof (induction ps)
    case (Cons e ps)
    obtain i p where e: "e = (i, p)" by (cases e)
    have id: "pk_MessageID p = i" using Cons.prems(2) by (simp add: e)
    have rest: "wf_map ps" "get ps i = None" using wf_map_ConsD [of i p ps] Cons.prems(1) by (simp_all add: e)
    show ?case
    proof (cases "i = m")
      case True
      then show ?thesis using none [of ps] rest Cons.prems(2) id
        by (auto simp: e check_entry_snd)
    next
      case False
      then show ?thesis using Cons.IH rest(1) Cons.prems(2) id by (auto simp: e check_entry_snd)
    qed
  qed simp
  then show "attempts_of m (concat (map (\<lambda>r. fst (snd r)) rs) @ concat (map (\<lambda>r. snd (snd r)) rs)) =
      (case get ps m of
         Some p \<Rightarrow> if late_ack now p \<and> pk_RetryCount p < qt_MaxRetries t then [pk_RetryCount p + 1] else []
       | None \<Rightarrow> [])"
    "timeouts_of m (concat (map (\<lambda>r. fst (snd r)) rs) @ concat (map (\<lambda>r. snd (snd r)) rs)) =
      (case get ps m of
         Some p \<Rightarrow> if late_ack now p \<and> pk_RetryCount p \<ge> qt_MaxRetries t then 1 else 0
       | None \<Rightarrow> 0)"
    using zero [of ps] by (simp_all add: rs_def)
qed

text \<open>One step, seen from one message.\<close>

lemma step_alone:
  assumes "qos_wf uuid t" "qos_step uuid op t = (t', evs)"
  shows "qos_wf uuid t'" "qt_ACKTimeout t' = qt_ACKTimeout t" "qt_MaxRetries t' = qt_MaxRetries t"
    "get (qt_pending t) (uuid n) = None \<Longrightarrow> n < qt_issued t \<Longrightarrow>
       get (qt_pending t') (uuid n) = None \<and> n < qt_issued t' \<and> attempts_of (uuid n) evs = [] \<and> timeouts_of (uuid n) evs = 0"
    "get (qt_pending t) m = Some p \<Longrightarrow> leaves_alone m (pk_DeviceID p) op \<Longrightarrow> (\<nexists>now. op = QCheck now) \<Longrightarrow>
       get (qt_pending t') m = Some p \<and> evs = []"
    "qt_issued t \<le> qt_issued t'"
proof -
  from assms(1) have wf: "inj uuid" "wf_map (qt_pending t)"
      "\<forall>i p. get (qt_pending t) i = Some p \<longrightarrow> pk_MessageID p = i \<and> (\<exists>n < qt_issued t. i = uuid n)"
    by (auto simp: qos_wf_def)
  have ids: "\<forall>(i, p) \<in> set (qt_pending t). pk_MessageID p = i" using wf(2,3) get_iff_in [OF wf(2)] by fastforce
  have fresh: "get (qt_pending t) (uuid (qt_issued t)) = None"
    using wf(1,3) by (cases "get (qt_pending t) (uuid (qt_issued t))") (auto dest: injD)
  have chk: "qt_pending t' = concat (map (\<lambda>e. fst (check_entry now t e)) (qt_pending t)) \<and> qt_issued t' = qt_issued t
      \<and> qt_ACKTimeout t' = qt_ACKTimeout t \<and> qt_MaxRetries t' = qt_MaxRetries t" if "op = QCheck now" for now
    using check_table assms(2) that by simp
  show same: "qt_ACKTimeout t' = qt_ACKTimeout t" "qt_MaxRetries t' = qt_MaxRetries t" "qt_issued t \<le> qt_issued t'"
    using assms(2) chk by (cases op; auto simp: RegisterQoS1_def QoS_ACK_def QoS_Cancel_def CancelForDevice_def Let_def)+
  show "qos_wf uuid t'"
  proof (cases op)
    case (QCheck now)
    have "pk_MessageID p' = i \<and> (\<exists>n < qt_issued t. i = uuid n)" if "get (qt_pending t') i = Some p'" for i p'
      using that wf(3) chk [OF QCheck] get_check [OF wf(2)]
      by (auto simp: checked_def resend_def split: Option.bind_splits if_splits)
    then show ?thesis using wf(1,2) chk [OF QCheck] wf_map_check by (auto simp: qos_wf_def)
  next
    case (QRegister now d topic msg)
    then have t': "qt_issued t' = Suc (qt_issued t)" "wf_map (qt_pending t')"
        "get (qt_pending t') i = Some p \<Longrightarrow> i = uuid (qt_issued t) \<and> pk_MessageID p = i \<or> get (qt_pending t) i = Some p" for i p
      using assms(2) wf(2) by (auto simp: RegisterQoS1_def Let_def get_put split: if_splits)
    have "pk_MessageID p = i \<and> (\<exists>n < qt_issued t'. i = uuid n)" if "get (qt_pending t') i = Some p" for i p
      using t'(3) [OF that] wf(3) unfolding t'(1) less_Suc_eq by blast
    then show ?thesis using wf(1) t'(2) by (simp add: qos_wf_def)
  qed (use assms(2) wf in \<open>auto simp: qos_wf_def QoS_ACK_def QoS_Cancel_def CancelForDevice_def
      Let_def get_put get_del get_del_if less_Suc_eq split: if_splits option.splits\<close>)
  show "get (qt_pending t') (uuid n) = None \<and> n < qt_issued t' \<and> attempts_of (uuid n) evs = [] \<and> timeouts_of (uuid n) evs = 0"
    if g: "get (qt_pending t) (uuid n) = None" "n < qt_issued t"
  proof (cases op)
    case (QCheck now)
    then have "evs = snd (QoS_checkTimeouts now t)" using assms(2) by simp
    then show ?thesis using g chk [OF QCheck] get_check [OF wf(2)] check_events [OF wf(2) ids, where now = now and t = t and m = "uuid n"]
      by (simp add: QoS_checkTimeouts_def Let_def)
  qed (use assms(2) wf g in \<open>auto simp: RegisterQoS1_def QoS_ACK_def QoS_Cancel_def CancelForDevice_def
      Let_def get_put get_del get_del_if split: if_splits option.splits dest: injD\<close>)
  show "get (qt_pending t') m = Some p \<and> evs = []"
    if g: "get (qt_pending t) m = Some p" "leaves_alone m (pk_DeviceID p) op" "\<nexists>now. op = QCheck now"
    using g assms(2) wf fresh by (cases op) (auto simp: RegisterQoS1_def QoS_ACK_def QoS_Cancel_def CancelForDevice_def
      Let_def get_put get_del get_del_if split: if_splits option.splits)
qed

lemma run_absent:
  assumes "qos_wf uuid t" "get (qt_pending t) (uuid n) = None" "n < qt_issued t" "qos_run uuid ops t = (t', evs)"
  shows "get (qt_pending t') (uuid n) = None \<and> attempts_of (uuid n) evs = [] \<and> timeouts_of (uuid n) evs = 0"
  using assms
proof (induction ops arbitrary: t evs)
  case (Cons op ops)
  obtain t1 e1 where s: "qos_step uuid op t = (t1, e1)" by fastforce
  obtain e2 where r: "qos_run uuid ops t1 = (t', e2)" "evs = e1 @ e2" using Cons.prems(4) s by (auto split: prod.splits)
  note S = step_alone [OF Cons.prems(1) s]
  from S(4) [OF Cons.prems(2,3)] Cons.IH [OF S(1) _ _ r(1)] r(2) show ?case by simp
qed simp

lemma run_alone:
  assumes "qos_wf uuid t" "get (qt_pending t) m = Some p" "m = uuid n" "list_all (leaves_alone m (pk_DeviceID p)) ops"
    and "qos_run uuid ops t = (t', evs)" "0 \<le> pk_RetryCount p" "pk_RetryCount p \<le> qt_MaxRetries t"
  defines "k \<equiv> late_checks (qt_ACKTimeout t) (pk_ExpiresAt p) ops"
  shows "attempts_of m evs = take k [pk_RetryCount p + 1 .. qt_MaxRetries t]
    \<and> timeouts_of m evs = (if int k > qt_MaxRetries t - pk_RetryCount p then 1 else 0)
    \<and> (has (qt_pending t') m \<longleftrightarrow> int k \<le> qt_MaxRetries t - pk_RetryCount p)"
  unfolding k_def using assms(1-7)
proof (induction ops arbitrary: t p evs)
  case Nil
  then show ?case by (simp add: has_def)
next
  case (Cons op ops)
  obtain t1 e1 where s: "qos_step uuid op t = (t1, e1)" by fastforce
  obtain e2 where r: "qos_run uuid ops t1 = (t', e2)" "evs = e1 @ e2" using Cons.prems(5) s by (auto split: prod.splits)
  note S = step_alone [OF Cons.prems(1) s]
  have la: "leaves_alone m (pk_DeviceID p) op" "list_all (leaves_alone m (pk_DeviceID p)) ops" using Cons.prems(4) by auto
  show ?case
  proof (cases "\<exists>now. op = QCheck now")
    case False
    with S(5) [OF Cons.prems(2) la(1)] have q: "get (qt_pending t1) m = Some p" "e1 = []" by auto
    have "late_checks d e (op # ops) = late_checks d e ops" for d e using False by (cases op) auto
    then show ?thesis using Cons.IH [OF S(1) q(1) Cons.prems(3) la(2) r(1) Cons.prems(6)] Cons.prems(7) S(2,3) r(2) q(2) by simp
  next
    case True
    then obtain now where op: "op = QCheck now" by blast
    from Cons.prems(1) have wf: "wf_map (qt_pending t)"
        "\<forall>i p. get (qt_pending t) i = Some p \<longrightarrow> pk_MessageID p = i \<and> (\<exists>n < qt_issued t. i = uuid n)" "inj uuid"
      by (auto simp: qos_wf_def)
    have ids: "\<forall>(i, p) \<in> set (qt_pending t). pk_MessageID p = i" using wf get_iff_in [OF wf(1)] by fastforce
    have n: "n < qt_issued t" using wf(2,3) Cons.prems(2,3) by (auto dest: injD)
    have chk: "QoS_checkTimeouts now t = (t1, e1)" using s op by simp
    have g: "get (qt_pending t1) m = checked now t p"
      using check_table [OF chk] get_check [OF wf(1)] Cons.prems(2) by simp
    have ev: "attempts_of m e1 = (if late_ack now p \<and> pk_RetryCount p < qt_MaxRetries t then [pk_RetryCount p + 1] else [])"
      "timeouts_of m e1 = (if late_ack now p \<and> pk_RetryCount p \<ge> qt_MaxRetries t then 1 else 0)"
      using chk check_events [OF wf(1) ids, where now = now and t = t and m = m] Cons.prems(2)
      by (auto simp: QoS_checkTimeouts_def Let_def)
    show ?thesis
    proof (cases "late_ack now p")
      case False
      then have "get (qt_pending t1) m = Some p" using g by (simp add: checked_def)
      from Cons.IH [OF S(1) this Cons.prems(3) la(2) r(1) Cons.prems(6)] show ?thesis
        using Cons.prems(7) S(2,3) r(2) ev False by (simp add: op late_ack_def)
    next
      case late: True
      show ?thesis
      proof (cases "pk_RetryCount p < qt_MaxRetries t")
        case True
        then have g1: "get (qt_pending t1) m = Some (resend now t p)" using g late by (simp add: checked_def)
        have cons: "[pk_RetryCount p + 1 .. qt_MaxRetries t] = (pk_RetryCount p + 1) # [2 + pk_RetryCount p .. qt_MaxRetries t]"
          using True by (simp add: upto_rec1 add.commute)
        have "list_all (leaves_alone m (pk_DeviceID (resend now t p))) ops" using la(2) by (simp add: resend_def)
        from Cons.IH [OF S(1) g1 Cons.prems(3) this r(1)] Cons.prems(6) True
        show ?thesis using S(2,3) r(2) ev late cons by (auto simp: op late_ack_def resend_def)
      next
        case False
        then have "get (qt_pending t1) (uuid n) = None" using g late Cons.prems(3) by (simp add: checked_def)
        from run_absent [OF S(1) this _ r(1)] n S(6)
        show ?thesis using r(2) ev late False Cons.prems(3,7) by (auto simp: op late_ack_def has_def)
      qed
    qed
  qed
qed

text \<open>C22: A registered message that is not acknowledged is resent at every check that finds its deadline
  passed, with attempts numbered from 1, until the retries are used up; the next late check reports the
  time-out once and drops it.  Until then it stays pending, whatever other messages are registered,
  acknowledged or cancelled in between; so after one late check more than the retries it is gone.\<close>
theorem unacknowledged_message_resent_then_dropped:
  assumes "qos_wf uuid t0" "0 \<le> qt_MaxRetries t0" "RegisterQoS1 uuid now d topic msg t0 = (t, m)"
    and "list_all (leaves_alone m d) ops" "qos_run uuid ops t = (t', evs)"
    and "k = late_checks (qt_ACKTimeout t0) (now + qt_ACKTimeout t0) ops"
  shows "attempts_of m evs = take k [1..qt_MaxRetries t0]
       \<and> timeouts_of m evs = (if int k > qt_MaxRetries t0 then 1 else 0)
       \<and> (has (qt_pending t') m \<longleftrightarrow> int k \<le> qt_MaxRetries t0)"
proof -
  have m: "m = uuid (qt_issued t0)" using assms(3) by (auto simp: RegisterQoS1_def Let_def)
  have same: "qt_ACKTimeout t = qt_ACKTimeout t0" "qt_MaxRetries t = qt_MaxRetries t0"
    using assms(3) by (auto simp: RegisterQoS1_def Let_def)
  obtain p where p: "get (qt_pending t) m = Some p" "pk_RetryCount p = 0" "pk_DeviceID p = d"
      "pk_ExpiresAt p = now + qt_ACKTimeout t0"
    using assms(3) by (auto simp: RegisterQoS1_def Let_def get_put)
  have "qos_wf uuid t" using step_alone(1) [OF assms(1), where op = "QRegister now d topic msg"] assms(3) by simp
  from run_alone [OF this p(1) m _ assms(5)] p assms(2,4,6) show ?thesis by (simp add: same)
qed

lemma demo_ids_inj: "inj (\<lambda>n. replicate n CHR ''i'')"
  by (rule injI) (auto dest: arg_cong [where f = length])

lemma unacknowledged_message_resent_then_dropped_witness:
  "attempts_of [] (snd (qos_run (\<lambda>n. replicate n CHR ''i'')
      [QCheck 12, QRegister 13 ''d2'' ''t'' (ws_msg ''t'' (JSONText [])), QCheck 14, QAck ''i'', QCheck 25, QCheck 40]
      (fst (RegisterQoS1 (\<lambda>n. replicate n CHR ''i'') 1 ''d1'' ''t'' (ws_msg ''t'' (JSONText [])) (NewQoSTracker 10 2))))) = [1, 2]"
proof -
  let ?u = "\<lambda>n. replicate n CHR ''i''" and ?msg = "ws_msg ''t'' (JSONText [])"
  let ?ops = "[QCheck 12, QRegister 13 ''d2'' ''t'' ?msg, QCheck 14, QAck ''i'', QCheck 25, QCheck 40]"
  let ?t = "fst (RegisterQoS1 ?u 1 ''d1'' ''t'' ?msg (NewQoSTracker 10 2))"
  have wf: "qos_wf ?u (NewQoSTracker 10 2)" by (simp add: qos_wf_def demo_ids_inj NewQoSTracker_def)
  have r: "RegisterQoS1 ?u 1 ''d1'' ''t'' ?msg (NewQoSTracker 10 2) = (?t, [])" by (simp add: RegisterQoS1_def NewQoSTracker_def Let_def)
  have k: "late_checks (qt_ACKTimeout (NewQoSTracker 10 2)) (1 + qt_ACKTimeout (NewQoSTracker 10 2)) ?ops = 3" by code_simp
  have m: "qt_MaxRetries (NewQoSTracker 10 2) = 2" "list_all (leaves_alone [] ''d1'') ?ops" by (simp_all add: NewQoSTracker_def)
  have "qos_run ?u ?ops ?t = (fst (qos_run ?u ?ops ?t), snd (qos_run ?u ?ops ?t))" by simp
  from unacknowledged_message_resent_then_dropped [OF wf _ r m(2) this refl] show ?thesis by (simp only: k m) (simp add: upto_rec1)
qed

section \<open>Duplicates\<close>

datatype dedup_op = DRegister gotime string string | DClean gotime | DRemove string string

fun dedup_step :: "dedup_op \<Rightarrow> qos2_tracker \<Rightarrow> qos2_tracker" where
  "dedup_step (DRegister now m d) t = fst (Register2 now m d t)"
| "dedup_step (DClean now) t = cleanExpired2 now t"
| "dedup_step (DRemove m d) t = Remove2 m d t"

fun until :: "gotime \<Rightarrow> string \<Rightarrow> dedup_op \<Rightarrow> bool" where
  "until e key (DRegister now m d) \<longleftrightarrow> now \<le> e"
| "until e key (DClean now) \<longleftrightarrow> now \<le> e"
| "until e key (DRemove m d) \<longleftrightarrow> dedup_key m d \<noteq> key"

lemma dedup_keeps:
  assumes "wf_map (q2_processed t)" "get (q2_processed t) key = Some (d, e)" "until e key op"
  shows "wf_map (q2_processed (dedup_step op t)) \<and> get (q2_processed (dedup_step op t)) key = Some (d, e)
    \<and> q2_DedupWindow (dedup_step op t) = q2_DedupWindow t"
  using assms
  by (cases op) (auto simp: Register2_def cleanExpired2_def Remove2_def Let_def get_put get_del get_del_if split: option.splits)

lemma dedup_run_keeps:
  assumes "wf_map (q2_processed t)" "get (q2_processed t) key = Some (d, e)" "list_all (until e key) ops"
  shows "get (q2_processed (foldl (\<lambda>t op. dedup_step op t) t ops)) key = Some (d, e)"
  using assms by (induction ops arbitrary: t) (simp_all add: dedup_keeps)

text \<open>Once a message identifier was accepted for a device, it is recognised as a duplicate until the
  window is over, through any registrations, sweeps and removals of others, and accepted afterwards.\<close>
theorem duplicate_rejected_in_window:
  assumes "wf_map (q2_processed t)" "Register2 now m d t = (t1, True)" "e = now + q2_DedupWindow t"
    and "list_all (until e (dedup_key m d)) ops" "t2 = foldl (\<lambda>t op. dedup_step op t) t1 ops"
  shows "(snd (Register2 later m d t2) \<longleftrightarrow> later > e) \<and> (IsProcessed later m d t2 \<longleftrightarrow> later \<le> e)"
proof -
  have t1: "wf_map (q2_processed t1)" "get (q2_processed t1) (dedup_key m d) = Some (d, e)"
    using assms(1-3) by (auto simp: Register2_def Let_def get_put split: option.splits if_splits)
  from dedup_run_keeps [OF t1 assms(4)] have "get (q2_processed t2) (dedup_key m d) = Some (d, e)" by (simp add: assms(5))
  then show ?thesis by (auto simp: Register2_def IsProcessed_def Let_def)
qed

lemma duplicate_rejected_in_window_witness:
  "\<not> snd (Register2 100 ''m1'' ''d1'' (foldl (\<lambda>t op. dedup_step op t) (fst (Register2 1 ''m1'' ''d1'' (NewQoS2Tracker 200)))
      [DRegister 50 ''m1'' ''d1'', DClean 60, DRemove ''m2'' ''d1'']))"
proof -
  let ?t = "NewQoS2Tracker 200"
  have "wf_map (q2_processed ?t)" "Register2 1 ''m1'' ''d1'' ?t = (fst (Register2 1 ''m1'' ''d1'' ?t), True)"
    "list_all (until 201 (dedup_key ''m1'' ''d1'')) [DRegister 50 ''m1'' ''d1'', DClean 60, DRemove ''m2'' ''d1'']"
    by (simp_all add: NewQoS2Tracker_def Register2_def Let_def dedup_key_def)
  from duplicate_rejected_in_window [OF this(1,2) _ this(3) refl, where later = 100] show ?thesis
    by (simp add: NewQoS2Tracker_def)
qed

text \<open>The key joins two strings with a colon, so different messages can share one.\<close>

lemma keys_collide: "dedup_key ''a'' ''b:c'' = dedup_key ''a:b'' ''c''"
  by (simp add: dedup_key_def)

section \<open>Restoring a session\<close>

lemma restore_one:
  assumes "ValidatePattern p = None" "length (cl_subscriptions c) < MaxSubscriptionsPerClient"
  shows "fst (SubscribeToTopics [p] q c) = c\<lparr>cl_subscriptions := put p q (cl_subscriptions c)\<rparr>"
  using assms by (simp add: SubscribeToTopics_def)

lemma restore_all:
  assumes "wf_map subs" "\<forall>p \<in> fst ` set subs. ValidatePattern p = None \<and> \<not> has (cl_subscriptions c) p"
    and "length (cl_subscriptions c) + length subs \<le> MaxSubscriptionsPerClient"
  shows "foldl (\<lambda>c (pattern, qos). fst (SubscribeToTopics [pattern] qos c)) c subs
    = c\<lparr>cl_subscriptions := cl_subscriptions c @ subs\<rparr>"
  using assms
proof (induction subs arbitrary: c)
  case (Cons s subs)
  obtain p q where s: "s = (p, q)" by (cases s)
  let ?c = "c\<lparr>cl_subscriptions := cl_subscriptions c @ [(p, q)]\<rparr>"
  have fresh: "p \<notin> fst ` set (cl_subscriptions c)" using Cons.prems(2) by (simp add: s has_iff)
  have "put p q m = m @ [(p, q)]" if "p \<notin> fst ` set m" for m :: "(string, int) gomap"
    using that by (induction m) auto
  then have one: "fst (SubscribeToTopics [p] q c) = ?c"
    using restore_one [of p c q] Cons.prems(2,3) fresh by (simp add: s)
  have rest: "wf_map subs" "get subs p = None" using wf_map_ConsD [of p q subs] Cons.prems(1) by (simp_all add: s)
  have "\<forall>p' \<in> fst ` set subs. ValidatePattern p' = None \<and> \<not> has (cl_subscriptions ?c) p'"
    using Cons.prems(2) rest(2) by (auto simp: s has_iff map_of_eq_None_iff)
  from Cons.IH [OF rest(1) this] Cons.prems(3) show ?case by (simp add: s one)
qed simp

text \<open>A client that reconnects under its device ID before its session expires gets back exactly the
  subscriptions and the last will it had when its session was saved.\<close>
theorem session_roundtrip:
  assumes "wf_map (cl_subscriptions c)" "list_all (\<lambda>(p, q). ValidatePattern p = None) (cl_subscriptions c)"
    and "length (cl_subscriptions c) \<le> MaxSubscriptionsPerClient" "sm_store m = Some st" "wf_map st"
    and "m' = fst (CleanSessions later (SaveClientSession now c m))" "later - sm_sessionExpiry m \<le> now"
  shows "RestoreClientSession m' (NewClient (cl_deviceID c) cap)
       = (NewClient (cl_deviceID c) cap)\<lparr>cl_subscriptions := cl_subscriptions c, cl_lastWill := cl_lastWill c\<rparr>"
proof -
  let ?s = "SessionFromClient now c"
  have st': "sm_store m' = Some (del_if (\<lambda>i s. Before (se_LastSeen s) (later - sm_sessionExpiry m)) (put (cl_deviceID c) ?s st))"
    using assms(4,6) by (simp add: CleanSessions_def SaveClientSession_def CleanExpiredSessions_def Let_def SaveSession_def SessionFromClient_def)
  have g: "get (del_if (\<lambda>i s. Before (se_LastSeen s) (later - sm_sessionExpiry m)) (put (cl_deviceID c) ?s st)) (cl_deviceID c) = Some ?s"
    using assms(5,7) by (simp add: get_del_if get_put SessionFromClient_def)
  have r: "foldl (\<lambda>c (pattern, qos). fst (SubscribeToTopics [pattern] qos c)) (NewClient (cl_deviceID c) cap) (cl_subscriptions c)
      = (NewClient (cl_deviceID c) cap)\<lparr>cl_subscriptions := cl_subscriptions c\<rparr>"
    using restore_all [OF assms(1), of "NewClient (cl_deviceID c) cap"] assms(2,3)
    by (force simp: NewClient_def has_def list_all_iff)
  have dev: "cl_deviceID (NewClient (cl_deviceID c) cap) = cl_deviceID c" by (simp add: NewClient_def)
  have "RestoreClientSession m' (NewClient (cl_deviceID c) cap) = RestoreClientFromSession (Some ?s) (NewClient (cl_deviceID c) cap)"
    by (simp only: RestoreClientSession_def st' option.case dev GetSession_def g)
  then show ?thesis
    by (simp add: RestoreClientFromSession_def Let_def SessionFromClient_def r split: option.split) (simp add: NewClient_def)
qed

lemma session_roundtrip_witness:
  "RestoreClientSession (fst (CleanSessions (5 * hour) (SaveClientSession hour
       ((NewClient ''d1'' 4)\<lparr>cl_subscriptions := [(''a.+'', 1), (''b'', 0)]\<rparr>) (NewSessionManager (Some []) 0)))) (NewClient ''d1'' 8)
     = (NewClient ''d1'' 8)\<lparr>cl_subscriptions := [(''a.+'', 1), (''b'', 0)]\<rparr>"
proof -
  let ?c = "(NewClient ''d1'' 4)\<lparr>cl_subscriptions := [(''a.+'', 1), (''b'', 0)]\<rparr>" and ?m = "NewSessionManager (Some []) 0"
  have "wf_map (cl_subscriptions ?c)" "list_all (\<lambda>(p, q). ValidatePattern p = None) (cl_subscriptions ?c)"
    "length (cl_subscriptions ?c) \<le> MaxSubscriptionsPerClient" "5 * hour - sm_sessionExpiry ?m \<le> hour" by code_simp+
  moreover have "sm_store ?m = Some []" by (simp add: NewSessionManager_def)
  ultimately show ?thesis
    using session_roundtrip [where c = ?c and m = ?m and st = "[]" and later = "5 * hour" and now = hour and cap = 8, OF _ _ _ _ _ refl]
    by (simp add: NewClient_def)
qed

end
