(* ===== verification/Radix.thy ===== *)
theory Radix
  imports Types
begin

text \<open>
  The route index of \<open>internal/router/radix.go\<close>: a compressed trie whose nodes carry a path
  segment, an optional route and a list of children.  The Go code mutates the nodes in place;
  the tree owns its nodes, so the model returns the updated tree.  \<open>lookup_path\<close>, the
  code's own exact search, is the abstraction: insertion and deletion are shown to be map
  updates of it and \<open>Search\<close> to be longest-prefix matching.
\<close>

section \<open>Data\<close>

datatype rnode = RNode (nd_prefix: string) (nd_route: "route option") (nd_children: "rnode list")

record rtree =
  rt_root :: rnode
  rt_size :: int

definition NewRadixTree :: rtree where
  "NewRadixTree = \<lparr>rt_root = RNode [] None [], rt_size = 0\<rparr>"

section \<open>Operations\<close>

fun commonPrefixLen :: "string \<Rightarrow> string \<Rightarrow> nat" where
  "commonPrefixLen (a # as) (b # bs) = (if a \<noteq> b then 0 else Suc (commonPrefixLen as bs))"
| "commonPrefixLen _ _ = 0"

text \<open>\<open>insert\<close> returns the node and by how much the tree's \<open>size\<close> counter grew; the loop over
  the children is \<open>insert_children\<close>.\<close>

fun insert_node :: "rnode \<Rightarrow> string \<Rightarrow> route \<Rightarrow> rnode \<times> int"
and insert_children :: "rnode list \<Rightarrow> string \<Rightarrow> route \<Rightarrow> rnode list \<times> int" where
  "insert_node (RNode p ro cs) path r =
     (if path = [] then (RNode p (Some r) cs, if ro = None then 1 else 0)
      else (case insert_children cs path r of (cs', d) \<Rightarrow> (RNode p ro cs', d)))"
| "insert_children [] path r = ([RNode path (Some r) []], 1)"
| "insert_children (c # cs) path r =
     (let commonLen = commonPrefixLen path (nd_prefix c) in
      if commonLen > 0 then
        if commonLen = length (nd_prefix c) \<and> commonLen = length path then
          (RNode (nd_prefix c) (Some r) (nd_children c) # cs, if nd_route c = None then 1 else 0)
        else if commonLen = length (nd_prefix c) then
          (case insert_node c (drop commonLen path) r of (c', d) \<Rightarrow> (c' # cs, d))
        else
          (let newChild = RNode (drop commonLen (nd_prefix c)) (nd_route c) (nd_children c) in
           if commonLen < length path then
             (RNode (take commonLen (nd_prefix c)) None
                [newChild, RNode (drop commonLen path) (Some r) []] # cs, 1)
           else
             (RNode (take commonLen (nd_prefix c)) (Some r) [newChild] # cs, 1))
      else (case insert_children cs path r of (cs', d) \<Rightarrow> (c # cs', d)))"

fun findByPathHelper :: "rnode \<Rightarrow> string \<Rightarrow> route option"
and findByPath_children :: "rnode list \<Rightarrow> string \<Rightarrow> route option" where
  "findByPathHelper (RNode p ro cs) path = (if path = [] then ro else findByPath_children cs path)"
| "findByPath_children [] path = None"
| "findByPath_children (c # cs) path =
     (if HasPrefix path (nd_prefix c) then
        (case findByPathHelper c (drop (length (nd_prefix c)) path) of
           Some r \<Rightarrow> Some r
         | None \<Rightarrow> findByPath_children cs path)
      else findByPath_children cs path)"

fun deleteByID :: "rnode \<Rightarrow> string \<Rightarrow> rnode \<times> bool"
and delete_children :: "rnode list \<Rightarrow> string \<Rightarrow> rnode list \<times> bool" where
  "deleteByID (RNode p ro cs) routeID =
     (if (case ro of Some r \<Rightarrow> RouteID r = routeID | None \<Rightarrow> False) then (RNode p None cs, True)
      else (case delete_children cs routeID of (cs', b) \<Rightarrow> (RNode p ro cs', b)))"
| "delete_children [] routeID = ([], False)"
| "delete_children (c # cs) routeID =
     (case deleteByID c routeID of
        (c', True) \<Rightarrow> (c' # cs, True)
      | (c', False) \<Rightarrow> (case delete_children cs routeID of (cs', b) \<Rightarrow> (c' # cs', b)))"

fun findByIDHelper :: "rnode \<Rightarrow> string \<Rightarrow> route option"
and findByID_children :: "rnode list \<Rightarrow> string \<Rightarrow> route option" where
  "findByIDHelper (RNode p ro cs) routeID =
     (if (case ro of Some r \<Rightarrow> RouteID r = routeID | None \<Rightarrow> False) then ro
      else findByID_children cs routeID)"
| "findByID_children [] routeID = None"
| "findByID_children (c # cs) routeID =
     (case findByIDHelper c routeID of Some r \<Rightarrow> Some r | None \<Rightarrow> findByID_children cs routeID)"

text \<open>\<open>search\<close>: the best match so far is threaded through the loop over the children.\<close>

definition node_match :: "route option \<Rightarrow> string \<Rightarrow> route option" where
  "node_match ro path =
     (case ro of
        None \<Rightarrow> None
      | Some r \<Rightarrow>
          if path = [] \<or> (length path > 0 \<and> hd path = CHR ''/'') then Some r
          else if HasSuffix (PathBase r) ''/'' then Some r
          else None)"

fun search :: "rnode \<Rightarrow> string \<Rightarrow> route option"
and search_children :: "rnode list \<Rightarrow> string \<Rightarrow> route option \<Rightarrow> route option" where
  "search (RNode p ro cs) path =
     (if path = [] then node_match ro path else search_children cs path (node_match ro path))"
| "search_children [] path bestMatch = bestMatch"
| "search_children (c # cs) path bestMatch =
     (if HasPrefix path (nd_prefix c) then
        (case search c (drop (length (nd_prefix c)) path) of
           Some m \<Rightarrow>
             search_children cs path
               (case bestMatch of
                  None \<Rightarrow> Some m
                | Some b \<Rightarrow> if length (PathBase m) > length (PathBase b) then Some m else Some b)
         | None \<Rightarrow> search_children cs path bestMatch)
      else search_children cs path bestMatch)"

text \<open>The exported operations on the tree.\<close>

definition delete_at_root :: "rtree \<Rightarrow> string \<Rightarrow> rtree \<times> bool" where
  "delete_at_root t routeID =
     (case deleteByID (rt_root t) routeID of
        (n, b) \<Rightarrow> (\<lparr>rt_root = n, rt_size = (if b then rt_size t - 1 else rt_size t)\<rparr>, b))"

definition insert_at_root :: "rtree \<Rightarrow> string \<Rightarrow> route \<Rightarrow> rtree" where
  "insert_at_root t path r =
     (case insert_node (rt_root t) path r of (n, d) \<Rightarrow> \<lparr>rt_root = n, rt_size = rt_size t + d\<rparr>)"

definition Insert :: "rtree \<Rightarrow> route \<Rightarrow> rtree" where
  "Insert t route =
     (let t1 = (case findByIDHelper (rt_root t) (RouteID route) of
                  Some existingRoute \<Rightarrow>
                    if PathBase existingRoute \<noteq> PathBase route
                    then fst (delete_at_root t (RouteID route)) else t
                | None \<Rightarrow> t)
      in insert_at_root t1 (PathBase route) route)"

datatype insert_error = PathInUse string string  \<comment> \<open>path, ID of the route that uses it\<close>

definition InsertWithValidation :: "rtree \<Rightarrow> route \<Rightarrow> insert_error + rtree" where
  "InsertWithValidation t route =
     (case findByPathHelper (rt_root t) (PathBase route) of
        Some existing \<Rightarrow>
          if RouteID existing \<noteq> RouteID route
          then Inl (PathInUse (PathBase route) (RouteID existing))
          else Inr (Insert t route)
      | None \<Rightarrow> Inr (Insert t route))"

definition Search :: "rtree \<Rightarrow> string \<Rightarrow> route option" where
  "Search t path = search (rt_root t) path"

definition Delete :: "rtree \<Rightarrow> string \<Rightarrow> rtree \<times> bool" where
  "Delete t routeID = delete_at_root t routeID"

definition Size :: "rtree \<Rightarrow> int" where
  "Size t = rt_size t"

section \<open>Well-formed tries\<close>

text \<open>Below every node the children's segments are non-empty and start with different bytes, so
  at most one child can lie on the way to a path.\<close>

definition heads :: "rnode list \<Rightarrow> char set" where
  "heads cs = (\<lambda>c. hd (nd_prefix c)) ` set cs"

fun good :: "rnode \<Rightarrow> bool"
and goods :: "rnode list \<Rightarrow> bool" where
  "good (RNode p ro cs) = goods cs"
| "goods [] = True"
| "goods (c # cs) = (nd_prefix c \<noteq> [] \<and> hd (nd_prefix c) \<notin> heads cs \<and> good c \<and> goods cs)"

lemma heads_simps [simp]:
  "heads [] = {}" "heads (c # cs) = insert (hd (nd_prefix c)) (heads cs)"
  by (simp_all add: heads_def)

lemma good_iff: "good n \<longleftrightarrow> goods (nd_children n)"
  by (cases n) simp

lemma commonPrefixLen_le:
  "commonPrefixLen a b \<le> length a" "commonPrefixLen a b \<le> length b"
  by (induction a b rule: commonPrefixLen.induct) auto

lemma commonPrefixLen_take: "take (commonPrefixLen a b) a = take (commonPrefixLen a b) b"
  by (induction a b rule: commonPrefixLen.induct) auto

lemma commonPrefixLen_0:
  "commonPrefixLen a b = 0 \<longleftrightarrow> a = [] \<or> b = [] \<or> hd a \<noteq> hd b"
  by (induction a b rule: commonPrefixLen.induct) auto

lemma commonPrefixLen_differ:
  "commonPrefixLen a b < length a \<Longrightarrow> commonPrefixLen a b < length b \<Longrightarrow>
   hd (drop (commonPrefixLen a b) a) \<noteq> hd (drop (commonPrefixLen a b) b)"
  by (induction a b rule: commonPrefixLen.induct) auto

lemma commonPrefixLen_append: "commonPrefixLen (p @ q) p = length p"
  by (induction p) auto

lemma commonPrefixLen_full:
  "commonPrefixLen a b = length b \<Longrightarrow> a = b @ drop (length b) a"
  by (metis append_take_drop_id commonPrefixLen_take take_all_iff le_refl)

text \<open>The search through one child, and the whole loop in terms of it.\<close>

definition find_via :: "rnode \<Rightarrow> string \<Rightarrow> route option" where
  "find_via c q = (if HasPrefix q (nd_prefix c)
     then findByPathHelper c (drop (length (nd_prefix c)) q) else None)"

lemma find_children_None:
  "goods cs \<Longrightarrow> q \<noteq> [] \<Longrightarrow> hd q \<notin> heads cs \<Longrightarrow> findByPath_children cs q = None"
  by (induction cs) (auto simp: HasPrefix_iff neq_Nil_conv)

lemma find_children_Cons:
  assumes "goods (c # cs)" and "q \<noteq> []"
  shows "findByPath_children (c # cs) q =
    (if hd q = hd (nd_prefix c) then find_via c q else findByPath_children cs q)"
proof (cases "hd q = hd (nd_prefix c)")
  case True
  with assms have "findByPath_children cs q = None"
    by (intro find_children_None) auto
  with True show ?thesis by (auto simp: find_via_def split: option.splits)
next
  case False
  with assms have "\<not> HasPrefix q (nd_prefix c)"
    by (auto simp: HasPrefix_iff neq_Nil_conv)
  with False show ?thesis by simp
qed

lemma find_via_RNode:
  "p \<noteq> [] \<Longrightarrow> find_via (RNode p ro cs) q =
     (if HasPrefix q p then (if q = p then ro else findByPath_children cs (drop (length p) q)) else None)"
  by (auto simp: find_via_def HasPrefix_iff)

lemma find_via_append:
  "find_via c (nd_prefix c @ q) = findByPathHelper c q"
  by (simp add: find_via_def HasPrefix_iff)

section \<open>Insertion is a map update\<close>

lemma find_via_other: "p \<noteq> [] \<Longrightarrow> q = [] \<or> hd q \<noteq> hd p \<Longrightarrow> find_via (RNode p ro cs) q = None"
  by (auto simp: find_via_def HasPrefix_iff neq_Nil_conv)

lemma find_via_append_p: "find_via (RNode p ro cs) (p @ q) = findByPathHelper (RNode p ro cs) q"
  by (simp add: find_via_def HasPrefix_iff)

lemma find_via_no_prefix: "\<not> HasPrefix q p \<Longrightarrow> find_via (RNode p ro cs) q = None"
  by (simp add: find_via_def)

lemma find_via_leaf: "find_via (RNode p ro []) q = (if q = p then ro else None)"
  by (auto simp: find_via_def HasPrefix_iff)

lemma HasPrefix_append_cancel: "HasPrefix (p @ q) (p @ p') = HasPrefix q p'"
  by (simp add: HasPrefix_def)

lemma find_via_deeper:
  "find_via (RNode (p1 @ p2) ro cs) (p1 @ t) = find_via (RNode p2 ro cs) t"
  by (simp add: find_via_def HasPrefix_append_cancel)

lemma find_via_split:
  assumes "p1 \<noteq> []" "p2 \<noteq> []" "rest \<noteq> []" "hd rest \<noteq> hd p2" "goods cs"
  shows "find_via (RNode p1 None [RNode p2 ro cs, RNode rest (Some r) []]) q =
    (if q = p1 @ rest then Some r else find_via (RNode (p1 @ p2) ro cs) q)"
proof (cases "HasPrefix q p1")
  case False
  then have "\<not> HasPrefix q (p1 @ p2)" "q \<noteq> p1 @ rest"
    by (auto simp: HasPrefix_iff)
  with False show ?thesis by (simp add: find_via_no_prefix)
next
  case True
  then obtain t where q: "q = p1 @ t" by (auto simp: HasPrefix_iff)
  have gs: "goods [RNode p2 ro cs, RNode rest (Some r) []]" using assms by simp
  have "find_via (RNode p1 None [RNode p2 ro cs, RNode rest (Some r) []]) q =
      (if t = [] then None else findByPath_children [RNode p2 ro cs, RNode rest (Some r) []] t)"
    by (simp add: q find_via_append_p)
  also have "\<dots> = (if t = rest then Some r else find_via (RNode p2 ro cs) t)"
  proof (cases "t = []")
    case True
    then show ?thesis using assms by (simp add: find_via_other)
  next
    case False
    then have "findByPath_children [RNode p2 ro cs, RNode rest (Some r) []] t =
        (if hd t = hd p2 then find_via (RNode p2 ro cs) t
         else if t = rest then Some r else None)"
      using find_children_Cons [OF gs False] by (auto simp: HasPrefix_iff)
    with False assms show ?thesis by (auto simp: find_via_other)
  qed
  finally show ?thesis by (auto simp: q find_via_deeper)
qed

lemma find_via_split_end:
  assumes "p1 \<noteq> []" "p2 \<noteq> []" "goods cs"
  shows "find_via (RNode p1 (Some r) [RNode p2 ro cs]) q =
    (if q = p1 then Some r else find_via (RNode (p1 @ p2) ro cs) q)"
proof (cases "HasPrefix q p1")
  case False
  then have "\<not> HasPrefix q (p1 @ p2)" "q \<noteq> p1" by (auto simp: HasPrefix_iff)
  with False show ?thesis by (simp add: find_via_no_prefix)
next
  case True
  then obtain t where q: "q = p1 @ t" by (auto simp: HasPrefix_iff)
  have "t \<noteq> [] \<Longrightarrow> findByPath_children [RNode p2 ro cs] t = find_via (RNode p2 ro cs) t"
    using assms find_children_Cons [of "RNode p2 ro cs" "[]" t] by (auto simp: find_via_other)
  then show ?thesis by (auto simp: q find_via_append_p find_via_deeper)
qed

lemma find_via_set_route:
  "p \<noteq> [] \<Longrightarrow> find_via (RNode p (Some r) cs) q = (if q = p then Some r else find_via (RNode p ro cs) q)"
  by (auto simp: find_via_RNode HasPrefix_iff)

text \<open>What one call of \<open>insert\<close> establishes, for a node and for a list of children.\<close>

definition ins_node_ok :: "rnode \<Rightarrow> string \<Rightarrow> route \<Rightarrow> bool" where
  "ins_node_ok n path r \<longleftrightarrow>
     (case insert_node n path r of (n', d) \<Rightarrow>
        good n' \<and> nd_prefix n' = nd_prefix n
        \<and> (\<forall>q. findByPathHelper n' q = (if q = path then Some r else findByPathHelper n q))
        \<and> d = (if findByPathHelper n path = None then 1 else 0))"

definition ins_children_ok :: "rnode list \<Rightarrow> string \<Rightarrow> route \<Rightarrow> bool" where
  "ins_children_ok cs path r \<longleftrightarrow>
     (case insert_children cs path r of (cs', d) \<Rightarrow>
        goods cs' \<and> heads cs' = insert (hd path) (heads cs)
        \<and> (\<forall>q. q \<noteq> [] \<longrightarrow> findByPath_children cs' q =
              (if q = path then Some r else findByPath_children cs q))
        \<and> d = (if findByPath_children cs path = None then 1 else 0))"

text \<open>Replacing the child that lies on the way to \<open>path\<close>.\<close>

lemma ins_children_replace:
  assumes "goods (c # cs)" "path \<noteq> []" "hd path = hd (nd_prefix c)"
    and "insert_children (c # cs) path r = (c' # cs, d)"
    and "good c'" "nd_prefix c' \<noteq> []" "hd (nd_prefix c') = hd (nd_prefix c)"
    and "\<And>q. find_via c' q = (if q = path then Some r else find_via c q)"
    and "d = (if find_via c path = None then 1 else 0)"
  shows "ins_children_ok (c # cs) path r"
proof -
  have gs: "goods (c' # cs)" using assms by simp
  have "findByPath_children (c' # cs) q =
      (if q = path then Some r else findByPath_children (c # cs) q)" if "q \<noteq> []" for q
    using find_children_Cons [OF gs that] find_children_Cons [OF assms(1) that] assms(3,7,8)
    by auto
  moreover have "findByPath_children (c # cs) path = find_via c path"
    using find_children_Cons [OF assms(1,2)] assms(3) by simp
  ultimately show ?thesis
    using assms gs by (simp add: ins_children_ok_def)
qed

lemma ins_children_skip:
  assumes "goods (c # cs)" "path \<noteq> []" "hd path \<noteq> hd (nd_prefix c)" "ins_children_ok cs path r"
  shows "ins_children_ok (c # cs) path r"
proof -
  have 0: "commonPrefixLen path (nd_prefix c) = 0"
    using assms by (simp add: commonPrefixLen_0)
  obtain cs' d where i: "insert_children cs path r = (cs', d)" by fastforce
  with assms(4) have ok: "goods cs'" "heads cs' = insert (hd path) (heads cs)"
    "\<And>q. q \<noteq> [] \<Longrightarrow> findByPath_children cs' q =
       (if q = path then Some r else findByPath_children cs q)"
    "d = (if findByPath_children cs path = None then 1 else 0)"
    by (auto simp: ins_children_ok_def)
  have gs: "goods (c # cs')" using assms ok by auto
  have "findByPath_children (c # cs') q =
      (if q = path then Some r else findByPath_children (c # cs) q)" if "q \<noteq> []" for q
    using find_children_Cons [OF gs that] find_children_Cons [OF assms(1) that] assms(3) ok(3) that
    by auto
  moreover have "findByPath_children (c # cs) path = findByPath_children cs path"
    using find_children_Cons [OF assms(1,2)] assms(3) by simp
  ultimately show ?thesis
    using i ok gs 0 assms by (auto simp: ins_children_ok_def)
qed

lemma ins_children_split:
  assumes "goods (c # cs)" "path \<noteq> []" "hd path = hd (nd_prefix c)"
    and n: "n = commonPrefixLen path (nd_prefix c)" and "n < length (nd_prefix c)"
  shows "ins_children_ok (c # cs) path r"
proof -
  obtain pc ro gcs where c: "c = RNode pc ro gcs" by (cases c)
  have gpc: "pc \<noteq> []" "goods gcs" using assms(1) c by auto
  have n0: "0 < n" using assms gpc c commonPrefixLen_0 [of path pc] by auto
  have cpl: "commonPrefixLen path pc = n" using n c by simp
  have tk: "take n path = take n pc" unfolding n c rnode.sel by (rule commonPrefixLen_take)
  define p1 p2 where p12: "p1 = take n pc" "p2 = drop n pc"
  have pc: "pc = p1 @ p2" and p: "p1 \<noteq> []" "p2 \<noteq> []" "hd p1 = hd pc"
    using assms(5) n0 c gpc by (auto simp: p12)
  show ?thesis
  proof (cases "n < length path")
    case True
    define rest where rest: "rest = drop n path"
    have path: "path = p1 @ rest" unfolding rest p12(1) tk [symmetric] by simp
    have hd: "rest \<noteq> []" "hd rest \<noteq> hd p2"
      using True assms(5) commonPrefixLen_differ [of path pc] by (auto simp: rest p12 n c)
    have ne: "rest \<noteq> p2" using hd by auto
    let ?c' = "RNode p1 None [RNode p2 ro gcs, RNode rest (Some r) []]"
    have "insert_children (c # cs) path r = (?c' # cs, 1)"
      using n0 True assms(5) by (simp add: cpl Let_def c p12 rest)
    then show ?thesis
    proof (rule ins_children_replace [OF assms(1-3)])
      show "good ?c'" using p gpc hd by simp
      show "\<And>q. find_via ?c' q = (if q = path then Some r else find_via c q)"
        using find_via_split [OF p(1,2) hd gpc(2)] by (simp add: c pc path)
      have "find_via (RNode p2 ro gcs) rest = None"
        using find_via_other [OF p(2)] hd by blast
      then show "(1::int) = (if find_via c path = None then 1 else 0)"
        by (simp add: c pc path find_via_deeper)
    qed (use p c in auto)
  next
    case False
    then have path: "path = p1" using tk by (simp add: p12)
    let ?c' = "RNode p1 (Some r) [RNode p2 ro gcs]"
    have "insert_children (c # cs) path r = (?c' # cs, 1)"
      using n0 False assms(5) by (simp add: cpl Let_def c p12)
    then show ?thesis
    proof (rule ins_children_replace [OF assms(1-3)])
      show "good ?c'" using p gpc by simp
      show "\<And>q. find_via ?c' q = (if q = path then Some r else find_via c q)"
        using find_via_split_end [OF p(1,2) gpc(2)] by (simp add: c pc path)
      have "\<not> HasPrefix path pc" using p by (simp add: path pc HasPrefix_def)
      then show "(1::int) = (if find_via c path = None then 1 else 0)"
        by (simp add: c find_via_no_prefix)
    qed (use p c in auto)
  qed
qed

lemma ins_children_descend:
  assumes "goods (c # cs)" "path = nd_prefix c @ rest" "rest \<noteq> []" "ins_node_ok c rest r"
  shows "ins_children_ok (c # cs) path r"
proof -
  have ne: "nd_prefix c \<noteq> []" using assms(1) by simp
  have n: "commonPrefixLen path (nd_prefix c) = length (nd_prefix c)"
    unfolding assms(2) by (rule commonPrefixLen_append)
  obtain c' d where i: "insert_node c rest r = (c', d)" by fastforce
  with assms(4) have ok: "good c'" "nd_prefix c' = nd_prefix c"
    "\<And>q. findByPathHelper c' q = (if q = rest then Some r else findByPathHelper c q)"
    "d = (if findByPathHelper c rest = None then 1 else 0)"
    by (auto simp: ins_node_ok_def)
  have "insert_children (c # cs) path r = (c' # cs, d)"
    using n ne assms(2,3) i by simp
  then show ?thesis
  proof (rule ins_children_replace [rotated 3])
    show "find_via c' q = (if q = path then Some r else find_via c q)" for q
      using ok(2,3) assms(2) by (auto simp: find_via_def HasPrefix_iff)
    show "d = (if find_via c path = None then 1 else 0)"
      using ok(4) assms(2) by (simp add: find_via_append)
  qed (use assms ok ne in auto)
qed

lemma insert_ok:
  "good n \<Longrightarrow> ins_node_ok n path r"
  "goods cs \<Longrightarrow> path \<noteq> [] \<Longrightarrow> ins_children_ok cs path r"
proof (induction n path r and cs path r rule: insert_node_insert_children.induct)
  case (1 p ro cs path r)
  then show ?case
    by (cases "path = []") (auto simp: ins_node_ok_def ins_children_ok_def split: prod.splits)
next
  case (2 path r)
  then show ?case
    by (auto simp: ins_children_ok_def HasPrefix_iff)
next
  case (3 c cs path r)
  let ?n = "commonPrefixLen path (nd_prefix c)"
  have ne: "nd_prefix c \<noteq> []" and g: "good c" "goods cs" using "3.prems" by auto
  consider (skip) "hd path \<noteq> hd (nd_prefix c)" | (split) "hd path = hd (nd_prefix c)" "?n < length (nd_prefix c)"
    | (full) "?n = length (nd_prefix c)"
    using commonPrefixLen_le(2) [of path "nd_prefix c"] by linarith
  then show ?case
  proof cases
    case skip
    then have "?n = 0" using "3.prems" ne by (simp add: commonPrefixLen_0)
    with skip "3" show ?thesis by (intro ins_children_skip) auto
  next
    case split
    then show ?thesis using "3.prems" ins_children_split by blast
  next
    case full
    define rest where rest: "rest = drop ?n path"
    have path: "path = nd_prefix c @ rest"
      using commonPrefixLen_full [OF full] full by (simp add: rest)
    show ?thesis
    proof (cases "rest = []")
      case True
      obtain pc ro gcs where c: "c = RNode pc ro gcs" by (cases c)
      have p: "path = pc" using path True c by simp
      have "insert_children (c # cs) path r =
          (RNode pc (Some r) gcs # cs, if ro = None then 1 else 0)"
        using full ne by (simp add: p c)
      then show ?thesis
      proof (rule ins_children_replace [rotated 3])
        show "find_via (RNode pc (Some r) gcs) q = (if q = path then Some r else find_via c q)" for q
          using find_via_set_route [of pc r gcs q ro] ne by (simp add: p c)
        show "(if ro = None then 1 else 0) = (if find_via c path = None then 1 else (0::int))"
          using ne by (simp add: p c find_via_RNode HasPrefix_iff)
      qed (use "3.prems" p c ne in auto)
    next
      case False
      then have "?n \<noteq> length path" using path full by auto
      then have "ins_node_ok c rest r"
        using "3.IH"(1) [OF refl _ _ full] full ne g rest by auto
      then show ?thesis
        using ins_children_descend [OF "3.prems"(1) path False] by simp
    qed
  qed
qed

section \<open>Searching and deleting by route ID\<close>

lemma find_children_Some_via:
  assumes "goods (c # cs)" "findByPathHelper c t = Some r"
  shows "findByPath_children (c # cs) (nd_prefix c @ t) = Some r"
  using find_children_Cons [OF assms(1), of "nd_prefix c @ t"] assms
  by (auto simp: find_via_append)

lemma find_children_tail:
  assumes "goods (c # cs)" "q \<noteq> []" "findByPath_children cs q = Some r"
  shows "findByPath_children (c # cs) q = Some r"
proof -
  from assms have "hd q \<noteq> hd (nd_prefix c)"
    using find_children_None [of cs q] by auto
  then show ?thesis using find_children_Cons [OF assms(1,2)] assms(3) by simp
qed

lemma find_children_cases:
  assumes "goods (c # cs)" "q \<noteq> []" "findByPath_children (c # cs) q = Some r"
  obtains t where "q = nd_prefix c @ t" "findByPathHelper c t = Some r"
  | "findByPath_children cs q = Some r"
  using find_children_Cons [OF assms(1,2)] assms(3)
  by (auto simp: find_via_def HasPrefix_iff split: if_splits)

lemma findByID_Some:
  "good n \<Longrightarrow> findByIDHelper n i = Some r \<Longrightarrow> RouteID r = i \<and> (\<exists>p. findByPathHelper n p = Some r)"
  "goods cs \<Longrightarrow> findByID_children cs i = Some r \<Longrightarrow>
     RouteID r = i \<and> (\<exists>p. p \<noteq> [] \<and> findByPath_children cs p = Some r)"
proof (induction n i and cs i rule: findByIDHelper_findByID_children.induct)
  case (1 p ro cs i)
  then show ?case
    by (cases "case ro of Some r \<Rightarrow> RouteID r = i | None \<Rightarrow> False") (auto split: option.splits)
next
  case (2 i)
  then show ?case by simp
next
  case (3 c cs i)
  show ?case
  proof (cases "findByIDHelper c i")
    case None
    then have "findByID_children cs i = Some r" "goods cs" using "3.prems" by simp_all
    then obtain p where "RouteID r = i" "p \<noteq> []" "findByPath_children cs p = Some r"
      using "3.IH"(2) [OF None] by blast
    with find_children_tail [OF "3.prems"(1)] show ?thesis by blast
  next
    case (Some x)
    then have "findByIDHelper c i = Some r" "good c" using "3.prems" by simp_all
    then obtain p where "RouteID r = i" "findByPathHelper c p = Some r"
      using "3.IH"(1) by blast
    moreover have "nd_prefix c @ p \<noteq> []" using "3.prems"(1) by simp
    ultimately show ?thesis using find_children_Some_via [OF "3.prems"(1)] by blast
  qed
qed

lemma findByID_None:
  "good n \<Longrightarrow> findByIDHelper n i = None \<Longrightarrow> findByPathHelper n p = Some r \<Longrightarrow> RouteID r \<noteq> i"
  "goods cs \<Longrightarrow> findByID_children cs i = None \<Longrightarrow> p \<noteq> [] \<Longrightarrow>
     findByPath_children cs p = Some r \<Longrightarrow> RouteID r \<noteq> i"
proof (induction n i and cs i arbitrary: p and p rule: findByIDHelper_findByID_children.induct)
  case (1 pr ro cs i p)
  then show ?case by (cases ro) (auto split: if_splits)
next
  case (2 i p)
  then show ?case by simp
next
  case (3 c cs i p)
  from "3.prems" have n: "findByIDHelper c i = None" "findByID_children cs i = None"
    by (auto split: option.splits)
  from "3.prems"(1,3,4) show ?case
  proof (cases rule: find_children_cases)
    case (1 t)
    have "good c" using "3.prems"(1) by simp
    then show ?thesis using n(1) 1(2) by (rule "3.IH"(1))
  next
    case 2
    have "goods cs" using "3.prems"(1) by simp
    then show ?thesis using n(2) "3.prems"(3) 2 by (rule "3.IH"(2) [OF n(1)])
  qed
qed

definition removes :: "(string \<Rightarrow> route option) \<Rightarrow> string \<Rightarrow> (string \<Rightarrow> route option) \<Rightarrow> bool" where
  "removes f i g \<longleftrightarrow> (\<exists>p r. f p = Some r \<and> RouteID r = i \<and> g = f(p := None))"

definition nonempty_part :: "(string \<Rightarrow> route option) \<Rightarrow> string \<Rightarrow> route option" where
  "nonempty_part f = f([] := None)"

definition del_node_ok :: "rnode \<Rightarrow> string \<Rightarrow> bool" where
  "del_node_ok n i \<longleftrightarrow>
     (case deleteByID n i of (n', b) \<Rightarrow>
        good n' \<and> nd_prefix n' = nd_prefix n
        \<and> b = (findByIDHelper n i \<noteq> None)
        \<and> (if b then removes (findByPathHelper n) i (findByPathHelper n') else n' = n))"

definition del_children_ok :: "rnode list \<Rightarrow> string \<Rightarrow> bool" where
  "del_children_ok cs i \<longleftrightarrow>
     (case delete_children cs i of (cs', b) \<Rightarrow>
        goods cs' \<and> heads cs' = heads cs
        \<and> b = (findByID_children cs i \<noteq> None)
        \<and> (if b then removes (nonempty_part (findByPath_children cs)) i
                        (nonempty_part (findByPath_children cs')) else cs' = cs))"

lemma nonempty_part_Cons:
  assumes "goods (c # cs)"
  shows "nonempty_part (findByPath_children (c # cs)) q =
    (if q \<noteq> [] \<and> hd q = hd (nd_prefix c) then find_via c q else nonempty_part (findByPath_children cs) q)"
  using find_children_Cons [OF assms, of q] by (auto simp: nonempty_part_def)

lemma delete_child_ok:
  assumes "goods (c # cs)" "del_node_ok c i" "findByIDHelper c i \<noteq> None"
  shows "del_children_ok (c # cs) i"
proof -
  obtain c' b where d: "deleteByID c i = (c', b)" by fastforce
  with assms(2,3) obtain p r where *: "b" "good c'" "nd_prefix c' = nd_prefix c"
    "findByPathHelper c p = Some r" "RouteID r = i" "findByPathHelper c' = (findByPathHelper c)(p := None)"
    by (auto simp: del_node_ok_def removes_def)
  have gs: "goods (c' # cs)" using assms(1) * by auto
  let ?q = "nd_prefix c @ p"
  have q: "?q \<noteq> []" "hd ?q = hd (nd_prefix c)" using assms(1) by auto
  have via: "find_via c' q = (if q = ?q then None else find_via c q)" for q
    using * by (auto simp: find_via_def HasPrefix_iff)
  have "nonempty_part (findByPath_children (c' # cs)) =
      (nonempty_part (findByPath_children (c # cs)))(?q := None)"
    using nonempty_part_Cons [OF gs] nonempty_part_Cons [OF assms(1)] via *(3) q by auto
  moreover have "nonempty_part (findByPath_children (c # cs)) ?q = Some r"
    using nonempty_part_Cons [OF assms(1), of ?q] q *(4) by (simp add: find_via_append)
  ultimately have "removes (nonempty_part (findByPath_children (c # cs))) i
      (nonempty_part (findByPath_children (c' # cs)))"
    unfolding removes_def using *(5) by blast
  then show ?thesis using d * gs assms by (auto simp: del_children_ok_def)
qed

lemma delete_tail_ok:
  assumes "goods (c # cs)" "deleteByID c i = (c, False)" "findByIDHelper c i = None" "del_children_ok cs i"
  shows "del_children_ok (c # cs) i"
proof -
  obtain cs' b where d: "delete_children cs i = (cs', b)" by fastforce
  with assms(4) have *: "goods cs'" "heads cs' = heads cs" "b = (findByID_children cs i \<noteq> None)"
    "if b then removes (nonempty_part (findByPath_children cs)) i
       (nonempty_part (findByPath_children cs')) else cs' = cs"
    by (auto simp: del_children_ok_def)
  have gs: "goods (c # cs')" using assms(1) * by auto
  have "removes (nonempty_part (findByPath_children (c # cs))) i
      (nonempty_part (findByPath_children (c # cs')))" if "b"
  proof -
    from that * obtain p r where p: "nonempty_part (findByPath_children cs) p = Some r" "RouteID r = i"
      "nonempty_part (findByPath_children cs') = (nonempty_part (findByPath_children cs))(p := None)"
      by (auto simp: removes_def)
    then have "p \<noteq> []" "hd p \<noteq> hd (nd_prefix c)"
      using find_children_None [of cs p] assms(1) by (auto simp: nonempty_part_def split: if_splits)
    then have "nonempty_part (findByPath_children (c # cs')) =
        (nonempty_part (findByPath_children (c # cs)))(p := None)"
      "nonempty_part (findByPath_children (c # cs)) p = Some r"
      using nonempty_part_Cons [OF gs] nonempty_part_Cons [OF assms(1)] p by auto
    then show ?thesis unfolding removes_def using p(2) by blast
  qed
  then show ?thesis using d * gs assms by (auto simp: del_children_ok_def)
qed

lemma delete_ok:
  "good n \<Longrightarrow> del_node_ok n i"
  "goods cs \<Longrightarrow> del_children_ok cs i"
proof (induction n i and cs i rule: deleteByID_delete_children.induct)
  case (1 p ro cs i)
  show ?case
  proof (cases "case ro of Some r \<Rightarrow> RouteID r = i | None \<Rightarrow> False")
    case True
    then obtain r where r: "ro = Some r" "RouteID r = i" by (auto split: option.splits)
    then have "removes (findByPathHelper (RNode p ro cs)) i (findByPathHelper (RNode p None cs))"
      by (auto simp: removes_def fun_eq_iff intro!: exI [of _ "[]"])
    with r "1.prems" show ?thesis by (simp add: del_node_ok_def)
  next
    case False
    obtain cs' b where d: "delete_children cs i = (cs', b)" by fastforce
    from 1 False have ok: "del_children_ok cs i" by simp
    have "removes (findByPathHelper (RNode p ro cs)) i (findByPathHelper (RNode p ro cs'))" if b
    proof -
      from ok d that obtain q r where q: "nonempty_part (findByPath_children cs) q = Some r" "RouteID r = i"
        "nonempty_part (findByPath_children cs') = (nonempty_part (findByPath_children cs))(q := None)"
        by (auto simp: del_children_ok_def removes_def)
      then have "q \<noteq> []" by (auto simp: nonempty_part_def)
      moreover have "findByPath_children cs' t = (if t = q then None else findByPath_children cs t)"
        if "t \<noteq> []" for t
        using fun_cong [OF q(3), of t] that by (auto simp: nonempty_part_def)
      ultimately show ?thesis
        unfolding removes_def using q
        by (intro exI [of _ q] exI [of _ r]) (auto simp: nonempty_part_def)
    qed
    with ok d False show ?thesis by (auto simp: del_node_ok_def del_children_ok_def)
  qed
next
  case (2 i)
  then show ?case by (simp add: del_children_ok_def)
next
  case (3 c cs i)
  then have ok: "del_node_ok c i" by simp
  show ?case
  proof (cases "findByIDHelper c i")
    case None
    with ok have d: "deleteByID c i = (c, False)" by (auto simp: del_node_ok_def)
    then have "del_children_ok cs i" using "3.IH"(2) "3.prems" by auto
    with None d "3.prems" show ?thesis by (intro delete_tail_ok)
  next
    case (Some r)
    with ok "3.prems" show ?thesis by (intro delete_child_ok) auto
  qed
qed

section \<open>Search is longest-prefix matching\<close>

text \<open>The routes a request path may use: stored at a prefix of the path that ends at a segment
  boundary, or whose \<open>PathBase\<close> ends with a slash.\<close>

definition cand :: "(string \<Rightarrow> route option) \<Rightarrow> string \<Rightarrow> string \<Rightarrow> route \<Rightarrow> bool" where
  "cand f path p r \<longleftrightarrow> f p = Some r \<and> (\<exists>t. path = p @ t \<and> node_match (Some r) t = Some r)"

definition is_best :: "(string \<Rightarrow> route option) \<Rightarrow> string \<Rightarrow> route option \<Rightarrow> bool" where
  "is_best f path res \<longleftrightarrow>
     (case res of
        None \<Rightarrow> \<forall>p r. \<not> cand f path p r
      | Some r \<Rightarrow> \<exists>p. cand f path p r \<and> (\<forall>p' r'. cand f path p' r' \<longrightarrow> length p' \<le> length p))"

definition based :: "string \<Rightarrow> (string \<Rightarrow> route option) \<Rightarrow> bool" where
  "based b f \<longleftrightarrow> (\<forall>q r. f q = Some r \<longrightarrow> PathBase r = b @ q)"

lemma node_match_Some: "node_match ro t = Some r \<Longrightarrow> ro = Some r"
  by (auto simp: node_match_def split: option.splits if_splits)

lemma cand_via:
  assumes "goods (c # cs)" "path \<noteq> []"
  shows "cand (nonempty_part (findByPath_children (c # cs))) path p r \<longleftrightarrow>
    (if hd path = hd (nd_prefix c)
     then \<exists>p'. p = nd_prefix c @ p' \<and> HasPrefix path (nd_prefix c)
       \<and> cand (findByPathHelper c) (drop (length (nd_prefix c)) path) p' r
     else cand (nonempty_part (findByPath_children cs)) path p r)"
proof -
  have hd: "p \<noteq> [] \<Longrightarrow> path = p @ t \<Longrightarrow> hd p = hd path" for t by auto
  have ne: "nd_prefix c \<noteq> []" using assms(1) by simp
  show ?thesis
  proof (cases "hd path = hd (nd_prefix c)")
    case True
    show ?thesis
    proof
      assume c: "cand (nonempty_part (findByPath_children (c # cs))) path p r"
      then obtain t where t: "path = p @ t" "node_match (Some r) t = Some r"
        "nonempty_part (findByPath_children (c # cs)) p = Some r" by (auto simp: cand_def)
      then have ne: "p \<noteq> []" by (auto simp: nonempty_part_def)
      then have "hd p = hd (nd_prefix c)" using hd [OF _ t(1)] True by simp
      with ne have "find_via c p = Some r"
        using nonempty_part_Cons [OF assms(1), of p] t(3) by simp
      then obtain p' where p': "p = nd_prefix c @ p'" "findByPathHelper c p' = Some r"
        by (auto simp: find_via_def HasPrefix_iff split: if_splits)
      then have "cand (findByPathHelper c) (p' @ t) p' r" using t(2) by (simp add: cand_def)
      then have "HasPrefix path (nd_prefix c)
          \<and> cand (findByPathHelper c) (drop (length (nd_prefix c)) path) p' r"
        using p' t(1) by (auto simp: HasPrefix_iff)
      with True p'(1) show "if hd path = hd (nd_prefix c)
        then \<exists>p'. p = nd_prefix c @ p' \<and> HasPrefix path (nd_prefix c)
          \<and> cand (findByPathHelper c) (drop (length (nd_prefix c)) path) p' r
        else cand (nonempty_part (findByPath_children cs)) path p r"
        by auto
    next
      assume "if hd path = hd (nd_prefix c)
        then \<exists>p'. p = nd_prefix c @ p' \<and> HasPrefix path (nd_prefix c)
          \<and> cand (findByPathHelper c) (drop (length (nd_prefix c)) path) p' r
        else cand (nonempty_part (findByPath_children cs)) path p r"
      with True obtain p' u where "p = nd_prefix c @ p'" "path = nd_prefix c @ u"
        "cand (findByPathHelper c) u p' r" by (auto simp: HasPrefix_iff)
      then show "cand (nonempty_part (findByPath_children (c # cs))) path p r"
        using ne nonempty_part_Cons [OF assms(1), of p] by (auto simp: cand_def find_via_append)
    qed
  next
    case False
    have "nonempty_part (findByPath_children (c # cs)) p = nonempty_part (findByPath_children cs) p"
      if path: "path = p @ t" for t
    proof (cases "p = []")
      case ne: False
      then have "hd p \<noteq> hd (nd_prefix c)" using hd [OF ne path] False by simp
      then show ?thesis using nonempty_part_Cons [OF assms(1), of p] by simp
    qed (simp add: nonempty_part_def)
    then have "cand (nonempty_part (findByPath_children (c # cs))) path p r =
        cand (nonempty_part (findByPath_children cs)) path p r"
      unfolding cand_def by metis
    with False show ?thesis by simp
  qed
qed

lemma search_children_other:
  "goods cs \<Longrightarrow> path \<noteq> [] \<Longrightarrow> hd path \<notin> heads cs \<Longrightarrow> search_children cs path best = best"
  by (induction cs arbitrary: best) (auto simp: HasPrefix_iff neq_Nil_conv)

lemma based_child:
  assumes "goods (c # cs)" "based b (nonempty_part (findByPath_children (c # cs)))"
  shows "based (b @ nd_prefix c) (findByPathHelper c)"
    "based b (nonempty_part (findByPath_children cs))"
proof -
  show "based (b @ nd_prefix c) (findByPathHelper c)"
    unfolding based_def
  proof (intro allI impI)
    fix q r assume "findByPathHelper c q = Some r"
    then have "nonempty_part (findByPath_children (c # cs)) (nd_prefix c @ q) = Some r"
      using find_children_Some_via [OF assms(1)] assms(1) by (auto simp: nonempty_part_def)
    with assms(2) show "PathBase r = (b @ nd_prefix c) @ q"
      unfolding based_def by fastforce
  qed
  show "based b (nonempty_part (findByPath_children cs))"
    unfolding based_def
  proof (intro allI impI)
    fix q r assume *: "nonempty_part (findByPath_children cs) q = Some r"
    then have "q \<noteq> []" "findByPath_children cs q = Some r" by (auto simp: nonempty_part_def split: if_splits)
    then have "nonempty_part (findByPath_children (c # cs)) q = Some r"
      using find_children_tail [OF assms(1)] by (simp add: nonempty_part_def)
    with assms(2) show "PathBase r = b @ q" unfolding based_def by blast
  qed
qed

lemma search_children_best:
  assumes "\<forall>m. search_children cs path None = Some m \<longrightarrow> length (PathBase b) < length (PathBase m)"
    and "goods cs" "path \<noteq> []"
  shows "search_children cs path (Some b) =
    (case search_children cs path None of None \<Rightarrow> Some b | Some m \<Rightarrow> Some m)"
  using assms
proof (induction cs)
  case Nil
  then show ?case by simp
next
  case (Cons c cs)
  show ?case
  proof (cases "HasPrefix path (nd_prefix c)")
    case True
    with Cons.prems have "hd path \<notin> heads cs"
      by (auto simp: HasPrefix_iff neq_Nil_conv)
    then have "search_children cs path x = x" for x
      using search_children_other Cons.prems by auto
    with True Cons.prems show ?thesis by (auto split: option.splits)
  next
    case False
    with Cons show ?thesis by simp
  qed
qed

lemma is_best_shift:
  assumes "\<And>p r. cand g path p r \<longleftrightarrow> (\<exists>p'. p = a @ p' \<and> cand f u p' r)" and "is_best f u res"
  shows "is_best g path res"
proof (cases res)
  case None
  with assms show ?thesis by (auto simp: is_best_def)
next
  case (Some r)
  with assms(2) obtain p where "cand f u p r" "\<And>p' r'. cand f u p' r' \<Longrightarrow> length p' \<le> length p"
    by (auto simp: is_best_def)
  then have "cand g path (a @ p) r \<and> (\<forall>p' r'. cand g path p' r' \<longrightarrow> length p' \<le> length (a @ p))"
    by (auto simp: assms(1))
  then show ?thesis unfolding is_best_def Some option.case by blast
qed

lemma search_ok:
  "good n \<Longrightarrow> based b (findByPathHelper n) \<Longrightarrow> is_best (findByPathHelper n) path (search n path)"
  "goods cs \<Longrightarrow> path \<noteq> [] \<Longrightarrow> based b (nonempty_part (findByPath_children cs)) \<Longrightarrow>
     is_best (nonempty_part (findByPath_children cs)) path (search_children cs path None)"
proof (induction n and cs arbitrary: b path and b path rule: good_goods.induct)
  case (1 p ro cs b path)
  show ?case
  proof (cases "path = []")
    case True
    then show ?thesis
      by (auto simp: is_best_def cand_def node_match_def split: option.splits)
  next
    case False
    let ?f = "findByPathHelper (RNode p ro cs)" and ?g = "nonempty_part (findByPath_children cs)"
    have fg: "?f q = (if q = [] then ro else ?g q)" for q by (simp add: nonempty_part_def)
    from "1.prems"(2) have bg: "based b ?g" by (auto simp: based_def nonempty_part_def split: if_splits)
    with "1.IH" False "1.prems" have IH: "is_best ?g path (search_children cs path None)" by simp
    have cg: "cand ?f path q r \<longleftrightarrow> (if q = [] then ro = Some r \<and> node_match ro path = Some r else cand ?g path q r)"
      for q r by (cases "q = []") (auto simp: cand_def nonempty_part_def)
    have g0: "\<not> cand ?g path [] r" for r by (simp add: cand_def nonempty_part_def)
    have long: "length (PathBase r0) < length (PathBase m)"
      if "node_match ro path = Some r0" "search_children cs path None = Some m" for r0 m
    proof -
      from that IH obtain q where "cand ?g path q m" by (auto simp: is_best_def)
      then have "q \<noteq> []" "PathBase m = b @ q" using g0 bg by (auto simp: cand_def based_def)
      moreover have "PathBase r0 = b"
        using node_match_Some [OF that(1)] "1.prems"(2) [unfolded based_def, rule_format, of "[]" r0] by simp
      ultimately show ?thesis by simp
    qed
    have "search (RNode p ro cs) path =
        (case search_children cs path None of Some m \<Rightarrow> Some m | None \<Rightarrow> node_match ro path)"
    proof (cases "node_match ro path")
      case None
      then show ?thesis using False by (auto split: option.splits)
    next
      case (Some r0)
      then show ?thesis
        using search_children_best [of cs path r0] long False "1.prems"(1) by (auto split: option.splits)
    qed
    moreover have "is_best ?f path
        (case search_children cs path None of Some m \<Rightarrow> Some m | None \<Rightarrow> node_match ro path)"
    proof (cases "search_children cs path None")
      case None
      with IH have "\<not> cand ?g path q r" for q r by (auto simp: is_best_def)
      then have "cand ?f path q r \<longleftrightarrow> q = [] \<and> ro = Some r \<and> node_match ro path = Some r" for q r
        using cg by auto
      with None show ?thesis
        by (auto simp: is_best_def dest: node_match_Some split: option.splits)
    next
      case (Some m)
      with IH obtain q where "cand ?g path q m" "\<forall>p' r'. cand ?g path p' r' \<longrightarrow> length p' \<le> length q"
        by (auto simp: is_best_def)
      then have "cand ?f path q m \<and> (\<forall>p' r'. cand ?f path p' r' \<longrightarrow> length p' \<le> length q)"
        using cg g0 by auto
      with Some show ?thesis by (auto simp: is_best_def)
    qed
    ultimately show ?thesis by (simp only:)
  qed
next
  case 2
  then show ?case by (simp add: is_best_def cand_def nonempty_part_def)
next
  case (3 c cs b path)
  let ?g = "nonempty_part (findByPath_children (c # cs))"
  note cv = cand_via [OF "3.prems"(1,2)]
  note bc = based_child [OF "3.prems"(1,3)]
  show ?case
  proof (cases "HasPrefix path (nd_prefix c)")
    case True
    let ?p = "nd_prefix c" and ?u = "drop (length (nd_prefix c)) path"
    from True "3.prems" have hd: "hd path = hd ?p" "hd path \<notin> heads cs"
      by (auto simp: HasPrefix_iff neq_Nil_conv)
    then have "search_children cs path x = x" for x
      using search_children_other "3.prems" by auto
    with True have s: "search_children (c # cs) path None = search c ?u"
      by (auto split: option.splits)
    have "is_best (findByPathHelper c) ?u (search c ?u)"
      using "3.IH"(1) bc(1) "3.prems"(1) by simp
    then show ?thesis
      unfolding s
      by (rule is_best_shift [where a = "nd_prefix c", rotated]) (simp only: cv hd True if_True simp_thms)
  next
    case False
    have e: "cand ?g path p r = cand (nonempty_part (findByPath_children cs)) path p r" for p r
    proof (cases "hd path = hd (nd_prefix c)")
      case True
      then have "hd path \<notin> heads cs" using "3.prems" by auto
      then have "\<not> cand (nonempty_part (findByPath_children cs)) path p r"
        using find_children_None [of cs p] "3.prems"
        by (cases "p = []") (auto simp: cand_def nonempty_part_def)
      with True False cv show ?thesis by auto
    qed (use cv in auto)
    have s: "search_children (c # cs) path None = search_children cs path None"
      using False by simp
    have "is_best (nonempty_part (findByPath_children cs)) path (search_children cs path None)"
      using "3.IH"(2) bc(2) "3.prems" by simp
    then show ?thesis unfolding s is_best_def by (simp only: e)
  qed
qed

section \<open>The tree as an index from paths to routes\<close>

definition contents :: "rtree \<Rightarrow> string \<Rightarrow> route option" where
  "contents t = findByPathHelper (rt_root t)"

text \<open>Each ID is stored at most once.\<close>

definition unique_ids :: "(string \<Rightarrow> route option) \<Rightarrow> bool" where
  "unique_ids f \<longleftrightarrow> (\<forall>p q a b. f p = Some a \<longrightarrow> f q = Some b \<longrightarrow> RouteID a = RouteID b \<longrightarrow> p = q)"

text \<open>What the operations keep: a well-formed trie under an empty root segment, every route at its
  own \<open>PathBase\<close>, IDs unique, and a \<open>size\<close> counter that counts the stored routes.\<close>

definition tree_inv :: "rtree \<Rightarrow> bool" where
  "tree_inv t \<longleftrightarrow> good (rt_root t) \<and> based [] (contents t) \<and> unique_ids (contents t)
     \<and> finite (dom (contents t)) \<and> rt_size t = int (card (dom (contents t)))"

definition drop_id :: "string \<Rightarrow> (string \<Rightarrow> route option) \<Rightarrow> string \<Rightarrow> route option" where
  "drop_id i f = (\<lambda>q. case f q of Some r \<Rightarrow> if RouteID r = i then None else Some r | None \<Rightarrow> None)"

lemma drop_id_absent: "(\<And>p r. f p = Some r \<Longrightarrow> RouteID r \<noteq> i) \<Longrightarrow> drop_id i f = f"
  by (auto simp: drop_id_def fun_eq_iff split: option.splits)

lemma drop_id_removes: "unique_ids f \<Longrightarrow> removes f i g \<Longrightarrow> g = drop_id i f"
  by (fastforce simp: drop_id_def removes_def unique_ids_def fun_eq_iff split: option.splits)

lemma drop_id_Some: "drop_id i f q = Some r \<longleftrightarrow> f q = Some r \<and> RouteID r \<noteq> i"
  by (auto simp: drop_id_def split: option.splits)

lemma unique_ids_sub: "unique_ids f \<Longrightarrow> (\<And>p r. g p = Some r \<Longrightarrow> f p = Some r) \<Longrightarrow> unique_ids g"
  unfolding unique_ids_def by meson

lemma tree_inv_New: "tree_inv NewRadixTree"
  by (auto simp: tree_inv_def NewRadixTree_def contents_def based_def unique_ids_def dom_def)

lemma contents_New: "contents NewRadixTree = Map.empty"
  by (auto simp: contents_def NewRadixTree_def)

lemma delete_at_root_spec:
  assumes "tree_inv t"
  shows "contents (fst (delete_at_root t i)) = drop_id i (contents t)"
    "snd (delete_at_root t i) \<longleftrightarrow> (\<exists>p r. contents t p = Some r \<and> RouteID r = i)"
    "tree_inv (fst (delete_at_root t i))"
proof -
  obtain n b where d: "deleteByID (rt_root t) i = (n, b)" by fastforce
  from assms have g: "good (rt_root t)" and u: "unique_ids (contents t)" by (auto simp: tree_inv_def)
  from delete_ok(1) [OF g, of i] d have n: "good n" "b = (findByIDHelper (rt_root t) i \<noteq> None)"
    "if b then removes (contents t) i (findByPathHelper n) else n = rt_root t"
    by (auto simp: del_node_ok_def contents_def)
  have c: "findByPathHelper n = drop_id i (contents t)"
  proof (cases b)
    case True
    with n u show ?thesis by (auto dest: drop_id_removes)
  next
    case False
    then have "RouteID r \<noteq> i" if "contents t p = Some r" for p r
      using findByID_None(1) [OF g] n(2) that by (auto simp: contents_def)
    with False n show ?thesis by (simp add: drop_id_absent contents_def)
  qed
  show cs: "contents (fst (delete_at_root t i)) = drop_id i (contents t)"
    using d c by (simp add: delete_at_root_def contents_def)
  show "snd (delete_at_root t i) \<longleftrightarrow> (\<exists>p r. contents t p = Some r \<and> RouteID r = i)"
    using d n(2) findByID_None(1) [OF g] findByID_Some(1) [OF g]
    by (auto simp: delete_at_root_def contents_def) blast
  have "card (dom (drop_id i (contents t))) = (if b then card (dom (contents t)) - 1 else card (dom (contents t)))"
  proof (cases b)
    case True
    with n obtain p r where "contents t p = Some r" "findByPathHelper n = (contents t)(p := None)"
      by (auto simp: removes_def)
    then have "p \<in> dom (contents t)" "dom (drop_id i (contents t)) = dom (contents t) - {p}"
      using c by auto
    with True show ?thesis by simp
  next
    case False
    with n c show ?thesis by (simp add: contents_def)
  qed
  moreover have "b \<Longrightarrow> card (dom (contents t)) \<noteq> 0"
    using n assms by (auto simp: removes_def tree_inv_def)
  moreover have "finite (dom (drop_id i (contents t)))"
    by (rule finite_subset [of _ "dom (contents t)"]) (use assms in \<open>auto simp: tree_inv_def drop_id_Some dom_def\<close>)
  moreover have "unique_ids (drop_id i (contents t))"
    by (rule unique_ids_sub [OF u]) (simp add: drop_id_Some)
  ultimately show "tree_inv (fst (delete_at_root t i))"
    using assms n(1) d cs by (auto simp: tree_inv_def delete_at_root_def based_def drop_id_Some)
qed

lemma insert_at_root_spec:
  assumes "good (rt_root t)"
  shows "contents (insert_at_root t p r) = (contents t)(p := Some r)"
    "good (rt_root (insert_at_root t p r))"
    "rt_size (insert_at_root t p r) = rt_size t + (if contents t p = None then 1 else 0)"
  using insert_ok(1) [OF assms, of p r]
  by (auto simp: ins_node_ok_def insert_at_root_def contents_def split: prod.splits)

lemma Insert_spec:
  assumes "tree_inv t"
  shows "contents (Insert t r) = (drop_id (RouteID r) (contents t))(PathBase r := Some r)"
    and "tree_inv (Insert t r)"
proof -
  have g: "good (rt_root t)" and u: "unique_ids (contents t)" and ba: "based [] (contents t)"
    using assms by (auto simp: tree_inv_def)
  define t1 where t1: "t1 = (case findByIDHelper (rt_root t) (RouteID r) of
      Some x \<Rightarrow> if PathBase x \<noteq> PathBase r then fst (delete_at_root t (RouteID r)) else t | None \<Rightarrow> t)"
  have I: "Insert t r = insert_at_root t1 (PathBase r) r" by (simp add: Insert_def t1)
  have inv1: "tree_inv t1"
    using assms delete_at_root_spec(3) [OF assms] by (auto simp: t1 split: option.splits)
  then have g1: "good (rt_root t1)" by (simp add: tree_inv_def)
  have c1: "(contents t1)(PathBase r := Some r) = (drop_id (RouteID r) (contents t))(PathBase r := Some r)"
  proof (cases "findByIDHelper (rt_root t) (RouteID r)")
    case None
    then have "drop_id (RouteID r) (contents t) = contents t"
      using findByID_None(1) [OF g] by (intro drop_id_absent) (auto simp: contents_def)
    with None show ?thesis by (simp add: t1)
  next
    case (Some x)
    then obtain p where p: "RouteID x = RouteID r" "contents t p = Some x"
      using findByID_Some(1) [OF g] by (auto simp: contents_def)
    show ?thesis
    proof (cases "PathBase x = PathBase r")
      case True
      then have "p = PathBase r" using ba p(2) by (auto simp: based_def)
      then have "drop_id (RouteID r) (contents t) = (contents t)(PathBase r := None)"
        using p u by (intro drop_id_removes [symmetric]) (auto simp: removes_def)
      with Some True show ?thesis by (simp add: t1)
    next
      case False
      with Some show ?thesis by (simp add: t1 delete_at_root_spec(1) [OF assms])
    qed
  qed
  show c: "contents (Insert t r) = (drop_id (RouteID r) (contents t))(PathBase r := Some r)"
    unfolding I insert_at_root_spec(1) [OF g1] by (rule c1)
  have "unique_ids (contents (Insert t r))"
    using u unfolding c unique_ids_def by (auto simp: drop_id_Some)
  moreover have "based [] (contents (Insert t r))"
    using ba unfolding c based_def by (auto simp: drop_id_Some)
  moreover have "finite (dom (contents t1))" "rt_size t1 = int (card (dom (contents t1)))"
    using inv1 by (auto simp: tree_inv_def)
  then have "finite (dom (contents (Insert t r)))"
    "rt_size (Insert t r) = int (card (dom (contents (Insert t r))))"
    unfolding I insert_at_root_spec [OF g1] by (auto simp: card_insert_if domIff)
  ultimately show "tree_inv (Insert t r)"
    using insert_at_root_spec(2) [OF g1] by (simp add: tree_inv_def I)
qed

lemma Search_best: "tree_inv t \<Longrightarrow> is_best (contents t) path (Search t path)"
  unfolding Search_def contents_def
  by (rule search_ok(1) [of _ "[]"]) (auto simp: tree_inv_def contents_def)

section \<open>The interface the registry relies on\<close>

text \<open>What a route index promises its clients, in terms of the routes it holds by path.\<close>

locale route_index =
  fixes empty_ix :: 'ix
    and ins :: "'ix \<Rightarrow> route \<Rightarrow> 'ix"
    and del_ix :: "'ix \<Rightarrow> string \<Rightarrow> 'ix"
    and srch :: "'ix \<Rightarrow> string \<Rightarrow> route option"
    and cont :: "'ix \<Rightarrow> string \<Rightarrow> route option"
    and inv :: "'ix \<Rightarrow> bool"
  assumes inv_empty: "inv empty_ix"
    and cont_empty: "cont empty_ix = Map.empty"
    and inv_ins: "inv ix \<Longrightarrow> inv (ins ix r)"
    and inv_del: "inv ix \<Longrightarrow> inv (del_ix ix i)"
    and cont_ins: "inv ix \<Longrightarrow> cont (ins ix r) = (drop_id (RouteID r) (cont ix))(PathBase r := Some r)"
    and cont_del: "inv ix \<Longrightarrow> cont (del_ix ix i) = drop_id i (cont ix)"
    and cont_path: "inv ix \<Longrightarrow> cont ix p = Some r \<Longrightarrow> PathBase r = p"
    and cont_id: "inv ix \<Longrightarrow> cont ix p = Some r \<Longrightarrow> cont ix q = Some r' \<Longrightarrow>
      RouteID r = RouteID r' \<Longrightarrow> p = q"
    and srch_best: "inv ix \<Longrightarrow> is_best (cont ix) path (srch ix path)"
begin

lemma srch_sound:
  assumes "inv ix" "srch ix path = Some r"
  shows "cont ix (PathBase r) = Some r" "HasPrefix path (PathBase r)"
  using srch_best [OF assms(1), of path] cont_path [OF assms(1)] assms(2)
  by (auto simp: is_best_def cand_def HasPrefix_iff)

lemma srch_cand:
  assumes "inv ix" "srch ix path = Some r"
  shows "cand (cont ix) path (PathBase r) r"
proof -
  from srch_best [OF assms(1), of path] assms(2) obtain p where p: "cand (cont ix) path p r"
    by (auto simp: is_best_def)
  then have "PathBase r = p" using cont_path [OF assms(1)] by (simp add: cand_def)
  with p show ?thesis by simp
qed

lemma srch_longest:
  assumes "inv ix" "srch ix path = Some r" "cand (cont ix) path p r'"
  shows "length p \<le> length (PathBase r)"
proof -
  from srch_best [OF assms(1), of path] assms(2) obtain q
    where "cont ix q = Some r" "\<And>p' r'. cand (cont ix) path p' r' \<Longrightarrow> length p' \<le> length q"
    by (auto simp: is_best_def cand_def)
  with assms(3) cont_path [OF assms(1)] show ?thesis by blast
qed

lemma srch_exact:
  assumes "inv ix" "cont ix p = Some r"
  shows "srch ix p = Some r"
proof -
  have c: "cand (cont ix) p p r" using assms(2) by (simp add: cand_def node_match_def)
  with srch_best [OF assms(1), of p] obtain r' where r': "srch ix p = Some r'"
    by (cases "srch ix p") (auto simp: is_best_def)
  have "length p \<le> length (PathBase r')" by (rule srch_longest [OF assms(1) r' c])
  moreover have "HasPrefix p (PathBase r')" by (rule srch_sound(2) [OF assms(1) r'])
  ultimately have "PathBase r' = p" by (auto simp: HasPrefix_iff)
  with srch_sound(1) [OF assms(1) r'] assms(2) r' show ?thesis by simp
qed

lemma srch_None: "inv ix \<Longrightarrow> srch ix path = None \<longleftrightarrow> (\<forall>p r. \<not> cand (cont ix) path p r)"
  using srch_best [of ix path] by (auto simp: is_best_def split: option.splits)

text \<open>Searching depends on the held routes only, not on how the index arranges them.\<close>

lemma srch_cong:
  assumes "inv ix" "inv ix'" "cont ix = cont ix'"
  shows "srch ix path = srch ix' path"
proof (cases "srch ix path")
  case None
  with assms srch_None show ?thesis by metis
next
  case (Some r)
  then have c: "cont ix (PathBase r) = Some r" "HasPrefix path (PathBase r)"
    using srch_sound [OF assms(1)] by blast+
  obtain r' where r': "srch ix' path = Some r'"
    using srch_None [OF assms(1), of path] srch_None [OF assms(2), of path] Some assms(3) by force
  then have c': "cont ix (PathBase r') = Some r'" "HasPrefix path (PathBase r')"
    using srch_sound [OF assms(2)] assms(3) by auto
  have "cand (cont ix) path (PathBase r) r" "cand (cont ix) path (PathBase r') r'"
    using srch_cand [OF assms(1) Some] srch_cand [OF assms(2) r'] assms(3) by simp_all
  then have "length (PathBase r) = length (PathBase r')"
    using srch_longest [OF assms(1) Some] srch_longest [OF assms(2) r'] assms(3) by (simp add: le_antisym)
  with c(2) c'(2) have "PathBase r = PathBase r'" by (rule HasPrefix_same_length)
  then have "Some r = Some r'" using c(1) c'(1) by metis
  with Some r' show ?thesis by (simp only:)
qed

end

text \<open>The radix tree provides it.\<close>

interpretation radix: route_index NewRadixTree Insert "\<lambda>t i. fst (Delete t i)" Search contents tree_inv
proof
  show "tree_inv NewRadixTree" by (rule tree_inv_New)
  show "contents NewRadixTree = Map.empty" by (rule contents_New)
next
  fix t :: rtree assume t: "tree_inv t"
  show "tree_inv (Insert t r)" for r by (rule Insert_spec(2) [OF t])
  show "tree_inv (fst (Delete t i))" for i unfolding Delete_def by (rule delete_at_root_spec(3) [OF t])
  show "contents (Insert t r) = (drop_id (RouteID r) (contents t))(PathBase r := Some r)" for r
    by (rule Insert_spec(1) [OF t])
  show "contents (fst (Delete t i)) = drop_id i (contents t)" for i
    unfolding Delete_def by (rule delete_at_root_spec(1) [OF t])
  show "PathBase r = p" if "contents t p = Some r" for p r
    using t that by (auto simp: tree_inv_def based_def)
  show "p = q" if "contents t p = Some r" "contents t q = Some r'" "RouteID r = RouteID r'" for p q r r'
    using t that unfolding tree_inv_def unique_ids_def by blast
  show "is_best (contents t) path (Search t path)" for path by (rule Search_best [OF t])
qed

section \<open>Refinement of the map of routes\<close>

text \<open>Any sequence of insertions and deletions, run on the tree and on a plain map from paths to
  routes.\<close>

datatype index_op = OpInsert route | OpDelete string

fun tree_op :: "rtree \<Rightarrow> index_op \<Rightarrow> rtree" where
  "tree_op t (OpInsert r) = Insert t r"
| "tree_op t (OpDelete i) = fst (Delete t i)"

fun spec_op :: "(string \<Rightarrow> route option) \<Rightarrow> index_op \<Rightarrow> string \<Rightarrow> route option" where
  "spec_op f (OpInsert r) = (drop_id (RouteID r) f)(PathBase r := Some r)"
| "spec_op f (OpDelete i) = drop_id i f"

lemma run_tree:
  "tree_inv t \<Longrightarrow> tree_inv (foldl tree_op t ops) \<and> contents (foldl tree_op t ops) = foldl spec_op (contents t) ops"
proof (induction ops arbitrary: t)
  case Nil
  then show ?case by simp
next
  case (Cons op ops)
  have "tree_inv (tree_op t op)" "contents (tree_op t op) = spec_op (contents t) op"
    using Cons.prems by (cases op; simp add: radix.inv_ins radix.inv_del radix.cont_ins radix.cont_del)+
  with Cons.IH show ?case by simp
qed

text \<open>C1: Refinement of the route index: after any sequence of insertions and deletions from the
  empty tree, the radix tree holds exactly the routes a plain map from paths to routes would hold
  (inserting a route first forgets the path its ID had before), \<open>Search\<close> returns the candidate with
  the longest matching path of that map, or nothing when no held route matches, and the \<open>Size\<close>
  counter is the number of routes held.\<close>

theorem radix_refines_route_map:
  "contents (foldl tree_op NewRadixTree ops) = foldl spec_op Map.empty ops
   \<and> is_best (foldl spec_op Map.empty ops) path (Search (foldl tree_op NewRadixTree ops) path)
   \<and> Size (foldl tree_op NewRadixTree ops) = int (card (dom (foldl spec_op Map.empty ops)))"
proof -
  have *: "tree_inv (foldl tree_op NewRadixTree ops)"
    "contents (foldl tree_op NewRadixTree ops) = foldl spec_op Map.empty ops"
    using run_tree [OF radix.inv_empty, of ops] radix.cont_empty by simp_all
  moreover from *(1) have "rt_size (foldl tree_op NewRadixTree ops)
      = int (card (dom (contents (foldl tree_op NewRadixTree ops))))" by (simp add: tree_inv_def)
  ultimately show ?thesis using radix.srch_best [OF *(1), of path] by (simp add: Size_def)
qed

text \<open>Collision detection: on a well-formed tree \<open>InsertWithValidation\<close> fails exactly when
  another route holds the path, names that route, and when it succeeds no route with another ID is
  lost or moved.\<close>

theorem InsertWithValidation_correct:
  assumes "tree_inv t"
  shows "case InsertWithValidation t r of
      Inl (PathInUse p i) \<Rightarrow> p = PathBase r \<and> i \<noteq> RouteID r
        \<and> (\<exists>x. contents t (PathBase r) = Some x \<and> RouteID x = i)
    | Inr t' \<Rightarrow> tree_inv t' \<and> contents t' (PathBase r) = Some r
        \<and> (\<forall>p x. RouteID x \<noteq> RouteID r \<longrightarrow> (contents t' p = Some x) = (contents t p = Some x))"
proof -
  have 1: "contents (Insert t r) (PathBase r) = Some r" "tree_inv (Insert t r)"
    by (simp_all add: radix.cont_ins assms radix.inv_ins)
  have 2: "(contents (Insert t r) p = Some x) = (contents t p = Some x)"
    if "RouteID x \<noteq> RouteID r" "\<And>y. contents t (PathBase r) = Some y \<Longrightarrow> RouteID y = RouteID r" for p x
    using that by (auto simp: radix.cont_ins assms drop_id_Some)
  show ?thesis
  proof (cases "findByPathHelper (rt_root t) (PathBase r)")
    case None
    with 1 2 show ?thesis by (simp add: InsertWithValidation_def contents_def)
  next
    case (Some x)
    then have x: "contents t (PathBase r) = Some x" by (simp add: contents_def)
    show ?thesis
    proof (cases "RouteID x = RouteID r")
      case True
      have "(contents (Insert t r) p = Some y) = (contents t p = Some y)"
        if "RouteID y \<noteq> RouteID r" for p y
        by (rule 2 [OF that]) (use x True in simp)
      with Some True 1 show ?thesis by (simp add: InsertWithValidation_def)
    next
      case False
      with Some x show ?thesis by (simp add: InsertWithValidation_def)
    qed
  qed
qed

lemma InsertWithValidation_correct_witness:
  "tree_inv NewRadixTree \<and>
   (case InsertWithValidation NewRadixTree (zero_route\<lparr>RouteID := ''r'', PathBase := ''/a''\<rparr>) of
      Inl e \<Rightarrow> False
    | Inr t' \<Rightarrow> contents t' ''/a'' = Some (zero_route\<lparr>RouteID := ''r'', PathBase := ''/a''\<rparr>))"
proof -
  have "findByPathHelper (rt_root NewRadixTree) p = None" for p by (simp add: NewRadixTree_def)
  then show ?thesis
    using InsertWithValidation_correct [OF tree_inv_New, of "zero_route\<lparr>RouteID := ''r'', PathBase := ''/a''\<rparr>"]
      tree_inv_New by (simp add: InsertWithValidation_def)
qed

end
