(* ===== verification/Registry.thy ===== *)
theory Registry
  imports Radix Store
begin

text \<open>
  The route registry of \<open>internal/router/registry.go\<close>: routes and apps in memory, the radix
  index, the subdomain index and the persistent store behind them, with \<open>subdomain.go\<close>'s
  label validation.  A method that holds the mutex is one step; the store calls it makes take
  the connection they run on, so a theorem covers every outcome of them.  The callbacks the
  server installs are the events a call emits.
\<close>

section \<open>State\<close>

record registry =
  rg_routes :: "(string, route) gomap"
  rg_apps :: "(string, app) gomap"
  rg_radixIndex :: rtree
  rg_subdomainIndex :: "(string, string) gomap"
  rg_storage :: "store option"

datatype registry_event = RouteUpdated route route | RouteRemoved route | AppAdded app | AppRemoved string

datatype registry_error = SubdomainInUse string string | PathCollision insert_error | StorageFailed db_error

text \<open>The normalisation every write performs.\<close>

definition normalize_route :: "route \<Rightarrow> route" where
  "normalize_route rt =
     (let rt1 = (if StripPrefix rt \<and> \<not> HasSuffix (PathBase rt) ''/''
                 then rt\<lparr>PathBase := PathBase rt @ ''/''\<rparr> else rt)
      in if StripPrefix rt1 \<and> \<not> RewriteHTML rt1 then rt1\<lparr>RewriteHTML := True\<rparr> else rt1)"

section \<open>Start-up\<close>

definition load_route :: "registry \<Rightarrow> route \<Rightarrow> registry" where
  "load_route rg route =
     rg\<lparr>rg_routes := put (RouteID route) route (rg_routes rg),
        rg_radixIndex := Insert (rg_radixIndex rg) route,
        rg_subdomainIndex :=
          (if Subdomain route \<noteq> [] \<and> subdomain_mode route
           then put (Subdomain route) (RouteID route) (rg_subdomainIndex rg)
           else rg_subdomainIndex rg)\<rparr>"

definition loadFromStorage :: "conn \<Rightarrow> conn \<Rightarrow> registry \<Rightarrow> store \<Rightarrow> registry \<times> db_error option" where
  "loadFromStorage c1 c2 rg st =
     (case ListApps c1 st of
        Inl e \<Rightarrow> (rg, Some e)
      | Inr apps \<Rightarrow>
          (let rg1 = rg\<lparr>rg_apps := fold (\<lambda>a. put (app_ID a) a) apps (rg_apps rg)\<rparr> in
           case ListRoutes c2 st of
             Inl e \<Rightarrow> (rg1, Some e)
           | Inr routes \<Rightarrow> (foldl load_route rg1 routes, None)))"

definition NewRegistry :: "conn \<Rightarrow> conn \<Rightarrow> store option \<Rightarrow> registry" where
  "NewRegistry c1 c2 sto =
     (let rg = \<lparr>rg_routes = [], rg_apps = [], rg_radixIndex = NewRadixTree,
                rg_subdomainIndex = [], rg_storage = sto\<rparr>
      in case sto of None \<Rightarrow> rg | Some st \<Rightarrow> fst (loadFromStorage c1 c2 rg st))"

section \<open>Writing a route\<close>

text \<open>The subdomain index after the route's own entry is made and stale entries are dropped;
  \<open>old\<close> is the route's previous version.\<close>

definition index_subdomain :: "(string, string) gomap \<Rightarrow> route option \<Rightarrow> route \<Rightarrow> (string, string) gomap" where
  "index_subdomain idx old rt =
     (let i1 = (if Subdomain rt \<noteq> [] \<and> subdomain_mode rt then put (Subdomain rt) (RouteID rt) idx else idx);
          i2 = (case old of
                  Some o' \<Rightarrow> if Subdomain o' \<noteq> [] \<and> Subdomain o' \<noteq> Subdomain rt
                               \<and> get_zero [] i1 (Subdomain o') = RouteID rt
                            then del (Subdomain o') i1 else i1
                | None \<Rightarrow> i1)
      in case old of
           Some o' \<Rightarrow> if Subdomain o' \<noteq> [] \<and> \<not> subdomain_mode rt \<and> Subdomain rt = []
                        \<and> get_zero [] i2 (Subdomain o') = RouteID rt
                     then del (Subdomain o') i2 else i2
         | None \<Rightarrow> i2)"

definition subdomain_conflict :: "(string, string) gomap \<Rightarrow> route \<Rightarrow> string option" where
  "subdomain_conflict idx rt =
     (if Subdomain rt \<noteq> [] \<and> subdomain_mode rt
      then (case get idx (Subdomain rt) of
              Some existingRouteID \<Rightarrow> if existingRouteID \<noteq> RouteID rt then Some existingRouteID else None
            | None \<Rightarrow> None)
      else None)"

text \<open>Undoing the in-memory write when the subdomain is taken.\<close>

definition rollback_route :: "registry \<Rightarrow> route option \<Rightarrow> route \<Rightarrow> registry" where
  "rollback_route rg old rt =
     (case old of
        Some o' \<Rightarrow> rg\<lparr>rg_routes := put (RouteID rt) o' (rg_routes rg),
                       rg_radixIndex := Insert (rg_radixIndex rg) o'\<rparr>
      | None \<Rightarrow> rg\<lparr>rg_routes := del (RouteID rt) (rg_routes rg),
                    rg_radixIndex := fst (Delete (rg_radixIndex rg) (RouteID rt))\<rparr>)"

text \<open>Undoing it when the store refuses the route.\<close>

definition rollback_storage :: "registry \<Rightarrow> route option \<Rightarrow> route \<Rightarrow> registry" where
  "rollback_storage rg old rt =
     (let rg1 = rg\<lparr>rg_routes := del (RouteID rt) (rg_routes rg),
                   rg_radixIndex := fst (Delete (rg_radixIndex rg) (RouteID rt)),
                   rg_subdomainIndex := (if Subdomain rt \<noteq> [] then del (Subdomain rt) (rg_subdomainIndex rg)
                                         else rg_subdomainIndex rg)\<rparr>
      in case old of
           None \<Rightarrow> rg1
         | Some o' \<Rightarrow> rg1\<lparr>rg_routes := put (RouteID rt) o' (rg_routes rg1),
                          rg_radixIndex := Insert (rg_radixIndex rg1) o',
                          rg_subdomainIndex :=
                            (if Subdomain o' \<noteq> [] \<and> subdomain_mode o'
                             then put (Subdomain o') (RouteID rt) (rg_subdomainIndex rg1)
                             else rg_subdomainIndex rg1)\<rparr>)"

text \<open>\<open>persist_route\<close>: the store's part of both upserts.\<close>

definition persist_route ::
  "conn \<Rightarrow> registry \<Rightarrow> route option \<Rightarrow> route \<Rightarrow> registry \<times> registry_error option" where
  "persist_route c rg old rt =
     (case rg_storage rg of
        None \<Rightarrow> (rg, None)
      | Some st \<Rightarrow>
          (case SaveRoute c st rt of
             Inr st' \<Rightarrow> (rg\<lparr>rg_storage := Some st'\<rparr>, None)
           | Inl e \<Rightarrow> (rollback_storage rg old rt, Some (StorageFailed e))))"

definition UpsertRoute ::
  "conn \<Rightarrow> registry \<Rightarrow> route \<Rightarrow> registry \<times> registry_event list \<times> registry_error option" where
  "UpsertRoute c rg rt0 =
     (let rt = normalize_route rt0;
          old = get (rg_routes rg) (RouteID rt);
          targetChanged = (case old of Some o' \<Rightarrow> To o' \<noteq> To rt | None \<Rightarrow> False);
          rg1 = rg\<lparr>rg_routes := put (RouteID rt) rt (rg_routes rg),
                   rg_radixIndex := Insert (rg_radixIndex rg) rt\<rparr>
      in case subdomain_conflict (rg_subdomainIndex rg1) rt of
           Some existingRouteID \<Rightarrow>
             (rollback_route rg1 old rt, [], Some (SubdomainInUse (Subdomain rt) existingRouteID))
         | None \<Rightarrow>
             (let rg2 = rg1\<lparr>rg_subdomainIndex := index_subdomain (rg_subdomainIndex rg1) old rt\<rparr> in
              case persist_route c rg2 old rt of
                (rg3, Some e) \<Rightarrow> (rg3, [], Some e)
              | (rg3, None) \<Rightarrow>
                  (rg3, (case old of Some o' \<Rightarrow> if targetChanged then [RouteUpdated o' rt] else []
                                   | None \<Rightarrow> []), None)))"

definition UpsertRouteWithValidation ::
  "conn \<Rightarrow> registry \<Rightarrow> route \<Rightarrow> registry \<times> registry_error option" where
  "UpsertRouteWithValidation c rg rt0 =
     (let rt = normalize_route rt0 in
      case InsertWithValidation (rg_radixIndex rg) rt of
        Inl e \<Rightarrow> (rg, Some (PathCollision e))
      | Inr radix \<Rightarrow>
          (let old = get (rg_routes rg) (RouteID rt);
               rg1 = rg\<lparr>rg_routes := put (RouteID rt) rt (rg_routes rg), rg_radixIndex := radix\<rparr>
           in case subdomain_conflict (rg_subdomainIndex rg1) rt of
                Some existingRouteID \<Rightarrow>
                  (rollback_route rg1 old rt, Some (SubdomainInUse (Subdomain rt) existingRouteID))
              | None \<Rightarrow>
                  persist_route c
                    (rg1\<lparr>rg_subdomainIndex := index_subdomain (rg_subdomainIndex rg1) old rt\<rparr>) old rt))"

section \<open>Apps\<close>

definition UpsertApp ::
  "conn \<Rightarrow> registry \<Rightarrow> app \<Rightarrow> registry \<times> registry_event list \<times> db_error option" where
  "UpsertApp c rg a =
     (let rg1 = rg\<lparr>rg_apps := put (app_ID a) a (rg_apps rg)\<rparr> in
      case rg_storage rg1 of
        None \<Rightarrow> (rg1, [AppAdded a], None)
      | Some st \<Rightarrow>
          (case SaveApp c st a of
             Inr st' \<Rightarrow> (rg1\<lparr>rg_storage := Some st'\<rparr>, [AppAdded a], None)
           | Inl e \<Rightarrow> (rg1\<lparr>rg_apps := del (app_ID a) (rg_apps rg1)\<rparr>, [], Some e)))"

definition RemoveApp ::
  "conn \<Rightarrow> registry \<Rightarrow> string \<Rightarrow> registry \<times> registry_event list \<times> db_error option" where
  "RemoveApp c rg appID =
     (if \<not> has (rg_apps rg) appID then (rg, [], None)
      else
        (let rg1 = rg\<lparr>rg_apps := del appID (rg_apps rg)\<rparr> in
         case rg_storage rg1 of
           None \<Rightarrow> (rg1, [AppRemoved appID], None)
         | Some st \<Rightarrow>
             (case DeleteApp c st appID of
                Inr st' \<Rightarrow> (rg1\<lparr>rg_storage := Some st'\<rparr>, [AppRemoved appID], None)
              | Inl e \<Rightarrow> (rg1, [], Some e))))"

section \<open>Removing a route\<close>

definition RemoveRoute ::
  "conn \<Rightarrow> conn \<Rightarrow> registry \<Rightarrow> string \<Rightarrow> registry \<times> registry_event list \<times> db_error option" where
  "RemoveRoute c1 c2 rg i =
     (let route = get (rg_routes rg) i;
          appID = (case route of Some r \<Rightarrow> AppID r | None \<Rightarrow> []);
          idx = (case route of
                   Some r \<Rightarrow> if Subdomain r \<noteq> [] \<and> get_zero [] (rg_subdomainIndex rg) (Subdomain r) = i
                             then del (Subdomain r) (rg_subdomainIndex rg) else rg_subdomainIndex rg
                 | None \<Rightarrow> rg_subdomainIndex rg);
          rg1 = rg\<lparr>rg_subdomainIndex := idx, rg_routes := del i (rg_routes rg),
                   rg_radixIndex := fst (Delete (rg_radixIndex rg) i)\<rparr>;
          appHasOtherRoutes = (appID \<noteq> [] \<and> list_ex (\<lambda>(k, rt). AppID rt = appID) (rg_routes rg1));
          stored = (case rg_storage rg1 of None \<Rightarrow> Inr rg1
                    | Some st \<Rightarrow> (case DeleteRoute c1 st i of
                                    Inl e \<Rightarrow> Inl e | Inr st' \<Rightarrow> Inr (rg1\<lparr>rg_storage := Some st'\<rparr>)))
      in case stored of
           Inl e \<Rightarrow> (rg1, [], Some e)
         | Inr rg2 \<Rightarrow>
             (let ev = (case route of Some r \<Rightarrow> [RouteRemoved r] | None \<Rightarrow> []) in
              if appID \<noteq> [] \<and> \<not> appHasOtherRoutes
              then (case RemoveApp c2 rg2 appID of (rg3, ev', _) \<Rightarrow> (rg3, ev @ ev', None))
              else (rg2, ev, None)))"

section \<open>Reading\<close>

definition GetRouteByPath :: "registry \<Rightarrow> string \<Rightarrow> route option" where
  "GetRouteByPath rg path = Search (rg_radixIndex rg) path"

definition GetRouteBySubdomain :: "registry \<Rightarrow> string \<Rightarrow> route option" where
  "GetRouteBySubdomain rg subdomain =
     (case get (rg_subdomainIndex rg) subdomain of
        None \<Rightarrow> None
      | Some routeID \<Rightarrow> get (rg_routes rg) routeID)"

definition GetRouteByAppID :: "registry \<Rightarrow> string \<Rightarrow> route option" where
  "GetRouteByAppID rg appID = map_option snd (find (\<lambda>(i, rt). AppID rt = appID) (rg_routes rg))"

definition GetAppByID :: "registry \<Rightarrow> string \<Rightarrow> app option" where
  "GetAppByID rg appID = get (rg_apps rg) appID"

definition RegListApps :: "registry \<Rightarrow> app list" where
  "RegListApps rg = map snd (rg_apps rg)"

definition RegListRoutes :: "registry \<Rightarrow> route list" where
  "RegListRoutes rg = map snd (rg_routes rg)"

section \<open>Hot reload\<close>

text \<open>Failures of single store calls are only logged; \<open>dc\<close> and \<open>sc\<close> give the connection of the
  delete and of the save for an ID.\<close>

definition delete_quietly :: "conn \<Rightarrow> store \<Rightarrow> string \<Rightarrow> store" where
  "delete_quietly c st i = (case DeleteRoute c st i of Inl _ \<Rightarrow> st | Inr st' \<Rightarrow> st')"

definition save_quietly :: "conn \<Rightarrow> store \<Rightarrow> route \<Rightarrow> store" where
  "save_quietly c st rt = (case SaveRoute c st rt of Inl _ \<Rightarrow> st | Inr st' \<Rightarrow> st')"

definition ReplaceRoutes ::
  "(string \<Rightarrow> conn) \<Rightarrow> (string \<Rightarrow> conn) \<Rightarrow> registry \<Rightarrow> route list \<Rightarrow> registry" where
  "ReplaceRoutes dc sc rg newRoutes0 =
     (let newRoutes = map normalize_route newRoutes0;
          newRouteMap = foldl (\<lambda>m rt. put (RouteID rt) rt m) [] newRoutes;
          newRadixIndex = foldl Insert NewRadixTree newRoutes;
          routesToDelete = filter (\<lambda>i. \<not> has newRouteMap i) (map fst (rg_routes rg));
          sto = (case rg_storage rg of
                   None \<Rightarrow> None
                 | Some st \<Rightarrow>
                     (let st1 = foldl (\<lambda>s i. delete_quietly (dc i) s i) st routesToDelete
                      in Some (foldl (\<lambda>s rt. save_quietly (sc (RouteID rt)) s rt) st1 newRoutes)))
      in rg\<lparr>rg_routes := newRouteMap, rg_radixIndex := newRadixIndex, rg_storage := sto\<rparr>)"

definition delete_app_quietly :: "conn \<Rightarrow> store \<Rightarrow> string \<Rightarrow> store" where
  "delete_app_quietly c st i = (case DeleteApp c st i of Inl _ \<Rightarrow> st | Inr st' \<Rightarrow> st')"

definition save_app_quietly :: "conn \<Rightarrow> store \<Rightarrow> app \<Rightarrow> store" where
  "save_app_quietly c st a = (case SaveApp c st a of Inl _ \<Rightarrow> st | Inr st' \<Rightarrow> st')"

definition ReplaceApps ::
  "(string \<Rightarrow> conn) \<Rightarrow> (string \<Rightarrow> conn) \<Rightarrow> registry \<Rightarrow> app list \<Rightarrow> registry" where
  "ReplaceApps dc sc rg newApps =
     (let newAppMap = foldl (\<lambda>m a. put (app_ID a) a m) [] newApps;
          appsToDelete = filter (\<lambda>i. \<not> has newAppMap i) (map fst (rg_apps rg));
          sto = (case rg_storage rg of
                   None \<Rightarrow> None
                 | Some st \<Rightarrow>
                     (let st1 = foldl (\<lambda>s i. delete_app_quietly (dc i) s i) st appsToDelete
                      in Some (foldl (\<lambda>s a. save_app_quietly (sc (app_ID a)) s a) st1 newApps)))
      in rg\<lparr>rg_apps := newAppMap, rg_storage := sto\<rparr>)"

section \<open>An index that agrees with a table of routes\<close>

text \<open>Everything the index holds is the current version of a registered route, at its own path.\<close>

definition agrees :: "(string \<Rightarrow> route option) \<Rightarrow> (string \<Rightarrow> route option) \<Rightarrow> bool" where
  "agrees f m \<longleftrightarrow> (\<forall>p r. f p = Some r \<longrightarrow> m (RouteID r) = Some r \<and> PathBase r = p)"

text \<open>Every registered route is held by the index.\<close>

definition covers :: "(string \<Rightarrow> route option) \<Rightarrow> (string \<Rightarrow> route option) \<Rightarrow> bool" where
  "covers f m \<longleftrightarrow> (\<forall>i r. m i = Some r \<longrightarrow> f (PathBase r) = Some r)"

lemma agreesD:
  assumes "agrees f m" "f p = Some r"
  shows "m (RouteID r) = Some r" "PathBase r = p"
  using assms unfolding agrees_def by blast+

lemma coversD: "covers f m \<Longrightarrow> m i = Some r \<Longrightarrow> f (PathBase r) = Some r"
  unfolding covers_def by blast

context route_index begin

lemma agrees_empty: "agrees (cont empty_ix) m"
  by (simp add: agrees_def cont_empty)

lemma agrees_ins:
  "inv ix \<Longrightarrow> agrees (cont ix) m \<Longrightarrow> agrees (cont (ins ix r)) (m(RouteID r \<mapsto> r))"
  by (auto simp: agrees_def cont_ins drop_id_Some)

lemma agrees_del: "inv ix \<Longrightarrow> agrees (cont ix) m \<Longrightarrow> agrees (cont (del_ix ix i)) (m(i := None))"
  by (auto simp: agrees_def cont_del drop_id_Some)

text \<open>Writing a route and then another version of it leaves only the second one.\<close>

lemma cont_ins_ins:
  assumes "inv ix" "RouteID r = RouteID r'"
  shows "cont (ins (ins ix r) r') = (\<lambda>p. if p = PathBase r' then Some r'
    else if p = PathBase r then None else drop_id (RouteID r') (cont ix) p)"
  using assms by (auto simp: cont_ins inv_ins drop_id_def fun_eq_iff split: option.splits)

text \<open>Undoing a write restores what the index held, unless the write covered another route.\<close>

lemma cont_rollback:
  assumes "inv ix" "agrees (cont ix) m" "RouteID old = RouteID rt"
    and "cont ix (PathBase old) = Some old"
    and "\<And>x. cont ix (PathBase rt) = Some x \<Longrightarrow> RouteID x = RouteID rt"
  shows "cont (ins (ins ix rt) old) = cont ix"
proof
  fix p
  have o: "m (RouteID rt) = Some old" using agreesD(1) [OF assms(2,4)] assms(3) by simp
  show "cont (ins (ins ix rt) old) p = cont ix p"
  proof (cases "cont ix p")
    case None
    with assms(3,4) show ?thesis
      by (auto simp: cont_ins_ins [OF assms(1)] drop_id_def)
  next
    case (Some x)
    show ?thesis
    proof (cases "RouteID x = RouteID rt")
      case True
      then have "x = old" using agreesD(1) [OF assms(2) Some] o by simp
      then have "p = PathBase old" "x = old" using agreesD(2) [OF assms(2) Some] by simp_all
      with Some show ?thesis using assms(3) by (simp add: cont_ins_ins [OF assms(1)])
    next
      case False
      with Some assms(5) have "p \<noteq> PathBase rt" by auto
      moreover from False Some assms(3,4) have "p \<noteq> PathBase old" by auto
      ultimately show ?thesis
        using False Some assms(3) by (simp add: cont_ins_ins [OF assms(1)] drop_id_def)
    qed
  qed
qed

lemma cont_rollback_new:
  assumes "inv ix" "agrees (cont ix) m" "m (RouteID rt) = None"
    and "cont ix (PathBase rt) = None"
  shows "cont (del_ix (ins ix rt) (RouteID rt)) = cont ix"
proof -
  have "drop_id (RouteID rt) (cont ix) = cont ix"
    using assms(3) agreesD(1) [OF assms(2)] by (intro drop_id_absent) force
  with assms show ?thesis
    by (auto simp: cont_ins cont_del inv_ins drop_id_def fun_eq_iff split: option.splits)
qed

lemma covers_ins:
  assumes "inv ix" "covers (cont ix) m" "\<And>i r. m i = Some r \<Longrightarrow> RouteID r = i"
    and "\<And>x. cont ix (PathBase r) = Some x \<Longrightarrow> RouteID x = RouteID r"
  shows "covers (cont (ins ix r)) (m(RouteID r \<mapsto> r))"
  unfolding covers_def
proof (intro allI impI)
  fix i x assume x: "(m(RouteID r \<mapsto> r)) i = Some x"
  show "cont (ins ix r) (PathBase x) = Some x"
  proof (cases "i = RouteID r")
    case True
    with x show ?thesis using assms(1) by (simp add: cont_ins)
  next
    case False
    with x have m: "m i = Some x" by simp
    have c: "cont ix (PathBase x) = Some x" by (rule coversD [OF assms(2) m])
    have i: "RouteID x = i" by (rule assms(3) [OF m])
    have "PathBase x \<noteq> PathBase r"
    proof
      assume "PathBase x = PathBase r"
      with c have "RouteID x = RouteID r" by (intro assms(4)) simp
      with i False show False by simp
    qed
    with c i False show ?thesis using assms(1) by (simp add: cont_ins drop_id_def)
  qed
qed

lemma covers_del:
  assumes "inv ix" "covers (cont ix) m" "\<And>i r. m i = Some r \<Longrightarrow> RouteID r = i"
  shows "covers (cont (del_ix ix i)) (m(i := None))"
  unfolding covers_def
proof (intro allI impI)
  fix j r assume "(m(i := None)) j = Some r"
  then have m: "m j = Some r" "j \<noteq> i" by (auto split: if_splits)
  show "cont (del_ix ix i) (PathBase r) = Some r"
    using coversD [OF assms(2) m(1)] assms(3) [OF m(1)] m(2) assms(1)
    by (simp add: cont_del drop_id_Some)
qed

lemma srch_registered:
  assumes "inv ix" "agrees (cont ix) m" "srch ix path = Some r"
  shows "m (RouteID r) = Some r" "HasPrefix path (PathBase r)"
  using agreesD(1) [OF assms(2)] srch_sound [OF assms(1,3)] by blast+

end

section \<open>The registry's invariant\<close>

definition keyed :: "(string, route) gomap \<Rightarrow> bool" where
  "keyed m \<longleftrightarrow> (\<forall>i r. get m i = Some r \<longrightarrow> RouteID r = i)"

text \<open>An entry of the subdomain index names a registered route that has that subdomain.\<close>

definition subs_ok :: "(string, string) gomap \<Rightarrow> (string, route) gomap \<Rightarrow> bool" where
  "subs_ok idx routes \<longleftrightarrow>
     (\<forall>s i. get idx s = Some i \<longrightarrow> s \<noteq> [] \<and> (\<exists>r. get routes i = Some r \<and> Subdomain r = s))"

definition reg_inv :: "registry \<Rightarrow> bool" where
  "reg_inv rg \<longleftrightarrow> keyed (rg_routes rg) \<and> tree_inv (rg_radixIndex rg)
     \<and> agrees (contents (rg_radixIndex rg)) (get (rg_routes rg))
     \<and> subs_ok (rg_subdomainIndex rg) (rg_routes rg)"

text \<open>Every registered route is in the index: what writes without collision detection can break.\<close>

definition reg_covered :: "registry \<Rightarrow> bool" where
  "reg_covered rg \<longleftrightarrow> covers (contents (rg_radixIndex rg)) (get (rg_routes rg))"

lemma get_put_fun: "get (put k v m) = (get m)(k \<mapsto> v)"
  by (simp add: fun_eq_iff get_put)

lemma get_del_fun: "get (del k m) = (get m)(k := None)"
  by (simp add: fun_eq_iff get_del)

lemma keyed_put: "keyed m \<Longrightarrow> keyed (put (RouteID r) r m)"
  by (auto simp: keyed_def get_put)

lemma keyed_del: "keyed m \<Longrightarrow> keyed (del i m)"
  by (auto simp: keyed_def get_del)

lemma normalize_route_simps [simp]:
  "RouteID (normalize_route r) = RouteID r" "Subdomain (normalize_route r) = Subdomain r"
  "RoutingMode (normalize_route r) = RoutingMode r" "To (normalize_route r) = To r"
  "AppID (normalize_route r) = AppID r"
  by (simp_all add: normalize_route_def Let_def)

lemma subs_index:
  assumes "subs_ok idx routes" "get routes (RouteID rt) = old"
  shows "subs_ok (index_subdomain idx old rt) (put (RouteID rt) rt routes)"
  unfolding subs_ok_def
proof (intro allI impI)
  fix s i assume s: "get (index_subdomain idx old rt) s = Some i"
  define i1 where "i1 = (if Subdomain rt \<noteq> [] \<and> subdomain_mode rt
    then put (Subdomain rt) (RouteID rt) idx else idx)"
  have d: "get (if b then del k m else m) s = Some i \<Longrightarrow> get m s = Some i" for b k m
    by (simp add: get_del split: if_splits)
  have i1: "get i1 s = Some i"
    using s unfolding index_subdomain_def Let_def i1_def [symmetric]
    by (cases old) (simp_all only: option.case, blast dest: d)
  show "s \<noteq> [] \<and> (\<exists>r. get (put (RouteID rt) rt routes) i = Some r \<and> Subdomain r = s)"
  proof (cases "i = RouteID rt")
    case False
    then have "get idx s = Some i" using i1 by (auto simp: i1_def get_put split: if_splits)
    with assms(1) False show ?thesis by (auto simp: subs_ok_def get_put)
  next
    case True
    have "s = Subdomain rt"
    proof (rule ccontr)
      assume ne: "s \<noteq> Subdomain rt"
      then have "get idx s = Some i" using i1 by (auto simp: i1_def get_put split: if_splits)
      with assms True obtain o' where "old = Some o'" "Subdomain o' = s" "s \<noteq> []"
        by (auto simp: subs_ok_def)
      with s True ne i1 show False
        by (auto simp: index_subdomain_def i1_def [symmetric] Let_def get_del get_zero_def split: if_splits)
    qed
    moreover have "s \<noteq> []"
      using i1 assms(1) by (auto simp: i1_def get_put subs_ok_def split: if_splits)
    ultimately show ?thesis using True by (simp add: get_put)
  qed
qed

lemma subs_del_own:
  assumes "subs_ok idx routes" "get routes (RouteID rt) = Some rt"
  shows "subs_ok (if Subdomain rt \<noteq> [] then del (Subdomain rt) idx else idx) (del (RouteID rt) routes)"
  using assms by (fastforce simp: subs_ok_def get_put get_del split: if_splits)

lemma subs_restore:
  assumes "subs_ok idx (del (RouteID rt) routes)" "RouteID o' = RouteID rt"
  shows "subs_ok (if Subdomain o' \<noteq> [] \<and> subdomain_mode o' then put (Subdomain o') (RouteID rt) idx else idx)
    (put (RouteID rt) o' routes)"
  using assms by (fastforce simp: subs_ok_def get_put get_del split: if_splits)

lemma subs_ok_cong: "get m = get m' \<Longrightarrow> subs_ok idx m = subs_ok idx m'"
  by (simp add: subs_ok_def)

section \<open>Every operation keeps the invariant\<close>

text \<open>The in-memory write shared by both upserts; \<open>reg_core\<close> leaves the subdomain index aside.\<close>

definition reg_core :: "registry \<Rightarrow> bool" where
  "reg_core rg \<longleftrightarrow> keyed (rg_routes rg) \<and> tree_inv (rg_radixIndex rg)
     \<and> agrees (contents (rg_radixIndex rg)) (get (rg_routes rg))"

lemma reg_inv_core: "reg_inv rg \<longleftrightarrow> reg_core rg \<and> subs_ok (rg_subdomainIndex rg) (rg_routes rg)"
  by (auto simp: reg_inv_def reg_core_def)

lemma reg_core_put:
  "reg_core rg \<Longrightarrow> reg_core (rg\<lparr>rg_routes := put (RouteID rt) rt (rg_routes rg),
     rg_radixIndex := Insert (rg_radixIndex rg) rt\<rparr>)"
  by (simp add: reg_core_def keyed_put radix.inv_ins radix.agrees_ins get_put_fun)

lemma reg_core_del:
  "reg_core rg \<Longrightarrow> reg_core (rg\<lparr>rg_routes := del i (rg_routes rg),
     rg_radixIndex := fst (Delete (rg_radixIndex rg) i)\<rparr>)"
  by (simp add: reg_core_def keyed_del radix.inv_del radix.agrees_del get_del_fun)

lemma reg_core_other:
  "reg_core (rg\<lparr>rg_subdomainIndex := x\<rparr>) = reg_core rg"
  "reg_core (rg\<lparr>rg_storage := y\<rparr>) = reg_core rg"
  "reg_core (rg\<lparr>rg_apps := z\<rparr>) = reg_core rg"
  by (simp_all add: reg_core_def)

lemma reg_inv_other:
  "reg_inv (rg\<lparr>rg_storage := y\<rparr>) = reg_inv rg" "reg_inv (rg\<lparr>rg_apps := z\<rparr>) = reg_inv rg"
  by (simp_all add: reg_inv_def)

lemma keyedD: "keyed m \<Longrightarrow> get m i = Some r \<Longrightarrow> RouteID r = i"
  by (simp add: keyed_def)

lemma reg_core_rollback_route:
  assumes "reg_core rg" "\<And>o'. old = Some o' \<Longrightarrow> RouteID o' = RouteID rt"
  shows "reg_core (rollback_route rg old rt)"
proof (cases old)
  case None
  then show ?thesis using reg_core_del [OF assms(1), of "RouteID rt"] by (simp add: rollback_route_def)
next
  case (Some o')
  with assms(2) have "RouteID o' = RouteID rt" by simp
  with Some show ?thesis using reg_core_put [OF assms(1), of o'] by (simp add: rollback_route_def)
qed

lemma reg_core_rollback_storage:
  assumes "reg_core rg" "\<And>o'. old = Some o' \<Longrightarrow> RouteID o' = RouteID rt"
  shows "reg_core (rollback_storage rg old rt)"
proof -
  have d: "reg_core (rg\<lparr>rg_routes := del (RouteID rt) (rg_routes rg),
      rg_radixIndex := fst (Delete (rg_radixIndex rg) (RouteID rt)), rg_subdomainIndex := x\<rparr>)" for x
    using reg_core_del [OF assms(1), of "RouteID rt"] by (simp add: reg_core_def)
  show ?thesis
  proof (cases old)
    case None
    with d show ?thesis by (simp add: rollback_storage_def Let_def)
  next
    case (Some o')
    with assms(2) have "RouteID o' = RouteID rt" by simp
    with Some reg_core_put [OF d, where rt = o'] show ?thesis
      by (simp add: rollback_storage_def reg_core_def Let_def)
  qed
qed

lemma rollback_storage_inv:
  assumes "reg_inv rg" "get (rg_routes rg) (RouteID rt) = Some rt"
    "\<And>o'. old = Some o' \<Longrightarrow> RouteID o' = RouteID rt"
  shows "reg_inv (rollback_storage rg old rt)"
proof -
  let ?idx = "if Subdomain rt \<noteq> [] then del (Subdomain rt) (rg_subdomainIndex rg) else rg_subdomainIndex rg"
  have d: "subs_ok ?idx (del (RouteID rt) (rg_routes rg))"
    using assms by (intro subs_del_own) (simp add: reg_inv_def)
  have "subs_ok (rg_subdomainIndex (rollback_storage rg old rt)) (rg_routes (rollback_storage rg old rt))"
  proof (cases old)
    case None
    with d show ?thesis by (simp add: rollback_storage_def Let_def split: if_splits)
  next
    case (Some o')
    with assms(3) have "RouteID o' = RouteID rt" by simp
    from subs_restore [OF d this] Some
      subs_ok_cong [of "put (RouteID rt) o' (del (RouteID rt) (rg_routes rg))" "put (RouteID rt) o' (rg_routes rg)"]
    show ?thesis by (auto simp: rollback_storage_def Let_def get_put_fun get_del_fun split: if_splits)
  qed
  moreover have "reg_core (rollback_storage rg old rt)"
    using assms(1) by (intro reg_core_rollback_storage assms(3)) (simp_all add: reg_inv_core)
  ultimately show ?thesis by (simp add: reg_inv_core)
qed

lemma persist_route_inv:
  assumes "reg_inv rg" "get (rg_routes rg) (RouteID rt) = Some rt"
    "\<And>o'. old = Some o' \<Longrightarrow> RouteID o' = RouteID rt"
  shows "reg_inv (fst (persist_route c rg old rt))"
proof -
  have "reg_inv (rollback_storage rg old rt)" by (rule rollback_storage_inv [OF assms])
  with assms(1) show ?thesis
    by (simp add: persist_route_def reg_inv_other split: option.split sum.split)
qed

lemma rollback_route_inv:
  assumes "reg_inv rg" "old = get (rg_routes rg) (RouteID rt)" "reg_core rg1"
    "rg_routes rg1 = put (RouteID rt) rt (rg_routes rg)" "rg_subdomainIndex rg1 = rg_subdomainIndex rg"
  shows "reg_inv (rollback_route rg1 old rt)"
proof -
  have k: "RouteID o' = RouteID rt" if "old = Some o'" for o'
    by (rule keyedD [of "rg_routes rg"]) (use assms(1,2) that in \<open>simp_all add: reg_inv_def\<close>)
  have g: "get (rg_routes (rollback_route rg1 old rt)) = get (rg_routes rg)"
  proof (cases old)
    case None
    with assms(2) have "get (rg_routes rg) (RouteID rt) = None" by simp
    with None assms(4) show ?thesis
      by (intro ext) (simp add: rollback_route_def get_put get_del)
  next
    case (Some o')
    with assms(2) have "get (rg_routes rg) (RouteID rt) = Some o'" by simp
    with Some assms(4) show ?thesis
      by (intro ext) (simp add: rollback_route_def get_put)
  qed
  have "subs_ok (rg_subdomainIndex rg) (rg_routes rg)" using assms(1) by (simp add: reg_inv_def)
  with subs_ok_cong [OF g] have "subs_ok (rg_subdomainIndex rg) (rg_routes (rollback_route rg1 old rt))"
    by simp
  moreover have "rg_subdomainIndex (rollback_route rg1 old rt) = rg_subdomainIndex rg"
    using assms(5) by (simp add: rollback_route_def split: option.splits)
  ultimately show ?thesis
    using reg_core_rollback_route [OF assms(3) k] by (simp add: reg_inv_core)
qed

lemma write_inv:
  assumes "reg_inv rg" "old = get (rg_routes rg) (RouteID rt)"
  shows "reg_inv (rg\<lparr>rg_routes := put (RouteID rt) rt (rg_routes rg),
     rg_radixIndex := Insert (rg_radixIndex rg) rt,
     rg_subdomainIndex := index_subdomain (rg_subdomainIndex rg) old rt\<rparr>)"
  using reg_core_put [of rg rt] subs_index [of "rg_subdomainIndex rg" "rg_routes rg" rt old] assms
  by (auto simp: reg_inv_core reg_core_def)

text \<open>The state an upsert leaves, past the collision check: rolled back on a subdomain conflict,
  otherwise what the store call leaves.\<close>

definition upsert_state :: "conn \<Rightarrow> registry \<Rightarrow> route \<Rightarrow> registry" where
  "upsert_state c rg rt =
     (let old = get (rg_routes rg) (RouteID rt);
          rg1 = rg\<lparr>rg_routes := put (RouteID rt) rt (rg_routes rg),
                   rg_radixIndex := Insert (rg_radixIndex rg) rt\<rparr>
      in case subdomain_conflict (rg_subdomainIndex rg) rt of
           Some i \<Rightarrow> rollback_route rg1 old rt
         | None \<Rightarrow> fst (persist_route c
                     (rg1\<lparr>rg_subdomainIndex := index_subdomain (rg_subdomainIndex rg) old rt\<rparr>) old rt))"

lemma UpsertRoute_state: "fst (UpsertRoute c rg rt) = upsert_state c rg (normalize_route rt)"
  by (simp add: UpsertRoute_def upsert_state_def Let_def case_prod_beta split: option.split)

lemma Validated_state:
  "fst (UpsertRouteWithValidation c rg rt) =
     (case findByPathHelper (rt_root (rg_radixIndex rg)) (PathBase (normalize_route rt)) of
        Some x \<Rightarrow> if RouteID x \<noteq> RouteID rt then rg else upsert_state c rg (normalize_route rt)
      | None \<Rightarrow> upsert_state c rg (normalize_route rt))"
  by (simp add: UpsertRouteWithValidation_def upsert_state_def InsertWithValidation_def Let_def
      split: option.split)

lemma upsert_state_inv:
  assumes "reg_inv rg"
  shows "reg_inv (upsert_state c rg rt)"
proof -
  define old where "old = get (rg_routes rg) (RouteID rt)"
  have k: "RouteID o' = RouteID rt" if "old = Some o'" for o'
    by (rule keyedD [of "rg_routes rg"]) (use assms that in \<open>simp_all add: reg_inv_def old_def\<close>)
  let ?rg1 = "rg\<lparr>rg_routes := put (RouteID rt) rt (rg_routes rg),
                 rg_radixIndex := Insert (rg_radixIndex rg) rt\<rparr>"
  have c1: "reg_core ?rg1" using assms by (intro reg_core_put) (simp add: reg_inv_core)
  show ?thesis
  proof (cases "subdomain_conflict (rg_subdomainIndex rg) rt")
    case None
    have "reg_inv (fst (persist_route c
        (?rg1\<lparr>rg_subdomainIndex := index_subdomain (rg_subdomainIndex rg) old rt\<rparr>) old rt))"
      by (rule persist_route_inv [OF _ _ k]) (use write_inv [OF assms old_def] in \<open>simp_all add: get_put\<close>)
    with None show ?thesis by (simp add: upsert_state_def old_def Let_def)
  next
    case (Some i)
    with rollback_route_inv [OF assms old_def c1] show ?thesis
      by (simp add: upsert_state_def old_def Let_def)
  qed
qed

lemma UpsertRoute_inv: "reg_inv rg \<Longrightarrow> reg_inv (fst (UpsertRoute c rg rt))"
  by (simp add: UpsertRoute_state upsert_state_inv)

lemma UpsertRouteWithValidation_inv: "reg_inv rg \<Longrightarrow> reg_inv (fst (UpsertRouteWithValidation c rg rt))"
  by (simp add: Validated_state upsert_state_inv split: option.split)

lemma UpsertApp_inv: "reg_inv rg \<Longrightarrow> reg_inv (fst (UpsertApp c rg a))"
  by (auto simp: UpsertApp_def Let_def reg_inv_other split: option.splits sum.splits)

lemma UpsertApp_routes: "rg_routes (fst (UpsertApp c rg a)) = rg_routes rg"
    "rg_radixIndex (fst (UpsertApp c rg a)) = rg_radixIndex rg"
  by (auto simp: UpsertApp_def Let_def split: option.splits sum.splits)

lemma RemoveApp_frame:
  "rg_routes (fst (RemoveApp c rg a)) = rg_routes rg"
  "rg_radixIndex (fst (RemoveApp c rg a)) = rg_radixIndex rg"
  "rg_subdomainIndex (fst (RemoveApp c rg a)) = rg_subdomainIndex rg"
  by (auto simp: RemoveApp_def Let_def split: option.splits sum.splits)

lemma RemoveApp_inv: "reg_inv rg \<Longrightarrow> reg_inv (fst (RemoveApp c rg a))"
  by (simp add: reg_inv_def RemoveApp_frame)

definition removed_index :: "registry \<Rightarrow> string \<Rightarrow> (string, string) gomap" where
  "removed_index rg i =
     (case get (rg_routes rg) i of
        Some r \<Rightarrow> if Subdomain r \<noteq> [] \<and> get_zero [] (rg_subdomainIndex rg) (Subdomain r) = i
                  then del (Subdomain r) (rg_subdomainIndex rg) else rg_subdomainIndex rg
      | None \<Rightarrow> rg_subdomainIndex rg)"

lemma RemoveRoute_frame:
  "rg_routes (fst (RemoveRoute c1 c2 rg i)) = del i (rg_routes rg)"
  "rg_radixIndex (fst (RemoveRoute c1 c2 rg i)) = fst (Delete (rg_radixIndex rg) i)"
  "rg_subdomainIndex (fst (RemoveRoute c1 c2 rg i)) = removed_index rg i"
  by (auto simp: RemoveRoute_def removed_index_def Let_def case_prod_beta RemoveApp_frame
      split: option.splits sum.splits)

lemma subs_removed:
  assumes "subs_ok (rg_subdomainIndex rg) (rg_routes rg)"
  shows "subs_ok (removed_index rg i) (del i (rg_routes rg))"
  unfolding subs_ok_def
proof (intro allI impI)
  fix s j assume s: "get (removed_index rg i) s = Some j"
  then have o': "get (rg_subdomainIndex rg) s = Some j"
    by (auto simp: removed_index_def get_del split: option.splits if_splits)
  with assms obtain r where r: "s \<noteq> []" "get (rg_routes rg) j = Some r" "Subdomain r = s"
    by (auto simp: subs_ok_def)
  have "j \<noteq> i"
  proof
    assume "j = i"
    with s r o' show False by (auto simp: removed_index_def get_del get_zero_def split: if_splits)
  qed
  with r show "s \<noteq> [] \<and> (\<exists>r. get (del i (rg_routes rg)) j = Some r \<and> Subdomain r = s)"
    by (simp add: get_del)
qed

lemma RemoveRoute_inv: "reg_inv rg \<Longrightarrow> reg_inv (fst (RemoveRoute c1 c2 rg i))"
  using reg_core_del [of rg i] subs_removed [of rg i]
  by (simp add: reg_inv_core reg_core_def RemoveRoute_frame)

end
