(* ===== verification/Routing.thy ===== *)
theory Routing
  imports Registry "HOL-Library.Multiset"
begin

text \<open>
  What the registry promises over its lifetime: the step relation of its operations, the
  reachable registries, and the properties of look-up, upsert, removal and restart that follow
  from the invariant of \<open>Registry\<close> and the \<open>route_index\<close> interface of \<open>Radix\<close>.
\<close>

section \<open>Undoing a write the store refused\<close>

context route_index begin

lemma cont_restore:
  assumes "inv ix" "agrees (cont ix) m" "RouteID old = RouteID rt"
    and "cont ix (PathBase old) = Some old"
    and "\<And>x. cont ix (PathBase rt) = Some x \<Longrightarrow> RouteID x = RouteID rt"
  shows "cont (ins (del_ix (ins ix rt) (RouteID rt)) old) = cont ix"
proof
  fix p
  have o: "m (RouteID rt) = Some old" using agreesD(1) [OF assms(2,4)] assms(3) by simp
  have lhs: "cont (ins (del_ix (ins ix rt) (RouteID rt)) old) p =
    (if p = PathBase old then Some old else if p = PathBase rt then None else drop_id (RouteID rt) (cont ix) p)"
    using assms(1,3)
    by (auto simp: cont_ins cont_del inv_ins inv_del drop_id_def split: option.splits)
  show "cont (ins (del_ix (ins ix rt) (RouteID rt)) old) p = cont ix p"
  proof (cases "cont ix p")
    case None
    then show ?thesis using assms(4) unfolding lhs by (auto simp: drop_id_def)
  next
    case (Some x)
    show ?thesis
    proof (cases "RouteID x = RouteID rt")
      case True
      then have "x = old" using agreesD(1) [OF assms(2) Some] o by simp
      then have "p = PathBase old" "x = old" using agreesD(2) [OF assms(2) Some] by simp_all
      with Some show ?thesis unfolding lhs by simp
    next
      case False
      with Some assms(5) have "p \<noteq> PathBase rt" by auto
      moreover from False Some assms(3,4) have "p \<noteq> PathBase old" by auto
      ultimately show ?thesis using False Some unfolding lhs by (simp add: drop_id_def)
    qed
  qed
qed

end

section \<open>Reachable registries\<close>

definition store_keys :: "store option \<Rightarrow> bool" where
  "store_keys sto \<longleftrightarrow> (case sto of None \<Rightarrow> True | Some st \<Rightarrow> wf_map (st_routes st))"

inductive reg_step :: "registry \<Rightarrow> registry \<Rightarrow> bool" where
  upsert: "reg_step rg (fst (UpsertRoute c rg rt))"
| upsert_validated: "reg_step rg (fst (UpsertRouteWithValidation c rg rt))"
| remove: "reg_step rg (fst (RemoveRoute c1 c2 rg i))"
| upsert_app: "reg_step rg (fst (UpsertApp c rg a))"
| remove_app: "reg_step rg (fst (RemoveApp c rg i))"
| replace_apps: "reg_step rg (ReplaceApps dc sc rg as)"

inductive reg_reach :: "registry \<Rightarrow> bool" where
  start: "store_keys sto \<Longrightarrow> reg_reach (NewRegistry c1 c2 sto)"
| step: "reg_reach rg \<Longrightarrow> reg_step rg rg' \<Longrightarrow> reg_reach rg'"

lemma ReplaceApps_frame:
  "rg_routes (ReplaceApps dc sc rg as) = rg_routes rg"
  "rg_radixIndex (ReplaceApps dc sc rg as) = rg_radixIndex rg"
  "rg_subdomainIndex (ReplaceApps dc sc rg as) = rg_subdomainIndex rg"
  by (simp_all add: ReplaceApps_def Let_def)

lemma reg_step_inv: "reg_step rg rg' \<Longrightarrow> reg_inv rg \<Longrightarrow> reg_inv rg'"
proof (induction rule: reg_step.induct)
  case (replace_apps rg dc sc as)
  then show ?case by (simp add: reg_inv_def ReplaceApps_frame)
qed (simp_all add: UpsertRoute_inv UpsertRouteWithValidation_inv RemoveRoute_inv UpsertApp_inv RemoveApp_inv)

lemma load_route_inv:
  assumes "reg_inv rg" "get (rg_routes rg) (RouteID rt) = None"
  shows "reg_inv (load_route rg rt)"
  using write_inv [OF assms(1), of None rt] assms(2) by (simp add: load_route_def index_subdomain_def)

lemma load_route_routes: "rg_routes (load_route rg rt) = put (RouteID rt) rt (rg_routes rg)"
  by (simp add: load_route_def)

lemma load_routes_inv:
  "reg_inv rg \<Longrightarrow> distinct (map RouteID rts) \<Longrightarrow> \<forall>r \<in> set rts. get (rg_routes rg) (RouteID r) = None
   \<Longrightarrow> reg_inv (foldl load_route rg rts)"
proof (induction rts arbitrary: rg)
  case Nil
  then show ?case by simp
next
  case (Cons a rts)
  have "\<forall>r \<in> set rts. get (rg_routes (load_route rg a)) (RouteID r) = None"
    using Cons.prems(2,3) by (simp add: load_route_routes get_put image_iff) metis
  with Cons show ?case by (simp add: load_route_inv)
qed

lemma load_routes_routes:
  "distinct (map RouteID rts) \<Longrightarrow> get (rg_routes (foldl load_route rg rts)) i =
     (case find (\<lambda>r. RouteID r = i) rts of Some r \<Rightarrow> Some r | None \<Rightarrow> get (rg_routes rg) i)"
proof (induction rts arbitrary: rg)
  case Nil
  then show ?case by simp
next
  case (Cons r rts)
  have "RouteID r = i \<Longrightarrow> find (\<lambda>r. RouteID r = i) rts = None"
    using Cons.prems by (simp add: find_None_iff image_iff) metis
  with Cons show ?case by (auto simp: load_route_routes get_put split: option.splits)
qed

lemma RouteID_route_of_row [simp]: "RouteID (route_of_row i r) = i"
  by (simp add: route_of_row_def zero_route_def)

lemma ListRoutes_ids:
  assumes "ListRoutes c st = Inr rts" "wf_map (st_routes st)"
  shows "distinct (map RouteID rts)"
proof -
  let ?s = "sort_key (\<lambda>(i, r). rr_path_base r) (st_routes st)"
  have "map RouteID rts = map fst ?s"
    using assms(1) by (auto simp: ListRoutes_def case_prod_beta split: if_splits)
  moreover have "mset (map fst ?s) = mset (map fst (st_routes st))" by simp
  ultimately show ?thesis using assms(2) by (metis wf_map_def mset_eq_imp_distinct_iff)
qed

lemma NewRegistry_inv:
  assumes "store_keys sto"
  shows "reg_inv (NewRegistry c1 c2 sto)"
proof -
  have e: "reg_inv \<lparr>rg_routes = [], rg_apps = as, rg_radixIndex = NewRadixTree,
      rg_subdomainIndex = [], rg_storage = s\<rparr>" for as s
    by (simp add: reg_inv_def keyed_def subs_ok_def radix.inv_empty radix.agrees_empty)
  show ?thesis
  proof (cases sto)
    case None
    with e show ?thesis by (simp add: NewRegistry_def)
  next
    case (Some st)
    with assms have w: "wf_map (st_routes st)" by (simp add: store_keys_def)
    show ?thesis
      using e load_routes_inv ListRoutes_ids [OF _ w] Some
      by (auto simp: NewRegistry_def loadFromStorage_def Let_def split: sum.splits)
  qed
qed

lemma reg_reach_inv: "reg_reach rg \<Longrightarrow> reg_inv rg"
  by (induction rule: reg_reach.induct) (simp_all add: NewRegistry_inv reg_step_inv)

lemma GetRouteByPath_registered:
  assumes "reg_inv rg" "GetRouteByPath rg path = Some r"
  shows "get (rg_routes rg) (RouteID r) = Some r" "HasPrefix path (PathBase r)"
  using radix.srch_registered [of "rg_radixIndex rg" "get (rg_routes rg)" path r] assms
  by (simp_all add: reg_inv_def GetRouteByPath_def)

lemma GetRouteBySubdomain_registered:
  assumes "reg_inv rg" "GetRouteBySubdomain rg s = Some r"
  shows "get (rg_routes rg) (RouteID r) = Some r" "Subdomain r = s" "s \<noteq> []"
proof -
  from assms(2) obtain i where i: "get (rg_subdomainIndex rg) s = Some i" "get (rg_routes rg) i = Some r"
    by (auto simp: GetRouteBySubdomain_def split: option.splits)
  moreover from i(1) assms(1) obtain r' where "s \<noteq> []" "get (rg_routes rg) i = Some r'" "Subdomain r' = s"
    unfolding reg_inv_def subs_ok_def by blast
  ultimately show "get (rg_routes rg) (RouteID r) = Some r" "Subdomain r = s" "s \<noteq> []"
    using assms(1) by (auto simp: reg_inv_def keyed_def)
qed


text \<open>Concrete routes and a connection, for the witnesses.\<close>

definition demo_conn :: conn where
  "demo_conn = \<lparr>cn_ok = True, cn_fk = False, cn_now = 100\<rparr>"

definition demo_route :: route where
  "demo_route = zero_route\<lparr>RouteID := ''r1'', AppID := ''a1'', PathBase := ''/web'', To := ''http://a'',
     RoutingMode := ''both'', Subdomain := ''web''\<rparr>"

definition demo_registry :: registry where
  "demo_registry = fst (UpsertRoute demo_conn (NewRegistry demo_conn demo_conn None) demo_route)"

lemma demo_reach: "reg_reach demo_registry"
  unfolding demo_registry_def
  by (rule reg_reach.step [OF reg_reach.start reg_step.upsert]) (simp add: store_keys_def)

lemma demo_values:
  "GetRouteByPath demo_registry ''/web/x'' = Some demo_route"
  "GetRouteBySubdomain demo_registry ''web'' = Some demo_route"
  by code_simp+


section \<open>A successful upsert\<close>

definition write_route :: "registry \<Rightarrow> route \<Rightarrow> registry" where
  "write_route rg rt =
     rg\<lparr>rg_routes := put (RouteID rt) rt (rg_routes rg),
        rg_radixIndex := Insert (rg_radixIndex rg) rt,
        rg_subdomainIndex := index_subdomain (rg_subdomainIndex rg) (get (rg_routes rg) (RouteID rt)) rt\<rparr>"

lemma persist_route_None:
  assumes "persist_route c rg old rt = (rg', None)"
  shows "rg' = rg\<lparr>rg_storage := rg_storage rg'\<rparr>"
    "case rg_storage rg of None \<Rightarrow> rg_storage rg' = None
     | Some st \<Rightarrow> (\<exists>st'. SaveRoute c st rt = Inr st' \<and> rg_storage rg' = Some st')"
  using assms by (auto simp: persist_route_def split: option.splits sum.splits)

lemma upsert_ok_state:
  assumes "UpsertRoute c rg rt0 = (rg', ev, None)"
  shows "persist_route c (write_route rg (normalize_route rt0)) (get (rg_routes rg) (RouteID rt0))
      (normalize_route rt0) = (rg', None)"
    "subdomain_conflict (rg_subdomainIndex rg) (normalize_route rt0) = None"
    "ev = (case get (rg_routes rg) (RouteID rt0) of
       Some o' \<Rightarrow> if To o' \<noteq> To rt0 then [RouteUpdated o' (normalize_route rt0)] else [] | None \<Rightarrow> [])"
  using assms
  by (auto simp: UpsertRoute_def Let_def write_route_def split: option.splits prod.splits)

lemma write_route_found:
  assumes "reg_inv rg"
  shows "GetRouteByPath (write_route rg rt) (PathBase rt) = Some rt"
  using assms
  by (auto simp: GetRouteByPath_def write_route_def reg_inv_def intro!: radix.srch_exact)
    (simp_all add: radix.inv_ins radix.cont_ins)

lemma index_subdomain_own:
  "Subdomain rt \<noteq> [] \<Longrightarrow> subdomain_mode rt \<Longrightarrow>
   get (index_subdomain idx old rt) (Subdomain rt) = Some (RouteID rt)"
  by (auto simp: index_subdomain_def Let_def get_put get_del split: option.splits)

lemma frame_storage:
  assumes "rg' = rg\<lparr>rg_storage := s\<rparr>"
  shows "GetRouteByPath rg' = GetRouteByPath rg" "GetRouteBySubdomain rg' = GetRouteBySubdomain rg"
    "rg_routes rg' = rg_routes rg"
  using assms by (simp_all add: fun_eq_iff GetRouteByPath_def GetRouteBySubdomain_def cong: option.case_cong)

text \<open>C3: A successful \<open>UpsertRoute\<close> registers the normalised route: it is found by its base path,
  by its subdomain when it takes part in subdomain routing, and by its ID; every other route keeps its
  entry; when there is a store the route's row is the normalised route's row; and the proxy cache is
  told exactly when an existing route's target changed.\<close>

theorem UpsertRoute_registers:
  assumes "reg_inv rg" "UpsertRoute c rg rt0 = (rg', ev, None)"
  defines "rt \<equiv> normalize_route rt0"
  shows "GetRouteByPath rg' (PathBase rt) = Some rt
    \<and> get (rg_routes rg') = (get (rg_routes rg))(RouteID rt0 \<mapsto> rt)
    \<and> (Subdomain rt0 \<noteq> [] \<and> subdomain_mode rt0 \<longrightarrow> GetRouteBySubdomain rg' (Subdomain rt0) = Some rt)
    \<and> (case rg_storage rg of None \<Rightarrow> rg_storage rg' = None
       | Some st \<Rightarrow> (\<exists>st'. rg_storage rg' = Some st' \<and>
           get (st_routes st') = (get (st_routes st))(RouteID rt0 \<mapsto> row_of_route rt)))
    \<and> ev = (case get (rg_routes rg) (RouteID rt0) of
       Some o' \<Rightarrow> if To o' \<noteq> To rt0 then [RouteUpdated o' rt] else [] | None \<Rightarrow> [])"
proof (intro conjI)
  note p = upsert_ok_state [OF assms(2), folded rt_def]
  note f = frame_storage [OF persist_route_None(1) [OF p(1)]]
  have i: "RouteID rt = RouteID rt0" "Subdomain rt = Subdomain rt0" "subdomain_mode rt = subdomain_mode rt0"
    by (simp_all add: rt_def subdomain_mode_def)
  show "GetRouteByPath rg' (PathBase rt) = Some rt"
    using f(1) write_route_found [OF assms(1), of rt] by simp
  show r: "get (rg_routes rg') = (get (rg_routes rg))(RouteID rt0 \<mapsto> rt)"
    using f(3) i by (simp add: write_route_def get_put_fun)
  show "Subdomain rt0 \<noteq> [] \<and> subdomain_mode rt0 \<longrightarrow> GetRouteBySubdomain rg' (Subdomain rt0) = Some rt"
    using f(2) i index_subdomain_own [of rt]
    by (simp add: GetRouteBySubdomain_def write_route_def get_put_fun)
  show "case rg_storage rg of None \<Rightarrow> rg_storage rg' = None
       | Some st \<Rightarrow> (\<exists>st'. rg_storage rg' = Some st' \<and>
           get (st_routes st') = (get (st_routes st))(RouteID rt0 \<mapsto> row_of_route rt))"
    using persist_route_None(2) [OF p(1)] i
    by (auto simp: write_route_def SaveRoute_def get_put_fun split: option.splits if_splits)
  show "ev = (case get (rg_routes rg) (RouteID rt0) of
       Some o' \<Rightarrow> if To o' \<noteq> To rt0 then [RouteUpdated o' rt] else [] | None \<Rightarrow> [])"
    by (rule p(3))
qed

lemma UpsertRoute_registers_witness:
  "GetRouteByPath demo_registry (PathBase demo_route) = Some demo_route"
proof -
  have n: "normalize_route demo_route = demo_route" by code_simp
  have u: "UpsertRoute demo_conn (NewRegistry demo_conn demo_conn None) demo_route = (demo_registry, [], None)"
    by code_simp
  have "reg_inv (NewRegistry demo_conn demo_conn None)" by (intro NewRegistry_inv) (simp add: store_keys_def)
  from UpsertRoute_registers [OF this u] n show ?thesis by simp
qed

section \<open>A failing upsert\<close>

text \<open>The subdomain index is exact: it maps a subdomain to a route just when the route claims it.\<close>

definition subs_exact :: "registry \<Rightarrow> bool" where
  "subs_exact rg \<longleftrightarrow> (\<forall>s i. get (rg_subdomainIndex rg) s = Some i \<longleftrightarrow>
     s \<noteq> [] \<and> (\<exists>r. get (rg_routes rg) i = Some r \<and> Subdomain r = s \<and> subdomain_mode r))"

lemma subs_exactD:
  assumes "subs_exact rg" "get (rg_routes rg) i = Some r" "Subdomain r \<noteq> []"
  shows "get (rg_subdomainIndex rg) (Subdomain r) = Some i \<longleftrightarrow> subdomain_mode r"
  using assms by (auto simp: subs_exact_def)

definition same_lookups :: "registry \<Rightarrow> registry \<Rightarrow> bool" where
  "same_lookups rg rg' \<longleftrightarrow> get (rg_routes rg') = get (rg_routes rg)
     \<and> GetRouteByPath rg' = GetRouteByPath rg \<and> GetRouteBySubdomain rg' = GetRouteBySubdomain rg
     \<and> rg_storage rg' = rg_storage rg \<and> rg_apps rg' = rg_apps rg"

lemma same_lookupsI:
  assumes "reg_inv rg" "tree_inv (rg_radixIndex rg')" "get (rg_routes rg') = get (rg_routes rg)"
    "contents (rg_radixIndex rg') = contents (rg_radixIndex rg)"
    "get (rg_subdomainIndex rg') = get (rg_subdomainIndex rg)"
    "rg_storage rg' = rg_storage rg" "rg_apps rg' = rg_apps rg"
  shows "same_lookups rg rg'"
proof -
  have "Search (rg_radixIndex rg') path = Search (rg_radixIndex rg) path" for path
    using radix.srch_cong [OF assms(2) _ assms(4)] assms(1) by (simp add: reg_inv_def)
  with assms show ?thesis
    by (simp add: same_lookups_def fun_eq_iff GetRouteByPath_def GetRouteBySubdomain_def cong: option.case_cong)
qed

text \<open>The facts both roll-backs rest on: no other route is at the path written.\<close>

definition path_free :: "registry \<Rightarrow> route \<Rightarrow> bool" where
  "path_free rg rt \<longleftrightarrow>
     (\<forall>x. contents (rg_radixIndex rg) (PathBase rt) = Some x \<longrightarrow> RouteID x = RouteID rt)"

lemma old_facts:
  assumes "reg_inv rg" "reg_covered rg" "get (rg_routes rg) (RouteID rt) = Some x"
  shows "RouteID x = RouteID rt" "contents (rg_radixIndex rg) (PathBase x) = Some x"
  using assms by (auto simp: reg_inv_def keyed_def reg_covered_def intro: coversD)

lemma new_path_unused:
  assumes "reg_inv rg" "path_free rg rt" "get (rg_routes rg) (RouteID rt) = None"
  shows "contents (rg_radixIndex rg) (PathBase rt) = None"
proof (rule ccontr)
  assume "contents (rg_radixIndex rg) (PathBase rt) \<noteq> None"
  then obtain x where x: "contents (rg_radixIndex rg) (PathBase rt) = Some x" by blast
  with assms(1) agreesD(1) have "get (rg_routes rg) (RouteID x) = Some x"
    by (metis reg_inv_def)
  with x assms(2,3) show False by (simp add: path_free_def)
qed

lemma rollback_contents:
  assumes "reg_inv rg" "reg_covered rg" "path_free rg rt"
  defines "old \<equiv> get (rg_routes rg) (RouteID rt)"
  shows "rg_radixIndex rg1 = Insert (rg_radixIndex rg) rt \<Longrightarrow>
      contents (rg_radixIndex (rollback_route rg1 old rt)) = contents (rg_radixIndex rg)"
    and "rg_radixIndex rg1 = Insert (rg_radixIndex rg) rt \<Longrightarrow>
      contents (rg_radixIndex (rollback_storage rg1 old rt)) = contents (rg_radixIndex rg)"
proof -
  have i: "tree_inv (rg_radixIndex rg)" "agrees (contents (rg_radixIndex rg)) (get (rg_routes rg))"
    using assms(1) by (simp_all add: reg_inv_def)
  have free: "\<And>x. contents (rg_radixIndex rg) (PathBase rt) = Some x \<Longrightarrow> RouteID x = RouteID rt"
    using assms(3) unfolding path_free_def by blast
  show "contents (rg_radixIndex (rollback_route rg1 old rt)) = contents (rg_radixIndex rg)"
    if "rg_radixIndex rg1 = Insert (rg_radixIndex rg) rt"
  proof (cases old)
    case None
    then have n: "get (rg_routes rg) (RouteID rt) = None" by (simp add: old_def)
    from radix.cont_rollback_new [OF i n new_path_unused [OF assms(1,3) n]] None that
    show ?thesis by (simp add: rollback_route_def)
  next
    case (Some x)
    then have x: "get (rg_routes rg) (RouteID rt) = Some x" by (simp add: old_def)
    from radix.cont_rollback [OF i old_facts [OF assms(1,2) x] free] Some that
    show ?thesis by (simp add: rollback_route_def)
  qed
  show "contents (rg_radixIndex (rollback_storage rg1 old rt)) = contents (rg_radixIndex rg)"
    if "rg_radixIndex rg1 = Insert (rg_radixIndex rg) rt"
  proof (cases old)
    case None
    then have n: "get (rg_routes rg) (RouteID rt) = None" by (simp add: old_def)
    from radix.cont_rollback_new [OF i n new_path_unused [OF assms(1,3) n]] None that
    show ?thesis by (simp add: rollback_storage_def)
  next
    case (Some x)
    then have x: "get (rg_routes rg) (RouteID rt) = Some x" by (simp add: old_def)
    from radix.cont_restore [OF i old_facts [OF assms(1,2) x] free] Some that
    show ?thesis by (simp add: rollback_storage_def Let_def)
  qed
qed

lemma rollback_routes:
  assumes "rg_routes rg1 = put (RouteID rt) rt (rg_routes rg)" "get (rg_routes rg) (RouteID rt) = old"
  shows "get (rg_routes (rollback_route rg1 old rt)) = get (rg_routes rg)"
    and "get (rg_routes (rollback_storage rg1 old rt)) = get (rg_routes rg)"
  using assms
  by (cases old; intro ext; simp add: rollback_route_def rollback_storage_def get_put get_del Let_def)+

lemma rollback_frame:
  "rg_subdomainIndex (rollback_route rg1 old rt) = rg_subdomainIndex rg1"
  "rg_storage (rollback_route rg1 old rt) = rg_storage rg1"
  "rg_apps (rollback_route rg1 old rt) = rg_apps rg1"
  "rg_storage (rollback_storage rg1 old rt) = rg_storage rg1"
  "rg_apps (rollback_storage rg1 old rt) = rg_apps rg1"
  by (simp_all add: rollback_route_def rollback_storage_def Let_def split: option.split)

lemma rollback_subdomains:
  assumes "subs_exact rg" "get (rg_routes rg) (RouteID rt) = old"
    "subdomain_conflict (rg_subdomainIndex rg) rt = None" "Subdomain rt = [] \<or> subdomain_mode rt"
    "rg_subdomainIndex rg1 = index_subdomain (rg_subdomainIndex rg) old rt"
  shows "get (rg_subdomainIndex (rollback_storage rg1 old rt)) = get (rg_subdomainIndex rg)"
proof
  fix s
  let ?idx = "rg_subdomainIndex rg"
  have own: "get ?idx (Subdomain rt) = None \<or> get ?idx (Subdomain rt) = Some (RouteID rt)"
    if "Subdomain rt \<noteq> []"
    using assms(3,4) that by (auto simp: subdomain_conflict_def split: option.splits if_splits)
  have claim: "get ?idx s = Some (RouteID rt) \<longleftrightarrow>
      (case old of None \<Rightarrow> False | Some x \<Rightarrow> s \<noteq> [] \<and> Subdomain x = s \<and> subdomain_mode x)" for s
    using assms(1,2) by (auto simp: subs_exact_def split: option.splits)
  show "get (rg_subdomainIndex (rollback_storage rg1 old rt)) s = get ?idx s"
  proof (cases old)
    case None
    with claim own have "Subdomain rt \<noteq> [] \<Longrightarrow> get ?idx (Subdomain rt) = None" by simp
    with None assms(4,5) show ?thesis
      by (auto simp: rollback_storage_def index_subdomain_def Let_def get_put get_del)
  next
    case (Some x)
    have c: "get ?idx s = Some (RouteID rt) \<longleftrightarrow> s \<noteq> [] \<and> Subdomain x = s \<and> subdomain_mode x" for s
      using claim Some by simp
    show ?thesis
    proof (cases "Subdomain x = Subdomain rt")
      case True
      with Some assms(4,5) own c [of "Subdomain rt"] show ?thesis
        by (auto simp: rollback_storage_def index_subdomain_def Let_def get_put get_del)
    next
      case False
      with c own have n: "Subdomain rt \<noteq> [] \<Longrightarrow> get ?idx (Subdomain rt) = None" by auto
      have r: "get (rg_subdomainIndex (rollback_storage rg1 old rt)) s =
          (if Subdomain x \<noteq> [] \<and> subdomain_mode x \<and> s = Subdomain x then Some (RouteID rt)
           else if Subdomain rt \<noteq> [] \<and> s = Subdomain rt then None
           else get (index_subdomain ?idx (Some x) rt) s)"
        using Some by (simp add: rollback_storage_def assms(5) get_put get_del Let_def)
      have i: "get (index_subdomain ?idx (Some x) rt) s =
          (if s = Subdomain x \<and> s \<noteq> [] \<and> get ?idx s = Some (RouteID rt) then None else get ?idx s)"
        if "Subdomain rt = [] \<or> s \<noteq> Subdomain rt"
        using that False
        by (cases "get ?idx (Subdomain x)")
          (auto simp: index_subdomain_def Let_def get_put get_del get_zero_def)
      show ?thesis
      proof (cases "Subdomain rt \<noteq> [] \<and> s = Subdomain rt")
        case True
        with n False show ?thesis unfolding r by simp
      next
        case other: False
        then have i': "get (index_subdomain ?idx (Some x) rt) s =
            (if s = Subdomain x \<and> s \<noteq> [] \<and> get ?idx s = Some (RouteID rt) then None else get ?idx s)"
          by (intro i) blast
        show ?thesis
        proof (cases "s = Subdomain x \<and> s \<noteq> []")
          case True
          have cs: "get ?idx s = Some (RouteID rt) \<longleftrightarrow> subdomain_mode x" using c [of s] True by blast
          from True have sx: "Subdomain x = s" and sn: "s \<noteq> []" by blast+
          show ?thesis
            unfolding r i' sx using sn other cs by (cases "subdomain_mode x") auto
        next
          case nx: False
          with other show ?thesis unfolding r i' by (simp only: if_False de_Morgan_conj) auto
        qed
      qed
    qed
  qed
qed


section \<open>Every registered route can be reached\<close>

lemma covered_cong:
  assumes "reg_covered rg" "get (rg_routes rg') = get (rg_routes rg)"
    "contents (rg_radixIndex rg') = contents (rg_radixIndex rg)"
  shows "reg_covered rg'"
  using assms by (simp add: reg_covered_def)

lemma Validated_covered:
  assumes "reg_inv rg" "reg_covered rg"
  shows "reg_covered (fst (UpsertRouteWithValidation c rg rt0))"
proof -
  define rt where "rt = normalize_route rt0"
  define old where "old = get (rg_routes rg) (RouteID rt)"
  let ?rg1 = "rg\<lparr>rg_routes := put (RouteID rt) rt (rg_routes rg), rg_radixIndex := Insert (rg_radixIndex rg) rt\<rparr>"
  let ?rg2 = "?rg1\<lparr>rg_subdomainIndex := index_subdomain (rg_subdomainIndex rg) old rt\<rparr>"
  note rr = rollback_routes [OF _ old_def [symmetric]]
  show ?thesis
  proof (cases "InsertWithValidation (rg_radixIndex rg) rt")
    case (Inl e')
    with assms(2) show ?thesis by (simp add: UpsertRouteWithValidation_def rt_def [symmetric])
  next
    case (Inr t')
    then have t': "t' = Insert (rg_radixIndex rg) rt" and free: "path_free rg rt"
      by (auto simp: InsertWithValidation_def path_free_def contents_def split: option.splits if_splits)
    have free': "\<And>x. contents (rg_radixIndex rg) (PathBase rt) = Some x \<Longrightarrow> RouteID x = RouteID rt"
      using free unfolding path_free_def by blast
    note rc = rollback_contents [OF assms free, folded old_def]
    have s: "fst (UpsertRouteWithValidation c rg rt0) =
        (case subdomain_conflict (rg_subdomainIndex rg) rt of
           Some i \<Rightarrow> rollback_route ?rg1 old rt | None \<Rightarrow> fst (persist_route c ?rg2 old rt))"
      using Inr t'
      by (simp add: UpsertRouteWithValidation_def rt_def [symmetric] old_def Let_def split: option.split)
    have w: "reg_covered ?rg1"
      using radix.covers_ins [OF _ _ _ free', where m = "get (rg_routes rg)"] assms
      by (simp add: reg_inv_def reg_covered_def keyed_def get_put_fun)
    have p: "fst (persist_route c ?rg2 old rt) = ?rg2\<lparr>rg_storage := rg_storage (fst (persist_route c ?rg2 old rt))\<rparr>
        \<or> fst (persist_route c ?rg2 old rt) = rollback_storage ?rg2 old rt"
      by (auto simp: persist_route_def split: option.splits sum.splits)
    have "reg_covered (fst (persist_route c ?rg2 old rt))"
      using p
    proof
      assume "fst (persist_route c ?rg2 old rt) = rollback_storage ?rg2 old rt"
      then show ?thesis
        using covered_cong [OF assms(2) rr(2) [of ?rg2] rc(2) [of ?rg2]] by simp
    next
      assume *: "fst (persist_route c ?rg2 old rt) = ?rg2\<lparr>rg_storage := rg_storage (fst (persist_route c ?rg2 old rt))\<rparr>"
      show ?thesis by (subst *) (rule covered_cong [OF w]; simp)
    qed
    moreover have "reg_covered (rollback_route ?rg1 old rt)"
      using covered_cong [OF assms(2) rr(1) [of ?rg1] rc(1) [of ?rg1]] by simp
    ultimately show ?thesis by (simp add: s split: option.split)
  qed
qed

lemma RemoveRoute_covered:
  assumes "reg_inv rg" "reg_covered rg"
  shows "reg_covered (fst (RemoveRoute c1 c2 rg i))"
  using radix.covers_del [of "rg_radixIndex rg" "get (rg_routes rg)" i] assms
  by (simp add: reg_covered_def reg_inv_def keyed_def RemoveRoute_frame get_del_fun)

text \<open>The route changes an API client makes.\<close>

datatype route_request = Put conn route | Remove conn conn string

fun api_run :: "registry \<Rightarrow> route_request \<Rightarrow> registry" where
  "api_run rg (Put c rt) = fst (UpsertRouteWithValidation c rg rt)"
| "api_run rg (Remove c1 c2 i) = fst (RemoveRoute c1 c2 rg i)"

lemma api_run_inv:
  "reg_inv rg \<and> reg_covered rg \<Longrightarrow> reg_inv (api_run rg q) \<and> reg_covered (api_run rg q)"
  by (cases q) (simp_all add: UpsertRouteWithValidation_inv Validated_covered RemoveRoute_inv RemoveRoute_covered)

lemma api_runs_inv:
  "reg_inv rg \<and> reg_covered rg \<Longrightarrow> reg_inv (foldl api_run rg qs) \<and> reg_covered (foldl api_run rg qs)"
proof (induction qs arbitrary: rg)
  case Nil
  then show ?case by simp
next
  case (Cons q qs)
  from Cons.IH [OF api_run_inv [OF Cons.prems]] show ?case by simp
qed

lemma api_start: "reg_inv (NewRegistry c1 c2 None) \<and> reg_covered (NewRegistry c1 c2 None)"
  using NewRegistry_inv [of None c1 c2]
  by (simp add: store_keys_def NewRegistry_def reg_covered_def covers_def)

lemma covered_found:
  assumes "reg_inv rg" "reg_covered rg" "get (rg_routes rg) i = Some r"
  shows "GetRouteByPath rg (PathBase r) = Some r"
  using assms coversD [of "contents (rg_radixIndex rg)" "get (rg_routes rg)" i r]
  by (simp add: GetRouteByPath_def radix.srch_exact reg_inv_def reg_covered_def)

text \<open>Collision detection keeps every route reachable: however an API client adds, changes and
  removes routes, whatever requests fail, each registered route is the one found for its own base path.\<close>

theorem api_routes_reachable:
  assumes "get (rg_routes (foldl api_run (NewRegistry c1 c2 None) qs)) i = Some r"
  shows "GetRouteByPath (foldl api_run (NewRegistry c1 c2 None) qs) (PathBase r) = Some r"
  using api_runs_inv [OF api_start, of c1 c2 qs] assms by (simp add: covered_found)

lemma api_routes_reachable_witness:
  "GetRouteByPath (foldl api_run (NewRegistry demo_conn demo_conn None)
     [Put demo_conn demo_route, Put demo_conn (demo_route\<lparr>RouteID := ''r2'', PathBase := ''/w'', Subdomain := []\<rparr>),
      Remove demo_conn demo_conn ''r2'']) ''/web'' = Some demo_route"
proof -
  have g: "get (rg_routes (foldl api_run (NewRegistry demo_conn demo_conn None)
     [Put demo_conn demo_route, Put demo_conn (demo_route\<lparr>RouteID := ''r2'', PathBase := ''/w'', Subdomain := []\<rparr>),
      Remove demo_conn demo_conn ''r2''])) ''r1'' = Some demo_route" by code_simp
  have p: "PathBase demo_route = ''/web''" by (simp add: demo_route_def)
  show ?thesis using api_routes_reachable [OF g] by (simp only: p)
qed

lemma demo_facts: "reg_inv demo_registry" "reg_covered demo_registry" "subs_exact demo_registry"
proof -
  have d: "demo_registry = fst (UpsertRouteWithValidation demo_conn (NewRegistry demo_conn demo_conn None) demo_route)"
    by code_simp
  show "reg_inv demo_registry" by (rule reg_reach_inv [OF demo_reach])
  show "reg_covered demo_registry"
    using api_start [of demo_conn demo_conn] by (simp add: d Validated_covered)
  have "rg_subdomainIndex demo_registry = [(''web'', ''r1'')]" "rg_routes demo_registry = [(''r1'', demo_route)]"
    "Subdomain demo_route = ''web''" "subdomain_mode demo_route"
    by code_simp+
  then show "subs_exact demo_registry" by (auto simp: subs_exact_def)
qed


section \<open>Where the subdomain index goes wrong\<close>

text \<open>Switching a route out of subdomain routing does not take effect while it keeps its subdomain:
  after a successful upsert of a route that is indexed under its subdomain, with a routing mode that is
  neither \<open>subdomain\<close> nor \<open>both\<close>, the subdomain still leads to the route.\<close>

theorem mode_change_keeps_subdomain:
  assumes "GetRouteBySubdomain rg (Subdomain rt0) = Some x" "RouteID x = RouteID rt0" "reg_inv rg"
    and "\<not> subdomain_mode rt0"
    and "UpsertRoute c rg rt0 = (rg', ev, None)"
  shows "GetRouteBySubdomain rg' (Subdomain rt0) = Some (normalize_route rt0)
    \<and> \<not> subdomain_mode (normalize_route rt0)"
proof -
  define rt where "rt = normalize_route rt0"
  note p = upsert_ok_state [OF assms(5), folded rt_def]
  note f = frame_storage [OF persist_route_None(1) [OF p(1)]]
  have m: "Subdomain rt = Subdomain rt0" "RouteID rt = RouteID rt0" "\<not> subdomain_mode rt"
    using assms(4) by (simp_all add: rt_def subdomain_mode_def)
  note g = GetRouteBySubdomain_registered [OF assms(3,1)]
  have i: "get (rg_subdomainIndex rg) (Subdomain rt0) = Some (RouteID rt0)"
    using assms(1,2,3) by (auto simp: GetRouteBySubdomain_def reg_inv_def keyed_def split: option.splits)
  have "get (index_subdomain (rg_subdomainIndex rg) (Some x) rt) (Subdomain rt0) = Some (RouteID rt0)"
    using m g(2,3) i by (simp add: index_subdomain_def Let_def)
  then have "GetRouteBySubdomain (write_route rg rt) (Subdomain rt0) = Some rt"
    using g(1) assms(2) m by (simp add: GetRouteBySubdomain_def write_route_def get_put)
  with f(2) m(3) show ?thesis by (simp add: rt_def)
qed

lemma mode_change_keeps_subdomain_witness:
  "GetRouteBySubdomain (fst (UpsertRoute demo_conn demo_registry (demo_route\<lparr>RoutingMode := ''path''\<rparr>))) ''web''
   = Some (demo_route\<lparr>RoutingMode := ''path''\<rparr>)"
proof -
  let ?r = "demo_route\<lparr>RoutingMode := ''path''\<rparr>"
  have s: "Subdomain ?r = ''web''" "RouteID demo_route = RouteID ?r" "\<not> subdomain_mode ?r" "normalize_route ?r = ?r"
    by code_simp+
  have u: "snd (UpsertRoute demo_conn demo_registry ?r) = ([], None)" by code_simp
  obtain rg' where r: "UpsertRoute demo_conn demo_registry ?r = (rg', [], None)"
    using u by (cases "UpsertRoute demo_conn demo_registry ?r") simp
  have "GetRouteBySubdomain demo_registry (Subdomain ?r) = Some demo_route" using demo_values(2) s(1) by simp
  from mode_change_keeps_subdomain [OF this s(2) demo_facts(1) s(3) r] s(1,4) r show ?thesis by simp
qed

text \<open>A refused store call can take another route's subdomain away: when the route written names a
  subdomain without taking part in subdomain routing and the store refuses it, the entry of the route
  that owns the subdomain is deleted, although that route is untouched.\<close>

theorem refused_save_drops_foreign_subdomain:
  assumes "reg_inv rg" "GetRouteBySubdomain rg (Subdomain rt0) = Some x" "RouteID x \<noteq> RouteID rt0"
    and "get (rg_routes rg) (RouteID rt0) = None" "\<not> subdomain_mode rt0"
    and "UpsertRoute c rg rt0 = (rg', ev, Some (StorageFailed e))"
  shows "get (rg_routes rg') (RouteID x) = Some x \<and> GetRouteBySubdomain rg' (Subdomain rt0) = None"
proof -
  define rt where "rt = normalize_route rt0"
  have m: "Subdomain rt = Subdomain rt0" "RouteID rt = RouteID rt0" "\<not> subdomain_mode rt"
    using assms(5) by (simp_all add: rt_def subdomain_mode_def)
  note g = GetRouteBySubdomain_registered [OF assms(1,2)]
  let ?rg2 = "rg\<lparr>rg_routes := put (RouteID rt) rt (rg_routes rg), rg_radixIndex := Insert (rg_radixIndex rg) rt,
    rg_subdomainIndex := index_subdomain (rg_subdomainIndex rg) None rt\<rparr>"
  have "persist_route c ?rg2 None rt = (rg', Some (StorageFailed e))"
    using assms(6) m assms(4)
    by (auto simp: UpsertRoute_def rt_def [symmetric] Let_def split: option.splits prod.splits)
  then have "rg' = rollback_storage ?rg2 None rt"
    by (auto simp: persist_route_def split: option.splits sum.splits)
  then show ?thesis
    using m g assms(3)
    by (simp add: rollback_storage_def Let_def GetRouteBySubdomain_def get_put get_del)
qed

definition demo_stored :: registry where
  "demo_stored = fst (UpsertRoute demo_conn (NewRegistry demo_conn demo_conn (Some empty_store)) demo_route)"

lemma refused_save_drops_foreign_subdomain_witness:
  "GetRouteBySubdomain demo_stored ''web'' = Some demo_route \<and>
   GetRouteBySubdomain (fst (UpsertRoute (demo_conn\<lparr>cn_ok := False\<rparr>) demo_stored
     (demo_route\<lparr>RouteID := ''r2'', RoutingMode := ''path''\<rparr>))) ''web'' = None"
proof -
  let ?c = "demo_conn\<lparr>cn_ok := False\<rparr>"
  let ?r = "demo_route\<lparr>RouteID := ''r2'', RoutingMode := ''path''\<rparr>"
  have s: "RouteID demo_route \<noteq> RouteID ?r" "get (rg_routes demo_stored) (RouteID ?r) = None"
    "\<not> subdomain_mode ?r"
    by code_simp+
  have w: "Subdomain ?r = ''web''" by code_simp
  have g: "GetRouteBySubdomain demo_stored (Subdomain ?r) = Some demo_route" by code_simp
  have u: "snd (UpsertRoute ?c demo_stored ?r) = ([], Some (StorageFailed DbFault))" by code_simp
  obtain rg' where r: "UpsertRoute ?c demo_stored ?r = (rg', [], Some (StorageFailed DbFault))"
    using u by (cases "UpsertRoute ?c demo_stored ?r") simp
  have i: "reg_inv demo_stored"
    unfolding demo_stored_def
    by (rule UpsertRoute_inv, rule NewRegistry_inv) (simp add: store_keys_def empty_store_def)
  from refused_save_drops_foreign_subdomain [OF i g s r] g w r show ?thesis by simp
qed

section \<open>Removing a route\<close>

lemma contents_gone:
  assumes "tree_inv t" "Search (fst (Delete t i)) path = Some r"
  shows "RouteID r \<noteq> i"
proof -
  have "tree_inv (fst (Delete t i))" by (rule radix.inv_del [OF assms(1)])
  from radix.srch_sound(1) [OF this assms(2)] radix.cont_del [OF assms(1), of i] show ?thesis
    by (simp add: drop_id_Some)
qed

lemma RemoveApp_apps: "rg_apps (fst (RemoveApp c rg a)) = del a (rg_apps rg)"
proof (cases "has (rg_apps rg) a")
  case False
  then have "a \<notin> fst ` set (rg_apps rg)" by (simp add: has_iff)
  with False show ?thesis by (simp add: RemoveApp_def delete_id)
qed (simp add: RemoveApp_def Let_def split: option.split sum.split)

lemma app_used:
  assumes "wf_map m"
  shows "list_ex (\<lambda>(k, rt). AppID rt = a) (del i m) \<longleftrightarrow> (\<exists>j r. get m j = Some r \<and> j \<noteq> i \<and> AppID r = a)"
proof -
  have "list_ex (\<lambda>(k, rt). AppID rt = a) (del i m) \<longleftrightarrow> (\<exists>j r. (j, r) \<in> set (del i m) \<and> AppID r = a)"
    by (auto simp: list_ex_iff)
  also have "\<dots> \<longleftrightarrow> (\<exists>j r. get (del i m) j = Some r \<and> AppID r = a)"
    using assms by (simp add: get_iff_in)
  finally show ?thesis by (auto simp: get_del)
qed

text \<open>C8: Removing a route takes it out of every look-up, whatever the store does; when the store
  carries the deletion out, the removed route is reported to the proxy cache, and its app is removed
  from the catalogue just when no other registered route belongs to it.\<close>

theorem RemoveRoute_removes:
  assumes "reg_inv rg" "wf_map (rg_routes rg)" "RemoveRoute c1 c2 rg i = (rg', ev, res)"
  shows "get (rg_routes rg') = (get (rg_routes rg))(i := None)
    \<and> (\<forall>path r. GetRouteByPath rg' path = Some r \<longrightarrow> RouteID r \<noteq> i)
    \<and> (\<forall>s r. GetRouteBySubdomain rg' s = Some r \<longrightarrow> RouteID r \<noteq> i)
    \<and> (res = None \<longrightarrow> (\<forall>r. get (rg_routes rg) i = Some r \<longrightarrow> hd ev = RouteRemoved r \<and>
      (AppID r \<noteq> [] \<longrightarrow>
        (has (rg_apps rg') (AppID r) \<longleftrightarrow> has (rg_apps rg) (AppID r) \<and>
           (\<exists>j r'. get (rg_routes rg) j = Some r' \<and> j \<noteq> i \<and> AppID r' = AppID r)))))"
proof (intro conjI)
  have e: "rg' = fst (RemoveRoute c1 c2 rg i)" using assms(3) by simp
  have inv: "reg_inv rg'" unfolding e by (rule RemoveRoute_inv [OF assms(1)])
  show g: "get (rg_routes rg') = (get (rg_routes rg))(i := None)"
    by (simp add: e RemoveRoute_frame get_del_fun)
  have t: "tree_inv (rg_radixIndex rg)" using assms(1) by (simp add: reg_inv_def)
  show "\<forall>path r. GetRouteByPath rg' path = Some r \<longrightarrow> RouteID r \<noteq> i"
    using contents_gone [OF t] by (auto simp: e GetRouteByPath_def RemoveRoute_frame)
  show "\<forall>s r. GetRouteBySubdomain rg' s = Some r \<longrightarrow> RouteID r \<noteq> i"
    using GetRouteBySubdomain_registered(1) [OF inv] g by (fastforce split: if_splits)
  note au = app_used [OF assms(2)]
  have removed: "hd ev = RouteRemoved r \<and> rg_apps rg' =
      (if AppID r \<noteq> [] \<and> \<not> list_ex (\<lambda>(k, rt). AppID rt = AppID r) (del i (rg_routes rg))
       then del (AppID r) (rg_apps rg) else rg_apps rg)"
    if "res = None" "get (rg_routes rg) i = Some r" for r
  proof -
    have ra: "rg_apps x = del a (rg_apps y)" if "RemoveApp c2 y a = (x, p)" for x y a p
      using RemoveApp_apps [of c2 y a] that by simp
    show ?thesis
      using assms(3) that unfolding RemoveRoute_def Let_def
      by (auto dest: ra split: option.splits sum.splits prod.splits if_splits)
  qed
  show "res = None \<longrightarrow> (\<forall>r. get (rg_routes rg) i = Some r \<longrightarrow> hd ev = RouteRemoved r \<and>
      (AppID r \<noteq> [] \<longrightarrow>
        (has (rg_apps rg') (AppID r) \<longleftrightarrow> has (rg_apps rg) (AppID r) \<and>
           (\<exists>j r'. get (rg_routes rg) j = Some r' \<and> j \<noteq> i \<and> AppID r' = AppID r))))"
    using removed au by (auto simp: has_def get_del split: if_splits)
qed

lemma RemoveRoute_removes_witness:
  "get (rg_routes (fst (RemoveRoute demo_conn demo_conn demo_registry ''r1''))) ''r1'' = None
   \<and> hd (fst (snd (RemoveRoute demo_conn demo_conn demo_registry ''r1''))) = RouteRemoved demo_route"
proof -
  obtain rg' ev res where r: "RemoveRoute demo_conn demo_conn demo_registry ''r1'' = (rg', ev, res)"
    by (cases "RemoveRoute demo_conn demo_conn demo_registry ''r1''")
  have "snd (snd (RemoveRoute demo_conn demo_conn demo_registry ''r1'')) = None" by code_simp
  with r have n: "res = None" by simp
  have w: "wf_map (rg_routes demo_registry)" "get (rg_routes demo_registry) ''r1'' = Some demo_route"
    by code_simp+
  from RemoveRoute_removes [OF demo_facts(1) w(1) r] n w(2) r show ?thesis by simp
qed

section \<open>Restarting\<close>

text \<open>What the store keeps of a route: five flags and the status are not written.\<close>

definition persisted :: "route \<Rightarrow> route" where
  "persisted r = r\<lparr>PublicAccess := False, StripResponseCookies := False, RewriteCookiePaths := False,
     PersistCookies := False, SkipHealthCheck := False, Status := []\<rparr>"

lemma route_row_roundtrip: "route_of_row (RouteID r) (row_of_route r) = persisted r"
  by (simp add: route_of_row_def row_of_route_def persisted_def zero_route_def)

text \<open>Memory and store agree on the routes.\<close>

definition synced :: "registry \<Rightarrow> bool" where
  "synced rg \<longleftrightarrow> keyed (rg_routes rg) \<and> (case rg_storage rg of None \<Rightarrow> True
     | Some st \<Rightarrow> wf_map (st_routes st) \<and>
         get (st_routes st) = (\<lambda>i. map_option row_of_route (get (rg_routes rg) i)))"

lemma UpsertRoute_synced:
  assumes "synced rg" "reg_inv rg"
  shows "synced (fst (UpsertRoute c rg rt0))"
proof -
  define rt where "rt = normalize_route rt0"
  define old where "old = get (rg_routes rg) (RouteID rt)"
  let ?rg1 = "rg\<lparr>rg_routes := put (RouteID rt) rt (rg_routes rg), rg_radixIndex := Insert (rg_radixIndex rg) rt\<rparr>"
  let ?rg2 = "?rg1\<lparr>rg_subdomainIndex := index_subdomain (rg_subdomainIndex rg) old rt\<rparr>"
  have k: "keyed (rg_routes (fst (UpsertRoute c rg rt0)))"
    using UpsertRoute_inv [OF assms(2)] by (simp add: reg_inv_def)
  note rr = rollback_routes [OF _ old_def [symmetric]]
  show ?thesis
  proof (cases "subdomain_conflict (rg_subdomainIndex rg) rt")
    case (Some i)
    then have "fst (UpsertRoute c rg rt0) = rollback_route ?rg1 old rt"
      by (simp add: UpsertRoute_state upsert_state_def rt_def [symmetric] old_def Let_def)
    with k assms(1) rr(1) [of ?rg1] show ?thesis by (simp add: synced_def rollback_frame cong: option.case_cong)
  next
    case None
    then have u: "fst (UpsertRoute c rg rt0) = fst (persist_route c ?rg2 old rt)"
      by (simp add: UpsertRoute_state upsert_state_def rt_def [symmetric] old_def Let_def)
    show ?thesis
    proof (cases "rg_storage rg")
      case None
      with k u show ?thesis by (simp add: synced_def persist_route_def)
    next
      case (Some st)
      show ?thesis
      proof (cases "SaveRoute c st rt")
        case (Inl e)
        with Some have "fst (persist_route c ?rg2 old rt) = rollback_storage ?rg2 old rt"
          by (simp add: persist_route_def)
        with u k assms(1) rr(2) [of ?rg2] Some show ?thesis by (simp add: synced_def rollback_frame)
      next
        case (Inr st')
        then have "st_routes st' = put (RouteID rt) (row_of_route rt) (st_routes st)"
          by (auto simp: SaveRoute_def split: if_splits)
        with u k assms(1) Some Inr show ?thesis
          by (auto simp: synced_def persist_route_def get_put fun_eq_iff)
      qed
    qed
  qed
qed

lemma find_ListRoutes:
  assumes "ListRoutes c st = Inr rts" "wf_map (st_routes st)"
  shows "find (\<lambda>r. RouteID r = i) rts = map_option (route_of_row i) (get (st_routes st) i)"
proof -
  let ?s = "sort_key (\<lambda>(i, r). rr_path_base r) (st_routes st)"
  have rts: "rts = map (\<lambda>(i, r). route_of_row i r) ?s"
    using assms(1) by (simp add: ListRoutes_def split: if_splits)
  have "find (\<lambda>r. RouteID r = i) (map (\<lambda>(i, r). route_of_row i r) xs) = map_option (route_of_row i) (get xs i)" for xs
    by (induction xs) auto
  moreover have "get ?s i = get (st_routes st) i"
  proof -
    have "wf_map ?s" using assms(2) unfolding wf_map_def
      by (metis mset_map mset_sort mset_eq_imp_distinct_iff)
    with assms(2) have "get ?s i = Some v \<longleftrightarrow> get (st_routes st) i = Some v" for v
      by (simp add: get_iff_in)
    then show ?thesis by (metis option.exhaust)
  qed
  ultimately show ?thesis by (simp add: rts)
qed

text \<open>C9: Restart round trip: when memory and store agree, a registry started on that store holds
  exactly the routes registered before, each as the store keeps it: its public-access, cookie and
  skip-health-check flags are reset, everything else is unchanged.\<close>

theorem restart_restores_routes:
  assumes "synced rg" "rg_storage rg = Some st" "cn_ok c1" "cn_ok c2"
  shows "get (rg_routes (NewRegistry c1 c2 (Some st))) i = map_option persisted (get (rg_routes rg) i)"
proof -
  have s: "wf_map (st_routes st)" "get (st_routes st) i = map_option row_of_route (get (rg_routes rg) i)"
    "keyed (rg_routes rg)"
    using assms(1,2) by (simp_all add: synced_def)
  obtain as where a: "ListApps c1 st = Inr as" using assms(3) by (simp add: ListApps_def)
  obtain rts where r: "ListRoutes c2 st = Inr rts" using assms(4) by (simp add: ListRoutes_def)
  have "get (rg_routes (NewRegistry c1 c2 (Some st))) i = map_option (route_of_row i) (get (st_routes st) i)"
    using load_routes_routes [OF ListRoutes_ids [OF r s(1)]] find_ListRoutes [OF r s(1), of i] a r
    by (simp add: NewRegistry_def loadFromStorage_def Let_def split: option.split)
  also have "\<dots> = map_option persisted (get (rg_routes rg) i)"
  proof (cases "get (rg_routes rg) i")
    case None
    then show ?thesis by (simp add: s(2))
  next
    case (Some r)
    then have "RouteID r = i" using s(3) by (rule_tac keyedD)
    with Some route_row_roundtrip [of r] show ?thesis by (simp add: s(2))
  qed
  finally show ?thesis .
qed

lemma restart_restores_routes_witness:
  "get (rg_routes (NewRegistry demo_conn demo_conn (rg_storage demo_stored))) ''r1'' = Some (persisted demo_route)"
proof -
  have "reg_inv (NewRegistry demo_conn demo_conn (Some empty_store))"
    by (rule NewRegistry_inv) (simp add: store_keys_def empty_store_def)
  moreover have "synced (NewRegistry demo_conn demo_conn (Some empty_store))"
    by (simp add: synced_def NewRegistry_def loadFromStorage_def demo_conn_def ListApps_def ListRoutes_def
        empty_store_def keyed_def)
  ultimately have s: "synced demo_stored" unfolding demo_stored_def by (rule UpsertRoute_synced [rotated])
  have n: "rg_storage demo_stored \<noteq> None" "get (rg_routes demo_stored) ''r1'' = Some demo_route"
    by code_simp+
  obtain st where st: "rg_storage demo_stored = Some st" using n(1) by blast
  have c: "cn_ok demo_conn" by (simp add: demo_conn_def)
  from restart_restores_routes [OF s st c c, of "''r1''"] n(2) st show ?thesis by simp
qed

end
