(* ===== verification/Auth.thy ===== *)
theory Auth
  imports Types Expiry
begin

text \<open>
  Authentication (\<open>internal/auth\<close>): the revocation list, the bootstrap tokens a device pairs with,
  scopes, and the manager that signs and parses the gateway's JWTs.  Signing and parsing of the
  token format itself belong to the JWT library and are parameters.
\<close>

section \<open>Revocation list\<close>

record revocation_list =
  rl_revokedTokens :: "(string, gotime) gomap"
  rl_revokedDevices :: "(string, gotime) gomap"
  rl_stopped :: bool

definition NewRevocationList :: revocation_list where
  "NewRevocationList = \<lparr>rl_revokedTokens = [], rl_revokedDevices = [], rl_stopped = False\<rparr>"

definition Revoke :: "revocation_list \<Rightarrow> string \<Rightarrow> gotime \<Rightarrow> revocation_list" where
  "Revoke rl tokenJTI expiry = rl\<lparr>rl_revokedTokens := put tokenJTI expiry (rl_revokedTokens rl)\<rparr>"

definition IsRevoked :: "revocation_list \<Rightarrow> gotime \<Rightarrow> string \<Rightarrow> bool" where
  "IsRevoked rl now tokenJTI =
     (case get (rl_revokedTokens rl) tokenJTI of
        None \<Rightarrow> False
      | Some expiry \<Rightarrow> if After now expiry then False else True)"

definition RevokeDevice :: "revocation_list \<Rightarrow> string \<Rightarrow> gotime \<Rightarrow> revocation_list" where
  "RevokeDevice rl deviceID expiry = rl\<lparr>rl_revokedDevices := put deviceID expiry (rl_revokedDevices rl)\<rparr>"

definition IsDeviceRevoked :: "revocation_list \<Rightarrow> gotime \<Rightarrow> string \<Rightarrow> bool" where
  "IsDeviceRevoked rl now deviceID =
     (case get (rl_revokedDevices rl) deviceID of
        None \<Rightarrow> False
      | Some expiry \<Rightarrow> if After now expiry then False else True)"

definition Cleanup :: "revocation_list \<Rightarrow> gotime \<Rightarrow> revocation_list" where
  "Cleanup rl now =
     rl\<lparr>rl_revokedTokens := del_if (\<lambda>jti expiry. After now expiry) (rl_revokedTokens rl),
        rl_revokedDevices := del_if (\<lambda>deviceID expiry. After now expiry) (rl_revokedDevices rl)\<rparr>"

definition RevocationStats :: "revocation_list \<Rightarrow> int \<times> int" where
  "RevocationStats rl = (int (length (rl_revokedTokens rl)), int (length (rl_revokedDevices rl)))"

definition StopRevocation :: "revocation_list \<Rightarrow> revocation_list" where
  "StopRevocation rl = (if rl_stopped rl then rl else rl\<lparr>rl_stopped := True\<rparr>)"

definition rl_wf :: "revocation_list \<Rightarrow> bool" where
  "rl_wf rl \<longleftrightarrow> wf_map (rl_revokedTokens rl) \<and> wf_map (rl_revokedDevices rl)"

interpretation revoked_tokens: expiring_store IsRevoked Revoke Cleanup rl_wf "\<lambda>_ _. True"
  by unfold_locales
    (auto simp: IsRevoked_def Revoke_def Cleanup_def rl_wf_def get_put get_del_if split: option.splits)

interpretation revoked_devices: expiring_store IsDeviceRevoked RevokeDevice Cleanup rl_wf "\<lambda>_ _. True"
  by unfold_locales
    (auto simp: IsDeviceRevoked_def RevokeDevice_def Cleanup_def rl_wf_def get_put get_del_if
      split: option.splits)

section \<open>Bootstrap tokens\<close>

definition MaxPairingAttempts :: int where "MaxPairingAttempts = 3"

record bootstrap_store =
  bs_permanentTokens :: "string list"
  bs_shortLivedTokens :: "(string, gotime) gomap"
  bs_failedAttempts :: "(string, int) gomap"
  bs_rateLimited :: "(string, bool) gomap"
  bs_stopped :: bool

text \<open>The environment variables the package reads.\<close>

record auth_env =
  env_BOOTSTRAP_TOKEN :: string
  env_BOOTSTRAP_ALLOW_ANY :: string
  env_ENVIRONMENT :: string
  env_DEBUG_TOKENS :: string

definition NewBootstrapStore :: "string list \<Rightarrow> bootstrap_store" where
  "NewBootstrapStore tokens =
     \<lparr>bs_permanentTokens = filter (\<lambda>token. token \<noteq> []) tokens, bs_shortLivedTokens = [],
      bs_failedAttempts = [], bs_rateLimited = [], bs_stopped = False\<rparr>"

definition validateShortLived :: "bootstrap_store \<Rightarrow> gotime \<Rightarrow> string \<Rightarrow> bootstrap_store \<times> bool" where
  "validateShortLived bs now token =
     (if get_zero False (bs_rateLimited bs) token then (bs, False)
      else case get (bs_shortLivedTokens bs) token of
        None \<Rightarrow> (bs, False)
      | Some expiry \<Rightarrow>
          if After now expiry
          then (bs\<lparr>bs_shortLivedTokens := del token (bs_shortLivedTokens bs),
                   bs_failedAttempts := del token (bs_failedAttempts bs),
                   bs_rateLimited := del token (bs_rateLimited bs)\<rparr>, False)
          else (bs, True))"

definition validatePermanent :: "bootstrap_store \<Rightarrow> string \<Rightarrow> bool" where
  "validatePermanent bs token = list_ex (\<lambda>permToken. token = permToken) (bs_permanentTokens bs)"

definition Validate :: "auth_env \<Rightarrow> bootstrap_store \<Rightarrow> gotime \<Rightarrow> string \<Rightarrow> bootstrap_store \<times> bool" where
  "Validate env bs now token =
     (if token = [] then (bs, False)
      else case validateShortLived bs now token of
        (bs', True) \<Rightarrow> (bs', True)
      | (bs', False) \<Rightarrow>
          (bs', if validatePermanent bs' token then True
                else if env_BOOTSTRAP_TOKEN env \<noteq> [] \<and> token = env_BOOTSTRAP_TOKEN env then True
                else if env_BOOTSTRAP_ALLOW_ANY env = ''1'' then True
                else False))"

text \<open>The random part comes from the system's generator.\<close>

definition GenerateShortLived ::
  "bootstrap_store \<Rightarrow> gotime \<Rightarrow> duration \<Rightarrow> string option \<Rightarrow> bootstrap_store \<times> string option" where
  "GenerateShortLived bs now ttl random =
     (case random of
        None \<Rightarrow> (bs, None)
      | Some r \<Rightarrow>
          (let token = ''temp_'' @ r; expiry = now + ttl
           in (bs\<lparr>bs_shortLivedTokens := put token expiry (bs_shortLivedTokens bs)\<rparr>, Some token)))"

definition cleanupExpired :: "bootstrap_store \<Rightarrow> gotime \<Rightarrow> bootstrap_store" where
  "cleanupExpired bs now =
     bs\<lparr>bs_shortLivedTokens := del_if (\<lambda>token expiry. After now expiry) (bs_shortLivedTokens bs)\<rparr>"

definition RecordFailedPairing :: "bootstrap_store \<Rightarrow> string \<Rightarrow> bootstrap_store" where
  "RecordFailedPairing bs token =
     (let n = get_zero 0 (bs_failedAttempts bs) token + 1;
          bs1 = bs\<lparr>bs_failedAttempts := put token n (bs_failedAttempts bs)\<rparr>
      in if n \<ge> MaxPairingAttempts
         then bs1\<lparr>bs_rateLimited := put token True (bs_rateLimited bs1),
                  bs_shortLivedTokens := del token (bs_shortLivedTokens bs1)\<rparr>
         else bs1)"

definition RecordSuccessfulPairing :: "bootstrap_store \<Rightarrow> string \<Rightarrow> bootstrap_store" where
  "RecordSuccessfulPairing bs token =
     bs\<lparr>bs_failedAttempts := del token (bs_failedAttempts bs),
        bs_rateLimited := del token (bs_rateLimited bs),
        bs_shortLivedTokens := del token (bs_shortLivedTokens bs)\<rparr>"

definition IsRateLimited :: "bootstrap_store \<Rightarrow> string \<Rightarrow> bool" where
  "IsRateLimited bs token = get_zero False (bs_rateLimited bs) token"

definition StopBootstrap :: "bootstrap_store \<Rightarrow> bootstrap_store" where
  "StopBootstrap bs = (if bs_stopped bs then bs else bs\<lparr>bs_stopped := True\<rparr>)"

definition BootstrapStats :: "bootstrap_store \<Rightarrow> int \<times> int" where
  "BootstrapStats bs = (int (length (bs_permanentTokens bs)), int (length (bs_shortLivedTokens bs)))"

definition short_lived_live :: "bootstrap_store \<Rightarrow> gotime \<Rightarrow> string \<Rightarrow> bool" where
  "short_lived_live bs now token = snd (validateShortLived bs now token)"

definition issue_until :: "bootstrap_store \<Rightarrow> string \<Rightarrow> gotime \<Rightarrow> bootstrap_store" where
  "issue_until bs token e = bs\<lparr>bs_shortLivedTokens := put token e (bs_shortLivedTokens bs)\<rparr>"

lemma GenerateShortLived_issue:
  "GenerateShortLived bs now ttl (Some r) = (issue_until bs (''temp_'' @ r) (now + ttl), Some (''temp_'' @ r))"
  by (simp add: GenerateShortLived_def issue_until_def Let_def)

lemma short_lived_live_iff:
  "short_lived_live bs now token \<longleftrightarrow>
     \<not> IsRateLimited bs token \<and> (\<exists>e. get (bs_shortLivedTokens bs) token = Some e \<and> now \<le> e)"
  by (auto simp: short_lived_live_def validateShortLived_def IsRateLimited_def split: option.split)

interpretation short_lived: expiring_store short_lived_live issue_until cleanupExpired
    "\<lambda>bs. wf_map (bs_shortLivedTokens bs)" "\<lambda>bs token. \<not> IsRateLimited bs token"
  by unfold_locales
    (auto simp: short_lived_live_iff issue_until_def cleanupExpired_def IsRateLimited_def get_put get_del_if
      split: option.splits)

section \<open>Scopes\<close>

text \<open>The dynamically typed values of JWT claims.\<close>

datatype claim = CString string | CNumber int | CList "claim list" | COther

type_synonym claims = "(string, claim) gomap"

text \<open>The strings among a claim list, the set both scope checks build.\<close>

definition token_scopes :: "claim list \<Rightarrow> string list" where
  "token_scopes vs = concat (map (\<lambda>v. case v of CString s \<Rightarrow> [s] | _ \<Rightarrow> []) vs)"

definition scope_met :: "string list \<Rightarrow> string \<Rightarrow> bool" where
  "scope_met tokenScopeSet required \<longleftrightarrow>
     required \<in> set tokenScopeSet \<or>
     list_ex (\<lambda>tokenScope. HasSuffix tokenScope '':*'' \<and> HasPrefix required (TrimSuffix tokenScope ''*''))
       tokenScopeSet"

definition HasAllScopesFromAny :: "claim option \<Rightarrow> string list \<Rightarrow> bool" where
  "HasAllScopesFromAny tokenScopes requiredScopes =
     (if requiredScopes = [] then True
      else case tokenScopes of
        Some (CList arr) \<Rightarrow> list_all (scope_met (token_scopes arr)) requiredScopes
      | _ \<Rightarrow> False)"

definition HasAllScopes :: "claims \<Rightarrow> string list \<Rightarrow> bool" where
  "HasAllScopes claims requiredScopes =
     (if length requiredScopes = 0 then True
      else case get claims ''scopes'' of
        Some (CList scopeList) \<Rightarrow>
          (let tokenScopeSet = token_scopes scopeList
           in list_all (\<lambda>required. scope_met tokenScopeSet required) requiredScopes)
      | _ \<Rightarrow> False)"

definition ExtractScopes :: "claims \<Rightarrow> string list" where
  "ExtractScopes claims =
     (case get claims ''scopes'' of
        None \<Rightarrow> []
      | Some (CList scopeList) \<Rightarrow> token_scopes scopeList
      | Some _ \<Rightarrow> [])"

definition DetermineScopes :: "auth_env \<Rightarrow> string \<Rightarrow> string list" where
  "DetermineScopes env devicePlatform =
     (let baseScopes = [''read:catalog'', ''read:events'']; p = ToLower devicePlatform in
      if p = ''ios'' \<or> p = ''android'' \<or> p = ''web''
      then baseScopes @ [''access:mobile'', ''access:*'', ''read:*'']
      else if p = ''test'' then baseScopes @ [''read:*'']
      else if p = ''testcontainers'' then baseScopes @ [''read:*'', ''write:deployments'']
      else if p = ''debug''
      then (if env_DEBUG_TOKENS env = ''1'' then baseScopes @ [''access:admin'', ''read:*'', ''write:*''] else baseScopes)
      else baseScopes)"

text \<open>The specification of one grant: the scope itself, or a wildcard over a \<open>:\<close>-terminated prefix.\<close>

definition scope_grants :: "string \<Rightarrow> string \<Rightarrow> bool" where
  "scope_grants s r \<longleftrightarrow> s = r \<or> (\<exists>p t. s = p @ '':*'' \<and> r = p @ '':'' @ t)"

lemma wildcard_grants:
  "HasSuffix s '':*'' \<and> HasPrefix r (TrimSuffix s ''*'') \<longleftrightarrow> (\<exists>p t. s = p @ '':*'' \<and> r = p @ '':'' @ t)"
proof -
  have t: "TrimSuffix (p @ '':*'') ''*'' = p @ '':''" for p
  proof -
    have "HasSuffix (p @ '':*'') ''*''" by (auto simp: HasSuffix_iff intro: exI [of _ "p @ '':''"])
    then show ?thesis by (simp add: TrimSuffix_def)
  qed
  show ?thesis by (auto simp: HasSuffix_iff HasPrefix_iff t)
qed

lemma scope_met_iff: "scope_met ss r \<longleftrightarrow> (\<exists>s \<in> set ss. scope_grants s r)"
  by (auto simp: scope_met_def list_ex_iff wildcard_grants scope_grants_def)

lemma token_scopes_set: "s \<in> set (token_scopes vs) \<longleftrightarrow> CString s \<in> set vs"
  by (induction vs) (auto simp: token_scopes_def split: claim.splits)

lemma HasAllScopes_any: "HasAllScopes c req = HasAllScopesFromAny (get c ''scopes'') req"
  by (simp add: HasAllScopes_def HasAllScopesFromAny_def Let_def split: option.split claim.split)

text \<open>Scope checking: both checks agree, and a request is authorised exactly when it needs no
  scope or the scopes claim is a list in which every required scope is granted by some string, either
  literally or by a wildcard whose prefix up to and including the colon starts the required scope.\<close>

theorem scope_check_correct:
  "HasAllScopes c req = HasAllScopesFromAny (get c ''scopes'') req \<and>
   HasAllScopesFromAny v req =
     (req = [] \<or> (\<exists>vs. v = Some (CList vs) \<and>
        set req \<subseteq> {r. \<exists>s. CString s \<in> set vs \<and> scope_grants s r}))"
proof -
  have "list_all (scope_met (token_scopes vs)) req \<longleftrightarrow>
      set req \<subseteq> {r. \<exists>s. CString s \<in> set vs \<and> scope_grants s r}" for vs
    by (auto simp: list_all_iff scope_met_iff Bex_def token_scopes_set)
  then show ?thesis
    by (auto simp: HasAllScopes_any HasAllScopesFromAny_def split: option.splits claim.splits)
qed

section \<open>The auth manager\<close>

record auth_manager =
  am_jwtSecret :: string
  am_issuer :: string
  am_audience :: string
  am_bootstrap :: bootstrap_store
  am_revocation :: revocation_list

datatype auth_error =
    ErrInvalidToken
  | ErrParse string
  | ErrIssuer
  | ErrAudience
  | ErrTokenRevoked
  | ErrDeviceRevoked
  | ErrBeyondGrace
  | ErrNoDeviceID
  | ErrSign string
  | ErrSecretTooShort
  | ErrWeakSecret string
  | ErrBypassNeedsEnv
  | ErrBypassForbidden string

definition isDevEnvironment :: "auth_env \<Rightarrow> bool" where
  "isDevEnvironment env =
     (let e = ToLower (env_ENVIRONMENT env) in e = ''development'' \<or> e = ''dev'' \<or> e = ''test'')"

definition weakSecrets :: "string list" where
  "weakSecrets = [''secret'', ''password'', ''change-me'', ''dev'', ''test'', ''example'']"

definition validateJWTSecret :: "auth_env \<Rightarrow> string \<Rightarrow> auth_error option" where
  "validateJWTSecret env secret =
     (if length secret < 32 then Some ErrSecretTooShort
      else case find (\<lambda>weak. Contains (ToLower secret) weak \<and> \<not> isDevEnvironment env) weakSecrets of
        Some weak \<Rightarrow> Some (ErrWeakSecret weak)
      | None \<Rightarrow> None)"

definition ValidateBootstrapAllowed :: "auth_env \<Rightarrow> auth_error option" where
  "ValidateBootstrapAllowed env =
     (if env_BOOTSTRAP_ALLOW_ANY env \<noteq> ''1'' then None
      else let e = ToLower (env_ENVIRONMENT env) in
        if e = [] then Some ErrBypassNeedsEnv
        else if e \<noteq> ''development'' \<and> e \<noteq> ''dev'' \<and> e \<noteq> ''test'' then Some (ErrBypassForbidden e)
        else None)"

definition NewManager ::
  "auth_env \<Rightarrow> string \<Rightarrow> string \<Rightarrow> string \<Rightarrow> string list \<Rightarrow> auth_error + auth_manager" where
  "NewManager env jwtSecret issuer audience bootstrapTokens =
     (case validateJWTSecret env jwtSecret of
        Some e \<Rightarrow> Inl e
      | None \<Rightarrow>
          (case ValidateBootstrapAllowed env of
             Some e \<Rightarrow> Inl e
           | None \<Rightarrow> Inr \<lparr>am_jwtSecret = jwtSecret,
                 am_issuer = (if issuer = [] then ''nekzus'' else issuer),
                 am_audience = (if audience = [] then ''nekzus-mobile'' else audience),
                 am_bootstrap = NewBootstrapStore bootstrapTokens,
                 am_revocation = NewRevocationList\<rparr>))"

text \<open>\<open>jwt_sign secret claims\<close> is the library's HS256 signing.\<close>

definition jwt_claims :: "auth_manager \<Rightarrow> gotime \<Rightarrow> string \<Rightarrow> string list \<Rightarrow> duration \<Rightarrow> claims" where
  "jwt_claims m now deviceID scopes ttl =
     [(''iss'', CString (am_issuer m)), (''aud'', CString (am_audience m)), (''sub'', CString deviceID),
      (''scopes'', CList (map CString scopes)), (''iat'', CNumber (now div second)),
      (''exp'', CNumber ((now + ttl) div second))]"

definition SignJWT ::
  "(string \<Rightarrow> claims \<Rightarrow> string + string) \<Rightarrow> auth_manager \<Rightarrow> gotime \<Rightarrow> string \<Rightarrow> string list \<Rightarrow> duration
   \<Rightarrow> auth_error + string" where
  "SignJWT jwt_sign m now deviceID scopes ttl =
     (if deviceID = [] then Inl ErrNoDeviceID
      else case jwt_sign (am_jwtSecret m) (jwt_claims m now deviceID scopes ttl) of
        Inl e \<Rightarrow> Inl (ErrSign e)
      | Inr jwt \<Rightarrow> Inr jwt)"

text \<open>The issuer and audience checks, then the revocation checks, which both parsers share.\<close>

definition check_party :: "auth_manager \<Rightarrow> claims \<Rightarrow> auth_error option" where
  "check_party m claims =
     (if get claims ''iss'' \<noteq> Some (CString (am_issuer m)) then Some ErrIssuer
      else if get claims ''aud'' \<noteq> Some (CString (am_audience m)) then Some ErrAudience
      else None)"

definition check_revoked :: "auth_manager \<Rightarrow> gotime \<Rightarrow> string \<Rightarrow> claims \<Rightarrow> auth_error option" where
  "check_revoked m now tokenString claims =
     (if IsRevoked (am_revocation m) now tokenString then Some ErrTokenRevoked
      else case get claims ''sub'' of
        Some (CString deviceID) \<Rightarrow>
          if deviceID \<noteq> [] \<and> IsDeviceRevoked (am_revocation m) now deviceID then Some ErrDeviceRevoked else None
      | _ \<Rightarrow> None)"

text \<open>\<open>jwt_parse validate secret now token\<close> is the library's parser with HS256 as the only valid
  method; \<open>validate\<close> says whether it also validates the time claims.  It gives the claims and the
  \<open>Valid\<close> flag, or an error.\<close>

type_synonym jwt_parser = "bool \<Rightarrow> string \<Rightarrow> gotime \<Rightarrow> string \<Rightarrow> string + (bool \<times> claims)"

definition ParseJWT :: "jwt_parser \<Rightarrow> auth_manager \<Rightarrow> gotime \<Rightarrow> string \<Rightarrow> auth_error + claims" where
  "ParseJWT jwt_parse m now tokenString =
     (if tokenString = [] then Inl ErrInvalidToken
      else case jwt_parse True (am_jwtSecret m) now tokenString of
        Inl e \<Rightarrow> Inl (ErrParse e)
      | Inr (valid, claims) \<Rightarrow>
          if \<not> valid then Inl ErrInvalidToken
          else case check_party m claims of
            Some e \<Rightarrow> Inl e
          | None \<Rightarrow> (case check_revoked m now tokenString claims of
              Some e \<Rightarrow> Inl e | None \<Rightarrow> Inr claims))"

definition RefreshGracePeriod :: duration where "RefreshGracePeriod = 7 * 24 * hour"

definition beyond_grace :: "gotime \<Rightarrow> claims \<Rightarrow> bool" where
  "beyond_grace now claims \<longleftrightarrow>
     (case get claims ''exp'' of
        Some (CNumber exp) \<Rightarrow> now - exp * second > RefreshGracePeriod
      | _ \<Rightarrow> False)"

definition ParseJWTForRefresh :: "jwt_parser \<Rightarrow> auth_manager \<Rightarrow> gotime \<Rightarrow> string \<Rightarrow> auth_error + claims" where
  "ParseJWTForRefresh jwt_parse m now tokenString =
     (if tokenString = [] then Inl ErrInvalidToken
      else case jwt_parse False (am_jwtSecret m) now tokenString of
        Inl e \<Rightarrow> Inl (ErrParse e)
      | Inr (valid, claims) \<Rightarrow>
          if \<not> valid then Inl ErrInvalidToken
          else case check_party m claims of
            Some e \<Rightarrow> Inl e
          | None \<Rightarrow>
              if beyond_grace now claims then Inl ErrBeyondGrace
              else (case check_revoked m now tokenString claims of
                 Some e \<Rightarrow> Inl e | None \<Rightarrow> Inr claims))"

definition ManagerRevokeToken :: "auth_manager \<Rightarrow> string \<Rightarrow> gotime \<Rightarrow> auth_manager" where
  "ManagerRevokeToken m tokenString expiry = m\<lparr>am_revocation := Revoke (am_revocation m) tokenString expiry\<rparr>"

definition ManagerRevokeDevice :: "auth_manager \<Rightarrow> string \<Rightarrow> gotime \<Rightarrow> auth_manager" where
  "ManagerRevokeDevice m deviceID expiry = m\<lparr>am_revocation := RevokeDevice (am_revocation m) deviceID expiry\<rparr>"

definition UpdateBootstrapTokens :: "auth_manager \<Rightarrow> string list \<Rightarrow> auth_manager" where
  "UpdateBootstrapTokens m tokens = m\<lparr>am_bootstrap := NewBootstrapStore tokens\<rparr>"

definition ValidateBootstrap :: "auth_env \<Rightarrow> auth_manager \<Rightarrow> gotime \<Rightarrow> string \<Rightarrow> auth_manager \<times> bool" where
  "ValidateBootstrap env m now token =
     (case Validate env (am_bootstrap m) now token of (bs, ok) \<Rightarrow> (m\<lparr>am_bootstrap := bs\<rparr>, ok))"

section \<open>What the manager guarantees\<close>

definition check_party_iff :: "auth_manager \<Rightarrow> claims \<Rightarrow> bool" where
  "check_party_iff m claims \<longleftrightarrow>
     get claims ''iss'' = Some (CString (am_issuer m)) \<and> get claims ''aud'' = Some (CString (am_audience m))"

lemma check_party_None: "check_party m c = None \<longleftrightarrow> check_party_iff m c"
  by (simp add: check_party_def check_party_iff_def)

lemma check_revoked_None:
  "check_revoked m now t c = None \<longleftrightarrow> \<not> IsRevoked (am_revocation m) now t \<and>
     (\<forall>d. get c ''sub'' = Some (CString d) \<and> d \<noteq> [] \<longrightarrow> \<not> IsDeviceRevoked (am_revocation m) now d)"
  by (auto simp: check_revoked_def split: option.splits claim.splits)

text \<open>\<open>ParseJWT\<close> accepts a token, with the claims the library decoded, exactly when it is not
  empty, the library finds it valid under the manager's secret at that time, issuer and audience are
  the manager's, and neither the token nor the device it names is revoked at that time.\<close>

theorem ParseJWT_accepts:
  "ParseJWT jwt_parse m now token = Inr c \<longleftrightarrow>
     token \<noteq> [] \<and> jwt_parse True (am_jwtSecret m) now token = Inr (True, c)
     \<and> get c ''iss'' = Some (CString (am_issuer m)) \<and> get c ''aud'' = Some (CString (am_audience m))
     \<and> \<not> IsRevoked (am_revocation m) now token
     \<and> \<not> (\<exists>d. get c ''sub'' = Some (CString d) \<and> d \<noteq> [] \<and> IsDeviceRevoked (am_revocation m) now d)"
  using check_party_None [of m c] check_revoked_None [of m now token c]
  by (auto simp: ParseJWT_def check_party_iff_def split: sum.splits option.splits)

text \<open>The calls that reach the revocation list over the manager's life.\<close>

datatype revocation_call = CallRevokeToken string gotime | CallRevokeDevice string gotime | CallCleanup gotime

fun revocation_run :: "auth_manager \<Rightarrow> revocation_call \<Rightarrow> auth_manager" where
  "revocation_run m (CallRevokeToken t e) = ManagerRevokeToken m t e"
| "revocation_run m (CallRevokeDevice d e) = ManagerRevokeDevice m d e"
| "revocation_run m (CallCleanup now) = m\<lparr>am_revocation := Cleanup (am_revocation m) now\<rparr>"

fun device_ops :: "revocation_call list \<Rightarrow> string expiry_op list" where
  "device_ops [] = []"
| "device_ops (CallRevokeToken t e # cs) = device_ops cs"
| "device_ops (CallRevokeDevice d e # cs) = Grant d e # device_ops cs"
| "device_ops (CallCleanup now # cs) = Purge now # device_ops cs"


lemma device_ops_run:
  "rl_revokedDevices (am_revocation m) = rl_revokedDevices rl \<Longrightarrow>
   rl_revokedDevices (am_revocation (foldl revocation_run m cs)) =
     rl_revokedDevices (foldl revoked_devices.apply_op rl (device_ops cs))"
proof (induction cs arbitrary: m rl)
  case Nil
  then show ?case by simp
next
  case (Cons x cs)
  show ?case
  proof (cases x)
    case (CallRevokeToken t e)
    have "rl_revokedDevices (am_revocation (ManagerRevokeToken m t e)) = rl_revokedDevices rl"
      using Cons.prems by (simp add: ManagerRevokeToken_def Revoke_def)
    from Cons.IH [OF this] CallRevokeToken show ?thesis by simp
  next
    case (CallRevokeDevice d e)
    have "rl_revokedDevices (am_revocation (ManagerRevokeDevice m d e)) = rl_revokedDevices (RevokeDevice rl d e)"
      using Cons.prems by (simp add: ManagerRevokeDevice_def RevokeDevice_def)
    from Cons.IH [OF this] CallRevokeDevice show ?thesis by simp
  next
    case (CallCleanup now)
    have "rl_revokedDevices (am_revocation (revocation_run m x)) = rl_revokedDevices (Cleanup rl now)"
      using Cons.prems CallCleanup by (simp add: Cleanup_def)
    from Cons.IH [OF this] CallCleanup show ?thesis by simp
  qed
qed

lemma IsDeviceRevoked_cong:
  "rl_revokedDevices rl = rl_revokedDevices rl' \<Longrightarrow> IsDeviceRevoked rl t d = IsDeviceRevoked rl' t d"
  by (simp add: IsDeviceRevoked_def)

text \<open>C10: Revoking a device is final until its expiry: whatever tokens and other devices are revoked
  afterwards and however often the list is swept, up to the expiry no token that names the device is
  accepted, neither for access nor for refresh, whatever the JWT library makes of it.\<close>

theorem revoked_device_locked_out:
  assumes "rl_wf (am_revocation m)" "purges_before t (device_ops cs)"
    and "last_grant (device_ops cs) d None = None" "t \<le> e" "d \<noteq> []"
    and "ParseJWT jwt_parse (foldl revocation_run (ManagerRevokeDevice m d e) cs) t token = Inr c
       \<or> ParseJWTForRefresh jwt_parse (foldl revocation_run (ManagerRevokeDevice m d e) cs) t token = Inr c"
  shows "get c ''sub'' \<noteq> Some (CString d)"
proof
  assume sub: "get c ''sub'' = Some (CString d)"
  let ?m = "foldl revocation_run (ManagerRevokeDevice m d e) cs"
  have "rl_revokedDevices (am_revocation ?m) =
      rl_revokedDevices (foldl revoked_devices.apply_op (RevokeDevice (am_revocation m) d e) (device_ops cs))"
    by (rule device_ops_run) (simp add: ManagerRevokeDevice_def)
  then have "IsDeviceRevoked (am_revocation ?m) t d"
    using revoked_devices.granted_until [OF assms(1) _ assms(2,3)] assms(4) IsDeviceRevoked_cong by blast
  then have "check_revoked ?m t token c \<noteq> None"
    using sub assms(5) check_revoked_None [of ?m t token c] by blast
  then obtain e' where "check_revoked ?m t token c = Some e'" by blast
  with assms(6) show False
    by (auto simp: ParseJWT_def ParseJWTForRefresh_def split: if_splits sum.splits option.splits)
qed

text \<open>A JWT library for the witnesses: a token is its claims written out, signed by prefixing the secret.\<close>

definition demo_manager :: auth_manager where
  "demo_manager = \<lparr>am_jwtSecret = ''k'', am_issuer = ''nekzus'', am_audience = ''nekzus-mobile'',
     am_bootstrap = NewBootstrapStore [''boot''], am_revocation = NewRevocationList\<rparr>"

definition demo_claims :: claims where
  "demo_claims = jwt_claims demo_manager (5 * second) ''dev'' [''read:*''] (10 * second)"

definition demo_sign :: "string \<Rightarrow> claims \<Rightarrow> string + string" where
  "demo_sign secret c = Inr (secret @ ''.'' @ (if c = demo_claims then ''t'' else ''u''))"

definition demo_parse :: jwt_parser where
  "demo_parse validate secret now t =
     (if t = secret @ ''.t'' \<and> (validate \<longrightarrow> now < 15 * second) then Inr (True, demo_claims) else Inl ''bad'')"

lemma ParseJWT_accepts_witness:
  "ParseJWT demo_parse demo_manager (6 * second) ''k.t'' = Inr demo_claims"
proof -
  have v: "demo_parse True (am_jwtSecret demo_manager) (6 * second) ''k.t'' = Inr (True, demo_claims)"
    "get demo_claims ''iss'' = Some (CString (am_issuer demo_manager))"
    "get demo_claims ''aud'' = Some (CString (am_audience demo_manager))"
    "get demo_claims ''sub'' = Some (CString ''dev'')"
    "\<not> IsRevoked (am_revocation demo_manager) (6 * second) ''k.t''"
    "\<not> IsDeviceRevoked (am_revocation demo_manager) (6 * second) ''dev''"
    by code_simp+
  show ?thesis
    by (subst ParseJWT_accepts) (use v in simp)
qed

lemma revoked_device_locked_out_witness:
  "get (jwt_claims demo_manager 0 ''other'' [] 0) ''sub'' \<noteq> Some (CString ''dev'')"
proof -
  let ?c = "jwt_claims demo_manager 0 ''other'' [] 0"
  let ?parse = "\<lambda>(v::bool) (s::string) (n::gotime) (t::string). Inr (True, ?c) :: string + (bool \<times> claims)"
  let ?cs = "[CallCleanup 7, CallRevokeToken ''x'' 9]"
  have a: "rl_wf (am_revocation demo_manager)" "purges_before 8 (device_ops ?cs)"
    "last_grant (device_ops ?cs) ''dev'' None = None" "(8::gotime) \<le> 20" "''dev'' \<noteq> []"
    by (simp_all add: rl_wf_def demo_manager_def NewRevocationList_def)
  have "ParseJWT ?parse (foldl revocation_run (ManagerRevokeDevice demo_manager ''dev'' 20) ?cs) 8 ''t'' = Inr ?c"
    by code_simp
  from revoked_device_locked_out [OF a disjI1 [OF this]] show ?thesis .
qed

section \<open>Issued tokens\<close>

text \<open>What the code relies on of the JWT library: a token it signed parses back to its claims under
  the same secret, and passes the time validation as long as it has not expired.\<close>

definition jwt_library_ok :: "(string \<Rightarrow> claims \<Rightarrow> string + string) \<Rightarrow> jwt_parser \<Rightarrow> bool" where
  "jwt_library_ok jwt_sign jwt_parse \<longleftrightarrow> (\<forall>secret c t. jwt_sign secret c = Inr t \<longrightarrow> t \<noteq> [] \<and>
     (\<forall>now. jwt_parse False secret now t = Inr (True, c)) \<and>
     (\<forall>now e. get c ''exp'' = Some (CNumber e) \<and> now < e * second \<longrightarrow> jwt_parse True secret now t = Inr (True, c)))"

lemma jwt_claims_get [simp]:
  "get (jwt_claims m now d scopes ttl) ''iss'' = Some (CString (am_issuer m))"
  "get (jwt_claims m now d scopes ttl) ''aud'' = Some (CString (am_audience m))"
  "get (jwt_claims m now d scopes ttl) ''sub'' = Some (CString d)"
  "get (jwt_claims m now d scopes ttl) ''scopes'' = Some (CList (map CString scopes))"
  "get (jwt_claims m now d scopes ttl) ''exp'' = Some (CNumber ((now + ttl) div second))"
  by (simp_all add: jwt_claims_def)

lemma issued_token_roundtrip_facts:
  assumes "jwt_library_ok jwt_sign jwt_parse"
    and "SignJWT jwt_sign m now d scopes ttl = Inr t"
    and "\<not> IsRevoked (am_revocation m) now' t" "\<not> IsDeviceRevoked (am_revocation m) now' d"
  shows "now' < (now + ttl) div second * second \<Longrightarrow>
      ParseJWT jwt_parse m now' t = Inr (jwt_claims m now d scopes ttl)"
    and "ParseJWTForRefresh jwt_parse m now' t = Inr (jwt_claims m now d scopes ttl)
         \<longleftrightarrow> now' \<le> (now + ttl) div second * second + RefreshGracePeriod"
    and "d \<noteq> []" "ExtractScopes (jwt_claims m now d scopes ttl) = scopes"
    and "HasAllScopes (jwt_claims m now d scopes ttl) scopes"
proof -
  let ?c = "jwt_claims m now d scopes ttl"
  from assms(2) show d: "d \<noteq> []" by (auto simp: SignJWT_def split: if_splits)
  from assms(2) have s: "jwt_sign (am_jwtSecret m) ?c = Inr t"
    by (auto simp: SignJWT_def split: if_splits sum.splits)
  from assms(1) s have t: "t \<noteq> []" "jwt_parse False (am_jwtSecret m) now' t = Inr (True, ?c)"
    "now' < (now + ttl) div second * second \<Longrightarrow> jwt_parse True (am_jwtSecret m) now' t = Inr (True, ?c)"
    unfolding jwt_library_ok_def by auto
  have ok: "check_party m ?c = None" "check_revoked m now' t ?c = None"
    using assms(3,4) by (simp_all add: check_party_None check_party_iff_def check_revoked_None)
  have ts: "token_scopes (map CString ss) = ss" for ss
    by (induction ss) (simp_all add: token_scopes_def)
  show "HasAllScopes ?c scopes" by (auto simp: HasAllScopes_def ts list_all_iff scope_met_def)
  show "ExtractScopes ?c = scopes" by (simp add: ExtractScopes_def ts)
  show "ParseJWTForRefresh jwt_parse m now' t = Inr ?c
      \<longleftrightarrow> now' \<le> (now + ttl) div second * second + RefreshGracePeriod"
    using t(1,2) ok by (auto simp: ParseJWTForRefresh_def beyond_grace_def)
  show "now' < (now + ttl) div second * second \<Longrightarrow> ParseJWT jwt_parse m now' t = Inr ?c"
    using t ok by (simp add: ParseJWT_def)
qed

text \<open>C11: Round trip of issued tokens: a token signed for a device parses to claims naming that
  device and carrying the signed scopes, as long as it has not expired and neither it nor the device
  is revoked; and it can be refreshed exactly until the grace period after its expiry has run out.\<close>

theorem issued_token_roundtrip:
  assumes "jwt_library_ok jwt_sign jwt_parse"
    and "SignJWT jwt_sign m now d scopes ttl = Inr t"
    and "\<not> IsRevoked (am_revocation m) now' t" "\<not> IsDeviceRevoked (am_revocation m) now' d"
  shows "(now' < (now + ttl) div second * second \<longrightarrow>
        ParseJWT jwt_parse m now' t = Inr (jwt_claims m now d scopes ttl))
    \<and> (ParseJWTForRefresh jwt_parse m now' t = Inr (jwt_claims m now d scopes ttl)
         \<longleftrightarrow> now' \<le> (now + ttl) div second * second + RefreshGracePeriod)
    \<and> d \<noteq> [] \<and> ExtractScopes (jwt_claims m now d scopes ttl) = scopes
    \<and> HasAllScopes (jwt_claims m now d scopes ttl) scopes"
  using issued_token_roundtrip_facts [OF assms] by blast

lemma issued_token_roundtrip_witness:
  "ParseJWT demo_parse demo_manager (7 * second) ''k.t'' = Inr demo_claims"
proof -
  let ?sign = "\<lambda>s c. if c = demo_claims then Inr (s @ ''.t'') else Inl ''x'' :: string + string"
  have e: "get demo_claims ''exp'' = Some (CNumber 15)" by code_simp
  have l: "jwt_library_ok ?sign demo_parse"
    by (auto simp: jwt_library_ok_def demo_parse_def e split: if_splits)
  have c: "jwt_claims demo_manager (5 * second) ''dev'' [''read:*''] (10 * second) = demo_claims"
    by (simp add: demo_claims_def)
  have s: "SignJWT ?sign demo_manager (5 * second) ''dev'' [''read:*''] (10 * second) = Inr ''k.t''"
    by (simp add: SignJWT_def c) (simp add: demo_manager_def)
  have r: "\<not> IsRevoked (am_revocation demo_manager) (7 * second) ''k.t''"
    "\<not> IsDeviceRevoked (am_revocation demo_manager) (7 * second) ''dev''" by code_simp+
  have "7 * second < (5 * second + 10 * second) div second * second" by code_simp
  with issued_token_roundtrip [OF l s r] c show ?thesis by simp
qed

section \<open>Bootstrap tokens\<close>

datatype bootstrap_call =
    BIssue gotime duration string
  | BFail string
  | BSuccess string
  | BClean gotime
  | BValidate auth_env gotime string

fun bootstrap_run :: "bootstrap_store \<Rightarrow> bootstrap_call \<Rightarrow> bootstrap_store" where
  "bootstrap_run bs (BIssue now ttl r) = fst (GenerateShortLived bs now ttl (Some r))"
| "bootstrap_run bs (BFail t) = RecordFailedPairing bs t"
| "bootstrap_run bs (BSuccess t) = RecordSuccessfulPairing bs t"
| "bootstrap_run bs (BClean now) = cleanupExpired bs now"
| "bootstrap_run bs (BValidate env now t) = fst (Validate env bs now t)"

lemma validateShortLived_state:
  "fst (validateShortLived bs now t) = bs \<or>
   fst (validateShortLived bs now t) = bs\<lparr>bs_shortLivedTokens := del t (bs_shortLivedTokens bs),
     bs_failedAttempts := del t (bs_failedAttempts bs), bs_rateLimited := del t (bs_rateLimited bs)\<rparr>"
  by (simp add: validateShortLived_def split: option.split)

lemma Validate_state: "fst (Validate env bs now t) = (if t = [] then bs else fst (validateShortLived bs now t))"
  by (auto simp: Validate_def split: prod.split bool.split)

lemma validateShortLived_perm [simp]:
  "bs_permanentTokens (fst (validateShortLived bs now t)) = bs_permanentTokens bs"
  using validateShortLived_state [of bs now t] by auto

lemma Validate_iff:
  "snd (Validate env bs now token) \<longleftrightarrow> token \<noteq> [] \<and>
     (short_lived_live bs now token \<or> token \<in> set (bs_permanentTokens bs)
      \<or> env_BOOTSTRAP_TOKEN env = token \<or> env_BOOTSTRAP_ALLOW_ANY env = ''1'')"
proof -
  obtain bs' b where v: "validateShortLived bs now token = (bs', b)" by (cases "validateShortLived bs now token")
  then have "bs_permanentTokens bs' = bs_permanentTokens bs"
    using validateShortLived_perm [of bs now token] by simp
  with v show ?thesis
    by (cases b) (auto simp: Validate_def short_lived_live_def validatePermanent_def list_ex_iff)
qed

lemma validateShortLived_wf:
  "wf_map (bs_shortLivedTokens bs) \<Longrightarrow> wf_map (bs_shortLivedTokens (fst (validateShortLived bs now t)))"
  using validateShortLived_state [of bs now t] by auto

lemma bootstrap_frame:
  "bs_permanentTokens (bootstrap_run bs x) = bs_permanentTokens bs"
  "wf_map (bs_shortLivedTokens bs) \<Longrightarrow> wf_map (bs_shortLivedTokens (bootstrap_run bs x))"
  by (cases x; simp add: GenerateShortLived_def RecordFailedPairing_def RecordSuccessfulPairing_def
      cleanupExpired_def Validate_state Let_def validateShortLived_wf)+

lemma bootstrap_absent:
  assumes "wf_map (bs_shortLivedTokens bs)" "get (bs_shortLivedTokens bs) t = None"
    "\<And>now ttl r. x = BIssue now ttl r \<Longrightarrow> ''temp_'' @ r \<noteq> t"
  shows "get (bs_shortLivedTokens (bootstrap_run bs x)) t = None"
proof (cases x)
  case (BIssue now ttl r)
  with assms show ?thesis by (simp add: GenerateShortLived_def Let_def get_put)
next
  case (BValidate env now t')
  with assms(2) validateShortLived_state [of bs now t'] show ?thesis by (auto simp: Validate_state get_del)
qed (use assms in \<open>simp_all add: RecordFailedPairing_def RecordSuccessfulPairing_def cleanupExpired_def
    Let_def get_del get_del_if\<close>)

lemma bootstrap_absent_run:
  assumes "wf_map (bs_shortLivedTokens bs)" "get (bs_shortLivedTokens bs) t = None"
    "\<forall>now ttl r. BIssue now ttl r \<in> set xs \<longrightarrow> ''temp_'' @ r \<noteq> t"
  shows "get (bs_shortLivedTokens (foldl bootstrap_run bs xs)) t = None
    \<and> bs_permanentTokens (foldl bootstrap_run bs xs) = bs_permanentTokens bs"
  using assms
proof (induction xs arbitrary: bs)
  case Nil
  then show ?case by simp
next
  case (Cons x xs)
  have "get (bs_shortLivedTokens (bootstrap_run bs x)) t = None"
    by (rule bootstrap_absent [OF Cons.prems(1,2)]) (use Cons.prems(3) in auto)
  with Cons.IH [of "bootstrap_run bs x"] Cons.prems show ?case by (simp add: bootstrap_frame)
qed

lemma third_failure:
  assumes "get_zero 0 (bs_failedAttempts bs) t \<ge> 0"
  shows "get (bs_shortLivedTokens (RecordFailedPairing (RecordFailedPairing (RecordFailedPairing bs t) t) t)) t = None"
proof -
  have n: "get_zero 0 (bs_failedAttempts (RecordFailedPairing b t)) t = get_zero 0 (bs_failedAttempts b) t + 1" for b
    by (simp add: RecordFailedPairing_def Let_def get_zero_def get_put split: option.split)
  show ?thesis
    by (subst RecordFailedPairing_def) (use assms in \<open>simp add: Let_def n get_del MaxPairingAttempts_def\<close>)
qed

text \<open>C12: Bootstrap tokens are used up: once a pairing with a short-lived token succeeded, or three
  failures were recorded against it, no sequence of later calls that does not issue the very same token
  again makes it acceptable, unless it is a permanent token, the environment's token, or the
  development bypass is on.\<close>

theorem bootstrap_token_used_up:
  assumes "wf_map (bs_shortLivedTokens bs)" "get_zero 0 (bs_failedAttempts bs) t \<ge> 0"
    and "bs0 = RecordSuccessfulPairing bs t \<or>
         bs0 = RecordFailedPairing (RecordFailedPairing (RecordFailedPairing bs t) t) t"
    and "\<forall>now ttl r. BIssue now ttl r \<in> set calls \<longrightarrow> ''temp_'' @ r \<noteq> t"
    and "t \<notin> set (bs_permanentTokens bs)" "env_BOOTSTRAP_TOKEN env \<noteq> t"
    and "env_BOOTSTRAP_ALLOW_ANY env \<noteq> ''1''"
  shows "\<not> snd (Validate env (foldl bootstrap_run bs0 calls) now t)"
proof -
  have a: "get (bs_shortLivedTokens bs0) t = None"
    using assms(3) third_failure [OF assms(2)] by (auto simp: RecordSuccessfulPairing_def get_del)
  have w: "wf_map (bs_shortLivedTokens bs0)" "bs_permanentTokens bs0 = bs_permanentTokens bs"
    using assms(1,3) bootstrap_frame [of _ "BFail t"] bootstrap_frame [of bs "BSuccess t"] by auto
  from bootstrap_absent_run [OF w(1) a assms(4)] w(2) assms(5-7) show ?thesis
    by (simp add: Validate_iff short_lived_live_iff)
qed

definition demo_env :: auth_env where
  "demo_env = \<lparr>env_BOOTSTRAP_TOKEN = [], env_BOOTSTRAP_ALLOW_ANY = [], env_ENVIRONMENT = ''production'',
     env_DEBUG_TOKENS = []\<rparr>"

lemma bootstrap_token_used_up_witness:
  "snd (Validate demo_env (issue_until (NewBootstrapStore [''boot'']) ''temp_a'' 100) 50 ''temp_a'') \<and>
   \<not> snd (Validate demo_env (foldl bootstrap_run
       (RecordSuccessfulPairing (issue_until (NewBootstrapStore [''boot'']) ''temp_a'' 100) ''temp_a'')
       [BClean 60, BIssue 60 10 ''b'', BFail ''temp_a'']) 70 ''temp_a'')"
proof -
  let ?bs = "issue_until (NewBootstrapStore [''boot'']) ''temp_a'' 100"
  let ?cs = "[BClean 60, BIssue 60 10 ''b'', BFail ''temp_a'']"
  have a: "wf_map (bs_shortLivedTokens ?bs)" "get_zero 0 (bs_failedAttempts ?bs) ''temp_a'' \<ge> 0"
    "''temp_a'' \<notin> set (bs_permanentTokens ?bs)" "env_BOOTSTRAP_TOKEN demo_env \<noteq> ''temp_a''"
    "env_BOOTSTRAP_ALLOW_ANY demo_env \<noteq> ''1''"
    by (simp_all add: issue_until_def NewBootstrapStore_def get_zero_def demo_env_def wf_map_def)
  have c: "\<forall>now ttl r. BIssue now ttl r \<in> set ?cs \<longrightarrow> ''temp_'' @ r \<noteq> ''temp_a''" by simp
  have "snd (Validate demo_env ?bs 50 ''temp_a'')" by code_simp
  with bootstrap_token_used_up [OF a(1,2) disjI1 [OF refl] c a(3-5), of 70] show ?thesis by simp
qed

text \<open>The manager fails closed: one that starts has a secret of at least 32 characters, free of
  every listed weak pattern outside a development environment, and outside such an environment it
  accepts a bootstrap token only if it is not empty and is a live short-lived token, one of the
  configured tokens, or the environment's.\<close>

theorem manager_fails_closed:
  assumes "NewManager env secret issuer audience tokens = Inr m"
  shows "32 \<le> length secret
    \<and> (isDevEnvironment env \<or> \<not> (\<exists>w. w \<in> set weakSecrets \<and> Contains (ToLower secret) w))
    \<and> (snd (Validate env (foldl bootstrap_run (am_bootstrap m) calls) now t) \<longrightarrow> isDevEnvironment env \<or>
         t \<noteq> [] \<and> (short_lived_live (foldl bootstrap_run (am_bootstrap m) calls) now t \<or> t \<in> set tokens
           \<or> t = env_BOOTSTRAP_TOKEN env))"
proof -
  from assms have v: "validateJWTSecret env secret = None" "ValidateBootstrapAllowed env = None"
    and b: "am_bootstrap m = NewBootstrapStore tokens"
    by (auto simp: NewManager_def split: option.splits)
  have p: "bs_permanentTokens (foldl bootstrap_run bs calls) = bs_permanentTokens bs" for bs
    by (induction calls arbitrary: bs) (simp_all add: bootstrap_frame)
  have "32 \<le> length secret" using v(1) by (simp add: validateJWTSecret_def split: if_splits)
  moreover have "isDevEnvironment env \<or> \<not> (\<exists>w. w \<in> set weakSecrets \<and> Contains (ToLower secret) w)"
    using v(1) by (auto simp: validateJWTSecret_def find_None_iff split: if_splits option.splits)
  moreover have "env_BOOTSTRAP_ALLOW_ANY env = ''1'' \<Longrightarrow> isDevEnvironment env"
    using v(2) by (auto simp: ValidateBootstrapAllowed_def isDevEnvironment_def Let_def split: if_splits)
  ultimately show ?thesis
    by (auto simp: Validate_iff p b NewBootstrapStore_def)
qed

lemma manager_fails_closed_witness:
  "\<exists>m. NewManager demo_env ''0123456789abcdef0123456789abcdef'' [] [] [''boot''] = Inr m \<and>
     \<not> snd (Validate demo_env (foldl bootstrap_run (am_bootstrap m) []) 5 ''guess'')"
proof -
  obtain m where m: "NewManager demo_env ''0123456789abcdef0123456789abcdef'' [] [] [''boot''] = Inr m"
  proof -
    have "isl (NewManager demo_env ''0123456789abcdef0123456789abcdef'' [] [] [''boot'']) = False" by code_simp
    then show ?thesis using that by (cases "NewManager demo_env ''0123456789abcdef0123456789abcdef'' [] [] [''boot'']") auto
  qed
  have f: "\<not> isDevEnvironment demo_env" "env_BOOTSTRAP_TOKEN demo_env = []" by code_simp+
  have b: "am_bootstrap m = NewBootstrapStore [''boot'']"
    using m by (auto simp: NewManager_def split: option.splits)
  have "\<not> short_lived_live (foldl bootstrap_run (NewBootstrapStore [''boot'']) []) 5 ''guess''" by code_simp
  with manager_fails_closed [OF m, of "[]" 5 "''guess''"] f m b show ?thesis by auto
qed

end
