(* ===== verification/Pairing.thy ===== *)
theory Pairing
  imports Prelude
begin

text \<open>
  Short pairing codes (\<open>internal/auth/pairing.go\<close>): generation, redemption with its per-code and
  global limits, consumption after a successful pairing, status and clean-up.  The system's random
  bytes are an argument; every call takes the reading of the clock.  Constant-time comparison is
  equality.  Hashes that only go to the log are left out.
\<close>

section \<open>State\<close>

record pairing_config =
  pf_BaseURL :: string
  pf_Name :: string
  pf_SPKIPins :: "string list"
  pf_BootstrapToken :: string
  pf_Capabilities :: "string list"
  pf_NekzusID :: string
  pf_ExpiresAt :: int

record pairing_code =
  pc_code :: string
  pc_config :: pairing_config
  pc_expiresAt :: gotime
  pc_redeemed :: bool
  pc_used :: bool
  pc_failedCount :: int
  pc_lockedUntil :: gotime

record pairing_manager =
  pm_codes :: "(string, pairing_code) gomap"
  pm_codeLen :: nat
  pm_ttl :: duration
  pm_globalFailures :: int
  pm_globalFailureReset :: gotime

datatype redeem_error = TooManyAttempts | InvalidCode

definition defaultCodeLength :: nat where "defaultCodeLength = 8"
definition codeCharset :: string where "codeCharset = ''ABCDEFGHJKMNPQRSTUVWXYZ23456789''"
definition maxFailedAttemptsPerCode :: int where "maxFailedAttemptsPerCode = 5"
definition codeLockDuration :: duration where "codeLockDuration = 5 * minute"
definition globalFailureThreshold :: int where "globalFailureThreshold = 100"
definition globalFailureWindow :: duration where "globalFailureWindow = hour"

definition NewPairingManager :: "gotime \<Rightarrow> pairing_manager" where
  "NewPairingManager now = \<lparr>pm_codes = [], pm_codeLen = defaultCodeLength, pm_ttl = 5 * minute,
     pm_globalFailures = 0, pm_globalFailureReset = now + globalFailureWindow\<rparr>"

section \<open>Generating\<close>

definition generateRandomCode :: "8 word list \<Rightarrow> string" where
  "generateRandomCode bytes = map (\<lambda>b. codeCharset ! (unat b mod length codeCharset)) bytes"

definition GenerateCode ::
  "pairing_manager \<Rightarrow> gotime \<Rightarrow> 8 word list option \<Rightarrow> pairing_config \<Rightarrow> pairing_manager \<times> string option" where
  "GenerateCode pm now random config =
     (case random of
        None \<Rightarrow> (pm, None)
      | Some bytes \<Rightarrow>
          (let code = generateRandomCode bytes;
               expiresAt = now + pm_ttl pm;
               config' = config\<lparr>pf_ExpiresAt := expiresAt div second\<rparr>
           in (pm\<lparr>pm_codes := put code \<lparr>pc_code = code, pc_config = config', pc_expiresAt = expiresAt,
                     pc_redeemed = False, pc_used = False, pc_failedCount = 0, pc_lockedUntil = 0\<rparr>
                     (pm_codes pm)\<rparr>, Some code)))"

section \<open>Redeeming\<close>

definition reset_window :: "pairing_manager \<Rightarrow> gotime \<Rightarrow> pairing_manager" where
  "reset_window pm now =
     (if After now (pm_globalFailureReset pm)
      then pm\<lparr>pm_globalFailures := 0, pm_globalFailureReset := now + globalFailureWindow\<rparr>
      else pm)"

definition isGloballyRateLimited :: "pairing_manager \<Rightarrow> gotime \<Rightarrow> pairing_manager \<times> bool" where
  "isGloballyRateLimited pm now =
     (let pm' = reset_window pm now in (pm', pm_globalFailures pm' \<ge> globalFailureThreshold))"

definition recordGlobalFailure :: "pairing_manager \<Rightarrow> gotime \<Rightarrow> pairing_manager" where
  "recordGlobalFailure pm now =
     (let pm' = reset_window pm now in pm'\<lparr>pm_globalFailures := pm_globalFailures pm' + 1\<rparr>)"

definition normalize_code :: "string \<Rightarrow> string" where
  "normalize_code code = ToUpper (TrimSpace code)"

definition RedeemCode ::
  "pairing_manager \<Rightarrow> gotime \<Rightarrow> string \<Rightarrow> pairing_manager \<times> (redeem_error + pairing_config)" where
  "RedeemCode pm now code0 =
     (let code = normalize_code code0 in
      case isGloballyRateLimited pm now of
        (pm1, True) \<Rightarrow> (pm1, Inl TooManyAttempts)
      | (pm1, False) \<Rightarrow>
          (case get (pm_codes pm1) code of
             None \<Rightarrow> (recordGlobalFailure pm1 now, Inl InvalidCode)
           | Some pc \<Rightarrow>
               if Before now (pc_lockedUntil pc) then (recordGlobalFailure pm1 now, Inl InvalidCode)
               else if pc_used pc then
                 (let pm2 = recordGlobalFailure pm1 now;
                      n = pc_failedCount pc + 1;
                      pc' = (if n \<ge> maxFailedAttemptsPerCode
                             then pc\<lparr>pc_failedCount := n, pc_lockedUntil := now + codeLockDuration\<rparr>
                             else pc\<lparr>pc_failedCount := n\<rparr>)
                  in (pm2\<lparr>pm_codes := put code pc' (pm_codes pm2)\<rparr>, Inl InvalidCode))
               else if After now (pc_expiresAt pc) then
                 (let pm2 = recordGlobalFailure pm1 now
                  in (pm2\<lparr>pm_codes := del code (pm_codes pm2)\<rparr>, Inl InvalidCode))
               else (pm1\<lparr>pm_codes := put code (pc\<lparr>pc_redeemed := True\<rparr>) (pm_codes pm1)\<rparr>,
                     Inr (pc_config pc))))"

text \<open>The first code the map iteration yields with that bootstrap token is consumed.\<close>

definition ConsumeByBootstrapToken :: "pairing_manager \<Rightarrow> string \<Rightarrow> pairing_manager" where
  "ConsumeByBootstrapToken pm bootstrapToken =
     (case find (\<lambda>(k, pc). pf_BootstrapToken (pc_config pc) = bootstrapToken) (pm_codes pm) of
        None \<Rightarrow> pm
      | Some (k, pc) \<Rightarrow> pm\<lparr>pm_codes := adjust k (\<lambda>pc. pc\<lparr>pc_used := True\<rparr>) (pm_codes pm)\<rparr>)"

definition GetCode :: "pairing_manager \<Rightarrow> gotime \<Rightarrow> string \<Rightarrow> pairing_config option" where
  "GetCode pm now code =
     (case get (pm_codes pm) (normalize_code code) of
        None \<Rightarrow> None
      | Some pc \<Rightarrow> if pc_used pc \<or> After now (pc_expiresAt pc) then None else Some (pc_config pc))"

definition pairing_cleanup :: "pairing_manager \<Rightarrow> gotime \<Rightarrow> pairing_manager" where
  "pairing_cleanup pm now =
     pm\<lparr>pm_codes := del_if (\<lambda>code pc. After now (pc_expiresAt pc + 1 * minute)) (pm_codes pm)\<rparr>"

definition ActiveCodeCount :: "pairing_manager \<Rightarrow> gotime \<Rightarrow> int" where
  "ActiveCodeCount pm now =
     int (length (filter (\<lambda>(k, pc). \<not> pc_used pc \<and> Before now (pc_expiresAt pc)) (pm_codes pm)))"

record code_status =
  cs_Valid :: bool
  cs_Redeemed :: bool
  cs_Expired :: bool
  cs_TTL :: int

definition GetCodeStatus :: "pairing_manager \<Rightarrow> gotime \<Rightarrow> string \<Rightarrow> code_status" where
  "GetCodeStatus pm now code =
     (case get (pm_codes pm) (normalize_code code) of
        None \<Rightarrow> \<lparr>cs_Valid = False, cs_Redeemed = False, cs_Expired = False, cs_TTL = 0\<rparr>
      | Some pc \<Rightarrow>
          (let status = \<lparr>cs_Valid = True, cs_Redeemed = (pc_used pc \<or> pc_redeemed pc), cs_Expired = False, cs_TTL = 0\<rparr>
           in if pc_used pc then status
              else if After now (pc_expiresAt pc) then status\<lparr>cs_Expired := True\<rparr>
              else status\<lparr>cs_TTL := (pc_expiresAt pc - now) div second\<rparr>))"

section \<open>Facts about one redemption\<close>

lemma reset_window_codes [simp]: "pm_codes (reset_window pm now) = pm_codes pm"
  by (simp add: reset_window_def)

lemma recordGlobalFailure_codes [simp]: "pm_codes (recordGlobalFailure pm now) = pm_codes pm"
  by (simp add: recordGlobalFailure_def Let_def)

definition rate_limited :: "pairing_manager \<Rightarrow> gotime \<Rightarrow> bool" where
  "rate_limited pm now \<longleftrightarrow> snd (isGloballyRateLimited pm now)"

definition redeemable :: "pairing_code \<Rightarrow> gotime \<Rightarrow> bool" where
  "redeemable pc now \<longleftrightarrow> pc_lockedUntil pc \<le> now \<and> \<not> pc_used pc \<and> now \<le> pc_expiresAt pc"

lemma isGlobally_state: "isGloballyRateLimited pm now = (reset_window pm now, rate_limited pm now)"
  by (simp add: isGloballyRateLimited_def rate_limited_def Let_def)

lemma RedeemCode_result:
  "snd (RedeemCode pm now code) =
     (if rate_limited pm now then Inl TooManyAttempts
      else case get (pm_codes pm) (normalize_code code) of
        Some pc \<Rightarrow> if redeemable pc now then Inr (pc_config pc) else Inl InvalidCode
      | None \<Rightarrow> Inl InvalidCode)"
  by (auto simp: RedeemCode_def Let_def isGlobally_state redeemable_def split: option.split bool.split)

text \<open>What redemption does to the codes: it may drop an expired one, mark an attempt, or mark a
  redemption; it never changes a code's configuration, expiry, or use.\<close>

lemma RedeemCode_codes:
  assumes "get (pm_codes (fst (RedeemCode pm now code))) k = Some pc"
  shows "\<exists>pc0. get (pm_codes pm) k = Some pc0 \<and> pc_config pc = pc_config pc0
    \<and> pc_expiresAt pc = pc_expiresAt pc0 \<and> pc_used pc = pc_used pc0
    \<and> (\<not> pc_used pc0 \<longrightarrow> pc_lockedUntil pc = pc_lockedUntil pc0)"
  using assms
  by (auto simp: RedeemCode_def Let_def isGlobally_state get_put get_del
      split: option.splits bool.splits if_splits)

text \<open>C21: Redemption is exact: a code yields its configuration precisely when the global limit is not
  reached and the code, trimmed and upper-cased, is stored, unlocked, unused and unexpired; being
  redeemed once is no obstacle, so a redemption can be retried until expiry with the same answer.\<close>

theorem RedeemCode_exact:
  "(snd (RedeemCode pm now code) = Inr cfg \<longleftrightarrow> \<not> rate_limited pm now \<and>
     (\<exists>pc. get (pm_codes pm) (normalize_code code) = Some pc \<and> redeemable pc now \<and> pc_config pc = cfg))
   \<and> (snd (RedeemCode pm now code) = Inr cfg \<and> now \<le> now' \<and> now' \<le> pm_globalFailureReset pm
       \<and> (\<exists>pc. get (pm_codes pm) (normalize_code code) = Some pc \<and> now' \<le> pc_expiresAt pc)
     \<longrightarrow> snd (RedeemCode (fst (RedeemCode pm now code)) now' code) = Inr cfg)"
proof (rule conjI)
  show "snd (RedeemCode pm now code) = Inr cfg \<longleftrightarrow> \<not> rate_limited pm now \<and>
     (\<exists>pc. get (pm_codes pm) (normalize_code code) = Some pc \<and> redeemable pc now \<and> pc_config pc = cfg)"
    by (auto simp: RedeemCode_result split: option.split)
  show "snd (RedeemCode pm now code) = Inr cfg \<and> now \<le> now' \<and> now' \<le> pm_globalFailureReset pm
       \<and> (\<exists>pc. get (pm_codes pm) (normalize_code code) = Some pc \<and> now' \<le> pc_expiresAt pc)
     \<longrightarrow> snd (RedeemCode (fst (RedeemCode pm now code)) now' code) = Inr cfg"
  proof (intro impI, elim conjE exE)
    fix pc assume a: "snd (RedeemCode pm now code) = Inr cfg" "now \<le> now'" "now' \<le> pm_globalFailureReset pm"
      "get (pm_codes pm) (normalize_code code) = Some pc" "now' \<le> pc_expiresAt pc"
    then have r: "\<not> rate_limited pm now" "redeemable pc now" "pc_config pc = cfg"
      by (auto simp: RedeemCode_result split: if_splits)
    then have st: "fst (RedeemCode pm now code) = (reset_window pm now)
        \<lparr>pm_codes := put (normalize_code code) (pc\<lparr>pc_redeemed := True\<rparr>) (pm_codes pm)\<rparr>"
      using a(4) by (simp add: RedeemCode_def Let_def isGlobally_state redeemable_def)
    have "\<not> rate_limited (fst (RedeemCode pm now code)) now'"
      using r(1) a(2,3) by (simp add: st rate_limited_def isGloballyRateLimited_def reset_window_def Let_def)
    moreover have "redeemable (pc\<lparr>pc_redeemed := True\<rparr>) now'"
      using r(2) a(2,5) by (simp add: redeemable_def)
    ultimately show "snd (RedeemCode (fst (RedeemCode pm now code)) now' code) = Inr cfg"
      by (simp add: RedeemCode_result) (simp add: st get_put r(3))
  qed
qed

definition demo_config :: pairing_config where
  "demo_config = \<lparr>pf_BaseURL = ''https://n'', pf_Name = ''n'', pf_SPKIPins = [], pf_BootstrapToken = ''temp_a'',
     pf_Capabilities = [], pf_NekzusID = ''id'', pf_ExpiresAt = 0\<rparr>"

definition demo_pm :: pairing_manager where
  "demo_pm = fst (GenerateCode (NewPairingManager (1 * second)) (2 * second) (Some [0, 1, 2, 3, 4, 5, 6, 7]) demo_config)"

lemma RedeemCode_exact_witness:
  "snd (RedeemCode demo_pm (3 * second) '' abcdefgh'') = Inr (demo_config\<lparr>pf_ExpiresAt := 302\<rparr>)"
proof -
  have s: "\<not> rate_limited demo_pm (3 * second)" by code_simp
  have g: "map_option (\<lambda>pc. redeemable pc (3 * second) \<and> pc_config pc = demo_config\<lparr>pf_ExpiresAt := 302\<rparr>)
      (get (pm_codes demo_pm) (normalize_code '' abcdefgh'')) = Some True"
    by code_simp
  then have "\<exists>pc. get (pm_codes demo_pm) (normalize_code '' abcdefgh'') = Some pc \<and> redeemable pc (3 * second)
      \<and> pc_config pc = demo_config\<lparr>pf_ExpiresAt := 302\<rparr>"
    by auto
  with s RedeemCode_exact [of demo_pm "3 * second" "'' abcdefgh''"] show ?thesis by blast
qed

section \<open>Generated codes can be typed in any case\<close>

lemma charset_facts:
  "list_all (\<lambda>c. upper_char c = c \<and> upper_char (lower_char c) = c \<and> \<not> is_space c \<and> \<not> is_space (lower_char c))
     codeCharset"
  by code_simp

lemma generated_chars: "c \<in> set (generateRandomCode bytes) \<Longrightarrow> c \<in> set codeCharset"
proof -
  have "length codeCharset = 31" by code_simp
  then show "c \<in> set (generateRandomCode bytes) \<Longrightarrow> c \<in> set codeCharset"
    by (auto simp: generateRandomCode_def intro!: nth_mem)
qed

lemma TrimSpace_pad:
  assumes "list_all is_space a" "list_all is_space b" "\<forall>c \<in> set s. \<not> is_space c"
  shows "TrimSpace (a @ s @ b) = s"
proof -
  have d: "dropWhile is_space (xs @ ys) = dropWhile is_space ys" if "list_all is_space xs" for xs ys
    using that by (induction xs) auto
  have n: "dropWhile is_space t = t" if "\<forall>c \<in> set t. \<not> is_space c" for t
    using that by (cases t) auto
  show ?thesis
  proof (cases "s = []")
    case True
    have b: "dropWhile is_space b = []" using d [OF assms(2), of "[]"] by simp
    show ?thesis unfolding TrimSpace_def True append_Nil d [OF assms(1), of b] b by simp
  next
    case False
    then have "dropWhile is_space (s @ b) = s @ b" using assms(3) by (cases s) auto
    moreover have "dropWhile is_space (rev b @ rev s) = rev s"
      using d [of "rev b" "rev s"] n [of "rev s"] assms(2,3) by simp
    ultimately show ?thesis using d [OF assms(1), of "s @ b"] by (simp add: TrimSpace_def)
  qed
qed

lemma normalize_typed:
  assumes "list_all is_space a" "list_all is_space b"
  shows "normalize_code (a @ generateRandomCode bytes @ b) = generateRandomCode bytes"
    "normalize_code (a @ ToLower (generateRandomCode bytes) @ b) = generateRandomCode bytes"
proof -
  let ?s = "generateRandomCode bytes"
  have f: "upper_char c = c" "upper_char (lower_char c) = c" "\<not> is_space c" "\<not> is_space (lower_char c)"
    if "c \<in> set ?s" for c
    using charset_facts generated_chars [OF that] by (simp_all add: list_all_iff)
  have "TrimSpace (a @ ?s @ b) = ?s" by (rule TrimSpace_pad [OF assms]) (simp add: f)
  moreover have "TrimSpace (a @ ToLower ?s @ b) = ToLower ?s"
    by (rule TrimSpace_pad [OF assms]) (auto simp: ToLower_def f)
  moreover have "ToUpper ?s = ?s" by (simp add: ToUpper_def f map_idI)
  moreover have "ToUpper (ToLower ?s) = ?s" by (simp add: ToUpper_def ToLower_def comp_def f map_idI)
  ultimately show "normalize_code (a @ ?s @ b) = ?s" "normalize_code (a @ ToLower ?s @ b) = ?s"
    by (simp_all add: normalize_code_def)
qed

text \<open>C23: Generating and redeeming fit together: a generated code has the configured length over the
  unambiguous alphabet, and until its expiry redeeming it, also in lower case and surrounded by white
  space, returns the given configuration with the expiry filled in, unless the global limit is reached.\<close>

theorem generate_redeem_roundtrip:
  assumes "GenerateCode pm now (Some bytes) config = (pm', Some code)"
    and "length bytes = pm_codeLen pm" "0 \<le> now" "now \<le> now'" "now' \<le> now + pm_ttl pm"
    and "\<not> rate_limited pm' now'" "list_all is_space a" "list_all is_space b"
  shows "length code = pm_codeLen pm \<and> set code \<subseteq> set codeCharset
    \<and> snd (RedeemCode pm' now' (a @ code @ b)) = Inr (config\<lparr>pf_ExpiresAt := (now + pm_ttl pm) div second\<rparr>)
    \<and> snd (RedeemCode pm' now' (a @ ToLower code @ b))
        = Inr (config\<lparr>pf_ExpiresAt := (now + pm_ttl pm) div second\<rparr>)"
proof -
  have c: "code = generateRandomCode bytes" using assms(1) by (simp add: GenerateCode_def Let_def)
  have "length code = pm_codeLen pm" "set code \<subseteq> set codeCharset"
    using assms(2) generated_chars by (auto simp: c generateRandomCode_def)
  moreover have "\<exists>pc. get (pm_codes pm') code = Some pc \<and> redeemable pc now'
      \<and> pc_config pc = config\<lparr>pf_ExpiresAt := (now + pm_ttl pm) div second\<rparr>"
    using assms(1,3-5) by (auto simp: GenerateCode_def Let_def get_put redeemable_def)
  ultimately show ?thesis
    using assms(6) normalize_typed [OF assms(7,8), of bytes]
    by (auto simp: RedeemCode_result simp flip: c)
qed

lemma generate_redeem_roundtrip_witness:
  "snd (RedeemCode demo_pm (4 * second) ''  abcdefgh '') = Inr (demo_config\<lparr>pf_ExpiresAt := 302\<rparr>)"
proof -
  let ?bytes = "[0, 1, 2, 3, 4, 5, 6, 7] :: 8 word list"
  have g: "GenerateCode (NewPairingManager (1 * second)) (2 * second) (Some ?bytes) demo_config
      = (demo_pm, Some ''ABCDEFGH'')"
    by code_simp
  have l: "length ?bytes = pm_codeLen (NewPairingManager (1 * second))" by code_simp
  have t: "0 \<le> 2 * second" "2 * second \<le> 4 * second"
    "4 * second \<le> 2 * second + pm_ttl (NewPairingManager (1 * second))"
    "\<not> rate_limited demo_pm (4 * second)" "list_all is_space ''  ''" "list_all is_space '' ''"
    "ToLower ''ABCDEFGH'' = ''abcdefgh''" "(2 * second + pm_ttl (NewPairingManager (1 * second))) div second = 302"
    by code_simp+
  from generate_redeem_roundtrip [OF g l t(1-6)] t(7,8) show ?thesis by simp
qed

section \<open>Consumed codes\<close>

datatype pairing_call =
    PGenerate gotime "8 word list" pairing_config
  | PRedeem gotime string
  | PConsume string
  | PCleanup gotime

fun pairing_run :: "pairing_manager \<Rightarrow> pairing_call \<Rightarrow> pairing_manager" where
  "pairing_run pm (PGenerate now bytes cfg) = fst (GenerateCode pm now (Some bytes) cfg)"
| "pairing_run pm (PRedeem now code) = fst (RedeemCode pm now code)"
| "pairing_run pm (PConsume t) = ConsumeByBootstrapToken pm t"
| "pairing_run pm (PCleanup now) = pairing_cleanup pm now"

definition all_used :: "pairing_manager \<Rightarrow> string \<Rightarrow> bool" where
  "all_used pm t \<longleftrightarrow> (\<forall>k pc. get (pm_codes pm) k = Some pc \<and> pf_BootstrapToken (pc_config pc) = t \<longrightarrow> pc_used pc)"

lemma RedeemCode_wf: "wf_map (pm_codes pm) \<Longrightarrow> wf_map (pm_codes (fst (RedeemCode pm now code)))"
  by (auto simp: RedeemCode_def Let_def isGlobally_state split: option.split bool.split)

lemma ConsumeByBootstrapToken_get:
  "get (pm_codes (ConsumeByBootstrapToken pm t)) k = Some pc \<Longrightarrow>
   \<exists>pc0. get (pm_codes pm) k = Some pc0 \<and> pc_config pc = pc_config pc0 \<and> (pc_used pc0 \<longrightarrow> pc_used pc)"
  by (auto simp: ConsumeByBootstrapToken_def get_adjust split: option.splits if_splits)

lemma pairing_run_keeps_used:
  assumes "wf_map (pm_codes pm)" "all_used pm t"
    "\<And>now bytes cfg. x = PGenerate now bytes cfg \<Longrightarrow> pf_BootstrapToken cfg \<noteq> t"
  shows "wf_map (pm_codes (pairing_run pm x)) \<and> all_used (pairing_run pm x) t"
proof (cases x)
  case (PGenerate now bytes cfg)
  with assms show ?thesis by (auto simp: GenerateCode_def Let_def all_used_def get_put split: if_splits)
next
  case (PRedeem now code)
  with assms(1,2) RedeemCode_codes [of pm now code] RedeemCode_wf show ?thesis
    by (fastforce simp: all_used_def)
next
  case (PConsume t')
  with assms(1) have "wf_map (pm_codes (ConsumeByBootstrapToken pm t'))"
    by (auto simp: ConsumeByBootstrapToken_def split: option.splits)
  with PConsume assms(2) ConsumeByBootstrapToken_get [of pm t'] show ?thesis by (fastforce simp: all_used_def)
next
  case (PCleanup now)
  with assms(1,2) show ?thesis
    by (auto simp: pairing_cleanup_def all_used_def get_del_if split: option.splits if_splits)
qed

lemma pairing_runs_keep_used:
  "wf_map (pm_codes pm) \<Longrightarrow> all_used pm t \<Longrightarrow>
   \<forall>now bytes cfg. PGenerate now bytes cfg \<in> set xs \<longrightarrow> pf_BootstrapToken cfg \<noteq> t \<Longrightarrow>
   all_used (foldl pairing_run pm xs) t"
proof (induction xs arbitrary: pm)
  case Nil
  then show ?case by simp
next
  case (Cons x xs)
  have "wf_map (pm_codes (pairing_run pm x)) \<and> all_used (pairing_run pm x) t"
    by (rule pairing_run_keeps_used [OF Cons.prems(1,2)]) (use Cons.prems(3) in auto)
  with Cons show ?case by simp
qed

definition token_unique :: "pairing_manager \<Rightarrow> string \<Rightarrow> bool" where
  "token_unique pm t \<longleftrightarrow> (\<forall>k k' pc pc'. get (pm_codes pm) k = Some pc \<and> get (pm_codes pm) k' = Some pc'
     \<and> pf_BootstrapToken (pc_config pc) = t \<and> pf_BootstrapToken (pc_config pc') = t \<longrightarrow> k = k')"

lemma consume_all_used:
  assumes "wf_map (pm_codes pm)" "token_unique pm t"
  shows "all_used (ConsumeByBootstrapToken pm t) t"
proof (cases "find (\<lambda>(k, pc). pf_BootstrapToken (pc_config pc) = t) (pm_codes pm)")
  case None
  then have "\<forall>k pc. (k, pc) \<in> set (pm_codes pm) \<longrightarrow> pf_BootstrapToken (pc_config pc) \<noteq> t"
    by (auto simp: find_None_iff)
  with None show ?thesis by (auto simp: ConsumeByBootstrapToken_def all_used_def dest: get_Some_in)
next
  case (Some y)
  obtain k pc where y: "y = (k, pc)" by (cases y)
  from Some y have kp: "(k, pc) \<in> set (pm_codes pm)" "pf_BootstrapToken (pc_config pc) = t"
    by (auto simp: find_Some_iff in_set_conv_nth)
  with assms(1) have g: "get (pm_codes pm) k = Some pc" by (simp add: get_iff_in)
  show ?thesis
    unfolding all_used_def
  proof (intro allI impI, elim conjE)
    fix k' pc' assume a: "get (pm_codes (ConsumeByBootstrapToken pm t)) k' = Some pc'"
      "pf_BootstrapToken (pc_config pc') = t"
    obtain pc0 where pc0: "get (pm_codes pm) k' = Some pc0" "pc_config pc' = pc_config pc0"
      using ConsumeByBootstrapToken_get [OF a(1)] by blast
    then have "k' = k" using assms(2) g a(2) kp(2) unfolding token_unique_def by metis
    with a(1) Some y g show "pc_used pc'" by (auto simp: ConsumeByBootstrapToken_def get_adjust)
  qed
qed

text \<open>C24: A pairing code is good for one pairing: once the code of a bootstrap token has been consumed,
  no later redemption ever yields a configuration carrying that token again, whatever is redeemed,
  consumed, cleaned up or generated for other tokens in between; it needs that at most one stored code
  carries the token, since only one is consumed.\<close>

theorem consumed_code_is_spent:
  assumes "wf_map (pm_codes pm)" "token_unique pm t"
    and "\<forall>now bytes cfg. PGenerate now bytes cfg \<in> set calls \<longrightarrow> pf_BootstrapToken cfg \<noteq> t"
    and "snd (RedeemCode (foldl pairing_run (ConsumeByBootstrapToken pm t) calls) now code) = Inr cfg"
  shows "pf_BootstrapToken cfg \<noteq> t"
proof -
  have "wf_map (pm_codes (ConsumeByBootstrapToken pm t))"
    using assms(1) by (auto simp: ConsumeByBootstrapToken_def split: option.splits)
  from pairing_runs_keep_used [OF this consume_all_used [OF assms(1,2)] assms(3)]
  have "all_used (foldl pairing_run (ConsumeByBootstrapToken pm t) calls) t" by blast
  with assms(4) show ?thesis
    by (auto simp: RedeemCode_result all_used_def redeemable_def split: if_splits option.splits)
qed

lemma consumed_code_is_spent_witness:
  "\<exists>cfg. snd (RedeemCode (foldl pairing_run (ConsumeByBootstrapToken demo_pm ''temp_a'')
       [PGenerate (3 * second) [7, 6, 5, 4, 3, 2, 1, 0] (demo_config\<lparr>pf_BootstrapToken := ''temp_b''\<rparr>)])
       (4 * second) ''HGFEDCBA'') = Inr cfg \<and> pf_BootstrapToken cfg \<noteq> ''temp_a''"
proof -
  let ?calls = "[PGenerate (3 * second) [7, 6, 5, 4, 3, 2, 1, 0] (demo_config\<lparr>pf_BootstrapToken := ''temp_b''\<rparr>)]"
  have "map fst (pm_codes demo_pm) = [''ABCDEFGH'']" by code_simp
  then obtain pc where pc: "pm_codes demo_pm = [(''ABCDEFGH'', pc)]" by (auto simp: map_eq_Cons_conv)
  have w: "wf_map (pm_codes demo_pm)" by (simp add: pc wf_map_def)
  have u: "token_unique demo_pm ''temp_a''" by (simp add: pc token_unique_def)
  have c: "\<forall>now bytes cfg. PGenerate now bytes cfg \<in> set ?calls \<longrightarrow> pf_BootstrapToken cfg \<noteq> ''temp_a''"
    by (simp add: demo_config_def)
  have r: "snd (RedeemCode (foldl pairing_run (ConsumeByBootstrapToken demo_pm ''temp_a'') ?calls) (4 * second)
      ''HGFEDCBA'') = Inr (demo_config\<lparr>pf_BootstrapToken := ''temp_b'', pf_ExpiresAt := 303\<rparr>)"
    by code_simp
  from consumed_code_is_spent [OF w u c r] r show ?thesis by blast
qed

section \<open>Guessing\<close>

text \<open>The redemptions of a sequence that were answered with an invalid-code error.\<close>

fun invalid_answers :: "pairing_manager \<Rightarrow> (gotime \<times> string) list \<Rightarrow> nat" where
  "invalid_answers pm [] = 0"
| "invalid_answers pm ((now, code) # xs) =
     (case RedeemCode pm now code of
        (pm', Inl InvalidCode) \<Rightarrow> Suc (invalid_answers pm' xs)
      | (pm', _) \<Rightarrow> invalid_answers pm' xs)"

lemma RedeemCode_counts:
  assumes "now \<le> pm_globalFailureReset pm"
  shows "pm_globalFailureReset (fst (RedeemCode pm now code)) = pm_globalFailureReset pm"
    "pm_globalFailures (fst (RedeemCode pm now code)) =
      pm_globalFailures pm + (if snd (RedeemCode pm now code) = Inl InvalidCode then 1 else 0)"
    "snd (RedeemCode pm now code) = Inl InvalidCode \<Longrightarrow> pm_globalFailures pm < globalFailureThreshold"
proof -
  have r: "reset_window pm now = pm" using assms by (simp add: reset_window_def)
  have f: "recordGlobalFailure pm now = pm\<lparr>pm_globalFailures := pm_globalFailures pm + 1\<rparr>"
    by (simp add: recordGlobalFailure_def r Let_def)
  show "pm_globalFailureReset (fst (RedeemCode pm now code)) = pm_globalFailureReset pm"
    "pm_globalFailures (fst (RedeemCode pm now code)) =
      pm_globalFailures pm + (if snd (RedeemCode pm now code) = Inl InvalidCode then 1 else 0)"
    by (auto simp: RedeemCode_def Let_def isGlobally_state r f split: option.split bool.split)
  show "snd (RedeemCode pm now code) = Inl InvalidCode \<Longrightarrow> pm_globalFailures pm < globalFailureThreshold"
    by (auto simp: RedeemCode_result rate_limited_def isGloballyRateLimited_def r Let_def split: if_splits)
qed

text \<open>Guessing is bounded: within one window the manager answers at most as many attempts with an
  invalid-code error as the threshold of 100 still allows, in any interleaving with valid redemptions;
  all further attempts are refused without being looked up.\<close>

theorem guesses_bounded:
  assumes "\<forall>(now, code) \<in> set xs. now \<le> pm_globalFailureReset pm"
    and "pm_globalFailures pm \<le> globalFailureThreshold"
  shows "int (invalid_answers pm xs) \<le> globalFailureThreshold - pm_globalFailures pm"
  using assms
proof (induction xs arbitrary: pm)
  case Nil
  then show ?case by simp
next
  case (Cons x xs)
  obtain now code where x: "x = (now, code)" by (cases x)
  with Cons.prems have n: "now \<le> pm_globalFailureReset pm" by simp
  obtain pm' res where r: "RedeemCode pm now code = (pm', res)" by (cases "RedeemCode pm now code")
  note c = RedeemCode_counts [OF n, of code, unfolded r, simplified]
  show ?case
  proof (cases "res = Inl InvalidCode")
    case True
    then have "pm_globalFailures pm < globalFailureThreshold" using c(3) by simp
    with Cons.IH [of pm'] Cons.prems c(1,2) True x r show ?thesis by auto
  next
    case False
    then have "invalid_answers pm (x # xs) = invalid_answers pm' xs"
      using x r by (auto split: sum.splits redeem_error.splits)
    with Cons.IH [of pm'] Cons.prems c(1,2) False show ?thesis by auto
  qed
qed

lemma guesses_bounded_witness:
  "int (invalid_answers demo_pm [(3 * second, ''WRONG''), (4 * second, ''ABCDEFGH'')]) \<le> 100"
proof -
  let ?xs = "[(3 * second, ''WRONG''), (4 * second, ''ABCDEFGH'')]"
  have "pm_globalFailureReset demo_pm = 3601 * second" "pm_globalFailures demo_pm = 0" by code_simp+
  then have "\<forall>(now, code) \<in> set ?xs. now \<le> pm_globalFailureReset demo_pm"
    "pm_globalFailures demo_pm \<le> globalFailureThreshold"
    by (auto simp: second_def globalFailureThreshold_def)
  from guesses_bounded [OF this] show ?thesis
    using \<open>pm_globalFailures demo_pm = 0\<close> by (simp add: globalFailureThreshold_def)
qed

end
