(* ===== verification/Net.thy ===== *)
theory Net
  imports Prelude
begin

text \<open>
  The parts of Go's \<open>net\<close> package the sources use: splitting a host from its port and
  parsing IP addresses, and \<open>internal/router/subdomain.go\<close> and
  \<open>internal/middleware/ipauth.go\<close>'s address test, which are built on them.
\<close>

section \<open>Splitting host and port\<close>

definition LastIndexByte :: "string \<Rightarrow> char \<Rightarrow> nat option" where
  "LastIndexByte s c =
     (let t = takeWhile (\<lambda>x. x \<noteq> c) (rev s)
      in if length t = length s then None else Some (length s - length t - 1))"

definition IndexByte :: "string \<Rightarrow> char \<Rightarrow> nat option" where
  "IndexByte s c =
     (let t = takeWhile (\<lambda>x. x \<noteq> c) s in if length t = length s then None else Some (length t))"

text \<open>\<open>net.SplitHostPort\<close>; \<open>None\<close> is its error.\<close>

definition SplitHostPort :: "string \<Rightarrow> (string \<times> string) option" where
  "SplitHostPort hostport =
     (case LastIndexByte hostport (CHR '':'') of
        None \<Rightarrow> None
      | Some i \<Rightarrow>
          if hd hostport = CHR ''['' then
            (case IndexByte hostport (CHR '']'') of
               None \<Rightarrow> None
             | Some e \<Rightarrow>
                 if e + 1 \<noteq> i then None
                 else if CHR ''['' \<in> set (drop 1 hostport) \<or> CHR '']'' \<in> set (drop (e + 1) hostport) then None
                 else Some (drop 1 (take e hostport), drop (i + 1) hostport))
          else if CHR '':'' \<in> set (take i hostport) then None
          else if CHR ''['' \<in> set hostport \<or> CHR '']'' \<in> set hostport then None
          else Some (take i hostport, drop (i + 1) hostport))"

lemma LastIndexByte_append:
  assumes "c \<notin> set t"
  shows "LastIndexByte (s @ c # t) c = Some (length s)"
proof -
  have "takeWhile (\<lambda>x. x \<noteq> c) (rev t @ c # rev s) = rev t"
    using assms by (auto simp: takeWhile_append takeWhile_eq_all_conv)
  then show ?thesis by (simp add: LastIndexByte_def Let_def)
qed

lemma LastIndexByte_None: "LastIndexByte s c = None \<longleftrightarrow> c \<notin> set s"
proof -
  have "length (takeWhile (\<lambda>x. x \<noteq> c) (rev s)) = length s \<longleftrightarrow> c \<notin> set s"
  proof
    assume "length (takeWhile (\<lambda>x. x \<noteq> c) (rev s)) = length s"
    then have "takeWhile (\<lambda>x. x \<noteq> c) (rev s) = rev s"
      by (metis append_Nil2 append_eq_append_conv length_rev takeWhile_dropWhile_id)
    then show "c \<notin> set s" by (metis (mono_tags, lifting) set_rev takeWhile_eq_all_conv)
  next
    assume "c \<notin> set s"
    then have t: "takeWhile (\<lambda>x. x \<noteq> c) (rev s) = rev s" by (auto simp: takeWhile_eq_all_conv)
    show "length (takeWhile (\<lambda>x. x \<noteq> c) (rev s)) = length s" by (simp only: t length_rev)
  qed
  then show ?thesis by (simp add: LastIndexByte_def Let_def)
qed

definition plain_host :: "string \<Rightarrow> bool" where
  "plain_host h \<longleftrightarrow> CHR '':'' \<notin> set h \<and> CHR ''['' \<notin> set h \<and> CHR '']'' \<notin> set h"

lemma SplitHostPort_plain:
  assumes "plain_host h" "plain_host p"
  shows "SplitHostPort (h @ CHR '':'' # p) = Some (h, p)"
proof -
  have "hd (h @ CHR '':'' # p) \<noteq> CHR ''[''" using assms(1) by (cases h) (auto simp: plain_host_def)
  with assms LastIndexByte_append [of "CHR '':''" p h] show ?thesis
    by (simp add: SplitHostPort_def plain_host_def)
qed

lemma SplitHostPort_no_port: "CHR '':'' \<notin> set h \<Longrightarrow> SplitHostPort h = None"
  using LastIndexByte_None [of h "CHR '':''"] by (simp add: SplitHostPort_def)

text \<open>The host, when there is a port to strip.\<close>

definition strip_port :: "string \<Rightarrow> string" where
  "strip_port s = (case SplitHostPort s of Some (h, p) \<Rightarrow> h | None \<Rightarrow> s)"

section \<open>Subdomains\<close>

definition ExtractSubdomain :: "string \<Rightarrow> string \<Rightarrow> string option" where
  "ExtractSubdomain host baseDomain =
     (if host = [] \<or> baseDomain = [] then None
      else
        (let hostOnly = strip_port (ToLower host);
             baseOnly = strip_port (ToLower baseDomain);
             suffix = CHR ''.'' # baseOnly
         in if \<not> HasSuffix hostOnly suffix then None
            else (let subdomain = take (length hostOnly - length suffix) hostOnly
                  in if subdomain = [] then None else Some subdomain)))"

datatype subdomain_error = SubEmpty | SubTooLong nat | SubInvalid string

definition lower_alnum :: "char \<Rightarrow> bool" where
  "lower_alnum c \<longleftrightarrow> (let n = (of_char c :: nat) in (97 \<le> n \<and> n \<le> 122) \<or> (48 \<le> n \<and> n \<le> 57))"

text \<open>The regular expression \<open>^[a-z0-9]([a-z0-9-]*[a-z0-9])?$\<close>.\<close>

definition subdomainRegex :: "string \<Rightarrow> bool" where
  "subdomainRegex s \<longleftrightarrow> s \<noteq> [] \<and> lower_alnum (hd s) \<and> lower_alnum (last s)
     \<and> list_all (\<lambda>c. lower_alnum c \<or> c = CHR ''-'') s"

definition ValidateSubdomain :: "string \<Rightarrow> subdomain_error option" where
  "ValidateSubdomain sub =
     (if sub = [] then Some SubEmpty
      else if length sub > 63 then Some (SubTooLong (length sub))
      else if \<not> subdomainRegex sub then Some (SubInvalid sub)
      else None)"

lemma lower_alnum_lower: "lower_alnum c \<Longrightarrow> lower_char c = c"
  by (auto simp: lower_alnum_def lower_char_def Let_def)

lemma ToLower_append: "ToLower (a @ b) = ToLower a @ ToLower b"
  by (simp add: ToLower_def)

lemma ToLower_valid:
  assumes "ValidateSubdomain s = None"
  shows "ToLower s = s"
proof -
  have "list_all (\<lambda>c. lower_alnum c \<or> c = CHR ''-'') s"
    using assms by (simp add: ValidateSubdomain_def subdomainRegex_def split: if_splits)
  moreover have "lower_char (CHR ''-'') = CHR ''-''" by code_simp
  ultimately have "map lower_char s = s"
    by (induction s) (auto simp: lower_alnum_lower)
  then show ?thesis by (simp add: ToLower_def)
qed

lemma valid_subdomain_plain:
  assumes "ValidateSubdomain s = None"
  shows "plain_host s"
proof -
  have "list_all (\<lambda>c. lower_alnum c \<or> c = CHR ''-'') s"
    using assms by (simp add: ValidateSubdomain_def subdomainRegex_def split: if_splits)
  moreover have "\<not> lower_alnum (CHR '':'')" "\<not> lower_alnum (CHR ''['')" "\<not> lower_alnum (CHR '']'')"
    by code_simp+
  ultimately show ?thesis by (auto simp: plain_host_def list_all_iff)
qed

lemma plain_host_append: "plain_host (a @ b) \<longleftrightarrow> plain_host a \<and> plain_host b"
  by (auto simp: plain_host_def)

lemma strip_port_plain: "plain_host h \<Longrightarrow> strip_port h = h"
  by (simp add: strip_port_def SplitHostPort_no_port plain_host_def)

lemma strip_port_port: "plain_host h \<Longrightarrow> plain_host p \<Longrightarrow> strip_port (h @ CHR '':'' # p) = h"
  by (simp add: strip_port_def SplitHostPort_plain)

lemma extract_take: "take (length (s @ t) - length t) (s @ t) = s"
  by simp

lemma ToLower_colon: "ToLower (a @ CHR '':'' # p) = ToLower a @ CHR '':'' # ToLower p"
proof -
  have "lower_char (CHR '':'') = CHR '':''" by code_simp
  then show ?thesis by (simp add: ToLower_def)
qed

lemma ToLower_dot: "ToLower (a @ CHR ''.'' # p) = ToLower a @ CHR ''.'' # ToLower p"
proof -
  have "lower_char (CHR ''.'') = CHR ''.''" by code_simp
  then show ?thesis by (simp add: ToLower_def)
qed

text \<open>Subdomain extraction inverts composition: for every valid subdomain label and every base
  domain that lower-cases to a plain host name, with or without a port on either side, the host
  \<open>label.base\<close> yields exactly the label, in whatever letter case the base is written, and the base
  domain itself yields nothing.\<close>

theorem ExtractSubdomain_roundtrip:
  assumes "ValidateSubdomain s = None" "b \<noteq> []" "plain_host (ToLower b)" "plain_host (ToLower p)"
    and "plain_host (ToLower q)"
  shows "ExtractSubdomain (s @ CHR ''.'' # b) b = Some s
    \<and> ExtractSubdomain (s @ CHR ''.'' # b @ CHR '':'' # p) (b @ CHR '':'' # q) = Some s
    \<and> ExtractSubdomain b b = None"
proof -
  let ?h = "s @ CHR ''.'' # ToLower b"
  note l = ToLower_valid [OF assms(1)]
  have dot: "CHR ''.'' \<noteq> CHR '':''" by simp
  have ph: "plain_host ?h" using valid_subdomain_plain [OF assms(1)] assms(3) by (auto simp: plain_host_def)
  have s: "s \<noteq> []" using assms(1) by (auto simp: ValidateSubdomain_def)
  have suf: "HasSuffix ?h (CHR ''.'' # ToLower b)" by (auto simp: HasSuffix_iff)
  have 1: "strip_port (ToLower (s @ CHR ''.'' # b)) = ?h"
    using ph by (simp add: ToLower_dot l strip_port_plain)
  have b1: "strip_port (ToLower b) = ToLower b" by (rule strip_port_plain [OF assms(3)])
  have "s @ CHR ''.'' # b @ CHR '':'' # p = (s @ CHR ''.'' # b) @ CHR '':'' # p" by simp
  then have "ToLower (s @ CHR ''.'' # b @ CHR '':'' # p) = ?h @ CHR '':'' # ToLower p"
    by (simp only: ToLower_colon ToLower_dot l)
  then have 2: "strip_port (ToLower (s @ CHR ''.'' # b @ CHR '':'' # p)) = ?h"
    by (simp only: strip_port_port [OF ph assms(4)])
  have b2: "strip_port (ToLower (b @ CHR '':'' # q)) = ToLower b"
    by (simp add: ToLower_colon strip_port_port assms(3,5))
  have "\<not> HasSuffix (ToLower b) (CHR ''.'' # ToLower b)"
  proof
    assume "HasSuffix (ToLower b) (CHR ''.'' # ToLower b)"
    then obtain t where "ToLower b = t @ CHR ''.'' # ToLower b" by (auto simp: HasSuffix_iff)
    then have "length (ToLower b) = length (t @ CHR ''.'' # ToLower b)" by (rule arg_cong)
    then show False by simp
  qed
  then have "ExtractSubdomain b b = None"
    by (simp add: ExtractSubdomain_def b1 Let_def)
  moreover have "ExtractSubdomain (s @ CHR ''.'' # b) b = Some s"
    using suf s assms(2) unfolding ExtractSubdomain_def Let_def 1 b1 by simp
  moreover have "ExtractSubdomain (s @ CHR ''.'' # b @ CHR '':'' # p) (b @ CHR '':'' # q) = Some s"
    using suf s assms(2) unfolding ExtractSubdomain_def Let_def 2 b2 by simp
  ultimately show ?thesis by simp
qed

lemma ExtractSubdomain_roundtrip_witness:
  "ExtractSubdomain ''sonarr.Nekzus.local:8443'' ''Nekzus.local:443'' = Some ''sonarr''"
proof -
  have "ValidateSubdomain ''sonarr'' = None" "''Nekzus.local'' \<noteq> []" "plain_host (ToLower ''Nekzus.local'')"
    "plain_host (ToLower ''8443'')" "plain_host (ToLower ''443'')"
    by code_simp+
  from ExtractSubdomain_roundtrip [OF this] show ?thesis by simp
qed

section \<open>IP addresses\<close>

text \<open>\<open>net.IP\<close> values: four or sixteen bytes; an IPv4-mapped IPv6 address is an IPv4 one to
  every test below, so the parser returns it as such.\<close>

datatype ip = IPv4 nat nat nat nat | IPv6 "nat list"

definition is_digit :: "char \<Rightarrow> bool" where
  "is_digit c \<longleftrightarrow> (let n = (of_char c :: nat) in 48 \<le> n \<and> n \<le> 57)"

definition digit_val :: "char \<Rightarrow> nat" where
  "digit_val c = of_char c - 48"

definition dec_val :: "string \<Rightarrow> nat" where
  "dec_val s = foldl (\<lambda>a c. a * 10 + digit_val c) 0 s"

text \<open>One decimal field of an IPv4 address: digits only, no leading zero, at most 255.\<close>

definition parse_octet :: "string \<Rightarrow> nat option" where
  "parse_octet s =
     (if s = [] \<or> \<not> list_all is_digit s then None
      else if length s > 1 \<and> hd s = CHR ''0'' then None
      else if length s > 3 \<or> dec_val s > 255 then None
      else Some (dec_val s))"

definition parse_v4 :: "string \<Rightarrow> (nat \<times> nat \<times> nat \<times> nat) option" where
  "parse_v4 s =
     (case map parse_octet (Split (CHR ''.'') s) of
        [Some a, Some b, Some c, Some d] \<Rightarrow> Some (a, b, c, d)
      | _ \<Rightarrow> None)"

definition hex_val :: "char \<Rightarrow> nat option" where
  "hex_val c =
     (let n = (of_char c :: nat)
      in if 48 \<le> n \<and> n \<le> 57 then Some (n - 48)
         else if 97 \<le> n \<and> n \<le> 102 then Some (n - 87)
         else if 65 \<le> n \<and> n \<le> 70 then Some (n - 55)
         else None)"

definition hex_group :: "string \<Rightarrow> nat" where
  "hex_group s = foldl (\<lambda>a c. a * 16 + the (hex_val c)) 0 s"

text \<open>The loop of \<open>netip.parseIPv6\<close>: the 16-bit groups read so far (reversed), where the
  \<open>::\<close> was seen, and the rest of the text.\<close>

fun parse_v6_loop :: "nat \<Rightarrow> nat list \<Rightarrow> nat option \<Rightarrow> string \<Rightarrow> (nat list \<times> nat option) option" where
  "parse_v6_loop 0 gs ell s = None"
| "parse_v6_loop (Suc fuel) gs ell s =
     (if length gs \<ge> 8 then (if s = [] then Some (gs, ell) else None)
      else
        (let h = takeWhile (\<lambda>c. hex_val c \<noteq> None) s; r = drop (length h) s in
         if h = [] \<or> length h > 4 then None
         else if r \<noteq> [] \<and> hd r = CHR ''.'' then
           (if ell = None \<and> length gs \<noteq> 6 then None
            else if length gs + 2 > 8 then None
            else case parse_v4 s of
              None \<Rightarrow> None
            | Some (a, b, c, d) \<Rightarrow> Some ((c * 256 + d) # (a * 256 + b) # gs, ell))
         else
           (let gs' = hex_group h # gs in
            if r = [] then Some (gs', ell)
            else if hd r \<noteq> CHR '':'' then None
            else if tl r = [] then None
            else if hd (tl r) = CHR '':'' then
              (if ell \<noteq> None then None
               else if tl (tl r) = [] then Some (gs', Some (length gs'))
               else parse_v6_loop fuel gs' (Some (length gs')) (tl (tl r)))
            else parse_v6_loop fuel gs' ell (tl r))))"

definition parse_v6 :: "string \<Rightarrow> nat list option" where
  "parse_v6 s =
     (let (ell, s') = (if HasPrefix s ''::'' then (Some 0, drop 2 s) else (None, s)) in
      if ell = Some 0 \<and> s' = [] then Some (replicate 8 0)
      else case parse_v6_loop 9 [] ell s' of
        None \<Rightarrow> None
      | Some (gs, e) \<Rightarrow>
          (case e of
             None \<Rightarrow> if length gs = 8 then Some (rev gs) else None
           | Some k \<Rightarrow> if length gs \<ge> 8 then None
                       else Some (take k (rev gs) @ replicate (8 - length gs) 0 @ drop k (rev gs))))"

text \<open>\<open>net.ParseIP\<close>: whichever of \<open>.\<close> and \<open>:\<close> comes first decides; a zone is refused.\<close>

definition ParseIP :: "string \<Rightarrow> ip option" where
  "ParseIP s =
     (case find (\<lambda>c. c = CHR ''.'' \<or> c = CHR '':'' \<or> c = CHR ''%'') s of
        Some c \<Rightarrow>
          if c = CHR ''.'' then map_option (\<lambda>(a, b, c, d). IPv4 a b c d) (parse_v4 s)
          else if c = CHR '':'' then
            (if CHR ''%'' \<in> set s then None
             else case parse_v6 s of
               Some gs \<Rightarrow>
                 if take 6 gs = [0, 0, 0, 0, 0, 65535]
                 then Some (IPv4 (gs ! 6 div 256) (gs ! 6 mod 256) (gs ! 7 div 256) (gs ! 7 mod 256))
                 else Some (IPv6 gs)
             | None \<Rightarrow> None)
          else None
      | None \<Rightarrow> None)"

definition IsLoopback :: "ip \<Rightarrow> bool" where
  "IsLoopback ip = (case ip of IPv4 a b c d \<Rightarrow> a = 127 | IPv6 gs \<Rightarrow> gs = [0, 0, 0, 0, 0, 0, 0, 1])"

definition IsPrivate :: "ip \<Rightarrow> bool" where
  "IsPrivate ip =
     (case ip of
        IPv4 a b c d \<Rightarrow> a = 10 \<or> (a = 172 \<and> b div 16 = 1) \<or> (a = 192 \<and> b = 168)
      | IPv6 gs \<Rightarrow> (case gs of g # _ \<Rightarrow> g div 512 = 126 | [] \<Rightarrow> False))"

definition isLocalRequest :: "string \<Rightarrow> bool" where
  "isLocalRequest RemoteAddr =
     (let host = strip_port RemoteAddr in
      case ParseIP host of
        None \<Rightarrow> False
      | Some ip \<Rightarrow>
          if IsLoopback ip then True
          else if IsPrivate ip then True
          else (case ip of
                  IPv4 a b c d \<Rightarrow> if a = 172 \<and> b \<ge> 16 \<and> b \<le> 31 then True else False
                | IPv6 _ \<Rightarrow> False))"

section \<open>Dotted addresses\<close>

definition digit_char :: "nat \<Rightarrow> char" where
  "digit_char n = char_of (48 + n)"

text \<open>The decimal notation of a byte.\<close>

definition show_octet :: "nat \<Rightarrow> string" where
  "show_octet n =
     (if n < 10 then [digit_char n]
      else if n < 100 then [digit_char (n div 10), digit_char (n mod 10)]
      else [digit_char (n div 100), digit_char (n div 10 mod 10), digit_char (n mod 10)])"

definition show_v4 :: "nat \<Rightarrow> nat \<Rightarrow> nat \<Rightarrow> nat \<Rightarrow> string" where
  "show_v4 a b c d = Join ''.'' [show_octet a, show_octet b, show_octet c, show_octet d]"

lemma of_digit_char: "n < 10 \<Longrightarrow> of_char (digit_char n) = (48 + n :: nat)"
  by (simp add: digit_char_def of_char_of)

lemma is_digit_digit_char: "n < 10 \<Longrightarrow> is_digit (digit_char n)"
  by (simp add: is_digit_def of_digit_char)

lemma digit_val_digit_char: "n < 10 \<Longrightarrow> digit_val (digit_char n) = n"
  by (simp add: digit_val_def of_digit_char)

lemma digit_char_0: "n < 10 \<Longrightarrow> digit_char n = CHR ''0'' \<longleftrightarrow> n = 0"
proof
  assume n: "n < 10" and e: "digit_char n = CHR ''0''"
  have "of_char (CHR ''0'') = (48 :: nat)" by code_simp
  with e of_digit_char [OF n] show "n = 0" by simp
next
  have "digit_char 0 = CHR ''0''" by code_simp
  then show "n = 0 \<Longrightarrow> digit_char n = CHR ''0''" by simp
qed

lemma show_octet_digits: "n < 256 \<Longrightarrow> x \<in> set (show_octet n) \<Longrightarrow> is_digit x"
  by (auto simp: show_octet_def is_digit_digit_char split: if_splits)

lemma dec_val2: "a < 10 \<Longrightarrow> b < 10 \<Longrightarrow> dec_val [digit_char a, digit_char b] = a * 10 + b"
  by (simp add: dec_val_def digit_val_digit_char)

lemma dec_val3:
  "a < 10 \<Longrightarrow> b < 10 \<Longrightarrow> c < 10 \<Longrightarrow>
   dec_val [digit_char a, digit_char b, digit_char c] = (a * 10 + b) * 10 + c"
  by (simp add: dec_val_def digit_val_digit_char)

lemma parse_show_octet:
  assumes "n < 256"
  shows "parse_octet (show_octet n) = Some n"
proof -
  have d: "list_all is_digit (show_octet n)" "show_octet n \<noteq> []"
    using show_octet_digits [OF assms] by (auto simp: list_all_iff show_octet_def)
  consider (one) "n < 10" | (two) "10 \<le> n" "n < 100" | (three) "100 \<le> n" by linarith
  then show ?thesis
  proof cases
    case one
    with d show ?thesis by (simp add: parse_octet_def show_octet_def dec_val_def digit_val_digit_char)
  next
    case two
    then have e: "show_octet n = [digit_char (n div 10), digit_char (n mod 10)]" by (simp add: show_octet_def)
    have b: "n div 10 < 10" "n div 10 \<noteq> 0" "n mod 10 < 10" using two by auto
    have v: "n div 10 * 10 + n mod 10 = n" by (rule div_mult_mod_eq)
    have "digit_char (n div 10) \<noteq> CHR ''0''" using digit_char_0 [OF b(1)] b(2) by simp
    moreover have "dec_val (show_octet n) = n"
      unfolding e dec_val2 [OF b(1,3)] by (rule v)
    ultimately show ?thesis using d assms unfolding parse_octet_def e by simp
  next
    case three
    then have e: "show_octet n = [digit_char (n div 100), digit_char (n div 10 mod 10), digit_char (n mod 10)]"
      by (simp add: show_octet_def)
    have b: "n div 100 < 10" "n div 100 \<noteq> 0" "n div 10 mod 10 < 10" "n mod 10 < 10" using three assms by auto
    have "n div 100 = n div 10 div 10" by (simp add: div_mult2_eq [symmetric])
    then have v: "(n div 100 * 10 + n div 10 mod 10) * 10 + n mod 10 = n"
      by (simp only: div_mult_mod_eq)
    have "digit_char (n div 100) \<noteq> CHR ''0''" using digit_char_0 [OF b(1)] b(2) by simp
    moreover have "dec_val (show_octet n) = n"
      unfolding e dec_val3 [OF b(1,3,4)] by (rule v)
    ultimately show ?thesis using d assms unfolding parse_octet_def e by simp
  qed
qed

lemma not_digit: "\<not> is_digit (CHR ''.'')" "\<not> is_digit (CHR '':'')" "\<not> is_digit (CHR ''%'')"
    "\<not> is_digit (CHR ''['')" "\<not> is_digit (CHR '']'')"
  by code_simp+

lemma Split_show_v4:
  assumes "a < 256" "b < 256" "c < 256" "d < 256"
  shows "Split (CHR ''.'') (show_v4 a b c d) = [show_octet a, show_octet b, show_octet c, show_octet d]"
  unfolding show_v4_def
  by (rule Split_Join) (use assms show_octet_digits not_digit(1) in \<open>auto\<close>)

lemma parse_show_v4:
  assumes "a < 256" "b < 256" "c < 256" "d < 256"
  shows "parse_v4 (show_v4 a b c d) = Some (a, b, c, d)"
  by (simp add: parse_v4_def Split_show_v4 assms parse_show_octet)

lemma show_v4_chars:
  assumes "a < 256" "b < 256" "c < 256" "d < 256" "x \<in> set (show_v4 a b c d)"
  shows "is_digit x \<or> x = CHR ''.''"
  using assms show_octet_digits by (auto simp: show_v4_def)

lemma find_dot:
  "\<forall>x \<in> set s. is_digit x \<Longrightarrow>
   find (\<lambda>c. c = CHR ''.'' \<or> c = CHR '':'' \<or> c = CHR ''%'') (s @ CHR ''.'' # t) = Some (CHR ''.'')"
  using not_digit by (induction s) auto

lemma ParseIP_show_v4:
  assumes "a < 256" "b < 256" "c < 256" "d < 256"
  shows "ParseIP (show_v4 a b c d) = Some (IPv4 a b c d)"
proof -
  have "show_v4 a b c d = show_octet a @ CHR ''.'' # Join ''.'' [show_octet b, show_octet c, show_octet d]"
    by (simp add: show_v4_def)
  then have "find (\<lambda>c. c = CHR ''.'' \<or> c = CHR '':'' \<or> c = CHR ''%'') (show_v4 a b c d) = Some (CHR ''.'')"
    using find_dot [of "show_octet a"] show_octet_digits [OF assms(1)] by simp
  with parse_show_v4 [OF assms] show ?thesis by (simp add: ParseIP_def)
qed

text \<open>C14: Which peers are trusted without a token: for an IPv4 peer \<open>a.b.c.d:port\<close> the request counts as
  local exactly when the address is in 127/8, 10/8, 172.16/12 or 192.168/16; the third test of the code,
  for Docker's bridge networks, adds nothing to the second.\<close>

theorem isLocalRequest_v4:
  assumes "a < 256" "b < 256" "c < 256" "d < 256" "plain_host port"
  shows "isLocalRequest (show_v4 a b c d @ CHR '':'' # port) \<longleftrightarrow>
     a = 127 \<or> a = 10 \<or> (a = 172 \<and> 16 \<le> b \<and> b \<le> 31) \<or> (a = 192 \<and> b = 168)"
proof -
  have "plain_host (show_v4 a b c d)"
    using show_v4_chars [OF assms(1-4)] not_digit by (fastforce simp: plain_host_def)
  then have "strip_port (show_v4 a b c d @ CHR '':'' # port) = show_v4 a b c d"
    by (rule strip_port_port [OF _ assms(5)])
  moreover have if_or: "(if P then True else Q) \<longleftrightarrow> P \<or> Q" for P Q by simp
  ultimately have "isLocalRequest (show_v4 a b c d @ CHR '':'' # port) \<longleftrightarrow>
      a = 127 \<or> (a = 10 \<or> a = 172 \<and> b div 16 = 1 \<or> a = 192 \<and> b = 168) \<or> a = 172 \<and> 16 \<le> b \<and> b \<le> 31"
    by (simp only: isLocalRequest_def ParseIP_show_v4 [OF assms(1-4)] IsLoopback_def IsPrivate_def Let_def
        option.case ip.case if_or simp_thms)
  moreover have "b div 16 = 1 \<longleftrightarrow> 1 \<le> b div 16 \<and> b div 16 < 2" by linarith
  then have "b div 16 = 1 \<longleftrightarrow> 16 \<le> b \<and> b \<le> 31" by (auto simp: less_eq_div_iff_mult_less_eq div_less_iff_less_mult)
  ultimately show ?thesis by blast
qed

lemma isLocalRequest_v4_witness:
  "isLocalRequest ''192.168.1.7:5123'' \<and> \<not> isLocalRequest ''8.8.8.8:53''"
proof -
  have "plain_host ''5123''" "plain_host ''53''" by code_simp+
  moreover have "show_v4 192 168 1 7 = ''192.168.1.7''" "show_v4 8 8 8 8 = ''8.8.8.8''" by code_simp+
  ultimately show ?thesis
    using isLocalRequest_v4 [of 192 168 1 7 "''5123''"] isLocalRequest_v4 [of 8 8 8 8 "''53''"] by simp
qed

end
