(* ===== verification/Paths.thy ===== *)
theory Paths
  imports Prelude
begin

text \<open>
  Request paths: Go's \<open>path.Clean\<close> and \<open>NormalizePath\<close> of \<open>internal/router/radix.go\<close>, the first
  thing both proxy handlers apply to a request.
\<close>

definition slash :: char where "slash = CHR ''/''"

text \<open>\<open>path.Clean\<close>: one element at a time; the stack holds the elements kept so far, last first.\<close>

definition clean_step :: "bool \<Rightarrow> string list \<Rightarrow> string \<Rightarrow> string list" where
  "clean_step rooted st w =
     (if w = [] \<or> w = ''.'' then st
      else if w = ''..'' then
        (case st of
           [] \<Rightarrow> if rooted then [] else [w]
         | e # rest \<Rightarrow> if e = ''..'' then w # st else rest)
      else w # st)"

definition path_Clean :: "string \<Rightarrow> string" where
  "path_Clean p =
     (let rooted = HasPrefix p ''/'';
          st = foldl (clean_step rooted) [] (Split slash p);
          body = Join ''/'' (rev st)
      in if rooted then ''/'' @ body else if body = [] then ''.'' else body)"

definition NormalizePath :: "string \<Rightarrow> string" where
  "NormalizePath p =
     (if p = [] then ''/''
      else
        (let hadTrailingSlash = HasSuffix p ''/'';
             c0 = path_Clean p;
             cleaned = (if \<not> HasPrefix c0 ''/'' then ''/'' @ c0 else c0)
         in if hadTrailingSlash \<and> cleaned \<noteq> ''/'' then cleaned @ ''/'' else cleaned))"

section \<open>Clean elements\<close>

text \<open>An element a clean path may have.\<close>

definition plain_elem :: "string \<Rightarrow> bool" where
  "plain_elem w \<longleftrightarrow> w \<noteq> [] \<and> w \<noteq> ''.'' \<and> w \<noteq> ''..'' \<and> slash \<notin> set w"

text \<open>The paths normalisation can produce from a rooted path.\<close>

definition clean_path :: "string list \<Rightarrow> bool \<Rightarrow> string" where
  "clean_path ws trailing = ''/'' @ Join ''/'' ws @ (if trailing \<and> ws \<noteq> [] then ''/'' else [])"

lemma clean_step_plain:
  assumes "list_all plain_elem st" "slash \<notin> set w"
  shows "list_all plain_elem (clean_step True st w)"
  using assms by (auto simp: clean_step_def plain_elem_def split: list.splits)

lemma clean_fold_plain:
  "list_all plain_elem st \<Longrightarrow> \<forall>w \<in> set ws. slash \<notin> set w \<Longrightarrow>
   list_all plain_elem (foldl (clean_step True) st ws)"
  by (induction ws arbitrary: st) (auto simp: clean_step_plain)

lemma clean_fold_id:
  "list_all plain_elem ws \<Longrightarrow> foldl (clean_step r) st ws = rev ws @ st"
  by (induction ws arbitrary: st) (auto simp: clean_step_def plain_elem_def)

lemma rooted_Split: "Split slash (CHR ''/'' # p) = [] # Split slash p"
  by (simp add: slash_def)

lemma Split_clean_path:
  assumes "list_all plain_elem ws"
  shows "Split slash (clean_path ws t) =
    [] # (if ws = [] then [[]] else if t then ws @ [[]] else ws)"
proof -
  have c: "clean_path ws t = CHR ''/'' # (if ws = [] then [] else if t then Join ''/'' (ws @ [[]]) else Join ''/'' ws)"
  proof -
    have "Join ''/'' (ws @ [[]]) = Join ''/'' ws @ ''/''" if "ws \<noteq> []"
      using that by (induction ws rule: induct_list012) auto
    then show ?thesis by (simp add: clean_path_def)
  qed
  have "\<forall>w \<in> set ws. slash \<notin> set w" using assms by (auto simp: list_all_iff plain_elem_def)
  then have "ws \<noteq> [] \<Longrightarrow> Split slash (Join ''/'' ws) = ws"
    "Split slash (Join ''/'' (ws @ [[]])) = ws @ [[]]"
    using Split_Join [of ws slash] Split_Join [of "ws @ [[]]" slash] by (simp_all add: slash_def)
  then show ?thesis unfolding c rooted_Split by auto
qed

lemma path_Clean_clean_path:
  assumes "list_all plain_elem ws"
  shows "path_Clean (clean_path ws t) = ''/'' @ Join ''/'' ws"
proof -
  have "HasPrefix (clean_path ws t) ''/''" by (auto simp: clean_path_def HasPrefix_iff)
  moreover have "foldl (clean_step True) [] (Split slash (clean_path ws t)) = rev ws"
    using clean_fold_id [OF assms, of True "[]"]
    by (simp add: Split_clean_path assms) (simp add: clean_step_def)
  ultimately show ?thesis by (simp add: path_Clean_def)
qed

lemma Join_empty: "list_all plain_elem ws \<Longrightarrow> Join ''/'' ws = [] \<longleftrightarrow> ws = []"
  by (cases "(''/'', ws)" rule: Join.cases) (auto simp: plain_elem_def)

lemma Join_no_trailing:
  assumes "list_all plain_elem ws" "ws \<noteq> []"
  shows "\<not> HasSuffix (''/'' @ Join ''/'' ws) ''/''"
  using assms
proof (induction ws rule: induct_list012)
  case 1
  then show ?case by simp
next
  case (2 w)
  then have "w \<noteq> []" "CHR ''/'' \<notin> set w" by (auto simp: plain_elem_def slash_def)
  then have "w \<noteq> []" "last w \<noteq> CHR ''/''" using last_in_set by metis+
  then show ?case by (auto simp: HasSuffix_iff append_eq_append_conv2 Cons_eq_append_conv)
next
  case (3 w v ws)
  have "\<not> HasSuffix (''/'' @ Join ''/'' (v # ws)) ''/''" using 3 by simp
  moreover have "Join ''/'' (v # ws) \<noteq> []"
    using Join_empty [of "v # ws"] 3 by simp
  ultimately show ?case
    by (auto simp: HasSuffix_iff) (metis append.assoc append_Cons append_butlast_last_id last_appendR last_snoc)
qed

lemma NormalizePath_clean_path:
  assumes "list_all plain_elem ws"
  shows "NormalizePath (clean_path ws t) = clean_path ws t"
proof -
  have p: "HasPrefix (''/'' @ Join ''/'' ws) ''/''" by (auto simp: HasPrefix_iff)
  have ne: "clean_path ws t \<noteq> []" by (simp add: clean_path_def)
  have s: "HasSuffix (clean_path ws t) ''/'' \<longleftrightarrow> t \<or> ws = []"
  proof (cases "ws = [] \<or> t")
    case True
    then show ?thesis by (auto simp: clean_path_def HasSuffix_iff)
  next
    case False
    with Join_no_trailing [OF assms] show ?thesis by (simp add: clean_path_def)
  qed
  show ?thesis
    using ne s p Join_empty [OF assms]
    by (auto simp: NormalizePath_def path_Clean_clean_path [OF assms] Let_def) (auto simp: clean_path_def)
qed

text \<open>Path normalisation defeats traversal: whatever rooted path a client sends, the result is a slash
  followed by elements none of which is empty, a dot or a double dot, separated by single slashes, with
  a trailing slash only if the client wrote one; and normalising again changes nothing.\<close>

theorem NormalizePath_no_traversal:
  assumes "HasPrefix p ''/''"
  shows "(\<exists>ws. list_all plain_elem ws \<and> NormalizePath p = clean_path ws (HasSuffix p ''/''))
    \<and> NormalizePath (NormalizePath p) = NormalizePath p"
proof -
  let ?ws = "rev (foldl (clean_step True) [] (Split slash p))"
  have "list_all plain_elem (foldl (clean_step True) [] (Split slash p))"
    by (rule clean_fold_plain) (auto dest: Split_no_sep)
  then have w: "list_all plain_elem ?ws" by simp
  have c: "path_Clean p = ''/'' @ Join ''/'' ?ws" using assms by (simp add: path_Clean_def)
  have "p \<noteq> []" using assms by (auto simp: HasPrefix_iff)
  then have n: "NormalizePath p = clean_path ?ws (HasSuffix p ''/'')"
    using Join_empty [OF w]
    by (auto simp: NormalizePath_def c Let_def HasPrefix_iff clean_path_def)
  show ?thesis
    using w n NormalizePath_clean_path [OF w] by metis
qed

lemma NormalizePath_no_traversal_witness:
  "NormalizePath ''/apps/../..//etc/./passwd/'' = ''/etc/passwd/''
   \<and> NormalizePath (NormalizePath ''/apps/../..//etc/./passwd/'') = NormalizePath ''/apps/../..//etc/./passwd/''"
proof -
  have "HasPrefix ''/apps/../..//etc/./passwd/'' ''/''" by (simp add: HasPrefix_def)
  moreover have "NormalizePath ''/apps/../..//etc/./passwd/'' = ''/etc/passwd/''" by code_simp
  ultimately show ?thesis using NormalizePath_no_traversal by blast
qed

end
