(* ===== verification/Durations.thy ===== *)
theory Durations
  imports Net
begin

text \<open>
  Go's \<open>time.ParseDuration\<close>, which the configuration of several components goes through.
  A fraction is truncated to whole nanoseconds as the exact quotient; Go computes the same
  quotient in floating point.
\<close>

definition unit_value :: "string \<Rightarrow> int option" where
  "unit_value u =
     (if u = ''ns'' then Some 1
      else if u = ''us'' then Some 1000
      else if u = ''ms'' then Some 1000000
      else if u = ''s'' then Some second
      else if u = ''m'' then Some minute
      else if u = ''h'' then Some hour
      else None)"

definition max_duration :: int where "max_duration = 2 ^ 63"

text \<open>One round reads digits, an optional fraction and a unit; what is left follows.\<close>

definition duration_round :: "string \<Rightarrow> (int \<times> string) option" where
  "duration_round s =
     (let whole = takeWhile is_digit s;
          r = dropWhile is_digit s;
          frac = (case r of x # xs \<Rightarrow> if x = CHR ''.'' then takeWhile is_digit xs else [] | [] \<Rightarrow> []);
          r2 = (case r of x # xs \<Rightarrow> if x = CHR ''.'' then dropWhile is_digit xs else r | [] \<Rightarrow> []);
          u = takeWhile (\<lambda>x. \<not> is_digit x \<and> x \<noteq> CHR ''.'') r2;
          rest = dropWhile (\<lambda>x. \<not> is_digit x \<and> x \<noteq> CHR ''.'') r2
      in if whole = [] \<and> frac = [] then None
         else map_option (\<lambda>unit. (int (dec_val whole) * unit + int (dec_val frac) * unit div (10 ^ length frac), rest)) (unit_value u))"

text \<open>The fuel is the length of the text, and every round consumes at least one character.\<close>

primrec duration_loop :: "nat \<Rightarrow> int \<Rightarrow> string \<Rightarrow> int option" where
  "duration_loop 0 d s = (if s = [] then Some d else None)"
| "duration_loop (Suc fuel) d s =
     (if s = [] then Some d
      else case duration_round s of
        None \<Rightarrow> None
      | Some (v, rest) \<Rightarrow> if v > max_duration \<or> d + v > max_duration then None else duration_loop fuel (d + v) rest)"

definition ParseDuration :: "string \<Rightarrow> duration option" where
  "ParseDuration s =
     (let neg = (s \<noteq> [] \<and> hd s = CHR ''-'');
          t = (if s \<noteq> [] \<and> (hd s = CHR ''-'' \<or> hd s = CHR ''+'') then tl s else s)
      in if t = ''0'' then Some 0
         else if t = [] then None
         else case duration_loop (length t) 0 t of
           None \<Rightarrow> None
         | Some d \<Rightarrow> if neg then Some (- d) else if d > max_duration - 1 then None else Some d)"

lemma ParseDuration_examples:
  "ParseDuration ''30s'' = Some (30 * second)" "ParseDuration ''1h15m'' = Some (75 * minute)"
  "ParseDuration ''1.5s'' = Some 1500000000" "ParseDuration ''5'' = None" "ParseDuration '''' = None"
  by code_simp+

text \<open>The value of a setting: the first of the candidates that is present and parses.\<close>

definition first_duration :: "string list \<Rightarrow> duration \<Rightarrow> duration" where
  "first_duration cs d =
     (case find (\<lambda>s. s \<noteq> [] \<and> ParseDuration s \<noteq> None) cs of
        Some s \<Rightarrow> (case ParseDuration s of Some x \<Rightarrow> x | None \<Rightarrow> d)
      | None \<Rightarrow> d)"

lemma first_duration_simps:
  "first_duration [] d = d"
  "first_duration (c # cs) d =
     (if c \<noteq> [] then (case ParseDuration c of Some x \<Rightarrow> x | None \<Rightarrow> first_duration cs d)
      else first_duration cs d)"
  by (simp_all add: first_duration_def split: option.splits)

end
