(* ===== verification/Health.thy ===== *)
theory Health
  imports Registry Durations
begin

text \<open>
  Service health checks (\<open>internal/health/service_checker.go\<close>): the effective settings of a probe,
  what a probe's outcome does to the recorded status, immediate marking, and the notifications sent
  on a change.  The HTTP probe itself is an argument (its response code or its error), as is URL
  parsing; goroutines started by a call are the events it emits.
\<close>

section \<open>Configuration\<close>

record service_check =
  sc_Path :: string
  sc_Interval :: string
  sc_Timeout :: string

record health_config =
  hc_Enabled :: bool
  hc_Interval :: string
  hc_Timeout :: string
  hc_UnhealthyThreshold :: int
  hc_Path :: string
  hc_PerService :: "(string, service_check) gomap"

definition getEffectivePath :: "health_config \<Rightarrow> string \<Rightarrow> route option \<Rightarrow> string" where
  "getEffectivePath c appID route =
     (case route of
        Some r \<Rightarrow> if HealthCheckPath r \<noteq> [] then HealthCheckPath r
                  else (case get (hc_PerService c) appID of
                          Some p \<Rightarrow> if sc_Path p \<noteq> [] then sc_Path p
                                    else if hc_Path c \<noteq> [] then hc_Path c else ''/''
                        | None \<Rightarrow> if hc_Path c \<noteq> [] then hc_Path c else ''/'')
      | None \<Rightarrow> (case get (hc_PerService c) appID of
                   Some p \<Rightarrow> if sc_Path p \<noteq> [] then sc_Path p
                             else if hc_Path c \<noteq> [] then hc_Path c else ''/''
                 | None \<Rightarrow> if hc_Path c \<noteq> [] then hc_Path c else ''/''))"

definition getEffectiveTimeout :: "health_config \<Rightarrow> string \<Rightarrow> route option \<Rightarrow> duration" where
  "getEffectiveTimeout c appID route =
     first_duration
       [case route of Some r \<Rightarrow> HealthCheckTimeout r | None \<Rightarrow> [],
        case get (hc_PerService c) appID of Some p \<Rightarrow> sc_Timeout p | None \<Rightarrow> [],
        hc_Timeout c] (5 * second)"

definition getEffectiveInterval :: "health_config \<Rightarrow> string \<Rightarrow> route option \<Rightarrow> duration" where
  "getEffectiveInterval c appID route =
     first_duration
       [case route of Some r \<Rightarrow> HealthCheckInterval r | None \<Rightarrow> [],
        case get (hc_PerService c) appID of Some p \<Rightarrow> sc_Interval p | None \<Rightarrow> [],
        hc_Interval c] (30 * second)"

definition getEffectiveStatusCodes :: "route option \<Rightarrow> int list" where
  "getEffectiveStatusCodes route =
     (case route of Some r \<Rightarrow> if length (ExpectedStatusCodes r) > 0 then ExpectedStatusCodes r else []
      | None \<Rightarrow> [])"

definition isExpectedStatus :: "int \<Rightarrow> int list \<Rightarrow> bool" where
  "isExpectedStatus statusCode expectedCodes =
     (if length expectedCodes = 0 then statusCode \<ge> 200 \<and> statusCode < 300
      else list_ex (\<lambda>code. statusCode = code) expectedCodes)"

section \<open>State\<close>

datatype hstatus = Healthy | Unhealthy | UnknownStatus

record health_status =
  hs_AppID :: string
  hs_Status :: hstatus
  hs_LastCheckTime :: gotime
  hs_LastSuccessTime :: "gotime option"
  hs_ConsecutiveFailures :: int
  hs_ErrorMessage :: string

record health_checker =
  hk_config :: health_config
  hk_healthStatus :: "(string, health_status) gomap"
  hk_wsManager :: bool
  hk_queue :: bool

datatype health_event =
    PublishHealthChange string string string hstatus string
  | EnqueueHealthNotification string hstatus string
  | SaveServiceHealth health_status

definition new_status :: "string \<Rightarrow> health_status" where
  "new_status appID = \<lparr>hs_AppID = appID, hs_Status = UnknownStatus, hs_LastCheckTime = 0,
     hs_LastSuccessTime = None, hs_ConsecutiveFailures = 0, hs_ErrorMessage = []\<rparr>"

definition current :: "health_checker \<Rightarrow> string \<Rightarrow> health_status" where
  "current c appID = (case get (hk_healthStatus c) appID of Some h \<Rightarrow> h | None \<Rightarrow> new_status appID)"

text \<open>App name and proxy path of a notification.\<close>

definition notify_names :: "registry \<Rightarrow> string \<Rightarrow> string \<times> string" where
  "notify_names rg appID =
     (case GetAppByID rg appID of
        Some a \<Rightarrow> if app_Name a \<noteq> [] then app_Name a else appID
      | None \<Rightarrow> appID,
      case GetRouteByAppID rg appID of Some r \<Rightarrow> PathBase r | None \<Rightarrow> [])"

section \<open>Recording an outcome\<close>

definition record_outcome :: "int \<Rightarrow> hstatus \<Rightarrow> string \<Rightarrow> gotime \<Rightarrow> health_status \<Rightarrow> health_status" where
  "record_outcome thr status errorMsg now h0 =
     (let h = h0\<lparr>hs_LastCheckTime := now\<rparr> in
      case status of
        Healthy \<Rightarrow> h\<lparr>hs_Status := Healthy, hs_ConsecutiveFailures := 0, hs_ErrorMessage := [],
                     hs_LastSuccessTime := Some now\<rparr>
      | Unhealthy \<Rightarrow>
          (let n = hs_ConsecutiveFailures h + 1; threshold = (if thr \<le> 0 then 3 else thr)
           in h\<lparr>hs_ConsecutiveFailures := n, hs_ErrorMessage := errorMsg,
                hs_Status := (if n \<ge> threshold then Unhealthy else Healthy)\<rparr>)
      | UnknownStatus \<Rightarrow> h\<lparr>hs_Status := UnknownStatus, hs_ErrorMessage := errorMsg\<rparr>)"

definition updateHealthStatus ::
  "registry \<Rightarrow> health_checker \<Rightarrow> string \<Rightarrow> hstatus \<Rightarrow> string \<Rightarrow> gotime \<Rightarrow> health_checker \<times> health_event list" where
  "updateHealthStatus rg c appID status errorMsg now =
     (let h0 = current c appID;
          previousStatus = hs_Status h0;
          h = record_outcome (hc_UnhealthyThreshold (hk_config c)) status errorMsg now h0;
          statusChanged = (previousStatus \<noteq> hs_Status h);
          shouldNotify = (statusChanged \<and> previousStatus \<noteq> UnknownStatus \<and> hk_wsManager c);
          notificationMsg = (if hs_ErrorMessage h = [] \<and> hs_Status h = Healthy then ''Service recovered''
                             else hs_ErrorMessage h);
          events = (if shouldNotify
                    then PublishHealthChange appID (fst (notify_names rg appID)) (snd (notify_names rg appID))
                           (hs_Status h) notificationMsg
                         # (if hk_queue c then [EnqueueHealthNotification appID (hs_Status h) notificationMsg] else [])
                    else [])
      in (c\<lparr>hk_healthStatus := put appID h (hk_healthStatus c)\<rparr>, events @ [SaveServiceHealth h]))"

text \<open>What a probe came to: no request could be made, it failed, or it was answered.\<close>

datatype probe = BadURL string | ProbeError string | ProbeStatus int string

definition checkServiceHealth ::
  "(route \<Rightarrow> string \<Rightarrow> duration \<Rightarrow> probe) \<Rightarrow> registry \<Rightarrow> health_checker \<Rightarrow> string \<Rightarrow> gotime
   \<Rightarrow> health_checker \<times> health_event list" where
  "checkServiceHealth probe_service rg c appID now =
     (case GetRouteByAppID rg appID of
        None \<Rightarrow> updateHealthStatus rg c appID UnknownStatus ''no route found for service'' now
      | Some route \<Rightarrow>
          if SkipHealthCheck route then updateHealthStatus rg c appID Healthy [] now
          else
            (let checkPath = getEffectivePath (hk_config c) appID (Some route);
                 timeout = getEffectiveTimeout (hk_config c) appID (Some route);
                 expectedCodes = getEffectiveStatusCodes (Some route)
             in case probe_service route checkPath timeout of
                  BadURL e \<Rightarrow> updateHealthStatus rg c appID UnknownStatus e now
                | ProbeError e \<Rightarrow> updateHealthStatus rg c appID Unhealthy e now
                | ProbeStatus code msg \<Rightarrow>
                    if isExpectedStatus code expectedCodes then updateHealthStatus rg c appID Healthy [] now
                    else updateHealthStatus rg c appID Unhealthy msg now))"

definition GetServiceHealth :: "health_checker \<Rightarrow> string \<Rightarrow> health_status option" where
  "GetServiceHealth c appID = get (hk_healthStatus c) appID"

definition IsServiceHealthy :: "health_checker \<Rightarrow> string \<Rightarrow> bool" where
  "IsServiceHealthy c appID =
     (case get (hk_healthStatus c) appID of None \<Rightarrow> True | Some h \<Rightarrow> hs_Status h = Healthy)"

definition loadHealthStatusesFromStorage :: "health_checker \<Rightarrow> health_status list \<Rightarrow> health_checker" where
  "loadHealthStatusesFromStorage c healthStatuses =
     c\<lparr>hk_healthStatus := foldl (\<lambda>m h. put (hs_AppID h) h m) (hk_healthStatus c) healthStatuses\<rparr>"

definition MarkAppUnhealthy ::
  "registry \<Rightarrow> health_checker \<Rightarrow> string \<Rightarrow> string \<Rightarrow> gotime \<Rightarrow> health_checker \<times> health_event list" where
  "MarkAppUnhealthy rg c appID reason now =
     (let h0 = current c appID;
          previousStatus = hs_Status h0;
          statusChanged = (previousStatus \<noteq> Unhealthy);
          h = h0\<lparr>hs_Status := Unhealthy, hs_ErrorMessage := reason, hs_LastCheckTime := now,
                hs_ConsecutiveFailures := hs_ConsecutiveFailures h0 + 1\<rparr>;
          events = (if statusChanged \<and> previousStatus \<noteq> UnknownStatus
                    then (if hk_wsManager c
                          then [PublishHealthChange appID (fst (notify_names rg appID))
                                  (snd (notify_names rg appID)) Unhealthy reason] else [])
                         @ (if hk_queue c then [EnqueueHealthNotification appID Unhealthy reason] else [])
                    else [])
      in (c\<lparr>hk_healthStatus := put appID h (hk_healthStatus c)\<rparr>,
          events @ [SaveServiceHealth (h\<lparr>hs_LastSuccessTime := None\<rparr>)]))"

section \<open>The status after a run of checks\<close>

text \<open>The specification: failures are counted since the last success, and the last outcome decides.\<close>

fun failures_after :: "int \<Rightarrow> hstatus list \<Rightarrow> int" where
  "failures_after n [] = n"
| "failures_after n (s # ss) =
     failures_after (case s of Healthy \<Rightarrow> 0 | Unhealthy \<Rightarrow> n + 1 | UnknownStatus \<Rightarrow> n) ss"

definition status_after :: "int \<Rightarrow> int \<Rightarrow> hstatus list \<Rightarrow> hstatus" where
  "status_after thr n ss =
     (case last ss of
        Healthy \<Rightarrow> Healthy
      | UnknownStatus \<Rightarrow> UnknownStatus
      | Unhealthy \<Rightarrow> if failures_after n ss \<ge> (if thr \<le> 0 then 3 else thr) then Unhealthy else Healthy)"

fun check_run :: "registry \<Rightarrow> string \<Rightarrow> health_checker \<Rightarrow> (hstatus \<times> string \<times> gotime) list \<Rightarrow> health_checker" where
  "check_run rg appID c [] = c"
| "check_run rg appID c ((s, msg, now) # xs) = check_run rg appID (fst (updateHealthStatus rg c appID s msg now)) xs"

lemma update_current:
  "current (fst (updateHealthStatus rg c appID s msg now)) appID =
     record_outcome (hc_UnhealthyThreshold (hk_config c)) s msg now (current c appID)"
  "hk_config (fst (updateHealthStatus rg c appID s msg now)) = hk_config c"
  by (simp_all add: updateHealthStatus_def Let_def current_def get_put)

lemma update_other:
  "a \<noteq> appID \<Longrightarrow> get (hk_healthStatus (fst (updateHealthStatus rg c appID s msg now))) a = get (hk_healthStatus c) a"
  by (simp add: updateHealthStatus_def Let_def get_put)

lemma record_failures:
  "hs_ConsecutiveFailures (record_outcome thr s msg now h) = failures_after (hs_ConsecutiveFailures h) [s]"
  by (simp add: record_outcome_def Let_def split: hstatus.split)

lemma record_status:
  "hs_Status (record_outcome thr s msg now h) = status_after thr (hs_ConsecutiveFailures h) [s]"
  by (simp add: record_outcome_def status_after_def Let_def split: hstatus.split)

lemma failures_after_append: "failures_after n (ss @ ts) = failures_after (failures_after n ss) ts"
  by (induction ss arbitrary: n) simp_all

lemma check_run_failures:
  "hs_ConsecutiveFailures (current (check_run rg appID c xs) appID)
     = failures_after (hs_ConsecutiveFailures (current c appID)) (map fst xs)
   \<and> hk_config (check_run rg appID c xs) = hk_config c"
proof (induction xs arbitrary: c)
  case (Cons x xs)
  obtain s msg now where x: "x = (s, msg, now)" by (cases x)
  from Cons.IH [of "fst (updateHealthStatus rg c appID s msg now)"] show ?case
    by (simp add: x update_current record_failures)
qed simp

lemma check_run_append: "check_run rg appID c (xs @ ys) = check_run rg appID (check_run rg appID c xs) ys"
  by (induction xs arbitrary: c) auto

text \<open>C25: The health state machine refines its specification: after any non-empty run of check results the
  failure counter is the number of failures since the last success (an undetermined check keeps it),
  and the service is reported healthy after a success, unknown after an undetermined check, and after
  a failure unhealthy exactly when the counter has reached the threshold (3 when not configured);
  the proxy's question \<open>IsServiceHealthy\<close> is answered accordingly.\<close>

theorem health_run_status:
  fixes c :: health_checker and appID :: string
  assumes "xs \<noteq> []"
  defines "n \<equiv> hs_ConsecutiveFailures (current c appID)"
  shows "hs_ConsecutiveFailures (current (check_run rg appID c xs) appID) = failures_after n (map fst xs)
    \<and> hs_Status (current (check_run rg appID c xs) appID)
        = status_after (hc_UnhealthyThreshold (hk_config c)) n (map fst xs)
    \<and> (IsServiceHealthy (check_run rg appID c xs) appID
        \<longleftrightarrow> status_after (hc_UnhealthyThreshold (hk_config c)) n (map fst xs) = Healthy)"
proof -
  obtain ys s msg now where xs: "xs = ys @ [(s, msg, now)]"
    using assms(1) by (metis prod_cases3 rev_exhaust)
  let ?c = "check_run rg appID c ys"
  have f: "hs_ConsecutiveFailures (current ?c appID) = failures_after n (map fst ys)"
    "hk_config ?c = hk_config c"
    using check_run_failures [of rg appID c ys] by (simp_all add: n_def)
  have st: "hs_Status (current (check_run rg appID c xs) appID)
      = status_after (hc_UnhealthyThreshold (hk_config c)) n (map fst xs)"
    by (simp add: xs check_run_append update_current record_status f)
      (simp add: status_after_def failures_after_append)
  have "get (hk_healthStatus (check_run rg appID c xs)) appID \<noteq> None"
    by (simp add: xs check_run_append updateHealthStatus_def Let_def get_put)
  then have "IsServiceHealthy (check_run rg appID c xs) appID
      \<longleftrightarrow> hs_Status (current (check_run rg appID c xs) appID) = Healthy"
    by (auto simp: IsServiceHealthy_def current_def split: option.split)
  with st check_run_failures [of rg appID c xs] show ?thesis by (simp add: n_def)
qed

definition demo_checker :: health_checker where
  "demo_checker = \<lparr>hk_config = \<lparr>hc_Enabled = True, hc_Interval = ''30s'', hc_Timeout = [],
     hc_UnhealthyThreshold = 3, hc_Path = [], hc_PerService = []\<rparr>, hk_healthStatus = [],
     hk_wsManager = True, hk_queue = True\<rparr>"

definition empty_registry :: registry where
  "empty_registry = \<lparr>rg_routes = [], rg_apps = [], rg_radixIndex = NewRadixTree, rg_subdomainIndex = [],
     rg_storage = None\<rparr>"

lemma health_run_status_witness:
  "IsServiceHealthy (check_run empty_registry ''a'' demo_checker
     [(Healthy, [], 1), (Unhealthy, ''x'', 2), (Unhealthy, ''x'', 3)]) ''a'' \<and>
   \<not> IsServiceHealthy (check_run empty_registry ''a'' demo_checker
     [(Unhealthy, ''x'', 2), (Unhealthy, ''x'', 3), (Unhealthy, ''x'', 4)]) ''a''"
  using health_run_status [of "[(Healthy, [], 1), (Unhealthy, ''x'', 2), (Unhealthy, ''x'', 3)]"
      empty_registry "''a''" demo_checker]
    health_run_status [of "[(Unhealthy, ''x'', 2), (Unhealthy, ''x'', 3), (Unhealthy, ''x'', 4)]"
      empty_registry "''a''" demo_checker]
  by (simp add: status_after_def demo_checker_def current_def new_status_def)

text \<open>Stopping a service is forgotten by the next failing check: an app that was marked unhealthy
  while its failure counter is at least two below the threshold is reported healthy again by the very
  next check although that check fails, and, where notifications are sent, the devices are told that
  the service is healthy.\<close>

theorem failing_check_clears_mark:
  fixes c :: health_checker and appID reason :: string and rg :: registry and now :: gotime
  assumes "hs_ConsecutiveFailures (current c appID) + 2
      < (if hc_UnhealthyThreshold (hk_config c) \<le> 0 then 3 else hc_UnhealthyThreshold (hk_config c))"
  defines "c1 \<equiv> fst (MarkAppUnhealthy rg c appID reason now)"
  shows "\<not> IsServiceHealthy c1 appID
    \<and> IsServiceHealthy (fst (updateHealthStatus rg c1 appID Unhealthy msg now')) appID
    \<and> (hk_wsManager c \<longrightarrow>
        PublishHealthChange appID (fst (notify_names rg appID)) (snd (notify_names rg appID)) Healthy
          (if msg = [] then ''Service recovered'' else msg)
        \<in> set (snd (updateHealthStatus rg c1 appID Unhealthy msg now')))"
proof -
  have g: "get (hk_healthStatus c1) appID = Some ((current c appID)\<lparr>hs_Status := Unhealthy,
      hs_ErrorMessage := reason, hs_LastCheckTime := now,
      hs_ConsecutiveFailures := hs_ConsecutiveFailures (current c appID) + 1\<rparr>)"
    "hk_config c1 = hk_config c" "hk_wsManager c1 = hk_wsManager c"
    by (simp_all add: c1_def MarkAppUnhealthy_def Let_def get_put)
  then have cur: "current c1 appID = (current c appID)\<lparr>hs_Status := Unhealthy,
      hs_ErrorMessage := reason, hs_LastCheckTime := now,
      hs_ConsecutiveFailures := hs_ConsecutiveFailures (current c appID) + 1\<rparr>"
    by (simp add: current_def [of c1])
  have st: "hs_Status (record_outcome (hc_UnhealthyThreshold (hk_config c)) Unhealthy msg now' (current c1 appID)) = Healthy"
    using assms(1) by (simp add: record_outcome_def Let_def cur split: if_splits)
  have er: "hs_ErrorMessage (record_outcome (hc_UnhealthyThreshold (hk_config c)) Unhealthy msg now' (current c1 appID)) = msg"
    by (simp add: record_outcome_def Let_def)
  have "\<not> IsServiceHealthy c1 appID" by (simp add: IsServiceHealthy_def g)
  moreover have "IsServiceHealthy (fst (updateHealthStatus rg c1 appID Unhealthy msg now')) appID"
    using st g by (simp add: IsServiceHealthy_def updateHealthStatus_def Let_def get_put)
  moreover have "hk_wsManager c \<longrightarrow>
        PublishHealthChange appID (fst (notify_names rg appID)) (snd (notify_names rg appID)) Healthy
          (if msg = [] then ''Service recovered'' else msg)
        \<in> set (snd (updateHealthStatus rg c1 appID Unhealthy msg now'))"
    using st er g cur by (simp add: updateHealthStatus_def Let_def)
  ultimately show ?thesis by simp
qed

lemma failing_check_clears_mark_witness:
  "IsServiceHealthy (fst (updateHealthStatus empty_registry
     (fst (MarkAppUnhealthy empty_registry demo_checker ''a'' ''Container stopped'' 1)) ''a'' Unhealthy ''refused'' 2)) ''a''"
proof -
  have "hs_ConsecutiveFailures (current demo_checker ''a'') + 2
      < (if hc_UnhealthyThreshold (hk_config demo_checker) \<le> 0 then 3 else hc_UnhealthyThreshold (hk_config demo_checker))"
    by code_simp
  from failing_check_clears_mark [OF this] show ?thesis by blast
qed

end
