(* ===== verification/Access.thy ===== *)
theory Access
  imports Routing Auth Pairing Net Paths Health
begin

text \<open>
  Who gets through, and where to: the authentication middleware (\<open>internal/middleware\<close>), pairing,
  refresh and device revocation (\<open>internal/handlers\<close>), and the two proxy handlers with the
  subdomain middleware around them (\<open>cmd/nekzus/proxy_handlers.go\<close>).  A handler is a function of
  the request and the components' state to an answer; updates made in the background (the device's
  last-seen time) and logging are left out of the answer.
\<close>

section \<open>Requests and answers\<close>

record request =
  rq_Method :: string
  rq_Host :: string
  rq_Path :: string
  rq_RawPath :: string
  rq_RemoteAddr :: string
  rq_TLS :: bool
  rq_Header :: "(string, string) gomap"
  rq_deviceID :: string

definition header :: "request \<Rightarrow> string \<Rightarrow> string" where
  "header r k = get_zero [] (rq_Header r) k"

definition set_header :: "string \<Rightarrow> string \<Rightarrow> request \<Rightarrow> request" where
  "set_header k v r = r\<lparr>rq_Header := put k v (rq_Header r)\<rparr>"

definition del_header :: "string \<Rightarrow> request \<Rightarrow> request" where
  "del_header k r = r\<lparr>rq_Header := del k (rq_Header r)\<rparr>"

definition ExtractBearerToken :: "request \<Rightarrow> string" where
  "ExtractBearerToken r =
     (let authHeader = header r ''Authorization''
      in if length authHeader < 7 \<or> take 7 authHeader \<noteq> ''Bearer '' then [] else drop 7 authHeader)"

definition extractBearerToken :: "request \<Rightarrow> string" where
  "extractBearerToken r =
     (let authHeader = header r ''Authorization''
      in if authHeader = [] then []
         else if \<not> HasPrefix authHeader ''Bearer '' then []
         else TrimSpace (drop 7 authHeader))"

section \<open>Authentication middleware\<close>

text \<open>Either the request is answered with an error status, or passed on with the device it was
  authenticated as, if any.\<close>

datatype auth_outcome = Deny int | Pass request

definition subject :: "claims \<Rightarrow> string option" where
  "subject c = (case get c ''sub'' of Some (CString d) \<Rightarrow> if d \<noteq> [] then Some d else None | _ \<Rightarrow> None)"

definition with_device :: "request \<Rightarrow> claims \<Rightarrow> request" where
  "with_device r c = (case subject c of Some d \<Rightarrow> r\<lparr>rq_deviceID := d\<rparr> | None \<Rightarrow> r)"

definition NewStrictJWTAuth ::
  "jwt_parser \<Rightarrow> auth_manager \<Rightarrow> gotime \<Rightarrow> (conn \<times> store) option \<Rightarrow> request \<Rightarrow> auth_outcome" where
  "NewStrictJWTAuth jwt_parse m now sto r =
     (let token = extractBearerToken r in
      if token = [] then Deny 401
      else case ParseJWT jwt_parse m now token of
        Inl e \<Rightarrow> Deny 401
      | Inr claims \<Rightarrow>
          (case subject claims of
             None \<Rightarrow> Deny 401
           | Some deviceID \<Rightarrow>
               (case sto of
                  None \<Rightarrow> Deny 503
                | Some (c, st) \<Rightarrow>
                    (case GetDevice c st deviceID of
                       Inl e \<Rightarrow> Deny 500
                     | Inr None \<Rightarrow> Deny 401
                     | Inr (Some device) \<Rightarrow> Pass (r\<lparr>rq_deviceID := deviceID\<rparr>)))))"

definition NewIPBasedAuth :: "jwt_parser \<Rightarrow> auth_manager \<Rightarrow> gotime \<Rightarrow> request \<Rightarrow> auth_outcome" where
  "NewIPBasedAuth jwt_parse m now r =
     (let token = ExtractBearerToken r in
      if isLocalRequest (rq_RemoteAddr r) then
        (if token \<noteq> [] then
           (case ParseJWT jwt_parse m now token of
              Inl e \<Rightarrow> Pass r
            | Inr claims \<Rightarrow> Pass (with_device r claims))
         else Pass r)
      else if token = [] then Deny 401
      else case ParseJWT jwt_parse m now token of
        Inl e \<Rightarrow> Deny 401
      | Inr claims \<Rightarrow> Pass (with_device r claims))"

section \<open>Proxying\<close>

text \<open>What the handlers need of the application: \<open>gw_remote\<close> is \<open>getRemoteServiceAddress\<close>
  behind the \<open>AllowRemoteRoutes\<close> switch, \<open>gw_parseURL\<close> is \<open>url.Parse\<close>.\<close>

record gateway =
  gw_registry :: registry
  gw_auth :: auth_manager
  gw_health :: "health_checker option"
  gw_baseDomain :: string
  gw_defaultScopes :: "string list"
  gw_sessionCookies :: bool
  gw_nekzusID :: string
  gw_remote :: "string \<Rightarrow> string option"
  gw_parseURL :: "string \<Rightarrow> string option"

datatype rewriting = NoRewriting | HeadersOnly | FullHTML

text \<open>The way a request leaves for its backend.\<close>

record upstream =
  up_route :: route
  up_target :: string
  up_request :: request
  up_websocket :: bool
  up_rewriting :: rewriting
  up_persistCookies :: bool
  up_filterCookies :: bool

datatype answer =
    Status int string
  | RedirectTo string
  | NotFoundPage
  | Proxied upstream
  | ProxiedRemote upstream
  | NextHandler

definition bad_host :: "request \<Rightarrow> bool" where
  "bad_host r \<longleftrightarrow> ContainsAny (rq_Host r) [CHR 0x0D, CHR 0x0A, CHR 0x00]"

definition client_ip :: "request \<Rightarrow> string" where
  "client_ip r = strip_port (rq_RemoteAddr r)"

definition IsWebSocketUpgrade :: "request \<Rightarrow> bool" where
  "IsWebSocketUpgrade r \<longleftrightarrow> ToLower (header r ''Upgrade'') = ''websocket''
     \<and> Contains (ToLower (header r ''Connection'')) ''upgrade''"

definition forwarded_for :: "request \<Rightarrow> request" where
  "forwarded_for r =
     (let r1 = del_header ''Authorization'' r;
          clientIP = client_ip r1;
          r2 = (if header r1 ''X-Real-IP'' = [] then set_header ''X-Real-IP'' clientIP r1 else r1);
          existing = header r2 ''X-Forwarded-For'';
          r3 = (if existing \<noteq> [] then set_header ''X-Forwarded-For'' (existing @ '', '' @ clientIP) r2
                else set_header ''X-Forwarded-For'' clientIP r2)
      in set_header ''X-Forwarded-Host'' (rq_Host r3) r3)"

definition service_up :: "gateway \<Rightarrow> string \<Rightarrow> bool" where
  "service_up g appID = (case gw_health g of None \<Rightarrow> True | Some h \<Rightarrow> IsServiceHealthy h appID)"

definition handleSubdomainProxy ::
  "jwt_parser \<Rightarrow> gateway \<Rightarrow> gotime \<Rightarrow> request \<Rightarrow> route \<Rightarrow> answer" where
  "handleSubdomainProxy jwt_parse g now r0 route =
     (if bad_host r0 then Status 400 ''INVALID_REQUEST''
      else
        (let r = r0\<lparr>rq_Path := NormalizePath (rq_Path r0)\<rparr>;
             token = ExtractBearerToken r;
             effectiveScopes = GetEffectiveScopes route (gw_defaultScopes g);
             forward =
               (if \<not> service_up g (AppID route) then Status 503 ''SERVICE_UNHEALTHY''
                else case gw_parseURL g (To route) of
                  None \<Rightarrow> Status 502 ''BAD_GATEWAY''
                | Some target \<Rightarrow>
                    (let r1 = set_header ''X-Forwarded-Proto'' (if rq_TLS r then ''https'' else ''http'') (forwarded_for r)
                     in Proxied \<lparr>up_route = route, up_target = target, up_request = r1,
                          up_websocket = (Websocket route \<and> IsWebSocketUpgrade r1),
                          up_rewriting = NoRewriting, up_persistCookies = False, up_filterCookies = False\<rparr>))
         in if token \<noteq> [] \<and> length effectiveScopes > 0 then
              (case ParseJWT jwt_parse (gw_auth g) now token of
                 Inl e \<Rightarrow> Status 401 ''INVALID_TOKEN''
               | Inr claims \<Rightarrow>
                   if \<not> HasAllScopesFromAny (get claims ''scopes'') effectiveScopes then Status 403 ''FORBIDDEN''
                   else forward)
            else forward))"

definition subdomainMiddleware :: "jwt_parser \<Rightarrow> gateway \<Rightarrow> gotime \<Rightarrow> request \<Rightarrow> answer" where
  "subdomainMiddleware jwt_parse g now r =
     (case ExtractSubdomain (rq_Host r) (gw_baseDomain g) of
        None \<Rightarrow> NextHandler
      | Some subdomain \<Rightarrow>
          (case GetRouteBySubdomain (gw_registry g) subdomain of
             None \<Rightarrow> NextHandler
           | Some route \<Rightarrow> handleSubdomainProxy jwt_parse g now r route))"

text \<open>Stripping the base path of a route from a path.\<close>

definition stripped :: "string \<Rightarrow> string \<Rightarrow> string" where
  "stripped path base =
     (let newPath = TrimPrefix path base
      in if newPath = [] then ''/''
         else if \<not> HasPrefix newPath ''/'' then ''/'' @ newPath else newPath)"

definition rewrite_path :: "route \<Rightarrow> string \<Rightarrow> request \<Rightarrow> request" where
  "rewrite_path route normalizedPath r =
     (if StripPrefix route \<and> HasPrefix normalizedPath (PathBase route)
      then set_header ''X-Forwarded-Prefix'' (PathBase route)
             (r\<lparr>rq_Path := stripped normalizedPath (PathBase route),
                rq_RawPath := (if rq_RawPath r \<noteq> [] then stripped (rq_RawPath r) (PathBase route) else [])\<rparr>)
      else r)"

definition forwarded_proto :: "request \<Rightarrow> bool \<Rightarrow> request" where
  "forwarded_proto r isWebSocket =
     (let actualPort = (case SplitHostPort (rq_Host r) of
                          Some (h, port) \<Rightarrow> port
                        | None \<Rightarrow> if rq_TLS r then ''443'' else ''80'');
          r1 = set_header ''X-Forwarded-Proto''
                 (if isWebSocket then (if rq_TLS r then ''wss'' else ''ws'')
                  else (if rq_TLS r then ''https'' else ''http'')) r
      in if header r1 ''X-Forwarded-Port'' = [] then set_header ''X-Forwarded-Port'' actualPort r1 else r1)"

definition ExtractClientIP :: "request \<Rightarrow> string" where
  "ExtractClientIP r =
     (if header r ''X-Real-IP'' \<noteq> [] then header r ''X-Real-IP''
      else let xff = header r ''X-Forwarded-For'' in
        if xff \<noteq> [] then takeWhile (\<lambda>c. c \<noteq> CHR '','') xff else rq_RemoteAddr r)"

definition handleRemoteProxy ::
  "gateway \<Rightarrow> request \<Rightarrow> route \<Rightarrow> string \<Rightarrow> claims option \<Rightarrow> answer" where
  "handleRemoteProxy g r route remotePeerAddr claims =
     (let effectiveScopes = GetEffectiveScopes route (gw_defaultScopes g) in
      if (case claims of
            Some c \<Rightarrow> length effectiveScopes > 0 \<and> \<not> HasAllScopesFromAny (get c ''scopes'') effectiveScopes
          | None \<Rightarrow> False)
      then Status 403 ''FORBIDDEN''
      else case gw_parseURL g remotePeerAddr of
        None \<Rightarrow> Status 502 ''BAD_GATEWAY''
      | Some target \<Rightarrow>
          (let clientIP = ExtractClientIP r;
               r1 = set_header ''X-Forwarded-For'' clientIP (del_header ''Authorization'' r);
               r2 = set_header ''X-Forwarded-Host'' (rq_Host r) r1;
               r3 = set_header ''X-Federated-From'' (gw_nekzusID g) r2;
               r4 = set_header ''X-Forwarded-Proto'' (if rq_TLS r then ''https'' else ''http'') r3
           in ProxiedRemote \<lparr>up_route = route, up_target = target, up_request = r4\<lparr>rq_Host := target\<rparr>,
                up_websocket = False, up_rewriting = NoRewriting, up_persistCookies = False,
                up_filterCookies = False\<rparr>))"

definition proxy_local :: "gateway \<Rightarrow> request \<Rightarrow> route \<Rightarrow> string \<Rightarrow> answer" where
  "proxy_local g r route normalizedPath =
     (if \<not> service_up g (AppID route) then Status 503 ''SERVICE_UNHEALTHY''
      else case gw_parseURL g (To route) of
        None \<Rightarrow> Status 502 ''BAD_GATEWAY''
      | Some target \<Rightarrow>
          (let r1 = forwarded_for (rewrite_path route normalizedPath r);
               isWebSocket = (Websocket route \<and> IsWebSocketUpgrade r1);
               r2 = forwarded_proto r1 isWebSocket;
               persist = (PersistCookies route \<and> rq_deviceID r \<noteq> [] \<and> gw_sessionCookies g)
           in if isWebSocket
              then Proxied \<lparr>up_route = route, up_target = target, up_request = r2, up_websocket = True,
                     up_rewriting = NoRewriting, up_persistCookies = False, up_filterCookies = False\<rparr>
              else Proxied \<lparr>up_route = route, up_target = target,
                     up_request = (if StripPrefix route \<and> RewriteHTML route
                                   then del_header ''Accept-Encoding'' r2 else r2),
                     up_websocket = False,
                     up_rewriting = (if StripPrefix route
                                     then (if RewriteHTML route then FullHTML else HeadersOnly) else NoRewriting),
                     up_persistCookies = persist,
                     up_filterCookies = (\<not> persist \<and> (StripResponseCookies route
                                          \<or> (RewriteCookiePaths route \<and> StripPrefix route)))\<rparr>))"

definition handleProxy :: "jwt_parser \<Rightarrow> gateway \<Rightarrow> gotime \<Rightarrow> request \<Rightarrow> answer" where
  "handleProxy jwt_parse g now r =
     (if bad_host r then Status 400 ''INVALID_REQUEST''
      else
        (let normalizedPath = NormalizePath (rq_Path r) in
         case GetRouteByPath (gw_registry g) normalizedPath of
           None \<Rightarrow>
             if \<not> HasSuffix normalizedPath ''/'' \<and> GetRouteByPath (gw_registry g) (normalizedPath @ ''/'') \<noteq> None
             then RedirectTo (normalizedPath @ ''/'')
             else NotFoundPage
         | Some route \<Rightarrow>
             (let token = ExtractBearerToken r;
                  effectiveScopes = GetEffectiveScopes route (gw_defaultScopes g);
                  proceed = (\<lambda>claims.
                    case gw_remote g (AppID route) of
                      Some remotePeerAddr \<Rightarrow> handleRemoteProxy g r route remotePeerAddr claims
                    | None \<Rightarrow>
                        (case claims of
                           Some c \<Rightarrow> if length effectiveScopes > 0
                                         \<and> \<not> HasAllScopesFromAny (get c ''scopes'') effectiveScopes
                                      then Status 403 ''FORBIDDEN''
                                      else proxy_local g r route normalizedPath
                         | None \<Rightarrow> proxy_local g r route normalizedPath))
              in if token \<noteq> [] \<and> length effectiveScopes > 0 then
                   (case ParseJWT jwt_parse (gw_auth g) now token of
                      Inl e \<Rightarrow> Status 401 ''INVALID_TOKEN''
                    | Inr parsedClaims \<Rightarrow> proceed (Some parsedClaims))
                 else proceed None)))"

text \<open>The handler behind \<open>/apps/\<close>: the IP-based middleware in front of the proxy.\<close>

definition serve_apps :: "jwt_parser \<Rightarrow> gateway \<Rightarrow> gotime \<Rightarrow> request \<Rightarrow> answer" where
  "serve_apps jwt_parse g now r =
     (case NewIPBasedAuth jwt_parse (gw_auth g) now r of
        Deny s \<Rightarrow> Status s []
      | Pass r' \<Rightarrow> handleProxy jwt_parse g now r')"

text \<open>The server's handler with a base domain configured: the subdomain middleware is outermost.\<close>

definition serve :: "jwt_parser \<Rightarrow> gateway \<Rightarrow> gotime \<Rightarrow> request \<Rightarrow> answer" where
  "serve jwt_parse g now r =
     (case (if gw_baseDomain g \<noteq> [] then subdomainMiddleware jwt_parse g now r else NextHandler) of
        NextHandler \<Rightarrow> if HasPrefix (rq_Path r) ''/apps/'' then serve_apps jwt_parse g now r else NextHandler
      | a \<Rightarrow> a)"

section \<open>The gate in front of the proxied apps\<close>

lemma header_set: "header (set_header k v r) k' = (if k' = k then v else header r k')"
  by (simp add: header_def set_header_def get_zero_def get_put)

lemma header_del: "header (del_header k r) k' = (if k' = k then [] else header r k')"
  by (simp add: header_def del_header_def get_zero_def get_del)

lemma header_other [simp]:
  "header (r\<lparr>rq_Path := p, rq_RawPath := q\<rparr>) k = header r k" "header (r\<lparr>rq_Host := h\<rparr>) k = header r k"
  "header (r\<lparr>rq_Path := p\<rparr>) k = header r k" "header (r\<lparr>rq_deviceID := d\<rparr>) k = header r k"
  by (simp_all add: header_def)

lemma forwarded_no_auth: "header (forwarded_for r) ''Authorization'' = []"
  by (simp add: forwarded_for_def Let_def header_set header_del)

lemma proto_no_auth: "header r ''Authorization'' = [] \<Longrightarrow> header (forwarded_proto r b) ''Authorization'' = []"
  by (simp add: forwarded_proto_def Let_def header_set)

lemma proxy_local_Proxied:
  assumes "proxy_local g r route p = Proxied u"
  shows "up_route u = route" "service_up g (AppID route)" "header (up_request u) ''Authorization'' = []"
    "gw_parseURL g (To route) = Some (up_target u)"
  using assms
  by (auto simp: proxy_local_def Let_def header_del proto_no_auth forwarded_no_auth split: if_splits option.splits)

lemma proxy_local_not_remote: "proxy_local g r route p \<noteq> ProxiedRemote u"
  by (auto simp: proxy_local_def Let_def split: option.splits)

lemma remote_ProxiedRemote:
  assumes "handleRemoteProxy g r route addr claims = ProxiedRemote u"
  shows "up_route u = route" "header (up_request u) ''Authorization'' = []"
    "\<And>c. claims = Some c \<Longrightarrow> GetEffectiveScopes route (gw_defaultScopes g) \<noteq> [] \<Longrightarrow>
       HasAllScopesFromAny (get c ''scopes'') (GetEffectiveScopes route (gw_defaultScopes g))"
  using assms
  by (auto simp: handleRemoteProxy_def Let_def header_set header_del split: option.splits if_splits)

lemma remote_not_local: "handleRemoteProxy g r route addr claims \<noteq> Proxied u"
  by (auto simp: handleRemoteProxy_def Let_def split: option.splits)

definition forwards :: "answer \<Rightarrow> upstream \<Rightarrow> bool" where
  "forwards a u \<longleftrightarrow> a = Proxied u \<or> a = ProxiedRemote u"

lemma handleProxy_forwards:
  assumes "forwards (handleProxy jp g now r) u"
  shows "GetRouteByPath (gw_registry g) (NormalizePath (rq_Path r)) = Some (up_route u)"
    and "header (up_request u) ''Authorization'' = []"
    and "handleProxy jp g now r = Proxied u \<Longrightarrow> service_up g (AppID (up_route u))"
    and "ExtractBearerToken r \<noteq> [] \<Longrightarrow> GetEffectiveScopes (up_route u) (gw_defaultScopes g) \<noteq> [] \<Longrightarrow>
       \<exists>c. ParseJWT jp (gw_auth g) now (ExtractBearerToken r) = Inr c
         \<and> HasAllScopesFromAny (get c ''scopes'') (GetEffectiveScopes (up_route u) (gw_defaultScopes g))"
  using assms
  by (auto simp: forwards_def handleProxy_def Let_def
      dest: proxy_local_Proxied remote_ProxiedRemote
      split: if_splits option.splits sum.splits
      simp: proxy_local_not_remote remote_not_local)

lemma IPBasedAuth_Pass:
  assumes "NewIPBasedAuth jp m now r = Pass r'"
  shows "rq_Path r' = rq_Path r" "rq_Header r' = rq_Header r"
    "isLocalRequest (rq_RemoteAddr r) \<or>
      (ExtractBearerToken r \<noteq> [] \<and> (\<exists>c. ParseJWT jp m now (ExtractBearerToken r) = Inr c))"
  using assms
  by (auto simp: NewIPBasedAuth_def with_device_def Let_def split: if_splits sum.splits option.splits)

text \<open>C27: The gate in front of the apps: when a request to an app leaves for a backend, local or on a
  peer, then it came from a trusted address or carries a bearer token the manager accepts; the route is
  the registry's match for the normalised path; a token, when the route needs scopes, is accepted and
  grants all of them; the service is not known to be down when the backend is local; and the client's
  credentials are not passed on.\<close>

theorem apps_gate:
  assumes "forwards (serve_apps jp g now r) u"
  shows "(isLocalRequest (rq_RemoteAddr r) \<or>
       (ExtractBearerToken r \<noteq> [] \<and> (\<exists>c. ParseJWT jp (gw_auth g) now (ExtractBearerToken r) = Inr c)))
    \<and> GetRouteByPath (gw_registry g) (NormalizePath (rq_Path r)) = Some (up_route u)
    \<and> (ExtractBearerToken r \<noteq> [] \<and> GetEffectiveScopes (up_route u) (gw_defaultScopes g) \<noteq> [] \<longrightarrow>
        (\<exists>c. ParseJWT jp (gw_auth g) now (ExtractBearerToken r) = Inr c
          \<and> HasAllScopesFromAny (get c ''scopes'') (GetEffectiveScopes (up_route u) (gw_defaultScopes g))))
    \<and> (serve_apps jp g now r = Proxied u \<longrightarrow> service_up g (AppID (up_route u)))
    \<and> header (up_request u) ''Authorization'' = []"
proof -
  obtain r' where p: "NewIPBasedAuth jp (gw_auth g) now r = Pass r'"
    using assms by (cases "NewIPBasedAuth jp (gw_auth g) now r") (auto simp: serve_apps_def forwards_def)
  then have s: "serve_apps jp g now r = handleProxy jp g now r'" by (simp add: serve_apps_def)
  note i = IPBasedAuth_Pass [OF p]
  have t: "ExtractBearerToken r' = ExtractBearerToken r"
    by (simp add: ExtractBearerToken_def header_def i(2))
  have f: "forwards (handleProxy jp g now r') u" using assms by (simp only: s)
  note h = handleProxy_forwards [OF f, unfolded t i(1)]
  show ?thesis unfolding s using h i(3) by blast
qed

definition demo_request :: request where
  "demo_request = \<lparr>rq_Method = ''GET'', rq_Host = ''web.nekzus.local'', rq_Path = ''/web/x'', rq_RawPath = [],
     rq_RemoteAddr = ''203.0.113.9:4000'', rq_TLS = True, rq_Header = [(''Authorization'', ''Bearer k.t'')],
     rq_deviceID = []\<rparr>"

definition demo_gateway :: gateway where
  "demo_gateway = \<lparr>gw_registry = demo_registry, gw_auth = demo_manager, gw_health = None,
     gw_baseDomain = ''nekzus.local'', gw_defaultScopes = [''read:apps''], gw_sessionCookies = False,
     gw_nekzusID = ''n1'', gw_remote = (\<lambda>_. None), gw_parseURL = (\<lambda>u. Some u)\<rparr>"

lemma apps_gate_witness:
  "\<exists>u. serve_apps demo_parse demo_gateway (6 * second) demo_request = Proxied u
     \<and> GetRouteByPath demo_registry ''/web/x'' = Some (up_route u) \<and> header (up_request u) ''Authorization'' = []"
proof -
  have "(case serve_apps demo_parse demo_gateway (6 * second) demo_request of Proxied u \<Rightarrow> True | _ \<Rightarrow> False)"
    by code_simp
  then obtain u where u: "serve_apps demo_parse demo_gateway (6 * second) demo_request = Proxied u"
    by (auto split: answer.splits)
  then have f: "forwards (serve_apps demo_parse demo_gateway (6 * second) demo_request) u"
    by (simp add: forwards_def)
  have n: "NormalizePath (rq_Path demo_request) = ''/web/x''" "gw_registry demo_gateway = demo_registry"
    by (code_simp, simp add: demo_gateway_def)
  from apps_gate [OF f] u n show ?thesis by simp
qed

text \<open>Subdomain routing goes around the gate: with a base domain configured, a request whose host
  names the subdomain of a registered route and that carries no token is forwarded to that route's
  backend from any address whatever and whatever scopes the route requires, when the same request under
  the path-based entry is refused with 401 unless it comes from a trusted address.\<close>

theorem subdomain_bypasses_gate:
  assumes "gw_baseDomain g \<noteq> []" "ExtractSubdomain (rq_Host r) (gw_baseDomain g) = Some s"
    and "GetRouteBySubdomain (gw_registry g) s = Some route"
    and "ExtractBearerToken r = []" "\<not> isLocalRequest (rq_RemoteAddr r)"
    and "\<not> bad_host r" "service_up g (AppID route)" "gw_parseURL g (To route) \<noteq> None"
  shows "(\<exists>u. serve jp g now r = Proxied u \<and> up_route u = route) \<and> serve_apps jp g now r = Status 401 []"
proof -
  have t: "ExtractBearerToken (r\<lparr>rq_Path := p\<rparr>) = []" for p
    using assms(4) by (simp add: ExtractBearerToken_def)
  have "\<exists>u. handleSubdomainProxy jp g now r route = Proxied u \<and> up_route u = route"
    using assms(6-8) by (auto simp: handleSubdomainProxy_def t Let_def)
  then have "\<exists>u. serve jp g now r = Proxied u \<and> up_route u = route"
    using assms(1-3) by (auto simp: serve_def subdomainMiddleware_def)
  moreover have "serve_apps jp g now r = Status 401 []"
    using assms(4,5) by (simp add: serve_apps_def NewIPBasedAuth_def Let_def)
  ultimately show ?thesis by blast
qed

lemma subdomain_bypasses_gate_witness:
  "(\<exists>u. serve demo_parse demo_gateway 0 (demo_request\<lparr>rq_Header := []\<rparr>) = Proxied u \<and> up_route u = demo_route)
   \<and> GetEffectiveScopes demo_route (gw_defaultScopes demo_gateway) = [''read:apps'']"
proof -
  let ?r = "demo_request\<lparr>rq_Header := []\<rparr>"
  have a: "gw_baseDomain demo_gateway \<noteq> []" by (simp add: demo_gateway_def)
  have e: "ExtractSubdomain (rq_Host ?r) (gw_baseDomain demo_gateway) = Some ''web''" by code_simp
  have b: "GetRouteBySubdomain (gw_registry demo_gateway) ''web'' = Some demo_route" by code_simp
  have c: "ExtractBearerToken ?r = []" "\<not> isLocalRequest (rq_RemoteAddr ?r)" "\<not> bad_host ?r"
    "service_up demo_gateway (AppID demo_route)"
    by code_simp+
  have d: "gw_parseURL demo_gateway (To demo_route) \<noteq> None" by (simp add: demo_gateway_def)
  have s: "GetEffectiveScopes demo_route (gw_defaultScopes demo_gateway) = [''read:apps'']" by code_simp
  from subdomain_bypasses_gate [OF a e b c d] s show ?thesis by blast
qed

section \<open>Pairing, refreshing and revoking devices\<close>

record pair_request =
  pq_ID :: string
  pq_Model :: string
  pq_Platform :: string
  pq_PushToken :: "string option"

definition validPlatforms :: "string list" where
  "validPlatforms = [''ios'', ''android'', ''web'', ''desktop'', ''linux'', ''macos'', ''windows'']"

definition isValidPlatform :: "string \<Rightarrow> bool" where
  "isValidPlatform p \<longleftrightarrow> p \<in> set validPlatforms"

definition ValidatePair :: "pair_request \<Rightarrow> string option" where
  "ValidatePair q =
     (if pq_Platform q = [] then Some ''device.platform is required''
      else if \<not> isValidPlatform (pq_Platform q) then Some ''device.platform is not supported''
      else if length (pq_ID q) > 255 then Some ''device ID too long''
      else if length (pq_Model q) > 255 then Some ''device model too long''
      else case pq_PushToken q of
        Some t \<Rightarrow> if length t > 512 then Some ''push token too long'' else None
      | None \<Rightarrow> None)"

text \<open>What the request body decodes to.\<close>

datatype body = TooLarge | BadJSON | Decoded pair_request

record pairing_server =
  ps_env :: auth_env
  ps_auth :: auth_manager
  ps_store :: "store option"
  ps_codes :: "pairing_manager option"

datatype pair_answer =
    PairDenied int string
  | Paired string duration "string list" string

datatype pair_event = DisconnectedDevice string | DevicePaired string string string | DeviceRevoked string

definition save_quietly_device ::
  "conn \<Rightarrow> store option \<Rightarrow> string \<Rightarrow> string \<Rightarrow> string \<Rightarrow> string list \<Rightarrow> store option" where
  "save_quietly_device c sto i name platform scopes =
     (case sto of None \<Rightarrow> None
      | Some st \<Rightarrow> (case SaveDevice c st i name platform [] scopes of Inl e \<Rightarrow> Some st | Inr st' \<Rightarrow> Some st'))"

definition token_lifetime :: duration where "token_lifetime = 12 * hour"

definition HandlePair ::
  "(string \<Rightarrow> claims \<Rightarrow> string + string) \<Rightarrow> pairing_server \<Rightarrow> gotime \<Rightarrow> conn \<Rightarrow> string \<Rightarrow> request \<Rightarrow> body
   \<Rightarrow> pairing_server \<times> pair_event list \<times> pair_answer" where
  "HandlePair jwt_sign sv now c random r b =
     (let bootstrap = ExtractBearerToken r in
      if bootstrap = [] then (sv, [], PairDenied 401 ''UNAUTHORIZED'')
      else if IsRateLimited (am_bootstrap (ps_auth sv)) bootstrap then (sv, [], PairDenied 429 ''RATE_LIMITED'')
      else
        (case ValidateBootstrap (ps_env sv) (ps_auth sv) now bootstrap of
           (m, False) \<Rightarrow>
             (sv\<lparr>ps_auth := m\<lparr>am_bootstrap := RecordFailedPairing (am_bootstrap m) bootstrap\<rparr>\<rparr>, [],
              PairDenied 401 ''INVALID_BOOTSTRAP'')
         | (m, True) \<Rightarrow>
             (let sv1 = sv\<lparr>ps_auth := m\<rparr> in
              case b of
                TooLarge \<Rightarrow> (sv1, [], PairDenied 413 ''PAYLOAD_TOO_LARGE'')
              | BadJSON \<Rightarrow> (sv1, [], PairDenied 400 ''INVALID_JSON'')
              | Decoded q \<Rightarrow>
                  (case ValidatePair q of
                     Some e \<Rightarrow> (sv1, [], PairDenied 400 ''VALIDATION_ERROR'')
                   | None \<Rightarrow>
                       (let i = (if pq_ID q = [] then ''dev-'' @ random else pq_ID q);
                            scopes = DetermineScopes (ps_env sv) (pq_Platform q);
                            name = (if pq_Model q = [] then pq_Platform q @ '' Device'' else pq_Model q)
                        in case SignJWT jwt_sign m now i scopes token_lifetime of
                             Inl e \<Rightarrow> (sv1, [], PairDenied 500 ''TOKEN_GENERATION_FAILED'')
                           | Inr token \<Rightarrow>
                               (sv1\<lparr>ps_store := save_quietly_device c (ps_store sv) i name (pq_Platform q) scopes,
                                    ps_auth := m\<lparr>am_bootstrap := RecordSuccessfulPairing (am_bootstrap m) bootstrap\<rparr>,
                                    ps_codes := map_option (\<lambda>pm. ConsumeByBootstrapToken pm bootstrap) (ps_codes sv)\<rparr>,
                                [DisconnectedDevice i, DevicePaired i name (pq_Platform q)],
                                Paired token token_lifetime scopes i))))))"

definition HandleRefresh ::
  "(string \<Rightarrow> claims \<Rightarrow> string + string) \<Rightarrow> jwt_parser \<Rightarrow> auth_manager \<Rightarrow> gotime \<Rightarrow> request \<Rightarrow> pair_answer" where
  "HandleRefresh jwt_sign jwt_parse m now r =
     (let oldToken = ExtractBearerToken r in
      if oldToken = [] then PairDenied 401 ''UNAUTHORIZED''
      else case ParseJWTForRefresh jwt_parse m now oldToken of
        Inl e \<Rightarrow> PairDenied 401 ''INVALID_TOKEN''
      | Inr claims \<Rightarrow>
          (case subject claims of
             None \<Rightarrow> PairDenied 401 ''INVALID_CLAIMS''
           | Some deviceID \<Rightarrow>
               if IsDeviceRevoked (am_revocation m) now deviceID then PairDenied 401 ''DEVICE_REVOKED''
               else if IsRevoked (am_revocation m) now oldToken then PairDenied 401 ''TOKEN_REVOKED''
               else (let scopes = ExtractScopes claims in
                     case SignJWT jwt_sign m now deviceID scopes token_lifetime of
                       Inl e \<Rightarrow> PairDenied 500 ''TOKEN_GENERATION_FAILED''
                     | Inr newToken \<Rightarrow> Paired newToken token_lifetime scopes deviceID)))"

definition MaxDeviceIDLength :: nat where "MaxDeviceIDLength = 100"

definition extractDeviceIDFromPath :: "string \<Rightarrow> string" where
  "extractDeviceIDFromPath path0 =
     (let path = TrimSuffix path0 ''/'';
          i = (if HasPrefix path ''/api/v1/admin/devices/'' then TrimPrefix path ''/api/v1/admin/devices/''
               else if HasPrefix path ''/api/v1/devices/'' then TrimPrefix path ''/api/v1/devices/'' else [])
      in if Contains i ''/'' \<or> Contains i [CHR 0x5C] \<or> Contains i ''..'' then []
         else if i = [] \<or> length i > MaxDeviceIDLength then [] else i)"

definition HandleRevokeDevice ::
  "conn \<Rightarrow> conn \<Rightarrow> conn \<Rightarrow> store \<Rightarrow> request \<Rightarrow> store \<times> pair_event list \<times> int" where
  "HandleRevokeDevice c1 c2 c3 st r =
     (if rq_Method r \<noteq> ''DELETE'' then (st, [], 405)
      else let deviceID = extractDeviceIDFromPath (rq_Path r) in
        if deviceID = [] then (st, [], 400)
        else case GetDevice c1 st deviceID of
          Inl e \<Rightarrow> (st, [], 500)
        | Inr None \<Rightarrow> (st, [], 404)
        | Inr (Some device) \<Rightarrow>
            (case DeleteDevice c2 st deviceID of
               Inl e \<Rightarrow> (st, [], 500)
             | Inr st1 \<Rightarrow>
                 ((case DeleteNotificationsForDevice c3 st1 deviceID of Inl e \<Rightarrow> st1 | Inr (st2, n) \<Rightarrow> st2),
                  [DisconnectedDevice deviceID, DeviceRevoked deviceID], 200)))"

lemma ValidateBootstrap_ok:
  assumes "ValidateBootstrap env m now t = (m', True)"
  shows "snd (Validate env (am_bootstrap m) now t)" "am_jwtSecret m' = am_jwtSecret m"
    "am_revocation m' = am_revocation m" "am_issuer m' = am_issuer m" "am_audience m' = am_audience m"
    "am_bootstrap m' = fst (Validate env (am_bootstrap m) now t)"
  using assms by (auto simp: ValidateBootstrap_def split: prod.splits)


definition demo_server :: pairing_server where
  "demo_server = \<lparr>ps_env = demo_env, ps_auth = demo_manager, ps_store = Some empty_store, ps_codes = Some demo_pm\<rparr>"


text \<open>Revoking a device does not invalidate its tokens: when the revocation request succeeds, the strict
  middleware turns the device away afterwards, but the IP-based middleware still accepts its token from
  any address, and the refresh endpoint still turns the old token into a fresh one with the same scopes.\<close>

theorem revoked_device_keeps_tokens:
  assumes "HandleRevokeDevice c1 c2 c3 st r = (st', ev, 200)"
    and "extractDeviceIDFromPath (rq_Path r) = d"
    and "jwt_library_ok jwt_sign jwt_parse" "SignJWT jwt_sign m now d scopes ttl = Inr t"
    and "\<not> IsRevoked (am_revocation m) now' t" "\<not> IsDeviceRevoked (am_revocation m) now' d"
    and "now' < (now + ttl) div second * second"
    and "ExtractBearerToken rq = t" "extractBearerToken rq = t"
    and "jwt_sign (am_jwtSecret m) (jwt_claims m now' d scopes token_lifetime) = Inr t'"
  shows "(\<forall>c. NewStrictJWTAuth jwt_parse m now' (Some (c, st')) rq = Deny (if cn_ok c then 401 else 500))
    \<and> (\<exists>rq'. NewIPBasedAuth jwt_parse m now' rq = Pass rq' \<and> rq_deviceID rq' = d)
    \<and> HandleRefresh jwt_sign jwt_parse m now' rq = Paired t' token_lifetime scopes d"
proof -
  let ?c = "jwt_claims m now d scopes ttl"
  note rt = issued_token_roundtrip_facts [OF assms(3-6)]
  have p: "ParseJWT jwt_parse m now' t = Inr ?c" using rt(1) assms(7) by blast
  have "0 \<le> RefreshGracePeriod" by code_simp
  with rt(2) assms(7) have pr: "ParseJWTForRefresh jwt_parse m now' t = Inr ?c" by simp
  have d: "d \<noteq> []" by (rule rt(3))
  have t: "t \<noteq> []" using p by (auto simp: ParseJWT_def)
  have sub: "subject ?c = Some d" using d by (simp add: subject_def)
  have "get (st_devices st') d = None"
    using assms(1,2) d
    by (auto simp: HandleRevokeDevice_def DeleteDevice_def DeleteNotificationsForDevice_def Let_def get_del
        split: if_splits sum.splits option.splits prod.splits)
  then have "NewStrictJWTAuth jwt_parse m now' (Some (c, st')) rq = Deny (if cn_ok c then 401 else 500)" for c
    using p sub t assms(9) by (simp add: NewStrictJWTAuth_def GetDevice_def Let_def)
  moreover have "\<exists>rq'. NewIPBasedAuth jwt_parse m now' rq = Pass rq' \<and> rq_deviceID rq' = d"
    using p sub t assms(8) by (simp add: NewIPBasedAuth_def with_device_def Let_def)
  moreover have "HandleRefresh jwt_sign jwt_parse m now' rq = Paired t' token_lifetime scopes d"
    using pr sub t d assms(5,6,8,10) rt(4) by (simp add: HandleRefresh_def SignJWT_def Let_def)
  ultimately show ?thesis by blast
qed

definition demo_fresh :: claims where
  "demo_fresh = jwt_claims demo_manager (6 * second) ''dev'' [''read:*''] token_lifetime"

definition demo_sign2 :: "string \<Rightarrow> claims \<Rightarrow> string + string" where
  "demo_sign2 k c = (if c = demo_claims then Inr (k @ ''.t'') else if c = demo_fresh then Inr (k @ ''.u'') else Inl ''x'')"

definition demo_parse2 :: jwt_parser where
  "demo_parse2 validate k now t =
     (if t = k @ ''.t'' \<and> (validate \<longrightarrow> now < 15 * second) then Inr (True, demo_claims)
      else if t = k @ ''.u'' \<and> (validate \<longrightarrow> now < 43206 * second) then Inr (True, demo_fresh)
      else Inl ''bad'')"

lemma demo_library: "jwt_library_ok demo_sign2 demo_parse2"
proof -
  have e: "get demo_claims ''exp'' = Some (CNumber 15)" "get demo_fresh ''exp'' = Some (CNumber 43206)"
    by code_simp+
  show ?thesis
    by (auto simp: jwt_library_ok_def demo_parse2_def demo_sign2_def e split: if_splits)
qed

definition demo_device_store :: store where
  "demo_device_store = empty_store\<lparr>st_devices := [(''dev'', \<lparr>dr_name = ''p'', dr_platform = ''ios'',
     dr_platform_version = [], dr_scopes = [''read:*''], dr_created_at = 1, dr_last_seen = 1\<rparr>)]\<rparr>"

lemma revoked_device_keeps_tokens_witness:
  "HandleRefresh demo_sign2 demo_parse2 demo_manager (6 * second)
     (demo_request\<lparr>rq_Header := [(''Authorization'', ''Bearer k.t'')]\<rparr>)
   = Paired ''k.u'' token_lifetime [''read:*''] ''dev''"
proof -
  let ?r = "demo_request\<lparr>rq_Method := ''DELETE'', rq_Path := ''/api/v1/devices/dev''\<rparr>"
  let ?rq = "demo_request\<lparr>rq_Header := [(''Authorization'', ''Bearer k.t'')]\<rparr>"
  have "snd (snd (HandleRevokeDevice demo_conn demo_conn demo_conn demo_device_store ?r)) = 200" by code_simp
  then obtain st' ev where r: "HandleRevokeDevice demo_conn demo_conn demo_conn demo_device_store ?r = (st', ev, 200)"
    by (cases "HandleRevokeDevice demo_conn demo_conn demo_conn demo_device_store ?r") auto
  have i: "extractDeviceIDFromPath (rq_Path ?r) = ''dev''" by code_simp
  have c: "jwt_claims demo_manager (5 * second) ''dev'' [''read:*''] (10 * second) = demo_claims"
    by (simp add: demo_claims_def)
  have s: "SignJWT demo_sign2 demo_manager (5 * second) ''dev'' [''read:*''] (10 * second) = Inr ''k.t''"
    by (simp add: SignJWT_def c demo_sign2_def) (simp add: demo_manager_def)
  have v: "\<not> IsRevoked (am_revocation demo_manager) (6 * second) ''k.t''"
    "\<not> IsDeviceRevoked (am_revocation demo_manager) (6 * second) ''dev''"
    "6 * second < (5 * second + 10 * second) div second * second"
    "ExtractBearerToken ?rq = ''k.t''" "extractBearerToken ?rq = ''k.t''"
    by code_simp+
  have ne: "demo_fresh \<noteq> demo_claims"
  proof
    assume "demo_fresh = demo_claims"
    then have "get demo_fresh ''exp'' = get demo_claims ''exp''" by simp
    moreover have "get demo_claims ''exp'' = Some (CNumber 15)" "get demo_fresh ''exp'' = Some (CNumber 43206)"
      by code_simp+
    ultimately show False by simp
  qed
  have f: "demo_sign2 (am_jwtSecret demo_manager)
      (jwt_claims demo_manager (6 * second) ''dev'' [''read:*''] token_lifetime) = Inr ''k.u''"
    using ne by (simp add: demo_sign2_def flip: demo_fresh_def) (simp add: demo_manager_def)
  from revoked_device_keeps_tokens [OF r i demo_library s v(1-5) f] show ?thesis by blast
qed

text \<open>Some devices cannot be revoked: pairing accepts device IDs of up to 255 characters with any
  content, but the revocation endpoint recognises only IDs of at most 100 characters without slash,
  backslash or double dot, so a device with another ID stays in the store whatever request is made.\<close>

theorem unrevocable_device:
  assumes "length i > MaxDeviceIDLength \<or> Contains i ''/'' \<or> Contains i [CHR 0x5C] \<or> Contains i ''..''"
    and "get (st_devices st) i = Some d"
  shows "get (st_devices (fst (HandleRevokeDevice c1 c2 c3 st r))) i = Some d"
proof -
  have "i \<noteq> []"
  proof
    assume "i = []"
    with assms(1) show False by (auto simp: Contains_iff)
  qed
  then have "extractDeviceIDFromPath p \<noteq> i" for p
    using assms(1) by (auto simp: extractDeviceIDFromPath_def Let_def)
  moreover have "get (st_devices st1) i = get (st_devices st) i" if "DeleteDevice c st j = Inr st1" "j \<noteq> i" for c j st1
    using that by (auto simp: DeleteDevice_def Let_def get_del split: if_splits)
  moreover have "st_devices st2 = st_devices st1" if "DeleteNotificationsForDevice c st1 j = Inr (st2, n)" for c j st1 st2 n
    using that by (auto simp: DeleteNotificationsForDevice_def Let_def split: if_splits)
  ultimately show ?thesis
    using assms(2) unfolding HandleRevokeDevice_def Let_def by (simp split: sum.split option.split)
qed

lemma unrevocable_device_witness:
  "ValidatePair \<lparr>pq_ID = ''a/b'', pq_Model = [], pq_Platform = ''ios'', pq_PushToken = None\<rparr> = None \<and>
   get (st_devices (fst (HandleRevokeDevice demo_conn demo_conn demo_conn
     (demo_device_store\<lparr>st_devices := map (\<lambda>(k, d). (''a/b'', d)) (st_devices demo_device_store)\<rparr>)
     (demo_request\<lparr>rq_Method := ''DELETE'', rq_Path := ''/api/v1/devices/a/b''\<rparr>)))) ''a/b'' \<noteq> None"
proof -
  let ?st = "demo_device_store\<lparr>st_devices := map (\<lambda>(k, d). (''a/b'', d)) (st_devices demo_device_store)\<rparr>"
  have c: "Contains ''a/b'' ''/''" by code_simp
  have v: "ValidatePair \<lparr>pq_ID = ''a/b'', pq_Model = [], pq_Platform = ''ios'', pq_PushToken = None\<rparr> = None" by code_simp
  obtain d where d: "get (st_devices ?st) ''a/b'' = Some d" by (auto simp: demo_device_store_def)
  from unrevocable_device [OF disjI2 [OF disjI1 [OF c]] d] v show ?thesis by simp
qed

end
