(* ===== verification/Notifications.thy ===== *)
theory Notifications
  imports WebSocket Store
begin

text \<open>
  \<open>internal/notifications\<close>: the tracker of unacknowledged notifications (\<open>ack_tracker.go\<close>), the
  delivery queue (\<open>queue.go\<close>), the service that fans out to devices (\<open>service.go\<close>, \<open>config.go\<close>) and
  the WebSocket deliverer (\<open>websocket_deliverer.go\<close>), wired as in \<open>cmd/nekzus/main.go\<close>.  The queue
  knows its deliverer only through the interface \<open>Deliverer\<close>, so its operations take the delivery
  function as an argument; the locale \<open>delivery\<close> states what it relies on.  Workers are steps that
  take one notification from the channel.  \<open>uuid n\<close> is the \<open>n\<close>-th identifier the uuid library hands out.
\<close>

section \<open>The ACK tracker\<close>

record pending_notification =
  pn_StorageID :: int
  pn_DeviceID :: string
  pn_Type :: string
  pn_Payload :: string
  pn_SentAt :: gotime
  pn_ExpiresAt :: gotime

record ack_tracker =
  at_ACKTimeout :: duration
  at_pending :: "(string, pending_notification) gomap"
  at_issued :: nat

definition NewACKTracker :: "duration \<Rightarrow> ack_tracker" where
  "NewACKTracker ackTimeout =
     \<lparr>at_ACKTimeout = (if ackTimeout = 0 then 30 * second else ackTimeout), at_pending = [], at_issued = 0\<rparr>"

definition Register ::
  "(nat \<Rightarrow> string) \<Rightarrow> gotime \<Rightarrow> ack_tracker \<Rightarrow> string \<Rightarrow> string \<Rightarrow> string \<Rightarrow> int \<Rightarrow> ack_tracker \<times> string" where
  "Register uuid now t deviceID msgType payload storageID =
     (let notifID = uuid (at_issued t) in
      (t\<lparr>at_issued := at_issued t + 1,
         at_pending := put notifID
           \<lparr>pn_StorageID = storageID, pn_DeviceID = deviceID, pn_Type = msgType, pn_Payload = payload,
            pn_SentAt = now, pn_ExpiresAt = now + at_ACKTimeout t\<rparr> (at_pending t)\<rparr>, notifID))"

text \<open>The second result is the call of the \<open>OnACK\<close> callback.\<close>

definition ACK :: "ack_tracker \<Rightarrow> string \<Rightarrow> ack_tracker \<times> (int \<times> string \<times> string) option" where
  "ACK t notifID =
     (case get (at_pending t) notifID of
        None \<Rightarrow> (t, None)
      | Some n \<Rightarrow> (t\<lparr>at_pending := del notifID (at_pending t)\<rparr>,
                   if pn_StorageID n > 0 then Some (pn_StorageID n, pn_Type n, pn_DeviceID n) else None))"

definition Cancel :: "ack_tracker \<Rightarrow> string \<Rightarrow> ack_tracker" where
  "Cancel t notifID = t\<lparr>at_pending := del notifID (at_pending t)\<rparr>"

definition IsPending :: "ack_tracker \<Rightarrow> string \<Rightarrow> bool" where
  "IsPending t notifID \<longleftrightarrow> has (at_pending t) notifID"

definition GetPendingCount :: "ack_tracker \<Rightarrow> int" where
  "GetPendingCount t = int (length (at_pending t))"

definition GetPendingForDevice :: "ack_tracker \<Rightarrow> string \<Rightarrow> string list" where
  "GetPendingForDevice t deviceID = map fst (filter (\<lambda>(i, n). pn_DeviceID n = deviceID) (at_pending t))"

definition checkTimeouts :: "gotime \<Rightarrow> ack_tracker \<Rightarrow> ack_tracker \<times> (string \<times> pending_notification) list" where
  "checkTimeouts now t =
     (t\<lparr>at_pending := del_if (\<lambda>i n. After now (pn_ExpiresAt n)) (at_pending t)\<rparr>,
      filter (\<lambda>(i, n). After now (pn_ExpiresAt n)) (at_pending t))"

section \<open>The WebSocket deliverer\<close>

record deliverer =
  dv_ws :: ws_manager
  dv_ackTracker :: "ack_tracker option"

datatype delivery_error = NotDelivered ws_error

definition error_text :: "delivery_error \<Rightarrow> string" where
  "error_text e = (case e of
      NotDelivered (DeviceNotConnected d) \<Rightarrow> ''device '' @ d @ '' is not connected via WebSocket''
    | NotDelivered _ \<Rightarrow> [])"

definition DeliverNotification ::
  "(nat \<Rightarrow> string) \<Rightarrow> gotime \<Rightarrow> deliverer \<Rightarrow> string \<Rightarrow> string \<Rightarrow> string \<Rightarrow> int \<Rightarrow> deliverer \<times> delivery_error option" where
  "DeliverNotification uuid now d deviceID msgType payload storageID =
     (case dv_ackTracker d of
        Some t \<Rightarrow>
          (case Register uuid now t deviceID msgType payload storageID of
             (t1, notifID) \<Rightarrow>
               (case SendNotification now deviceID notifID msgType payload (dv_ws d) of
                  (ws, Some e) \<Rightarrow> (\<lparr>dv_ws = ws, dv_ackTracker = Some (Cancel t1 notifID)\<rparr>, Some (NotDelivered e))
                | (ws, None) \<Rightarrow> (\<lparr>dv_ws = ws, dv_ackTracker = Some t1\<rparr>, None)))
      | None \<Rightarrow>
          (case SendToDevice deviceID ((ws_msg msgType (JSONText payload))\<lparr>ms_Timestamp := now\<rparr>) (dv_ws d) of
             (ws, Some e) \<Rightarrow> (d\<lparr>dv_ws := ws\<rparr>, Some (NotDelivered e))
           | (ws, None) \<Rightarrow> (d\<lparr>dv_ws := ws\<rparr>, None)))"

section \<open>The queue\<close>

record notification =
  nt_DeviceID :: string
  nt_Type :: string
  nt_Payload :: string
  nt_TTL :: duration
  nt_MaxRetries :: int
  nt_CreatedAt :: gotime

record queue_metrics =
  mt_enqueued :: int
  mt_failed :: int
  mt_expired :: int
  mt_retried :: int
  mt_storageFalls :: int

record 'd notif_queue =
  nq_BufferSize :: nat
  nq_store :: store
  nq_deliverer :: 'd
  nq_notifChan :: "notification list"
  nq_connectivity :: bool
  nq_metrics :: queue_metrics

definition NewQueue :: "nat \<Rightarrow> store \<Rightarrow> 'd \<Rightarrow> 'd notif_queue" where
  "NewQueue bufferSize store d =
     \<lparr>nq_BufferSize = bufferSize, nq_store = store, nq_deliverer = d, nq_notifChan = [], nq_connectivity = False,
      nq_metrics = \<lparr>mt_enqueued = 0, mt_failed = 0, mt_expired = 0, mt_retried = 0, mt_storageFalls = 0\<rparr>\<rparr>"

definition SetConnectivityChecker :: "'d notif_queue \<Rightarrow> 'd notif_queue" where
  "SetConnectivityChecker q = q\<lparr>nq_connectivity := True\<rparr>"

datatype queue_error = StorageFault db_error | BufferFullPersisted

definition Enqueue ::
  "conn \<Rightarrow> gotime \<Rightarrow> 'd notif_queue \<Rightarrow> string \<Rightarrow> string \<Rightarrow> string \<Rightarrow> duration \<Rightarrow> int \<Rightarrow> 'd notif_queue \<times> queue_error option" where
  "Enqueue c now q0 deviceID msgType payload ttl maxRetries =
     (let notif = \<lparr>nt_DeviceID = deviceID, nt_Type = msgType, nt_Payload = payload, nt_TTL = ttl,
                   nt_MaxRetries = maxRetries, nt_CreatedAt = now\<rparr>;
          q = q0\<lparr>nq_metrics := (nq_metrics q0)\<lparr>mt_enqueued := mt_enqueued (nq_metrics q0) + 1\<rparr>\<rparr>
      in if length (nq_notifChan q) < nq_BufferSize q
         then (q\<lparr>nq_notifChan := nq_notifChan q @ [notif]\<rparr>, None)
         else
           (let q1 = q\<lparr>nq_metrics := (nq_metrics q)\<lparr>mt_storageFalls := mt_storageFalls (nq_metrics q) + 1\<rparr>\<rparr> in
            case EnqueueNotification c (nq_store q1) deviceID msgType payload ttl maxRetries of
              Inl e \<Rightarrow> (q1, Some (StorageFault e))
            | Inr (st, i) \<Rightarrow> (q1\<lparr>nq_store := st\<rparr>, Some BufferFullPersisted)))"

definition count_retry :: "'d notif_queue \<Rightarrow> 'd notif_queue" where
  "count_retry q = q\<lparr>nq_metrics := (nq_metrics q)\<lparr>mt_retried := mt_retried (nq_metrics q) + 1\<rparr>\<rparr>"

definition count_expired :: "'d notif_queue \<Rightarrow> 'd notif_queue" where
  "count_expired q = q\<lparr>nq_metrics := (nq_metrics q)\<lparr>mt_expired := mt_expired (nq_metrics q) + 1\<rparr>\<rparr>"

definition count_failed :: "'d notif_queue \<Rightarrow> 'd notif_queue" where
  "count_failed q = q\<lparr>nq_metrics := (nq_metrics q)\<lparr>mt_failed := mt_failed (nq_metrics q) + 1\<rparr>\<rparr>"

text \<open>Statements whose failure is only logged.\<close>

definition store_logged :: "(store \<Rightarrow> db_error + store) \<Rightarrow> 'd notif_queue \<Rightarrow> 'd notif_queue" where
  "store_logged f q = (case f (nq_store q) of Inl e \<Rightarrow> q | Inr st \<Rightarrow> q\<lparr>nq_store := st\<rparr>)"

type_synonym 'd delivery_fun =
  "gotime \<Rightarrow> 'd \<Rightarrow> string \<Rightarrow> string \<Rightarrow> string \<Rightarrow> int \<Rightarrow> 'd \<times> delivery_error option"

definition processNotification ::
  "'d delivery_fun \<Rightarrow> conn \<Rightarrow> conn \<Rightarrow> gotime \<Rightarrow> 'd notif_queue \<Rightarrow> notification \<Rightarrow> 'd notif_queue" where
  "processNotification deliver c1 c2 now q n =
     (if nt_TTL n > 0 \<and> now - nt_CreatedAt n > nt_TTL n then count_expired q
      else
        (case EnqueueNotification c1 (nq_store q) (nt_DeviceID n) (nt_Type n) (nt_Payload n) (nt_TTL n) (nt_MaxRetries n) of
           Inl e \<Rightarrow> count_failed q
         | Inr (st, storageID) \<Rightarrow>
             (case deliver now (nq_deliverer q) (nt_DeviceID n) (nt_Type n) (nt_Payload n) storageID of
                (d, None) \<Rightarrow> q\<lparr>nq_store := st, nq_deliverer := d\<rparr>
              | (d, Some e) \<Rightarrow>
                  count_retry (store_logged (\<lambda>st. UpdateNotificationRetry c2 st storageID (error_text e))
                    (q\<lparr>nq_store := st, nq_deliverer := d\<rparr>)))))"

definition work :: "'d delivery_fun \<Rightarrow> conn \<Rightarrow> conn \<Rightarrow> gotime \<Rightarrow> 'd notif_queue \<Rightarrow> 'd notif_queue" where
  "work deliver c1 c2 now q =
     (case nq_notifChan q of
        [] \<Rightarrow> q
      | n # ns \<Rightarrow> processNotification deliver c1 c2 now (q\<lparr>nq_notifChan := ns\<rparr>) n)"

text \<open>The connections of the statements for each stored notification.\<close>

record retry_conns =
  rc_mark :: "int \<Rightarrow> conn"
  rc_reset :: "int \<Rightarrow> conn"
  rc_update :: "int \<Rightarrow> conn"

definition attempt ::
  "'d delivery_fun \<Rightarrow> retry_conns \<Rightarrow> gotime \<Rightarrow> 'd notif_queue \<Rightarrow> stored_notification \<Rightarrow> 'd notif_queue \<times> bool" where
  "attempt deliver rc now q n =
     (case deliver now (nq_deliverer q) (sn_DeviceID n) (sn_Type n) (sn_Payload n) (sn_ID n) of
        (d, None) \<Rightarrow> (q\<lparr>nq_deliverer := d\<rparr>, True)
      | (d, Some e) \<Rightarrow>
          (store_logged (\<lambda>st. UpdateNotificationRetry (rc_update rc (sn_ID n)) st (sn_ID n) (error_text e))
             (count_retry (q\<lparr>nq_deliverer := d\<rparr>)), False))"

definition retry_one ::
  "'d delivery_fun \<Rightarrow> retry_conns \<Rightarrow> gotime \<Rightarrow> 'd notif_queue \<Rightarrow> stored_notification \<Rightarrow> 'd notif_queue" where
  "retry_one deliver rc now q n =
     (if After now (sn_ExpiresAt n)
      then store_logged (\<lambda>st. MarkNotificationExpired (rc_mark rc (sn_ID n)) st (sn_ID n)) (count_expired q)
      else if sn_Status n = NFailed
      then (case ResetNotificationForRetry (rc_reset rc (sn_ID n)) (nq_store q) (sn_ID n) of
              Inl e \<Rightarrow> q
            | Inr st \<Rightarrow> fst (attempt deliver rc now (q\<lparr>nq_store := st\<rparr>) n))
      else fst (attempt deliver rc now q n))"

definition RetryDevice ::
  "'d delivery_fun \<Rightarrow> conn \<Rightarrow> retry_conns \<Rightarrow> gotime \<Rightarrow> 'd notif_queue \<Rightarrow> string \<Rightarrow> 'd notif_queue \<times> db_error option" where
  "RetryDevice deliver c rc now q deviceID =
     (case GetPendingNotifications c (nq_store q) deviceID of
        Inl e \<Rightarrow> (q, Some e)
      | Inr pending \<Rightarrow> (foldl (retry_one deliver rc now) q pending, None))"

datatype retry_error = RetryFault db_error | NotificationNotFound | DeviceNotReachable | NotificationExpired

definition RetryNotification ::
  "'d delivery_fun \<Rightarrow> ('d \<Rightarrow> string \<Rightarrow> bool) \<Rightarrow> conn \<Rightarrow> retry_conns \<Rightarrow> gotime \<Rightarrow> 'd notif_queue \<Rightarrow> int
   \<Rightarrow> 'd notif_queue \<times> (retry_error + bool)" where
  "RetryNotification deliver connected c rc now q i =
     (case GetNotificationByID c (nq_store q) i of
        Inl e \<Rightarrow> (q, Inl (RetryFault e))
      | Inr None \<Rightarrow> (q, Inl NotificationNotFound)
      | Inr (Some n) \<Rightarrow>
          if nq_connectivity q \<and> \<not> connected (nq_deliverer q) (sn_DeviceID n) then (q, Inl DeviceNotReachable)
          else if After now (sn_ExpiresAt n)
          then (store_logged (\<lambda>st. MarkNotificationExpired (rc_mark rc i) st i) (count_expired q), Inl NotificationExpired)
          else
            (case attempt deliver rc now
                    (store_logged (\<lambda>st. ResetNotificationForRetry (rc_reset rc i) st i) q) n of
               (q', sent) \<Rightarrow> (q', Inr sent)))"

section \<open>The service\<close>

record type_config =
  tc_TTL :: duration
  tc_MaxRetries :: int

record service_config =
  sv_DefaultTTL :: duration
  sv_DefaultMaxRetries :: int
  sv_TypeConfigs :: "(string, type_config) gomap"

definition DefaultServiceConfig :: service_config where
  "DefaultServiceConfig =
     \<lparr>sv_DefaultTTL = 30 * 24 * hour, sv_DefaultMaxRetries = 10,
      sv_TypeConfigs =
        [(''repair_required'', \<lparr>tc_TTL = 30 * 24 * hour, tc_MaxRetries = 20\<rparr>),
         (''device_revoked'', \<lparr>tc_TTL = 30 * 24 * hour, tc_MaxRetries = 10\<rparr>),
         (''device_paired'', \<lparr>tc_TTL = 30 * 24 * hour, tc_MaxRetries = 10\<rparr>),
         (''health_change'', \<lparr>tc_TTL = 30 * 24 * hour, tc_MaxRetries = 10\<rparr>),
         (''health_alert'', \<lparr>tc_TTL = 30 * 24 * hour, tc_MaxRetries = 10\<rparr>),
         (''port_exposure_warning'', \<lparr>tc_TTL = 30 * 24 * hour, tc_MaxRetries = 10\<rparr>)]\<rparr>"

definition GetTypeConfig :: "service_config \<Rightarrow> string \<Rightarrow> type_config" where
  "GetTypeConfig cfg msgType =
     (case get (sv_TypeConfigs cfg) msgType of
        Some tc \<Rightarrow> tc
      | None \<Rightarrow> \<lparr>tc_TTL = sv_DefaultTTL cfg, tc_MaxRetries = sv_DefaultMaxRetries cfg\<rparr>)"

definition Send ::
  "service_config \<Rightarrow> conn \<Rightarrow> gotime \<Rightarrow> 'd notif_queue \<Rightarrow> string \<Rightarrow> string \<Rightarrow> string \<Rightarrow> 'd notif_queue \<times> queue_error option" where
  "Send cfg c now q deviceID msgType payload =
     (let tc = GetTypeConfig cfg msgType in
      Enqueue c now q deviceID msgType payload (tc_TTL tc) (tc_MaxRetries tc))"

text \<open>The devices as \<open>ListDevices\<close> returns them, each with the connection of its enqueueing.\<close>

definition SendToAll ::
  "service_config \<Rightarrow> gotime \<Rightarrow> 'd notif_queue \<Rightarrow> db_error + (string \<times> conn) list \<Rightarrow> string \<Rightarrow> string
   \<Rightarrow> 'd notif_queue \<times> queue_error option" where
  "SendToAll cfg now q devices msgType payload =
     (case devices of
        Inl e \<Rightarrow> (q, Some (StorageFault e))
      | Inr ds \<Rightarrow>
          (let tc = GetTypeConfig cfg msgType in
           foldl (\<lambda>(q, lastErr) (d, c).
             case Enqueue c now q d msgType payload (tc_TTL tc) (tc_MaxRetries tc) of
               (q', Some e) \<Rightarrow> (q', Some e)
             | (q', None) \<Rightarrow> (q', lastErr)) (q, None) ds))"

section \<open>Acknowledgements\<close>

text \<open>\<open>handleNotificationACK\<close> with the \<open>OnACK\<close> callback of the application.\<close>

definition handleNotificationACK :: "conn \<Rightarrow> deliverer notif_queue \<Rightarrow> string \<Rightarrow> deliverer notif_queue" where
  "handleNotificationACK c q notifID =
     (if notifID = [] then q
      else (case dv_ackTracker (nq_deliverer q) of
              None \<Rightarrow> q
            | Some t \<Rightarrow>
                (case ACK t notifID of
                   (t', cb) \<Rightarrow>
                     (let q1 = q\<lparr>nq_deliverer := (nq_deliverer q)\<lparr>dv_ackTracker := Some t'\<rparr>\<rparr> in
                      case cb of
                        None \<Rightarrow> q1
                      | Some (storageID, msgType, deviceID) \<Rightarrow>
                          if storageID > 0 then store_logged (\<lambda>st. MarkNotificationDelivered c st storageID) q1
                          else q1))))"

definition ack_timeouts :: "gotime \<Rightarrow> deliverer notif_queue \<Rightarrow> deliverer notif_queue" where
  "ack_timeouts now q =
     (case dv_ackTracker (nq_deliverer q) of
        None \<Rightarrow> q
      | Some t \<Rightarrow> q\<lparr>nq_deliverer := (nq_deliverer q)\<lparr>dv_ackTracker := Some (fst (checkTimeouts now t))\<rparr>\<rparr>)"

section \<open>Stored notifications\<close>

definition notifs_ok :: "store \<Rightarrow> bool" where
  "notifs_ok st \<longleftrightarrow> wf_map (st_notifs st) \<and>
     (\<forall>i n. get (st_notifs st) i = Some n \<longrightarrow> sn_ID n = i \<and> 0 < i \<and> i < st_next_notif st) \<and> 0 < st_next_notif st"

text \<open>The notification is in the store and neither delivered nor expired nor dismissed.\<close>

definition open_notif :: "store \<Rightarrow> int \<Rightarrow> string \<Rightarrow> string \<Rightarrow> string \<Rightarrow> gotime \<Rightarrow> bool" where
  "open_notif st i dev ty pl e \<longleftrightarrow> (\<exists>n. get (st_notifs st) i = Some n \<and> sn_DeviceID n = dev \<and> sn_Type n = ty
     \<and> sn_Payload n = pl \<and> sn_ExpiresAt n = e \<and> sn_Status n \<in> {NPending, NFailed})"

text \<open>A change of the notification table that touches at most one entry, keeping its identity.\<close>

definition touches :: "int \<Rightarrow> store \<Rightarrow> store \<Rightarrow> bool" where
  "touches i st st' \<longleftrightarrow> (\<exists>f. st_notifs st' = adjust i f (st_notifs st) \<and>
     (\<forall>n. sn_ID (f n) = sn_ID n \<and> sn_DeviceID (f n) = sn_DeviceID n \<and> sn_Type (f n) = sn_Type n
        \<and> sn_Payload (f n) = sn_Payload n \<and> sn_ExpiresAt (f n) = sn_ExpiresAt n))
     \<and> st_next_notif st' = st_next_notif st"

lemma touches_refl: "touches i st st"
  unfolding touches_def
proof (intro conjI exI [of _ "\<lambda>n. n"] allI)
  show "st_notifs st = adjust i (\<lambda>n. n) (st_notifs st)" by (induction "st_notifs st") (auto simp: adjust_def)
qed auto

lemma adjust_adjust: "adjust i g (adjust i f m) = adjust i (\<lambda>n. g (f n)) m"
  by (simp add: adjust_def split_beta comp_def)

lemma notif_statements_touch:
  "MarkNotificationExpired c st i = Inr st' \<Longrightarrow> touches i st st'"
  "MarkNotificationDelivered c st i = Inr st' \<Longrightarrow> touches i st st'"
  "ResetNotificationForRetry c st i = Inr st' \<Longrightarrow> touches i st st'"
  "UpdateNotificationRetry c st i msg = Inr st' \<Longrightarrow> touches i st st'"
proof -
  let ?same = "\<lambda>f. \<forall>n. sn_ID (f n) = sn_ID n \<and> sn_DeviceID (f n) = sn_DeviceID n \<and> sn_Type (f n) = sn_Type n
     \<and> sn_Payload (f n) = sn_Payload n \<and> sn_ExpiresAt (f n) = sn_ExpiresAt n"
  have T: "touches i st (st\<lparr>st_notifs := adjust i f (st_notifs st)\<rparr>)" if "?same f" for f
    unfolding touches_def by (intro conjI exI [of _ f]) (use that in simp_all)
  show "MarkNotificationExpired c st i = Inr st' \<Longrightarrow> touches i st st'"
    "MarkNotificationDelivered c st i = Inr st' \<Longrightarrow> touches i st st'"
    "ResetNotificationForRetry c st i = Inr st' \<Longrightarrow> touches i st st'"
    by (auto simp: MarkNotificationExpired_def MarkNotificationDelivered_def ResetNotificationForRetry_def
        split: if_splits intro!: T)
  show "UpdateNotificationRetry c st i msg = Inr st' \<Longrightarrow> touches i st st'"
    by (auto simp: UpdateNotificationRetry_def Let_def adjust_adjust split: if_splits intro!: T)
qed

lemma touches_trans:
  assumes "touches i st st'" "touches i st' st''" shows "touches i st st''"
proof -
  from assms obtain f g where "st_notifs st' = adjust i f (st_notifs st)" "st_notifs st'' = adjust i g (st_notifs st')"
    and fg: "\<forall>n. sn_ID (f n) = sn_ID n \<and> sn_DeviceID (f n) = sn_DeviceID n \<and> sn_Type (f n) = sn_Type n
        \<and> sn_Payload (f n) = sn_Payload n \<and> sn_ExpiresAt (f n) = sn_ExpiresAt n"
      "\<forall>n. sn_ID (g n) = sn_ID n \<and> sn_DeviceID (g n) = sn_DeviceID n \<and> sn_Type (g n) = sn_Type n
        \<and> sn_Payload (g n) = sn_Payload n \<and> sn_ExpiresAt (g n) = sn_ExpiresAt n"
    and "st_next_notif st'' = st_next_notif st"
    unfolding touches_def by auto
  then show ?thesis unfolding touches_def by (intro conjI exI [of _ "\<lambda>n. g (f n)"]) (simp_all add: adjust_adjust)
qed

lemma touches_ok: "notifs_ok st \<Longrightarrow> touches i st st' \<Longrightarrow> notifs_ok st'"
  by (auto simp: notifs_ok_def touches_def get_adjust split: if_splits)

lemma touches_other: "touches j st st' \<Longrightarrow> i \<noteq> j \<Longrightarrow> get (st_notifs st') i = get (st_notifs st) i"
  by (auto simp: touches_def get_adjust)

lemma touches_other_open: "touches j st st' \<Longrightarrow> i \<noteq> j \<Longrightarrow> open_notif st' i dev ty pl e = open_notif st i dev ty pl e"
  by (simp add: open_notif_def touches_other)

lemma Reset_open:
  "ResetNotificationForRetry c st j = Inr st' \<Longrightarrow> open_notif st i dev ty pl e \<Longrightarrow> open_notif st' i dev ty pl e"
  by (auto simp: ResetNotificationForRetry_def open_notif_def get_adjust split: if_splits)

lemma Update_open:
  "UpdateNotificationRetry c st j msg = Inr st' \<Longrightarrow> open_notif st i dev ty pl e \<Longrightarrow> open_notif st' i dev ty pl e"
  by (cases "i = j")
     (auto simp: UpdateNotificationRetry_def open_notif_def adjust_adjust get_adjust Let_def split: if_splits)

lemma EnqueueNotification_keeps:
  assumes "EnqueueNotification c st d t p ttl mr = Inr (st', j)" "notifs_ok st"
  shows "notifs_ok st'" "open_notif st i dev ty pl e \<Longrightarrow> open_notif st' i dev ty pl e"
    "j = st_next_notif st" "open_notif st' j d t p (cn_now c + ttl)"
proof -
  let ?n = "\<lparr>sn_ID = st_next_notif st, sn_DeviceID = d, sn_Type = t, sn_Payload = p, sn_Status = NPending,
     sn_RetryCount = 0, sn_MaxRetries = mr, sn_CreatedAt = cn_now c, sn_ExpiresAt = cn_now c + ttl,
     sn_DeliveredAt = None, sn_LastAttemptAt = None, sn_ErrorMessage = None\<rparr>"
  have st': "st_notifs st' = put (st_next_notif st) ?n (st_notifs st)" "st_next_notif st' = st_next_notif st + 1"
    "j = st_next_notif st"
    using assms(1) by (auto simp: EnqueueNotification_def Let_def split: if_splits)
  have old: "sn_ID m = k \<and> 0 < k \<and> k < st_next_notif st" if "get (st_notifs st) k = Some m" for k m
    using assms(2) that by (simp add: notifs_ok_def)
  from old [of "st_next_notif st"] have absent: "get (st_notifs st) (st_next_notif st) = None"
    by (cases "get (st_notifs st) (st_next_notif st)") auto
  show "j = st_next_notif st" by (rule st'(3))
  show "open_notif st' j d t p (cn_now c + ttl)" by (simp add: open_notif_def st' get_put)
  show "open_notif st i dev ty pl e \<Longrightarrow> open_notif st' i dev ty pl e"
    using absent by (auto simp: open_notif_def st' get_put)
  show "notifs_ok st'" using assms(2) old by (fastforce simp: notifs_ok_def st' get_put split: if_splits)
qed

section \<open>What the queue relies on\<close>

text \<open>A delivery that succeeds leaves the notification awaiting its acknowledgement, and no delivery
  makes another one forgotten.\<close>

locale delivery =
  fixes deliver :: "'d delivery_fun"
    and awaiting :: "'d \<Rightarrow> int \<Rightarrow> bool"
    and dinv :: "'d \<Rightarrow> bool"
  assumes deliver_inv: "dinv d \<Longrightarrow> deliver now d dev ty pl i = (d', r) \<Longrightarrow> dinv d'"
    and deliver_sent: "dinv d \<Longrightarrow> deliver now d dev ty pl i = (d', None) \<Longrightarrow> awaiting d' i"
    and deliver_keeps: "dinv d \<Longrightarrow> deliver now d dev ty pl i = (d', r) \<Longrightarrow> awaiting d j \<Longrightarrow> awaiting d' j"
begin

definition qinv :: "'d notif_queue \<Rightarrow> bool" where
  "qinv q \<longleftrightarrow> notifs_ok (nq_store q) \<and> dinv (nq_deliverer q)"

definition handled :: "'d notif_queue \<Rightarrow> int \<Rightarrow> gotime \<Rightarrow> bool" where
  "handled q i a \<longleftrightarrow> awaiting (nq_deliverer q) i
     \<or> (\<exists>n. get (st_notifs (nq_store q)) i = Some n \<and> sn_LastAttemptAt n = Some a)"

lemma attempt_facts:
  assumes "attempt deliver rc now q n = (q', sent)" "qinv q"
  shows "qinv q'" "touches (sn_ID n) (nq_store q) (nq_store q')" "nq_notifChan q' = nq_notifChan q"
    "open_notif (nq_store q) i dev ty pl e \<Longrightarrow> open_notif (nq_store q') i dev ty pl e"
    "awaiting (nq_deliverer q) j \<Longrightarrow> awaiting (nq_deliverer q') j"
    "cn_ok (rc_update rc (sn_ID n)) \<Longrightarrow> get (st_notifs (nq_store q)) (sn_ID n) \<noteq> None \<Longrightarrow>
       handled q' (sn_ID n) (cn_now (rc_update rc (sn_ID n)))"
proof -
  obtain d r where d: "deliver now (nq_deliverer q) (sn_DeviceID n) (sn_Type n) (sn_Payload n) (sn_ID n) = (d, r)"
    by fastforce
  have inv: "dinv (nq_deliverer q)" "notifs_ok (nq_store q)" using assms(2) by (auto simp: qinv_def)
  have "qinv q' \<and> touches (sn_ID n) (nq_store q) (nq_store q') \<and> nq_notifChan q' = nq_notifChan q
     \<and> (open_notif (nq_store q) i dev ty pl e \<longrightarrow> open_notif (nq_store q') i dev ty pl e)
     \<and> (awaiting (nq_deliverer q) j \<longrightarrow> awaiting (nq_deliverer q') j)
     \<and> (cn_ok (rc_update rc (sn_ID n)) \<longrightarrow> get (st_notifs (nq_store q)) (sn_ID n) \<noteq> None \<longrightarrow>
          handled q' (sn_ID n) (cn_now (rc_update rc (sn_ID n))))"
  proof (cases r)
    case None
    with d have "deliver now (nq_deliverer q) (sn_DeviceID n) (sn_Type n) (sn_Payload n) (sn_ID n) = (d, None)" by simp
    note D = deliver_inv [OF inv(1) this] deliver_sent [OF inv(1) this] deliver_keeps [OF inv(1) this]
    from None d assms(1) have q': "q' = q\<lparr>nq_deliverer := d\<rparr>" by (simp add: attempt_def)
    show ?thesis using D inv by (simp add: q' qinv_def handled_def touches_refl)
  next
    case (Some err)
    note D = deliver_inv [OF inv(1) d] deliver_keeps [OF inv(1) d]
    let ?u = "UpdateNotificationRetry (rc_update rc (sn_ID n)) (nq_store q) (sn_ID n) (error_text err)"
    from Some d assms(1) have q': "nq_deliverer q' = d" "nq_notifChan q' = nq_notifChan q"
        "nq_store q' = (case ?u of Inl e \<Rightarrow> nq_store q | Inr st \<Rightarrow> st)"
      by (auto simp: attempt_def store_logged_def count_retry_def split: sum.split)
    show ?thesis
    proof (cases ?u)
      case (Inl e')
      then have "\<not> cn_ok (rc_update rc (sn_ID n))" by (auto simp: UpdateNotificationRetry_def Let_def split: if_splits)
      with q' Inl D inv show ?thesis by (simp add: qinv_def touches_refl)
    next
      case (Inr st)
      have t: "touches (sn_ID n) (nq_store q) st" by (rule notif_statements_touch(4) [OF Inr])
      have "get (st_notifs (nq_store q)) (sn_ID n) \<noteq> None \<Longrightarrow>
          \<exists>m. get (st_notifs st) (sn_ID n) = Some m \<and> sn_LastAttemptAt m = Some (cn_now (rc_update rc (sn_ID n)))"
        using Inr by (auto simp: UpdateNotificationRetry_def Let_def adjust_adjust get_adjust split: if_splits)
      with q' Inr D inv t touches_ok [OF inv(2) t] Update_open [OF Inr] show ?thesis
        by (auto simp: qinv_def handled_def)
    qed
  qed
  then show "qinv q'" "touches (sn_ID n) (nq_store q) (nq_store q')" "nq_notifChan q' = nq_notifChan q"
    "open_notif (nq_store q) i dev ty pl e \<Longrightarrow> open_notif (nq_store q') i dev ty pl e"
    "awaiting (nq_deliverer q) j \<Longrightarrow> awaiting (nq_deliverer q') j"
    "cn_ok (rc_update rc (sn_ID n)) \<Longrightarrow> get (st_notifs (nq_store q)) (sn_ID n) \<noteq> None \<Longrightarrow>
       handled q' (sn_ID n) (cn_now (rc_update rc (sn_ID n)))"
    by blast+
qed

lemma retry_one_facts:
  fixes rc :: retry_conns and now :: gotime
  assumes "qinv q" "get (st_notifs (nq_store q)) (sn_ID n) \<noteq> None"
  defines "q' \<equiv> retry_one deliver rc now q n"
  shows "qinv q'" "touches (sn_ID n) (nq_store q) (nq_store q')"
    "open_notif (nq_store q) i dev ty pl e \<Longrightarrow> (sn_ID n = i \<longrightarrow> now \<le> sn_ExpiresAt n) \<Longrightarrow>
       open_notif (nq_store q') i dev ty pl e"
    "awaiting (nq_deliverer q) j \<Longrightarrow> awaiting (nq_deliverer q') j"
    "now \<le> sn_ExpiresAt n \<Longrightarrow> cn_ok (rc_reset rc (sn_ID n)) \<Longrightarrow> cn_ok (rc_update rc (sn_ID n)) \<Longrightarrow>
       handled q' (sn_ID n) (cn_now (rc_update rc (sn_ID n)))"
proof -
  have ok: "notifs_ok (nq_store q)" using assms(1) by (simp add: qinv_def)
  have "qinv q' \<and> touches (sn_ID n) (nq_store q) (nq_store q')
    \<and> (open_notif (nq_store q) i dev ty pl e \<longrightarrow> (sn_ID n = i \<longrightarrow> now \<le> sn_ExpiresAt n) \<longrightarrow>
       open_notif (nq_store q') i dev ty pl e)
    \<and> (awaiting (nq_deliverer q) j \<longrightarrow> awaiting (nq_deliverer q') j)
    \<and> (now \<le> sn_ExpiresAt n \<longrightarrow> cn_ok (rc_reset rc (sn_ID n)) \<longrightarrow> cn_ok (rc_update rc (sn_ID n)) \<longrightarrow>
       handled q' (sn_ID n) (cn_now (rc_update rc (sn_ID n))))"
  proof (cases "now \<le> sn_ExpiresAt n")
    case False
    let ?m = "MarkNotificationExpired (rc_mark rc (sn_ID n)) (nq_store q) (sn_ID n)"
    from False have q': "nq_deliverer q' = nq_deliverer q"
        "nq_store q' = (case ?m of Inl e \<Rightarrow> nq_store q | Inr st \<Rightarrow> st)"
      by (auto simp: q'_def retry_one_def store_logged_def count_expired_def split: sum.split)
    show ?thesis
    proof (cases ?m)
      case (Inl e')
      then show ?thesis using False q' assms(1) by (simp add: qinv_def touches_refl)
    next
      case (Inr st)
      from notif_statements_touch(1) [OF this] have t: "touches (sn_ID n) (nq_store q) st" .
      from Inr False q' assms(1) t touches_ok [OF ok t] touches_other_open [OF t] show ?thesis
        by (auto simp: qinv_def)
    qed
  next
    case live: True
    have base: "qinv q'' \<and> touches (sn_ID n) q0 (nq_store q'')
      \<and> (open_notif (nq_store q1) i dev ty pl e \<longrightarrow> open_notif (nq_store q'') i dev ty pl e)
      \<and> (awaiting (nq_deliverer q1) j \<longrightarrow> awaiting (nq_deliverer q'') j)
      \<and> (cn_ok (rc_update rc (sn_ID n)) \<longrightarrow> handled q'' (sn_ID n) (cn_now (rc_update rc (sn_ID n))))"
      if "q'' = fst (attempt deliver rc now q1 n)" "qinv q1" "touches (sn_ID n) q0 (nq_store q1)"
        "get (st_notifs (nq_store q1)) (sn_ID n) \<noteq> None" for q1 q'' q0
    proof -
      have "attempt deliver rc now q1 n = (q'', snd (attempt deliver rc now q1 n))" using that(1) by simp
      note A = attempt_facts [OF this that(2)]
      show ?thesis using A(1,4,5) A(6) [OF _ that(4)] touches_trans [OF that(3) A(2)] by blast
    qed
    show ?thesis
    proof (cases "sn_Status n = NFailed")
      case False
      with live have "q' = fst (attempt deliver rc now q n)" by (simp add: q'_def retry_one_def)
      from base [OF this assms(1) touches_refl assms(2)] live show ?thesis by blast
    next
      case True
      let ?r = "ResetNotificationForRetry (rc_reset rc (sn_ID n)) (nq_store q) (sn_ID n)"
      show ?thesis
      proof (cases ?r)
        case (Inl e')
        with True live have "q' = q" by (simp add: q'_def retry_one_def)
        moreover from Inl assms(2) have "\<not> cn_ok (rc_reset rc (sn_ID n))"
          by (auto simp: ResetNotificationForRetry_def has_def split: if_splits)
        ultimately show ?thesis using assms(1) by (simp add: touches_refl)
      next
        case (Inr st)
        let ?q1 = "q\<lparr>nq_store := st\<rparr>"
        have t: "touches (sn_ID n) (nq_store q) st" by (rule notif_statements_touch(3) [OF Inr])
        have "q' = fst (attempt deliver rc now ?q1 n)" using True live Inr by (simp add: q'_def retry_one_def)
        moreover have "qinv ?q1" using assms(1) touches_ok [OF ok t] by (simp add: qinv_def)
        moreover have "get (st_notifs st) (sn_ID n) \<noteq> None" using t assms(2) by (auto simp: touches_def get_adjust)
        ultimately show ?thesis using base [of q' ?q1 "nq_store q"] t live Reset_open [OF Inr] by auto
      qed
    qed
  qed
  then show "qinv q'" "touches (sn_ID n) (nq_store q) (nq_store q')"
    "open_notif (nq_store q) i dev ty pl e \<Longrightarrow> (sn_ID n = i \<longrightarrow> now \<le> sn_ExpiresAt n) \<Longrightarrow>
       open_notif (nq_store q') i dev ty pl e"
    "awaiting (nq_deliverer q) j \<Longrightarrow> awaiting (nq_deliverer q') j"
    "now \<le> sn_ExpiresAt n \<Longrightarrow> cn_ok (rc_reset rc (sn_ID n)) \<Longrightarrow> cn_ok (rc_update rc (sn_ID n)) \<Longrightarrow>
       handled q' (sn_ID n) (cn_now (rc_update rc (sn_ID n)))"
    by blast+
qed

lemma handled_mono:
  assumes "handled q i a" "touches k (nq_store q) (nq_store q')" "k \<noteq> i"
    and "awaiting (nq_deliverer q) i \<Longrightarrow> awaiting (nq_deliverer q') i"
  shows "handled q' i a"
  using assms by (auto simp: handled_def touches_other)

lemma retry_all_facts:
  fixes rc :: retry_conns and now :: gotime
  assumes "qinv q" "distinct (map sn_ID ns)" "\<forall>n \<in> set ns. get (st_notifs (nq_store q)) (sn_ID n) \<noteq> None"
    and "\<forall>n \<in> set ns. sn_ID n = i \<longrightarrow> now \<le> sn_ExpiresAt n"
  defines "q' \<equiv> foldl (retry_one deliver rc now) q ns"
  shows "qinv q' \<and> (open_notif (nq_store q) i dev ty pl e \<longrightarrow> open_notif (nq_store q') i dev ty pl e)
    \<and> (awaiting (nq_deliverer q) i \<longrightarrow> awaiting (nq_deliverer q') i)
    \<and> (i \<notin> sn_ID ` set ns \<longrightarrow> handled q i a \<longrightarrow> handled q' i a)
    \<and> (i \<in> sn_ID ` set ns \<longrightarrow> cn_ok (rc_reset rc i) \<longrightarrow> cn_ok (rc_update rc i) \<longrightarrow>
         handled q' i (cn_now (rc_update rc i)))"
  unfolding q'_def using assms(1-4)
proof (induction ns arbitrary: q a)
  case Nil
  then show ?case by simp
next
  case (Cons n ns)
  let ?q1 = "retry_one deliver rc now q n"
  have ex: "get (st_notifs (nq_store q)) (sn_ID n) \<noteq> None" using Cons.prems(3) by simp
  note R = retry_one_facts [OF Cons.prems(1) ex, where rc = rc and now = now]
  have ex': "\<forall>n' \<in> set ns. get (st_notifs (nq_store ?q1)) (sn_ID n') \<noteq> None"
    using Cons.prems(3) R(2) by (auto simp: touches_def get_adjust)
  have d: "distinct (map sn_ID ns)" and nin: "sn_ID n \<notin> sn_ID ` set ns" using Cons.prems(2) by auto
  have live: "\<forall>n \<in> set ns. sn_ID n = i \<longrightarrow> now \<le> sn_ExpiresAt n" using Cons.prems(4) by simp
  have live1: "sn_ID n = i \<longrightarrow> now \<le> sn_ExpiresAt n" using Cons.prems(4) by simp
  note IH = Cons.IH [OF R(1) d ex' live]
  have o: "open_notif (nq_store q) i dev ty pl e \<longrightarrow> open_notif (nq_store ?q1) i dev ty pl e"
    using R(3) live1 by blast
  have aw: "awaiting (nq_deliverer q) i \<longrightarrow> awaiting (nq_deliverer ?q1) i" using R(4) by blast
  have h: "handled q i a \<longrightarrow> sn_ID n \<noteq> i \<longrightarrow> handled ?q1 i a" using handled_mono [OF _ R(2)] aw by blast
  have h1: "sn_ID n = i \<longrightarrow> cn_ok (rc_reset rc i) \<longrightarrow> cn_ok (rc_update rc i) \<longrightarrow> handled ?q1 i (cn_now (rc_update rc i))"
    using R(5) live1 by auto
  show ?case using IH [of a] IH [of "cn_now (rc_update rc i)"] o aw h h1 nin by auto
qed

lemma pending_list:
  assumes "notifs_ok st" "GetPendingNotifications c st dev = Inr ns"
  shows "distinct (map sn_ID ns)" "n \<in> set ns \<Longrightarrow> get (st_notifs st) (sn_ID n) = Some n"
    "open_notif st i dev ty pl e \<Longrightarrow> cn_now c div second < e div second \<Longrightarrow> i \<in> sn_ID ` set ns"
proof -
  let ?P = "\<lambda>n. sn_DeviceID n = dev \<and> sn_Status n \<in> {NPending, NFailed} \<and> unexpired (cn_now c) n"
  have ns: "ns = sort_key sn_CreatedAt (filter ?P (map snd (st_notifs st)))"
    using assms(2) by (simp add: GetPendingNotifications_def split: if_splits)
  have wf: "wf_map (st_notifs st)" using assms(1) by (simp add: notifs_ok_def)
  have key: "sn_ID m = k" if "(k, m) \<in> set (st_notifs st)" for k m
    using that assms(1) by (simp add: get_iff_in [OF wf, symmetric] notifs_ok_def)
  have m: "map sn_ID (map snd (st_notifs st)) = map fst (st_notifs st)" using key by auto
  have "distinct (map sn_ID (map snd (st_notifs st)))" unfolding m using wf by (simp only: wf_map_def)
  then have d: "distinct (map snd (st_notifs st))" "inj_on sn_ID (set (map snd (st_notifs st)))"
    using distinct_map by blast+
  have sub: "set ns \<subseteq> set (map snd (st_notifs st))" by (auto simp: ns)
  have "distinct ns" using d(1) by (simp add: ns)
  then show "distinct (map sn_ID ns)" using inj_on_subset [OF d(2) sub] by (simp add: distinct_map)
  show "get (st_notifs st) (sn_ID n) = Some n" if "n \<in> set ns"
  proof -
    from that sub obtain k where "(k, n) \<in> set (st_notifs st)" by force
    with key [OF this] show ?thesis by (simp add: get_iff_in [OF wf])
  qed
  assume o: "open_notif st i dev ty pl e" "cn_now c div second < e div second"
  then obtain n where n: "get (st_notifs st) i = Some n" "?P n" by (auto simp: open_notif_def unexpired_def)
  then have "(i, n) \<in> set (st_notifs st)" using get_iff_in [OF wf] by simp
  then have "n \<in> set ns" "sn_ID n = i" using n(2) key by (force simp: ns)+
  then show "i \<in> sn_ID ` set ns" by blast
qed

lemma RetryDevice_facts:
  fixes rc :: retry_conns and now :: gotime and c :: conn and d :: string
  assumes "qinv q"
  defines "q' \<equiv> fst (RetryDevice deliver c rc now q d)"
  shows "qinv q'" "open_notif (nq_store q) i dev ty pl e \<Longrightarrow> now \<le> e \<Longrightarrow> open_notif (nq_store q') i dev ty pl e"
    "open_notif (nq_store q) i d ty pl e \<Longrightarrow> now \<le> e \<Longrightarrow> cn_ok c \<Longrightarrow> cn_now c div second < e div second \<Longrightarrow>
       cn_ok (rc_reset rc i) \<Longrightarrow> cn_ok (rc_update rc i) \<Longrightarrow> handled q' i (cn_now (rc_update rc i))"
proof -
  have ok: "notifs_ok (nq_store q)" using assms(1) by (simp add: qinv_def)
  have "qinv q' \<and> (open_notif (nq_store q) i dev ty pl e \<longrightarrow> now \<le> e \<longrightarrow> open_notif (nq_store q') i dev ty pl e)
    \<and> (open_notif (nq_store q) i d ty pl e \<longrightarrow> now \<le> e \<longrightarrow> cn_ok c \<longrightarrow> cn_now c div second < e div second \<longrightarrow>
       cn_ok (rc_reset rc i) \<longrightarrow> cn_ok (rc_update rc i) \<longrightarrow> handled q' i (cn_now (rc_update rc i)))"
  proof (cases "GetPendingNotifications c (nq_store q) d")
    case (Inl err)
    then have "q' = q" "\<not> cn_ok c" by (auto simp: q'_def RetryDevice_def GetPendingNotifications_def split: if_splits)
    then show ?thesis using assms(1) by simp
  next
    case (Inr ns)
    note P = pending_list [OF ok Inr]
    have q': "q' = foldl (retry_one deliver rc now) q ns" by (simp add: q'_def RetryDevice_def Inr)
    have ex: "\<forall>n \<in> set ns. get (st_notifs (nq_store q)) (sn_ID n) \<noteq> None" using P(2) by auto
    have exp: "\<forall>n \<in> set ns. sn_ID n = i \<longrightarrow> now \<le> sn_ExpiresAt n"
      if "open_notif (nq_store q) i dev' ty pl e" "now \<le> e" for dev'
      using that P(2) by (auto simp: open_notif_def)
    note R = retry_all_facts [OF assms(1) P(1) ex, where rc = rc and now = now]
    have "qinv q'"
    proof -
      have "get (st_notifs (nq_store q)) (st_next_notif (nq_store q)) = None"
        using ok by (cases "get (st_notifs (nq_store q)) (st_next_notif (nq_store q))") (auto simp: notifs_ok_def)
      then have "\<forall>n \<in> set ns. sn_ID n = st_next_notif (nq_store q) \<longrightarrow> now \<le> sn_ExpiresAt n" using P(2) by fastforce
      from R [OF this] show ?thesis by (simp add: q')
    qed
    moreover have "open_notif (nq_store q') i dev ty pl e" if "open_notif (nq_store q) i dev ty pl e" "now \<le> e"
      using R [OF exp [OF that]] that by (simp add: q')
    moreover have "handled q' i (cn_now (rc_update rc i))"
      if "open_notif (nq_store q) i d ty pl e" "now \<le> e" "cn_now c div second < e div second"
        "cn_ok (rc_reset rc i)" "cn_ok (rc_update rc i)"
      using R [OF exp [OF that(1,2)]] P(3) [OF that(1,3)] that(4,5) by (simp add: q')
    ultimately show ?thesis by blast
  qed
  then show "qinv q'" "open_notif (nq_store q) i dev ty pl e \<Longrightarrow> now \<le> e \<Longrightarrow> open_notif (nq_store q') i dev ty pl e"
    "open_notif (nq_store q) i d ty pl e \<Longrightarrow> now \<le> e \<Longrightarrow> cn_ok c \<Longrightarrow> cn_now c div second < e div second \<Longrightarrow>
       cn_ok (rc_reset rc i) \<Longrightarrow> cn_ok (rc_update rc i) \<Longrightarrow> handled q' i (cn_now (rc_update rc i))"
    by blast+
qed

lemma Enqueue_facts:
  assumes "qinv q"
  shows "qinv (fst (Enqueue c now q d t p ttl mr))"
    "open_notif (nq_store q) i dev ty pl e \<Longrightarrow> open_notif (nq_store (fst (Enqueue c now q d t p ttl mr))) i dev ty pl e"
  using assms EnqueueNotification_keeps(1,2) [of c "nq_store q" d t p ttl mr]
  by (auto simp: Enqueue_def Let_def qinv_def split: sum.split prod.split)

lemma store_logged_inv:
  assumes "qinv q" "\<And>st. f (nq_store q) = Inr st \<Longrightarrow> touches j (nq_store q) st"
  shows "qinv (store_logged f q)"
  using assms touches_ok [of "nq_store q" j] by (auto simp: store_logged_def qinv_def split: sum.split)

lemma store_logged_open:
  assumes "open_notif (nq_store q) i dev ty pl e"
    and "\<And>st. f (nq_store q) = Inr st \<Longrightarrow> open_notif st i dev ty pl e"
  shows "open_notif (nq_store (store_logged f q)) i dev ty pl e"
  using assms by (auto simp: store_logged_def split: sum.split)

lemma logged_statements:
  assumes "qinv q"
  shows "qinv (store_logged (\<lambda>st. UpdateNotificationRetry c st j msg) q)"
    "qinv (store_logged (\<lambda>st. ResetNotificationForRetry c st j) q)"
    "qinv (store_logged (\<lambda>st. MarkNotificationExpired c st j) q)"
    "qinv (store_logged (\<lambda>st. MarkNotificationDelivered c st j) q)"
    "open_notif (nq_store q) i dev ty pl e \<Longrightarrow>
       open_notif (nq_store (store_logged (\<lambda>st. UpdateNotificationRetry c st j msg) q)) i dev ty pl e"
    "open_notif (nq_store q) i dev ty pl e \<Longrightarrow>
       open_notif (nq_store (store_logged (\<lambda>st. ResetNotificationForRetry c st j) q)) i dev ty pl e"
    "open_notif (nq_store q) i dev ty pl e \<Longrightarrow> i \<noteq> j \<Longrightarrow>
       open_notif (nq_store (store_logged (\<lambda>st. MarkNotificationExpired c st j) q)) i dev ty pl e"
    "open_notif (nq_store q) i dev ty pl e \<Longrightarrow> i \<noteq> j \<Longrightarrow>
       open_notif (nq_store (store_logged (\<lambda>st. MarkNotificationDelivered c st j) q)) i dev ty pl e"
  by (auto intro: store_logged_inv [OF assms] store_logged_open notif_statements_touch Update_open Reset_open
      dest: touches_other_open [OF notif_statements_touch(1)] touches_other_open [OF notif_statements_touch(2)])

lemma qinv_counts [simp]:
  "qinv (count_retry q) = qinv q" "qinv (count_expired q) = qinv q" "qinv (count_failed q) = qinv q"
  "nq_store (count_retry q) = nq_store q" "nq_store (count_expired q) = nq_store q" "nq_store (count_failed q) = nq_store q"
  by (simp_all add: count_retry_def count_expired_def count_failed_def qinv_def)

lemma process_facts:
  assumes "qinv q"
  shows "qinv (processNotification deliver c1 c2 now q n)"
    "open_notif (nq_store q) i dev ty pl e \<Longrightarrow> open_notif (nq_store (processNotification deliver c1 c2 now q n)) i dev ty pl e"
    "\<not> (nt_TTL n > 0 \<and> now - nt_CreatedAt n > nt_TTL n) \<Longrightarrow> cn_ok c1 \<Longrightarrow>
       (cn_fk c1 \<longrightarrow> has (st_devices (nq_store q)) (nt_DeviceID n)) \<Longrightarrow>
       open_notif (nq_store (processNotification deliver c1 c2 now q n)) (st_next_notif (nq_store q))
         (nt_DeviceID n) (nt_Type n) (nt_Payload n) (cn_now c1 + nt_TTL n)"
proof -
  let ?q' = "processNotification deliver c1 c2 now q n" and ?j = "st_next_notif (nq_store q)"
  let ?E = "EnqueueNotification c1 (nq_store q) (nt_DeviceID n) (nt_Type n) (nt_Payload n) (nt_TTL n) (nt_MaxRetries n)"
  have ok: "notifs_ok (nq_store q)" and di: "dinv (nq_deliverer q)" using assms by (auto simp: qinv_def)
  have "qinv ?q' \<and> (open_notif (nq_store q) i dev ty pl e \<longrightarrow> open_notif (nq_store ?q') i dev ty pl e)
    \<and> (\<not> (nt_TTL n > 0 \<and> now - nt_CreatedAt n > nt_TTL n) \<longrightarrow> cn_ok c1 \<longrightarrow>
       (cn_fk c1 \<longrightarrow> has (st_devices (nq_store q)) (nt_DeviceID n)) \<longrightarrow>
       open_notif (nq_store ?q') ?j (nt_DeviceID n) (nt_Type n) (nt_Payload n) (cn_now c1 + nt_TTL n))"
  proof (cases "nt_TTL n > 0 \<and> now - nt_CreatedAt n > nt_TTL n")
    case True
    then show ?thesis using assms by (simp add: processNotification_def)
  next
    case fresh: False
    show ?thesis
    proof (cases ?E)
      case (Inl err)
      have "\<not> (cn_ok c1 \<and> (cn_fk c1 \<longrightarrow> has (st_devices (nq_store q)) (nt_DeviceID n)))"
        using Inl by (auto simp: EnqueueNotification_def Let_def split: if_splits)
      moreover have "?q' = count_failed q" by (simp only: processNotification_def if_not_P [OF fresh] Inl sum.case)
      ultimately show ?thesis using assms by auto
    next
      case (Inr r)
      obtain st j where r: "r = (st, j)" by (cases r)
      note K = EnqueueNotification_keeps [OF Inr [unfolded r] ok]
      obtain d res where d: "deliver now (nq_deliverer q) (nt_DeviceID n) (nt_Type n) (nt_Payload n) j = (d, res)" by fastforce
      let ?q1 = "q\<lparr>nq_store := st, nq_deliverer := d\<rparr>"
      have q1: "qinv ?q1" using K(1) deliver_inv [OF di d] by (simp add: qinv_def)
      have q': "?q' = (case res of None \<Rightarrow> ?q1 | Some err \<Rightarrow>
          count_retry (store_logged (\<lambda>st. UpdateNotificationRetry c2 st j (error_text err)) ?q1))"
        by (simp only: processNotification_def if_not_P [OF fresh] Inr r sum.case prod.case d)
      show ?thesis using q1 K q' logged_statements(1,5) [OF q1, where c = c2 and j = j]
        by (auto split: option.split)
    qed
  qed
  then show "qinv ?q'" "open_notif (nq_store q) i dev ty pl e \<Longrightarrow> open_notif (nq_store ?q') i dev ty pl e"
    "\<not> (nt_TTL n > 0 \<and> now - nt_CreatedAt n > nt_TTL n) \<Longrightarrow> cn_ok c1 \<Longrightarrow>
       (cn_fk c1 \<longrightarrow> has (st_devices (nq_store q)) (nt_DeviceID n)) \<Longrightarrow>
       open_notif (nq_store ?q') ?j (nt_DeviceID n) (nt_Type n) (nt_Payload n) (cn_now c1 + nt_TTL n)"
    by blast+
qed

lemma work_facts:
  assumes "qinv q"
  shows "qinv (work deliver c1 c2 now q)"
    "open_notif (nq_store q) i dev ty pl e \<Longrightarrow> open_notif (nq_store (work deliver c1 c2 now q)) i dev ty pl e"
proof -
  have q1: "qinv (q\<lparr>nq_notifChan := ns\<rparr>)" for ns using assms by (simp add: qinv_def)
  show "qinv (work deliver c1 c2 now q)"
    using process_facts(1) [OF q1] assms by (simp add: work_def split: list.split)
  show "open_notif (nq_store q) i dev ty pl e \<Longrightarrow> open_notif (nq_store (work deliver c1 c2 now q)) i dev ty pl e"
    using process_facts(2) [OF q1] by (simp add: work_def split: list.split)
qed

lemma RetryNotification_facts:
  fixes rc :: retry_conns and now :: gotime and c :: conn and k :: int and connected :: "'d \<Rightarrow> string \<Rightarrow> bool"
  assumes "qinv q"
  defines "q' \<equiv> fst (RetryNotification deliver connected c rc now q k)"
  shows "qinv q'"
    "open_notif (nq_store q) i dev ty pl e \<Longrightarrow> (k = i \<Longrightarrow> now \<le> e) \<Longrightarrow> open_notif (nq_store q') i dev ty pl e"
proof -
  have "qinv q' \<and> (open_notif (nq_store q) i dev ty pl e \<longrightarrow> (k = i \<longrightarrow> now \<le> e) \<longrightarrow> open_notif (nq_store q') i dev ty pl e)"
  proof (cases "\<exists>n. GetNotificationByID c (nq_store q) k = Inr (Some n)
      \<and> \<not> (nq_connectivity q \<and> \<not> connected (nq_deliverer q) (sn_DeviceID n))")
    case False
    then have "q' = q"
      by (auto simp: q'_def RetryNotification_def split: sum.split option.split)
    then show ?thesis using assms by simp
  next
    case True
    then obtain n where n: "GetNotificationByID c (nq_store q) k = Inr (Some n)"
      "\<not> (nq_connectivity q \<and> \<not> connected (nq_deliverer q) (sn_DeviceID n))" by blast
    then have g: "get (st_notifs (nq_store q)) k = Some n" by (simp add: GetNotificationByID_def split: if_splits)
    show ?thesis
    proof (cases "After now (sn_ExpiresAt n)")
      case True
      then have q': "q' = store_logged (\<lambda>st. MarkNotificationExpired (rc_mark rc k) st k) (count_expired q)"
        by (simp only: q'_def RetryNotification_def n(1) sum.case option.case if_not_P [OF n(2)] if_True fst_conv)
      have ce: "qinv (count_expired q)" using assms by simp
      have "i \<noteq> k" if "open_notif (nq_store q) i dev ty pl e" "k = i \<longrightarrow> now \<le> e"
        using that g True by (auto simp: open_notif_def)
      then show ?thesis using logged_statements(3,7) [OF ce, where c = "rc_mark rc k" and j = k]
        unfolding q' by (simp only: qinv_counts) blast
    next
      case False
      let ?q1 = "store_logged (\<lambda>st. ResetNotificationForRetry (rc_reset rc k) st k) q"
      have "q' = fst (attempt deliver rc now ?q1 n)"
        by (simp only: q'_def RetryNotification_def n(1) sum.case option.case if_not_P [OF n(2)] if_not_P [OF False])
          (simp add: split_beta)
      then have a: "attempt deliver rc now ?q1 n = (q', snd (attempt deliver rc now ?q1 n))" by simp
      note A = attempt_facts [OF a logged_statements(2) [OF assms(1)]]
      show ?thesis using A(1,4) logged_statements(6) [OF assms(1)] by blast
    qed
  qed
  then show "qinv q'"
    "open_notif (nq_store q) i dev ty pl e \<Longrightarrow> (k = i \<Longrightarrow> now \<le> e) \<Longrightarrow> open_notif (nq_store q') i dev ty pl e"
    by blast+
qed

end

section \<open>The WebSocket deliverer meets the contract\<close>

definition tracked :: "(nat \<Rightarrow> string) \<Rightarrow> deliverer \<Rightarrow> bool" where
  "tracked uuid d \<longleftrightarrow> inj uuid \<and> (\<exists>t. dv_ackTracker d = Some t \<and> wf_map (at_pending t)
     \<and> (\<forall>k. has (at_pending t) k \<longrightarrow> (\<exists>n < at_issued t. k = uuid n)))"

definition awaiting_ack :: "deliverer \<Rightarrow> int \<Rightarrow> bool" where
  "awaiting_ack d i \<longleftrightarrow> (\<exists>t k p. dv_ackTracker d = Some t \<and> get (at_pending t) k = Some p \<and> pn_StorageID p = i)"

lemma Register_tracked:
  assumes "Register uuid now t dev ty pl i = (t1, k)" "inj uuid" "wf_map (at_pending t)"
    and "\<forall>k. has (at_pending t) k \<longrightarrow> (\<exists>n < at_issued t. k = uuid n)"
  shows "\<not> has (at_pending t) k" "wf_map (at_pending t1)"
    "\<forall>k. has (at_pending t1) k \<longrightarrow> (\<exists>n < at_issued t1. k = uuid n)"
    "\<exists>p. get (at_pending t1) k = Some p \<and> pn_StorageID p = i"
    "k' \<noteq> k \<Longrightarrow> get (at_pending t1) k' = get (at_pending t) k'"
proof -
  have k: "k = uuid (at_issued t)" using assms(1) by (auto simp: Register_def Let_def)
  show "\<not> has (at_pending t) k" using assms(2,4) by (auto simp: k dest: injD)
  show "wf_map (at_pending t1)" using assms(1,3) by (auto simp: Register_def Let_def)
  show "\<forall>k. has (at_pending t1) k \<longrightarrow> (\<exists>n < at_issued t1. k = uuid n)"
    using assms(1,4) by (fastforce simp: Register_def Let_def has_def get_put less_Suc_eq split: if_splits)
  show "\<exists>p. get (at_pending t1) k = Some p \<and> pn_StorageID p = i"
    using assms(1) by (auto simp: Register_def Let_def get_put)
  show "k' \<noteq> k \<Longrightarrow> get (at_pending t1) k' = get (at_pending t) k'"
    using assms(1) by (auto simp: Register_def Let_def get_put)
qed

lemma DeliverNotification_tracked:
  assumes "tracked uuid d" "DeliverNotification uuid now d dev ty pl i = (d', r)"
  shows "tracked uuid d'" "r = None \<Longrightarrow> awaiting_ack d' i" "awaiting_ack d j \<Longrightarrow> awaiting_ack d' j"
proof -
  from assms(1) obtain t where t: "inj uuid" "dv_ackTracker d = Some t" "wf_map (at_pending t)"
    "\<forall>k. has (at_pending t) k \<longrightarrow> (\<exists>n < at_issued t. k = uuid n)" by (auto simp: tracked_def)
  obtain t1 k where r: "Register uuid now t dev ty pl i = (t1, k)" by fastforce
  note R = Register_tracked [OF r t(1,3,4)]
  obtain ws e where s: "SendNotification now dev k ty pl (dv_ws d) = (ws, e)" by fastforce
  have d': "d' = \<lparr>dv_ws = ws, dv_ackTracker = Some (if e = None then t1 else Cancel t1 k)\<rparr>" "r = map_option NotDelivered e"
    using assms(2) by (auto simp: DeliverNotification_def t(2) r s split: option.splits)
  have c: "wf_map (at_pending (Cancel t1 k))" "at_issued (Cancel t1 k) = at_issued t1"
    "get (at_pending (Cancel t1 k)) k' = (if k' = k then None else get (at_pending t1) k')" for k'
    using R(2) by (simp_all add: Cancel_def get_del)
  have keep: "get (at_pending (if e = None then t1 else Cancel t1 k)) k' = Some p" if "get (at_pending t) k' = Some p" for k' p
    using that R(1,5) c(3) by (auto simp: has_def)
  show "tracked uuid d'" using t(1) R(2,3) c by (auto simp: tracked_def d' has_def)
  show "r = None \<Longrightarrow> awaiting_ack d' i" using R(4) d' by (auto simp: awaiting_ack_def)
  assume "awaiting_ack d j"
  then obtain k' p where p: "get (at_pending t) k' = Some p" "pn_StorageID p = j" by (auto simp: awaiting_ack_def t(2))
  show "awaiting_ack d' j" unfolding awaiting_ack_def d'(1) using keep [OF p(1)] p(2)
    by (simp only: deliverer.select_convs option.inject) blast
qed

interpretation ws_delivery: delivery "DeliverNotification uuid" awaiting_ack "tracked uuid" for uuid
  by unfold_locales (blast intro: DeliverNotification_tracked)+

end
