(* ===== verification/NotifAdmin.thy ===== *)
theory NotifAdmin
  imports Notifications Numbers
begin

text \<open>
  Managing the notification queue: the statements of \<open>internal/storage/storage.go\<close> behind the
  notification pages and the handlers of \<open>internal/handlers/notifications.go\<close>, and runs in which the
  queue, its workers, connecting devices, acknowledgements, the timeout checker and these handlers
  act in any order.  A handler's answer is its status code with the fields of the body that vary.
  \<open>parse_time\<close> is what reading back the text SQLite keeps for an instant gives.
\<close>

section \<open>Statements\<close>

definition StaleNotificationThreshold :: duration where
  "StaleNotificationThreshold = 24 * hour"

definition device_name :: "store \<Rightarrow> string \<Rightarrow> string" where
  "device_name st d = (case get (st_devices st) d of Some r \<Rightarrow> dr_name r | None \<Rightarrow> d)"

definition stale :: "gotime \<Rightarrow> stored_notification \<Rightarrow> bool" where
  "stale thresholdTime n \<longleftrightarrow> sn_Status n = NPending \<and> sn_CreatedAt n div second < thresholdTime div second"

record stale_summary =
  ss_DeviceID :: string
  ss_DeviceName :: string
  ss_Count :: int
  ss_OldestAt :: gotime
  ss_NewestAt :: gotime
  ss_Types :: "string list"
  ss_TotalRetries :: int

definition summary_of :: "(gotime \<Rightarrow> gotime) \<Rightarrow> store \<Rightarrow> string \<Rightarrow> stored_notification list \<Rightarrow> stale_summary" where
  "summary_of parse_time st d ns =
     \<lparr>ss_DeviceID = d, ss_DeviceName = device_name st d, ss_Count = int (length ns),
      ss_OldestAt = parse_time (Min (sn_CreatedAt ` set ns)), ss_NewestAt = parse_time (Max (sn_CreatedAt ` set ns)),
      ss_Types = rev (remdups (rev (map sn_Type ns))), ss_TotalRetries = sum_list (map sn_RetryCount ns)\<rparr>"

definition GetStaleNotifications ::
  "(gotime \<Rightarrow> gotime) \<Rightarrow> conn \<Rightarrow> store \<Rightarrow> duration \<Rightarrow> db_error + stale_summary list" where
  "GetStaleNotifications parse_time c st staleThreshold =
     (if \<not> cn_ok c then Inl DbFault
      else
        (let ns = filter (stale (cn_now c - staleThreshold)) (map snd (st_notifs st));
             groups = map (\<lambda>d. (d, filter (\<lambda>n. sn_DeviceID n = d) ns)) (sort (remdups (map sn_DeviceID ns)))
         in Inr (map (\<lambda>(d, g). summary_of parse_time st d g)
                   (sort_key (\<lambda>(d, g). Min (sn_CreatedAt ` set g)) groups))))"

record queue_stats =
  qs_TotalPending :: int
  qs_TotalDelivered :: int
  qs_TotalFailed :: int
  qs_StaleCount :: int

definition GetNotificationQueueStats :: "conn \<Rightarrow> store \<Rightarrow> duration \<Rightarrow> db_error + queue_stats" where
  "GetNotificationQueueStats c st staleThreshold =
     (if \<not> cn_ok c then Inl DbFault
      else
        (let ns = map snd (st_notifs st); count = (\<lambda>P. int (length (filter P ns)))
         in Inr \<lparr>qs_TotalPending = count (\<lambda>n. sn_Status n = NPending),
                 qs_TotalDelivered = count (\<lambda>n. sn_Status n = NDelivered),
                 qs_TotalFailed = count (\<lambda>n. sn_Status n = NFailed),
                 qs_StaleCount = count (stale (cn_now c - staleThreshold))\<rparr>))"

definition status_name :: "notif_status \<Rightarrow> string" where
  "status_name s = (case s of NPending \<Rightarrow> ''pending'' | NDelivered \<Rightarrow> ''delivered'' | NFailed \<Rightarrow> ''failed''
     | NExpired \<Rightarrow> ''expired'' | NDismissed \<Rightarrow> ''dismissed'')"

record list_filter =
  lf_Status :: string
  lf_DeviceID :: string
  lf_Type :: string
  lf_Limit :: int
  lf_Offset :: int

record list_item =
  li_ID :: int
  li_DeviceID :: string
  li_DeviceName :: string
  li_Type :: string
  li_Status :: string
  li_RetryCount :: int
  li_MaxRetries :: int
  li_CreatedAt :: gotime
  li_ExpiresAt :: gotime
  li_DeliveredAt :: gotime
  li_LastAttemptAt :: gotime
  li_ErrorMessage :: string
  li_IsStale :: bool

record list_result =
  lr_Notifications :: "list_item list"
  lr_Total :: int
  lr_Limit :: int
  lr_Offset :: int

definition clamp_limit :: "int \<Rightarrow> int" where
  "clamp_limit l = (let l1 = (if l \<le> 0 then 50 else l) in if l1 > 200 then 200 else l1)"

definition matches_filter :: "list_filter \<Rightarrow> stored_notification \<Rightarrow> bool" where
  "matches_filter f n \<longleftrightarrow> (lf_Status f \<noteq> [] \<longrightarrow> status_name (sn_Status n) = lf_Status f)
     \<and> (lf_DeviceID f \<noteq> [] \<longrightarrow> sn_DeviceID n = lf_DeviceID f) \<and> (lf_Type f \<noteq> [] \<longrightarrow> sn_Type n = lf_Type f)"

definition item_of :: "gotime \<Rightarrow> store \<Rightarrow> stored_notification \<Rightarrow> list_item" where
  "item_of thresholdTime st n =
     \<lparr>li_ID = sn_ID n, li_DeviceID = sn_DeviceID n, li_DeviceName = device_name st (sn_DeviceID n),
      li_Type = sn_Type n, li_Status = status_name (sn_Status n), li_RetryCount = sn_RetryCount n,
      li_MaxRetries = sn_MaxRetries n, li_CreatedAt = sn_CreatedAt n, li_ExpiresAt = sn_ExpiresAt n,
      li_DeliveredAt = (case sn_DeliveredAt n of Some t \<Rightarrow> t | None \<Rightarrow> 0),
      li_LastAttemptAt = (case sn_LastAttemptAt n of Some t \<Rightarrow> t | None \<Rightarrow> 0),
      li_ErrorMessage = (case sn_ErrorMessage n of Some m \<Rightarrow> m | None \<Rightarrow> []),
      li_IsStale = stale thresholdTime n\<rparr>"

text \<open>Newest first; SQLite takes a negative offset for none.\<close>

definition ListNotifications :: "conn \<Rightarrow> conn \<Rightarrow> store \<Rightarrow> list_filter \<Rightarrow> duration \<Rightarrow> db_error + list_result" where
  "ListNotifications c1 c2 st f staleThreshold =
     (let limit = clamp_limit (lf_Limit f);
          ns = filter (matches_filter f) (map snd (st_notifs st))
      in if \<not> cn_ok c1 \<or> \<not> cn_ok c2 then Inl DbFault
         else Inr
           \<lparr>lr_Notifications = map (item_of (cn_now c1 - staleThreshold) st)
              (take (nat limit) (drop (nat (lf_Offset f)) (sort_key (\<lambda>n. - sn_CreatedAt n) ns))),
            lr_Total = int (length ns), lr_Limit = limit, lr_Offset = lf_Offset f\<rparr>)"

text \<open>An update of the rows a condition selects, and the number of rows it selects.\<close>

definition adjust_if :: "(int \<Rightarrow> 'v \<Rightarrow> bool) \<Rightarrow> ('v \<Rightarrow> 'v) \<Rightarrow> (int, 'v) gomap \<Rightarrow> (int, 'v) gomap" where
  "adjust_if P g m = map (\<lambda>(k, v). (k, if P k v then g v else v)) m"

definition affected :: "(int \<Rightarrow> 'v \<Rightarrow> bool) \<Rightarrow> (int, 'v) gomap \<Rightarrow> int" where
  "affected P m = int (length (filter (\<lambda>(k, v). P k v) m))"

definition DismissNotification :: "conn \<Rightarrow> store \<Rightarrow> int \<Rightarrow> db_error + store" where
  "DismissNotification c st i =
     (let P = (\<lambda>k n. k = i \<and> sn_Status n = NPending) in
      if \<not> cn_ok c then Inl DbFault
      else if affected P (st_notifs st) = 0 then Inl NotFound
      else Inr (st\<lparr>st_notifs := adjust_if P (\<lambda>n. n\<lparr>sn_Status := NDismissed\<rparr>) (st_notifs st)\<rparr>))"

definition DismissNotificationsForDevice :: "conn \<Rightarrow> store \<Rightarrow> string \<Rightarrow> db_error + (store \<times> int)" where
  "DismissNotificationsForDevice c st d =
     (let P = (\<lambda>k n. sn_DeviceID n = d \<and> sn_Status n = NPending) in
      if \<not> cn_ok c then Inl DbFault
      else Inr (st\<lparr>st_notifs := adjust_if P (\<lambda>n. n\<lparr>sn_Status := NDismissed\<rparr>) (st_notifs st)\<rparr>,
                affected P (st_notifs st)))"

definition ClearDeliveredNotifications :: "conn \<Rightarrow> store \<Rightarrow> db_error + (store \<times> int)" where
  "ClearDeliveredNotifications c st =
     (let P = (\<lambda>k n. sn_Status n = NDelivered) in
      if \<not> cn_ok c then Inl DbFault
      else Inr (st\<lparr>st_notifs := del_if P (st_notifs st)\<rparr>, affected P (st_notifs st)))"

section \<open>Handlers\<close>

datatype notif_answer =
    Refused int string
  | Listed list_result
  | QueueStats queue_stats bool
  | StaleDevices int "stale_summary list"
  | Dismissed int
  | DismissedMany string int
  | Retried string int
  | RetriedMany int
  | ClearedMany int

text \<open>The query parameters of the list page, an absent one being empty.\<close>

record list_query =
  lq_status :: string
  lq_device_id :: string
  lq_type :: string
  lq_limit :: string
  lq_offset :: string

definition atoi_or_zero :: "string \<Rightarrow> int" where
  "atoi_or_zero s = (if s = [] then 0 else case ParseInt s of Some v \<Rightarrow> v | None \<Rightarrow> 0)"

definition HandleListNotifications :: "conn \<Rightarrow> conn \<Rightarrow> store \<Rightarrow> string \<Rightarrow> list_query \<Rightarrow> notif_answer" where
  "HandleListNotifications c1 c2 st meth query =
     (if meth \<noteq> ''GET'' then Refused 405 ''METHOD_NOT_ALLOWED''
      else
        (let f = \<lparr>lf_Status = lq_status query, lf_DeviceID = lq_device_id query, lf_Type = lq_type query,
                  lf_Limit = atoi_or_zero (lq_limit query), lf_Offset = atoi_or_zero (lq_offset query)\<rparr>
         in case ListNotifications c1 c2 st f StaleNotificationThreshold of
              Inl e \<Rightarrow> Refused 500 ''LIST_FAILED''
            | Inr r \<Rightarrow> Listed r))"

definition HandleGetNotificationStats :: "conn \<Rightarrow> store \<Rightarrow> bool \<Rightarrow> string \<Rightarrow> notif_answer" where
  "HandleGetNotificationStats c st has_queue meth =
     (if meth \<noteq> ''GET'' then Refused 405 ''METHOD_NOT_ALLOWED''
      else case GetNotificationQueueStats c st StaleNotificationThreshold of
             Inl e \<Rightarrow> Refused 500 ''STATS_FAILED''
           | Inr s \<Rightarrow> QueueStats s has_queue)"

definition HandleGetStaleNotifications :: "(gotime \<Rightarrow> gotime) \<Rightarrow> conn \<Rightarrow> store \<Rightarrow> string \<Rightarrow> notif_answer" where
  "HandleGetStaleNotifications parse_time c st meth =
     (if meth \<noteq> ''GET'' then Refused 405 ''METHOD_NOT_ALLOWED''
      else case GetStaleNotifications parse_time c st StaleNotificationThreshold of
             Inl e \<Rightarrow> Refused 500 ''STALE_FAILED''
           | Inr ds \<Rightarrow> StaleDevices (StaleNotificationThreshold div hour) ds)"

definition HandleDismissNotification :: "conn \<Rightarrow> store \<Rightarrow> string \<Rightarrow> string \<Rightarrow> store \<times> notif_answer" where
  "HandleDismissNotification c st meth path =
     (if meth \<noteq> ''DELETE'' then (st, Refused 405 ''METHOD_NOT_ALLOWED'')
      else case ParseInt (TrimSuffix (TrimPrefix path ''/api/v1/notifications/'') ''/'') of
             None \<Rightarrow> (st, Refused 400 ''INVALID_ID'')
           | Some i \<Rightarrow>
               (case DismissNotification c st i of
                  Inl NotFound \<Rightarrow> (st, Refused 404 ''NOT_FOUND'')
                | Inl e \<Rightarrow> (st, Refused 500 ''DISMISS_FAILED'')
                | Inr st' \<Rightarrow> (st', Dismissed i)))"

definition HandleDismissDeviceNotifications :: "conn \<Rightarrow> store \<Rightarrow> string \<Rightarrow> string \<Rightarrow> store \<times> notif_answer" where
  "HandleDismissDeviceNotifications c st meth path =
     (if meth \<noteq> ''DELETE'' then (st, Refused 405 ''METHOD_NOT_ALLOWED'')
      else
        (let d = TrimSuffix (TrimPrefix path ''/api/v1/notifications/device/'') ''/'' in
         if d = [] then (st, Refused 400 ''INVALID_DEVICE_ID'')
         else case DismissNotificationsForDevice c st d of
                Inl e \<Rightarrow> (st, Refused 500 ''DISMISS_FAILED'')
              | Inr (st', n) \<Rightarrow> (st', DismissedMany d n)))"

text \<open>The statement of the retry pages: whatever the rows' status, they wait for delivery again.\<close>

definition reset_rows :: "int list \<Rightarrow> store \<Rightarrow> store \<times> int" where
  "reset_rows ids st =
     (let P = (\<lambda>k n. k \<in> set ids) in
      (st\<lparr>st_notifs := adjust_if P (\<lambda>n. n\<lparr>sn_Status := NPending, sn_RetryCount := 0, sn_ErrorMessage := None\<rparr>)
          (st_notifs st)\<rparr>, affected P (st_notifs st)))"

definition HandleRetryNotification ::
  "'d delivery_fun \<Rightarrow> ('d \<Rightarrow> string \<Rightarrow> bool) \<Rightarrow> bool \<Rightarrow> conn \<Rightarrow> retry_conns \<Rightarrow> gotime \<Rightarrow> 'd notif_queue
   \<Rightarrow> string \<Rightarrow> string \<Rightarrow> 'd notif_queue \<times> notif_answer" where
  "HandleRetryNotification deliver connected has_queue c rc now q meth path =
     (if meth \<noteq> ''POST'' then (q, Refused 405 ''METHOD_NOT_ALLOWED'')
      else case ParseInt (TrimSuffix (TrimPrefix path ''/api/v1/notifications/'') ''/retry'') of
             None \<Rightarrow> (q, Refused 400 ''INVALID_ID'')
           | Some i \<Rightarrow>
               if has_queue
               then (case RetryNotification deliver connected c rc now q i of
                       (q', Inl NotificationNotFound) \<Rightarrow> (q', Refused 404 ''NOT_FOUND'')
                     | (q', Inl DeviceNotReachable) \<Rightarrow> (q', Retried ''offline'' i)
                     | (q', Inl NotificationExpired) \<Rightarrow> (q', Refused 410 ''EXPIRED'')
                     | (q', Inl (RetryFault e)) \<Rightarrow> (q', Refused 500 ''RETRY_FAILED'')
                     | (q', Inr delivered) \<Rightarrow> (q', Retried (if delivered then ''sent'' else ''queued'') i))
               else if \<not> cn_ok c then (q, Refused 500 ''RETRY_FAILED'')
               else (case reset_rows [i] (nq_store q) of
                       (st, n) \<Rightarrow> (q\<lparr>nq_store := st\<rparr>, if n = 0 then Refused 404 ''NOT_FOUND'' else Retried ''queued'' i)))"

definition HandleBulkRetryNotifications ::
  "conn \<Rightarrow> store \<Rightarrow> string \<Rightarrow> int list option \<Rightarrow> store \<times> notif_answer" where
  "HandleBulkRetryNotifications c st meth body =
     (if meth \<noteq> ''POST'' then (st, Refused 405 ''METHOD_NOT_ALLOWED'')
      else case body of
             None \<Rightarrow> (st, Refused 400 ''INVALID_REQUEST'')
           | Some ids \<Rightarrow>
               if ids = [] then (st, Refused 400 ''INVALID_REQUEST'')
               else if \<not> cn_ok c then (st, Refused 500 ''RETRY_FAILED'')
               else (case reset_rows ids st of (st', n) \<Rightarrow> (st', RetriedMany n)))"

definition HandleClearDeliveredNotifications :: "conn \<Rightarrow> store \<Rightarrow> string \<Rightarrow> store \<times> notif_answer" where
  "HandleClearDeliveredNotifications c st meth =
     (if meth \<noteq> ''DELETE'' then (st, Refused 405 ''METHOD_NOT_ALLOWED'')
      else case ClearDeliveredNotifications c st of
             Inl e \<Rightarrow> (st, Refused 500 ''CLEAR_FAILED'')
           | Inr (st', n) \<Rightarrow> (st', ClearedMany n))"

section \<open>The statements on the table\<close>

lemma get_adjust_if: "get (adjust_if P g m) k = map_option (\<lambda>v. if P k v then g v else v) (get m k)"
  by (induction m) (auto simp: adjust_if_def)

lemma wf_map_adjust_if [simp]: "wf_map (adjust_if P g m) = wf_map m"
  by (simp add: wf_map_def adjust_if_def split_beta comp_def)

lemma affected_0_iff: "affected P m = 0 \<longleftrightarrow> (\<forall>(k, v) \<in> set m. \<not> P k v)"
  by (auto simp: affected_def filter_empty_conv)

text \<open>Setting the status of some rows, or deleting some, keeps the table in order.\<close>

lemma notifs_ok_adjust_if:
  assumes "notifs_ok st" "\<And>n. sn_ID (g n) = sn_ID n"
  shows "notifs_ok (st\<lparr>st_notifs := adjust_if P g (st_notifs st)\<rparr>)"
  using assms by (auto simp: notifs_ok_def get_adjust_if)

lemma notifs_ok_del_if: "notifs_ok st \<Longrightarrow> notifs_ok (st\<lparr>st_notifs := del_if P (st_notifs st)\<rparr>)"
  by (auto simp: notifs_ok_def get_del_if split: option.splits if_splits)

lemma open_notif_adjust_if:
  assumes "open_notif st i dev ty pl e"
    and "\<And>n. P i n \<Longrightarrow> sn_DeviceID n = dev \<Longrightarrow> sn_Status n \<in> {NPending, NFailed} \<Longrightarrow>
      sn_DeviceID (g n) = sn_DeviceID n \<and> sn_Type (g n) = sn_Type n \<and> sn_Payload (g n) = sn_Payload n
      \<and> sn_ExpiresAt (g n) = sn_ExpiresAt n \<and> sn_Status (g n) \<in> {NPending, NFailed}"
  shows "open_notif (st\<lparr>st_notifs := adjust_if P g (st_notifs st)\<rparr>) i dev ty pl e"
proof -
  obtain n where n: "get (st_notifs st) i = Some n" "sn_DeviceID n = dev" "sn_Type n = ty" "sn_Payload n = pl"
    "sn_ExpiresAt n = e" "sn_Status n \<in> {NPending, NFailed}" using assms(1) unfolding open_notif_def by blast
  show ?thesis
    using n assms(2) [OF _ n(2,6)] by (cases "P i n") (simp_all add: open_notif_def get_adjust_if)
qed

lemma statement_facts:
  "DismissNotification c st k = Inr st' \<Longrightarrow> notifs_ok st \<Longrightarrow> notifs_ok st'"
  "DismissNotification c st k = Inr st' \<Longrightarrow> open_notif st i dev ty pl e \<Longrightarrow> k \<noteq> i \<Longrightarrow> open_notif st' i dev ty pl e"
  "DismissNotificationsForDevice c st d = Inr (st', n) \<Longrightarrow> notifs_ok st \<Longrightarrow> notifs_ok st'"
  "DismissNotificationsForDevice c st d = Inr (st', n) \<Longrightarrow> open_notif st i dev ty pl e \<Longrightarrow> d \<noteq> dev \<Longrightarrow>
     open_notif st' i dev ty pl e"
  "ClearDeliveredNotifications c st = Inr (st', n) \<Longrightarrow> notifs_ok st \<Longrightarrow> notifs_ok st'"
  "ClearDeliveredNotifications c st = Inr (st', n) \<Longrightarrow> notifs_ok st \<Longrightarrow> open_notif st i dev ty pl e \<Longrightarrow>
     open_notif st' i dev ty pl e"
  "notifs_ok st \<Longrightarrow> notifs_ok (fst (reset_rows ids st))"
  "open_notif st i dev ty pl e \<Longrightarrow> open_notif (fst (reset_rows ids st)) i dev ty pl e"
proof -
  show "DismissNotification c st k = Inr st' \<Longrightarrow> notifs_ok st \<Longrightarrow> notifs_ok st'"
    "DismissNotificationsForDevice c st d = Inr (st', n) \<Longrightarrow> notifs_ok st \<Longrightarrow> notifs_ok st'"
    "ClearDeliveredNotifications c st = Inr (st', n) \<Longrightarrow> notifs_ok st \<Longrightarrow> notifs_ok st'"
    "notifs_ok st \<Longrightarrow> notifs_ok (fst (reset_rows ids st))"
    by (auto simp: DismissNotification_def DismissNotificationsForDevice_def ClearDeliveredNotifications_def
        reset_rows_def Let_def notifs_ok_adjust_if notifs_ok_del_if split: if_splits)
  show "DismissNotification c st k = Inr st' \<Longrightarrow> open_notif st i dev ty pl e \<Longrightarrow> k \<noteq> i \<Longrightarrow> open_notif st' i dev ty pl e"
    "DismissNotificationsForDevice c st d = Inr (st', n) \<Longrightarrow> open_notif st i dev ty pl e \<Longrightarrow> d \<noteq> dev \<Longrightarrow>
      open_notif st' i dev ty pl e"
    "open_notif st i dev ty pl e \<Longrightarrow> open_notif (fst (reset_rows ids st)) i dev ty pl e"
    by (auto simp: DismissNotification_def DismissNotificationsForDevice_def reset_rows_def Let_def split: if_splits
        intro!: open_notif_adjust_if)
  show "ClearDeliveredNotifications c st = Inr (st', n) \<Longrightarrow> notifs_ok st \<Longrightarrow> open_notif st i dev ty pl e \<Longrightarrow>
      open_notif st' i dev ty pl e"
    by (auto simp: ClearDeliveredNotifications_def notifs_ok_def open_notif_def get_del_if Let_def split: if_splits)
qed

section \<open>Runs of the notification system\<close>

text \<open>A socket step stands for whatever the WebSocket layer does to its own state.\<close>

datatype notif_op =
    Enqueued conn gotime string string string duration int
  | Worked conn conn gotime
  | DeviceConnected conn retry_conns gotime string
  | Acked conn string
  | TimedOut gotime
  | SocketChange ws_manager
  | RetryPage conn retry_conns gotime string string
  | DismissPage conn string string
  | DismissDevicePage conn string string
  | BulkRetryPage conn string "int list option"
  | ClearPage conn string

definition device_online :: "deliverer \<Rightarrow> string \<Rightarrow> bool" where
  "device_online d deviceID = HasDeviceConnection (dv_ws d) deviceID"

definition with_store :: "(store \<Rightarrow> store \<times> notif_answer) \<Rightarrow> 'd notif_queue \<Rightarrow> 'd notif_queue" where
  "with_store f q = q\<lparr>nq_store := fst (f (nq_store q))\<rparr>"

fun notif_step :: "(nat \<Rightarrow> string) \<Rightarrow> notif_op \<Rightarrow> deliverer notif_queue \<Rightarrow> deliverer notif_queue" where
  "notif_step uuid (Enqueued c now d ty pl ttl mr) q = fst (Enqueue c now q d ty pl ttl mr)"
| "notif_step uuid (Worked c1 c2 now) q = work (DeliverNotification uuid) c1 c2 now q"
| "notif_step uuid (DeviceConnected c rc now d) q = fst (RetryDevice (DeliverNotification uuid) c rc now q d)"
| "notif_step uuid (Acked c k) q = handleNotificationACK c q k"
| "notif_step uuid (TimedOut now) q = ack_timeouts now q"
| "notif_step uuid (SocketChange ws) q = q\<lparr>nq_deliverer := (nq_deliverer q)\<lparr>dv_ws := ws\<rparr>\<rparr>"
| "notif_step uuid (RetryPage c rc now m path) q =
     fst (HandleRetryNotification (DeliverNotification uuid) device_online True c rc now q m path)"
| "notif_step uuid (DismissPage c m path) q = with_store (\<lambda>st. HandleDismissNotification c st m path) q"
| "notif_step uuid (DismissDevicePage c m path) q = with_store (\<lambda>st. HandleDismissDeviceNotifications c st m path) q"
| "notif_step uuid (BulkRetryPage c m body) q = with_store (\<lambda>st. HandleBulkRetryNotifications c st m body) q"
| "notif_step uuid (ClearPage c m) q = with_store (\<lambda>st. HandleClearDeliveredNotifications c st m) q"

definition notif_run :: "(nat \<Rightarrow> string) \<Rightarrow> notif_op list \<Rightarrow> deliverer notif_queue \<Rightarrow> deliverer notif_queue" where
  "notif_run uuid ops q = foldl (\<lambda>q op. notif_step uuid op q) q ops"

text \<open>What a step must not do to notification \<open>i\<close> of device \<open>dev\<close>, which expires at \<open>e\<close>: acknowledge it,
  dismiss it, or find it expired.\<close>

fun spares :: "int \<Rightarrow> string \<Rightarrow> gotime \<Rightarrow> deliverer notif_queue \<Rightarrow> notif_op \<Rightarrow> bool" where
  "spares i dev e q (DeviceConnected c rc now d) \<longleftrightarrow> now \<le> e"
| "spares i dev e q (RetryPage c rc now m path) \<longleftrightarrow> now \<le> e"
| "spares i dev e q (Acked c k) \<longleftrightarrow>
     (case dv_ackTracker (nq_deliverer q) of
        None \<Rightarrow> True
      | Some t \<Rightarrow> (case get (at_pending t) k of None \<Rightarrow> True | Some p \<Rightarrow> pn_StorageID p \<noteq> i))"
| "spares i dev e q (DismissPage c m path) \<longleftrightarrow>
     ParseInt (TrimSuffix (TrimPrefix path ''/api/v1/notifications/'') ''/'') \<noteq> Some i"
| "spares i dev e q (DismissDevicePage c m path) \<longleftrightarrow>
     TrimSuffix (TrimPrefix path ''/api/v1/notifications/device/'') ''/'' \<noteq> dev"
| "spares i dev e q op \<longleftrightarrow> True"

fun run_spares :: "(nat \<Rightarrow> string) \<Rightarrow> int \<Rightarrow> string \<Rightarrow> gotime \<Rightarrow> notif_op list \<Rightarrow> deliverer notif_queue \<Rightarrow> bool" where
  "run_spares uuid i dev e [] q \<longleftrightarrow> True"
| "run_spares uuid i dev e (op # ops) q \<longleftrightarrow>
     spares i dev e q op \<and> run_spares uuid i dev e ops (notif_step uuid op q)"

lemma tracker_changes:
  assumes "tracked uuid d" "dv_ackTracker d = Some t" "wf_map (at_pending t')" "at_issued t' = at_issued t"
    and "\<And>k. has (at_pending t') k \<Longrightarrow> has (at_pending t) k"
  shows "tracked uuid (d\<lparr>dv_ackTracker := Some t'\<rparr>)"
  using assms by (auto simp: tracked_def)

lemma ack_facts:
  assumes "ws_delivery.qinv uuid q"
  shows "ws_delivery.qinv uuid (handleNotificationACK c q k)" "ws_delivery.qinv uuid (ack_timeouts now q)"
    "open_notif (nq_store q) i dev ty pl e \<Longrightarrow> spares i dev e q (Acked c k) \<Longrightarrow>
       open_notif (nq_store (handleNotificationACK c q k)) i dev ty pl e"
    "nq_store (ack_timeouts now q) = nq_store q"
proof -
  obtain t where t: "dv_ackTracker (nq_deliverer q) = Some t" "wf_map (at_pending t)"
    using assms by (auto simp: ws_delivery.qinv_def tracked_def)
  have inv: "notifs_ok (nq_store q)" "tracked uuid (nq_deliverer q)" using assms by (auto simp: ws_delivery.qinv_def)
  show "ws_delivery.qinv uuid (ack_timeouts now q)" "nq_store (ack_timeouts now q) = nq_store q"
    using inv t by (auto simp: ack_timeouts_def ws_delivery.qinv_def checkTimeouts_def has_def get_del_if
        intro!: tracker_changes [OF inv(2) t(1)] split: option.splits)
  have "ws_delivery.qinv uuid (handleNotificationACK c q k) \<and>
     (open_notif (nq_store q) i dev ty pl e \<longrightarrow> spares i dev e q (Acked c k) \<longrightarrow>
       open_notif (nq_store (handleNotificationACK c q k)) i dev ty pl e)"
  proof (cases "k = [] \<or> get (at_pending t) k = None")
    case True
    then have "handleNotificationACK c q k = q \<or>
        handleNotificationACK c q k = q\<lparr>nq_deliverer := (nq_deliverer q)\<lparr>dv_ackTracker := Some t\<rparr>\<rparr>"
      by (auto simp: handleNotificationACK_def t(1) ACK_def)
    then show ?thesis using assms inv t(1) by (auto simp: ws_delivery.qinv_def tracked_def)
  next
    case False
    then obtain p where p: "get (at_pending t) k = Some p" by auto
    let ?q1 = "q\<lparr>nq_deliverer := (nq_deliverer q)\<lparr>dv_ackTracker := Some (t\<lparr>at_pending := del k (at_pending t)\<rparr>)\<rparr>\<rparr>"
    have q1: "ws_delivery.qinv uuid ?q1"
      using inv t by (auto simp: ws_delivery.qinv_def has_def get_del intro!: tracker_changes [OF inv(2) t(1)] split: if_splits)
    have "handleNotificationACK c q k = (if pn_StorageID p > 0
        then store_logged (\<lambda>st. MarkNotificationDelivered c st (pn_StorageID p)) ?q1 else ?q1)"
      using False p by (simp add: handleNotificationACK_def t(1) ACK_def Let_def)
    then show ?thesis using q1 ws_delivery.logged_statements(4,8) [OF q1, where c = c and j = "pn_StorageID p"] t(1) p by auto
  qed
  then show "ws_delivery.qinv uuid (handleNotificationACK c q k)"
    "open_notif (nq_store q) i dev ty pl e \<Longrightarrow> spares i dev e q (Acked c k) \<Longrightarrow>
       open_notif (nq_store (handleNotificationACK c q k)) i dev ty pl e"
    by blast+
qed

lemma page_facts:
  assumes "notifs_ok st"
  shows "notifs_ok (fst (HandleDismissNotification c st m path))"
    "notifs_ok (fst (HandleDismissDeviceNotifications c st m path))"
    "notifs_ok (fst (HandleBulkRetryNotifications c st m body))"
    "notifs_ok (fst (HandleClearDeliveredNotifications c st m))"
  using assms
  by (auto simp: HandleDismissNotification_def HandleDismissDeviceNotifications_def HandleBulkRetryNotifications_def
      HandleClearDeliveredNotifications_def Let_def split_beta statement_facts(7)
      dest: statement_facts(1,3,5) split: option.split sum.split db_error.split)

lemma page_open:
  assumes "notifs_ok st" "open_notif st i dev ty pl e"
  shows "spares i dev e q (DismissPage c m path) \<Longrightarrow> open_notif (fst (HandleDismissNotification c st m path)) i dev ty pl e"
    "spares i dev e q (DismissDevicePage c m path) \<Longrightarrow>
       open_notif (fst (HandleDismissDeviceNotifications c st m path)) i dev ty pl e"
    "open_notif (fst (HandleBulkRetryNotifications c st m body)) i dev ty pl e"
    "open_notif (fst (HandleClearDeliveredNotifications c st m)) i dev ty pl e"
proof -
  show "spares i dev e q (DismissPage c m path) \<Longrightarrow> open_notif (fst (HandleDismissNotification c st m path)) i dev ty pl e"
    using assms by (auto simp: HandleDismissNotification_def dest: statement_facts(2) split: option.split sum.split db_error.split)
  show "spares i dev e q (DismissDevicePage c m path) \<Longrightarrow>
       open_notif (fst (HandleDismissDeviceNotifications c st m path)) i dev ty pl e"
    using assms by (auto simp: HandleDismissDeviceNotifications_def Let_def dest: statement_facts(4) split: sum.split)
  show "open_notif (fst (HandleBulkRetryNotifications c st m body)) i dev ty pl e"
    using assms by (simp add: HandleBulkRetryNotifications_def split_beta statement_facts(8) split: option.split)
  show "open_notif (fst (HandleClearDeliveredNotifications c st m)) i dev ty pl e"
    using assms by (auto simp: HandleClearDeliveredNotifications_def dest: statement_facts(6) split: sum.split)
qed

lemma retry_page:
  fixes rc :: retry_conns and now :: gotime and c :: conn and m path :: string
  assumes "ws_delivery.qinv uuid q"
  defines "q' \<equiv> fst (HandleRetryNotification (DeliverNotification uuid) device_online True c rc now q m path)"
  shows "ws_delivery.qinv uuid q'"
    "open_notif (nq_store q) i dev ty pl e \<Longrightarrow> now \<le> e \<Longrightarrow> open_notif (nq_store q') i dev ty pl e"
proof -
  have "q' = q \<or> (\<exists>k. q' = fst (RetryNotification (DeliverNotification uuid) device_online c rc now q k))"
    by (auto simp: q'_def HandleRetryNotification_def split: option.split prod.split sum.split retry_error.split)
      (metis fst_conv)+
  then show "ws_delivery.qinv uuid q'"
    "open_notif (nq_store q) i dev ty pl e \<Longrightarrow> now \<le> e \<Longrightarrow> open_notif (nq_store q') i dev ty pl e"
    using assms(1) ws_delivery.RetryNotification_facts [OF assms(1), where connected = device_online and c = c and rc = rc and now = now]
    by auto
qed

lemma step_facts:
  assumes "ws_delivery.qinv uuid q"
  shows "ws_delivery.qinv uuid (notif_step uuid op q)"
    "open_notif (nq_store q) i dev ty pl e \<Longrightarrow> spares i dev e q op \<Longrightarrow>
       open_notif (nq_store (notif_step uuid op q)) i dev ty pl e"
proof -
  have ok: "notifs_ok (nq_store q)" and tr: "tracked uuid (nq_deliverer q)" using assms by (auto simp: ws_delivery.qinv_def)
  show "ws_delivery.qinv uuid (notif_step uuid op q)"
  proof (cases op)
    case (SocketChange ws)
    then show ?thesis using ok tr by (simp add: ws_delivery.qinv_def tracked_def)
  qed (use assms ok tr page_facts [OF ok] in \<open>simp_all add: ws_delivery.Enqueue_facts ws_delivery.work_facts
        ws_delivery.RetryDevice_facts ack_facts retry_page with_store_def ws_delivery.qinv_def [where q = "q\<lparr>nq_store := _\<rparr>"]\<close>)
  assume o: "open_notif (nq_store q) i dev ty pl e" and sp: "spares i dev e q op"
  show "open_notif (nq_store (notif_step uuid op q)) i dev ty pl e"
  proof (cases op)
    case (Acked c k)
    then show ?thesis using ack_facts(3) [OF assms o] sp by simp
  next
    case (DismissPage c m path)
    then show ?thesis using page_open(1) [OF ok o] sp by (simp add: with_store_def)
  next
    case (DismissDevicePage c m path)
    then show ?thesis using page_open(2) [OF ok o] sp by (simp add: with_store_def)
  qed (use o sp page_open(3,4) [OF ok o] in \<open>simp_all add: ws_delivery.Enqueue_facts(2) [OF assms] ws_delivery.work_facts(2) [OF assms]
        ws_delivery.RetryDevice_facts(2) [OF assms] ack_facts(4) [OF assms] retry_page(2) [OF assms] with_store_def\<close>)
qed

lemma run_facts:
  assumes "ws_delivery.qinv uuid q" "open_notif (nq_store q) i dev ty pl e" "run_spares uuid i dev e ops q"
  shows "ws_delivery.qinv uuid (notif_run uuid ops q)" "open_notif (nq_store (notif_run uuid ops q)) i dev ty pl e"
  using assms by (induction ops arbitrary: q) (simp_all add: notif_run_def step_facts)

section \<open>Properties\<close>

text \<open>C18: A stored notification that is neither delivered nor dismissed nor expired survives every run
  of workers, connections, acknowledgements of other notifications, time-outs, socket losses and
  management pages, with its device, type, payload and expiry unchanged; and when its device connects
  before it expires, it is afterwards either sent and awaiting its acknowledgement or has the failed
  attempt recorded.\<close>
theorem unacknowledged_notification_survives:
  assumes "tracked uuid (nq_deliverer q)" "notifs_ok (nq_store q)" "open_notif (nq_store q) i dev ty pl e"
    and "run_spares uuid i dev e ops q" "q' = notif_run uuid ops q"
    and "q'' = fst (RetryDevice (DeliverNotification uuid) c rc now q' dev)"
    and "now \<le> e" "cn_ok c" "cn_now c div second < e div second" "cn_ok (rc_reset rc i)" "cn_ok (rc_update rc i)"
  shows "open_notif (nq_store q') i dev ty pl e \<and>
     (awaiting_ack (nq_deliverer q'') i \<or>
      (\<exists>n. get (st_notifs (nq_store q'')) i = Some n \<and> sn_LastAttemptAt n = Some (cn_now (rc_update rc i))))"
proof -
  have "ws_delivery.qinv uuid q" using assms(1,2) by (simp add: ws_delivery.qinv_def)
  note R = run_facts [OF this assms(3,4), folded assms(5)]
  show ?thesis
    using ws_delivery.RetryDevice_facts(3) [OF R assms(7-11)] R(2) by (simp add: ws_delivery.handled_def assms(6))
qed

text \<open>A device with one stored notification, and a run that nearly loses it.\<close>

definition demo_uuid :: "nat \<Rightarrow> string" where
  "demo_uuid n = replicate (Suc n) CHR ''u''"

definition demo_conn :: "gotime \<Rightarrow> conn" where
  "demo_conn t = \<lparr>cn_ok = True, cn_fk = True, cn_now = t\<rparr>"

definition demo_retry :: retry_conns where
  "demo_retry = \<lparr>rc_mark = (\<lambda>i. demo_conn (90 * second)), rc_reset = (\<lambda>i. demo_conn (90 * second)),
     rc_update = (\<lambda>i. demo_conn (91 * second))\<rparr>"

definition demo_notif_store :: store where
  "demo_notif_store = empty_store\<lparr>st_devices := [(''d1'', \<lparr>dr_name = ''Phone'', dr_platform = ''ios'',
     dr_platform_version = ''17'', dr_scopes = [], dr_created_at = 1, dr_last_seen = 1\<rparr>)]\<rparr>"

definition demo_queue :: "deliverer notif_queue" where
  "demo_queue = notif_run demo_uuid
     [Enqueued (demo_conn second) second ''d1'' ''device_paired'' ''{}'' (1000 * second) 3,
      Worked (demo_conn (2 * second)) (demo_conn (2 * second)) (2 * second)]
     (NewQueue 2 demo_notif_store \<lparr>dv_ws = NewManager_ws, dv_ackTracker = Some (NewACKTracker 0)\<rparr>)"

definition demo_ops :: "notif_op list" where
  "demo_ops = [TimedOut (50 * second), Acked (demo_conn (51 * second)) ''other'',
     DismissPage (demo_conn (52 * second)) ''DELETE'' ''/api/v1/notifications/7'',
     DismissDevicePage (demo_conn (53 * second)) ''DELETE'' ''/api/v1/notifications/device/d2'',
     ClearPage (demo_conn (54 * second)) ''DELETE'',
     RetryPage (demo_conn (55 * second)) demo_retry (55 * second) ''POST'' ''/api/v1/notifications/1/retry'',
     BulkRetryPage (demo_conn (56 * second)) ''POST'' (Some [1, 2])]"

lemma demo_uuid_inj: "inj demo_uuid"
  by (rule injI) (auto simp: demo_uuid_def dest: arg_cong [where f = length])

lemma demo_queue_ok: "ws_delivery.qinv demo_uuid demo_queue"
proof -
  let ?q0 = "NewQueue 2 demo_notif_store \<lparr>dv_ws = NewManager_ws, dv_ackTracker = Some (NewACKTracker 0)\<rparr>"
  have "ws_delivery.qinv demo_uuid ?q0"
    by (simp add: ws_delivery.qinv_def NewQueue_def demo_notif_store_def empty_store_def notifs_ok_def tracked_def
        demo_uuid_inj NewACKTracker_def has_def)
  then show ?thesis by (simp add: demo_queue_def notif_run_def step_facts(1) del: notif_step.simps)
qed

lemma demo_queue_holds:
  "map_option (\<lambda>n. (sn_DeviceID n, sn_Type n, sn_Payload n, sn_ExpiresAt n, sn_Status n))
     (get (st_notifs (nq_store demo_queue)) 1) = Some (''d1'', ''device_paired'', ''{}'', 1002 * second, NPending)"
  by code_simp

lemma unacknowledged_notification_survives_witness:
  "open_notif (nq_store (notif_run demo_uuid demo_ops demo_queue)) 1 ''d1'' ''device_paired'' ''{}'' (1002 * second)"
proof -
  have o: "open_notif (nq_store demo_queue) 1 ''d1'' ''device_paired'' ''{}'' (1002 * second)"
    using demo_queue_holds by (auto simp: open_notif_def)
  have sp: "run_spares demo_uuid 1 ''d1'' (1002 * second) demo_ops demo_queue" by code_simp
  have ok: "tracked demo_uuid (nq_deliverer demo_queue)" "notifs_ok (nq_store demo_queue)"
    using demo_queue_ok by (simp_all add: ws_delivery.qinv_def)
  show ?thesis
    using unacknowledged_notification_survives [OF ok o sp refl refl, where c = "demo_conn (90 * second)"
        and rc = demo_retry and now = "90 * second"]
    by (simp add: demo_conn_def demo_retry_def second_def)
qed

section \<open>Pages of the list\<close>

lemma concat_pages: "concat (map (\<lambda>k. take l (drop (l * k) xs)) [0..<N]) = take (l * N) xs"
proof (induction N)
  case (Suc N)
  then show ?case using take_add [of "l * N" l xs] by (simp add: add.commute)
qed simp

text \<open>Asking for the list page by page, with any page size the handler accepts, shows every
  notification the filter selects exactly once, newest first, and the total counts them all.\<close>
theorem pages_list_every_notification:
  assumes "cn_ok c" "cn_ok c'" "1 \<le> L" "L \<le> 200"
    and "ns = filter (matches_filter f) (map snd (st_notifs st))" "int (length ns) \<le> L * int N"
  shows "concat (map (\<lambda>k. case ListNotifications c c' st (f\<lparr>lf_Limit := L, lf_Offset := L * int k\<rparr>) thr of
                     Inr r \<Rightarrow> (if lr_Total r = int (length ns) then map li_ID (lr_Notifications r) else [])
                   | Inl e \<Rightarrow> []) [0..<N])
       = map sn_ID (sort_key (\<lambda>n. - sn_CreatedAt n) ns)"
proof -
  let ?s = "sort_key (\<lambda>n. - sn_CreatedAt n) ns" and ?l = "nat L"
  have m: "matches_filter (f\<lparr>lf_Limit := L, lf_Offset := a\<rparr>) = matches_filter f" for a
    by (simp add: matches_filter_def fun_eq_iff)
  have i: "li_ID (item_of t st n) = sn_ID n" for t n by (simp add: item_of_def)
  have off: "nat (L * int k) = ?l * k" for k using assms(3) by (simp add: nat_mult_distrib)
  have page: "(case ListNotifications c c' st (f\<lparr>lf_Limit := L, lf_Offset := L * int k\<rparr>) thr of
       Inr r \<Rightarrow> (if lr_Total r = int (length ns) then map li_ID (lr_Notifications r) else []) | Inl e \<Rightarrow> [])
     = take ?l (drop (?l * k) (map sn_ID ?s))" for k
    using assms(1-4) by (simp add: ListNotifications_def Let_def clamp_limit_def m assms(5)[symmetric] off i comp_def take_map drop_map)
  have "length (map sn_ID ?s) \<le> ?l * N" using assms(3,6) by (simp add: nat_int_comparison zless_nat_eq_int_zless)
  then show ?thesis unfolding page concat_pages by simp
qed

lemma pages_list_every_notification_witness:
  "concat (map (\<lambda>k. case ListNotifications (demo_conn 1) (demo_conn 2) (nq_store demo_queue)
        (\<lparr>lf_Status = ''pending'', lf_DeviceID = [], lf_Type = [], lf_Limit = 2, lf_Offset = 2 * int k\<rparr>) 0 of
        Inr r \<Rightarrow> (if lr_Total r = 1 then map li_ID (lr_Notifications r) else []) | Inl e \<Rightarrow> []) [0..<3]) = [1]"
proof -
  let ?f = "\<lparr>lf_Status = ''pending'', lf_DeviceID = [], lf_Type = [], lf_Limit = 0, lf_Offset = 0\<rparr>"
  let ?ns = "filter (matches_filter ?f) (map snd (st_notifs (nq_store demo_queue)))"
  have l: "length ?ns = 1" "map sn_ID (sort_key (\<lambda>n. - sn_CreatedAt n) ?ns) = [1]" by code_simp+
  have c: "cn_ok (demo_conn 1)" "cn_ok (demo_conn 2)" by (simp_all add: demo_conn_def)
  have n: "int (length ?ns) \<le> 2 * int 3" by (simp only: l)
  show ?thesis
    using pages_list_every_notification [OF c _ _ refl n, where thr = 0]
    by (simp only: l list_filter.update_convs of_nat_1)
qed

text \<open>The retry page reopens whatever it is asked for, acknowledged and dismissed notifications too.\<close>

lemma retry_page_reopens_closed:
  assumes "get (st_notifs st) i = Some n" "i \<in> set ids" "cn_ok c"
  shows "get (st_notifs (fst (HandleBulkRetryNotifications c st ''POST'' (Some ids)))) i
     = Some (n\<lparr>sn_Status := NPending, sn_RetryCount := 0, sn_ErrorMessage := None\<rparr>)"
  using assms by (auto simp: HandleBulkRetryNotifications_def reset_rows_def Let_def get_adjust_if)

end
