(* ===== verification/WsHandlers.thy ===== *)
theory WsHandlers
  imports Access NotifAdmin
begin

text \<open>
  \<open>cmd/nekzus/websocket_handlers.go\<close>: a WebSocket connection from its authentication to its end, and the
  messages a client sends.  The state is the notification system, whose deliverer holds the WebSocket
  manager.  \<open>p\<close> is the address of the connection's client.  Whether a write to the socket succeeds, the
  frames that arrive and the error that ends the connection are inputs; \<open>is_unexpected\<close> is
  gorilla/websocket's \<open>IsUnexpectedCloseError\<close>.  Container log streams are not modelled.
\<close>

section \<open>Authentication\<close>

datatype ws_refusal =
  NoAuthMessage | NotAuthMessage | TokenRequired | InvalidToken auth_error | AuthStorageError | DeviceGone

definition authenticate_ws ::
  "jwt_parser \<Rightarrow> auth_manager \<Rightarrow> gotime \<Rightarrow> bool \<Rightarrow> (conn \<times> store) option \<Rightarrow> (string \<times> json) option
   \<Rightarrow> ws_refusal + string" where
  "authenticate_ws jwt_parse am now isLocal storage first =
     (case first of
        None \<Rightarrow> Inl NoAuthMessage
      | Some (msgType, data) \<Rightarrow>
          if msgType \<noteq> ''auth'' then Inl NotAuthMessage
          else
            (let token = string_member data ''token'';
                 who =
                   (if token = [] then (if \<not> isLocal then Inl TokenRequired else Inr ''admin'')
                    else case ParseJWT jwt_parse am now token of
                           Inl e \<Rightarrow> Inl (InvalidToken e)
                         | Inr claims \<Rightarrow> Inr (case subject claims of Some d \<Rightarrow> d | None \<Rightarrow> ''anonymous''))
             in case who of
                  Inl e \<Rightarrow> Inl e
                | Inr d \<Rightarrow>
                    (case storage of
                       None \<Rightarrow> Inr d
                     | Some (c, st) \<Rightarrow>
                         if d = ''anonymous'' \<or> d = ''admin'' then Inr d
                         else case GetDevice c st d of
                                Inl e \<Rightarrow> Inl AuthStorageError
                              | Inr None \<Rightarrow> Inl DeviceGone
                              | Inr (Some r) \<Rightarrow> Inr d)))"

section \<open>Messages\<close>

definition on_ws :: "(ws_manager \<Rightarrow> ws_manager) \<Rightarrow> deliverer notif_queue \<Rightarrow> deliverer notif_queue" where
  "on_ws f q = q\<lparr>nq_deliverer := (nq_deliverer q)\<lparr>dv_ws := f (dv_ws (nq_deliverer q))\<rparr>\<rparr>"

definition sendSubAck :: "string \<Rightarrow> string list \<Rightarrow> bool \<Rightarrow> ack_error option \<Rightarrow> ws_manager \<Rightarrow> ws_manager" where
  "sendSubAck d topics success err wm = fst (SendToDevice d (ws_msg ''suback'' (SubAckData topics success err)) wm)"

definition sendUnsubAck :: "string \<Rightarrow> string list \<Rightarrow> bool \<Rightarrow> ws_manager \<Rightarrow> ws_manager" where
  "sendUnsubAck d topics success wm = fst (SendToDevice d (ws_msg ''unsuback'' (UnsubAckData topics success)) wm)"

definition sendLWTAck :: "string \<Rightarrow> bool \<Rightarrow> bool \<Rightarrow> ack_error option \<Rightarrow> ws_manager \<Rightarrow> ws_manager" where
  "sendLWTAck d success cleared err wm = fst (SendToDevice d (ws_msg ''lwtack'' (LWTAckData success cleared err)) wm)"

record topics_request =
  tr_Topics :: "string list"
  tr_QoS :: int

definition topics_field :: "string \<Rightarrow> json \<Rightarrow> topics_request \<Rightarrow> topics_request option" where
  "topics_field k v r =
     (if k = ''topics'' then map_option (\<lambda>ts. r\<lparr>tr_Topics := ts\<rparr>) (decode_strings v (tr_Topics r))
      else if k = ''qos'' then map_option (\<lambda>q. r\<lparr>tr_QoS := q\<rparr>) (decode_int v (tr_QoS r))
      else Some r)"

definition unsub_field :: "string \<Rightarrow> json \<Rightarrow> string list \<Rightarrow> string list option" where
  "unsub_field k v ts = (if k = ''topics'' then decode_strings v ts else Some ts)"

record will_request =
  wr_Topic :: string
  wr_Message :: json
  wr_QoS :: int

definition will_field :: "string \<Rightarrow> json \<Rightarrow> will_request \<Rightarrow> will_request option" where
  "will_field k v r =
     (if k = ''topic'' then map_option (\<lambda>t. r\<lparr>wr_Topic := t\<rparr>) (decode_string v (wr_Topic r))
      else if k = ''message'' then Some (r\<lparr>wr_Message := v\<rparr>)
      else if k = ''qos'' then map_option (\<lambda>q. r\<lparr>wr_QoS := q\<rparr>) (decode_int v (wr_QoS r))
      else Some r)"

definition handleTopicSubscribe :: "gotime \<Rightarrow> string \<Rightarrow> json \<Rightarrow> ws_manager \<Rightarrow> ws_manager" where
  "handleTopicSubscribe now d data wm =
     (case via_text topics_field data \<lparr>tr_Topics = [], tr_QoS = 0\<rparr> of
        None \<Rightarrow> sendSubAck d [] False (Some InvalidFormat) wm
      | Some req \<Rightarrow>
          if tr_Topics req = [] then sendSubAck d [] False (Some NoTopics) wm
          else (case SubscribeClientToTopics now d (tr_Topics req) (tr_QoS req) wm of
                  (wm1, Some e) \<Rightarrow> sendSubAck d (tr_Topics req) False (Some (Failed e)) wm1
                | (wm1, None) \<Rightarrow> sendSubAck d (tr_Topics req) True None wm1))"

definition handleTopicUnsubscribe :: "string \<Rightarrow> json \<Rightarrow> ws_manager \<Rightarrow> ws_manager" where
  "handleTopicUnsubscribe d data wm =
     (case via_text unsub_field data [] of
        None \<Rightarrow> wm
      | Some topics \<Rightarrow>
          if topics = [] then wm
          else (case UnsubscribeClientFromTopics d topics wm of
                  (wm1, Some e) \<Rightarrow> sendUnsubAck d topics False wm1
                | (wm1, None) \<Rightarrow> sendUnsubAck d topics True wm1))"

definition handleSetLastWill :: "string \<Rightarrow> json \<Rightarrow> ws_manager \<Rightarrow> ws_manager" where
  "handleSetLastWill d data wm =
     (case via_text will_field data \<lparr>wr_Topic = [], wr_Message = JNull, wr_QoS = 0\<rparr> of
        None \<Rightarrow> sendLWTAck d False False (Some InvalidFormat) wm
      | Some req \<Rightarrow>
          if wr_Topic req = []
          then (case ClearClientLastWill d wm of
                  (wm1, Some e) \<Rightarrow> sendLWTAck d False False (Some (Failed e)) wm1
                | (wm1, None) \<Rightarrow> sendLWTAck d True True None wm1)
          else
            (let lw = \<lparr>lw_Topic = wr_Topic req, lw_Message = ws_msg (wr_Topic req) (JsonData (wr_Message req)),
                       lw_QoS = wr_QoS req\<rparr> in
             case SetClientLastWill d lw wm of
               (wm1, Some e) \<Rightarrow> sendLWTAck d False False (Some (Failed e)) wm1
             | (wm1, None) \<Rightarrow> sendLWTAck d True False None wm1))"

record ws_incoming =
  in_Type :: string
  in_NotificationID :: string
  in_MessageID :: string
  in_Data :: json

definition notification_id :: "ws_incoming \<Rightarrow> string" where
  "notification_id msg =
     (if in_NotificationID msg = [] then string_member (in_Data msg) ''notificationId'' else in_NotificationID msg)"

text \<open>\<open>handleQoSAck\<close> only logs.\<close>

definition handleQoSAck :: "string \<Rightarrow> ws_incoming \<Rightarrow> ws_manager \<Rightarrow> ws_manager" where
  "handleQoSAck d msg wm = wm"

definition handleWebSocketMessage ::
  "gotime \<Rightarrow> conn \<Rightarrow> string \<Rightarrow> ws_incoming \<Rightarrow> deliverer notif_queue \<Rightarrow> deliverer notif_queue" where
  "handleWebSocketMessage now c d msg q =
     (let t = in_Type msg in
      if t = ''subscribe'' then on_ws (handleTopicSubscribe now d (in_Data msg)) q
      else if t = ''unsubscribe'' then on_ws (handleTopicUnsubscribe d (in_Data msg)) q
      else if t = ''set_last_will'' then on_ws (handleSetLastWill d (in_Data msg)) q
      else if t = ''ack'' then on_ws (handleQoSAck d msg) q
      else if t = ''notification_ack'' then handleNotificationACK c q (notification_id msg)
      else q)"

section \<open>A connection\<close>

datatype read_error = CloseFrame int | OtherError

definition CloseGoingAway :: int where "CloseGoingAway = 1001"
definition CloseAbnormalClosure :: int where "CloseAbnormalClosure = 1006"

type_synonym close_check = "read_error \<Rightarrow> int list \<Rightarrow> bool"

definition end_connection :: "close_check \<Rightarrow> gotime \<Rightarrow> nat \<Rightarrow> read_error \<Rightarrow> ws_manager \<Rightarrow> ws_manager" where
  "end_connection is_unexpected now p err wm =
     (if is_unexpected err [CloseGoingAway, CloseAbnormalClosure]
      then UnsubscribeUnexpected now p wm else Unsubscribe now p wm)"

record ws_session =
  cs_first :: "(string \<times> json) option"
  cs_success_written :: bool
  cs_hello_written :: bool
  cs_frames :: "(gotime \<times> conn \<times> ws_incoming option) list"
  cs_error :: read_error
  cs_end :: gotime

text \<open>One connection on its own; a frame that is not JSON is skipped.\<close>

definition handleWebSocket ::
  "jwt_parser \<Rightarrow> auth_manager \<Rightarrow> gotime \<Rightarrow> bool \<Rightarrow> (conn \<times> store) option \<Rightarrow> close_check \<Rightarrow> nat \<Rightarrow> ws_session
   \<Rightarrow> deliverer notif_queue \<Rightarrow> deliverer notif_queue" where
  "handleWebSocket jwt_parse am now isLocal storage is_unexpected p s q =
     (case authenticate_ws jwt_parse am now isLocal storage (cs_first s) of
        Inl e \<Rightarrow> q
      | Inr d \<Rightarrow>
          if \<not> cs_success_written s then q
          else
            (let q1 = on_ws (\<lambda>wm. fst (Subscribe p (NewClient d 256) wm)) q in
             if \<not> cs_hello_written s then q1
             else on_ws (end_connection is_unexpected (cs_end s) p (cs_error s))
                    (foldl (\<lambda>q (t, c, frame). case frame of None \<Rightarrow> q | Some msg \<Rightarrow> handleWebSocketMessage t c d msg q)
                       q1 (cs_frames s))))"

section \<open>Messages keep the connections\<close>

definition same_clients :: "ws_manager \<Rightarrow> ws_manager \<Rightarrow> bool" where
  "same_clients wm wm' \<longleftrightarrow> wm_clients wm' = wm_clients wm \<and> (\<forall>p. known wm' p = known wm p)"

lemma same_refl [simp]: "same_clients wm wm"
  by (simp add: same_clients_def)

lemma same_trans [trans]: "same_clients a b \<Longrightarrow> same_clients b c \<Longrightarrow> same_clients a c"
  by (simp add: same_clients_def)

lemma same_on_client: "same_clients wm (on_client p f wm)"
  by (simp add: same_clients_def)

lemma SendToDevice_same: "same_clients wm (fst (SendToDevice d msg wm))"
proof -
  have "same_clients wm (fst (foldl (\<lambda>(wm, sent) p. case send_to msg p wm of (wm', ok) \<Rightarrow> (wm', sent \<or> ok)) (wm, b) ps))" for b ps
  proof (induction ps arbitrary: wm b)
    case (Cons p ps)
    have "same_clients wm (fst (send_to msg p wm))" by (simp add: same_clients_def)
    also note Cons.IH [of "fst (send_to msg p wm)" "b \<or> snd (send_to msg p wm)"]
    finally show ?case by (simp add: split_beta)
  qed simp
  from this [of False] show ?thesis by (simp add: SendToDevice_def split_beta)
qed

lemma subscribe_clients_same: "same_clients wm (fst (subscribe_clients ps patterns qos wm))"
proof (induction ps patterns qos wm rule: subscribe_clients.induct)
  case (2 p ps patterns qos wm)
  obtain c e where r: "SubscribeToTopics patterns qos (client_at wm p) = (c, e)" by fastforce
  show ?case
  proof (cases e)
    case None
    note same_on_client [of wm p "\<lambda>_. c"]
    also note 2 [OF r [symmetric] refl None]
    finally show ?thesis by (simp add: r None)
  qed (simp add: r same_on_client)
qed simp

lemma retained_same: "same_clients wm (sendRetainedMessages now clients patterns wm)"
proof -
  have "same_clients wm (foldl (\<lambda>wm (topic, rm). foldl (\<lambda>wm p. fst (send_to (rm_Message rm) p wm)) wm clients) wm rs)" for rs
    by (induction rs arbitrary: wm) (auto simp: same_clients_def send_all)
  then show ?thesis by (simp add: sendRetainedMessages_def)
qed

lemma topics_same:
  "same_clients wm (fst (SubscribeClientToTopics now d patterns qos wm))"
  "same_clients wm (fst (on_device_clients d f wm))"
proof -
  obtain wm1 e where r: "subscribe_clients (get_zero [] (wm_clientsByDevice wm) d) patterns qos wm = (wm1, e)" by fastforce
  then have "same_clients wm wm1" using subscribe_clients_same [of wm "get_zero [] (wm_clientsByDevice wm) d" patterns qos] by simp
  then show "same_clients wm (fst (SubscribeClientToTopics now d patterns qos wm))"
    using same_trans [OF _ retained_same] r by (cases e) (simp_all add: SubscribeClientToTopics_def Let_def)
  show "same_clients wm (fst (on_device_clients d f wm))"
    by (simp add: on_device_clients_def Let_def same_clients_def fold_on_client)
qed

lemma acks_same:
  "same_clients wm (sendSubAck d topics ok err wm)" "same_clients wm (sendUnsubAck d topics ok wm)"
  "same_clients wm (sendLWTAck d ok cleared err wm)"
  by (simp_all add: sendSubAck_def sendUnsubAck_def sendLWTAck_def SendToDevice_same)

lemma replies_same:
  "same_clients wm (case f of (wm1, Some e) \<Rightarrow> g e wm1 | (wm1, None) \<Rightarrow> h wm1)"
  if "same_clients wm (fst f)" "\<And>e wm1. same_clients wm1 (g e wm1)" "\<And>wm1. same_clients wm1 (h wm1)"
  using that by (auto split: prod.split option.split intro: same_trans)

lemma handlers_same:
  "same_clients wm (handleTopicSubscribe now d data wm)" "same_clients wm (handleTopicUnsubscribe d data wm)"
  "same_clients wm (handleSetLastWill d data wm)"
  unfolding handleTopicSubscribe_def handleTopicUnsubscribe_def handleSetLastWill_def
    UnsubscribeClientFromTopics_def ClearClientLastWill_def SetClientLastWill_def Let_def
  by (auto simp: acks_same topics_same intro!: replies_same split: option.split)

lemma dv_ws_on_ws [simp]: "dv_ws (nq_deliverer (on_ws f q)) = f (dv_ws (nq_deliverer q))"
  by (simp add: on_ws_def)

lemma notification_ack_ws: "dv_ws (nq_deliverer (handleNotificationACK c q k)) = dv_ws (nq_deliverer q)"
  by (auto simp: handleNotificationACK_def Let_def store_logged_def split: option.split prod.split sum.split)

lemma message_same: "same_clients (dv_ws (nq_deliverer q)) (dv_ws (nq_deliverer (handleWebSocketMessage now c d msg q)))"
  by (simp add: handleWebSocketMessage_def Let_def handlers_same handleQoSAck_def notification_ack_ws)

lemma frames_same:
  "same_clients (dv_ws (nq_deliverer q)) (dv_ws (nq_deliverer
     (foldl (\<lambda>q (t, c, frame). case frame of None \<Rightarrow> q | Some msg \<Rightarrow> handleWebSocketMessage t c d msg q) q frames)))"
proof (induction frames arbitrary: q)
  case (Cons f frames)
  obtain t c frame where f: "f = (t, c, frame)" by (cases f)
  show ?case
  proof (cases frame)
    case (Some msg)
    note message_same [of q t c d msg]
    also note Cons.IH [of "handleWebSocketMessage t c d msg q"]
    finally show ?thesis by (simp add: f Some)
  qed (simp add: f Cons.IH)
qed simp

lemma unsubscribe_clients:
  "wm_clients (unsubscribeClient now p b wm) = remove1 p (wm_clients wm)"
  by (simp add: unsubscribeClient_def Let_def publishLastWillMessage_def PublishToTopic_def SetRetainedMessage_def
      broadcast_simps remove1_idem split: option.split)

section \<open>Properties\<close>

text \<open>A WebSocket connection is accepted for a device only with a valid token of a device that is
  still in the store, so removing a device shuts it out -- unless its identifier is \<open>admin\<close> or
  \<open>anonymous\<close>, which are never looked up, or the peer is local and sends no token, which makes it
  \<open>admin\<close>.\<close>
theorem accepted_device:
  assumes "authenticate_ws jwt_parse am now isLocal (Some (c, st)) first = Inr d"
  shows "\<exists>data. first = Some (''auth'', data) \<and>
     (string_member data ''token'' = [] \<and> isLocal \<and> d = ''admin''
      \<or> (\<exists>claims. ParseJWT jwt_parse am now (string_member data ''token'') = Inr claims
           \<and> d = (case subject claims of Some s \<Rightarrow> s | None \<Rightarrow> ''anonymous'')
           \<and> (d = ''admin'' \<or> d = ''anonymous'' \<or> cn_ok c \<and> has (st_devices st) d)))"
proof -
  obtain data where f: "first = Some (''auth'', data)"
    using assms by (cases first) (auto simp: authenticate_ws_def Let_def split: if_splits)
  show ?thesis
  proof (cases "string_member data ''token'' = []")
    case True
    then show ?thesis using assms by (auto simp: authenticate_ws_def f split: if_splits)
  next
    case False
    then obtain claims where "ParseJWT jwt_parse am now (string_member data ''token'') = Inr claims"
      using assms by (cases "ParseJWT jwt_parse am now (string_member data ''token'')") (simp_all add: authenticate_ws_def f)
    then show ?thesis using assms False
      by (auto simp: authenticate_ws_def f GetDevice_def has_def split: if_splits option.splits)
  qed
qed

lemma accepted_device_witness:
  "\<exists>data. Some (''auth'', JObj []) = Some (''auth'', data) \<and> string_member data ''token'' = []"
proof -
  have "authenticate_ws (\<lambda>_ _ _ _. Inl []) am 1 True (Some (demo_conn 1, empty_store)) (Some (''auth'', JObj [])) = Inr ''admin''" for am
    by (simp add: authenticate_ws_def string_member_def)
  from accepted_device [OF this] show ?thesis by (auto simp: ParseJWT_def string_member_def)
qed

text \<open>When the handler of a connection is done, its client is no longer registered, whatever messages
  came and however the connection ended -- with one exception: when the greeting after the registration
  cannot be written the handler returns without unregistering, and the client stays for good.\<close>
theorem finished_connection_is_gone:
  assumes "ws_reach (dv_ws (nq_deliverer q))" "\<not> known (dv_ws (nq_deliverer q)) p"
    and "q' = handleWebSocket jwt_parse am now isLocal storage is_unexpected p s q"
  shows "p \<in> set (wm_clients (dv_ws (nq_deliverer q'))) \<longleftrightarrow>
     (\<exists>d. authenticate_ws jwt_parse am now isLocal storage (cs_first s) = Inr d) \<and> cs_success_written s \<and> \<not> cs_hello_written s"
proof -
  let ?wm = "dv_ws (nq_deliverer q)"
  have inv: "ws_inv ?wm" by (rule ws_reach_inv [OF assms(1)])
  have out: "p \<notin> set (wm_clients ?wm)" using inv assms(2) by (auto simp: ws_inv_def)
  have sub: "wm_clients (fst (Subscribe p c ?wm)) = List.insert p (wm_clients ?wm)" for c
    by (simp add: Subscribe_def Let_def broadcast_simps)
  have dist: "distinct (List.insert p (wm_clients ?wm))" using inv by (simp add: ws_inv_def)
  show ?thesis
  proof (cases "authenticate_ws jwt_parse am now isLocal storage (cs_first s)")
    case (Inl e)
    then show ?thesis using out by (simp add: assms(3) handleWebSocket_def)
  next
    case (Inr d)
    let ?q1 = "on_ws (\<lambda>wm. fst (Subscribe p (NewClient d 256) wm)) q"
    let ?q2 = "foldl (\<lambda>q (t, c, frame). case frame of None \<Rightarrow> q | Some msg \<Rightarrow> handleWebSocketMessage t c d msg q) ?q1 (cs_frames s)"
    have "wm_clients (dv_ws (nq_deliverer ?q2)) = List.insert p (wm_clients ?wm)"
      using frames_same [of ?q1 d "cs_frames s"] sub by (simp add: same_clients_def)
    then have "p \<notin> set (wm_clients (end_connection is_unexpected (cs_end s) p (cs_error s) (dv_ws (nq_deliverer ?q2))))"
      using dist by (simp add: end_connection_def Unsubscribe_def UnsubscribeUnexpected_def unsubscribe_clients set_remove1_eq)
    then show ?thesis using out sub by (simp add: assms(3) handleWebSocket_def Inr Let_def)
  qed
qed

lemma finished_connection_is_gone_witness:
  "7 \<in> set (wm_clients (dv_ws (nq_deliverer (handleWebSocket (\<lambda>_ _ _ _. Inl []) demo_manager 1 True None (\<lambda>_ _. False) 7
      \<lparr>cs_first = Some (''auth'', JNull), cs_success_written = True, cs_hello_written = False, cs_frames = [],
       cs_error = OtherError, cs_end = 2\<rparr> (NewQueue 1 empty_store \<lparr>dv_ws = NewManager_ws, dv_ackTracker = None\<rparr>)))))"
proof -
  let ?q = "NewQueue 1 empty_store \<lparr>dv_ws = NewManager_ws, dv_ackTracker = None\<rparr>"
  have wm: "dv_ws (nq_deliverer ?q) = NewManager_ws" by (simp add: NewQueue_def)
  have "ws_reach (dv_ws (nq_deliverer ?q))" "\<not> known (dv_ws (nq_deliverer ?q)) 7"
    unfolding wm by (rule ws_new) (simp add: known_def NewManager_ws_def has_def)
  from finished_connection_is_gone [OF this refl] show ?thesis
    by (simp add: authenticate_ws_def string_member_def)
qed

text \<open>What leaving does to another client: at most the announcement that a device went offline.\<close>

lemma unexpected_is_leaving_and_will:
  "UnsubscribeUnexpected now p wm =
     (case cl_lastWill (client_at wm p) of
        None \<Rightarrow> Unsubscribe now p wm
      | Some lw \<Rightarrow> publishLastWillMessage now lw (Unsubscribe now p wm))"
  by (simp only: UnsubscribeUnexpected_def Unsubscribe_def unsubscribeClient_def Let_def if_True if_False option.case)

lemma Unsubscribe_other:
  assumes "ws_inv wm" "p \<in> set (wm_clients wm)" "q \<in> set (wm_clients wm)" "p \<noteq> q"
    and "cl_sendChan (client_at wm q) = Some buf" "\<not> cl_chanClosed (client_at wm q)" "length buf + 2 \<le> cl_cap (client_at wm q)"
  shows "q \<in> set (wm_clients (Unsubscribe now p wm))"
    "cl_subscriptions (client_at (Unsubscribe now p wm) q) = cl_subscriptions (client_at wm q)"
    "can_send (client_at (Unsubscribe now p wm) q)"
    "\<exists>new. chan (Unsubscribe now p wm) q = buf @ new \<and> (\<forall>m \<in> set new. ms_Topic m = [])"
proof -
  show "q \<in> set (wm_clients (Unsubscribe now p wm))" using assms(3,4) by (simp add: Unsubscribe_def unsubscribe_clients)
  have kn: "known wm q" "distinct (wm_clients wm)" using assms(1,3) by (auto simp: ws_inv_def)
  let ?d = "device_of wm p"
  let ?b = "put ?d (remove1 p (get_zero [] (wm_clientsByDevice wm) ?d)) (wm_clientsByDevice wm)"
  let ?wm1 = "on_client p closeSendChanSafe (wm\<lparr>wm_clients := remove1 p (wm_clients wm),
      wm_clientsByDevice := (if get_zero [] ?b ?d = [] then del ?d ?b else ?b)\<rparr>)"
  let ?msg = "ws_msg ''device_status'' (Fields [(''deviceId'', ?d), (''status'', ''offline'')])"
  have frame: "client_at (wm\<lparr>wm_clients := a, wm_clientsByDevice := b\<rparr>) r = client_at wm r"
    "known (wm\<lparr>wm_clients := a, wm_clientsByDevice := b\<rparr>) r = known wm r" for a b r
    by (simp_all add: client_at_def known_def)
  have U: "Unsubscribe now p wm = (if get_zero [] ?b ?d = [] then Broadcast ?msg ?wm1 else ?wm1)"
    using assms(2) by (simp add: Unsubscribe_def unsubscribeClient_def Let_def PublishDeviceStatus_def)
  have w1: "client_at ?wm1 q = client_at wm q" "known ?wm1 q" "distinct (wm_clients ?wm1)" "q \<in> set (wm_clients ?wm1)"
    using assms(3,4) kn frame by (simp_all add: distinct_remove1)
  have "client_at (Broadcast ?msg ?wm1) q = fst (TrySend ?msg (client_at wm q))"
    unfolding Broadcast_def by (subst BroadcastFiltered_client [OF w1(3)]) (simp add: w1 del: on_client_simps client_at_on_client)
  then have "client_at (Unsubscribe now p wm) q = client_at wm q
      \<or> client_at (Unsubscribe now p wm) q = (client_at wm q)\<lparr>cl_sendChan := Some (buf @ [?msg])\<rparr>"
    using w1(1) assms(5-7) by (auto simp: U TrySend_def)
  then show "cl_subscriptions (client_at (Unsubscribe now p wm) q) = cl_subscriptions (client_at wm q)"
    "can_send (client_at (Unsubscribe now p wm) q)"
    "\<exists>new. chan (Unsubscribe now p wm) q = buf @ new \<and> (\<forall>m \<in> set new. ms_Topic m = [])"
    using assms(5-7) by (auto simp: can_send_def chan_def ws_msg_def)
qed

text \<open>A client's last will is published exactly when its connection ends with a close frame other
  than \<open>going away\<close> and \<open>abnormal closure\<close> -- so a client that closes normally (code 1000) has its will
  sent to the subscribers, and one whose connection breaks, or times out, has not.\<close>
theorem last_will_on_normal_close:
  assumes "ws_reach wm" "\<forall>c codes. is_unexpected (CloseFrame c) codes \<longleftrightarrow> c \<notin> set codes"
    and "\<forall>codes. \<not> is_unexpected OtherError codes"
    and "p \<in> set (wm_clients wm)" "q \<in> set (wm_clients wm)" "p \<noteq> q"
    and "cl_lastWill (client_at wm p) = Some lw" "lw_Topic lw \<noteq> []" "ms_ExpiresAt (lw_Message lw) = None"
    and "IsSubscribedTo (client_at wm q) (lw_Topic lw)" "cl_sendChan (client_at wm q) = Some buf"
    and "\<not> cl_chanClosed (client_at wm q)" "length buf + 2 \<le> cl_cap (client_at wm q)"
  shows "(\<exists>m \<in> set (drop (length buf) (chan (end_connection is_unexpected now p err wm) q)). ms_Topic m = lw_Topic lw)
     \<longleftrightarrow> (\<exists>c. err = CloseFrame c \<and> c \<noteq> 1001 \<and> c \<noteq> 1006)"
proof -
  have inv: "ws_inv wm" by (rule ws_reach_inv [OF assms(1)])
  note U = Unsubscribe_other [OF inv assms(4-6,11-13), where now = now]
  obtain new where new: "chan (Unsubscribe now p wm) q = buf @ new" "\<forall>m \<in> set new. ms_Topic m = []" using U(4) by blast
  have sub: "IsSubscribedTo (client_at (Unsubscribe now p wm) q) (lw_Topic lw)" using assms(10) U(2) by (simp add: IsSubscribedTo_def)
  have r: "ws_reach (Unsubscribe now p wm)" unfolding Unsubscribe_def by (rule ws_unsubscribe [OF assms(1)])
  let ?m = "(lw_Message lw)\<lparr>ms_Topic := lw_Topic lw, ms_QoS := lw_QoS lw, ms_Timestamp := now\<rparr>"
  have "chan (UnsubscribeUnexpected now p wm) q = (buf @ new) @ [?m]"
    using publish_chan [OF r refl, where ?topic0.0 = "lw_Topic lw" and msg = ?m and now = now and p = q] assms(8,9) U(1,3) sub new(1)
    by (simp add: unexpected_is_leaving_and_will assms(7) publishLastWillMessage_def)
  then show ?thesis
    using assms(2,3,8) new by (cases err) (auto simp: end_connection_def CloseGoingAway_def CloseAbnormalClosure_def)
qed

definition demo_close :: close_check where
  "demo_close e codes = (case e of CloseFrame c \<Rightarrow> c \<notin> set codes | OtherError \<Rightarrow> False)"

definition demo_will :: last_will where
  "demo_will = \<lparr>lw_Topic = ''gone'', lw_Message = ws_msg ''gone'' (JsonData JNull), lw_QoS = 0\<rparr>"

definition demo_pair :: ws_manager where
  "demo_pair = fst (SetClientLastWill ''d1'' demo_will
     (fst (Subscribe 2 (NewClient ''d2'' 8) (fst (Subscribe 1 (NewClient ''d1'' 8) NewManager_ws)))))"

lemma demo_pair_reach: "ws_reach demo_pair"
  unfolding demo_pair_def by (intro ws_will ws_subscribe ws_new) (code_simp)+

lemma last_will_on_normal_close_witness:
  "(\<exists>m \<in> set (drop 1 (chan (end_connection demo_close 9 1 (CloseFrame 1000) demo_pair) 2)). ms_Topic m = ''gone'')
   \<and> \<not> (\<exists>m \<in> set (drop 1 (chan (end_connection demo_close 9 1 OtherError demo_pair) 2)). ms_Topic m = ''gone'')"
proof -
  have c: "\<forall>c codes. demo_close (CloseFrame c) codes \<longleftrightarrow> c \<notin> set codes" "\<forall>codes. \<not> demo_close OtherError codes"
    by (simp_all add: demo_close_def)
  obtain buf where b: "cl_sendChan (client_at demo_pair 2) = Some buf" "length buf = 1"
  proof -
    have "map_option length (cl_sendChan (client_at demo_pair 2)) = Some 1" by code_simp
    then show thesis using that by auto
  qed
  have f: "1 \<in> set (wm_clients demo_pair)" "2 \<in> set (wm_clients demo_pair)" "cl_lastWill (client_at demo_pair 1) = Some demo_will"
    "IsSubscribedTo (client_at demo_pair 2) (lw_Topic demo_will)" "\<not> cl_chanClosed (client_at demo_pair 2)" "cl_cap (client_at demo_pair 2) = 8"
    "lw_Topic demo_will \<noteq> []" "ms_ExpiresAt (lw_Message demo_will) = None" "lw_Topic demo_will = ''gone''"
    by code_simp+
  have len: "length buf + 2 \<le> cl_cap (client_at demo_pair 2)" by (simp add: b f)
  note W = last_will_on_normal_close [OF demo_pair_reach c f(1,2) _ f(3,7,8,4) b(1) f(5) len, where now = 9]
  from W [of "CloseFrame 1000"] W [of OtherError] show ?thesis by (simp add: f(9) b(2))
qed

end
