(* ===== verification/Discovery.thy ===== *)
theory Discovery
  imports Registry Numbers
begin

text \<open>
  The discovery manager of \<open>internal/discovery/discovery.go\<close>: the queue of proposals the workers fill,
  the processor that deduplicates it, the map of pending proposals, the set of dismissed ones, and the
  debouncer every worker keeps.  The application behind the manager's interfaces (\<open>ProposalStore\<close>,
  \<open>EventBus\<close>, \<open>RouteChecker\<close>) comes in the theory of the proposal pages; here it is the answer of
  \<open>HasRouteForApp\<close> and the list of calls the manager makes.
\<close>

section \<open>The identity of a proposal\<close>

definition alphanumeric :: "char \<Rightarrow> bool" where
  "alphanumeric c \<longleftrightarrow> (CHR ''a'' \<le> c \<and> c \<le> CHR ''z'') \<or> (CHR ''A'' \<le> c \<and> c \<le> CHR ''Z'') \<or> (CHR ''0'' \<le> c \<and> c \<le> CHR ''9'')"

definition sanitize :: "string \<Rightarrow> string" where
  "sanitize s =
     (if s = [] then s
      else if \<not> list_ex (\<lambda>c. \<not> alphanumeric c) s then s
      else map (\<lambda>c. if alphanumeric c then c else CHR ''_'') s)"

definition generateProposalID :: "string \<Rightarrow> string \<Rightarrow> string \<Rightarrow> int \<Rightarrow> string" where
  "generateProposalID source scheme host port =
     ''proposal_'' @ source @ ''_'' @ scheme @ ''_'' @ sanitize host @ ''_'' @ Itoa port"

lemma sanitize_map: "sanitize s = map (\<lambda>c. if alphanumeric c then c else CHR ''_'') s"
  by (cases "list_ex (\<lambda>c. \<not> alphanumeric c) s") (auto simp: sanitize_def list_ex_iff map_idI)

lemma sanitize_idem [simp]: "sanitize (sanitize s) = sanitize s"
proof -
  have "\<not> alphanumeric (CHR ''_'')" by (simp add: alphanumeric_def)
  then show ?thesis by (simp add: sanitize_map)
qed

section \<open>The manager\<close>

text \<open>A worker is its name; what it does to the network is not part of the manager.\<close>

record discovery =
  dm_workers :: "string list"
  dm_proposals :: "(string, proposal) gomap"
  dm_dismissed :: "(string, bool) gomap"
  dm_hasChecker :: bool
  dm_hasWS :: bool
  dm_cancelled :: bool
  dm_proposalCh :: "proposal list"
  dm_closed :: bool

text \<open>What the manager asks of the application and of the WebSocket manager.\<close>

datatype discovery_call =
    AddProposal proposal
  | PublishDiscovery proposal
  | ReconcileRouteTarget proposal
  | RouteAddedNotice route
  | ApprovedNotice string
  | DismissedNotice string
  | ConfigWarning string string string

definition NewDiscoveryManager :: "bool \<Rightarrow> discovery" where
  "NewDiscoveryManager checker =
     \<lparr>dm_workers = [], dm_proposals = [], dm_dismissed = [], dm_hasChecker = checker, dm_hasWS = False,
      dm_cancelled = False, dm_proposalCh = [], dm_closed = False\<rparr>"

definition SetWSManager :: "bool \<Rightarrow> discovery \<Rightarrow> discovery" where
  "SetWSManager ws dm = dm\<lparr>dm_hasWS := ws\<rparr>"

definition RegisterWorker :: "string \<Rightarrow> discovery \<Rightarrow> discovery" where
  "RegisterWorker w dm = dm\<lparr>dm_workers := dm_workers dm @ [w]\<rparr>"

fun removeWorker :: "string \<Rightarrow> string list \<Rightarrow> string list" where
  "removeWorker name [] = []"
| "removeWorker name (w # ws) = (if w = name then ws else w # removeWorker name ws)"

text \<open>\<open>Start\<close>: a worker whose start fails leaves the pool.\<close>

definition worker_failed :: "string \<Rightarrow> discovery \<Rightarrow> discovery" where
  "worker_failed name dm = dm\<lparr>dm_workers := removeWorker name (dm_workers dm)\<rparr>"

definition StartWorkers :: "(string \<Rightarrow> bool) \<Rightarrow> discovery \<Rightarrow> discovery" where
  "StartWorkers starts dm = foldl (\<lambda>dm w. if starts w then dm else worker_failed w dm) dm (dm_workers dm)"

definition ActiveWorkerCount :: "discovery \<Rightarrow> nat" where
  "ActiveWorkerCount dm = length (dm_workers dm)"

definition StopDiscovery :: "discovery \<Rightarrow> discovery" where
  "StopDiscovery dm = dm\<lparr>dm_cancelled := True, dm_closed := True\<rparr>"

definition SubmitProposal :: "proposal \<Rightarrow> discovery \<Rightarrow> discovery" where
  "SubmitProposal p dm =
     (if dm_cancelled dm then dm
      else if dm_closed dm then dm
      else if length (dm_proposalCh dm) < 100 then dm\<lparr>dm_proposalCh := dm_proposalCh dm @ [p]\<rparr>
      else dm)"

text \<open>One turn of the loop of \<open>processProposals\<close>; the map holds pointers, so raising the confidence of a
  pending proposal writes to the entry.\<close>

definition process_proposal :: "(string \<Rightarrow> bool) \<Rightarrow> proposal \<Rightarrow> discovery \<Rightarrow> discovery \<times> discovery_call list" where
  "process_proposal hasRoute p dm =
     (if get_zero False (dm_dismissed dm) (pr_ID p) then (dm, [])
      else if dm_hasChecker dm \<and> app_ID (pr_SuggestedApp p) \<noteq> [] \<and> hasRoute (app_ID (pr_SuggestedApp p))
      then (dm, [ReconcileRouteTarget p])
      else case get (dm_proposals dm) (pr_ID p) of
             Some existing \<Rightarrow>
               (if pr_Confidence p > pr_Confidence existing
                then (dm\<lparr>dm_proposals := put (pr_ID p)
                          (existing\<lparr>pr_Confidence := pr_Confidence p, pr_SecurityNotes := pr_SecurityNotes p\<rparr>)
                          (dm_proposals dm)\<rparr>, [])
                else (dm, []))
           | None \<Rightarrow> (dm\<lparr>dm_proposals := put (pr_ID p) p (dm_proposals dm)\<rparr>, [AddProposal p, PublishDiscovery p]))"

text \<open>The processor takes the next proposal of the channel.\<close>

definition processNext :: "(string \<Rightarrow> bool) \<Rightarrow> discovery \<Rightarrow> discovery \<times> discovery_call list" where
  "processNext hasRoute dm =
     (case dm_proposalCh dm of
        [] \<Rightarrow> (dm, [])
      | p # ps \<Rightarrow> process_proposal hasRoute p (dm\<lparr>dm_proposalCh := ps\<rparr>))"

definition GetProposals :: "discovery \<Rightarrow> proposal list" where
  "GetProposals dm = map snd (dm_proposals dm)"

definition RemoveProposal :: "string \<Rightarrow> discovery \<Rightarrow> discovery" where
  "RemoveProposal i dm = dm\<lparr>dm_proposals := del i (dm_proposals dm)\<rparr>"

definition ApproveProposal :: "string \<Rightarrow> discovery \<Rightarrow> discovery \<times> discovery_call list" where
  "ApproveProposal i dm =
     (case get (dm_proposals dm) i of
        None \<Rightarrow> (dm, [])
      | Some p \<Rightarrow> (RemoveProposal i dm,
          if dm_hasWS dm then [RouteAddedNotice (pr_SuggestedRoute p), ApprovedNotice i] else []))"

definition DismissProposal :: "string \<Rightarrow> discovery \<Rightarrow> discovery \<times> discovery_call list" where
  "DismissProposal i dm =
     ((RemoveProposal i dm)\<lparr>dm_dismissed := put i True (dm_dismissed dm)\<rparr>,
      if dm_hasWS dm then [DismissedNotice i] else [])"

definition GetDismissedProposals :: "discovery \<Rightarrow> string list" where
  "GetDismissedProposals dm = map fst (dm_dismissed dm)"

definition Rediscover :: "discovery \<Rightarrow> discovery \<times> nat \<times> nat" where
  "Rediscover dm =
     (dm\<lparr>dm_dismissed := [], dm_proposals := []\<rparr>, length (dm_dismissed dm), length (dm_proposals dm))"

definition PublishWarning :: "string \<Rightarrow> string \<Rightarrow> string \<Rightarrow> discovery_call" where
  "PublishWarning workerName warning details = ConfigWarning (workerName @ '' Discovery'') warning details"

section \<open>Facts about the manager\<close>

abbreviation pending :: "discovery \<Rightarrow> string \<Rightarrow> bool" where
  "pending dm i \<equiv> has (dm_proposals dm) i"

abbreviation dismissed :: "discovery \<Rightarrow> string \<Rightarrow> bool" where
  "dismissed dm i \<equiv> get_zero False (dm_dismissed dm) i"

fun announced_by :: "discovery_call \<Rightarrow> string list" where
  "announced_by (PublishDiscovery p) = [pr_ID p]"
| "announced_by _ = []"

definition announced :: "discovery_call list \<Rightarrow> string list" where
  "announced cs = concat (map announced_by cs)"

lemma announced_simps [simp]:
  "announced [] = []" "announced (c # cs) = announced_by c @ announced cs"
  "announced (xs @ ys) = announced xs @ announced ys"
  by (simp_all add: announced_def)

declare get_zero_put [simp]

lemma has_put [simp]: "has (put k v m) j \<longleftrightarrow> j = k \<or> has m j"
  by (simp add: has_def get_put)

lemma has_del [simp]: "has (del k m) j \<longleftrightarrow> j \<noteq> k \<and> has m j"
  by (simp add: has_def get_del)

lemma process_proposal_settled:
  "pending dm i \<or> dismissed dm i \<Longrightarrow>
   (pending (fst (process_proposal h p dm)) i \<or> dismissed (fst (process_proposal h p dm)) i)
   \<and> i \<notin> set (announced (snd (process_proposal h p dm)))"
  by (auto simp: process_proposal_def has_def get_put split: option.split)

lemma process_proposal_announced:
  "announced (snd (process_proposal h p dm)) = [] \<or>
   announced (snd (process_proposal h p dm)) = [pr_ID p] \<and> pending (fst (process_proposal h p dm)) (pr_ID p)"
  by (auto simp: process_proposal_def has_def get_put split: option.split)

lemma process_proposal_dismissed [simp]: "dm_dismissed (fst (process_proposal h p dm)) = dm_dismissed dm"
  by (simp add: process_proposal_def split: option.split)

lemma processNext_dismissed [simp]: "dm_dismissed (fst (processNext h dm)) = dm_dismissed dm"
  by (simp add: processNext_def split: list.split)

lemma processNext_settled:
  "pending dm i \<or> dismissed dm i \<Longrightarrow>
   (pending (fst (processNext h dm)) i \<or> dismissed (fst (processNext h dm)) i)
   \<and> i \<notin> set (announced (snd (processNext h dm)))"
proof (cases "dm_proposalCh dm")
  case (Cons p ps)
  then show "pending dm i \<or> dismissed dm i \<Longrightarrow> ?thesis"
    using process_proposal_settled [of "dm\<lparr>dm_proposalCh := ps\<rparr>" i h p] by (simp add: processNext_def)
qed (simp add: processNext_def)

lemma processNext_announced:
  "distinct (announced (snd (processNext h dm))) \<and>
   (\<forall>i \<in> set (announced (snd (processNext h dm))). pending (fst (processNext h dm)) i)"
proof (cases "dm_proposalCh dm")
  case Nil
  then show ?thesis by (simp add: processNext_def)
next
  case (Cons p ps)
  then show ?thesis using process_proposal_announced [of h p "dm\<lparr>dm_proposalCh := ps\<rparr>"]
    by (auto simp: processNext_def)
qed

lemma SubmitProposal_frame [simp]:
  "dm_proposals (SubmitProposal p dm) = dm_proposals dm" "dm_dismissed (SubmitProposal p dm) = dm_dismissed dm"
  by (simp_all add: SubmitProposal_def)

lemma SubmitProposal_bound: "length (dm_proposalCh dm) \<le> 100 \<Longrightarrow> length (dm_proposalCh (SubmitProposal p dm)) \<le> 100"
  by (simp add: SubmitProposal_def)

section \<open>The debouncer\<close>

record debouncer =
  db_seen :: "(string, gotime) gomap"
  db_interval :: duration
  db_lastCleanup :: gotime
  db_cleanupEvery :: duration
  db_maxSize :: nat

definition debouncerMaxSize :: nat where "debouncerMaxSize = 5000"

definition newDebouncer :: "gotime \<Rightarrow> duration \<Rightarrow> debouncer" where
  "newDebouncer now interval =
     \<lparr>db_seen = [], db_interval = interval, db_lastCleanup = now, db_cleanupEvery = interval * 2,
      db_maxSize = debouncerMaxSize\<rparr>"

definition cleanup :: "gotime \<Rightarrow> debouncer \<Rightarrow> debouncer" where
  "cleanup now d =
     (let threshold = now + (- db_interval d * 2) in
      d\<lparr>db_seen := del_if (\<lambda>k v. Before v threshold) (db_seen d)\<rparr>)"

definition aggressiveCleanup :: "gotime \<Rightarrow> debouncer \<Rightarrow> debouncer" where
  "aggressiveCleanup now d =
     (let threshold = now + (- db_interval d);
          seen = del_if (\<lambda>k v. Before v threshold) (db_seen d)
      in d\<lparr>db_seen := (if length seen \<ge> db_maxSize d then [] else seen), db_lastCleanup := now\<rparr>)"

text \<open>The cleanup a call starts with.\<close>

definition sweep :: "gotime \<Rightarrow> debouncer \<Rightarrow> debouncer" where
  "sweep now d =
     (if length (db_seen d) \<ge> db_maxSize d then aggressiveCleanup now d
      else if now - db_lastCleanup d > db_cleanupEvery d then (cleanup now d)\<lparr>db_lastCleanup := now\<rparr>
      else d)"

definition ShouldProcess :: "gotime \<Rightarrow> string \<Rightarrow> debouncer \<Rightarrow> debouncer \<times> bool" where
  "ShouldProcess now key d =
     (let d1 = sweep now d in
      case get (db_seen d1) key of
        None \<Rightarrow> (d1\<lparr>db_seen := put key now (db_seen d1)\<rparr>, True)
      | Some prev \<Rightarrow>
          (if now - prev > db_interval d1 then (d1\<lparr>db_seen := put key now (db_seen d1)\<rparr>, True)
           else (d1, False)))"

text \<open>The calls of a worker, as the times and keys of its scan; the result says which were let through.\<close>

fun debounce :: "(gotime \<times> string) list \<Rightarrow> debouncer \<Rightarrow> debouncer \<times> (gotime \<times> string) list" where
  "debounce [] d = (d, [])"
| "debounce ((now, key) # cs) d =
     (case ShouldProcess now key d of
        (d', ok) \<Rightarrow> (case debounce cs d' of (d'', passed) \<Rightarrow> (d'', if ok then (now, key) # passed else passed)))"

lemma length_del_if: "length (del_if P m) \<le> length m"
  by (simp add: del_if_def)

lemma sweep_frame [simp]: "db_interval (sweep now d) = db_interval d" "db_maxSize (sweep now d) = db_maxSize d"
  by (simp_all add: sweep_def Let_def aggressiveCleanup_def cleanup_def)

lemma sweep_wf [wf_intros]: "wf_map (db_seen d) \<Longrightarrow> wf_map (db_seen (sweep now d))"
  by (simp add: sweep_def aggressiveCleanup_def cleanup_def Let_def wf_intros)

lemma sweep_shrinks: "length (db_seen (sweep now d)) \<le> length (db_seen d)"
  by (simp add: sweep_def aggressiveCleanup_def cleanup_def Let_def length_del_if)

lemma sweep_room:
  assumes "length (db_seen d) \<le> db_maxSize d" "0 < db_maxSize d"
  shows "length (db_seen (sweep now d)) < db_maxSize d"
proof (cases "length (db_seen d) \<ge> db_maxSize d")
  case True
  then show ?thesis using assms by (simp add: sweep_def aggressiveCleanup_def Let_def)
next
  case False
  then show ?thesis using sweep_shrinks [of now d] by simp
qed

lemma ShouldProcess_frame:
  "db_interval (fst (ShouldProcess now key d)) = db_interval d"
  "db_maxSize (fst (ShouldProcess now key d)) = db_maxSize d"
  by (simp_all add: ShouldProcess_def Let_def split: option.split)

lemma ShouldProcess_length: "length (db_seen (fst (ShouldProcess now key d))) \<le> Suc (length (db_seen (sweep now d)))"
  by (simp add: ShouldProcess_def length_put Let_def split: option.split)

text \<open>The map of the debouncer never holds more than its maximum.\<close>

lemma ShouldProcess_size:
  "length (db_seen d) \<le> db_maxSize d \<Longrightarrow> 0 < db_maxSize d \<Longrightarrow>
   length (db_seen (fst (ShouldProcess now key d))) \<le> db_maxSize d"
  using ShouldProcess_length [of now key d] sweep_room [of d now] by simp

lemma ShouldProcess_grows: "length (db_seen (fst (ShouldProcess now key d))) \<le> Suc (length (db_seen d))"
  using ShouldProcess_length [of now key d] sweep_shrinks [of now d] by simp

text \<open>As long as the map is not full, a key let through at time \<open>u\<close> keeps that time, and is held back, until
  the interval has passed.\<close>

lemma ShouldProcess_holds:
  assumes "get (db_seen d) k = Some u" "length (db_seen d) < db_maxSize d" "0 \<le> db_interval d" "wf_map (db_seen d)"
  shows "get (db_seen (fst (ShouldProcess now key d))) k = Some u \<and> (key = k \<longrightarrow> \<not> snd (ShouldProcess now key d))
    \<or> now - u > db_interval d"
  using assms
  by (auto simp: ShouldProcess_def Let_def sweep_def cleanup_def get_del_if get_put split: option.splits if_splits)

lemma ShouldProcess_passed:
  "snd (ShouldProcess now key d) \<Longrightarrow> get (db_seen (fst (ShouldProcess now key d))) key = Some now"
  by (auto simp: ShouldProcess_def Let_def get_put split: option.splits if_splits)

lemma ShouldProcess_wf [wf_intros]: "wf_map (db_seen d) \<Longrightarrow> wf_map (db_seen (fst (ShouldProcess now key d)))"
  by (auto simp: ShouldProcess_def Let_def intro: wf_intros split: option.split)

lemma debounce_Cons:
  "snd (debounce ((now, key) # cs) d) =
     (if snd (ShouldProcess now key d) then [(now, key)] else []) @ snd (debounce cs (fst (ShouldProcess now key d)))"
  by (simp add: case_prod_unfold)

lemma debounce_sub: "set (snd (debounce cs d)) \<subseteq> set cs"
proof (induction cs arbitrary: d)
  case (Cons c cs)
  then show ?case by (cases c) (auto simp only: debounce_Cons set_append; auto split: if_splits)
qed simp

lemma debounce_holds:
  assumes "get (db_seen d) k = Some u" "length (db_seen d) + length cs \<le> db_maxSize d" "0 \<le> db_interval d"
    and "wf_map (db_seen d)" "sorted (map fst cs)" "(t, k) \<in> set (snd (debounce cs d))"
  shows "t - u > db_interval d"
  using assms
proof (induction cs arbitrary: d)
  case (Cons c cs)
  obtain now key where c: "c = (now, key)" by (cases c)
  let ?s = "ShouldProcess now key d"
  have late: "now \<le> t" using Cons.prems(5,6) debounce_sub [of "c # cs" d] by (fastforce simp: c)
  consider "get (db_seen (fst ?s)) k = Some u" "key = k \<longrightarrow> \<not> snd ?s" | "now - u > db_interval d"
    using ShouldProcess_holds [of d k u now key] Cons.prems by fastforce
  then show ?case
  proof cases
    case 1
    then have "(t, k) \<in> set (snd (debounce cs (fst ?s)))"
      using Cons.prems(6) unfolding c debounce_Cons by (auto split: if_splits)
    moreover have "length (db_seen (fst ?s)) + length cs \<le> db_maxSize d"
      using ShouldProcess_grows [of now key d] Cons.prems(2) by simp
    ultimately show ?thesis
      using Cons.IH [of "fst ?s"] 1(1) Cons.prems(3,4,5) by (simp add: ShouldProcess_frame ShouldProcess_wf)
  next
    case 2
    then show ?thesis using late by simp
  qed
qed simp

lemma debounce_spaced:
  assumes "length (db_seen d) + length cs \<le> db_maxSize d" "0 \<le> db_interval d" "wf_map (db_seen d)"
    and "sorted (map fst cs)"
  shows "sorted_wrt (\<lambda>(t, k) (u, l). k = l \<longrightarrow> u - t > db_interval d) (snd (debounce cs d))"
  using assms
proof (induction cs arbitrary: d)
  case (Cons c cs)
  obtain now key where c: "c = (now, key)" by (cases c)
  let ?s = "ShouldProcess now key d"
  have room: "length (db_seen (fst ?s)) + length cs \<le> db_maxSize (fst ?s)"
    using ShouldProcess_grows [of now key d] Cons.prems(1) by (simp add: ShouldProcess_frame)
  have tail: "sorted_wrt (\<lambda>(t, k) (u, l). k = l \<longrightarrow> u - t > db_interval d) (snd (debounce cs (fst ?s)))"
    using Cons.IH [OF room] Cons.prems(2,3,4) by (simp add: ShouldProcess_frame ShouldProcess_wf)
  have "u - now > db_interval d" if "snd ?s" "(u, key) \<in> set (snd (debounce cs (fst ?s)))" for u
    using debounce_holds [OF ShouldProcess_passed [OF that(1)] room _ _ _ that(2)] Cons.prems(2,3,4)
    by (simp add: ShouldProcess_frame ShouldProcess_wf)
  then show ?case using tail unfolding c debounce_Cons by (auto simp: sorted_wrt_append)
qed simp

lemma debounce_size:
  "length (db_seen d) \<le> db_maxSize d \<Longrightarrow> 0 < db_maxSize d \<Longrightarrow> length (db_seen (fst (debounce cs d))) \<le> db_maxSize d"
proof (induction cs arbitrary: d)
  case (Cons c cs)
  obtain now key where c: "c = (now, key)" by (cases c)
  show ?case using Cons.IH [of "fst (ShouldProcess now key d)"] Cons.prems
    by (simp add: c case_prod_unfold ShouldProcess_frame ShouldProcess_size)
qed simp

text \<open>The debouncer of a worker never remembers more than 5000 services, and while a scan makes at most
  5000 calls, in the order of the clock, two calls it lets through for one service are more than the interval
  apart.\<close>

theorem debouncer_spaces_calls:
  assumes "0 \<le> interval" "sorted (map fst cs)"
  shows "length (db_seen (fst (debounce cs (newDebouncer start interval)))) \<le> 5000 \<and>
    (length cs \<le> 5000 \<longrightarrow>
      sorted_wrt (\<lambda>(t, k) (u, l). k = l \<longrightarrow> u - t > interval) (snd (debounce cs (newDebouncer start interval))))"
  using debounce_size [of "newDebouncer start interval" cs] debounce_spaced [of "newDebouncer start interval" cs] assms
  by (simp add: newDebouncer_def debouncerMaxSize_def)

lemma debouncer_spaces_calls_witness:
  "snd (debounce [(0, ''a''), (10, ''b''), (20, ''a''), (31, ''a''), (31, ''b''), (62, ''a'')] (newDebouncer 0 30))
     = [(0, ''a''), (10, ''b''), (31, ''a''), (62, ''a'')] \<and>
   sorted_wrt (\<lambda>(t, k) (u, l). k = l \<longrightarrow> u - t > 30)
     (snd (debounce [(0, ''a''), (10, ''b''), (20, ''a''), (31, ''a''), (31, ''b''), (62, ''a'')] (newDebouncer 0 30)))"
proof
  show "snd (debounce [(0, ''a''), (10, ''b''), (20, ''a''), (31, ''a''), (31, ''b''), (62, ''a'')] (newDebouncer 0 30))
     = [(0, ''a''), (10, ''b''), (31, ''a''), (62, ''a'')]" by code_simp
  show "sorted_wrt (\<lambda>(t, k) (u, l). k = l \<longrightarrow> u - t > 30)
     (snd (debounce [(0, ''a''), (10, ''b''), (20, ''a''), (31, ''a''), (31, ''b''), (62, ''a'')] (newDebouncer 0 30)))"
    using debouncer_spaces_calls [of 30 "[(0, ''a''), (10, ''b''), (20, ''a''), (31, ''a''), (31, ''b''), (62, ''a'')]" 0]
    by simp
qed

end
