(* ===== verification/Security.thy ===== *)
theory Security
  imports Numbers
begin

text \<open>
  \<open>internal/security\<close>: which risk the host bindings of a container's ports carry (\<open>port_exposure.go\<close>) and
  which proposals are checked for it (\<open>docker_integration.go\<close>).  A \<open>nat.PortMap\<close> is a map from ports to
  bindings, each a host address and a host port.  Asking the Docker daemon is not modelled.
\<close>

section \<open>Risks\<close>

datatype risk_level = RiskNone | RiskWarning | RiskCritical

text \<open>Risks are ordered by their severity.\<close>

fun severity :: "risk_level \<Rightarrow> nat" where
  "severity RiskNone = 0"
| "severity RiskWarning = 1"
| "severity RiskCritical = 2"

lemma severity_inj: "severity a = severity b \<longleftrightarrow> a = b"
  by (cases a; cases b) simp_all

instantiation risk_level :: linorder
begin

definition less_eq_risk_level :: "risk_level \<Rightarrow> risk_level \<Rightarrow> bool" where
  "less_eq_risk_level a b \<longleftrightarrow> severity a \<le> severity b"

definition less_risk_level :: "risk_level \<Rightarrow> risk_level \<Rightarrow> bool" where
  "less_risk_level a b \<longleftrightarrow> severity a < severity b"

instance
  by standard (auto simp: less_eq_risk_level_def less_risk_level_def severity_inj)

end

section \<open>Classification\<close>

definition isLocalhost :: "string \<Rightarrow> bool" where
  "isLocalhost hostIP \<longleftrightarrow> hostIP = ''127.0.0.1'' \<or> hostIP = ''::1'' \<or> ToLower hostIP = ''localhost''"

definition isAllInterfaces :: "string \<Rightarrow> bool" where
  "isAllInterfaces hostIP \<longleftrightarrow> hostIP = ''0.0.0.0'' \<or> hostIP = ''::''"

text \<open>The three ranges of RFC 1918, which hold IPv4 addresses only.\<close>

definition isPrivateIP :: "ip \<Rightarrow> bool" where
  "isPrivateIP ip =
     (case ip of
        IPv4 a b c d \<Rightarrow> a = 10 \<or> (a = 172 \<and> b div 16 = 1) \<or> (a = 192 \<and> b = 168)
      | IPv6 gs \<Rightarrow> False)"

definition default_host :: "string \<Rightarrow> string" where
  "default_host hostIP = (if hostIP = [] then ''0.0.0.0'' else hostIP)"

definition classifyBindingRisk :: "string \<Rightarrow> risk_level" where
  "classifyBindingRisk hostIP0 =
     (let hostIP = default_host hostIP0 in
      if isLocalhost hostIP then RiskNone
      else if isAllInterfaces hostIP then RiskCritical
      else case ParseIP hostIP of
             None \<Rightarrow> if ToLower hostIP = ''localhost'' then RiskNone else RiskCritical
           | Some ip \<Rightarrow> if isPrivateIP ip then RiskWarning else RiskCritical)"

definition generateBindingMessage :: "string \<Rightarrow> string \<Rightarrow> risk_level \<Rightarrow> string" where
  "generateBindingMessage hostIP0 hostPort risk =
     (let hostIP = default_host hostIP0; bound = ''Port '' @ hostPort @ '' bound to '' @ hostIP in
      case risk of
        RiskNone \<Rightarrow> bound @ '' (localhost only, safe)''
      | RiskWarning \<Rightarrow> bound @ '' (private network exposure)''
      | RiskCritical \<Rightarrow>
          if isAllInterfaces hostIP then bound @ '' (PUBLICLY ACCESSIBLE)''
          else bound @ '' (public IP, EXTERNAL ACCESS)'')"

definition getRecommendations :: "risk_level \<Rightarrow> bool \<Rightarrow> string list" where
  "getRecommendations risk hasPublic =
     (case risk of
        RiskCritical \<Rightarrow>
          if hasPublic
          then [''CRITICAL: Ports are exposed to the public internet'',
                ''Ensure the service has proper authentication enabled'',
                ''Consider using firewall rules to restrict access'',
                ''Change Docker port binding to 127.0.0.1 if external access is not needed'',
                ''Use Nekzus proxy for secure authenticated access instead of direct exposure'']
          else []
      | RiskWarning \<Rightarrow>
          [''Ports are accessible on your local network'',
           ''Ensure the service has authentication if accessed by multiple devices'',
           ''Consider using Nekzus proxy for centralized access control'']
      | RiskNone \<Rightarrow> [])"

record port_binding =
  pb_Port :: string
  pb_HostIP :: string
  pb_HostPort :: string
  pb_Risk :: risk_level
  pb_Message :: string

record exposure =
  pe_OverallRisk :: risk_level
  pe_HasPublicExposure :: bool
  pe_Bindings :: "port_binding list"
  pe_Recommendations :: "string list"
  pe_Summary :: string

definition generateSummary :: "exposure \<Rightarrow> string" where
  "generateSummary a =
     (if length (pe_Bindings a) = 0 then ''No ports exposed''
      else case pe_OverallRisk a of
             RiskCritical \<Rightarrow>
               ''SECURITY WARNING: '' @ Itoa (int (length (filter (\<lambda>b. pb_Risk b = RiskCritical) (pe_Bindings a))))
                 @ '' port(s) publicly exposed to the internet''
           | RiskWarning \<Rightarrow> Itoa (int (length (pe_Bindings a))) @ '' port(s) exposed on private network''
           | RiskNone \<Rightarrow> Itoa (int (length (pe_Bindings a))) @ '' port(s) bound to localhost (safe)'')"

type_synonym port_map = "(string, (string \<times> string) list) gomap"

definition add_binding :: "string \<Rightarrow> exposure \<Rightarrow> string \<times> string \<Rightarrow> exposure" where
  "add_binding port a binding =
     (case binding of (hostIP, hostPort) \<Rightarrow>
        (let risk = classifyBindingRisk hostIP;
             a1 = a\<lparr>pe_Bindings := pe_Bindings a @
                     [\<lparr>pb_Port = port, pb_HostIP = hostIP, pb_HostPort = hostPort, pb_Risk = risk,
                       pb_Message = generateBindingMessage hostIP hostPort risk\<rparr>]\<rparr>
         in if risk = RiskCritical then a1\<lparr>pe_OverallRisk := RiskCritical, pe_HasPublicExposure := True\<rparr>
            else if risk = RiskWarning \<and> pe_OverallRisk a1 = RiskNone then a1\<lparr>pe_OverallRisk := RiskWarning\<rparr>
            else a1))"

definition no_exposure :: exposure where
  "no_exposure = \<lparr>pe_OverallRisk = RiskNone, pe_HasPublicExposure = False, pe_Bindings = [],
     pe_Recommendations = [], pe_Summary = []\<rparr>"

definition AnalyzePortBindings :: "port_map \<Rightarrow> exposure" where
  "AnalyzePortBindings ports =
     (if length ports = 0 then no_exposure\<lparr>pe_Summary := ''No ports exposed''\<rparr>
      else
        (let a = foldl (\<lambda>a (port, bindings). foldl (add_binding port) a bindings) no_exposure ports;
             a1 = a\<lparr>pe_Recommendations := getRecommendations (pe_OverallRisk a) (pe_HasPublicExposure a)\<rparr>
         in a1\<lparr>pe_Summary := generateSummary a1\<rparr>))"

datatype inspection = NoResponse | NoNetworkSettings | Ports port_map

definition InspectContainerPorts :: "inspection \<Rightarrow> exposure option" where
  "InspectContainerPorts c =
     (case c of
        NoResponse \<Rightarrow> None
      | NoNetworkSettings \<Rightarrow> Some (no_exposure\<lparr>pe_Summary := ''No network settings found''\<rparr>)
      | Ports ports \<Rightarrow> Some (AnalyzePortBindings ports))"

section \<open>Which proposals are checked\<close>

definition isIPAddress :: "string \<Rightarrow> bool" where
  "isIPAddress host \<longleftrightarrow> Contains host ''.'' \<or> Contains host '':''"

definition ExtractContainerID :: "string \<Rightarrow> string \<Rightarrow> string" where
  "ExtractContainerID detectedHost source =
     (if source = ''docker'' \<and> \<not> isIPAddress detectedHost then detectedHost else [])"

definition ShouldCheckPortExposure :: "string \<Rightarrow> bool \<Rightarrow> bool" where
  "ShouldCheckPortExposure source has_client \<longleftrightarrow> source = ''docker'' \<and> has_client"

text \<open>The inspection is the Docker client's answer for a container: its description, or nothing when the call
  fails.\<close>

definition CheckContainerPortExposure :: "(string \<Rightarrow> inspection option) option \<Rightarrow> string \<Rightarrow> string + exposure" where
  "CheckContainerPortExposure client containerNameOrID =
     (case client of
        None \<Rightarrow> Inl ''docker client is nil''
      | Some inspect \<Rightarrow>
          (if containerNameOrID = [] then Inl ''container name or ID is required''
           else case inspect containerNameOrID of
                  None \<Rightarrow> Inl ''failed to inspect container''
                | Some containerJSON \<Rightarrow>
                    (case InspectContainerPorts containerJSON of
                       None \<Rightarrow> Inl ''failed to analyze port bindings''
                     | Some analysis \<Rightarrow> Inr analysis)))"

section \<open>The overall risk\<close>

definition risks :: "port_map \<Rightarrow> risk_level list" where
  "risks ports = map (\<lambda>(hostIP, hostPort). classifyBindingRisk hostIP) (concat (map snd ports))"

lemma le_critical [simp]: "(r :: risk_level) \<le> RiskCritical"
  by (cases r) (simp_all add: less_eq_risk_level_def)

lemma none_le [simp]: "RiskNone \<le> r"
  by (cases r) (simp_all add: less_eq_risk_level_def)

lemma add_binding_risk:
  "pe_OverallRisk (add_binding port a (ip, hp)) = max (pe_OverallRisk a) (classifyBindingRisk ip)"
  "pe_HasPublicExposure (add_binding port a (ip, hp)) \<longleftrightarrow>
     pe_HasPublicExposure a \<or> classifyBindingRisk ip = RiskCritical"
  by (cases "classifyBindingRisk ip"; cases "pe_OverallRisk a";
      simp add: add_binding_def Let_def max_def less_eq_risk_level_def)+

lemma add_bindings_risk:
  "pe_OverallRisk (foldl (add_binding port) a bs)
     = foldl max (pe_OverallRisk a) (map (\<lambda>(ip, hp). classifyBindingRisk ip) bs)
   \<and> (pe_HasPublicExposure (foldl (add_binding port) a bs) \<longleftrightarrow>
      pe_HasPublicExposure a \<or> RiskCritical \<in> set (map (\<lambda>(ip, hp). classifyBindingRisk ip) bs))"
  by (induction bs arbitrary: a) (auto simp: add_binding_risk)

lemma add_ports_risk:
  "pe_OverallRisk (foldl (\<lambda>a (port, bindings). foldl (add_binding port) a bindings) a ports)
     = foldl max (pe_OverallRisk a) (risks ports)
   \<and> (pe_HasPublicExposure (foldl (\<lambda>a (port, bindings). foldl (add_binding port) a bindings) a ports) \<longleftrightarrow>
      pe_HasPublicExposure a \<or> RiskCritical \<in> set (risks ports))"
proof (induction ports arbitrary: a)
  case (Cons e ports)
  obtain port bs where e: "e = (port, bs)" by (cases e)
  have "risks (e # ports) = map (\<lambda>(ip, hp). classifyBindingRisk ip) bs @ risks ports" by (simp add: risks_def e)
  then show ?case
    using Cons.IH [of "foldl (add_binding port) a bs"] add_bindings_risk [of port a bs] by (simp only: e foldl.simps prod.case foldl_append set_append) blast
qed (simp add: risks_def)

lemma foldl_max: "foldl max a rs = Max (insert a (set rs))" for a :: "'a :: linorder"
proof (induction rs arbitrary: a)
  case (Cons r rs)
  have "Max (insert (max a r) (set rs)) = Max (insert a (insert r (set rs)))"
    by (cases "set rs = {}") (simp_all add: max.assoc)
  with Cons show ?case by simp
qed simp

text \<open>The overall risk of a container is the highest risk of any of its bindings (none without
  bindings), whatever order the port map is walked in, and it counts as publicly exposed exactly when
  that risk is critical.\<close>
theorem overall_risk_is_highest:
  "pe_OverallRisk (AnalyzePortBindings ports) = Max (insert RiskNone (set (risks ports)))
   \<and> (pe_HasPublicExposure (AnalyzePortBindings ports) \<longleftrightarrow> pe_OverallRisk (AnalyzePortBindings ports) = RiskCritical)"
proof -
  have o: "pe_OverallRisk (AnalyzePortBindings ports) = Max (insert RiskNone (set (risks ports)))"
    using add_ports_risk [of no_exposure ports] foldl_max [of RiskNone "risks ports"]
    by (simp add: AnalyzePortBindings_def no_exposure_def risks_def Let_def)
  have p: "pe_HasPublicExposure (AnalyzePortBindings ports) \<longleftrightarrow> RiskCritical \<in> set (risks ports)"
    using add_ports_risk [of no_exposure ports]
    by (simp add: AnalyzePortBindings_def no_exposure_def risks_def Let_def)
  have "Max (insert RiskNone (set (risks ports))) = RiskCritical \<longleftrightarrow> RiskCritical \<in> set (risks ports)"
    by (subst Max_eq_iff) auto
  with o p show ?thesis by simp
qed

end
