(* ===== verification/Activity.thy ===== *)
theory Activity
  imports Store "HOL-Library.Multiset"
begin

text \<open>
  The activity feed: \<open>internal/activity/tracker.go\<close> and the \<open>activity_events\<close> table of
  \<open>internal/storage/storage.go\<close>.  Rows are kept in the order of their row identifiers; the index on the
  time stamp reads equal time stamps in that order.
\<close>

record activity_event =
  ev_ID :: string
  ev_Type :: string
  ev_Icon :: string
  ev_IconClass :: string
  ev_Message :: string
  ev_Details :: string
  ev_Timestamp :: int

section \<open>The table\<close>

type_synonym activity_table = "(int \<times> activity_event) list"

definition newest :: "activity_table \<Rightarrow> activity_table" where
  "newest t = take 10 (sort_key (\<lambda>(i, e). - ev_Timestamp e) t)"

definition prune :: "activity_table \<Rightarrow> activity_table" where
  "prune t = filter (\<lambda>(i, e). i \<in> fst ` set (newest t)) t"

text \<open>Row identifiers grow; insertion and pruning are one transaction.\<close>

record activity_store =
  as_rows :: activity_table
  as_next :: int

definition AddActivity :: "conn \<Rightarrow> activity_event \<Rightarrow> activity_store \<Rightarrow> db_error + activity_store" where
  "AddActivity c event st =
     (if \<not> cn_ok c then Inl DbFault
      else Inr \<lparr>as_rows = prune (as_rows st @ [(as_next st, event)]), as_next = as_next st + 1\<rparr>)"

definition GetRecentActivity :: "conn \<Rightarrow> activity_store \<Rightarrow> db_error + activity_event list" where
  "GetRecentActivity c st = (if \<not> cn_ok c then Inl DbFault else Inr (map snd (newest (as_rows st))))"

definition PruneOldActivity :: "conn \<Rightarrow> activity_store \<Rightarrow> db_error + activity_store" where
  "PruneOldActivity c st = (if \<not> cn_ok c then Inl DbFault else Inr (st\<lparr>as_rows := prune (as_rows st)\<rparr>))"

section \<open>The tracker\<close>

record tracker =
  tk_events :: "activity_event list"
  tk_storage :: "activity_store option"

definition maxActivityEvents :: nat where "maxActivityEvents = 10"

definition NewTracker :: "conn \<Rightarrow> activity_store option \<Rightarrow> tracker" where
  "NewTracker c store =
     (case store of
        None \<Rightarrow> \<lparr>tk_events = [], tk_storage = None\<rparr>
      | Some st \<Rightarrow>
          \<lparr>tk_events = (case GetRecentActivity c st of Inl e \<Rightarrow> [] | Inr events \<Rightarrow> events), tk_storage = Some st\<rparr>)"

definition AddEvent :: "conn \<Rightarrow> activity_event \<Rightarrow> tracker \<Rightarrow> tracker" where
  "AddEvent c event tk =
     (let events = event # tk_events tk;
          events' = (if length events > maxActivityEvents then take maxActivityEvents events else events)
      in \<lparr>tk_events = events',
          tk_storage = (case tk_storage tk of
                          None \<Rightarrow> None
                        | Some st \<Rightarrow> (case AddActivity c event st of Inl e \<Rightarrow> Some st | Inr st' \<Rightarrow> Some st'))\<rparr>)"

definition GetEvents :: "tracker \<Rightarrow> activity_event list" where
  "GetEvents tk = tk_events tk"

section \<open>The rows of the table\<close>

abbreviation age :: "int \<times> activity_event \<Rightarrow> int" where
  "age r \<equiv> - ev_Timestamp (snd r)"

lemma newest_eq: "newest t = take 10 (sort_key age t)"
  by (simp add: newest_def case_prod_unfold)

lemma sort_desc:
  assumes "sorted_wrt (<) (map (\<lambda>r. ev_Timestamp (snd r)) t)"
  shows "sort_key age t = rev t"
proof -
  have s: "sorted (map age (rev t))"
    using assms by (induction t) (auto simp: sorted_append order_less_imp_le)
  have d: "distinct (map age (rev t))"
    using assms by (induction t) force+
  have "sort_key age (rev t) = rev t" using s by (rule sort_key_id_if_sorted)
  moreover have "sort_key age (rev t) = sort_key age t"
    using d by (intro sort_key_inj_key_eq) (auto simp: distinct_map)
  ultimately show ?thesis by simp
qed

lemma newest_last:
  assumes "sorted_wrt (<) (map (\<lambda>r. ev_Timestamp (snd r)) t)"
  shows "newest t = take 10 (rev t)"
  using sort_desc [OF assms] by (simp add: newest_eq)

lemma GetRecentActivity_sorted:
  assumes "sorted_wrt (<) (map (\<lambda>r. ev_Timestamp (snd r)) (as_rows st))" "cn_ok c"
  shows "GetRecentActivity c st = Inr (take 10 (rev (map snd (as_rows st))))"
  using assms by (simp add: GetRecentActivity_def newest_last take_map rev_map)

lemma prune_sorted:
  assumes "sorted_wrt (<) (map (\<lambda>r. ev_Timestamp (snd r)) t)" "distinct (map fst t)"
  shows "prune t = drop (length t - 10) t"
proof -
  let ?old = "take (length t - 10) t" and ?new = "drop (length t - 10) t"
  have n: "set (newest t) = set ?new"
    by (simp add: newest_last [OF assms(1)] take_rev)
  have t: "t = ?old @ ?new" by simp
  have "distinct (map fst (?old @ ?new))" using assms(2) by simp
  then have dj: "fst ` set ?old \<inter> fst ` set ?new = {}" by (simp only: map_append distinct_append set_map)
  have "prune t = filter (\<lambda>r. fst r \<in> fst ` set ?new) (?old @ ?new)"
    by (simp only: prune_def n case_prod_unfold append_take_drop_id)
  moreover have "filter (\<lambda>r. fst r \<in> fst ` set ?new) ?old = []"
    using dj by (auto simp: filter_empty_conv)
  moreover have "filter (\<lambda>r. fst r \<in> fst ` set ?new) ?new = ?new" by (simp add: filter_id_conv)
  ultimately show ?thesis by (simp only: filter_append append_Nil)
qed

section \<open>The cache and the table\<close>

text \<open>The table holds the events the tracker shows, in the order of their time stamps.\<close>

definition in_step :: "tracker \<Rightarrow> bool" where
  "in_step tk \<longleftrightarrow> (case tk_storage tk of
       None \<Rightarrow> False
     | Some st \<Rightarrow> map snd (as_rows st) = rev (tk_events tk) \<and> length (as_rows st) \<le> 10
         \<and> sorted_wrt (<) (map (\<lambda>r. ev_Timestamp (snd r)) (as_rows st))
         \<and> distinct (map fst (as_rows st)) \<and> (\<forall>i \<in> fst ` set (as_rows st). i < as_next st))"

lemma in_step_events:
  assumes "in_step tk" "e \<in> set (tk_events tk)"
  obtains st where "tk_storage tk = Some st" "e \<in> snd ` set (as_rows st)"
proof -
  obtain st where st: "tk_storage tk = Some st" "map snd (as_rows st) = rev (tk_events tk)"
    using assms(1) by (auto simp: in_step_def split: option.splits)
  have "set (map snd (as_rows st)) = set (tk_events tk)" using st(2) by simp
  then show ?thesis using that st(1) assms(2) by simp
qed

lemma take_append_take: "take n (xs @ take n ys) = take n (xs @ ys)"
  by (simp add: min_def)

lemma in_step_length:
  assumes "in_step tk"
  shows "length (tk_events tk) \<le> 10"
proof (cases "tk_storage tk")
  case None
  then show ?thesis using assms by (simp add: in_step_def)
next
  case (Some st)
  then have "map snd (as_rows st) = rev (tk_events tk)" "length (as_rows st) \<le> 10"
    using assms by (simp_all add: in_step_def)
  then show ?thesis by (metis length_map length_rev)
qed

lemma in_step_AddEvent:
  assumes "in_step tk" "cn_ok c" "\<forall>e \<in> set (tk_events tk). ev_Timestamp e < ev_Timestamp event"
  shows "in_step (AddEvent c event tk)"
proof -
  obtain st where st: "tk_storage tk = Some st" and ev: "map snd (as_rows st) = rev (tk_events tk)"
    and len: "length (as_rows st) \<le> 10"
    and srt: "sorted_wrt (<) (map (\<lambda>r. ev_Timestamp (snd r)) (as_rows st))"
    and dst: "distinct (map fst (as_rows st))" and nxt: "\<forall>i \<in> fst ` set (as_rows st). i < as_next st"
    using assms(1) by (auto simp: in_step_def split: option.splits)
  let ?t = "as_rows st @ [(as_next st, event)]"
  have "set (map snd (as_rows st)) = set (tk_events tk)" by (simp add: ev)
  then have late: "\<forall>r \<in> set (as_rows st). ev_Timestamp (snd r) < ev_Timestamp event" 
    using assms(3) by (metis image_eqI set_map)
  have s: "sorted_wrt (<) (map (\<lambda>r. ev_Timestamp (snd r)) ?t)"
    using srt late by (simp add: sorted_wrt_append)
  have d: "distinct (map fst ?t)" using dst nxt by force
  have p: "prune ?t = drop (length ?t - 10) ?t" by (rule prune_sorted [OF s d])
  have add: "AddActivity c event st = Inr \<lparr>as_rows = drop (length ?t - 10) ?t, as_next = as_next st + 1\<rparr>"
    using assms(2) by (simp only: AddActivity_def p) simp
  have lev: "length (tk_events tk) = length (as_rows st)" using arg_cong [OF ev, of length] by simp
  have rows: "map snd (drop (length ?t - 10) ?t) = rev (take 10 (event # tk_events tk))"
    using ev lev by (simp add: drop_map [symmetric] rev_take del: take_Suc_Cons)
  let ?st = "\<lparr>as_rows = drop (length ?t - 10) ?t, as_next = as_next st + 1\<rparr>"
  have eq: "AddEvent c event tk = \<lparr>tk_events = take 10 (event # tk_events tk), tk_storage = Some ?st\<rparr>"
    by (simp only: AddEvent_def Let_def st add option.case sum.case) (simp add: maxActivityEvents_def)
  have "length (as_rows ?st) \<le> 10" by simp
  moreover have "sorted_wrt (<) (map (\<lambda>r. ev_Timestamp (snd r)) (as_rows ?st))"
    using sorted_wrt_drop [OF s, of "length ?t - 10"] by (simp only: activity_store.simps drop_map)
  moreover have "distinct (map fst (as_rows ?st))"
    using distinct_drop [OF d, of "length ?t - 10"] by (simp only: activity_store.simps drop_map)
  moreover have "\<forall>i \<in> fst ` set (as_rows ?st). i < as_next ?st"
  proof
    fix i assume "i \<in> fst ` set (as_rows ?st)"
    then have "i \<in> fst ` set ?t" by (auto dest: in_set_dropD simp only: activity_store.simps)
    then show "i < as_next ?st" using nxt by fastforce
  qed
  ultimately show ?thesis
    unfolding eq in_step_def using rows by (simp only: tracker.simps option.case activity_store.simps)
qed

lemma GetEvents_AddEvent: "GetEvents (AddEvent c e tk) = take 10 (e # GetEvents tk)"
  by (simp add: AddEvent_def GetEvents_def maxActivityEvents_def Let_def)

lemma restart_in_step:
  assumes "in_step tk" "cn_ok c"
  shows "NewTracker c (tk_storage tk) = tk"
proof -
  obtain st where st: "tk_storage tk = Some st" and ev: "map snd (as_rows st) = rev (tk_events tk)"
    and len: "length (as_rows st) \<le> 10"
    and srt: "sorted_wrt (<) (map (\<lambda>r. ev_Timestamp (snd r)) (as_rows st))"
    using assms(1) by (auto simp: in_step_def split: option.splits)
  have "length (tk_events tk) \<le> 10" using len arg_cong [OF ev, of length] by simp
  then have "GetRecentActivity c st = Inr (tk_events tk)"
    using GetRecentActivity_sorted [OF srt assms(2)] ev by simp
  then show ?thesis by (simp add: NewTracker_def st)
qed

definition add_all :: "conn \<Rightarrow> activity_event list \<Rightarrow> tracker \<Rightarrow> tracker" where
  "add_all c es tk = foldl (\<lambda>tk e. AddEvent c e tk) tk es"

lemma add_all_in_step:
  assumes "cn_ok c" "sorted_wrt (<) (map ev_Timestamp (rev (GetEvents tk) @ es))" "in_step tk"
  shows "in_step (add_all c es tk) \<and> GetEvents (add_all c es tk) = take 10 (rev es @ GetEvents tk)"
  using assms(2,3)
proof (induction es arbitrary: tk)
  case Nil
  then have "length (tk_events tk) \<le> 10" by (simp add: in_step_length)
  then show ?case using Nil.prems by (simp add: add_all_def GetEvents_def)
next
  case (Cons e es)
  have late: "\<forall>x \<in> set (tk_events tk). ev_Timestamp x < ev_Timestamp e"
    using Cons.prems(1) by (auto simp: sorted_wrt_append GetEvents_def)
  have step: "in_step (AddEvent c e tk)" by (rule in_step_AddEvent [OF Cons.prems(2) assms(1) late])
  have eq: "rev (GetEvents (AddEvent c e tk)) @ es
      = drop (length (GetEvents tk) + 1 - 10) (rev (GetEvents tk) @ [e]) @ es"
    by (simp only: GetEvents_AddEvent rev_take) simp
  have "sorted_wrt (<) (map ev_Timestamp ((rev (GetEvents tk) @ [e]) @ es))" using Cons.prems(1) by simp
  then have "sorted_wrt (<) (map ev_Timestamp (rev (GetEvents (AddEvent c e tk)) @ es))"
    unfolding eq using sorted_wrt_drop [of "(<)" "map ev_Timestamp (rev (GetEvents tk) @ [e])" "length (GetEvents tk) + 1 - 10"]
    by (simp only: map_append [of _ _ es] sorted_wrt_append drop_map) (auto dest: in_set_dropD simp: drop_map)
  note IH = Cons.IH [OF this step]
  have "take 10 (rev es @ take 10 (e # GetEvents tk)) = take 10 (rev (e # es) @ GetEvents tk)"
    by (simp only: rev.simps append_assoc append_Cons append_Nil take_append_take)
  then show ?case using IH by (simp add: add_all_def GetEvents_AddEvent del: take_Suc_Cons)
qed

text \<open>After any run of recorded events with growing time stamps, starting from an empty table, the tracker
  shows the ten newest events, newest first, and a tracker built on the same table after a restart is the same
  tracker: it shows the same events and writes to the same rows.\<close>

theorem restart_restores_activity:
  assumes "cn_ok c" "sorted_wrt (<) (map ev_Timestamp es)"
    and "tk = add_all c es (NewTracker c (Some \<lparr>as_rows = [], as_next = 1\<rparr>))"
  shows "GetEvents tk = take 10 (rev es) \<and> NewTracker c (tk_storage tk) = tk"
proof -
  let ?new = "NewTracker c (Some \<lparr>as_rows = [], as_next = 1\<rparr>)"
  have new: "?new = \<lparr>tk_events = [], tk_storage = Some \<lparr>as_rows = [], as_next = 1\<rparr>\<rparr>"
    using assms(1) by (simp add: NewTracker_def GetRecentActivity_def newest_def)
  have "in_step ?new" "sorted_wrt (<) (map ev_Timestamp (rev (GetEvents ?new) @ es))"
    using assms(2) by (simp_all add: new in_step_def GetEvents_def)
  from add_all_in_step [OF assms(1) this(2,1)] have "in_step tk" "GetEvents tk = take 10 (rev es)"
    by (simp_all add: assms(3) new GetEvents_def)
  then show ?thesis using restart_in_step assms(1) by blast
qed

definition demo_event :: "int \<Rightarrow> activity_event" where
  "demo_event t = \<lparr>ev_ID = ''e'', ev_Type = ''device.paired'', ev_Icon = [], ev_IconClass = [], ev_Message = [],
     ev_Details = [], ev_Timestamp = t\<rparr>"

lemma restart_restores_activity_witness:
  "map ev_Timestamp (GetEvents (add_all \<lparr>cn_ok = True, cn_fk = False, cn_now = 0\<rparr>
      (map demo_event [1, 2, 3, 4, 5, 6, 7, 8, 9, 10, 11, 12])
      (NewTracker \<lparr>cn_ok = True, cn_fk = False, cn_now = 0\<rparr> (Some \<lparr>as_rows = [], as_next = 1\<rparr>))))
   = [12, 11, 10, 9, 8, 7, 6, 5, 4, 3]"
  using restart_restores_activity [OF _ _ refl, of "\<lparr>cn_ok = True, cn_fk = False, cn_now = 0\<rparr>"
      "map demo_event [1, 2, 3, 4, 5, 6, 7, 8, 9, 10, 11, 12]"]
  by (simp add: demo_event_def)

end
