(* ===== verification/Proposals.thy ===== *)
theory Proposals
  imports Discovery Security Activity Notifications
begin

text \<open>
  The discovery pages of \<open>cmd/nekzus/discovery_handlers.go\<close>, the interfaces the application offers the
  discovery manager (\<open>cmd/nekzus/main.go\<close>), and the proposals table of \<open>internal/storage/storage.go\<close>.
  Every database statement has a connection of its own, named by the statement.  The driver's rendering of a
  \<open>DATETIME\<close> column as text is an argument, as are \<open>url.Parse\<close> and the Docker client.
\<close>

section \<open>The proposals table\<close>

text \<open>A row is the proposal and the second it was last saved (\<open>CURRENT_TIMESTAMP\<close>).\<close>

type_synonym proposal_table = "(string, proposal \<times> int) gomap"

text \<open>On a conflict the source, scheme, host and port of the row are kept.\<close>

definition SaveProposal :: "conn \<Rightarrow> proposal_table \<Rightarrow> proposal \<Rightarrow> db_error + proposal_table" where
  "SaveProposal c t p =
     (if \<not> cn_ok c then Inl DbFault
      else Inr (case get t (pr_ID p) of
                  None \<Rightarrow> put (pr_ID p) (p, cn_now c div second) t
                | Some (old, seen) \<Rightarrow>
                    put (pr_ID p)
                      (p\<lparr>pr_Source := pr_Source old, pr_DetectedScheme := pr_DetectedScheme old,
                         pr_DetectedHost := pr_DetectedHost old, pr_DetectedPort := pr_DetectedPort old\<rparr>, cn_now c div second) t))"

definition read_row :: "(int \<Rightarrow> string) \<Rightarrow> proposal \<times> int \<Rightarrow> proposal" where
  "read_row render row = (fst row)\<lparr>pr_LastSeen := render (snd row)\<rparr>"

definition GetProposal :: "(int \<Rightarrow> string) \<Rightarrow> conn \<Rightarrow> proposal_table \<Rightarrow> string \<Rightarrow> db_error + proposal option" where
  "GetProposal render c t i =
     (if \<not> cn_ok c then Inl DbFault else Inr (map_option (read_row render) (get t i)))"

definition ListProposals :: "(int \<Rightarrow> string) \<Rightarrow> conn \<Rightarrow> proposal_table \<Rightarrow> db_error + proposal list" where
  "ListProposals render c t =
     (if \<not> cn_ok c then Inl DbFault
      else Inr (map (read_row render) (sort_key (\<lambda>row. - snd row) (map snd t))))"

definition DeleteProposal :: "conn \<Rightarrow> proposal_table \<Rightarrow> string \<Rightarrow> db_error + proposal_table" where
  "DeleteProposal c t i = (if \<not> cn_ok c then Inl DbFault else Inr (del i t))"

text \<open>A negative number of seconds makes an invalid modifier, and the comparison with its null is never true.\<close>

definition CleanupStaleProposals :: "conn \<Rightarrow> proposal_table \<Rightarrow> duration \<Rightarrow> db_error + proposal_table" where
  "CleanupStaleProposals c t olderThan =
     (let n = (if olderThan < 0 then - ((- olderThan) div second) else olderThan div second) in
      if \<not> cn_ok c then Inl DbFault
      else if n < 0 then Inr t
      else Inr (del_if (\<lambda>i row. snd row < cn_now c div second - n) t))"

definition ClearProposals :: "conn \<Rightarrow> proposal_table \<Rightarrow> db_error + proposal_table" where
  "ClearProposals c t = (if \<not> cn_ok c then Inl DbFault else Inr [])"

section \<open>The application behind the manager\<close>

datatype statement = SaveStmt | GetStmt | ListStmt | DeleteStmt | ClearStmt | AppStmt | RouteStmt | ActivityStmt | ExposureStmt

text \<open>What the handlers and the manager's calls send out.\<close>

datatype notice =
    DiscoveryNotice proposal
  | RouterNotice "registry_event list"
  | Registered app route string
  | DismissedProposal string
  | RediscoveryTriggered nat nat
  | PortExposureWarning string string exposure
  | PortExposureQueued string string exposure

text \<open>\<open>da_calls\<close> are the calls the processor has decided on and not yet made: it makes them after it has given
  up the manager's lock.\<close>

record discovery_app =
  da_dm :: discovery
  da_calls :: "discovery_call list"
  da_router :: registry
  da_table :: "proposal_table option"
  da_tracker :: "tracker option"
  da_hasWebSocket :: bool
  da_hasNotifications :: bool
  da_hasQueue :: bool
  da_docker :: "(string \<Rightarrow> inspection option) option"
  da_out :: "notice list"

definition emit :: "notice list \<Rightarrow> discovery_app \<Rightarrow> discovery_app" where
  "emit ns a = a\<lparr>da_out := da_out a @ ns\<rparr>"

definition on_table :: "(proposal_table \<Rightarrow> db_error + proposal_table) \<Rightarrow> discovery_app \<Rightarrow> discovery_app" where
  "on_table f a =
     (case da_table a of
        None \<Rightarrow> a
      | Some t \<Rightarrow> (case f t of Inl e \<Rightarrow> a | Inr t' \<Rightarrow> a\<lparr>da_table := Some t'\<rparr>))"

definition record_activity :: "conn \<Rightarrow> activity_event \<Rightarrow> discovery_app \<Rightarrow> discovery_app" where
  "record_activity c event a = a\<lparr>da_tracker := map_option (AddEvent c event) (da_tracker a)\<rparr>"

definition HasRouteForApp :: "registry option \<Rightarrow> string \<Rightarrow> bool" where
  "HasRouteForApp router appID = (case router of None \<Rightarrow> False | Some rg \<Rightarrow> GetRouteByAppID rg appID \<noteq> None)"

text \<open>A parsed URL: its host and port, and the text it has once another host is set.\<close>

record parsed_url =
  pu_Hostname :: string
  pu_Port :: string
  pu_String :: "string \<Rightarrow> string"

type_synonym url_parser = "string \<Rightarrow> parsed_url option"

definition reconciled :: "url_parser \<Rightarrow> proposal \<Rightarrow> registry \<Rightarrow> route option" where
  "reconciled parse p rg =
     (case GetRouteByAppID rg (app_ID (pr_SuggestedApp p)) of
        None \<Rightarrow> None
      | Some existing \<Rightarrow>
          (if ContainerID existing = [] \<or> ContainerID (pr_SuggestedRoute p) = [] then None
           else if ContainerID existing \<noteq> ContainerID (pr_SuggestedRoute p) then None
           else case parse (To existing) of
                  None \<Rightarrow> None
                | Some existingURL \<Rightarrow>
                    (case parse (To (pr_SuggestedRoute p)) of
                       None \<Rightarrow> None
                     | Some proposedURL \<Rightarrow>
                         (if pu_Hostname existingURL = pu_Hostname proposedURL then None
                          else
                            (let port = (if pu_Port existingURL = [] then pu_Port proposedURL else pu_Port existingURL);
                                 newHost = pu_Hostname proposedURL;
                                 host = (if port \<noteq> [] then newHost @ '':'' @ port else newHost)
                             in Some (existing\<lparr>To := pu_String existingURL host\<rparr>))))))"

definition ReconcileTarget :: "url_parser \<Rightarrow> conn \<Rightarrow> proposal \<Rightarrow> discovery_app \<Rightarrow> discovery_app" where
  "ReconcileTarget parse c p a =
     (case reconciled parse p (da_router a) of
        None \<Rightarrow> a
      | Some updated \<Rightarrow>
          (case UpsertRoute c (da_router a) updated of
             (rg, ev, err) \<Rightarrow> emit [RouterNotice ev] (a\<lparr>da_router := rg\<rparr>)))"

text \<open>\<open>AddProposal\<close>, \<open>Publish\<close> and \<open>ReconcileRouteTarget\<close> of the application.\<close>

definition perform :: "url_parser \<Rightarrow> (statement \<Rightarrow> conn) \<Rightarrow> discovery_call \<Rightarrow> discovery_app \<Rightarrow> discovery_app" where
  "perform parse db call a =
     (case call of
        AddProposal p \<Rightarrow> on_table (\<lambda>t. SaveProposal (db SaveStmt) t p) a
      | PublishDiscovery p \<Rightarrow> if da_hasNotifications a then emit [DiscoveryNotice p] a else a
      | ReconcileRouteTarget p \<Rightarrow> ReconcileTarget parse (db RouteStmt) p a
      | _ \<Rightarrow> a)"

section \<open>The pages\<close>

datatype page =
    Proposals "proposal list"
  | AlreadyProcessed string
  | Approved string app route
  | Dismissed string
  | Rediscovered nat nat
  | PageError string nat
  | PageNotFound

definition handleListProposals :: "(int \<Rightarrow> string) \<Rightarrow> (statement \<Rightarrow> conn) \<Rightarrow> discovery_app \<Rightarrow> page" where
  "handleListProposals render db a =
     (case da_table a of
        Some t \<Rightarrow> (case ListProposals render (db ListStmt) t of
                    Inl e \<Rightarrow> PageError ''PROPOSALS_LIST_FAILED'' 500
                  | Inr ps \<Rightarrow> Proposals ps)
      | None \<Rightarrow> Proposals (GetProposals (da_dm a)))"

definition getProposal ::
  "(int \<Rightarrow> string) \<Rightarrow> (statement \<Rightarrow> conn) \<Rightarrow> string \<Rightarrow> discovery_app \<Rightarrow> db_error + proposal option" where
  "getProposal render db proposalID a =
     (case da_table a of
        Some t \<Rightarrow> GetProposal render (db GetStmt) t proposalID
      | None \<Rightarrow> Inr (find (\<lambda>p. pr_ID p = proposalID) (GetProposals (da_dm a))))"

definition applyPortSelection :: "proposal \<Rightarrow> int \<Rightarrow> proposal option" where
  "applyPortSelection p selectedPort =
     (case find (\<lambda>opt. po_Port opt = selectedPort) (pr_AvailablePorts p) of
        None \<Rightarrow> None
      | Some opt \<Rightarrow>
          (let to = po_Scheme opt @ ''://'' @ pr_DetectedHost p @ '':'' @ Itoa (po_Port opt) in
           Some (p\<lparr>pr_DetectedPort := po_Port opt, pr_DetectedScheme := po_Scheme opt,
                   pr_SuggestedRoute := (pr_SuggestedRoute p)\<lparr>To := to\<rparr>,
                   pr_SuggestedApp := (pr_SuggestedApp p)\<lparr>app_Endpoints :=
                      put ''lan'' to (app_Endpoints (pr_SuggestedApp p))\<rparr>\<rparr>)))"

definition exposure_icons :: "risk_level \<Rightarrow> string \<times> string" where
  "exposure_icons risk =
     (if risk = RiskCritical then (''AlertOctagon'', ''error'') else (''AlertTriangle'', ''warning''))"

definition checkAndNotifyPortExposure :: "conn \<Rightarrow> int \<Rightarrow> proposal \<Rightarrow> discovery_app \<Rightarrow> discovery_app" where
  "checkAndNotifyPortExposure c ms p a =
     (let containerID = ExtractContainerID (pr_DetectedHost p) (pr_Source p) in
      if containerID = [] then a
      else case CheckContainerPortExposure (da_docker a) containerID of
             Inl e \<Rightarrow> a
           | Inr analysis \<Rightarrow>
               (if pe_OverallRisk analysis = RiskNone then a
                else
                  (let ap = pr_SuggestedApp p;
                       a1 = (if da_hasWebSocket a
                             then emit ([PortExposureWarning (app_ID ap) (app_Name ap) analysis]
                                    @ (if da_hasQueue a \<and> da_table a \<noteq> None
                                       then [PortExposureQueued (app_ID ap) (app_Name ap) analysis] else [])) a
                             else a)
                   in record_activity c
                        \<lparr>ev_ID = ''port_exposure_'' @ app_ID ap, ev_Type = ''security_warning'',
                         ev_Icon = fst (exposure_icons (pe_OverallRisk analysis)),
                         ev_IconClass = snd (exposure_icons (pe_OverallRisk analysis)),
                         ev_Message = ''Security: '' @ app_Name ap @ '' - '' @ pe_Summary analysis,
                         ev_Details = Join ''; '' (pe_Recommendations analysis), ev_Timestamp = ms\<rparr> a1)))"

text \<open>Without a store the page works on the manager's own proposal: a port selection stays in it.\<close>

definition write_through :: "string \<Rightarrow> proposal \<Rightarrow> discovery_app \<Rightarrow> discovery_app" where
  "write_through i p a =
     (if da_table a = None
      then a\<lparr>da_dm := (da_dm a)\<lparr>dm_proposals := adjust i (\<lambda>_. p) (dm_proposals (da_dm a))\<rparr>\<rparr> else a)"

text \<open>Taking a proposal off the lists: out of the table, and dismissed in the manager.\<close>

definition settle :: "conn \<Rightarrow> string \<Rightarrow> discovery_app \<Rightarrow> discovery_app" where
  "settle c i a =
     (let a1 = on_table (\<lambda>t. DeleteProposal c t i) a
      in a1\<lparr>da_dm := fst (DismissProposal i (da_dm a1))\<rparr>)"

definition after_approval :: "(statement \<Rightarrow> conn) \<Rightarrow> int \<Rightarrow> string \<Rightarrow> proposal \<Rightarrow> discovery_app \<Rightarrow> discovery_app" where
  "after_approval db ms i p a =
     (let a1 = (if ShouldCheckPortExposure (pr_Source p) (da_docker a \<noteq> None)
                then checkAndNotifyPortExposure (db ExposureStmt) ms p a else a);
          a2 = (if da_hasWebSocket a then emit [Registered (pr_SuggestedApp p) (pr_SuggestedRoute p) i] a1 else a1)
      in record_activity (db ActivityStmt)
           \<lparr>ev_ID = ''app_registered_'' @ app_ID (pr_SuggestedApp p), ev_Type = ''app_registered'',
            ev_Icon = ''CheckCircle2'', ev_IconClass = ''success'',
            ev_Message = ''Registered: '' @ app_Name (pr_SuggestedApp p), ev_Details = [], ev_Timestamp = ms\<rparr> a2)"

definition register_proposal ::
  "(statement \<Rightarrow> conn) \<Rightarrow> int \<Rightarrow> string \<Rightarrow> proposal \<Rightarrow> discovery_app \<Rightarrow> discovery_app \<times> page" where
  "register_proposal db ms i p a =
     (case UpsertApp (db AppStmt) (da_router a) (pr_SuggestedApp p) of
        (rg1, ev1, Some e) \<Rightarrow>
          (emit [RouterNotice ev1] (a\<lparr>da_router := rg1\<rparr>), PageError ''APP_REGISTRATION_FAILED'' 500)
      | (rg1, ev1, None) \<Rightarrow>
          (case UpsertRoute (db RouteStmt) rg1 (pr_SuggestedRoute p) of
             (rg2, ev2, Some e) \<Rightarrow>
               (emit [RouterNotice ev1, RouterNotice ev2] (a\<lparr>da_router := rg2\<rparr>),
                PageError ''ROUTE_REGISTRATION_FAILED'' 500)
           | (rg2, ev2, None) \<Rightarrow>
               (after_approval db ms i p
                  (settle (db DeleteStmt) i (emit [RouterNotice ev1, RouterNotice ev2] (a\<lparr>da_router := rg2\<rparr>))),
                Approved i (pr_SuggestedApp p) (pr_SuggestedRoute p))))"

text \<open>The port is 0 when the request has no body, or one that does not decode.\<close>

definition handleApproveProposal ::
  "(int \<Rightarrow> string) \<Rightarrow> (statement \<Rightarrow> conn) \<Rightarrow> int \<Rightarrow> int \<Rightarrow> string \<Rightarrow> discovery_app \<Rightarrow> discovery_app \<times> page" where
  "handleApproveProposal render db ms port i a =
     (case getProposal render db i a of
        Inl e \<Rightarrow> (a, PageError ''PROPOSAL_FETCH_FAILED'' 500)
      | Inr None \<Rightarrow> (a, AlreadyProcessed i)
      | Inr (Some p) \<Rightarrow>
          (if port > 0
           then (case applyPortSelection p port of
                   None \<Rightarrow> (a, PageError ''INVALID_PORT'' 400)
                 | Some p' \<Rightarrow> register_proposal db ms i p' (write_through i p' a))
           else register_proposal db ms i p a))"

definition handleDismissProposal ::
  "(int \<Rightarrow> string) \<Rightarrow> (statement \<Rightarrow> conn) \<Rightarrow> int \<Rightarrow> string \<Rightarrow> discovery_app \<Rightarrow> discovery_app \<times> page" where
  "handleDismissProposal render db ms i a =
     (case getProposal render db i a of
        Inl e \<Rightarrow> (a, PageError ''PROPOSAL_FETCH_FAILED'' 500)
      | Inr None \<Rightarrow> (a, AlreadyProcessed i)
      | Inr (Some p) \<Rightarrow>
          (let a1 = settle (db DeleteStmt) i a;
               a2 = (if da_hasWebSocket a then emit [DismissedProposal i] a1 else a1);
               a3 = record_activity (db ActivityStmt)
                      \<lparr>ev_ID = ''proposal_dismissed_'' @ i, ev_Type = ''proposal_dismissed'', ev_Icon = ''X'',
                       ev_IconClass = [], ev_Message = ''Proposal dismissed: '' @ i, ev_Details = [],
                       ev_Timestamp = ms\<rparr> a2
           in (a3, Dismissed i)))"

definition handleProposalActions ::
  "(int \<Rightarrow> string) \<Rightarrow> (statement \<Rightarrow> conn) \<Rightarrow> int \<Rightarrow> int \<Rightarrow> string \<Rightarrow> discovery_app \<Rightarrow> discovery_app \<times> page" where
  "handleProposalActions render db ms port path0 a =
     (let admin = ''/admin/api/v1/discovery/proposals/''; api = ''/api/v1/discovery/proposals/'' in
      if \<not> HasPrefix path0 admin \<and> \<not> HasPrefix path0 api then (a, PageNotFound)
      else
        (let path = (if HasPrefix path0 admin then TrimPrefix path0 admin else TrimPrefix path0 api);
             parts = Split (CHR ''/'') path
         in if length parts < 2 then (a, PageNotFound)
            else if parts ! 1 = ''approve'' then handleApproveProposal render db ms port (parts ! 0) a
            else if parts ! 1 = ''dismiss'' then handleDismissProposal render db ms (parts ! 0) a
            else (a, PageNotFound)))"

definition handleRediscover ::
  "(statement \<Rightarrow> conn) \<Rightarrow> int \<Rightarrow> string \<Rightarrow> string \<Rightarrow> discovery_app \<Rightarrow> discovery_app \<times> page" where
  "handleRediscover db ms stamp method a =
     (if method \<noteq> ''POST'' then (a, PageError ''METHOD_NOT_ALLOWED'' 405)
      else
        (case Rediscover (da_dm a) of
           (dm, dismissedCount, activeCount) \<Rightarrow>
             (let a1 = on_table (\<lambda>t. ClearProposals (db ClearStmt) t) (a\<lparr>da_dm := dm\<rparr>);
                  a2 = (if da_hasWebSocket a then emit [RediscoveryTriggered dismissedCount activeCount] a1 else a1);
                  a3 = record_activity (db ActivityStmt)
                         \<lparr>ev_ID = ''rediscovery_'' @ stamp, ev_Type = ''rediscovery_triggered'', ev_Icon = ''RefreshCw'',
                          ev_IconClass = [],
                          ev_Message = ''Discovery scan triggered (cleared '' @ Itoa (int dismissedCount)
                            @ '' dismissed, '' @ Itoa (int activeCount) @ '' active proposals)'',
                          ev_Details = [], ev_Timestamp = ms\<rparr> a2
              in (a3, Rediscovered dismissedCount activeCount))))"

text \<open>The queued copy of a port warning, one for every device; the payload is the JSON text of the warning.\<close>

definition enqueuePortExposureNotification ::
  "gotime \<Rightarrow> db_error + (string \<times> conn) list \<Rightarrow> string \<Rightarrow> 'd notif_queue \<Rightarrow> 'd notif_queue" where
  "enqueuePortExposureNotification now devices payload q =
     (case devices of
        Inl e \<Rightarrow> q
      | Inr ds \<Rightarrow> foldl (\<lambda>q (d, c). fst (Enqueue c now q d ''port_exposure_warning'' payload (24 * hour) 5)) q ds)"

section \<open>What the devices are told\<close>

fun notice_ids :: "notice \<Rightarrow> string list" where
  "notice_ids (DiscoveryNotice p) = [pr_ID p]"
| "notice_ids _ = []"

definition notified :: "discovery_app \<Rightarrow> string list" where
  "notified a = concat (map notice_ids (da_out a))"

text \<open>Those already told and those the processor is about to tell.\<close>

definition told :: "discovery_app \<Rightarrow> string list" where
  "told a = notified a @ announced (da_calls a)"

definition same_news :: "discovery_app \<Rightarrow> discovery_app \<Rightarrow> bool" where
  "same_news a a' \<longleftrightarrow> da_dm a' = da_dm a \<and> da_calls a' = da_calls a \<and> notified a' = notified a"

lemma same_news_refl [simp]: "same_news a a"
  by (simp add: same_news_def)

lemma same_news_trans: "same_news a b \<Longrightarrow> same_news b c \<Longrightarrow> same_news a c"
  by (simp add: same_news_def)

lemma same_news_emit: "\<forall>n \<in> set ns. notice_ids n = [] \<Longrightarrow> same_news a b \<Longrightarrow> same_news a (emit ns b)"
  by (simp add: same_news_def emit_def notified_def)

lemma same_news_update [simp]:
  "same_news a (b\<lparr>da_router := r\<rparr>) = same_news a b" "same_news a (b\<lparr>da_table := t\<rparr>) = same_news a b"
  "same_news a (b\<lparr>da_tracker := k\<rparr>) = same_news a b"
  by (simp_all add: same_news_def notified_def)

lemma same_news_activity [simp]: "same_news a (record_activity c e b) = same_news a b"
  by (simp add: record_activity_def)

lemma same_news_table [simp]: "same_news a (on_table f b) = same_news a b"
  by (simp add: on_table_def split: option.split sum.split)

lemma same_news_exposure: "same_news a b \<Longrightarrow> same_news a (checkAndNotifyPortExposure c ms p b)"
  by (auto simp: checkAndNotifyPortExposure_def Let_def intro!: same_news_emit split: sum.split)

lemma same_news_reconcile: "same_news a b \<Longrightarrow> same_news a (ReconcileTarget parse c p b)"
  by (simp add: ReconcileTarget_def case_prod_unfold same_news_emit split: option.split)

definition settled :: "string \<Rightarrow> discovery_app \<Rightarrow> bool" where
  "settled i a \<longleftrightarrow> pending (da_dm a) i \<or> dismissed (da_dm a) i"

definition news_inv :: "discovery_app \<Rightarrow> bool" where
  "news_inv a \<longleftrightarrow> distinct (told a) \<and> (\<forall>i \<in> set (told a). settled i a)"

text \<open>A step that keeps the news and settles no fewer proposals keeps the invariant.\<close>

definition quiet :: "discovery_app \<Rightarrow> discovery_app \<Rightarrow> bool" where
  "quiet a a' \<longleftrightarrow> da_calls a' = da_calls a \<and> notified a' = notified a \<and> (\<forall>i. settled i a \<longrightarrow> settled i a')"

lemma quiet_inv: "news_inv a \<Longrightarrow> quiet a a' \<Longrightarrow> news_inv a'"
  by (simp add: news_inv_def quiet_def told_def)

lemma quiet_news: "quiet a b \<Longrightarrow> same_news b c \<Longrightarrow> quiet a c"
  by (simp add: quiet_def same_news_def settled_def)

lemma quiet_refl [simp]: "quiet a a"
  by (simp add: quiet_def)

lemma quiet_trans: "quiet a b \<Longrightarrow> quiet b c \<Longrightarrow> quiet a c"
  by (simp add: quiet_def)

lemma has_adjust: "has (adjust i f m) j = has m j"
  by (induction m) (auto simp: adjust_def has_def)

lemma quiet_write_through: "quiet a (write_through i p a)"
  by (simp add: quiet_def write_through_def settled_def notified_def has_adjust)

lemma settle_dm: "da_dm (settle c i a) = fst (DismissProposal i (da_dm a))"
  by (simp add: settle_def Let_def on_table_def split: option.split sum.split)

lemma quiet_settle: "quiet a (settle c i a)"
proof -
  have "same_news a (on_table (\<lambda>t. DeleteProposal c t i) a)" by simp
  then show ?thesis
    by (auto simp: quiet_def same_news_def settle_def Let_def settled_def notified_def DismissProposal_def RemoveProposal_def)
qed

lemma same_news_after: "same_news a (after_approval db ms i p a)"
  by (simp add: after_approval_def Let_def same_news_emit same_news_exposure)

lemma quiet_register: "quiet a (fst (register_proposal db ms i p a))"
proof -
  have r: "quiet a (emit [RouterNotice x, RouterNotice y] (a\<lparr>da_router := r\<rparr>))" "quiet a (emit [RouterNotice x] (a\<lparr>da_router := r\<rparr>))" for x y r
    by (rule quiet_news [OF quiet_refl], simp add: same_news_emit)+
  note s = quiet_news [OF quiet_trans [OF r(1) quiet_settle] same_news_after]
  show ?thesis by (simp add: register_proposal_def case_prod_unfold r s split: option.split)
qed

lemma quiet_approve: "quiet a (fst (handleApproveProposal render db ms port i a))"
  using quiet_trans [OF quiet_write_through quiet_register]
  by (auto simp: handleApproveProposal_def quiet_register split: sum.split option.split)

lemma quiet_activity [simp]: "quiet a (record_activity c e b) = quiet a b"
  by (simp add: quiet_def record_activity_def notified_def settled_def)

lemma notified_emit: "notified (emit ns b) = notified b @ concat (map notice_ids ns)"
  by (simp add: notified_def emit_def)

lemma emit_frame [simp]:
  "da_dm (emit ns b) = da_dm b" "da_calls (emit ns b) = da_calls b" "da_router (emit ns b) = da_router b"
  "da_table (emit ns b) = da_table b" "da_hasWebSocket (emit ns b) = da_hasWebSocket b"
  by (simp_all add: emit_def)

lemma quiet_emit: "\<forall>n \<in> set ns. notice_ids n = [] \<Longrightarrow> quiet a (emit ns b) = quiet a b"
proof -
  assume "\<forall>n \<in> set ns. notice_ids n = []"
  then have "concat (map notice_ids ns) = []" by simp
  then have "notified (emit ns b) = notified b" by (simp only: notified_emit append_Nil2)
  then show ?thesis by (simp add: quiet_def settled_def)
qed

lemma quiet_dismiss: "quiet a (fst (handleDismissProposal render db ms i a))"
  by (simp add: handleDismissProposal_def Let_def quiet_emit quiet_settle split: sum.split option.split)

lemma quiet_actions: "quiet a (fst (handleProposalActions render db ms port path a))"
  by (simp add: handleProposalActions_def Let_def quiet_approve quiet_dismiss)

section \<open>Runs\<close>

text \<open>What may happen, in any order: a worker submits a proposal, the processor takes the next one (when it has
  made the calls of the one before) or makes its next call, somebody uses a page, and the routes change by other
  means.\<close>

datatype discovery_op =
    Submit proposal
  | TakeNext
  | CallNext
  | ActionPage int string
  | RediscoverPage string
  | RouterChange registry

definition discovery_step ::
  "(int \<Rightarrow> string) \<Rightarrow> url_parser \<Rightarrow> (statement \<Rightarrow> conn) \<times> int \<times> discovery_op \<Rightarrow> discovery_app \<Rightarrow> discovery_app" where
  "discovery_step render parse step a =
     (case step of (db, ms, op) \<Rightarrow>
       (case op of
          Submit p \<Rightarrow> a\<lparr>da_dm := SubmitProposal p (da_dm a)\<rparr>
        | TakeNext \<Rightarrow>
            (if da_calls a = []
             then (case processNext (HasRouteForApp (Some (da_router a))) (da_dm a) of
                     (dm, calls) \<Rightarrow> a\<lparr>da_dm := dm, da_calls := calls\<rparr>)
             else a)
        | CallNext \<Rightarrow> (case da_calls a of [] \<Rightarrow> a | call # calls \<Rightarrow> perform parse db call (a\<lparr>da_calls := calls\<rparr>))
        | ActionPage port path \<Rightarrow> fst (handleProposalActions render db ms port path a)
        | RediscoverPage stamp \<Rightarrow> fst (handleRediscover db ms stamp ''POST'' a)
        | RouterChange rg \<Rightarrow> a\<lparr>da_router := rg\<rparr>))"

definition discovery_run where
  "discovery_run render parse steps a = foldl (\<lambda>a s. discovery_step render parse s a) a steps"

fun rediscovers :: "(statement \<Rightarrow> conn) \<times> int \<times> discovery_op \<Rightarrow> bool" where
  "rediscovers (db, ms, RediscoverPage stamp) = True"
| "rediscovers _ = False"

lemma told_news: "same_news a b \<Longrightarrow> told b = told a"
  by (simp add: told_def same_news_def)

lemma dm_table [simp]: "da_dm (on_table f a) = da_dm a"
  by (simp add: on_table_def split: option.split sum.split)

lemma perform_dm [simp]: "da_dm (perform parse db call a) = da_dm a"
  using same_news_reconcile [of a a parse "db RouteStmt"]
  by (simp add: perform_def emit_def same_news_def split: discovery_call.split)

lemma perform_told:
  "told (perform parse db call a) = told a \<or>
   told (perform parse db call a) = notified a @ announced_by call @ announced (da_calls a)"
proof (cases call)
  case (PublishDiscovery p)
  have "told (emit [DiscoveryNotice p] a) = notified a @ [pr_ID p] @ announced (da_calls a)"
    by (simp add: told_def notified_emit)
  then show ?thesis by (simp add: perform_def PublishDiscovery)
qed (simp_all add: perform_def told_news same_news_reconcile)

lemma discovery_step_inv:
  assumes "news_inv a" "\<not> rediscovers s"
  shows "news_inv (discovery_step render parse s a)"
proof -
  obtain db ms op where s: "s = (db, ms, op)" by (cases s)
  show ?thesis
  proof (cases op)
    case (Submit p)
    then show ?thesis using assms by (simp add: s discovery_step_def news_inv_def told_def notified_def settled_def)
  next
    case TakeNext
    show ?thesis
    proof (cases "da_calls a = []")
      case True
      let ?r = "processNext (HasRouteForApp (Some (da_router a))) (da_dm a)"
      have old: "pending (fst ?r) i \<or> dismissed (da_dm a) i" "i \<notin> set (announced (snd ?r))" if "i \<in> set (notified a)" for i
        using assms(1) that processNext_settled [of "da_dm a" i "HasRouteForApp (Some (da_router a))"]
        by (simp_all add: news_inv_def told_def settled_def)
      show ?thesis using assms(1) old processNext_announced [of "HasRouteForApp (Some (da_router a))" "da_dm a"] True
        by (auto simp: s TakeNext discovery_step_def news_inv_def told_def notified_def settled_def case_prod_unfold)
    qed (use assms(1) in \<open>simp add: s TakeNext discovery_step_def\<close>)
  next
    case CallNext
    show ?thesis
    proof (cases "da_calls a")
      case (Cons call calls)
      let ?a = "a\<lparr>da_calls := calls\<rparr>"
      have eq: "discovery_step render parse s a = perform parse db call ?a"
        by (simp add: s CallNext Cons discovery_step_def)
      have "notified ?a = notified a" by (simp add: notified_def)
      then have "told (perform parse db call ?a) \<in> {notified a @ announced calls, told a}"
        using perform_told [of parse db call ?a] by (auto simp: told_def Cons)
      moreover have "set (notified a @ announced calls) \<subseteq> set (told a)" "distinct (notified a @ announced calls)"
        using assms(1) by (auto simp: news_inv_def told_def Cons)
      ultimately have "distinct (told (perform parse db call ?a))" "set (told (perform parse db call ?a)) \<subseteq> set (told a)"
        using assms(1) by (auto simp: news_inv_def)
      then show ?thesis using assms(1) unfolding eq by (auto simp: news_inv_def settled_def)
    qed (use assms(1) in \<open>simp add: s CallNext discovery_step_def\<close>)
  next
    case (ActionPage port path)
    then show ?thesis using quiet_inv [OF assms(1) quiet_actions] by (simp add: s discovery_step_def)
  next
    case (RediscoverPage stamp)
    then show ?thesis using assms(2) by (simp add: s)
  next
    case (RouterChange rg)
    then show ?thesis using assms(1) by (simp add: s discovery_step_def news_inv_def told_def notified_def settled_def)
  qed
qed

lemma discovery_run_inv:
  "news_inv a \<Longrightarrow> \<forall>s \<in> set steps. \<not> rediscovers s \<Longrightarrow> news_inv (discovery_run render parse steps a)"
  by (induction steps arbitrary: a) (simp_all add: discovery_run_def discovery_step_inv)

definition start_app :: "registry \<Rightarrow> proposal_table option \<Rightarrow> tracker option \<Rightarrow> (string \<Rightarrow> inspection option) option \<Rightarrow> discovery_app" where
  "start_app rg table tk docker =
     \<lparr>da_dm = NewDiscoveryManager True, da_calls = [], da_router = rg, da_table = table, da_tracker = tk,
      da_hasWebSocket = True, da_hasNotifications = True, da_hasQueue = True, da_docker = docker, da_out = []\<rparr>"


definition demo_db :: "statement \<Rightarrow> conn" where
  "demo_db = (\<lambda>_. \<lparr>cn_ok = True, cn_fk = False, cn_now = 7\<rparr>)"

definition demo_proposal :: proposal where
  "demo_proposal = \<lparr>pr_ID = ''p1'', pr_Source = ''docker'', pr_DetectedScheme = ''http'', pr_DetectedHost = ''web'',
     pr_DetectedPort = 80, pr_AvailablePorts = [\<lparr>po_Port = 80, po_Scheme = ''http''\<rparr>, \<lparr>po_Port = 443, po_Scheme = ''https''\<rparr>],
     pr_Confidence = 900, pr_SuggestedApp = zero_app\<lparr>app_ID := ''web'', app_Name := ''Web''\<rparr>,
     pr_SuggestedRoute = zero_route\<lparr>RouteID := ''route:web'', AppID := ''web'', PathBase := ''/apps/web/'', To := ''http://web:80''\<rparr>,
     pr_Tags = [], pr_LastSeen = [], pr_SecurityNotes = []\<rparr>"

definition demo_steps :: "((statement \<Rightarrow> conn) \<times> int \<times> discovery_op) list" where
  "demo_steps = map (\<lambda>op. (demo_db, 1, op))
     [Submit demo_proposal, Submit demo_proposal, TakeNext, CallNext, TakeNext, CallNext, TakeNext,
      ActionPage 0 ''/api/v1/discovery/proposals/p1/dismiss'', Submit demo_proposal, TakeNext]"

definition demo_app :: discovery_app where
  "demo_app = start_app (NewRegistry (demo_db GetStmt) (demo_db GetStmt) None) (Some []) None None"


section \<open>Approving a proposal\<close>

lemma UpsertApp_apps:
  "snd (snd (UpsertApp c rg ap)) = None \<Longrightarrow> get (rg_apps (fst (UpsertApp c rg ap))) (app_ID ap) = Some ap"
  by (auto simp: UpsertApp_def Let_def get_put split: option.splits sum.splits)

lemma UpsertRoute_apps: "rg_apps (fst (UpsertRoute c rg rt)) = rg_apps rg"
  by (auto simp: UpsertRoute_def persist_route_def rollback_route_def rollback_storage_def Let_def
      split: option.splits sum.splits)

lemma normalize_RouteID [simp]: "RouteID (normalize_route rt) = RouteID rt"
  by (simp add: normalize_route_def Let_def)

lemma UpsertRoute_routes:
  "snd (snd (UpsertRoute c rg rt)) = None \<Longrightarrow>
   rg_routes (fst (UpsertRoute c rg rt)) = put (RouteID rt) (normalize_route rt) (rg_routes rg)"
  by (auto simp: UpsertRoute_def persist_route_def Let_def split: option.splits sum.splits)

lemma table_exposure [simp]:
  "da_table (checkAndNotifyPortExposure c ms p a) = da_table a" "da_router (checkAndNotifyPortExposure c ms p a) = da_router a"
  by (simp_all add: checkAndNotifyPortExposure_def record_activity_def Let_def split: sum.split)

lemma after_approval_frame [simp]:
  "da_table (after_approval db ms i p a) = da_table a" "da_router (after_approval db ms i p a) = da_router a"
  by (simp_all add: after_approval_def record_activity_def Let_def)

lemma after_approval_dm [simp]: "da_dm (after_approval db ms i p a) = da_dm a"
  using same_news_after by (simp add: same_news_def)

lemma settle_frame [simp]: "da_router (settle c i a) = da_router a"
  by (simp add: settle_def on_table_def Let_def split: option.split sum.split)

lemma settle_table: "cn_ok c \<Longrightarrow> da_table (settle c i a) = map_option (del i) (da_table a)"
  by (simp add: settle_def on_table_def DeleteProposal_def Let_def split: option.split)

lemma write_through_frame [simp]:
  "da_router (write_through i p a) = da_router a" "da_table (write_through i p a) = da_table a"
  by (simp_all add: write_through_def)

lemma settle_dismisses [simp]: "dismissed (da_dm (settle c i a)) i" "\<not> pending (da_dm (settle c i a)) i"
  by (simp_all add: settle_dm DismissProposal_def RemoveProposal_def)

text \<open>What an approval that succeeds leaves.\<close>

lemma register_approved:
  assumes "snd (register_proposal db ms i p a) = Approved i ap rt"
  shows "ap = pr_SuggestedApp p" "rt = pr_SuggestedRoute p"
    "get (rg_apps (da_router (fst (register_proposal db ms i p a)))) (app_ID ap) = Some ap"
    "get (rg_routes (da_router (fst (register_proposal db ms i p a)))) (RouteID rt) = Some (normalize_route rt)"
    "da_dm (fst (register_proposal db ms i p a)) = fst (DismissProposal i (da_dm a))"
    "cn_ok (db DeleteStmt) \<Longrightarrow> da_table (fst (register_proposal db ms i p a)) = map_option (del i) (da_table a)"
proof -
  let ?A = "UpsertApp (db AppStmt) (da_router a) (pr_SuggestedApp p)"
  let ?R = "UpsertRoute (db RouteStmt) (fst ?A) (pr_SuggestedRoute p)"
  have ok: "snd (snd ?A) = None" "snd (snd ?R) = None"
    using assms by (auto simp: register_proposal_def case_prod_unfold split: option.splits)
  have eq: "register_proposal db ms i p a =
      (after_approval db ms i p (settle (db DeleteStmt) i
         (emit [RouterNotice (fst (snd ?A)), RouterNotice (fst (snd ?R))] (a\<lparr>da_router := fst ?R\<rparr>))),
       Approved i (pr_SuggestedApp p) (pr_SuggestedRoute p))"
    using ok by (simp add: register_proposal_def case_prod_unfold)
  show "ap = pr_SuggestedApp p" "rt = pr_SuggestedRoute p" using assms unfolding eq by simp_all
  then show "get (rg_apps (da_router (fst (register_proposal db ms i p a)))) (app_ID ap) = Some ap"
    "get (rg_routes (da_router (fst (register_proposal db ms i p a)))) (RouteID rt) = Some (normalize_route rt)"
    using UpsertApp_apps [OF ok(1)] UpsertRoute_routes [OF ok(2)] by (simp_all add: eq UpsertRoute_apps get_put)
  show "da_dm (fst (register_proposal db ms i p a)) = fst (DismissProposal i (da_dm a))"
    by (simp add: eq settle_dm)
  show "cn_ok (db DeleteStmt) \<Longrightarrow> da_table (fst (register_proposal db ms i p a)) = map_option (del i) (da_table a)"
    by (simp add: eq settle_table)
qed

lemma applyPortSelection_route:
  assumes "applyPortSelection p port = Some p'"
  shows "\<exists>opt \<in> set (pr_AvailablePorts p). po_Port opt = port \<and>
      To (pr_SuggestedRoute p') = po_Scheme opt @ ''://'' @ pr_DetectedHost p @ '':'' @ Itoa port"
    "get (app_Endpoints (pr_SuggestedApp p')) ''lan'' = Some (To (pr_SuggestedRoute p'))"
proof -
  obtain opt where opt: "find (\<lambda>opt. po_Port opt = port) (pr_AvailablePorts p) = Some opt"
    using assms by (auto simp: applyPortSelection_def split: option.splits)
  then have "opt \<in> set (pr_AvailablePorts p)" "po_Port opt = port"
    by (auto simp: find_Some_iff)
  moreover have p': "To (pr_SuggestedRoute p') = po_Scheme opt @ ''://'' @ pr_DetectedHost p @ '':'' @ Itoa (po_Port opt)"
    "get (app_Endpoints (pr_SuggestedApp p')) ''lan'' = Some (To (pr_SuggestedRoute p'))"
    using assms opt by (auto simp: applyPortSelection_def Let_def get_put)
  ultimately show "\<exists>opt \<in> set (pr_AvailablePorts p). po_Port opt = port \<and>
      To (pr_SuggestedRoute p') = po_Scheme opt @ ''://'' @ pr_DetectedHost p @ '':'' @ Itoa port"
    "get (app_Endpoints (pr_SuggestedApp p')) ''lan'' = Some (To (pr_SuggestedRoute p'))" by auto
qed

text \<open>C6: When the approve page reports success, the app and the route it reports are the registered ones and, if
  a port was chosen, the route leads to that port with the scheme the proposal lists for it, which is the app's
  address on the local network too; the proposal is off the stored list, and a later request for it, approving or
  dismissing, changes nothing.\<close>

theorem approval_registers_choice:
  assumes "handleApproveProposal render db ms port i a = (a', Approved i ap rt)"
    and "da_table a = Some t" "cn_ok (db DeleteStmt)" "cn_ok (db' GetStmt)"
  shows "get (rg_apps (da_router a')) (app_ID ap) = Some ap \<and>
    get (rg_routes (da_router a')) (RouteID rt) = Some (normalize_route rt) \<and>
    (port > 0 \<longrightarrow> (\<exists>p opt. GetProposal render (db GetStmt) t i = Inr (Some p) \<and> opt \<in> set (pr_AvailablePorts p) \<and>
       po_Port opt = port \<and> To rt = po_Scheme opt @ ''://'' @ pr_DetectedHost p @ '':'' @ Itoa port \<and>
       get (app_Endpoints ap) ''lan'' = Some (To rt))) \<and>
    handleApproveProposal render db' ms' port' i a' = (a', AlreadyProcessed i) \<and>
    handleDismissProposal render db' ms' i a' = (a', AlreadyProcessed i)"
proof -
  obtain p where p: "GetProposal render (db GetStmt) t i = Inr (Some p)"
    using assms(1,2) by (auto simp: handleApproveProposal_def getProposal_def split: sum.splits option.splits)
  let ?sel = "if port > 0 then applyPortSelection p port else Some p"
  obtain q where q: "?sel = Some q" and reg: "register_proposal db ms i q (if port > 0 then write_through i q a else a) = (a', Approved i ap rt)"
    using assms(1,2) p by (auto simp: handleApproveProposal_def getProposal_def split: option.splits if_splits)
  let ?b = "if port > 0 then write_through i q a else a"
  have page: "snd (register_proposal db ms i q ?b) = Approved i ap rt" using reg by simp
  note fin = register_approved [OF page, unfolded reg fst_conv]
  have gone: "getProposal render db' i a' = Inr None"
    using fin(6) [OF assms(3)] assms(2,4) by (simp add: getProposal_def GetProposal_def get_del)
  have "\<exists>opt \<in> set (pr_AvailablePorts p). po_Port opt = port \<and>
      To rt = po_Scheme opt @ ''://'' @ pr_DetectedHost p @ '':'' @ Itoa port" "get (app_Endpoints ap) ''lan'' = Some (To rt)" if "port > 0"
    using applyPortSelection_route [of p port q] q that fin(1,2) by simp_all
  then show ?thesis using fin(3,4) p gone by (auto simp: handleApproveProposal_def handleDismissProposal_def)
qed

definition demo_listed :: discovery_app where
  "demo_listed = demo_app\<lparr>da_table := Some [(''p1'', (demo_proposal, 0))]\<rparr>"

lemma approval_registers_choice_witness:
  "\<exists>a' ap rt. handleApproveProposal (\<lambda>_. []) demo_db 5 443 ''p1'' demo_listed = (a', Approved ''p1'' ap rt) \<and>
     To rt = ''https://web:443'' \<and> handleDismissProposal (\<lambda>_. []) demo_db 6 ''p1'' a' = (a', AlreadyProcessed ''p1'')"
proof -
  let ?r = "handleApproveProposal (\<lambda>_. []) demo_db 5 443 ''p1'' demo_listed"
  let ?p = "the (applyPortSelection (demo_proposal\<lparr>pr_LastSeen := []\<rparr>) 443)"
  have pg: "snd ?r = Approved ''p1'' (pr_SuggestedApp ?p) (pr_SuggestedRoute ?p)" by code_simp
  have to: "To (pr_SuggestedRoute ?p) = ''https://web:443''" by code_simp
  have r: "?r = (fst ?r, Approved ''p1'' (pr_SuggestedApp ?p) (pr_SuggestedRoute ?p))" using pg by (metis prod.collapse)
  have "cn_ok (demo_db DeleteStmt)" "cn_ok (demo_db GetStmt)" "da_table demo_listed = Some [(''p1'', (demo_proposal, 0))]"
    by (simp_all add: demo_db_def demo_listed_def)
  note f = approval_registers_choice [where db = demo_db and db' = demo_db, OF r this(3) this(1,2)]
  have "handleDismissProposal (\<lambda>_. []) demo_db 6 ''p1'' (fst ?r) = (fst ?r, AlreadyProcessed ''p1'')" using f by blast
  then show ?thesis using r to by blast
qed

text \<open>C7: An approval that is refused (the proposal cannot be read, the chosen port is not offered, the app or the
  route cannot be registered) leaves the proposal pending, in the stored list and in the manager, so that it can
  be approved again; a port that is not offered changes nothing at all.\<close>

theorem refused_approval_keeps_proposal:
  assumes "handleApproveProposal render db ms port i a = (a', PageError code status)" "da_table a \<noteq> None"
  shows "da_table a' = da_table a \<and> da_dm a' = da_dm a \<and> (code = ''INVALID_PORT'' \<longrightarrow> a' = a)"
  using assms
  by (auto simp: handleApproveProposal_def register_proposal_def write_through_def case_prod_unfold
      split: sum.splits option.splits if_splits)

lemma refused_approval_keeps_proposal_witness:
  "handleApproveProposal (\<lambda>_. []) demo_db 5 8080 ''p1'' demo_listed = (demo_listed, PageError ''INVALID_PORT'' 400)"
proof -
  let ?r = "handleApproveProposal (\<lambda>_. []) demo_db 5 8080 ''p1'' demo_listed"
  have pg: "snd ?r = PageError ''INVALID_PORT'' 400" by code_simp
  then have r: "?r = (fst ?r, PageError ''INVALID_PORT'' 400)" by (metis prod.collapse)
  have "da_table demo_listed \<noteq> None" by (simp add: demo_listed_def)
  from refused_approval_keeps_proposal [OF r this] show ?thesis using r by simp
qed

section \<open>A container that moves\<close>

text \<open>The target the code computes from the two parsed addresses.\<close>

definition moved :: "parsed_url \<Rightarrow> parsed_url \<Rightarrow> string" where
  "moved u v =
     (let port = (if pu_Port u = [] then pu_Port v else pu_Port u) in
      pu_String u (if port \<noteq> [] then pu_Hostname v @ '':'' @ port else pu_Hostname v))"

lemma reconciled_cases:
  assumes "reconciled parse p rg = Some updated"
  obtains existing u v where "GetRouteByAppID rg (app_ID (pr_SuggestedApp p)) = Some existing"
    "ContainerID existing \<noteq> []" "ContainerID existing = ContainerID (pr_SuggestedRoute p)"
    "parse (To existing) = Some u" "parse (To (pr_SuggestedRoute p)) = Some v" "pu_Hostname u \<noteq> pu_Hostname v"
    "updated = existing\<lparr>To := moved u v\<rparr>"
proof -
  obtain existing where e: "GetRouteByAppID rg (app_ID (pr_SuggestedApp p)) = Some existing"
    using assms by (auto simp: reconciled_def split: option.splits)
  have c: "ContainerID existing \<noteq> []" "ContainerID existing = ContainerID (pr_SuggestedRoute p)"
    using assms e by (auto simp: reconciled_def split: if_splits)
  obtain u v where uv: "parse (To existing) = Some u" "parse (To (pr_SuggestedRoute p)) = Some v"
    using assms e c by (auto simp: reconciled_def split: option.splits)
  have h: "pu_Hostname u \<noteq> pu_Hostname v" using assms e c uv by (auto simp: reconciled_def)
  have "updated = existing\<lparr>To := moved u v\<rparr>"
    using assms e c uv h by (simp add: reconciled_def moved_def Let_def split: if_splits)
  then show ?thesis using that e c uv h by blast
qed

text \<open>Seeing an app again changes its route only when both carry the identity of the same container and the
  host differs, and then it writes back the registered route with nothing but the target replaced: the new host
  with the port the route had (the proposal's if it had none).\<close>

theorem reconcile_moves_host_only:
  assumes "da_router (perform parse db (ReconcileRouteTarget p) a) \<noteq> da_router a"
  shows "\<exists>existing u v. GetRouteByAppID (da_router a) (app_ID (pr_SuggestedApp p)) = Some existing \<and>
    ContainerID existing \<noteq> [] \<and> ContainerID existing = ContainerID (pr_SuggestedRoute p) \<and>
    parse (To existing) = Some u \<and> parse (To (pr_SuggestedRoute p)) = Some v \<and> pu_Hostname u \<noteq> pu_Hostname v \<and>
    da_router (perform parse db (ReconcileRouteTarget p) a)
      = fst (UpsertRoute (db RouteStmt) (da_router a) (existing\<lparr>To := moved u v\<rparr>))"
proof (cases "reconciled parse p (da_router a)")
  case None
  then show ?thesis using assms by (simp add: perform_def ReconcileTarget_def)
next
  case (Some updated)
  have "da_router (perform parse db (ReconcileRouteTarget p) a) = fst (UpsertRoute (db RouteStmt) (da_router a) updated)"
    by (simp add: perform_def ReconcileTarget_def Some case_prod_unfold)
  then show ?thesis using reconciled_cases [OF Some] by metis
qed

text \<open>A parser for addresses \<open>http://host:port\<close>, enough for a concrete run.\<close>

definition demo_url :: url_parser where
  "demo_url s =
     (let rest = drop 7 s; host = takeWhile (\<lambda>c. c \<noteq> CHR '':'') rest
      in Some \<lparr>pu_Hostname = host, pu_Port = drop (Suc (length host)) rest, pu_String = (\<lambda>h. ''http://'' @ h)\<rparr>)"

definition demo_moved :: discovery_app where
  "demo_moved = demo_app\<lparr>da_router := fst (UpsertRoute (demo_db RouteStmt) (da_router demo_app)
     (zero_route\<lparr>RouteID := ''r'', AppID := ''web'', PathBase := ''/web'', To := ''http://10.0.0.1:81'', ContainerID := ''c''\<rparr>))\<rparr>"

lemma reconcile_moves_host_only_witness:
  "let p = demo_proposal\<lparr>pr_SuggestedRoute := (pr_SuggestedRoute demo_proposal)\<lparr>To := ''http://10.0.0.2:80'', ContainerID := ''c''\<rparr>\<rparr>;
       rg = da_router (perform demo_url demo_db (ReconcileRouteTarget p) demo_moved)
   in map (To \<circ> snd) (rg_routes rg) = [''http://10.0.0.2:81''] \<and>
      (\<exists>existing u v. rg = fst (UpsertRoute (demo_db RouteStmt) (da_router demo_moved) (existing\<lparr>To := moved u v\<rparr>)))"
proof -
  let ?p = "demo_proposal\<lparr>pr_SuggestedRoute := (pr_SuggestedRoute demo_proposal)\<lparr>To := ''http://10.0.0.2:80'', ContainerID := ''c''\<rparr>\<rparr>"
  let ?rg = "da_router (perform demo_url demo_db (ReconcileRouteTarget ?p) demo_moved)"
  have to: "map (To \<circ> snd) (rg_routes ?rg) = [''http://10.0.0.2:81'']" by code_simp
  have before: "map (To \<circ> snd) (rg_routes (da_router demo_moved)) = [''http://10.0.0.1:81'']" by code_simp
  have "?rg \<noteq> da_router demo_moved"
  proof
    assume "?rg = da_router demo_moved"
    from to [unfolded this] before have "[''http://10.0.0.2:81''] = [''http://10.0.0.1:81'']" by (rule trans [OF sym])
    then show False by simp
  qed
  from reconcile_moves_host_only [OF this] to show ?thesis unfolding Let_def by blast
qed

end
