(* ===== verification/RateLimits.thy ===== *)
theory RateLimits
  imports Access Numbers
begin

text \<open>
  Rate limiting: \<open>internal/ratelimit/ratelimit.go\<close> and \<open>internal/middleware/ratelimit.go\<close>.  The token
  bucket of a key is \<open>golang.org/x/time/rate\<close>, which is not in the repository: its operations are an argument,
  a bucket any state they act on.
\<close>

section \<open>The limiter\<close>

record 'b bucket_ops =
  bk_new :: 'b
  bk_allow :: "gotime \<Rightarrow> 'b \<Rightarrow> 'b \<times> bool"
  bk_tokens :: "gotime \<Rightarrow> 'b \<Rightarrow> int"

record 'b limiter_entry =
  le_limiter :: 'b
  le_lastAccess :: gotime

record 'b limiter =
  lm_limiters :: "(string, 'b limiter_entry) gomap"
  lm_burst :: int
  lm_maxEntries :: nat
  lm_ttl :: duration

definition NewLimiter :: "int \<Rightarrow> 'b limiter" where
  "NewLimiter burst = \<lparr>lm_limiters = [], lm_burst = burst, lm_maxEntries = 10000, lm_ttl = 5 * minute\<rparr>"

definition Allow :: "'b bucket_ops \<Rightarrow> gotime \<Rightarrow> string \<Rightarrow> 'b limiter \<Rightarrow> 'b limiter \<times> bool" where
  "Allow ops now key l =
     (let bucket = (case get (lm_limiters l) key of None \<Rightarrow> bk_new ops | Some entry \<Rightarrow> le_limiter entry) in
      case bk_allow ops now bucket of
        (bucket', ok) \<Rightarrow>
          (l\<lparr>lm_limiters := put key \<lparr>le_limiter = bucket', le_lastAccess = now\<rparr> (lm_limiters l)\<rparr>, ok))"

record rate_limit_state =
  rs_Limit :: int
  rs_Remaining :: int
  rs_ResetAt :: int

text \<open>\<open>resetDuration\<close> is one second divided by the rate.\<close>

definition GetState :: "'b bucket_ops \<Rightarrow> gotime \<Rightarrow> duration \<Rightarrow> string \<Rightarrow> 'b limiter \<Rightarrow> rate_limit_state" where
  "GetState ops now resetDuration key l =
     (case get (lm_limiters l) key of
        None \<Rightarrow> \<lparr>rs_Limit = lm_burst l, rs_Remaining = lm_burst l, rs_ResetAt = (now + second) div second\<rparr>
      | Some entry \<Rightarrow>
          (let t0 = bk_tokens ops now (le_limiter entry);
               t1 = (if t0 < 0 then 0 else t0);
               tokens = (if t1 > lm_burst l then lm_burst l else t1)
           in \<lparr>rs_Limit = lm_burst l, rs_Remaining = tokens, rs_ResetAt = (now + resetDuration) div second\<rparr>))"

text \<open>The entries removed for size are the oldest; entries with the same last access are in no particular order
  (the sort is not stable), in the order of the map here.\<close>

definition limiter_cleanup :: "gotime \<Rightarrow> 'b limiter \<Rightarrow> 'b limiter" where
  "limiter_cleanup now l =
     (let m = del_if (\<lambda>k e. now - le_lastAccess e > lm_ttl l) (lm_limiters l) in
      if length m > lm_maxEntries l
      then (let oldest = take (length m - lm_maxEntries l) (map fst (sort_key (\<lambda>(k, e). le_lastAccess e) m))
            in l\<lparr>lm_limiters := foldl (\<lambda>m k. del k m) m oldest\<rparr>)
      else l\<lparr>lm_limiters := m\<rparr>)"

definition Stats :: "'b limiter \<Rightarrow> nat" where
  "Stats l = length (lm_limiters l)"

section \<open>The middleware\<close>

text \<open>The headers of every answer, and whether the request is passed on; refused requests are told to retry
  after one second.\<close>

record limited =
  li_headers :: "(string \<times> string) list"
  li_passed :: bool

definition RateLimit :: "'b bucket_ops \<Rightarrow> gotime \<Rightarrow> duration \<Rightarrow> request \<Rightarrow> 'b limiter \<Rightarrow> 'b limiter \<times> limited" where
  "RateLimit ops now resetDuration r l =
     (let clientIP = ExtractClientIP r;
          state = GetState ops now resetDuration clientIP l;
          hs = [(''RateLimit-Limit'', Itoa (rs_Limit state)), (''RateLimit-Remaining'', Itoa (rs_Remaining state)),
                (''RateLimit-Reset'', Itoa (rs_ResetAt state))]
      in case Allow ops now clientIP l of
           (l', ok) \<Rightarrow> (l', \<lparr>li_headers = (if ok then hs else hs @ [(''Retry-After'', ''1'')]), li_passed = ok\<rparr>))"

section \<open>Every client is limited on its own\<close>

datatype limiter_op = Request string | Tick

fun limiter_run :: "'b bucket_ops \<Rightarrow> (gotime \<times> limiter_op) list \<Rightarrow> 'b limiter \<Rightarrow> (gotime \<times> string \<times> bool) list" where
  "limiter_run ops [] l = []"
| "limiter_run ops ((now, Request key) # es) l =
     (now, key, snd (Allow ops now key l)) # limiter_run ops es (fst (Allow ops now key l))"
| "limiter_run ops ((now, Tick) # es) l = limiter_run ops es (limiter_cleanup now l)"

text \<open>The specification: one bucket for the requests of one key.\<close>

fun bucket_run :: "'b bucket_ops \<Rightarrow> gotime list \<Rightarrow> 'b \<Rightarrow> (gotime \<times> bool) list" where
  "bucket_run ops [] b = []"
| "bucket_run ops (now # ts) b = (now, snd (bk_allow ops now b)) # bucket_run ops ts (fst (bk_allow ops now b))"

definition answers_to :: "string \<Rightarrow> (gotime \<times> string \<times> bool) list \<Rightarrow> (gotime \<times> bool) list" where
  "answers_to key out = map (\<lambda>(t, k, ok). (t, ok)) (filter (\<lambda>(t, k, ok). k = key) out)"

definition times_of :: "string \<Rightarrow> (gotime \<times> limiter_op) list \<Rightarrow> gotime list" where
  "times_of key es = map fst (filter (\<lambda>(t, op). op = Request key) es)"

text \<open>No cleanup of the run comes more than the lifetime of an entry after the last request of the key.\<close>

fun kept_alive :: "string \<Rightarrow> duration \<Rightarrow> gotime option \<Rightarrow> (gotime \<times> limiter_op) list \<Rightarrow> bool" where
  "kept_alive key ttl seen [] \<longleftrightarrow> True"
| "kept_alive key ttl seen ((now, Request k) # es) \<longleftrightarrow> kept_alive key ttl (if k = key then Some now else seen) es"
| "kept_alive key ttl seen ((now, Tick) # es) \<longleftrightarrow>
     (case seen of None \<Rightarrow> True | Some t \<Rightarrow> now - t \<le> ttl) \<and> kept_alive key ttl seen es"

definition requests_in :: "(gotime \<times> limiter_op) list \<Rightarrow> nat" where
  "requests_in es = length (filter (\<lambda>(t, op). op \<noteq> Tick) es)"

lemma wf_Allow [wf_intros]: "wf_map (lm_limiters l) \<Longrightarrow> wf_map (lm_limiters (fst (Allow ops now key l)))"
  by (simp add: Allow_def Let_def case_prod_unfold wf_intros)

lemma Allow_frame [simp]:
  "lm_ttl (fst (Allow ops now key l)) = lm_ttl l" "lm_maxEntries (fst (Allow ops now key l)) = lm_maxEntries l"
  by (simp_all add: Allow_def Let_def case_prod_unfold)

lemma Allow_size: "length (lm_limiters (fst (Allow ops now key l))) \<le> Suc (length (lm_limiters l))"
  by (simp add: Allow_def Let_def case_prod_unfold length_put)

lemma Allow_other: "k \<noteq> key \<Longrightarrow> get (lm_limiters (fst (Allow ops now key l))) k = get (lm_limiters l) k"
  by (simp add: Allow_def Let_def case_prod_unfold get_put)

lemma Allow_own:
  assumes "get (lm_limiters l) key = map_option (\<lambda>t. \<lparr>le_limiter = b, le_lastAccess = t\<rparr>) seen"
    and "seen = None \<Longrightarrow> b = bk_new ops"
  shows "snd (Allow ops now key l) = snd (bk_allow ops now b)"
    "get (lm_limiters (fst (Allow ops now key l))) key = Some \<lparr>le_limiter = fst (bk_allow ops now b), le_lastAccess = now\<rparr>"
  using assms by (cases seen; simp add: Allow_def Let_def case_prod_unfold get_put)+

lemma cleanup_small:
  "length (lm_limiters l) \<le> lm_maxEntries l \<Longrightarrow>
   limiter_cleanup now l = l\<lparr>lm_limiters := del_if (\<lambda>k e. now - le_lastAccess e > lm_ttl l) (lm_limiters l)\<rparr>"
proof -
  assume "length (lm_limiters l) \<le> lm_maxEntries l"
  moreover have "length (del_if P m) \<le> length m" for P and m :: "(string, 'a limiter_entry) gomap"
    by (simp add: del_if_def)
  ultimately have "\<not> length (del_if (\<lambda>k e. now - le_lastAccess e > lm_ttl l) (lm_limiters l)) > lm_maxEntries l"
    by (meson le_trans not_le)
  then show ?thesis by (simp add: limiter_cleanup_def)
qed

lemma length_del_if_le: "length (del_if P m) \<le> length m"
  by (simp add: del_if_def)

lemma isolated:
  assumes "wf_map (lm_limiters l)" "length (lm_limiters l) + requests_in es \<le> lm_maxEntries l"
    and "get (lm_limiters l) key = map_option (\<lambda>t. \<lparr>le_limiter = b, le_lastAccess = t\<rparr>) seen"
    and "seen = None \<Longrightarrow> b = bk_new ops" "kept_alive key (lm_ttl l) seen es"
  shows "answers_to key (limiter_run ops es l) = bucket_run ops (times_of key es) b"
  using assms
proof (induction es arbitrary: l b seen)
  case Nil
  then show ?case by (simp add: answers_to_def times_of_def)
next
  case (Cons e es)
  obtain now op where e: "e = (now, op)" by (cases e)
  show ?case
  proof (cases op)
    case (Request k)
    let ?l = "fst (Allow ops now k l)"
    have room: "length (lm_limiters ?l) + requests_in es \<le> lm_maxEntries ?l"
      using Allow_size [of ops now k l] Cons.prems(2) by (simp add: requests_in_def e Request)
    have wf: "wf_map (lm_limiters ?l)" by (rule wf_Allow [OF Cons.prems(1)])
    show ?thesis
    proof (cases "k = key")
      case True
      note own = Allow_own [OF Cons.prems(3,4), of now]
      have "answers_to key (limiter_run ops es ?l) = bucket_run ops (times_of key es) (fst (bk_allow ops now b))"
        using Cons.IH [OF wf room, of _ "Some now"] own(2) Cons.prems(5) True by (simp add: e Request)
      then show ?thesis using own(1) True by (simp add: e Request answers_to_def times_of_def)
    next
      case False
      have "answers_to key (limiter_run ops es ?l) = bucket_run ops (times_of key es) b"
        using Cons.IH [OF wf room, of b seen] Cons.prems(3,4,5) False by (simp add: e Request Allow_other)
      then show ?thesis using False by (simp add: e Request answers_to_def times_of_def)
    qed
  next
    case Tick
    let ?l = "limiter_cleanup now l"
    have l: "?l = l\<lparr>lm_limiters := del_if (\<lambda>k e. now - le_lastAccess e > lm_ttl l) (lm_limiters l)\<rparr>"
      using Cons.prems(2) by (intro cleanup_small) simp
    have "length (lm_limiters ?l) + requests_in es \<le> lm_maxEntries ?l"
      using Cons.prems(2) length_del_if_le [of "\<lambda>k e. now - le_lastAccess e > lm_ttl l" "lm_limiters l"]
      by (simp add: l requests_in_def e Tick)
    moreover have "get (lm_limiters ?l) key = map_option (\<lambda>t. \<lparr>le_limiter = b, le_lastAccess = t\<rparr>) seen"
      using Cons.prems(1,3,5) by (auto simp: l e Tick get_del_if split: option.splits)
    moreover have "wf_map (lm_limiters ?l)" using Cons.prems(1) by (simp add: l wf_intros)
    moreover have "kept_alive key (lm_ttl ?l) seen es" using Cons.prems(5) by (simp add: l e Tick)
    ultimately have "answers_to key (limiter_run ops es ?l) = bucket_run ops (times_of key es) b"
      using Cons.IH Cons.prems(4) by blast
    then show ?thesis by (simp add: e Tick answers_to_def times_of_def)
  qed
qed

text \<open>The limiter is one bucket per client: in any run of at most 10000 requests from any clients, in which no
  cleanup finds a client idle for more than five minutes, a client gets exactly the answers that a bucket of its
  own, asked only at its own times, would give; what the others do never matters.\<close>

theorem clients_limited_independently:
  assumes "requests_in es \<le> 10000" "kept_alive key (5 * minute) None es"
  shows "answers_to key (limiter_run ops es (NewLimiter burst)) = bucket_run ops (times_of key es) (bk_new ops)"
  using isolated [of "NewLimiter burst" es key "bk_new ops" None ops] assms by (simp add: NewLimiter_def)

text \<open>A bucket of two tokens that gains one every second, in nanoseconds of credit.\<close>

definition demo_bucket :: "(gotime \<times> int) bucket_ops" where
  "demo_bucket = \<lparr>bk_new = (0, 2 * second),
     bk_allow = (\<lambda>now (t, credit). let c = min (2 * second) (credit + (now - t)) in
        if c \<ge> second then ((now, c - second), True) else ((now, c), False)),
     bk_tokens = (\<lambda>now (t, credit). min (2 * second) (credit + (now - t)) div second)\<rparr>"

lemma clients_limited_independently_witness:
  "let es = [(0, Request ''a''), (1, Request ''b''), (2, Request ''a''), (3, Request ''a''), (4, Tick),
             (5, Request ''b''), (second + 6, Request ''a'')]
   in answers_to ''a'' (limiter_run demo_bucket es (NewLimiter 2)) = [(0, True), (2, True), (3, False), (second + 6, True)]"
proof -
  let ?es = "[(0, Request ''a''), (1, Request ''b''), (2, Request ''a''), (3, Request ''a''), (4, Tick),
             (5, Request ''b''), (second + 6, Request ''a'')]"
  have "requests_in ?es \<le> 10000" "kept_alive ''a'' (5 * minute) None ?es"
    by (simp_all add: requests_in_def minute_def second_def)
  from clients_limited_independently [OF this, of demo_bucket 2]
  show ?thesis by (simp add: Let_def times_of_def demo_bucket_def second_def)
qed

end
