(* ===== verification/ApiKeys.thy ===== *)
theory ApiKeys
  imports Access
begin

text \<open>
  API keys: the \<open>api_keys\<close> table (\<open>internal/storage/storage.go\<close>), the pages that manage them
  (\<open>internal/handlers/apikey.go\<close>, \<open>cmd/nekzus/apikey_handlers.go\<close>), the middleware that checks them
  (\<open>internal/middleware/apikey.go\<close>) and its composition with the IP-based one (\<open>cmd/nekzus/routes.go\<close>).
  The hash of a key is an argument: nothing below depends on which function it is.
\<close>

record api_key =
  ak_ID :: string
  ak_Name :: string
  ak_KeyHash :: string
  ak_Prefix :: string
  ak_Scopes :: "string list"
  ak_ExpiresAt :: "gotime option"
  ak_LastUsedAt :: "gotime option"
  ak_CreatedAt :: gotime
  ak_CreatedBy :: string
  ak_RevokedAt :: "gotime option"

record api_key_request =
  kr_Name :: string
  kr_Scopes :: "string list"
  kr_ExpiresAt :: "gotime option"

type_synonym api_keys = "(string, api_key) gomap"

section \<open>The table\<close>

text \<open>The primary key is the ID, and the hash is unique.\<close>

definition CreateAPIKey :: "conn \<Rightarrow> api_keys \<Rightarrow> api_key \<Rightarrow> db_error + api_keys" where
  "CreateAPIKey c t k =
     (if \<not> cn_ok c then Inl DbFault
      else if has t (ak_ID k) \<or> list_ex (\<lambda>(i, r). ak_KeyHash r = ak_KeyHash k) t then Inl UniqueFailed
      else Inr (put (ak_ID k) k t))"

definition GetAPIKey :: "conn \<Rightarrow> api_keys \<Rightarrow> string \<Rightarrow> db_error + api_key option" where
  "GetAPIKey c t i = (if \<not> cn_ok c then Inl DbFault else Inr (get t i))"

definition GetAPIKeyByHash :: "conn \<Rightarrow> api_keys \<Rightarrow> string \<Rightarrow> db_error + api_key option" where
  "GetAPIKeyByHash c t h =
     (if \<not> cn_ok c then Inl DbFault
      else Inr (map_option snd (find (\<lambda>(i, r). ak_KeyHash r = h \<and> ak_RevokedAt r = None) t)))"

definition ListAPIKeys :: "conn \<Rightarrow> api_keys \<Rightarrow> db_error + api_key list" where
  "ListAPIKeys c t =
     (if \<not> cn_ok c then Inl DbFault else Inr (sort_key (\<lambda>r. - ak_CreatedAt r) (map snd t)))"

definition RevokeAPIKey :: "conn \<Rightarrow> api_keys \<Rightarrow> string \<Rightarrow> db_error + api_keys" where
  "RevokeAPIKey c t i =
     (if \<not> cn_ok c then Inl DbFault
      else if \<not> has t i then Inl NotFound
      else Inr (adjust i (\<lambda>r. r\<lparr>ak_RevokedAt := Some (cn_now c div second * second)\<rparr>) t))"

definition UpdateAPIKeyLastUsed :: "conn \<Rightarrow> api_keys \<Rightarrow> string \<Rightarrow> db_error + api_keys" where
  "UpdateAPIKeyLastUsed c t i =
     (if \<not> cn_ok c then Inl DbFault
      else Inr (adjust i (\<lambda>r. r\<lparr>ak_LastUsedAt := Some (cn_now c div second * second)\<rparr>) t))"

definition DeleteAPIKey :: "conn \<Rightarrow> api_keys \<Rightarrow> string \<Rightarrow> db_error + api_keys" where
  "DeleteAPIKey c t i =
     (if \<not> cn_ok c then Inl DbFault
      else if \<not> has t i then Inl NotFound
      else Inr (del i t))"

section \<open>The pages\<close>

datatype key_page =
    KeyError string int
  | KeyCreated api_key string
  | KeyList "api_key list"
  | KeyShown api_key
  | KeyRevoked

definition validScopes :: "string list" where
  "validScopes = [''read:catalog'', ''read:events'', ''read:*'', ''write:*'', ''access:admin'']"

definition validateAPIKeyRequest :: "gotime \<Rightarrow> api_key_request \<Rightarrow> string option" where
  "validateAPIKeyRequest now q =
     (if kr_Name q = [] then Some ''name is required''
      else if length (kr_Name q) > 255 then Some ''name too long (max 255 characters)''
      else if length (kr_Scopes q) = 0 then Some ''at least one scope is required''
      else case find (\<lambda>s. s \<notin> set validScopes) (kr_Scopes q) of
             Some s \<Rightarrow> Some (''invalid scope: '' @ s)
           | None \<Rightarrow>
               (if (case kr_ExpiresAt q of Some t \<Rightarrow> Before t now | None \<Rightarrow> False)
                then Some ''expiration must be in the future'' else None))"

text \<open>The random bytes of the key and of its identifier, in hexadecimal, are inputs; reading the former may fail.\<close>

definition generateAPIKey ::
  "(string \<Rightarrow> string) \<Rightarrow> gotime \<Rightarrow> string option \<Rightarrow> string \<Rightarrow> api_key_request \<Rightarrow> string \<Rightarrow> (api_key \<times> string) option" where
  "generateAPIKey hash now keyHex idHex q createdBy =
     (case keyHex of
        None \<Rightarrow> None
      | Some hex \<Rightarrow>
          (let plaintextKey = ''nekzus_'' @ hex in
           Some (\<lparr>ak_ID = ''key_'' @ idHex, ak_Name = kr_Name q, ak_KeyHash = hash plaintextKey,
                  ak_Prefix = take 8 plaintextKey, ak_Scopes = kr_Scopes q, ak_ExpiresAt = kr_ExpiresAt q,
                  ak_LastUsedAt = None, ak_CreatedAt = now, ak_CreatedBy = createdBy, ak_RevokedAt = None\<rparr>,
                 plaintextKey)))"

text \<open>A body that does not decode is \<open>None\<close>.\<close>

definition HandleCreateAPIKey ::
  "(string \<Rightarrow> string) \<Rightarrow> conn \<Rightarrow> gotime \<Rightarrow> string option \<Rightarrow> string \<Rightarrow> string \<Rightarrow> api_key_request option \<Rightarrow> api_keys
   \<Rightarrow> api_keys \<times> key_page" where
  "HandleCreateAPIKey hash c now keyHex idHex method body t =
     (if method \<noteq> ''POST'' then (t, KeyError ''METHOD_NOT_ALLOWED'' 405)
      else case body of
        None \<Rightarrow> (t, KeyError ''INVALID_REQUEST'' 400)
      | Some q \<Rightarrow>
          (case validateAPIKeyRequest now q of
             Some e \<Rightarrow> (t, KeyError ''VALIDATION_ERROR'' 400)
           | None \<Rightarrow>
               (case generateAPIKey hash now keyHex idHex q [] of
                  None \<Rightarrow> (t, KeyError ''GENERATION_ERROR'' 500)
                | Some (apiKey, plaintextKey) \<Rightarrow>
                    (case CreateAPIKey c t apiKey of
                       Inl e \<Rightarrow> (t, KeyError ''STORAGE_ERROR'' 500)
                     | Inr t' \<Rightarrow> (t', KeyCreated apiKey plaintextKey)))))"

definition HandleListAPIKeys :: "conn \<Rightarrow> string \<Rightarrow> api_keys \<Rightarrow> key_page" where
  "HandleListAPIKeys c method t =
     (if method \<noteq> ''GET'' then KeyError ''METHOD_NOT_ALLOWED'' 405
      else case ListAPIKeys c t of
             Inl e \<Rightarrow> KeyError ''APIKEY_LIST_FAILED'' 500
           | Inr ks \<Rightarrow> KeyList (map (\<lambda>k. k\<lparr>ak_KeyHash := []\<rparr>) ks))"

definition extractIDFromPath :: "string \<Rightarrow> string \<Rightarrow> string" where
  "extractIDFromPath path pre = (if \<not> HasPrefix path pre then [] else TrimPrefix path pre)"

definition HandleGetAPIKey :: "conn \<Rightarrow> string \<Rightarrow> string \<Rightarrow> api_keys \<Rightarrow> key_page" where
  "HandleGetAPIKey c method path t =
     (if method \<noteq> ''GET'' then KeyError ''METHOD_NOT_ALLOWED'' 405
      else
        (let keyID = extractIDFromPath path ''/api/v1/apikeys/'' in
         if keyID = [] then KeyError ''INVALID_REQUEST'' 400
         else case GetAPIKey c t keyID of
                Inl e \<Rightarrow> KeyError ''APIKEY_FETCH_FAILED'' 500
              | Inr None \<Rightarrow> KeyError ''NOT_FOUND'' 404
              | Inr (Some k) \<Rightarrow> KeyShown (k\<lparr>ak_KeyHash := []\<rparr>)))"

text \<open>The page recognises a missing key by the words ``not found'' in the error, which only that error has (the
  driver's messages are taken not to).\<close>

definition HandleRevokeAPIKey :: "conn \<Rightarrow> string \<Rightarrow> string \<Rightarrow> bool \<Rightarrow> api_keys \<Rightarrow> api_keys \<times> key_page" where
  "HandleRevokeAPIKey c method path permanent t =
     (if method \<noteq> ''DELETE'' then (t, KeyError ''METHOD_NOT_ALLOWED'' 405)
      else
        (let keyID = extractIDFromPath path ''/api/v1/apikeys/'' in
         if keyID = [] then (t, KeyError ''INVALID_REQUEST'' 400)
         else case (if permanent then DeleteAPIKey c t keyID else RevokeAPIKey c t keyID) of
                Inl NotFound \<Rightarrow> (t, KeyError ''NOT_FOUND'' 404)
              | Inl e \<Rightarrow> (t, KeyError ''APIKEY_REVOKE_FAILED'' 500)
              | Inr t' \<Rightarrow> (t', KeyRevoked)))"

section \<open>The middleware\<close>

definition extractAPIKey :: "request \<Rightarrow> string" where
  "extractAPIKey r =
     (let authHeader = header r ''Authorization'';
          token = TrimSpace (drop 7 authHeader);
          apiKey = header r ''X-API-Key''
      in if length authHeader > 7 \<and> HasPrefix authHeader ''Bearer '' \<and> HasPrefix token ''nekzus_'' then token
         else if apiKey \<noteq> [] then TrimSpace apiKey
         else [])"

text \<open>Denied, or passed on with the key the request showed, if any.\<close>

datatype key_outcome = KeyDeny int | KeyPass "api_key option"

definition NewAPIKeyAuth :: "(string \<Rightarrow> string) \<Rightarrow> gotime \<Rightarrow> (conn \<times> api_keys) option \<Rightarrow> request \<Rightarrow> key_outcome" where
  "NewAPIKeyAuth hash now store r =
     (let apiKeyStr = extractAPIKey r in
      if apiKeyStr = [] then KeyPass None
      else case store of
             None \<Rightarrow> KeyDeny 503
           | Some (c, t) \<Rightarrow>
               (case GetAPIKeyByHash c t (hash apiKeyStr) of
                  Inl e \<Rightarrow> KeyDeny 500
                | Inr None \<Rightarrow> KeyDeny 401
                | Inr (Some k) \<Rightarrow>
                    (if ak_RevokedAt k \<noteq> None then KeyDeny 401
                     else if (case ak_ExpiresAt k of Some t \<Rightarrow> Before t now | None \<Rightarrow> False) then KeyDeny 401
                     else KeyPass (Some k))))"

text \<open>What a valid key leaves behind, in the background.\<close>

definition key_used :: "conn \<Rightarrow> api_key \<Rightarrow> api_keys \<Rightarrow> api_keys" where
  "key_used c k t = (case UpdateAPIKeyLastUsed c t (ak_ID k) of Inl e \<Rightarrow> t | Inr t' \<Rightarrow> t')"

text \<open>\<open>combinedAuth\<close> of the routes: the API key check, then the IP-based one.\<close>

definition combinedAuth ::
  "(string \<Rightarrow> string) \<Rightarrow> jwt_parser \<Rightarrow> auth_manager \<Rightarrow> gotime \<Rightarrow> (conn \<times> api_keys) option \<Rightarrow> request \<Rightarrow> auth_outcome" where
  "combinedAuth hash jwt_parse m now store r =
     (case NewAPIKeyAuth hash now store r of
        KeyDeny code \<Rightarrow> Deny code
      | KeyPass k \<Rightarrow> NewIPBasedAuth jwt_parse m now r)"

section \<open>Runs\<close>

text \<open>The requests that change the table, each with its connection and time.\<close>

datatype key_op =
    CreateOp "string option" string "api_key_request option"
  | RevokeOp string bool
  | UseOp request

definition key_step :: "(string \<Rightarrow> string) \<Rightarrow> conn \<times> gotime \<times> key_op \<Rightarrow> api_keys \<Rightarrow> api_keys" where
  "key_step hash step t =
     (case step of (c, now, op) \<Rightarrow>
       (case op of
          CreateOp keyHex idHex body \<Rightarrow> fst (HandleCreateAPIKey hash c now keyHex idHex ''POST'' body t)
        | RevokeOp path permanent \<Rightarrow> fst (HandleRevokeAPIKey c ''DELETE'' path permanent t)
        | UseOp r \<Rightarrow> (case NewAPIKeyAuth hash now (Some (c, t)) r of
                       KeyPass (Some k) \<Rightarrow> key_used c k t
                     | _ \<Rightarrow> t)))"

definition key_run :: "(string \<Rightarrow> string) \<Rightarrow> (conn \<times> gotime \<times> key_op) list \<Rightarrow> api_keys \<Rightarrow> api_keys" where
  "key_run hash steps t = foldl (\<lambda>t s. key_step hash s t) t steps"

text \<open>The well-formed keys: what every row of the table satisfies.\<close>

definition wf_key :: "(string \<Rightarrow> string) \<Rightarrow> string \<Rightarrow> api_key \<Rightarrow> bool" where
  "wf_key hash i k \<longleftrightarrow> ak_ID k = i \<and> ak_Name k \<noteq> [] \<and> length (ak_Name k) \<le> 255 \<and> ak_Scopes k \<noteq> [] \<and>
     set (ak_Scopes k) \<subseteq> set validScopes \<and>
     (\<exists>hex. ak_KeyHash k = hash (''nekzus_'' @ hex) \<and> ak_Prefix k = take 8 (''nekzus_'' @ hex))"

definition wf_keys :: "(string \<Rightarrow> string) \<Rightarrow> api_keys \<Rightarrow> bool" where
  "wf_keys hash t \<longleftrightarrow> wf_map t \<and> (\<forall>(i, k) \<in> set t. wf_key hash i k) \<and> distinct (map (ak_KeyHash \<circ> snd) t)"

lemma adjust_hashes: "(\<And>k. ak_KeyHash (f k) = ak_KeyHash k) \<Longrightarrow> map (ak_KeyHash \<circ> snd) (adjust i f t) = map (ak_KeyHash \<circ> snd) t"
  by (induction t) (auto simp: adjust_def)

lemma adjust_keeps:
  assumes "wf_keys hash t" "\<And>k. ak_KeyHash (f k) = ak_KeyHash k" "\<And>i k. wf_key hash i k \<Longrightarrow> wf_key hash i (f k)"
  shows "wf_keys hash (adjust i f t)"
proof -
  have "\<forall>(j, k) \<in> set (adjust i f t). wf_key hash j k"
    using assms(1) by (auto simp: adjust_def wf_keys_def intro!: assms(3))
  then show ?thesis using assms(1) by (simp add: wf_keys_def adjust_hashes [OF assms(2)] wf_map_adjust)
qed

lemma del_keeps: "wf_keys hash t \<Longrightarrow> wf_keys hash (del i t)"
proof -
  assume w: "wf_keys hash t"
  have eq: "del i t = filter (\<lambda>r. i \<noteq> fst r) t" by (simp add: AList.delete_eq case_prod_unfold)
  have "distinct (map (ak_KeyHash \<circ> snd) (del i t))"
    using w unfolding eq wf_keys_def by (simp add: distinct_map_filter)
  then show ?thesis using w by (auto simp: wf_keys_def eq wf_map_def distinct_map_filter)
qed

lemma validated:
  assumes "validateAPIKeyRequest now q = None"
  shows "kr_Name q \<noteq> []" "length (kr_Name q) \<le> 255" "kr_Scopes q \<noteq> []" "set (kr_Scopes q) \<subseteq> set validScopes"
  using assms by (auto simp: validateAPIKeyRequest_def find_None_iff split: if_splits option.splits)

lemma CreateAPIKey_new:
  assumes "CreateAPIKey c t k = Inr t'"
  shows "t' = t @ [(ak_ID k, k)]" "ak_ID k \<notin> fst ` set t" "\<forall>r \<in> snd ` set t. ak_KeyHash r \<noteq> ak_KeyHash k"
proof -
  have new: "\<not> has t (ak_ID k)" "\<forall>r \<in> snd ` set t. ak_KeyHash r \<noteq> ak_KeyHash k" "t' = put (ak_ID k) k t"
    using assms by (auto simp: CreateAPIKey_def list_ex_iff split: if_splits)
  show "t' = t @ [(ak_ID k, k)]" using new(3) put_new [OF new(1)] by simp
  show "ak_ID k \<notin> fst ` set t" using new(1) by (simp add: has_def map_of_eq_None_iff)
  show "\<forall>r \<in> snd ` set t. ak_KeyHash r \<noteq> ak_KeyHash k" by (rule new(2))
qed

lemma HandleCreate_created:
  assumes "HandleCreateAPIKey hash c now keyHex idHex m body t = (t', KeyCreated k plain)"
  obtains q hex where "body = Some q" "validateAPIKeyRequest now q = None" "keyHex = Some hex" "plain = ''nekzus_'' @ hex"
    "k = \<lparr>ak_ID = ''key_'' @ idHex, ak_Name = kr_Name q, ak_KeyHash = hash plain,
       ak_Prefix = take 8 plain, ak_Scopes = kr_Scopes q, ak_ExpiresAt = kr_ExpiresAt q,
       ak_LastUsedAt = None, ak_CreatedAt = now, ak_CreatedBy = [], ak_RevokedAt = None\<rparr>" "CreateAPIKey c t k = Inr t'"
proof -
  obtain q where q: "body = Some q" "validateAPIKeyRequest now q = None"
    and g: "generateAPIKey hash now keyHex idHex q [] = Some (k, plain)" and cr: "CreateAPIKey c t k = Inr t'"
    using assms by (auto simp: HandleCreateAPIKey_def split: if_splits option.splits sum.splits)
  then show ?thesis using that by (auto simp: generateAPIKey_def Let_def split: option.splits)
qed

lemma HandleCreate_unchanged:
  "(\<nexists>k plain. snd (HandleCreateAPIKey hash c now keyHex idHex m body t) = KeyCreated k plain) \<Longrightarrow>
   fst (HandleCreateAPIKey hash c now keyHex idHex m body t) = t"
  by (auto simp: HandleCreateAPIKey_def split: if_splits option.splits sum.splits)

lemma HandleCreate_keeps:
  assumes "wf_keys hash t"
  shows "wf_keys hash (fst (HandleCreateAPIKey hash c now keyHex idHex m body t))"
proof (cases "\<exists>k plain. snd (HandleCreateAPIKey hash c now keyHex idHex m body t) = KeyCreated k plain")
  case False
  then show ?thesis using assms HandleCreate_unchanged by metis
next
  case True
  then obtain t' k plain where r: "HandleCreateAPIKey hash c now keyHex idHex m body t = (t', KeyCreated k plain)"
    by (metis prod.collapse)
  obtain q hex where q: "validateAPIKeyRequest now q = None" and plain: "plain = ''nekzus_'' @ hex"
    and k: "k = \<lparr>ak_ID = ''key_'' @ idHex, ak_Name = kr_Name q, ak_KeyHash = hash plain,
       ak_Prefix = take 8 plain, ak_Scopes = kr_Scopes q, ak_ExpiresAt = kr_ExpiresAt q,
       ak_LastUsedAt = None, ak_CreatedAt = now, ak_CreatedBy = [], ak_RevokedAt = None\<rparr>" and cr: "CreateAPIKey c t k = Inr t'"
    by (rule HandleCreate_created [OF r])
  have "wf_key hash (ak_ID k) k" unfolding wf_key_def using validated [OF q] plain
    by (simp only: k api_key.simps) blast
  then show ?thesis using assms CreateAPIKey_new [OF cr] unfolding r fst_conv by (auto simp: wf_keys_def wf_map_def)
qed

lemma HandleRevoke_cases:
  "fst (HandleRevokeAPIKey c m path permanent t) \<in>
     {t, del (extractIDFromPath path ''/api/v1/apikeys/'') t,
      adjust (extractIDFromPath path ''/api/v1/apikeys/'') (\<lambda>r. r\<lparr>ak_RevokedAt := Some (cn_now c div second * second)\<rparr>) t}"
  by (auto simp: HandleRevokeAPIKey_def DeleteAPIKey_def RevokeAPIKey_def Let_def split: sum.splits db_error.splits)

lemma key_used_cases:
  "key_used c k t \<in> {t, adjust (ak_ID k) (\<lambda>r. r\<lparr>ak_LastUsedAt := Some (cn_now c div second * second)\<rparr>) t}"
  by (simp add: key_used_def UpdateAPIKeyLastUsed_def)

lemma key_step_keeps:
  assumes "wf_keys hash t"
  shows "wf_keys hash (key_step hash s t)"
proof -
  obtain c now op where s: "s = (c, now, op)" by (cases s)
  show ?thesis
  proof (cases op)
    case (CreateOp keyHex idHex body)
    then show ?thesis using HandleCreate_keeps [OF assms] by (simp add: s key_step_def)
  next
    case (RevokeOp path permanent)
    have "wf_keys hash (adjust i (\<lambda>r. r\<lparr>ak_RevokedAt := x\<rparr>) t)" for i x
      by (rule adjust_keeps [OF assms]) (simp_all add: wf_key_def)
    then show ?thesis using HandleRevoke_cases [of c "''DELETE''" path permanent t] assms del_keeps [OF assms]
      by (auto simp: s RevokeOp key_step_def)
  next
    case (UseOp r)
    have "wf_keys hash (adjust i (\<lambda>r. r\<lparr>ak_LastUsedAt := x\<rparr>) t)" for i x
      by (rule adjust_keeps [OF assms]) (simp_all add: wf_key_def)
    then have "wf_keys hash (key_used c k t)" for k using key_used_cases [of c k t] assms by auto
    then show ?thesis using assms by (simp add: s UseOp key_step_def split: key_outcome.split option.split)
  qed
qed

lemma key_run_keeps: "wf_keys hash t \<Longrightarrow> wf_keys hash (key_run hash steps t)"
  unfolding key_run_def by (induction steps arbitrary: t) (simp_all add: key_step_keeps)

lemma api_keys_wf: "wf_keys hash (key_run hash steps [])"
  by (rule key_run_keeps) (simp add: wf_keys_def)

text \<open>C15: Whatever is requested of the pages and whoever shows keys, every stored key is well formed: it has a name
  of at most 255 bytes, at least one scope, only scopes of the fixed list, the hash and the prefix of a generated
  key, and no two rows share an ID or a hash.\<close>

theorem api_keys_well_formed: "wf_keys hash (key_run hash steps [])"
  by (rule api_keys_wf)

section \<open>A created key works until it is revoked\<close>

text \<open>The row of a key that is neither revoked nor deleted.\<close>

definition live_row :: "api_key \<Rightarrow> api_keys \<Rightarrow> bool" where
  "live_row k t \<longleftrightarrow> (\<exists>u. (ak_ID k, k\<lparr>ak_LastUsedAt := u\<rparr>) \<in> set t)"

definition spares :: "string \<Rightarrow> conn \<times> gotime \<times> key_op \<Rightarrow> bool" where
  "spares i s \<longleftrightarrow> (case s of (c, now, RevokeOp path permanent) \<Rightarrow> extractIDFromPath path ''/api/v1/apikeys/'' \<noteq> i | _ \<Rightarrow> True)"

lemma live_adjust_other: "live_row k t \<Longrightarrow> i \<noteq> ak_ID k \<Longrightarrow> live_row k (adjust i f t)"
  by (force simp: live_row_def adjust_def)

lemma live_adjust_used:
  assumes "live_row k t"
  shows "live_row k (adjust i (\<lambda>r. r\<lparr>ak_LastUsedAt := x\<rparr>) t)"
proof -
  obtain u where u: "(ak_ID k, k\<lparr>ak_LastUsedAt := u\<rparr>) \<in> set t" using assms by (auto simp: live_row_def)
  then have "(ak_ID k, if ak_ID k = i then (k\<lparr>ak_LastUsedAt := u\<rparr>)\<lparr>ak_LastUsedAt := x\<rparr> else k\<lparr>ak_LastUsedAt := u\<rparr>)
      \<in> set (adjust i (\<lambda>r. r\<lparr>ak_LastUsedAt := x\<rparr>) t)" by (force simp: adjust_def)
  then show ?thesis by (auto simp: live_row_def split: if_splits)
qed

lemma live_del_other: "live_row k t \<Longrightarrow> i \<noteq> ak_ID k \<Longrightarrow> live_row k (del i t)"
  by (auto simp: live_row_def AList.delete_eq)

lemma HandleCreate_grows:
  "fst (HandleCreateAPIKey hash c now keyHex idHex m body t) = t \<or>
   (\<exists>k. fst (HandleCreateAPIKey hash c now keyHex idHex m body t) = t @ [(ak_ID k, k)]
      \<and> (\<exists>hex. keyHex = Some hex \<and> ak_KeyHash k = hash (''nekzus_'' @ hex)))"
proof (cases "\<exists>k plain. snd (HandleCreateAPIKey hash c now keyHex idHex m body t) = KeyCreated k plain")
  case False
  then show ?thesis using HandleCreate_unchanged by blast
next
  case True
  then obtain t' k plain where r: "HandleCreateAPIKey hash c now keyHex idHex m body t = (t', KeyCreated k plain)"
    by (metis prod.collapse)
  obtain hex where "keyHex = Some hex" "ak_KeyHash k = hash (''nekzus_'' @ hex)" "CreateAPIKey c t k = Inr t'"
    by (rule HandleCreate_created [OF r]) simp
  then show ?thesis using CreateAPIKey_new(1) r by fastforce
qed

lemma live_step:
  assumes "live_row k t" "spares (ak_ID k) s"
  shows "live_row k (key_step hash s t)"
proof -
  obtain c now op where s: "s = (c, now, op)" by (cases s)
  show ?thesis
  proof (cases op)
    case (CreateOp keyHex idHex body)
    then show ?thesis using assms(1) HandleCreate_grows [of hash c now keyHex idHex "''POST''" body t]
      by (auto simp: s key_step_def live_row_def)
  next
    case (RevokeOp path permanent)
    then have "extractIDFromPath path ''/api/v1/apikeys/'' \<noteq> ak_ID k" using assms(2) by (simp add: s spares_def)
    note o = live_adjust_other [OF assms(1) this] live_del_other [OF assms(1) this]
    show ?thesis using HandleRevoke_cases [of c "''DELETE''" path permanent t] assms(1) o
      by (auto simp: s RevokeOp key_step_def)
  next
    case (UseOp r)
    have "live_row k (key_used c x t)" for x
      using key_used_cases [of c x t] assms(1) live_adjust_used [OF assms(1)] by auto
    then show ?thesis using assms(1) by (simp add: s UseOp key_step_def split: key_outcome.split option.split)
  qed
qed

lemma live_key_run: "live_row k t \<Longrightarrow> \<forall>s \<in> set steps. spares (ak_ID k) s \<Longrightarrow> live_row k (key_run hash steps t)"
  unfolding key_run_def by (induction steps arbitrary: t) (simp_all add: live_step)

lemma same_hash_same_row:
  "wf_keys hash t \<Longrightarrow> x \<in> set t \<Longrightarrow> y \<in> set t \<Longrightarrow> ak_KeyHash (snd x) = ak_KeyHash (snd y) \<Longrightarrow> x = y"
  using inj_onD [of "ak_KeyHash \<circ> snd" "set t" x y] by (simp add: wf_keys_def distinct_map)

lemma live_found:
  assumes "live_row k t" "wf_keys hash t" "ak_RevokedAt k = None" "cn_ok c"
  shows "\<exists>u. GetAPIKeyByHash c t (ak_KeyHash k) = Inr (Some (k\<lparr>ak_LastUsedAt := u\<rparr>))"
proof -
  obtain u where u: "(ak_ID k, k\<lparr>ak_LastUsedAt := u\<rparr>) \<in> set t" using assms(1) by (auto simp: live_row_def)
  let ?P = "\<lambda>(i, r). ak_KeyHash r = ak_KeyHash k \<and> ak_RevokedAt r = None"
  have "?P (ak_ID k, k\<lparr>ak_LastUsedAt := u\<rparr>)" using assms(3) by simp
  then have "find ?P t \<noteq> None" using u by (metis find_None_iff)
  then obtain x where x: "find ?P t = Some x" by blast
  then have "x \<in> set t" "ak_KeyHash (snd x) = ak_KeyHash k" by (auto simp: find_Some_iff in_set_conv_nth)
  then have "x = (ak_ID k, k\<lparr>ak_LastUsedAt := u\<rparr>)" using same_hash_same_row [OF assms(2) _ u] by simp
  then show ?thesis using x assms(4) by (auto simp: GetAPIKeyByHash_def)
qed

text \<open>C16: The key shown once on creation authenticates, with the scopes it was created with, through any later run
  in which its own ID is not revoked, until it expires; a request may show it as a bearer token or in its own
  header.\<close>

theorem created_key_authenticates:
  assumes "HandleCreateAPIKey hash c now keyHex idHex ''POST'' body (key_run hash before []) = (t, KeyCreated k plain)"
    and "\<forall>s \<in> set steps. spares (ak_ID k) s" "cn_ok c'" "extractAPIKey r = plain"
  shows "NewAPIKeyAuth hash now' (Some (c', key_run hash steps t)) r =
     KeyDeny 401 \<and> (\<exists>e. ak_ExpiresAt k = Some e \<and> e < now') \<or>
   (\<exists>u. NewAPIKeyAuth hash now' (Some (c', key_run hash steps t)) r = KeyPass (Some (k\<lparr>ak_LastUsedAt := u\<rparr>)))
     \<and> (\<forall>e. ak_ExpiresAt k = Some e \<longrightarrow> now' \<le> e)"
proof -
  let ?b = "key_run hash before []"
  have cr: "CreateAPIKey c ?b k = Inr t" and k: "ak_KeyHash k = hash plain" "ak_RevokedAt k = None" "plain \<noteq> []"
    by (rule HandleCreate_created [OF assms(1)], simp)+
  have w: "wf_keys hash t" using HandleCreate_keeps [OF api_keys_wf, of hash c now keyHex idHex "''POST''" body before] assms(1)
    by simp
  have "t = ?b @ [(ak_ID k, k)]" by (rule CreateAPIKey_new(1) [OF cr])
  then have "live_row k t" by (auto simp: live_row_def intro!: exI [of _ "ak_LastUsedAt k"])
  from live_found [OF live_key_run [OF this assms(2)] key_run_keeps [OF w] k(2) assms(3)]
  obtain u where "GetAPIKeyByHash c' (key_run hash steps t) (hash plain) = Inr (Some (k\<lparr>ak_LastUsedAt := u\<rparr>))"
    using k(1) by auto
  then show ?thesis using k assms(4) by (auto simp: NewAPIKeyAuth_def Let_def not_less split: option.splits)
qed

definition demo_conn_key :: conn where
  "demo_conn_key = \<lparr>cn_ok = True, cn_fk = False, cn_now = 7 * second\<rparr>"

definition demo_key_request :: api_key_request where
  "demo_key_request = \<lparr>kr_Name = ''ci'', kr_Scopes = [''read:events''], kr_ExpiresAt = Some 50\<rparr>"

definition demo_key_http :: request where
  "demo_key_http = \<lparr>rq_Method = ''POST'', rq_Host = ''n'', rq_Path = ''/'', rq_RawPath = ''/'', rq_RemoteAddr = ''1.2.3.4:5'',
     rq_TLS = True, rq_Header = [(''X-API-Key'', ''nekzus_ab'')], rq_deviceID = []\<rparr>"

lemma created_key_authenticates_witness:
  "\<exists>t k. HandleCreateAPIKey (\<lambda>s. ''#'' @ s) demo_conn_key 5 (Some ''ab'') ''1'' ''POST'' (Some demo_key_request) [] = (t, KeyCreated k ''nekzus_ab'') \<and>
     (\<exists>u. NewAPIKeyAuth (\<lambda>s. ''#'' @ s) 49 (Some (demo_conn_key,
        key_run (\<lambda>s. ''#'' @ s) [(demo_conn_key, 6, RevokeOp ''/api/v1/apikeys/key_2'' False), (demo_conn_key, 6, UseOp demo_key_http)] t))
        demo_key_http = KeyPass (Some (k\<lparr>ak_LastUsedAt := u\<rparr>)))"
proof -
  let ?h = "\<lambda>s. ''#'' @ s"
  let ?r = "HandleCreateAPIKey ?h demo_conn_key 5 (Some ''ab'') ''1'' ''POST'' (Some demo_key_request) (key_run ?h [] [])"
  let ?k = "\<lparr>ak_ID = ''key_1'', ak_Name = ''ci'', ak_KeyHash = ''#nekzus_ab'', ak_Prefix = ''nekzus_a'', ak_Scopes = [''read:events''],
     ak_ExpiresAt = Some 50, ak_LastUsedAt = None, ak_CreatedAt = 5, ak_CreatedBy = [], ak_RevokedAt = None\<rparr>"
  let ?steps = "[(demo_conn_key, 6, RevokeOp ''/api/v1/apikeys/key_2'' False), (demo_conn_key, 6, UseOp demo_key_http)]"
  have r: "?r = (fst ?r, KeyCreated ?k ''nekzus_ab'')" by code_simp
  have "\<forall>s \<in> set ?steps. spares (ak_ID ?k) s" by code_simp
  moreover have "cn_ok demo_conn_key" by (simp add: demo_conn_key_def)
  moreover have "extractAPIKey demo_key_http = ''nekzus_ab''" by code_simp
  ultimately have u: "\<exists>u. NewAPIKeyAuth ?h 49 (Some (demo_conn_key, key_run ?h ?steps (fst ?r))) demo_key_http
      = KeyPass (Some (?k\<lparr>ak_LastUsedAt := u\<rparr>))"
    using created_key_authenticates [OF r, of ?steps demo_conn_key demo_key_http 49] by auto
  have "key_run ?h [] [] = []" by (simp add: key_run_def)
  then show ?thesis using u r by metis
qed

section \<open>A revoked key stays out\<close>

definition no_live :: "string \<Rightarrow> api_keys \<Rightarrow> bool" where
  "no_live h t \<longleftrightarrow> (\<forall>k \<in> snd ` set t. ak_KeyHash k = h \<longrightarrow> ak_RevokedAt k \<noteq> None)"

text \<open>The step does not create a key with the same hash.\<close>

definition fresh_hash :: "(string \<Rightarrow> string) \<Rightarrow> string \<Rightarrow> conn \<times> gotime \<times> key_op \<Rightarrow> bool" where
  "fresh_hash hash h s \<longleftrightarrow> (case s of (c, now, CreateOp (Some hex) idHex body) \<Rightarrow> hash (''nekzus_'' @ hex) \<noteq> h | _ \<Rightarrow> True)"

lemma no_live_adjust:
  "no_live h t \<Longrightarrow> (\<And>k. ak_KeyHash (f k) = ak_KeyHash k) \<Longrightarrow> (\<And>k. ak_RevokedAt k \<noteq> None \<Longrightarrow> ak_RevokedAt (f k) \<noteq> None) \<Longrightarrow>
   no_live h (adjust i f t)"
  by (fastforce simp: no_live_def adjust_def)

lemma no_live_del: "no_live h t \<Longrightarrow> no_live h (del i t)"
  by (auto simp: no_live_def AList.delete_eq)

lemma no_live_step:
  assumes "no_live h t" "fresh_hash hash h s"
  shows "no_live h (key_step hash s t)"
proof -
  obtain c now op where s: "s = (c, now, op)" by (cases s)
  show ?thesis
  proof (cases op)
    case (CreateOp keyHex idHex body)
    then show ?thesis using assms HandleCreate_grows [of hash c now keyHex idHex "''POST''" body t]
      by (auto simp: s key_step_def no_live_def fresh_hash_def)
  next
    case (RevokeOp path permanent)
    have "no_live h (adjust i (\<lambda>r. r\<lparr>ak_RevokedAt := Some x\<rparr>) t)" for i x by (rule no_live_adjust [OF assms(1)]) simp_all
    then show ?thesis using HandleRevoke_cases [of c "''DELETE''" path permanent t] assms(1) no_live_del [OF assms(1)]
      by (auto simp: s RevokeOp key_step_def)
  next
    case (UseOp r)
    have "no_live h (adjust i (\<lambda>r. r\<lparr>ak_LastUsedAt := x\<rparr>) t)" for i x by (rule no_live_adjust [OF assms(1)]) simp_all
    then have "no_live h (key_used c x t)" for x using key_used_cases [of c x t] assms(1) by auto
    then show ?thesis using assms(1) by (simp add: s UseOp key_step_def split: key_outcome.split option.split)
  qed
qed

lemma no_live_run: "no_live h t \<Longrightarrow> \<forall>s \<in> set steps. fresh_hash hash h s \<Longrightarrow> no_live h (key_run hash steps t)"
  unfolding key_run_def by (induction steps arbitrary: t) (simp_all add: no_live_step)

lemma revoked_no_live:
  assumes "wf_keys hash t" "get t i = Some k" "HandleRevokeAPIKey c ''DELETE'' path permanent t = (t', KeyRevoked)"
    and "extractIDFromPath path ''/api/v1/apikeys/'' = i"
  shows "no_live (ak_KeyHash k) t'"
proof -
  have only: "(j, x) \<in> set t \<Longrightarrow> ak_KeyHash x = ak_KeyHash k \<Longrightarrow> j = i" for j x
    using same_hash_same_row [OF assms(1) _ map_of_SomeD [OF assms(2)], of "(j, x)"] by simp
  have "t' = del i t \<or> (\<exists>x. t' = adjust i (\<lambda>r. r\<lparr>ak_RevokedAt := Some x\<rparr>) t)"
    using assms(3,4) by (auto simp: HandleRevokeAPIKey_def DeleteAPIKey_def RevokeAPIKey_def split: if_splits)
  then show ?thesis using only by (fastforce simp: no_live_def AList.delete_eq adjust_def)
qed

text \<open>C17: Once the revocation page has answered with success, whether it revoked or deleted the key, no request
  that shows the key is let through again, whatever happens later, as long as no newly generated key has the same
  hash.\<close>

theorem revoked_key_stays_out:
  assumes "get (key_run hash before []) i = Some k" "ak_KeyHash k = hash (extractAPIKey r)"
    and "HandleRevokeAPIKey c ''DELETE'' path permanent (key_run hash before []) = (t, KeyRevoked)"
    and "extractIDFromPath path ''/api/v1/apikeys/'' = i" "\<forall>s \<in> set steps. fresh_hash hash (ak_KeyHash k) s"
    and "cn_ok c'" "extractAPIKey r \<noteq> []"
  shows "NewAPIKeyAuth hash now (Some (c', key_run hash steps t)) r = KeyDeny 401"
proof -
  have "no_live (ak_KeyHash k) (key_run hash steps t)"
    by (rule no_live_run [OF revoked_no_live [OF api_keys_wf assms(1,3,4)] assms(5)])
  then have "find (\<lambda>(i, x). ak_KeyHash x = ak_KeyHash k \<and> ak_RevokedAt x = None) (key_run hash steps t) = None"
    by (fastforce simp: no_live_def find_None_iff)
  then have "GetAPIKeyByHash c' (key_run hash steps t) (hash (extractAPIKey r)) = Inr None"
    using assms(2,6) by (simp add: GetAPIKeyByHash_def)
  then show ?thesis using assms(7) by (simp add: NewAPIKeyAuth_def Let_def)
qed

lemma revoked_key_stays_out_witness:
  "\<exists>t. HandleRevokeAPIKey demo_conn_key ''DELETE'' ''/api/v1/apikeys/key_1'' False
     (key_run (\<lambda>s. ''#'' @ s) [(demo_conn_key, 5, CreateOp (Some ''ab'') ''1'' (Some demo_key_request))] []) = (t, KeyRevoked) \<and>
   NewAPIKeyAuth (\<lambda>s. ''#'' @ s) 9 (Some (demo_conn_key,
     key_run (\<lambda>s. ''#'' @ s) [(demo_conn_key, 8, CreateOp (Some ''cd'') ''2'' (Some demo_key_request))] t)) demo_key_http = KeyDeny 401"
proof -
  let ?h = "\<lambda>s. ''#'' @ s"
  let ?b = "[(demo_conn_key, 5, CreateOp (Some ''ab'') ''1'' (Some demo_key_request))]"
  let ?s = "[(demo_conn_key, 8, CreateOp (Some ''cd'') ''2'' (Some demo_key_request))]"
  let ?k = "\<lparr>ak_ID = ''key_1'', ak_Name = ''ci'', ak_KeyHash = ''#nekzus_ab'', ak_Prefix = ''nekzus_a'', ak_Scopes = [''read:events''],
     ak_ExpiresAt = Some 50, ak_LastUsedAt = None, ak_CreatedAt = 5, ak_CreatedBy = [], ak_RevokedAt = None\<rparr>"
  let ?r = "HandleRevokeAPIKey demo_conn_key ''DELETE'' ''/api/v1/apikeys/key_1'' False (key_run ?h ?b [])"
  have g: "get (key_run ?h ?b []) ''key_1'' = Some ?k" by code_simp
  have r: "?r = (fst ?r, KeyRevoked)" by code_simp
  have e: "extractAPIKey demo_key_http = ''nekzus_ab''" by code_simp
  have i: "extractIDFromPath ''/api/v1/apikeys/key_1'' ''/api/v1/apikeys/'' = ''key_1''" by code_simp
  have f: "\<forall>s \<in> set ?s. fresh_hash ?h (ak_KeyHash ?k) s" by code_simp
  have "NewAPIKeyAuth ?h 9 (Some (demo_conn_key, key_run ?h ?s (fst ?r))) demo_key_http = KeyDeny 401"
    by (rule revoked_key_stays_out [OF g _ r i f]) (simp_all add: e demo_conn_key_def)
  then show ?thesis using r by blast
qed

section \<open>What a key is good for\<close>

text \<open>On the webhook routes an API key alone opens nothing: a request from elsewhere that carries no acceptable
  token of a device is refused whether or not its key is valid, and a local one is let through without any key;
  a key can only make a difference by being wrong.\<close>

theorem combinedAuth_needs_token:
  "combinedAuth hash jwt_parse m now store r =
     (case NewAPIKeyAuth hash now store r of KeyDeny code \<Rightarrow> Deny code | KeyPass k \<Rightarrow> NewIPBasedAuth jwt_parse m now r)
   \<and> (\<not> isLocalRequest (rq_RemoteAddr r) \<and> (\<forall>c. ParseJWT jwt_parse m now (ExtractBearerToken r) \<noteq> Inr c)
       \<longrightarrow> (\<exists>code. combinedAuth hash jwt_parse m now store r = Deny code))
   \<and> (extractAPIKey r = [] \<longrightarrow> combinedAuth hash jwt_parse m now store r = NewIPBasedAuth jwt_parse m now r)"
  by (auto simp: combinedAuth_def NewIPBasedAuth_def NewAPIKeyAuth_def Let_def split: key_outcome.split sum.split)

lemma combinedAuth_needs_token_witness:
  "NewAPIKeyAuth (\<lambda>s. ''#'' @ s) 9 (Some (demo_conn_key,
     key_run (\<lambda>s. ''#'' @ s) [(demo_conn_key, 5, CreateOp (Some ''ab'') ''1'' (Some demo_key_request))] [])) demo_key_http \<noteq> KeyDeny 401 \<and>
   (\<exists>code. combinedAuth (\<lambda>s. ''#'' @ s) (\<lambda>_ _ _ _. Inl []) demo_manager 9 (Some (demo_conn_key,
     key_run (\<lambda>s. ''#'' @ s) [(demo_conn_key, 5, CreateOp (Some ''ab'') ''1'' (Some demo_key_request))] [])) demo_key_http = Deny code)"
proof
  let ?t = "key_run (\<lambda>s. ''#'' @ s) [(demo_conn_key, 5, CreateOp (Some ''ab'') ''1'' (Some demo_key_request))] []"
  have "case NewAPIKeyAuth (\<lambda>s. ''#'' @ s) 9 (Some (demo_conn_key, ?t)) demo_key_http of KeyPass (Some k) \<Rightarrow> True | _ \<Rightarrow> False" by code_simp
  then show "NewAPIKeyAuth (\<lambda>s. ''#'' @ s) 9 (Some (demo_conn_key, ?t)) demo_key_http \<noteq> KeyDeny 401" by auto
  have "\<not> isLocalRequest (rq_RemoteAddr demo_key_http)" by code_simp
  moreover have "\<forall>c. ParseJWT (\<lambda>_ _ _ _. Inl []) demo_manager 9 (ExtractBearerToken demo_key_http) \<noteq> Inr c"
    by (simp add: ParseJWT_def)
  ultimately show "\<exists>code. combinedAuth (\<lambda>s. ''#'' @ s) (\<lambda>_ _ _ _. Inl []) demo_manager 9 (Some (demo_conn_key, ?t)) demo_key_http = Deny code"
    using combinedAuth_needs_token [of "\<lambda>s. ''#'' @ s" "\<lambda>_ _ _ _. Inl []" demo_manager 9 "Some (demo_conn_key, ?t)" demo_key_http] by blast
qed

end
