(* ===== verification/Cookies.thy ===== *)
theory Cookies
  imports Access Numbers "HOL-Library.Product_Lexorder"
begin

text \<open>
  Cookies of the backends: the rewriting of \<open>Set-Cookie\<close> headers (\<open>internal/proxy/cookie.go\<close>), and the
  session cookies kept for the mobile app: their table (\<open>internal/storage/proxy_cookies.go\<close>), their encryption
  (\<open>internal/crypto/cookie_crypto.go\<close>), capture and replay (\<open>internal/proxy/session_cookies.go\<close>) and the pages
  that list and clear them (\<open>internal/handlers/session_cookies.go\<close>).  AES-GCM is an argument; \<open>net/http\<close> is
  modelled as far as the code uses it, with the parser of dates an argument.
\<close>

section \<open>Rewriting headers\<close>

definition rewritePath :: "string \<Rightarrow> string \<Rightarrow> string" where
  "rewritePath cookiePath pathPrefix0 =
     (if cookiePath = ''/'' then pathPrefix0
      else
        (let pathPrefix = (if \<not> HasSuffix pathPrefix0 ''/'' then pathPrefix0 @ ''/'' else pathPrefix0)
         in pathPrefix @ TrimPrefix cookiePath ''/''))"

text \<open>\<open>map_attributes\<close> is the loop both rewritings share: the attributes after the name and value, trimmed, those
  that start with the given text replaced.\<close>

definition map_attributes :: "string \<Rightarrow> (string \<Rightarrow> string) \<Rightarrow> string \<Rightarrow> string" where
  "map_attributes attr f cookieHeader =
     (let parts = Split (CHR '';'') cookieHeader in
      Join '';'' (hd parts # map (\<lambda>part.
        (let trimmed = TrimSpace part in
         if HasPrefix (ToLower trimmed) attr then f (drop (length attr) trimmed) else '' '' @ trimmed)) (tl parts)))"

definition rewriteCookiePath :: "string \<Rightarrow> string \<Rightarrow> string" where
  "rewriteCookiePath cookieHeader pathPrefix =
     map_attributes ''path='' (\<lambda>pathValue. '' Path='' @ rewritePath pathValue pathPrefix) cookieHeader"

text \<open>Whatever the domain was, it becomes the proxy's.\<close>

definition rewriteCookieDomain :: "string \<Rightarrow> string \<Rightarrow> string" where
  "rewriteCookieDomain cookieHeader proxyHost =
     map_attributes ''domain='' (\<lambda>domainValue. '' Domain='' @ proxyHost) cookieHeader"

section \<open>Parsing and sending cookies\<close>

datatype same_site = SameSiteDefault | SameSiteLax | SameSiteStrict | SameSiteNone

text \<open>The zero \<open>Expires\<close> is \<open>None\<close>; the zero \<open>SameSite\<close> counts as default.\<close>

record cookie =
  ck_Name :: string
  ck_Value :: string
  ck_Path :: string
  ck_Domain :: string
  ck_Expires :: "gotime option"
  ck_MaxAge :: int
  ck_Secure :: bool
  ck_HttpOnly :: bool
  ck_SameSite :: same_site

definition ascii_space :: "char \<Rightarrow> bool" where
  "ascii_space c \<longleftrightarrow> (of_char c :: nat) \<in> {32, 9, 10, 13}"

definition TrimString :: "string \<Rightarrow> string" where
  "TrimString s = rev (dropWhile ascii_space (rev (dropWhile ascii_space s)))"

definition token_char :: "char \<Rightarrow> bool" where
  "token_char c \<longleftrightarrow> (let n = (of_char c :: nat) in
     (48 \<le> n \<and> n \<le> 57) \<or> (65 \<le> n \<and> n \<le> 90) \<or> (97 \<le> n \<and> n \<le> 122) \<or> c \<in> set ''!#$%&'' \<or> n = 39 \<or> c \<in> set ''*+-.^_|~'' \<or> n = 96)"

definition isToken :: "string \<Rightarrow> bool" where
  "isToken s \<longleftrightarrow> s \<noteq> [] \<and> list_all token_char s"

definition validCookieValueByte :: "char \<Rightarrow> bool" where
  "validCookieValueByte c \<longleftrightarrow> (let n = (of_char c :: nat) in 32 \<le> n \<and> n < 127 \<and> n \<noteq> 34 \<and> n \<noteq> 59 \<and> n \<noteq> 92)"

definition strip_quotes :: "string \<Rightarrow> string" where
  "strip_quotes s =
     (if length s > 1 \<and> (of_char (hd s) :: nat) = 34 \<and> (of_char (last s) :: nat) = 34 then butlast (tl s) else s)"

definition parseCookieValue :: "bool \<Rightarrow> string \<Rightarrow> string option" where
  "parseCookieValue allowDoubleQuote raw =
     (let v = (if allowDoubleQuote then strip_quotes raw else raw)
      in if list_all validCookieValueByte v then Some v else None)"

text \<open>\<open>strings.Cut\<close> at the first equals sign: nothing after it when there is none.\<close>

definition Cut_eq :: "string \<Rightarrow> string \<times> string \<times> bool" where
  "Cut_eq s =
     (let a = takeWhile (\<lambda>c. c \<noteq> CHR ''='') s
      in if length a = length s then (s, [], False) else (a, drop (Suc (length a)) s, True))"

definition is_ascii :: "string \<Rightarrow> bool" where
  "is_ascii s \<longleftrightarrow> list_all (\<lambda>c. (of_char c :: nat) < 128) s"

definition set_attribute :: "(string \<Rightarrow> gotime option) \<Rightarrow> cookie \<Rightarrow> string \<Rightarrow> cookie" where
  "set_attribute parse_date c part =
     (let p = TrimString part in
      if p = [] then c
      else case Cut_eq p of
        (attr, v, _) \<Rightarrow>
          (if \<not> is_ascii attr then c
           else case parseCookieValue False v of
             None \<Rightarrow> c
           | Some val \<Rightarrow>
               (let a = ToLower attr; l = ToLower val in
                if a = ''samesite'' then c\<lparr>ck_SameSite :=
                    (if \<not> is_ascii val then SameSiteDefault
                     else if l = ''lax'' then SameSiteLax
                     else if l = ''strict'' then SameSiteStrict
                     else if l = ''none'' then SameSiteNone
                     else SameSiteDefault)\<rparr>
                else if a = ''secure'' then c\<lparr>ck_Secure := True\<rparr>
                else if a = ''httponly'' then c\<lparr>ck_HttpOnly := True\<rparr>
                else if a = ''domain'' then c\<lparr>ck_Domain := val\<rparr>
                else if a = ''max-age'' then
                  (case ParseInt val of
                     None \<Rightarrow> c
                   | Some secs \<Rightarrow> if secs \<noteq> 0 \<and> hd val = CHR ''0'' then c
                                  else c\<lparr>ck_MaxAge := (if secs \<le> 0 then -1 else secs)\<rparr>)
                else if a = ''expires'' then c\<lparr>ck_Expires := parse_date val\<rparr>
                else if a = ''path'' then c\<lparr>ck_Path := val\<rparr>
                else c)))"

definition parseSetCookieHeader :: "(string \<Rightarrow> gotime option) \<Rightarrow> string \<Rightarrow> cookie option" where
  "parseSetCookieHeader parse_date line =
     (let parts = Split (CHR '';'') (TrimString line) in
      case Cut_eq (TrimString (hd parts)) of
        (name0, raw, found) \<Rightarrow>
          (let name = TrimString name0 in
           if \<not> found \<or> \<not> isToken name then None
           else case parseCookieValue True raw of
             None \<Rightarrow> None
           | Some v \<Rightarrow>
               Some (foldl (set_attribute parse_date)
                 \<lparr>ck_Name = name, ck_Value = v, ck_Path = [], ck_Domain = [], ck_Expires = None, ck_MaxAge = 0,
                  ck_Secure = False, ck_HttpOnly = False, ck_SameSite = SameSiteDefault\<rparr> (tl parts))))"

text \<open>\<open>AddCookie\<close>: a value with a space or a comma is quoted, bytes that are not allowed are dropped.\<close>

definition cookie_pair :: "string \<Rightarrow> string \<Rightarrow> string" where
  "cookie_pair name v =
     (let n = map (\<lambda>c. if (of_char c :: nat) \<in> {10, 13} then CHR ''-'' else c) name;
          w = filter validCookieValueByte v
      in n @ ''='' @ (if ContainsAny w '' ,'' then [char_of (34 :: nat)] @ w @ [char_of (34 :: nat)] else w))"

definition AddCookie :: "string \<Rightarrow> string \<Rightarrow> request \<Rightarrow> request" where
  "AddCookie name v r =
     (let s = cookie_pair name v; c = header r ''Cookie''
      in set_header ''Cookie'' (if c \<noteq> [] then c @ ''; '' @ s else s) r)"

section \<open>The response writer\<close>

record cookie_writer =
  cw_stripCookies :: bool
  cw_rewritePaths :: bool
  cw_pathPrefix :: string
  cw_proxyHost :: string
  cw_wroteHeader :: bool
  cw_statusCode :: int
  cw_persistCookies :: bool
  cw_deviceID :: string
  cw_appID :: string
  cw_capturedCookies :: "cookie list"

definition NewCookieResponseWriter :: "bool \<Rightarrow> bool \<Rightarrow> string \<Rightarrow> cookie_writer" where
  "NewCookieResponseWriter strip rewrite pathPrefix =
     \<lparr>cw_stripCookies = strip, cw_rewritePaths = rewrite, cw_pathPrefix = pathPrefix, cw_proxyHost = [],
      cw_wroteHeader = False, cw_statusCode = 0, cw_persistCookies = False, cw_deviceID = [], cw_appID = [],
      cw_capturedCookies = []\<rparr>"

definition NewCookieResponseWriterWithPersistence ::
  "bool \<Rightarrow> bool \<Rightarrow> string \<Rightarrow> string \<Rightarrow> string \<Rightarrow> cookie_writer" where
  "NewCookieResponseWriterWithPersistence strip rewrite pathPrefix deviceID appID =
     (NewCookieResponseWriter strip rewrite pathPrefix)\<lparr>cw_persistCookies := True, cw_deviceID := deviceID, cw_appID := appID\<rparr>"

definition NewCookieResponseWriterWithDomain :: "bool \<Rightarrow> bool \<Rightarrow> string \<Rightarrow> string \<Rightarrow> cookie_writer" where
  "NewCookieResponseWriterWithDomain strip rewrite pathPrefix proxyHost =
     (NewCookieResponseWriter strip rewrite pathPrefix)\<lparr>cw_proxyHost := proxyHost\<rparr>"

definition captureCookies :: "(string \<Rightarrow> gotime option) \<Rightarrow> string list \<Rightarrow> cookie_writer \<Rightarrow> cookie_writer" where
  "captureCookies parse_date hs w =
     w\<lparr>cw_capturedCookies := cw_capturedCookies w @ List.map_filter (parseSetCookieHeader parse_date) hs\<rparr>"

text \<open>The \<open>Set-Cookie\<close> headers of the answer, before and after.\<close>

definition processCookies :: "(string \<Rightarrow> gotime option) \<Rightarrow> string list \<Rightarrow> cookie_writer \<Rightarrow> cookie_writer \<times> string list" where
  "processCookies parse_date hs w =
     (let w1 = (if cw_persistCookies w \<and> length hs > 0 then captureCookies parse_date hs w else w);
          paths = (cw_rewritePaths w \<and> cw_pathPrefix w \<noteq> [])
      in if cw_stripCookies w then (w1, [])
         else if paths \<or> cw_proxyHost w \<noteq> [] then
           (w1, map (\<lambda>h. (let h1 = (if paths then rewriteCookiePath h (cw_pathPrefix w) else h)
                           in if cw_proxyHost w \<noteq> [] then rewriteCookieDomain h1 (cw_proxyHost w) else h1)) hs)
         else (w1, hs))"

definition WriteHeader :: "(string \<Rightarrow> gotime option) \<Rightarrow> int \<Rightarrow> string list \<Rightarrow> cookie_writer \<Rightarrow> cookie_writer \<times> string list" where
  "WriteHeader parse_date code hs w =
     (if cw_wroteHeader w then (w, hs)
      else processCookies parse_date hs (w\<lparr>cw_wroteHeader := True, cw_statusCode := code\<rparr>))"

text \<open>Writing a body sends the headers first; the body goes through unchanged.\<close>

definition Write_body :: "(string \<Rightarrow> gotime option) \<Rightarrow> string list \<Rightarrow> cookie_writer \<Rightarrow> cookie_writer \<times> string list" where
  "Write_body parse_date hs w = (if \<not> cw_wroteHeader w then WriteHeader parse_date 200 hs w else (w, hs))"

definition StatusCode :: "cookie_writer \<Rightarrow> int" where
  "StatusCode w = (if cw_statusCode w = 0 then 200 else cw_statusCode w)"

definition HasCapturedCookies :: "cookie_writer \<Rightarrow> bool" where
  "HasCapturedCookies w \<longleftrightarrow> length (cw_capturedCookies w) > 0"

section \<open>Encryption\<close>

text \<open>\<open>seal key nonce text\<close> and \<open>unseal key nonce box\<close> are AES-256-GCM; a nonce has 12 bytes.\<close>

record aead =
  ad_seal :: "string \<Rightarrow> string \<Rightarrow> string \<Rightarrow> string"
  ad_unseal :: "string \<Rightarrow> string \<Rightarrow> string \<Rightarrow> string option"

definition NewCookieEncryptor :: "string \<Rightarrow> bool" where
  "NewCookieEncryptor key \<longleftrightarrow> length key = 32"

text \<open>The nonce is what the random source delivers; reading it may fail.\<close>

definition Encrypt :: "aead \<Rightarrow> string \<Rightarrow> string option \<Rightarrow> string \<Rightarrow> string option" where
  "Encrypt ad key nonce plaintext = map_option (\<lambda>n. n @ ad_seal ad key n plaintext) nonce"

definition Decrypt :: "aead \<Rightarrow> string \<Rightarrow> string \<Rightarrow> string option" where
  "Decrypt ad key ciphertext =
     (if length ciphertext < 12 then None else ad_unseal ad key (take 12 ciphertext) (drop 12 ciphertext))"

definition aead_ok :: "aead \<Rightarrow> bool" where
  "aead_ok ad \<longleftrightarrow> (\<forall>key n p. length n = 12 \<longrightarrow> ad_unseal ad key n (ad_seal ad key n p) = Some p)"

lemma Encrypt_Decrypt:
  "aead_ok ad \<Longrightarrow> length n = 12 \<Longrightarrow> Encrypt ad key (Some n) p = Some c \<Longrightarrow> Decrypt ad key c = Some p"
  by (auto simp: Encrypt_def Decrypt_def aead_ok_def)

section \<open>The table\<close>

text \<open>The rows by their unique columns: device, app and name.\<close>

record cookie_row =
  cr_value :: string
  cr_path :: string
  cr_domain :: string
  cr_expires :: "int option"
  cr_secure :: bool
  cr_httpOnly :: bool
  cr_sameSite :: string
  cr_updated :: int

type_synonym cookie_key = "string \<times> string \<times> string"
type_synonym cookie_table = "(cookie_key, cookie_row) gomap"

record proxy_cookie =
  pc_DeviceID :: string
  pc_AppID :: string
  pc_CookieName :: string
  pc_CookieValue :: string
  pc_CookiePath :: string
  pc_CookieDomain :: string
  pc_ExpiresAt :: "gotime option"
  pc_Secure :: bool
  pc_HttpOnly :: bool
  pc_SameSite :: string

datatype cookie_error = BadKey | EncryptFailed | CookieDb db_error | NoDeviceID | NoAppID

text \<open>Expiry times are stored to the second.  On a connection that enforces foreign keys the device must exist.\<close>

definition SaveProxyCookie ::
  "aead \<Rightarrow> string \<Rightarrow> conn \<Rightarrow> string option \<Rightarrow> (string \<Rightarrow> bool) \<Rightarrow> proxy_cookie \<Rightarrow> cookie_table \<Rightarrow> cookie_error + cookie_table" where
  "SaveProxyCookie ad key c nonce device_known k t =
     (if \<not> NewCookieEncryptor key then Inl BadKey
      else case Encrypt ad key nonce (pc_CookieValue k) of
        None \<Rightarrow> Inl EncryptFailed
      | Some enc \<Rightarrow>
          (if \<not> cn_ok c then Inl (CookieDb DbFault)
           else if cn_fk c \<and> \<not> device_known (pc_DeviceID k) then Inl (CookieDb ForeignKeyFailed)
           else Inr (put (pc_DeviceID k, pc_AppID k, pc_CookieName k)
             \<lparr>cr_value = enc, cr_path = pc_CookiePath k, cr_domain = pc_CookieDomain k,
              cr_expires = map_option (\<lambda>t. t div second) (pc_ExpiresAt k), cr_secure = pc_Secure k,
              cr_httpOnly = pc_HttpOnly k, cr_sameSite = pc_SameSite k, cr_updated = cn_now c div second\<rparr> t)))"

definition row_valid :: "conn \<Rightarrow> cookie_row \<Rightarrow> bool" where
  "row_valid c r \<longleftrightarrow> (case cr_expires r of None \<Rightarrow> True | Some e \<Rightarrow> e > cn_now c div second)"

text \<open>Of a stored cookie the caller uses the name and the decrypted value; rows that do not decrypt are skipped.\<close>

definition GetProxyCookies ::
  "aead \<Rightarrow> string \<Rightarrow> conn \<Rightarrow> string \<Rightarrow> string \<Rightarrow> cookie_table \<Rightarrow> cookie_error + (string \<times> string) list" where
  "GetProxyCookies ad key c deviceID appID t =
     (if \<not> NewCookieEncryptor key then Inl BadKey
      else if \<not> cn_ok c then Inl (CookieDb DbFault)
      else Inr (List.map_filter (\<lambda>((d, a, n), r).
             if d = deviceID \<and> a = appID \<and> row_valid c r then map_option (\<lambda>v. (n, v)) (Decrypt ad key (cr_value r)) else None) t))"

definition DeleteProxyCookie :: "conn \<Rightarrow> string \<Rightarrow> string \<Rightarrow> string \<Rightarrow> cookie_table \<Rightarrow> db_error + cookie_table" where
  "DeleteProxyCookie c deviceID appID name t = (if \<not> cn_ok c then Inl DbFault else Inr (del (deviceID, appID, name) t))"

definition DeleteProxyCookiesForApp :: "conn \<Rightarrow> string \<Rightarrow> string \<Rightarrow> cookie_table \<Rightarrow> db_error + cookie_table" where
  "DeleteProxyCookiesForApp c deviceID appID t =
     (if \<not> cn_ok c then Inl DbFault else Inr (del_if (\<lambda>(d, a, n) r. d = deviceID \<and> a = appID) t))"

definition DeleteProxyCookiesForDevice :: "conn \<Rightarrow> string \<Rightarrow> cookie_table \<Rightarrow> db_error + cookie_table" where
  "DeleteProxyCookiesForDevice c deviceID t =
     (if \<not> cn_ok c then Inl DbFault else Inr (del_if (\<lambda>(d, a, n) r. d = deviceID) t))"

definition CleanupExpiredProxyCookies :: "conn \<Rightarrow> cookie_table \<Rightarrow> db_error + (cookie_table \<times> nat)" where
  "CleanupExpiredProxyCookies c t =
     (if \<not> cn_ok c then Inl DbFault
      else (let t' = del_if (\<lambda>k r. \<not> row_valid c r) t in Inr (t', length t - length t')))"

definition ListProxyCookieSummaries :: "conn \<Rightarrow> string \<Rightarrow> cookie_table \<Rightarrow> db_error + (cookie_key \<times> cookie_row) list" where
  "ListProxyCookieSummaries c deviceID t =
     (if \<not> cn_ok c then Inl DbFault
      else Inr (sort_key (\<lambda>((d, a, n), r). (a, n)) (filter (\<lambda>((d, a, n), r). d = deviceID \<and> row_valid c r) t)))"

section \<open>Capture and replay\<close>

definition sameSiteToString :: "same_site \<Rightarrow> string" where
  "sameSiteToString s =
     (case s of SameSiteStrict \<Rightarrow> ''Strict'' | SameSiteLax \<Rightarrow> ''Lax'' | SameSiteNone \<Rightarrow> ''None'' | SameSiteDefault \<Rightarrow> ''Lax'')"

text \<open>The environment of one call: the clock, the connections of its statements in order, the nonces.\<close>

record cookie_env =
  ce_now :: gotime
  ce_conn :: "nat \<Rightarrow> conn"
  ce_nonce :: "nat \<Rightarrow> string option"
  ce_known :: "string \<Rightarrow> bool"

definition stored_cookie :: "gotime \<Rightarrow> string \<Rightarrow> string \<Rightarrow> cookie \<Rightarrow> proxy_cookie" where
  "stored_cookie now deviceID appID k =
     \<lparr>pc_DeviceID = deviceID, pc_AppID = appID, pc_CookieName = ck_Name k, pc_CookieValue = ck_Value k,
      pc_CookiePath = ck_Path k, pc_CookieDomain = ck_Domain k,
      pc_ExpiresAt = (if ck_Expires k \<noteq> None then ck_Expires k
                      else if ck_MaxAge k > 0 then Some (now + wrap64 (ck_MaxAge k * second)) else None),
      pc_Secure = ck_Secure k, pc_HttpOnly = ck_HttpOnly k, pc_SameSite = sameSiteToString (ck_SameSite k)\<rparr>"

text \<open>The loop over the cookies stops at the first that cannot be saved; those before it stay saved.\<close>

fun capture_loop ::
  "aead \<Rightarrow> string \<Rightarrow> cookie_env \<Rightarrow> nat \<Rightarrow> string \<Rightarrow> string \<Rightarrow> cookie list \<Rightarrow> cookie_table \<Rightarrow> cookie_table \<times> cookie_error option" where
  "capture_loop ad key env i deviceID appID [] t = (t, None)"
| "capture_loop ad key env i deviceID appID (k # ks) t =
     (if (case ck_Expires k of Some e \<Rightarrow> Before e (ce_now env) | None \<Rightarrow> False)
      then capture_loop ad key env (Suc i) deviceID appID ks t
      else if ck_MaxAge k < 0 then
        capture_loop ad key env (Suc i) deviceID appID ks
          (case DeleteProxyCookiesForApp (ce_conn env i) deviceID appID t of Inl e \<Rightarrow> t | Inr t' \<Rightarrow> t')
      else case SaveProxyCookie ad key (ce_conn env i) (ce_nonce env i) (ce_known env)
                  (stored_cookie (ce_now env) deviceID appID k) t of
             Inl e \<Rightarrow> (t, Some e)
           | Inr t' \<Rightarrow> capture_loop ad key env (Suc i) deviceID appID ks t')"

definition CaptureResponseCookies ::
  "aead \<Rightarrow> string \<Rightarrow> cookie_env \<Rightarrow> string \<Rightarrow> string \<Rightarrow> cookie list \<Rightarrow> cookie_table \<Rightarrow> cookie_table \<times> cookie_error option" where
  "CaptureResponseCookies ad key env deviceID appID cookies t =
     (if deviceID = [] then (t, Some NoDeviceID)
      else if appID = [] then (t, Some NoAppID)
      else if length cookies = 0 then (t, None)
      else capture_loop ad key env 0 deviceID appID cookies t)"

definition PersistCapturedCookies ::
  "aead \<Rightarrow> string \<Rightarrow> cookie_env \<Rightarrow> cookie_writer \<Rightarrow> cookie_table \<Rightarrow> cookie_table \<times> cookie_error option" where
  "PersistCapturedCookies ad key env w t =
     (if \<not> cw_persistCookies w \<or> length (cw_capturedCookies w) = 0 then (t, None)
      else CaptureResponseCookies ad key env (cw_deviceID w) (cw_appID w) (cw_capturedCookies w) t)"

definition InjectRequestCookies ::
  "aead \<Rightarrow> string \<Rightarrow> conn \<Rightarrow> string \<Rightarrow> string \<Rightarrow> cookie_table \<Rightarrow> request \<Rightarrow> request \<times> cookie_error option" where
  "InjectRequestCookies ad key c deviceID appID t r =
     (if deviceID = [] then (r, Some NoDeviceID)
      else if appID = [] then (r, Some NoAppID)
      else case GetProxyCookies ad key c deviceID appID t of
             Inl e \<Rightarrow> (r, Some e)
           | Inr ks \<Rightarrow> (foldl (\<lambda>r (n, v). AddCookie n v r) r ks, None))"

definition ClearCookies :: "conn \<Rightarrow> string \<Rightarrow> string \<Rightarrow> cookie_table \<Rightarrow> db_error + cookie_table" where
  "ClearCookies c deviceID appID t = DeleteProxyCookiesForApp c deviceID appID t"

definition ClearAllCookies :: "conn \<Rightarrow> string \<Rightarrow> cookie_table \<Rightarrow> db_error + cookie_table" where
  "ClearAllCookies c deviceID t = DeleteProxyCookiesForDevice c deviceID t"

section \<open>The pages\<close>

record app_session =
  as_AppID :: string
  as_CookieCount :: nat
  as_LastUpdated :: int
  as_ExpiresAt :: "int option"

definition add_to_session :: "(string, app_session) gomap \<Rightarrow> cookie_key \<times> cookie_row \<Rightarrow> (string, app_session) gomap" where
  "add_to_session m row =
     (case row of ((d, a, n), r) \<Rightarrow>
       (let s0 = (case get m a of Some s \<Rightarrow> s
                  | None \<Rightarrow> \<lparr>as_AppID = a, as_CookieCount = 0, as_LastUpdated = cr_updated r, as_ExpiresAt = None\<rparr>)
        in put a (s0\<lparr>as_CookieCount := as_CookieCount s0 + 1,
                     as_LastUpdated := (if cr_updated r > as_LastUpdated s0 then cr_updated r else as_LastUpdated s0),
                     as_ExpiresAt :=
                       (case cr_expires r of
                          None \<Rightarrow> as_ExpiresAt s0
                        | Some e \<Rightarrow> (case as_ExpiresAt s0 of
                                       None \<Rightarrow> Some e
                                     | Some x \<Rightarrow> if e < x then Some e else Some x))\<rparr>) m))"

definition groupCookiesByApp :: "(cookie_key \<times> cookie_row) list \<Rightarrow> app_session list" where
  "groupCookiesByApp rows = map snd (foldl add_to_session [] rows)"

datatype session_page = Sessions "app_session list" | NoContent | SessionError int

definition SessionList :: "conn \<Rightarrow> request \<Rightarrow> cookie_table \<Rightarrow> session_page" where
  "SessionList c r t =
     (if rq_deviceID r = [] then SessionError 401
      else case ListProxyCookieSummaries c (rq_deviceID r) t of
             Inl e \<Rightarrow> SessionError 500
           | Inr rows \<Rightarrow> Sessions (groupCookiesByApp rows))"

definition DeleteAppSession :: "conn \<Rightarrow> request \<Rightarrow> string \<Rightarrow> cookie_table \<Rightarrow> cookie_table \<times> session_page" where
  "DeleteAppSession c r appID t =
     (if rq_deviceID r = [] then (t, SessionError 401)
      else if appID = [] then (t, SessionError 400)
      else case DeleteProxyCookiesForApp c (rq_deviceID r) appID t of
             Inl e \<Rightarrow> (t, SessionError 500)
           | Inr t' \<Rightarrow> (t', NoContent))"

definition DeleteAllSessions :: "conn \<Rightarrow> request \<Rightarrow> cookie_table \<Rightarrow> cookie_table \<times> session_page" where
  "DeleteAllSessions c r t =
     (if rq_deviceID r = [] then (t, SessionError 401)
      else case DeleteProxyCookiesForDevice c (rq_deviceID r) t of
             Inl e \<Rightarrow> (t, SessionError 500)
           | Inr t' \<Rightarrow> (t', NoContent))"

section \<open>A cookie stays with its device and app\<close>

text \<open>The rows of one device and app.\<close>

definition rows_of :: "string \<Rightarrow> string \<Rightarrow> cookie_table \<Rightarrow> cookie_table" where
  "rows_of d a t = filter (\<lambda>((d', a', n), r). d' = d \<and> a' = a) t"

lemma GetProxyCookies_rows:
  "GetProxyCookies ad key c d a t = GetProxyCookies ad key c d a (rows_of d a t)"
  by (induction t) (auto simp: GetProxyCookies_def rows_of_def List.map_filter_simps split: option.split if_splits)

lemma InjectRequestCookies_rows:
  "rows_of d a t = rows_of d a t' \<Longrightarrow> InjectRequestCookies ad key c d a t r = InjectRequestCookies ad key c d a t' r"
  unfolding InjectRequestCookies_def by (subst (1 2) GetProxyCookies_rows) simp

lemma rows_of_put_other: "(d', a') \<noteq> (d, a) \<Longrightarrow> rows_of d a (put (d', a', n) r t) = rows_of d a t"
  by (induction t) (auto simp: rows_of_def)

lemma rows_of_del_if_other:
  assumes "\<And>n r. \<not> P (d, a, n) r"
  shows "rows_of d a (del_if P t) = rows_of d a t"
  unfolding rows_of_def del_if_def filter_filter by (rule filter_cong) (auto simp: assms)

lemma capture_other:
  assumes "(d', a') \<noteq> (d, a)"
  shows "rows_of d a (fst (capture_loop ad key env i d' a' ks t)) = rows_of d a t"
proof (induction ks arbitrary: i t)
  case (Cons k ks)
  have del: "rows_of d a (case DeleteProxyCookiesForApp c d' a' t of Inl e \<Rightarrow> t | Inr t' \<Rightarrow> t') = rows_of d a t" for c
    using assms by (auto simp: DeleteProxyCookiesForApp_def intro!: rows_of_del_if_other)
  have sav: "SaveProxyCookie ad key c nn kn (stored_cookie nw d' a' k) t = Inr t' \<Longrightarrow> rows_of d a t' = rows_of d a t" for c nn kn nw t'
    using rows_of_put_other [OF assms] by (auto simp: SaveProxyCookie_def stored_cookie_def split: if_splits option.splits)
  show ?case by (simp add: Cons.IH del split: sum.split option.split) (auto dest: sav)
qed simp

text \<open>What may happen to the table.\<close>

datatype cookie_op =
    Capture string string "cookie list"
  | AppCleared string string
  | DeviceCleared string
  | Cleanup

definition cookie_step :: "aead \<Rightarrow> string \<Rightarrow> cookie_env \<times> cookie_op \<Rightarrow> cookie_table \<Rightarrow> cookie_table" where
  "cookie_step ad key step t =
     (case step of (env, op) \<Rightarrow>
       (case op of
          Capture d a ks \<Rightarrow> fst (CaptureResponseCookies ad key env d a ks t)
        | AppCleared d a \<Rightarrow> (case ClearCookies (ce_conn env 0) d a t of Inl e \<Rightarrow> t | Inr t' \<Rightarrow> t')
        | DeviceCleared d \<Rightarrow> (case ClearAllCookies (ce_conn env 0) d t of Inl e \<Rightarrow> t | Inr t' \<Rightarrow> t')
        | Cleanup \<Rightarrow> (case CleanupExpiredProxyCookies (ce_conn env 0) t of Inl e \<Rightarrow> t | Inr (t', n) \<Rightarrow> t')))"

definition cookie_run :: "aead \<Rightarrow> string \<Rightarrow> (cookie_env \<times> cookie_op) list \<Rightarrow> cookie_table \<Rightarrow> cookie_table" where
  "cookie_run ad key steps t = foldl (\<lambda>t s. cookie_step ad key s t) t steps"

fun concerns :: "string \<Rightarrow> string \<Rightarrow> cookie_op \<Rightarrow> bool" where
  "concerns d a (Capture d' a' ks) \<longleftrightarrow> d' = d \<and> a' = a"
| "concerns d a (AppCleared d' a') \<longleftrightarrow> d' = d \<and> a' = a"
| "concerns d a (DeviceCleared d') \<longleftrightarrow> d' = d"
| "concerns d a Cleanup \<longleftrightarrow> True"

lemma cookie_step_other: "\<not> concerns d a op \<Longrightarrow> rows_of d a (cookie_step ad key (env, op) t) = rows_of d a t"
  by (cases op)
    (auto simp: cookie_step_def CaptureResponseCookies_def capture_other ClearCookies_def ClearAllCookies_def
      DeleteProxyCookiesForApp_def DeleteProxyCookiesForDevice_def intro!: rows_of_del_if_other)

lemma rows_of_del_if: "rows_of d a (del_if P t) = del_if P (rows_of d a t)"
  by (simp add: rows_of_def del_if_def conj_commute)

lemma rows_of_put_own: "rows_of d a (put (d, a, n) r t) = put (d, a, n) r (rows_of d a t)"
  by (induction t) (auto simp: rows_of_def)

lemma SaveProxyCookie_rows:
  assumes "pc_DeviceID k = d" "pc_AppID k = a"
  shows "map_sum id (rows_of d a) (SaveProxyCookie ad key c nn kn k t) = SaveProxyCookie ad key c nn kn k (rows_of d a t)"
  using assms by (auto simp: SaveProxyCookie_def rows_of_put_own split: option.split)

lemma capture_own: "rows_of d a (fst (capture_loop ad key env i d a ks t)) = fst (capture_loop ad key env i d a ks (rows_of d a t))"
proof (induction ks arbitrary: i t)
  case (Cons k ks)
  let ?k = "stored_cookie (ce_now env) d a k"
  have del: "rows_of d a (case DeleteProxyCookiesForApp c d a t of Inl e \<Rightarrow> t | Inr t' \<Rightarrow> t')
      = (case DeleteProxyCookiesForApp c d a (rows_of d a t) of Inl e \<Rightarrow> rows_of d a t | Inr t' \<Rightarrow> t')" for c
    by (simp add: DeleteProxyCookiesForApp_def rows_of_del_if)
  have sav: "SaveProxyCookie ad key (ce_conn env i) (ce_nonce env i) (ce_known env) ?k (rows_of d a t)
      = map_sum id (rows_of d a) (SaveProxyCookie ad key (ce_conn env i) (ce_nonce env i) (ce_known env) ?k t)"
    by (rule SaveProxyCookie_rows [symmetric]) (simp_all add: stored_cookie_def)
  show ?case
    by (cases "SaveProxyCookie ad key (ce_conn env i) (ce_nonce env i) (ce_known env) ?k t") (simp_all add: sav Cons.IH del)
qed simp

lemma cookie_step_own:
  "rows_of d a (cookie_step ad key (env, op) t) =
   (if concerns d a op then cookie_step ad key (env, op) (rows_of d a t) else rows_of d a t)"
proof (cases "concerns d a op")
  case True
  then show ?thesis
    by (cases op) (auto simp: cookie_step_def CaptureResponseCookies_def capture_own ClearCookies_def ClearAllCookies_def
      DeleteProxyCookiesForApp_def DeleteProxyCookiesForDevice_def CleanupExpiredProxyCookies_def rows_of_del_if Let_def)
qed (simp add: cookie_step_other)


lemma rows_of_idem [simp]: "rows_of d a (rows_of d a t) = rows_of d a t"
  by (simp add: rows_of_def)

lemma rows_of_run:
  "rows_of d a (cookie_run ad key steps t) =
   rows_of d a (cookie_run ad key (filter (\<lambda>s. concerns d a (snd s)) steps) (rows_of d a t))"
proof (induction steps arbitrary: t)
  case Nil
  then show ?case by (simp add: cookie_run_def)
next
  case (Cons s steps)
  obtain env op where s: "s = (env, op)" by (cases s)
  have run: "cookie_run ad key (s # ss) u = cookie_run ad key ss (cookie_step ad key s u)" for s ss u
    by (simp add: cookie_run_def)
  show ?case
    using Cons.IH [of "cookie_step ad key s t"] Cons.IH [of "cookie_step ad key s (rows_of d a t)"]
    by (cases "concerns d a op") (simp_all add: s run cookie_step_own cookie_step_other Cons.IH)
qed

text \<open>the cookies injected into a request of a device to an app depend only on what was captured from,
  and cleared for, that device and app: leaving out every other capture and clearing changes nothing.\<close>

theorem cookie_jars_separate:
  "InjectRequestCookies ad key c d a (cookie_run ad key steps []) r =
   InjectRequestCookies ad key c d a (cookie_run ad key (filter (\<lambda>s. concerns d a (snd s)) steps) []) r"
proof (rule InjectRequestCookies_rows)
  have "rows_of d a [] = []" by (simp add: rows_of_def)
  then show "rows_of d a (cookie_run ad key steps []) =
      rows_of d a (cookie_run ad key (filter (\<lambda>s. concerns d a (snd s)) steps) [])"
    by (subst rows_of_run) simp
qed

section \<open>A captured cookie comes back\<close>

lemma AddCookie_header: "header (AddCookie n v r) ''Cookie'' =
   (if header r ''Cookie'' = [] then cookie_pair n v else header r ''Cookie'' @ ''; '' @ cookie_pair n v)"
  by (simp add: AddCookie_def Let_def header_set)


definition all_pairs :: "string \<Rightarrow> string list \<Rightarrow> string" where
  "all_pairs h ps = Join ''; '' ((if h = [] then [] else [h]) @ ps)"

lemma Join_snoc: "ws \<noteq> [] \<Longrightarrow> Join sep (ws @ [w]) = Join sep ws @ sep @ w"
  by (induction sep ws rule: Join.induct) simp_all

lemma cookie_pair_ne: "cookie_pair n v \<noteq> []"
  by (simp add: cookie_pair_def Let_def)

lemma Join_ne: "\<forall>w \<in> set ws. w \<noteq> [] \<Longrightarrow> Join sep ws = [] \<longleftrightarrow> ws = []"
  by (induction sep ws rule: Join.induct) auto

lemma AddCookies_header:
  "header (foldl (\<lambda>r (n, v). AddCookie n v r) r ks) ''Cookie'' =
   all_pairs (header r ''Cookie'') (map (\<lambda>(n, v). cookie_pair n v) ks)"
proof (induction ks rule: rev_induct)
  case Nil
  then show ?case by (simp add: all_pairs_def)
next
  case (snoc k ks)
  let ?ws = "(if header r ''Cookie'' = [] then [] else [header r ''Cookie'']) @ map (\<lambda>(n, v). cookie_pair n v) ks"
  obtain n v where k: "k = (n, v)" by (cases k)
  have ne: "Join ''; '' ?ws = [] \<longleftrightarrow> ?ws = []"
    by (rule Join_ne) (auto simp: cookie_pair_ne split: if_splits)
  have j: "?ws \<noteq> [] \<Longrightarrow> Join ''; '' (?ws @ [cookie_pair n v]) = Join ''; '' ?ws @ ''; '' @ cookie_pair n v"
    by (rule Join_snoc)
  show ?case
  proof (cases "?ws = []")
    case True
    then show ?thesis by (simp add: k AddCookie_header snoc.IH all_pairs_def split: if_splits)
  next
    case False
    with j ne show ?thesis by (simp only: k AddCookie_header snoc.IH all_pairs_def foldl_append) (simp add: AddCookie_header snoc.IH all_pairs_def)
  qed
qed

lemma set_attribute_frame [simp]:
  "ck_Name (set_attribute pd c p) = ck_Name c" "ck_Value (set_attribute pd c p) = ck_Value c"
  by (simp_all add: set_attribute_def Let_def split: option.split prod.split)

lemma set_attributes_frame [simp]:
  "ck_Name (foldl (set_attribute pd) c ps) = ck_Name c \<and> ck_Value (foldl (set_attribute pd) c ps) = ck_Value c"
  by (induction ps arbitrary: c) simp_all

lemma parsed_cookie:
  assumes "parseSetCookieHeader pd h = Some k"
  shows "isToken (ck_Name k)" "list_all validCookieValueByte (ck_Value k)"
  using assms
  by (auto simp: parseSetCookieHeader_def parseCookieValue_def Let_def split: prod.splits option.splits if_splits)

text \<open>What \<open>AddCookie\<close> writes for a cookie that was parsed from a header: name and value as they are, the value in
  quotes when it holds a space or a comma.\<close>

lemma parsed_pair:
  assumes "parseSetCookieHeader pd h = Some k"
  shows "cookie_pair (ck_Name k) (ck_Value k) = ck_Name k @ ''='' @
    (if ContainsAny (ck_Value k) '' ,'' then [char_of (34 :: nat)] @ ck_Value k @ [char_of (34 :: nat)] else ck_Value k)"
proof -
  have "map (\<lambda>c. if (of_char c :: nat) \<in> {10, 13} then CHR ''-'' else c) (ck_Name k) = ck_Name k"
    using parsed_cookie(1) [OF assms] by (intro map_idI) (auto simp: isToken_def list_all_iff token_char_def Let_def)
  moreover have "filter validCookieValueByte (ck_Value k) = ck_Value k"
    using parsed_cookie(2) [OF assms] by (simp add: list_all_iff filter_id_conv)
  ultimately show ?thesis by (simp add: cookie_pair_def Let_def)
qed


lemma cookie_run_other:
  "\<forall>s \<in> set steps. \<not> concerns d a (snd s) \<Longrightarrow> rows_of d a (cookie_run ad key steps t) = rows_of d a t"
  unfolding cookie_run_def by (induction steps arbitrary: t) (auto simp: cookie_step_other)

lemma stored_cookie_key [simp]:
  "pc_DeviceID (stored_cookie now d a k) = d" "pc_AppID (stored_cookie now d a k) = a"
  "pc_CookieName (stored_cookie now d a k) = ck_Name k" "pc_CookieValue (stored_cookie now d a k) = ck_Value k"
  by (simp_all add: stored_cookie_def)

text \<open>A saved cookie is among those read back, decrypted.\<close>

lemma saved_cookie_found:
  assumes "aead_ok ad" "SaveProxyCookie ad key c1 (Some n) known k t = Inr t'" "length n = 12" "cn_ok c"
    and "\<forall>e. pc_ExpiresAt k = Some e \<longrightarrow> cn_now c div second < e div second"
  obtains ks where "GetProxyCookies ad key c (pc_DeviceID k) (pc_AppID k) t' = Inr ks"
    and "(pc_CookieName k, pc_CookieValue k) \<in> set ks"
proof -
  from assms(2) have key: "NewCookieEncryptor key" by (auto simp: SaveProxyCookie_def split: if_splits)
  obtain enc where v0: "Encrypt ad key (Some n) (pc_CookieValue k) = Some enc" by (simp add: Encrypt_def)
  obtain row where t': "t' = put (pc_DeviceID k, pc_AppID k, pc_CookieName k) row t" and v: "cr_value row = enc"
    and e: "cr_expires row = map_option (\<lambda>t. t div second) (pc_ExpiresAt k)"
    using assms(2) v0 by (force simp: SaveProxyCookie_def split: if_splits)
  have mem: "((pc_DeviceID k, pc_AppID k, pc_CookieName k), row) \<in> set t'"
    by (rule get_Some_in) (simp add: t' get_put)
  have "row_valid c row" using assms(5) by (auto simp: row_valid_def e split: option.split)
  moreover have "Decrypt ad key (cr_value row) = Some (pc_CookieValue k)"
    unfolding v by (rule Encrypt_Decrypt [OF assms(1,3) v0])
  ultimately have "(pc_CookieName k, pc_CookieValue k) \<in> set (List.map_filter (\<lambda>((d, a, n), r).
      if d = pc_DeviceID k \<and> a = pc_AppID k \<and> row_valid c r then map_option (\<lambda>v. (n, v)) (Decrypt ad key (cr_value r)) else None) t')"
    by (intro in_map_filterI [OF mem]) simp
  then show thesis using that key assms(4) by (simp add: GetProxyCookies_def)
qed


definition demo_aead :: aead where
  "demo_aead = \<lparr>ad_seal = (\<lambda>key n p. rev p @ key),
     ad_unseal = (\<lambda>key n c. Some (rev (take (length c - length key) c)))\<rparr>"

definition demo_conn :: conn where "demo_conn = \<lparr>cn_ok = True, cn_fk = True, cn_now = 1000 * second\<rparr>"

definition demo_env :: cookie_env where
  "demo_env = \<lparr>ce_now = 1000 * second, ce_conn = (\<lambda>i. demo_conn), ce_nonce = (\<lambda>i. Some (replicate 12 CHR ''n'')), ce_known = (\<lambda>d. d = ''phone'')\<rparr>"


definition demo_steps :: "(cookie_env \<times> cookie_op) list" where
  "demo_steps = [(demo_env, AppCleared ''phone'' ''wiki''), (demo_env, DeviceCleared ''tablet'')]"


section \<open>What rewriting does to a header\<close>

lemma map_attributes_spec:
  assumes "\<And>v. CHR '';'' \<notin> set v \<Longrightarrow> CHR '';'' \<notin> set (f v)"
  shows "hd (Split (CHR '';'') (map_attributes attr f h)) = hd (Split (CHR '';'') h)"
    "map TrimSpace (tl (Split (CHR '';'') (map_attributes attr f h))) =
     map (\<lambda>a. if HasPrefix (ToLower a) attr then TrimSpace (f (drop (length attr) a)) else a)
       (map TrimSpace (tl (Split (CHR '';'') h)))"
proof -
  obtain w ws where s: "Split (CHR '';'') h = w # ws" by (cases "Split (CHR '';'') h") auto
  let ?g = "\<lambda>part. (let trimmed = TrimSpace part in
      if HasPrefix (ToLower trimmed) attr then f (drop (length attr) trimmed) else '' '' @ trimmed)"
  have n: "CHR '';'' \<notin> set p" if "p \<in> set (w # ws)" for p
    using Split_no_sep [of p "CHR '';''" h] that by (simp add: s)
  have g: "CHR '';'' \<notin> set (?g p)" if "p \<in> set ws" for p
  proof -
    have "CHR '';'' \<notin> set (TrimSpace p)" using n that TrimSpace_sub [of p] by auto
    then show ?thesis using assms [of "drop (length attr) (TrimSpace p)"] by (auto simp: Let_def dest: in_set_dropD)
  qed
  have "\<forall>q \<in> set (w # map ?g ws). CHR '';'' \<notin> set q" using n g by (metis (no_types, lifting) imageE list.set_map set_ConsD list.set_intros(1))
  then have "Split (CHR '';'') (Join [CHR '';''] (w # map ?g ws)) = w # map ?g ws" by (intro Split_Join) simp_all
  then have "Split (CHR '';'') (map_attributes attr f h) = w # map ?g ws"
    by (simp only: map_attributes_def s list.sel Let_def)
  then show "hd (Split (CHR '';'') (map_attributes attr f h)) = hd (Split (CHR '';'') h)"
    "map TrimSpace (tl (Split (CHR '';'') (map_attributes attr f h))) =
     map (\<lambda>a. if HasPrefix (ToLower a) attr then TrimSpace (f (drop (length attr) a)) else a)
       (map TrimSpace (tl (Split (CHR '';'') h)))"
    by (simp_all add: s Let_def)
qed

text \<open>The name and value of a cookie, and its trimmed attributes.\<close>

definition pair_of :: "string \<Rightarrow> string" where
  "pair_of h = hd (Split (CHR '';'') h)"

definition attributes :: "string \<Rightarrow> string list" where
  "attributes h = map TrimSpace (tl (Split (CHR '';'') h))"

lemma rewritePath_chars: "set (rewritePath v p) \<subseteq> set v \<union> set p \<union> {CHR ''/''}"
  by (auto simp: rewritePath_def TrimPrefix_def Let_def dest: in_set_dropD split: if_splits)

lemma rewritePath_below: "HasPrefix (rewritePath v p) p"
  by (simp add: rewritePath_def Let_def HasPrefix_def)

lemma last_TrimPrefix: "TrimPrefix s q \<noteq> [] \<Longrightarrow> last (TrimPrefix s q) = last s"
  by (auto simp: TrimPrefix_def)

lemma rewritePath_trimmed:
  assumes "\<forall>c \<in> set p. \<not> is_space c" "v = [] \<or> \<not> is_space (last v)"
  shows "rewritePath v p = [] \<or> \<not> is_space (last (rewritePath v p))"
proof -
  have sl: "\<not> is_space (CHR ''/'')" by (simp add: is_space_def)
  have "p \<noteq> [] \<Longrightarrow> \<not> is_space (last p)" using assms(1) by simp
  moreover have "TrimPrefix v ''/'' \<noteq> [] \<Longrightarrow> v \<noteq> []" by (auto simp: TrimPrefix_def)
  ultimately show ?thesis
    using assms(2) sl last_TrimPrefix [of v "''/''"]
    by (cases "TrimPrefix v ''/'' = []") (auto simp: rewritePath_def Let_def last_append split: if_splits)
qed

lemma last_drop_trimmed: "trimmed a \<Longrightarrow> drop n a = [] \<or> \<not> is_space (last (drop n a))"
  by (auto simp: trimmed_def last_drop)

text \<open>rewriting a header for a path prefix and a host without blanks and semicolons keeps the name and value and
  every attribute but the path and the domain, in their order; every path comes to lie below the prefix, and
  every domain becomes the host.\<close>

theorem rewriting_changes_path_and_domain_only:
  assumes "\<forall>c \<in> set p. \<not> is_space c \<and> c \<noteq> CHR '';''" "\<forall>c \<in> set host. \<not> is_space c \<and> c \<noteq> CHR '';''"
  shows "pair_of (rewriteCookieDomain (rewriteCookiePath h p) host) = pair_of h \<and>
    attributes (rewriteCookieDomain (rewriteCookiePath h p) host) =
      map (\<lambda>a. if HasPrefix (ToLower a) ''path='' then ''Path='' @ rewritePath (drop 5 a) p
               else if HasPrefix (ToLower a) ''domain='' then ''Domain='' @ host else a) (attributes h) \<and>
    (\<forall>v. HasPrefix (rewritePath v p) p)"
proof -
  have sp: "trimmed (''Path='' @ rewritePath (drop 5 a) p)" if "trimmed a" for a
  proof -
    have "rewritePath (drop 5 a) p = [] \<or> \<not> is_space (last (rewritePath (drop 5 a) p))"
      using assms(1) last_drop_trimmed [OF that] by (intro rewritePath_trimmed) auto
    then show ?thesis by (auto simp: trimmed_def is_space_def)
  qed
  have sd: "trimmed (''Domain='' @ host)" using assms(2) by (auto simp: trimmed_def is_space_def)
  have p: "pair_of (rewriteCookiePath h p) = pair_of h"
    "attributes (rewriteCookiePath h p) =
      map (\<lambda>a. if HasPrefix (ToLower a) ''path='' then ''Path='' @ rewritePath (drop 5 a) p else a) (attributes h)"
  proof -
    have c: "CHR '';'' \<notin> set ('' Path='' @ rewritePath v p)" if "CHR '';'' \<notin> set v" for v
      using that assms(1) rewritePath_chars [of v p] by auto
    show "pair_of (rewriteCookiePath h p) = pair_of h"
      unfolding pair_of_def rewriteCookiePath_def by (rule map_attributes_spec(1)) (rule c)
    show "attributes (rewriteCookiePath h p) =
      map (\<lambda>a. if HasPrefix (ToLower a) ''path='' then ''Path='' @ rewritePath (drop 5 a) p else a) (attributes h)"
      unfolding attributes_def rewriteCookiePath_def
      by (subst map_attributes_spec(2), rule c, assumption) (use sp in \<open>auto simp: numeral_eq_Suc\<close>)
  qed
  have d: "pair_of (rewriteCookieDomain g host) = pair_of g"
    "attributes (rewriteCookieDomain g host) =
      map (\<lambda>a. if HasPrefix (ToLower a) ''domain='' then ''Domain='' @ host else a) (attributes g)" for g
  proof -
    have c: "CHR '';'' \<notin> set ('' Domain='' @ host)" if "CHR '';'' \<notin> set v" for v :: string
      using assms(2) by auto
    show "pair_of (rewriteCookieDomain g host) = pair_of g"
      unfolding pair_of_def rewriteCookieDomain_def by (rule map_attributes_spec(1)) (rule c)
    show "attributes (rewriteCookieDomain g host) =
      map (\<lambda>a. if HasPrefix (ToLower a) ''domain='' then ''Domain='' @ host else a) (attributes g)"
      unfolding attributes_def rewriteCookieDomain_def
      by (subst map_attributes_spec(2), rule c, assumption) (use sd in \<open>auto simp: numeral_eq_Suc\<close>)
  qed
  have "\<not> HasPrefix (ToLower (''Path='' @ x)) ''domain=''" for x
    by (simp add: HasPrefix_def ToLower_def lower_char_def)
  then show ?thesis by (auto simp: p d rewritePath_below)
qed

lemma rewriting_changes_path_and_domain_only_witness:
  "attributes (rewriteCookieDomain (rewriteCookiePath ''id=1; path=/login;DOMAIN=app.local; Secure'' ''/apps/wiki'') ''box.lan'') =
   [''Path=/apps/wiki/login'', ''Domain=box.lan'', ''Secure'']"
proof -
  have a: "attributes ''id=1; path=/login;DOMAIN=app.local; Secure'' = [''path=/login'', ''DOMAIN=app.local'', ''Secure'']"
    by code_simp
  have "map (\<lambda>a. if HasPrefix (ToLower a) ''path='' then ''Path='' @ rewritePath (drop 5 a) ''/apps/wiki''
               else if HasPrefix (ToLower a) ''domain='' then ''Domain='' @ ''box.lan'' else a)
      [''path=/login'', ''DOMAIN=app.local'', ''Secure''] = [''Path=/apps/wiki/login'', ''Domain=box.lan'', ''Secure'']"
    by code_simp
  then show ?thesis
    using rewriting_changes_path_and_domain_only [of "''/apps/wiki''" "''box.lan''" "''id=1; path=/login;DOMAIN=app.local; Secure''"]
    unfolding a by (simp add: is_space_def)
qed

end
