(* ===== verification/Users.thy ===== *)
theory Users
  imports Access
begin

text \<open>
  The accounts of the web dashboard: the table (\<open>internal/storage/users.go\<close>) and the pages for first setup, login,
  session and token checks (\<open>internal/handlers/auth.go\<close>).  bcrypt and the JWT library are arguments.
\<close>

section \<open>The table\<close>

record user =
  us_ID :: nat
  us_Username :: string
  us_PasswordHash :: string
  us_CreatedAt :: int
  us_LastLogin :: "int option"
  us_IsActive :: bool

record user_table =
  ut_rows :: "user list"
  ut_seq :: nat

definition InitializeUserSchema :: user_table where
  "InitializeUserSchema = \<lparr>ut_rows = [], ut_seq = 0\<rparr>"

text \<open>Hashing takes the salt it draws and refuses passwords it cannot hash (more than 72 bytes).\<close>

record bcrypt =
  bc_hash :: "string \<Rightarrow> string \<Rightarrow> string option"
  bc_compare :: "string \<Rightarrow> string \<Rightarrow> bool"

datatype user_error =
    UsernameMissing
  | UsernameTooLong
  | UsernameCharacters
  | PasswordMissing
  | PasswordTooShort
  | HashFailed
  | UserExists
  | UserDb
  | NoSuchUser
  | BadCredentials
  | AccountDisabled

definition username_char :: "char \<Rightarrow> bool" where
  "username_char r \<longleftrightarrow> (let n = (of_char r :: nat) in
     (97 \<le> n \<and> n \<le> 122) \<or> (65 \<le> n \<and> n \<le> 90) \<or> (48 \<le> n \<and> n \<le> 57) \<or> r = CHR ''_'' \<or> r = CHR ''-'' \<or> r = CHR ''.'')"

definition validateUsername :: "string \<Rightarrow> user_error option" where
  "validateUsername username =
     (if length username < 1 then Some UsernameMissing
      else if length username > 255 then Some UsernameTooLong
      else if \<not> list_all username_char username then Some UsernameCharacters
      else None)"

definition validatePassword :: "string \<Rightarrow> user_error option" where
  "validatePassword password =
     (if length password = 0 then Some PasswordMissing
      else if length password < 8 then Some PasswordTooShort
      else None)"

definition CreateUser :: "bcrypt \<Rightarrow> conn \<Rightarrow> string \<Rightarrow> string \<Rightarrow> string \<Rightarrow> user_table \<Rightarrow> user_error + user_table" where
  "CreateUser bc c salt username password t =
     (case validateUsername username of
        Some e \<Rightarrow> Inl e
      | None \<Rightarrow>
          (case validatePassword password of
             Some e \<Rightarrow> Inl e
           | None \<Rightarrow>
               (case bc_hash bc salt password of
                  None \<Rightarrow> Inl HashFailed
                | Some h \<Rightarrow>
                    (if \<not> cn_ok c then Inl UserDb
                     else if username \<in> us_Username ` set (ut_rows t) then Inl UserExists
                     else Inr \<lparr>ut_rows = ut_rows t @
                           [\<lparr>us_ID = ut_seq t + 1, us_Username = username, us_PasswordHash = h, us_CreatedAt = cn_now c div second,
                             us_LastLogin = None, us_IsActive = True\<rparr>],
                         ut_seq = ut_seq t + 1\<rparr>))))"

definition GetUserByUsername :: "conn \<Rightarrow> string \<Rightarrow> user_table \<Rightarrow> user_error + user option" where
  "GetUserByUsername c username t =
     (if \<not> cn_ok c then Inl UserDb else Inr (find (\<lambda>u. us_Username u = username) (ut_rows t)))"

definition ValidateCredentials :: "bcrypt \<Rightarrow> conn \<Rightarrow> string \<Rightarrow> string \<Rightarrow> user_table \<Rightarrow> user_error + user" where
  "ValidateCredentials bc c username password t =
     (case GetUserByUsername c username t of
        Inl e \<Rightarrow> Inl e
      | Inr None \<Rightarrow> Inl BadCredentials
      | Inr (Some u) \<Rightarrow>
          (if \<not> us_IsActive u then Inl AccountDisabled
           else if \<not> bc_compare bc (us_PasswordHash u) password then Inl BadCredentials
           else Inr u))"

definition UpdateLastLogin :: "conn \<Rightarrow> nat \<Rightarrow> user_table \<Rightarrow> user_error + user_table" where
  "UpdateLastLogin c userID t =
     (if \<not> cn_ok c then Inl UserDb
      else if userID \<notin> us_ID ` set (ut_rows t) then Inl NoSuchUser
      else Inr (t\<lparr>ut_rows := map (\<lambda>u. if us_ID u = userID then u\<lparr>us_LastLogin := Some (cn_now c div second)\<rparr> else u) (ut_rows t)\<rparr>))"

definition ListUsers :: "conn \<Rightarrow> user_table \<Rightarrow> user_error + user list" where
  "ListUsers c t = (if \<not> cn_ok c then Inl UserDb else Inr (sort_key (\<lambda>u. - us_CreatedAt u) (ut_rows t)))"

definition DeleteUser :: "conn \<Rightarrow> nat \<Rightarrow> user_table \<Rightarrow> user_error + user_table" where
  "DeleteUser c userID t =
     (if \<not> cn_ok c then Inl UserDb
      else if userID \<notin> us_ID ` set (ut_rows t) then Inl NoSuchUser
      else Inr (t\<lparr>ut_rows := filter (\<lambda>u. us_ID u \<noteq> userID) (ut_rows t)\<rparr>))"

section \<open>The pages\<close>

text \<open>The decoded body of a login or setup request, when it decodes.\<close>

type_synonym credentials = "(string \<times> string) option"

datatype user_answer =
    UserDenied int string
  | TokenRefused auth_error
  | LoggedIn string user
  | Session user
  | LoggedOut
  | SetupStatus bool bool
  | SetupDone string
  | TokenValid string "claim option"

text \<open>A successful login updates the time of the last login later, in the background (\<open>UpdateLastLogin\<close>).\<close>

definition HandleLogin ::
  "(string \<Rightarrow> claims \<Rightarrow> string + string) \<Rightarrow> bcrypt \<Rightarrow> auth_env \<Rightarrow> auth_manager \<Rightarrow> gotime \<Rightarrow> conn \<Rightarrow> request \<Rightarrow> credentials
   \<Rightarrow> user_table \<Rightarrow> user_answer" where
  "HandleLogin jwt_sign bc env m now c r body t =
     (if rq_Method r \<noteq> ''POST'' then UserDenied 405 ''METHOD_NOT_ALLOWED''
      else case body of
        None \<Rightarrow> UserDenied 400 ''INVALID_REQUEST''
      | Some (username, password) \<Rightarrow>
          (if username = [] \<or> password = [] then UserDenied 400 ''MISSING_FIELDS''
           else case ValidateCredentials bc c username password t of
             Inl e \<Rightarrow> UserDenied 401 ''INVALID_CREDENTIALS''
           | Inr u \<Rightarrow>
               (case SignJWT jwt_sign m now (''user-'' @ us_Username u) (DetermineScopes env ''web'') (12 * hour) of
                  Inl e \<Rightarrow> UserDenied 500 ''TOKEN_GENERATION_FAILED''
                | Inr token \<Rightarrow> LoggedIn token u)))"

definition HandleAuthMe :: "jwt_parser \<Rightarrow> auth_manager \<Rightarrow> gotime \<Rightarrow> conn \<Rightarrow> request \<Rightarrow> user_table \<Rightarrow> user_answer" where
  "HandleAuthMe jwt_parse m now c r t =
     (if rq_Method r \<noteq> ''GET'' then UserDenied 405 ''METHOD_NOT_ALLOWED''
      else (let token = ExtractBearerToken r in
        if token = [] then UserDenied 401 ''MISSING_TOKEN''
        else case ParseJWT jwt_parse m now token of
          Inl e \<Rightarrow> UserDenied 401 ''INVALID_TOKEN''
        | Inr claims \<Rightarrow>
            (case subject claims of
               None \<Rightarrow> UserDenied 401 ''INVALID_TOKEN''
             | Some deviceID \<Rightarrow>
                 (let username = TrimPrefix deviceID ''user-'' in
                  if username = deviceID then UserDenied 401 ''INVALID_TOKEN''
                  else case GetUserByUsername c username t of
                    Inl e \<Rightarrow> UserDenied 401 ''USER_NOT_FOUND''
                  | Inr None \<Rightarrow> UserDenied 401 ''USER_NOT_FOUND''
                  | Inr (Some u) \<Rightarrow> if \<not> us_IsActive u then UserDenied 401 ''USER_DISABLED'' else Session u))))"

definition HandleLogout :: "jwt_parser \<Rightarrow> auth_manager \<Rightarrow> gotime \<Rightarrow> request \<Rightarrow> user_answer" where
  "HandleLogout jwt_parse m now r =
     (if rq_Method r \<noteq> ''POST'' then UserDenied 405 ''METHOD_NOT_ALLOWED''
      else (let token = ExtractBearerToken r in
        if token = [] then UserDenied 401 ''MISSING_TOKEN''
        else case ParseJWT jwt_parse m now token of
          Inl e \<Rightarrow> UserDenied 401 ''INVALID_TOKEN''
        | Inr claims \<Rightarrow> LoggedOut))"

definition HandleSetupStatus :: "conn \<Rightarrow> request \<Rightarrow> user_table \<Rightarrow> user_answer" where
  "HandleSetupStatus c r t =
     (if rq_Method r \<noteq> ''GET'' then UserDenied 405 ''METHOD_NOT_ALLOWED''
      else case ListUsers c t of
        Inl e \<Rightarrow> UserDenied 500 ''DATABASE_ERROR''
      | Inr users \<Rightarrow> SetupStatus (length users = 0) (length users > 0))"

text \<open>The setup page looks for users first and creates one then, in two statements that other requests can come
  between; \<open>HandleSetup\<close> is the page without such a request.\<close>

definition setup_check :: "conn \<Rightarrow> request \<Rightarrow> user_table \<Rightarrow> user_answer option" where
  "setup_check c r t =
     (if rq_Method r \<noteq> ''POST'' then Some (UserDenied 405 ''METHOD_NOT_ALLOWED'')
      else case ListUsers c t of
        Inl e \<Rightarrow> Some (UserDenied 500 ''DATABASE_ERROR'')
      | Inr users \<Rightarrow> if length users > 0 then Some (UserDenied 400 ''SETUP_ALREADY_COMPLETED'') else None)"

definition setup_create :: "bcrypt \<Rightarrow> conn \<Rightarrow> string \<Rightarrow> credentials \<Rightarrow> user_table \<Rightarrow> user_table \<times> user_answer" where
  "setup_create bc c salt body t =
     (case body of
        None \<Rightarrow> (t, UserDenied 400 ''INVALID_REQUEST'')
      | Some (username, password) \<Rightarrow>
          (if username = [] \<or> password = [] then (t, UserDenied 400 ''MISSING_FIELDS'')
           else case CreateUser bc c salt username password t of
             Inl e \<Rightarrow> (t, UserDenied 400 ''USER_CREATION_FAILED'')
           | Inr t' \<Rightarrow> (t', SetupDone username)))"

definition HandleSetup ::
  "bcrypt \<Rightarrow> conn \<Rightarrow> conn \<Rightarrow> string \<Rightarrow> request \<Rightarrow> credentials \<Rightarrow> user_table \<Rightarrow> user_table \<times> user_answer" where
  "HandleSetup bc c1 c2 salt r body t =
     (case setup_check c1 r t of Some a \<Rightarrow> (t, a) | None \<Rightarrow> setup_create bc c2 salt body t)"

definition HandleVerifyToken :: "jwt_parser \<Rightarrow> auth_manager \<Rightarrow> gotime \<Rightarrow> request \<Rightarrow> user_answer" where
  "HandleVerifyToken jwt_parse m now r =
     (if rq_Method r \<noteq> ''GET'' then UserDenied 405 ''METHOD_NOT_ALLOWED''
      else (let token = ExtractBearerToken r in
        if token = [] then UserDenied 401 ''AUTH_REQUIRED''
        else case ParseJWT jwt_parse m now token of
          Inl e \<Rightarrow> TokenRefused e
        | Inr claims \<Rightarrow>
            TokenValid (case get claims ''sub'' of Some (CString d) \<Rightarrow> d | _ \<Rightarrow> [])
              (case get claims ''exp'' of Some (CNumber n) \<Rightarrow> Some (CNumber n) | _ \<Rightarrow> None)))"

section \<open>One account\<close>

datatype user_op =
    Setup conn conn string request credentials
  | LastLogin conn nat

definition user_step :: "bcrypt \<Rightarrow> user_table \<Rightarrow> user_op \<Rightarrow> user_table" where
  "user_step bc t op =
     (case op of
        Setup c1 c2 salt r body \<Rightarrow> fst (HandleSetup bc c1 c2 salt r body t)
      | LastLogin c i \<Rightarrow> (case UpdateLastLogin c i t of Inl e \<Rightarrow> t | Inr t' \<Rightarrow> t'))"

definition user_run :: "bcrypt \<Rightarrow> user_op list \<Rightarrow> user_table \<Rightarrow> user_table" where
  "user_run bc ops t = foldl (user_step bc) t ops"

definition sole_user :: "string \<Rightarrow> string \<Rightarrow> user_table \<Rightarrow> bool" where
  "sole_user u h t \<longleftrightarrow> (\<exists>row. ut_rows t = [row] \<and> us_Username row = u \<and> us_PasswordHash row = h \<and> us_IsActive row)"

lemma setup_check_None: "setup_check c r t = None \<Longrightarrow> ut_rows t = []"
  by (auto simp: setup_check_def ListUsers_def split: if_splits)

lemma setup_creates:
  assumes "setup_create bc c salt body t = (t', SetupDone u)" "ut_rows t = []"
  obtains p h where "body = Some (u, p)" "validateUsername u = None" "validatePassword p = None"
    "bc_hash bc salt p = Some h" "sole_user u h t'"
  using assms
  by (auto simp: setup_create_def CreateUser_def sole_user_def split: option.splits prod.splits sum.splits if_splits)

lemma setup_refused: "setup_create bc c salt body t = (t', a) \<Longrightarrow> (\<forall>u. a \<noteq> SetupDone u) \<Longrightarrow> t' = t"
  by (auto simp: setup_create_def split: option.splits prod.splits sum.splits if_splits)

lemma HandleSetup_cases:
  assumes "HandleSetup bc c1 c2 salt r body t = (t', a)"
  obtains (refused) "t' = t" "\<forall>u. a \<noteq> SetupDone u"
  | (created) u p h where "a = SetupDone u" "ut_rows t = []" "body = Some (u, p)" "validateUsername u = None"
      "validatePassword p = None" "bc_hash bc salt p = Some h" "sole_user u h t'"
proof (cases "setup_check c1 r t")
  case None
  then have c: "setup_create bc c2 salt body t = (t', a)" using assms by (simp add: HandleSetup_def)
  show thesis
  proof (cases "\<exists>u. a = SetupDone u")
    case True
    then obtain u where "a = SetupDone u" by blast
    with c show thesis by (metis setup_creates [OF _ setup_check_None [OF None]] created setup_check_None [OF None])
  next
    case False
    with setup_refused [OF c] show thesis by (intro refused) auto
  qed
next
  case (Some b)
  then have "t' = t" "a = b" using assms by (simp_all add: HandleSetup_def)
  moreover have "\<forall>u. b \<noteq> SetupDone u"
    using Some by (auto simp: setup_check_def split: if_splits sum.splits)
  ultimately show thesis by (intro refused) auto
qed

lemma sole_user_step:
  assumes "sole_user u h t"
  shows "sole_user u h (user_step bc t op)"
proof (cases op)
  case (Setup c1 c2 salt r body)
  have "ut_rows t \<noteq> []" using assms by (auto simp: sole_user_def)
  then show ?thesis
    using assms by (cases "HandleSetup bc c1 c2 salt r body t" rule: prod.exhaust)
      (auto simp: user_step_def Setup elim: HandleSetup_cases)
next
  case (LastLogin c i)
  then show ?thesis
    using assms by (auto simp: user_step_def UpdateLastLogin_def sole_user_def)
qed

lemma sole_user_run: "sole_user u h t \<Longrightarrow> sole_user u h (user_run bc ops t)"
  unfolding user_run_def by (induction ops arbitrary: t) (simp_all add: sole_user_step)

lemma user_step_empty:
  assumes "ut_rows t = []" "ut_rows (user_step bc t op) \<noteq> []"
  obtains c1 c2 salt r u p h where "op = Setup c1 c2 salt r (Some (u, p))" "validateUsername u = None" "validatePassword p = None"
    "bc_hash bc salt p = Some h" "sole_user u h (user_step bc t op)"
proof (cases op)
  case (Setup c1 c2 salt r body)
  obtain t' a where h: "HandleSetup bc c1 c2 salt r body t = (t', a)" by (cases "HandleSetup bc c1 c2 salt r body t") auto
  then have s: "user_step bc t op = t'" by (simp add: user_step_def Setup)
  from h show thesis by (cases rule: HandleSetup_cases) (use assms s Setup that in auto)
next
  case (LastLogin c i)
  then show thesis using assms by (auto simp: user_step_def UpdateLastLogin_def)
qed

lemma sole_user_login:
  assumes "sole_user u h t" "HandleLogin jwt_sign bc env m now c r body t = LoggedIn token v"
  obtains p where "body = Some (u, p)" "bc_compare bc h p" "us_Username v = u"
  using assms
  by (auto simp: sole_user_def HandleLogin_def ValidateCredentials_def GetUserByUsername_def
    split: if_splits option.splits prod.splits sum.splits)


text \<open>whoever completes the setup can log in with the name and password chosen there, whatever requests follow, and
  the token then answers the session check with that account until twelve hours have passed.\<close>

theorem setup_login_session:
  assumes "\<forall>salt p h. bc_hash bc salt p = Some h \<longrightarrow> bc_compare bc h p" "jwt_library_ok jwt_sign jwt_parse"
    and "HandleSetup bc c1 c2 salt r (Some (u, p)) t = (t1, SetupDone u)"
    and "SignJWT jwt_sign m now (''user-'' @ u) (DetermineScopes env ''web'') (12 * hour) = Inr token"
    and "rq_Method q = ''POST''" "cn_ok c" "rq_Method q' = ''GET''" "cn_ok c'" "ExtractBearerToken q' = token"
    and "\<not> IsRevoked (am_revocation m) now' token" "\<not> IsDeviceRevoked (am_revocation m) now' (''user-'' @ u)"
    and "now' < (now + 12 * hour) div second * second"
  shows "\<exists>v v'. HandleLogin jwt_sign bc env m now c q (Some (u, p)) (user_run bc ops t1) = LoggedIn token v \<and> us_Username v = u \<and>
    HandleAuthMe jwt_parse m now' c' q' (user_run bc ops' (user_run bc ops t1)) = Session v' \<and> us_Username v' = u"
proof -
  from assms(3) obtain h where h: "bc_hash bc salt p = Some h" "sole_user u h t1" "u \<noteq> []" "p \<noteq> []"
    by (cases rule: HandleSetup_cases) (auto simp: validateUsername_def validatePassword_def split: if_splits)
  let ?t = "user_run bc ops t1"
  have s: "sole_user u h ?t" "sole_user u h (user_run bc ops' ?t)" using h(2) by (simp_all add: sole_user_run)
  have j: "ParseJWT jwt_parse m now' token = Inr (jwt_claims m now (''user-'' @ u) (DetermineScopes env ''web'') (12 * hour))"
    by (rule issued_token_roundtrip_facts(1) [OF assms(2,4,10,11,12)])
  have "token \<noteq> []" using j by (auto simp: ParseJWT_def)
  moreover have "subject (jwt_claims m now (''user-'' @ u) (DetermineScopes env ''web'') (12 * hour)) = Some (''user-'' @ u)"
    by (simp add: subject_def jwt_claims_get)
  moreover have "TrimPrefix (''user-'' @ u) ''user-'' = u" by (simp add: TrimPrefix_def HasPrefix_def)
  ultimately have me: "\<exists>v'. HandleAuthMe jwt_parse m now' c' q' (user_run bc ops' ?t) = Session v' \<and> us_Username v' = u"
    using s(2) assms(7,8,9) j by (auto simp: HandleAuthMe_def sole_user_def GetUserByUsername_def Let_def)
  have "bc_compare bc h p" using assms(1) h(1) by blast
  then have "\<exists>v. HandleLogin jwt_sign bc env m now c q (Some (u, p)) ?t = LoggedIn token v \<and> us_Username v = u"
    using s(1) h(3,4) assms(4,5,6) by (auto simp: HandleLogin_def ValidateCredentials_def GetUserByUsername_def sole_user_def)
  with me show ?thesis by blast
qed


definition demo_bcrypt :: bcrypt where
  "demo_bcrypt = \<lparr>bc_hash = (\<lambda>salt p. if length p > 72 then None else Some (rev p)), bc_compare = (\<lambda>h p. h = rev p)\<rparr>"

definition demo_post :: request where "demo_post = demo_request\<lparr>rq_Method := ''POST''\<rparr>"

definition demo_login_claims :: claims where
  "demo_login_claims = jwt_claims demo_manager (5 * second) ''user-admin'' (DetermineScopes Auth.demo_env ''web'') (12 * hour)"

lemma setup_login_session_witness:
  "\<exists>v. us_Username v = ''admin'' \<and>
    HandleLogin (\<lambda>s c. if c = demo_login_claims then Inr ''t'' else Inl ''x'') demo_bcrypt Auth.demo_env demo_manager (5 * second)
      demo_conn demo_post (Some (''admin'', ''correct horse''))
      (user_run demo_bcrypt [] (fst (HandleSetup demo_bcrypt demo_conn demo_conn ''salt'' demo_post (Some (''admin'', ''correct horse''))
        InitializeUserSchema))) = LoggedIn ''t'' v"
proof -
  let ?sign = "\<lambda>s c. if c = demo_login_claims then Inr ''t'' else Inl ''x'' :: string + string"
  let ?parse = "\<lambda>validate (s :: string) now t. if t = ''t'' \<and> (validate \<longrightarrow> now < 43205 * second)
    then Inr (True, demo_login_claims) else Inl ''bad'' :: string + bool \<times> claims"
  let ?first = "HandleSetup demo_bcrypt demo_conn demo_conn ''salt'' demo_post (Some (''admin'', ''correct horse'')) InitializeUserSchema"
  let ?q' = "demo_request\<lparr>rq_Header := [(''Authorization'', ''Bearer t'')]\<rparr>"
  have e: "get demo_login_claims ''exp'' = Some (CNumber 43205)" by code_simp
  have l: "jwt_library_ok ?sign ?parse" by (auto simp: jwt_library_ok_def e)
  have s: "?first = (fst ?first, SetupDone ''admin'')" by code_simp
  have c: "jwt_claims demo_manager (5 * second) (''user-'' @ ''admin'') (DetermineScopes Auth.demo_env ''web'') (12 * hour) = demo_login_claims"
    by (simp add: demo_login_claims_def)
  have j: "SignJWT ?sign demo_manager (5 * second) (''user-'' @ ''admin'') (DetermineScopes Auth.demo_env ''web'') (12 * hour) = Inr ''t''"
    by (simp only: SignJWT_def c) (simp add: demo_manager_def)
  have b: "\<forall>salt p h. bc_hash demo_bcrypt salt p = Some h \<longrightarrow> bc_compare demo_bcrypt h p" by (simp add: demo_bcrypt_def)
  have m: "rq_Method demo_post = ''POST''" "cn_ok demo_conn" "rq_Method ?q' = ''GET''" "cn_ok demo_conn" "ExtractBearerToken ?q' = ''t''"
    "\<not> IsRevoked (am_revocation demo_manager) (6 * second) ''t''"
    "\<not> IsDeviceRevoked (am_revocation demo_manager) (6 * second) (''user-'' @ ''admin'')"
    "6 * second < (5 * second + 12 * hour) div second * second" by code_simp+
  from setup_login_session [OF b l s j m(1,2,3,4,5,6,7,8), of "[]" "[]"] show ?thesis by blast
qed


section \<open>What the pages allow\<close>

text \<open>Two setup requests that both look for users before either creates one create two accounts.\<close>

lemma interleaved_setups:
  assumes "ut_rows t = []" "rq_Method r = ''POST''" "rq_Method r' = ''POST''" "cn_ok c1" "cn_ok c1'" "cn_ok c2" "cn_ok c2'"
    and "validateUsername u = None" "validateUsername u' = None" "validatePassword p = None" "validatePassword p' = None"
    and "bc_hash bc s p = Some h" "bc_hash bc s' p' = Some h'" "u \<noteq> u'"
  shows "setup_check c1 r t = None \<and> setup_check c1' r' t = None \<and>
    map us_Username (ut_rows (fst (setup_create bc c2' s' (Some (u', p')) (fst (setup_create bc c2 s (Some (u, p)) t))))) = [u, u']"
proof -
  have ne: "u \<noteq> []" "u' \<noteq> []" "p \<noteq> []" "p' \<noteq> []"
    using assms(8-11) by (auto simp: validateUsername_def validatePassword_def)
  show ?thesis
    using assms ne by (simp add: setup_check_def ListUsers_def setup_create_def CreateUser_def)
qed

text \<open>The token of a device that paired under a name beginning with user- passes the session check of that account.\<close>

lemma paired_device_is_a_session:
  assumes "ParseJWT jwt_parse m now (ExtractBearerToken r) = Inr claims" "subject claims = Some (''user-'' @ u)" "rq_Method r = ''GET''"
    and "ExtractBearerToken r \<noteq> []" "cn_ok c" "sole_user u h t" "u \<noteq> []"
  shows "\<exists>v. HandleAuthMe jwt_parse m now c r t = Session v \<and> us_Username v = u"
proof -
  have "TrimPrefix (''user-'' @ u) ''user-'' = u" by (simp add: TrimPrefix_def HasPrefix_def)
  then show ?thesis using assms by (auto simp: HandleAuthMe_def sole_user_def GetUserByUsername_def Let_def)
qed

end
