(* ===== verification/Webhooks.thy ===== *)
theory Webhooks
  imports NotifAdmin Activity
begin

text \<open>
  Incoming webhooks (\<open>cmd/nekzus/webhooks.go\<close>): an activity event or an arbitrary payload goes to the devices
  it names, or to every paired device and every other connection.  Devices get a copy through the notification queue,
  connections that are no paired device a live one.
\<close>

section \<open>The application\<close>

text \<open>The queue works on the store of the application; without a queue the store may still be there.\<close>

datatype 'd backing =
    WithQueue "'d notif_queue"
  | StoreOnly store
  | NoStore

record 'd hook_app =
  ha_ws :: ws_manager
  ha_backing :: "'d backing"
  ha_activity :: "tracker option"

record activity_payload =
  wp_Message :: string
  wp_Icon :: string
  wp_IconClass :: string
  wp_Details :: string
  wp_DeviceIDs :: "string list"

text \<open>The clock and the connections of the statements, those of a loop by position.\<close>

record hook_env =
  he_now :: gotime
  he_list :: conn
  he_activity :: conn
  he_enqueue :: "nat \<Rightarrow> conn"

definition webhook_ttl :: duration where "webhook_ttl = 30 * 24 * hour"

section \<open>Delivery\<close>

fun enqueue_each :: "(nat \<Rightarrow> conn) \<Rightarrow> gotime \<Rightarrow> string \<Rightarrow> string \<Rightarrow> nat \<Rightarrow> string list \<Rightarrow> 'd notif_queue \<Rightarrow> 'd notif_queue" where
  "enqueue_each cs now ty pl i [] q = q"
| "enqueue_each cs now ty pl i (d # ds) q =
     enqueue_each cs now ty pl (Suc i) ds (fst (Enqueue (cs i) now q d ty pl webhook_ttl 5))"

fun store_each :: "(nat \<Rightarrow> conn) \<Rightarrow> (string \<Rightarrow> bool) \<Rightarrow> string \<Rightarrow> string \<Rightarrow> nat \<Rightarrow> string list \<Rightarrow> store \<Rightarrow> store" where
  "store_each cs online ty pl i [] st = st"
| "store_each cs online ty pl i (d # ds) st =
     store_each cs online ty pl (Suc i) ds
       (if online d then st
        else case EnqueueNotification (cs i) st d ty pl webhook_ttl 5 of Inl e \<Rightarrow> st | Inr (st', n) \<Rightarrow> st')"

definition is_target :: "string list \<Rightarrow> client \<Rightarrow> bool" where
  "is_target deviceIDs c \<longleftrightarrow> cl_deviceID c \<in> set deviceIDs"

text \<open>The marshalled payload is \<open>None\<close> when marshalling fails.\<close>

definition deliverTargetedWebhook ::
  "hook_env \<Rightarrow> ws_message \<Rightarrow> string list \<Rightarrow> string \<Rightarrow> string option \<Rightarrow> 'd hook_app \<Rightarrow> 'd hook_app" where
  "deliverTargetedWebhook env msg deviceIDs ty payload a =
     (let online = (\<lambda>d. \<exists>p \<in> set (wm_clients (ha_ws a)). is_target deviceIDs (client_at (ha_ws a) p) \<and> cl_deviceID (client_at (ha_ws a) p) = d);
          live = a\<lparr>ha_ws := BroadcastFiltered msg (is_target deviceIDs) (ha_ws a)\<rparr>
      in case (ha_backing a, payload) of
           (WithQueue q, Some pl) \<Rightarrow> a\<lparr>ha_backing := WithQueue (enqueue_each (he_enqueue env) (he_now env) ty pl 0 deviceIDs q)\<rparr>
         | (StoreOnly st, Some pl) \<Rightarrow> live\<lparr>ha_backing := StoreOnly (store_each (he_enqueue env) online ty pl 0 deviceIDs st)\<rparr>
         | _ \<Rightarrow> live)"

definition deliverBroadcastWebhook ::
  "hook_env \<Rightarrow> ws_message \<Rightarrow> string \<Rightarrow> string option \<Rightarrow> 'd hook_app \<Rightarrow> 'd hook_app" where
  "deliverBroadcastWebhook env msg ty payload a =
     (let live = a\<lparr>ha_ws := Broadcast msg (ha_ws a)\<rparr> in
      case ha_backing a of
        WithQueue q \<Rightarrow>
          (case ListDevices (he_list env) (nq_store q) of
             Inl e \<Rightarrow> live
           | Inr devices \<Rightarrow>
               (let deviceIDs = map fst devices;
                    a1 = a\<lparr>ha_ws := BroadcastFiltered msg (\<lambda>c. cl_deviceID c \<notin> set deviceIDs) (ha_ws a)\<rparr>
                in if length deviceIDs > 0 then deliverTargetedWebhook env msg deviceIDs ty payload a1 else a1))
      | _ \<Rightarrow> live)"

section \<open>The endpoints\<close>

datatype hook_answer = HookRefused int | HookDone string | HookSent

text \<open>\<open>marshal\<close> and \<open>as_data\<close> render the event for the queue and for the live message.\<close>

definition webhook_event :: "hook_env \<Rightarrow> activity_payload \<Rightarrow> activity_event" where
  "webhook_event env p =
     \<lparr>ev_ID = ''webhook-'' @ Itoa (he_now env), ev_Type = ''webhook.activity'',
      ev_Icon = (if wp_Icon p = [] then ''Bell'' else wp_Icon p), ev_IconClass = wp_IconClass p,
      ev_Message = wp_Message p, ev_Details = wp_Details p, ev_Timestamp = he_now env div 1000000\<rparr>"

definition handleWebhookActivity ::
  "(activity_event \<Rightarrow> string option) \<Rightarrow> (activity_event \<Rightarrow> ws_data) \<Rightarrow> hook_env \<Rightarrow> string \<Rightarrow> activity_payload option
   \<Rightarrow> 'd hook_app \<Rightarrow> 'd hook_app \<times> hook_answer" where
  "handleWebhookActivity marshal as_data env meth body a =
     (if meth \<noteq> ''POST'' then (a, HookRefused 405)
      else case body of
        None \<Rightarrow> (a, HookRefused 400)
      | Some p \<Rightarrow>
          (if wp_Message p = [] then (a, HookRefused 400)
           else (let event = webhook_event env p;
                     a1 = a\<lparr>ha_activity := map_option (AddEvent (he_activity env) event) (ha_activity a)\<rparr>;
                     msg = (ws_msg ''webhook'' (as_data event))\<lparr>ms_Timestamp := he_now env\<rparr>
                 in (if length (wp_DeviceIDs p) > 0
                     then deliverTargetedWebhook env msg (wp_DeviceIDs p) ''webhook.activity'' (marshal event) a1
                     else deliverBroadcastWebhook env msg ''webhook.activity'' (marshal event) a1,
                     HookDone (ev_ID event)))))"

text \<open>The body of the second endpoint: the devices it names and the decoded payload.\<close>

definition handleWebhookNotify ::
  "('p \<Rightarrow> string option) \<Rightarrow> ('p \<Rightarrow> ws_data) \<Rightarrow> hook_env \<Rightarrow> string \<Rightarrow> (string list \<times> 'p) option
   \<Rightarrow> 'd hook_app \<Rightarrow> 'd hook_app \<times> hook_answer" where
  "handleWebhookNotify marshal as_data env meth body a =
     (if meth \<noteq> ''POST'' then (a, HookRefused 405)
      else case body of
        None \<Rightarrow> (a, HookRefused 400)
      | Some (deviceIDs, payload) \<Rightarrow>
          (let msg = (ws_msg ''webhook'' (as_data payload))\<lparr>ms_Timestamp := he_now env\<rparr>
           in (if length deviceIDs > 0
               then deliverTargetedWebhook env msg deviceIDs ''webhook.notify'' (marshal payload) a
               else deliverBroadcastWebhook env msg ''webhook.notify'' (marshal payload) a,
               HookSent)))"

section \<open>Everybody gets one copy\<close>

text \<open>The copies of a message for a device that wait in the queue or are stored.\<close>

definition copies :: "string \<Rightarrow> string \<Rightarrow> 'd notif_queue \<Rightarrow> string \<Rightarrow> nat" where
  "copies ty pl q d =
     length (filter (\<lambda>n. nt_DeviceID n = d \<and> nt_Type n = ty \<and> nt_Payload n = pl) (nq_notifChan q)) +
     length (filter (\<lambda>(i, n). sn_DeviceID n = d \<and> sn_Type n = ty \<and> sn_Payload n = pl) (st_notifs (nq_store q)))"

lemma notifs_ok_fresh: "notifs_ok st \<Longrightarrow> \<not> has (st_notifs st) (st_next_notif st)"
  by (force simp: notifs_ok_def has_def)

lemma EnqueueNotification_row:
  assumes "notifs_ok st" "cn_ok c" "cn_fk c \<longrightarrow> has (st_devices st) d"
  obtains n where "EnqueueNotification c st d ty pl ttl mr =
      Inr (st\<lparr>st_notifs := st_notifs st @ [(st_next_notif st, n)], st_next_notif := st_next_notif st + 1\<rparr>, st_next_notif st)"
    and "sn_DeviceID n = d" "sn_Type n = ty" "sn_Payload n = pl"
  using assms by (auto simp: EnqueueNotification_def Let_def put_new [OF notifs_ok_fresh])

lemma Enqueue_copies:
  assumes "notifs_ok (nq_store q)" "cn_ok c" "cn_fk c \<longrightarrow> has (st_devices (nq_store q)) d"
  shows "copies ty pl (fst (Enqueue c now q d ty pl ttl mr)) d' = copies ty pl q d' + (if d' = d then 1 else 0)"
    and "notifs_ok (nq_store (fst (Enqueue c now q d ty pl ttl mr)))"
    and "st_devices (nq_store (fst (Enqueue c now q d ty pl ttl mr))) = st_devices (nq_store q)"
proof -
  obtain n where n: "EnqueueNotification c (nq_store q) d ty pl ttl mr =
      Inr (nq_store q\<lparr>st_notifs := st_notifs (nq_store q) @ [(st_next_notif (nq_store q), n)],
        st_next_notif := st_next_notif (nq_store q) + 1\<rparr>, st_next_notif (nq_store q))"
    and v: "sn_DeviceID n = d" "sn_Type n = ty" "sn_Payload n = pl"
    by (rule EnqueueNotification_row [OF assms])
  show "copies ty pl (fst (Enqueue c now q d ty pl ttl mr)) d' = copies ty pl q d' + (if d' = d then 1 else 0)"
    by (simp add: Enqueue_def Let_def n copies_def v)
  show "notifs_ok (nq_store (fst (Enqueue c now q d ty pl ttl mr)))"
    using EnqueueNotification_keeps(1) [OF n assms(1)] assms(1) by (simp add: Enqueue_def Let_def n)
  show "st_devices (nq_store (fst (Enqueue c now q d ty pl ttl mr))) = st_devices (nq_store q)"
    by (simp add: Enqueue_def Let_def n)
qed

lemma enqueue_each_copies:
  assumes "notifs_ok (nq_store q)" "\<forall>i. cn_ok (cs i)" "\<forall>i. cn_fk (cs i) \<longrightarrow> (\<forall>d \<in> set ds. has (st_devices (nq_store q)) d)"
  shows "copies ty pl (enqueue_each cs now ty pl i ds q) d = copies ty pl q d + count_list ds d"
  using assms
proof (induction ds arbitrary: i q)
  case (Cons e ds)
  let ?q = "fst (Enqueue (cs i) now q e ty pl webhook_ttl 5)"
  have c: "cn_ok (cs i)" "cn_fk (cs i) \<longrightarrow> has (st_devices (nq_store q)) e" using Cons.prems by auto
  note E = Enqueue_copies [OF Cons.prems(1) c, where ty = ty and pl = pl and now = now and ttl = webhook_ttl and mr = 5]
  have "copies ty pl (enqueue_each cs now ty pl (Suc i) ds ?q) d = copies ty pl ?q d + count_list ds d"
    by (rule Cons.IH [OF E(2) Cons.prems(2)]) (use Cons.prems(3) E(3) in simp)
  then show ?case by (simp add: E(1))
qed simp

lemma BroadcastFiltered_chan:
  assumes "ws_reach wm"
  shows "chan (BroadcastFiltered msg P wm) p =
    chan wm p @ (if p \<in> set (wm_clients wm) \<and> P (client_at wm p) \<and> can_send (client_at wm p) then [msg] else [])"
proof -
  have inv: "distinct (wm_clients wm)" "\<forall>p \<in> set (wm_clients wm). known wm p"
    using ws_reach_inv [OF assms] by (simp_all add: ws_inv_def)
  show ?thesis
    unfolding chan_def by (subst BroadcastFiltered_client [OF inv(1)]) (use inv(2) in \<open>auto simp: TrySend_chan\<close>)
qed

lemma count_list_distinct: "distinct xs \<Longrightarrow> count_list xs x = (if x \<in> set xs then 1 else 0)"
  by (induction xs) auto

lemma listed_devices:
  assumes "ListDevices c st = Inr ds" "wf_map (st_devices st)"
  shows "count_list (map fst ds) d = (if has (st_devices st) d then 1 else 0)"
    "fst ` set ds = fst ` set (st_devices st)"
proof -
  have ds: "ds = sort_key (\<lambda>(i, d). - dr_last_seen d) (st_devices st)"
    using assms(1) by (auto simp: ListDevices_def split: if_splits)
  show s: "fst ` set ds = fst ` set (st_devices st)" by (simp add: ds)
  have "mset (map fst ds) = mset (map fst (st_devices st))" by (simp add: ds)
  then have "distinct (map fst ds)" using assms(2) by (metis mset_eq_imp_distinct_iff wf_map_def)
  then have "count_list (map fst ds) d = (if d \<in> set (map fst ds) then 1 else 0)"
    by (rule count_list_distinct)
  then show "count_list (map fst ds) d = (if has (st_devices st) d then 1 else 0)" by (simp add: s has_iff)
qed

text \<open>an accepted webhook without targets puts exactly one copy for every paired device into the queue or its table and
  sends the message once to every open connection that is no paired device, and to nobody else; with targets it
  enqueues one copy each time a device is named, and nothing is sent live.\<close>

theorem webhook_reaches_each_once:
  assumes "handleWebhookNotify marshal as_data env ''POST'' (Some (ids, p)) a = (a', ans)"
    and "ha_backing a = WithQueue q" "marshal p = Some pl"
    and "ws_reach (ha_ws a)" "notifs_ok (nq_store q)" "wf_map (st_devices (nq_store q))"
    and "cn_ok (he_list env)" "\<forall>i. cn_ok (he_enqueue env i)"
    and "\<forall>i. cn_fk (he_enqueue env i) \<longrightarrow> (\<forall>d \<in> set ids. has (st_devices (nq_store q)) d)"
  shows "\<exists>q'. ha_backing a' = WithQueue q' \<and> ans = HookSent \<and>
    (\<forall>d. copies ''webhook.notify'' pl q' d = copies ''webhook.notify'' pl q d +
       (if ids = [] then if has (st_devices (nq_store q)) d then 1 else 0 else count_list ids d)) \<and>
    (\<forall>k. chan (ha_ws a') k = chan (ha_ws a) k @
       (if ids = [] \<and> k \<in> set (wm_clients (ha_ws a)) \<and> \<not> has (st_devices (nq_store q)) (cl_deviceID (client_at (ha_ws a) k))
           \<and> can_send (client_at (ha_ws a) k)
        then [(ws_msg ''webhook'' (as_data p))\<lparr>ms_Timestamp := he_now env\<rparr>] else []))"
proof (cases "ids = []")
  case False
  then have a': "a' = a\<lparr>ha_backing := WithQueue (enqueue_each (he_enqueue env) (he_now env) ''webhook.notify'' pl 0 ids q)\<rparr>"
    and "ans = HookSent"
    using assms(1-3) by (simp_all add: handleWebhookNotify_def Let_def deliverTargetedWebhook_def)
  with False show ?thesis using enqueue_each_copies [OF assms(5,8,9)] by simp
next
  case True
  let ?msg = "(ws_msg ''webhook'' (as_data p))\<lparr>ms_Timestamp := he_now env\<rparr>"
  obtain ds where ds: "ListDevices (he_list env) (nq_store q) = Inr ds" using assms(7) by (simp add: ListDevices_def)
  note L = listed_devices [OF ds assms(6)]
  let ?q = "enqueue_each (he_enqueue env) (he_now env) ''webhook.notify'' pl 0 (map fst ds) q"
  have a': "ha_ws a' = BroadcastFiltered ?msg (\<lambda>c. cl_deviceID c \<notin> set (map fst ds)) (ha_ws a)"
    "ha_backing a' = WithQueue ?q" "ans = HookSent"
    using assms(1-3) True
    by (auto simp: handleWebhookNotify_def Let_def deliverBroadcastWebhook_def ds deliverTargetedWebhook_def split: if_splits)
  have q: "copies ''webhook.notify'' pl ?q d = copies ''webhook.notify'' pl q d + count_list (map fst ds) d" for d
    by (rule enqueue_each_copies [OF assms(5,8)]) (simp add: has_iff flip: L(2))
  have w: "chan (ha_ws a') k = chan (ha_ws a) k @ (if k \<in> set (wm_clients (ha_ws a)) \<and>
      cl_deviceID (client_at (ha_ws a) k) \<notin> set (map fst ds) \<and> can_send (client_at (ha_ws a) k) then [?msg] else [])" for k
    unfolding a'(1) by (rule BroadcastFiltered_chan [OF assms(4)])
  show ?thesis using True a' q w by (simp add: L(1) L(2) has_iff)
qed


definition demo_hook_store :: store where
  "demo_hook_store = empty_store\<lparr>st_devices :=
     [(''phone'', \<lparr>dr_name = ''P'', dr_platform = [], dr_platform_version = [], dr_scopes = [], dr_created_at = 1, dr_last_seen = 1\<rparr>),
      (''tablet'', \<lparr>dr_name = ''T'', dr_platform = [], dr_platform_version = [], dr_scopes = [], dr_created_at = 1, dr_last_seen = 2\<rparr>)]\<rparr>"

definition demo_hook_app :: "unit hook_app" where
  "demo_hook_app = \<lparr>ha_ws = ws_two, ha_backing = WithQueue (NewQueue 1 demo_hook_store ()), ha_activity = None\<rparr>"

definition demo_hook_env :: hook_env where
  "demo_hook_env = (let c = \<lparr>cn_ok = True, cn_fk = True, cn_now = 5 * second\<rparr> in
     \<lparr>he_now = 5 * second, he_list = c, he_activity = c, he_enqueue = (\<lambda>i. c)\<rparr>)"

lemma webhook_reaches_each_once_witness:
  "\<exists>a' q'. handleWebhookNotify Some JSONText demo_hook_env ''POST'' (Some ([], ''{}'')) demo_hook_app = (a', HookSent) \<and>
     ha_backing a' = WithQueue q' \<and> copies ''webhook.notify'' ''{}'' q' ''phone'' = 1 \<and> copies ''webhook.notify'' ''{}'' q' ''tablet'' = 1 \<and>
     copies ''webhook.notify'' ''{}'' q' ''tv'' = 0 \<and> chan (ha_ws a') 1 = chan ws_two 1 \<and> length (chan (ha_ws a') 2) = length (chan ws_two 2) + 1"
proof -
  let ?q = "NewQueue 1 demo_hook_store ()"
  obtain a' ans where h: "handleWebhookNotify Some JSONText demo_hook_env ''POST'' (Some ([], ''{}'')) demo_hook_app = (a', ans)"
    by (cases "handleWebhookNotify Some JSONText demo_hook_env ''POST'' (Some ([], ''{}'')) demo_hook_app") auto
  have b: "ha_backing demo_hook_app = WithQueue ?q" "ws_reach (ha_ws demo_hook_app)" "notifs_ok (nq_store ?q)"
    "wf_map (st_devices (nq_store ?q))" "cn_ok (he_list demo_hook_env)" "\<forall>i. cn_ok (he_enqueue demo_hook_env i)"
    "\<forall>i. cn_fk (he_enqueue demo_hook_env i) \<longrightarrow> (\<forall>d \<in> set []. has (st_devices (nq_store ?q)) d)"
    by (simp_all add: demo_hook_app_def ws_two_reach demo_hook_env_def NewQueue_def demo_hook_store_def notifs_ok_def empty_store_def wf_map_def Let_def)
  have d: "has (st_devices (nq_store ?q)) ''phone''" "has (st_devices (nq_store ?q)) ''tablet''" "\<not> has (st_devices (nq_store ?q)) ''tv''"
    "cl_deviceID (client_at (ha_ws demo_hook_app) 1) = ''phone''" "cl_deviceID (client_at (ha_ws demo_hook_app) 2) = ''tv''"
    "2 \<in> set (wm_clients (ha_ws demo_hook_app))" "can_send (client_at (ha_ws demo_hook_app) 2)"
    "copies ''webhook.notify'' ''{}'' ?q ''phone'' = 0" "copies ''webhook.notify'' ''{}'' ?q ''tablet'' = 0" "copies ''webhook.notify'' ''{}'' ?q ''tv'' = 0"
    by code_simp+
  have w: "ha_ws demo_hook_app = ws_two" by (simp add: demo_hook_app_def)
  from webhook_reaches_each_once [OF h b(1) refl b(2-7)] obtain q' where r: "ha_backing a' = WithQueue q'" "ans = HookSent"
    "\<And>d. copies ''webhook.notify'' ''{}'' q' d = copies ''webhook.notify'' ''{}'' ?q d + (if has (st_devices (nq_store ?q)) d then 1 else 0)"
    "\<And>k. chan (ha_ws a') k = chan (ha_ws demo_hook_app) k @
       (if k \<in> set (wm_clients (ha_ws demo_hook_app)) \<and> \<not> has (st_devices (nq_store ?q)) (cl_deviceID (client_at (ha_ws demo_hook_app) k))
           \<and> can_send (client_at (ha_ws demo_hook_app) k)
        then [(ws_msg ''webhook'' (JSONText ''{}''))\<lparr>ms_Timestamp := he_now demo_hook_env\<rparr>] else [])"
    by auto
  have "chan (ha_ws a') 1 = chan ws_two 1" "length (chan (ha_ws a') 2) = length (chan ws_two 2) + 1"
    by (simp_all only: r(4) d simp_thms if_True if_False) (simp_all add: w)
  moreover have "copies ''webhook.notify'' ''{}'' q' ''phone'' = 1" "copies ''webhook.notify'' ''{}'' q' ''tablet'' = 1"
    "copies ''webhook.notify'' ''{}'' q' ''tv'' = 0"
    by (simp_all only: r(3) d if_True if_False)
  ultimately show ?thesis using h r(1,2) by blast
qed

end
