(* ===== verification/Scripts.thy ===== *)
theory Scripts
  imports Numbers Paths
begin

text \<open>
  Scripts: their description (\<open>internal/scripts/types.go\<close>), the checks on files and parameters
  (\<open>manager.go\<close>), the executor on the host (\<open>executor.go\<close>), the executor in containers
  (\<open>container_executor.go\<close>) and workflows (\<open>workflow.go\<close>).  The file system, the matcher of regular
  expressions, the running of a command and the Docker client are arguments.
\<close>

section \<open>Types\<close>

datatype script_type = ScriptShell | ScriptGoBinary | ScriptPython | ScriptOther string

record script_parameter =
  pr_Name :: string
  pr_Label :: string
  pr_Description :: string
  pr_Type :: string
  pr_Required :: bool
  pr_Default :: string
  pr_Options :: "string list"
  pr_Validation :: string

record script =
  sc_ID :: string
  sc_Name :: string
  sc_Description :: string
  sc_Category :: string
  sc_ScriptPath :: string
  sc_ScriptType :: script_type
  sc_TimeoutSeconds :: int
  sc_Parameters :: "script_parameter list"
  sc_Environment :: "(string, string) gomap"
  sc_AllowedScopes :: "string list"
  sc_DryRunCommand :: string
  sc_CreatedBy :: string
  sc_CreatedAt :: gotime
  sc_UpdatedAt :: gotime

type_synonym params = "(string, string) gomap"

section \<open>The manager\<close>

text \<open>\<open>filepath.Ext\<close>: from the last dot of the last element.\<close>

definition filepath_Ext :: "string \<Rightarrow> string" where
  "filepath_Ext p =
     (let e = takeWhile (\<lambda>c. c \<noteq> CHR ''.'' \<and> c \<noteq> CHR ''/'') (rev p)
      in if length e < length p \<and> rev p ! length e = CHR ''.'' then CHR ''.'' # rev e else [])"

definition DetectScriptType :: "string \<Rightarrow> script_type" where
  "DetectScriptType filename =
     (let ext = ToLower (filepath_Ext filename) in
      if ext = ''.sh'' \<or> ext = ''.bash'' then ScriptShell
      else if ext = ''.py'' then ScriptPython
      else ScriptGoBinary)"

datatype param_error = MissingParameter string | BadPattern string | PatternMismatch string

text \<open>\<open>regex pattern value\<close> is \<open>None\<close> when the pattern does not compile.\<close>

fun ValidateParameters :: "(string \<Rightarrow> string \<Rightarrow> bool option) \<Rightarrow> script_parameter list \<Rightarrow> params \<Rightarrow> param_error option" where
  "ValidateParameters regex [] params = None"
| "ValidateParameters regex (p # ps) params =
     (let provided = has params (pr_Name p) in
      if pr_Required p \<and> \<not> provided \<and> pr_Default p = [] then Some (MissingParameter (pr_Name p))
      else if provided \<and> pr_Validation p \<noteq> [] then
        (case regex (pr_Validation p) (get_zero [] params (pr_Name p)) of
           None \<Rightarrow> Some (BadPattern (pr_Name p))
         | Some False \<Rightarrow> Some (PatternMismatch (pr_Name p))
         | Some True \<Rightarrow> ValidateParameters regex ps params)
      else ValidateParameters regex ps params)"

definition ApplyDefaults :: "script_parameter list \<Rightarrow> params \<Rightarrow> params" where
  "ApplyDefaults ps params =
     foldl (\<lambda>m p. if \<not> has m (pr_Name p) \<and> pr_Default p \<noteq> [] then put (pr_Name p) (pr_Default p) m else m) params ps"

definition env_entry :: "string \<times> string \<Rightarrow> string" where
  "env_entry kv = fst kv @ ''='' @ snd kv"

text \<open>\<open>host\<close> is the environment of the server.\<close>

definition BuildEnvironment :: "(string \<Rightarrow> string) \<Rightarrow> script \<Rightarrow> params \<Rightarrow> bool \<Rightarrow> string list" where
  "BuildEnvironment host s params dryRun =
     (if host ''PATH'' \<noteq> [] then [''PATH='' @ host ''PATH''] else []) @
     (if host ''HOME'' \<noteq> [] then [''HOME='' @ host ''HOME''] else []) @
     map env_entry (sc_Environment s) @ map env_entry params @
     (if dryRun then [''DRY_RUN=true''] else [])"

text \<open>\<open>filepath.Join\<close> of two elements.\<close>

definition filepath_Join :: "string \<Rightarrow> string \<Rightarrow> string" where
  "filepath_Join a b = (case filter (\<lambda>e. e \<noteq> []) [a, b] of [] \<Rightarrow> [] | es \<Rightarrow> path_Clean (Join ''/'' es))"

definition GetScriptPath :: "string \<Rightarrow> script \<Rightarrow> string" where
  "GetScriptPath scriptsDir s = filepath_Join scriptsDir (sc_ScriptPath s)"

datatype file_stat = NoFile | StatFailed | Directory | RegularFile int

type_synonym file_system = "string \<Rightarrow> file_stat"

datatype file_error = ScriptFileMissing | ScriptFileInaccessible | ScriptIsDirectory

definition ValidateScriptExists :: "file_system \<Rightarrow> string \<Rightarrow> script \<Rightarrow> file_error option" where
  "ValidateScriptExists fs scriptsDir s =
     (case fs (GetScriptPath scriptsDir s) of
        NoFile \<Rightarrow> Some ScriptFileMissing
      | StatFailed \<Rightarrow> Some ScriptFileInaccessible
      | Directory \<Rightarrow> Some ScriptIsDirectory
      | RegularFile mode \<Rightarrow> None)"

text \<open>The execute bits of the mode.\<close>

definition IsExecutable :: "file_system \<Rightarrow> string \<Rightarrow> script \<Rightarrow> file_error + bool" where
  "IsExecutable fs scriptsDir s =
     (case fs (GetScriptPath scriptsDir s) of
        NoFile \<Rightarrow> Inl ScriptFileMissing
      | StatFailed \<Rightarrow> Inl ScriptFileInaccessible
      | Directory \<Rightarrow> Inr True
      | RegularFile mode \<Rightarrow> Inr (mode div 64 mod 2 = 1 \<or> mode div 8 mod 2 = 1 \<or> mode mod 2 = 1))"

record available_script =
  av_Path :: string
  av_Name :: string
  av_ScriptType :: script_type

text \<open>The files of the walk, by their path below the directory and their name.\<close>

definition ScanDirectory :: "string \<Rightarrow> file_stat \<Rightarrow> (string \<times> string) list option \<Rightarrow> available_script list option" where
  "ScanDirectory scriptsDir stat files =
     (if scriptsDir = [] \<or> stat \<noteq> Directory then None
      else map_option (\<lambda>fs. map (\<lambda>(p, n). \<lparr>av_Path = p, av_Name = n, av_ScriptType = DetectScriptType n\<rparr>)
             (filter (\<lambda>(p, n). \<not> HasPrefix n ''.'') fs)) files)"

section \<open>Running on the host\<close>

record execution_result =
  xr_ExitCode :: int
  xr_Output :: string
  xr_TimedOut :: bool
  xr_Cancelled :: bool

text \<open>How the run of a command ended: without an error, with one and the state of the contexts, the exit code when
  the process has one.\<close>

datatype run_error = DeadlineExceeded | Canceled | Exited int | NotStarted

record command =
  cm_Args :: "string list"
  cm_Env :: "string list"
  cm_Timeout :: duration

record executor =
  xe_scriptsDir :: string
  xe_DefaultTimeout :: duration
  xe_MaxOutputBytes :: nat

definition NewExecutor :: "string \<Rightarrow> duration \<Rightarrow> nat \<Rightarrow> executor" where
  "NewExecutor dir timeout maxOutput =
     \<lparr>xe_scriptsDir = dir, xe_DefaultTimeout = (if timeout = 0 then 5 * minute else timeout),
      xe_MaxOutputBytes = (if maxOutput = 0 then 10 * 1024 * 1024 else maxOutput)\<rparr>"

definition truncate_output :: "nat \<Rightarrow> string \<Rightarrow> string" where
  "truncate_output n s =
     (if length s > n then take n s @ [char_of (10 :: nat), char_of (10 :: nat)] @ ''[Output truncated at '' @ Itoa (int n) @ '' bytes]'' else s)"

definition script_timeout :: "duration \<Rightarrow> script \<Rightarrow> duration" where
  "script_timeout dflt s = (let t = wrap64 (sc_TimeoutSeconds s * second) in if t = 0 then dflt else t)"

definition host_command :: "(string \<Rightarrow> string) \<Rightarrow> executor \<Rightarrow> script \<Rightarrow> params \<Rightarrow> bool \<Rightarrow> command" where
  "host_command host e s params dryRun =
     (let path = GetScriptPath (xe_scriptsDir e) s in
      \<lparr>cm_Args = (case sc_ScriptType s of
                    ScriptShell \<Rightarrow> [''/bin/bash'', path]
                  | ScriptPython \<Rightarrow> [''python3'', path]
                  | _ \<Rightarrow> [path]),
       cm_Env = BuildEnvironment host s params dryRun,
       cm_Timeout = script_timeout (xe_DefaultTimeout e) s\<rparr>)"

definition Execute ::
  "file_system \<Rightarrow> (string \<Rightarrow> string) \<Rightarrow> (command \<Rightarrow> string \<times> run_error option) \<Rightarrow> executor \<Rightarrow> script \<Rightarrow> params \<Rightarrow> bool
   \<Rightarrow> file_error + execution_result" where
  "Execute fs host run e s params dryRun =
     (case ValidateScriptExists fs (xe_scriptsDir e) s of
        Some err \<Rightarrow> Inl err
      | None \<Rightarrow>
          (case run (host_command host e s params dryRun) of
             (out, err) \<Rightarrow>
               (let result = \<lparr>xr_ExitCode = 0, xr_Output = truncate_output (xe_MaxOutputBytes e) out,
                              xr_TimedOut = False, xr_Cancelled = False\<rparr>
                in Inr (case err of
                     Some DeadlineExceeded \<Rightarrow> result\<lparr>xr_TimedOut := True, xr_ExitCode := -1\<rparr>
                   | Some Canceled \<Rightarrow> result\<lparr>xr_Cancelled := True, xr_ExitCode := -1\<rparr>
                   | Some (Exited code) \<Rightarrow> result\<lparr>xr_ExitCode := code\<rparr>
                   | Some NotStarted \<Rightarrow> result\<lparr>xr_ExitCode := -1\<rparr>
                   | None \<Rightarrow> result))))"

section \<open>Running in containers\<close>

record container_executor =
  ce_scriptsDir :: string
  ce_DefaultTimeout :: duration
  ce_MaxOutputBytes :: nat
  ce_ShellImage :: string
  ce_PythonImage :: string
  ce_ScriptsMountPath :: string

definition NewContainerExecutor :: "string \<Rightarrow> container_executor \<Rightarrow> container_executor" where
  "NewContainerExecutor dir cfg =
     \<lparr>ce_scriptsDir = dir,
      ce_DefaultTimeout = (if ce_DefaultTimeout cfg = 0 then 5 * minute else ce_DefaultTimeout cfg),
      ce_MaxOutputBytes = (if ce_MaxOutputBytes cfg = 0 then 10 * 1024 * 1024 else ce_MaxOutputBytes cfg),
      ce_ShellImage = (if ce_ShellImage cfg = [] then ''alpine:3.20'' else ce_ShellImage cfg),
      ce_PythonImage = (if ce_PythonImage cfg = [] then ''python:3.12-alpine'' else ce_PythonImage cfg),
      ce_ScriptsMountPath = (if ce_ScriptsMountPath cfg = [] then ''/scripts'' else ce_ScriptsMountPath cfg)\<rparr>"

record container_config =
  cc_Image :: string
  cc_Cmd :: "string list"
  cc_Env :: "string list"
  cc_Binds :: "string list"
  cc_NetworkMode :: string

definition buildEnvironment :: "script \<Rightarrow> params \<Rightarrow> bool \<Rightarrow> string list" where
  "buildEnvironment s params dryRun =
     map env_entry (sc_Environment s) @ map env_entry params @ (if dryRun then [''DRY_RUN=true''] else []) @
     [''SCRIPT_ID='' @ sc_ID s, ''SCRIPT_NAME='' @ sc_Name s]"

definition buildContainerConfig :: "container_executor \<Rightarrow> script \<Rightarrow> params \<Rightarrow> bool \<Rightarrow> container_config" where
  "buildContainerConfig e s params dryRun =
     (let path = ce_ScriptsMountPath e @ ''/'' @ sc_ScriptPath s in
      \<lparr>cc_Image = (case sc_ScriptType s of ScriptPython \<Rightarrow> ce_PythonImage e | _ \<Rightarrow> ce_ShellImage e),
       cc_Cmd = (case sc_ScriptType s of
                   ScriptShell \<Rightarrow> [''/bin/sh'', path]
                 | ScriptPython \<Rightarrow> [''python3'', path]
                 | ScriptGoBinary \<Rightarrow> [path]
                 | ScriptOther t \<Rightarrow> [''/bin/sh'', path]),
       cc_Env = buildEnvironment s params dryRun,
       cc_Binds = [ce_scriptsDir e @ '':'' @ ce_ScriptsMountPath e @ '':ro''],
       cc_NetworkMode = ''none''\<rparr>)"

text \<open>Docker's stream of log frames: a byte for the stream, three zeros, the length in four bytes, the content.  Bytes
  are characters.\<close>

definition frame_size :: "string \<Rightarrow> nat" where
  "frame_size data =
     of_char (data ! 4) * 2 ^ 24 + of_char (data ! 5) * 2 ^ 16 + of_char (data ! 6) * 2 ^ 8 + of_char (data ! 7)"

function stripDockerLogHeaders :: "string \<Rightarrow> string" where
  "stripDockerLogHeaders data =
     (if data = [] then []
      else if 8 \<le> length data \<and> (of_char (data ! 0) :: nat) \<in> {1, 2}
      then (let size = frame_size data; rest = drop 8 data in
            if size \<le> length rest then take size rest @ stripDockerLogHeaders (drop size rest) else rest)
      else data)"
  by pat_completeness auto
termination by (relation "measure length") auto

declare stripDockerLogHeaders.simps [simp del]

text \<open>The answers of the Docker client to one execution, and the calls made.\<close>

datatype wait_answer =
    WaitError "run_error option"
  | WaitStatus int
  | WaitDone bool

record docker_answers =
  da_pull :: bool
  da_create :: "string option"
  da_start :: bool
  da_wait :: wait_answer
  da_logs :: "string option"

datatype docker_call = ImagePull string | ContainerCreate string | ContainerStart string | ContainerWait string
  | ContainerStop string | ContainerLogs string | ContainerRemove string

datatype container_error = PullFailed | CreateFailed | StartFailed | WaitFailed

definition getContainerOutput :: "container_executor \<Rightarrow> docker_answers \<Rightarrow> string" where
  "getContainerOutput e da =
     (case da_logs da of None \<Rightarrow> [] | Some out \<Rightarrow> truncate_output (ce_MaxOutputBytes e) (stripDockerLogHeaders out))"

text \<open>\<open>WaitError (Some err)\<close> is an error of waiting; what the contexts say of it is \<open>err\<close>, and anything but
  a deadline or a cancellation is an error of its own.  \<open>WaitError None\<close> is the closed error channel; \<open>WaitDone\<close>
  the end of the context, by its deadline or by cancellation.  The container is removed when the function is left.\<close>

definition ContainerExecute ::
  "container_executor \<Rightarrow> docker_answers \<Rightarrow> script \<Rightarrow> params \<Rightarrow> bool
   \<Rightarrow> docker_call list \<times> (container_error + execution_result)" where
  "ContainerExecute e da s params dryRun =
     (let cfg = buildContainerConfig e s params dryRun; pull = [ImagePull (cc_Image cfg)];
          r0 = \<lparr>xr_ExitCode = 0, xr_Output = [], xr_TimedOut = False, xr_Cancelled = False\<rparr>
      in if \<not> da_pull da then (pull, Inl PullFailed)
         else case da_create da of
           None \<Rightarrow> (pull @ [ContainerCreate (cc_Image cfg)], Inl CreateFailed)
         | Some i \<Rightarrow>
             (let made = pull @ [ContainerCreate (cc_Image cfg)]; out = getContainerOutput e da;
                  stopped = [ContainerStart i, ContainerWait i, ContainerStop i, ContainerLogs i, ContainerRemove i]
              in if \<not> da_start da then (made @ [ContainerStart i, ContainerRemove i], Inl StartFailed)
                 else case da_wait da of
                   WaitError (Some DeadlineExceeded) \<Rightarrow>
                     (made @ stopped, Inr (r0\<lparr>xr_TimedOut := True, xr_ExitCode := -1, xr_Output := out\<rparr>))
                 | WaitError (Some Canceled) \<Rightarrow>
                     (made @ stopped, Inr (r0\<lparr>xr_Cancelled := True, xr_ExitCode := -1, xr_Output := out\<rparr>))
                 | WaitError (Some err) \<Rightarrow> (made @ [ContainerStart i, ContainerWait i, ContainerRemove i], Inl WaitFailed)
                 | WaitError None \<Rightarrow> (made @ [ContainerStart i, ContainerWait i, ContainerRemove i], Inr r0)
                 | WaitStatus code \<Rightarrow>
                     (made @ [ContainerStart i, ContainerWait i, ContainerLogs i, ContainerRemove i],
                      Inr (r0\<lparr>xr_ExitCode := code, xr_Output := out\<rparr>))
                 | WaitDone deadline \<Rightarrow>
                     (made @ stopped,
                      Inr (r0\<lparr>xr_TimedOut := deadline, xr_Cancelled := \<not> deadline, xr_ExitCode := -1, xr_Output := out\<rparr>))))"

section \<open>Workflows\<close>

datatype execution_status = XPending | XRunning | XCompleted | XFailed | XCancelled | XTimeout

record workflow_step =
  wk_ScriptID :: string
  wk_Parameters :: params
  wk_OnFailure :: string

record workflow_result =
  wr_Status :: execution_status
  wr_StepResults :: "execution_result list"
  wr_FailedStep :: int
  wr_StepsRun :: nat
  wr_HadFailure :: bool

datatype 'e workflow_error = WorkflowScriptMissing string nat | WorkflowStepFailed nat string 'e

definition mergeParams :: "params \<Rightarrow> params \<Rightarrow> params" where
  "mergeParams base overrides = foldl (\<lambda>m (k, v). put k v m) base overrides"

text \<open>\<open>cancelled i\<close> says whether the context is done before step \<open>i\<close>, \<open>exec i\<close> is the executor at that step.\<close>

fun workflow_loop ::
  "(nat \<Rightarrow> bool) \<Rightarrow> (nat \<Rightarrow> script \<Rightarrow> params \<Rightarrow> 'e + execution_result) \<Rightarrow> (string, script) gomap \<Rightarrow> params
   \<Rightarrow> nat \<Rightarrow> workflow_step list \<Rightarrow> workflow_result \<Rightarrow> 'e workflow_error + workflow_result" where
  "workflow_loop cancelled exec scripts globals i [] r =
     Inr (r\<lparr>wr_Status := (if wr_HadFailure r then XFailed else XCompleted)\<rparr>)"
| "workflow_loop cancelled exec scripts globals i (step # steps) r =
     (if cancelled i then Inr (r\<lparr>wr_Status := XCancelled\<rparr>)
      else case get scripts (wk_ScriptID step) of
        None \<Rightarrow> Inl (WorkflowScriptMissing (wk_ScriptID step) (i + 1))
      | Some s \<Rightarrow>
          (case exec i s (mergeParams globals (wk_Parameters step)) of
             Inl e \<Rightarrow> Inl (WorkflowStepFailed (i + 1) (wk_ScriptID step) e)
           | Inr x \<Rightarrow>
               (let r1 = r\<lparr>wr_StepResults := wr_StepResults r @ [x], wr_StepsRun := i + 1\<rparr> in
                if xr_Cancelled x then Inr (r1\<lparr>wr_Status := XCancelled\<rparr>)
                else if xr_TimedOut x then Inr (r1\<lparr>wr_Status := XTimeout, wr_FailedStep := int i, wr_HadFailure := True\<rparr>)
                else if xr_ExitCode x \<noteq> 0 then
                  (let r2 = r1\<lparr>wr_HadFailure := True, wr_FailedStep := int i\<rparr> in
                   if wk_OnFailure step = ''stop'' \<or> wk_OnFailure step = [] then Inr (r2\<lparr>wr_Status := XFailed\<rparr>)
                   else workflow_loop cancelled exec scripts globals (i + 1) steps r2)
                else workflow_loop cancelled exec scripts globals (i + 1) steps r1)))"

definition WorkflowExecute ::
  "(nat \<Rightarrow> bool) \<Rightarrow> (nat \<Rightarrow> script \<Rightarrow> params \<Rightarrow> 'e + execution_result) \<Rightarrow> workflow_step list \<Rightarrow> (string, script) gomap \<Rightarrow> params
   \<Rightarrow> 'e workflow_error + workflow_result" where
  "WorkflowExecute cancelled exec steps scripts globals =
     workflow_loop cancelled exec scripts globals 0 steps
       \<lparr>wr_Status = XRunning, wr_StepResults = [], wr_FailedStep = -1, wr_StepsRun = 0, wr_HadFailure = False\<rparr>"

section \<open>Log frames\<close>

text \<open>Docker's framing of one chunk of output.\<close>

definition frame :: "nat \<times> string \<Rightarrow> string" where
  "frame f = (case f of (stream, content) \<Rightarrow>
     map char_of [stream, 0, 0, 0, length content div 2 ^ 24 mod 256, length content div 2 ^ 16 mod 256,
       length content div 2 ^ 8 mod 256, length content mod 256] @ content)"

lemma bytes_sum:
  fixes n :: nat
  assumes "n < 4294967296"
  shows "n div 16777216 mod 256 * 16777216 + n div 65536 mod 256 * 65536 + n div 256 mod 256 * 256 + n mod 256 = n"
proof -
  define a b c where abc: "a = n div 256" "b = a div 256" "c = b div 256"
  have e: "256 * a + n mod 256 = n" "256 * b + a mod 256 = a" "256 * c + b mod 256 = b"
    unfolding abc by (rule mult_div_mod_eq)+
  have d: "n div 256 = a" "n div 65536 = b" "n div 16777216 = c" unfolding abc by (simp_all flip: div_mult2_eq)
  have "c < 256" using assms unfolding abc by (simp add: less_mult_imp_div_less flip: div_mult2_eq)
  then have c: "c mod 256 = c" by simp
  show ?thesis unfolding d c using e by linarith
qed

lemma frame_size_frame:
  assumes "length content < 2 ^ 32"
  shows "frame_size (frame (stream, content) @ rest) = length content"
  using bytes_sum [of "length content"] assms by (simp add: frame_size_def frame_def)

text \<open>from output in which the daemon framed every chunk, on either stream, exactly the chunks are recovered, one
  after the other.\<close>

theorem framed_output_recovered:
  assumes "\<forall>(stream, content) \<in> set fs. stream \<in> {1, 2} \<and> length content < 2 ^ 32"
  shows "stripDockerLogHeaders (concat (map frame fs)) = concat (map snd fs)"
  using assms
proof (induction fs)
  case Nil
  then show ?case by (simp add: stripDockerLogHeaders.simps)
next
  case (Cons f fs)
  obtain stream content where f: "f = (stream, content)" by (cases f)
  obtain data where data: "data = frame f @ concat (map frame fs)" by blast
  have d: "drop 8 data = content @ concat (map frame fs)" by (simp add: data f frame_def)
  have s: "frame_size data = length content" using Cons.prems by (simp add: data f frame_size_frame)
  have t: "(of_char (data ! 0) :: nat) \<in> {1, 2}" "8 \<le> length data" "data \<noteq> []"
    using Cons.prems by (auto simp: data f frame_def)
  have "stripDockerLogHeaders data = content @ stripDockerLogHeaders (concat (map frame fs))"
    by (subst stripDockerLogHeaders.simps) (use t in \<open>simp add: d s Let_def\<close>)
  with Cons show ?case by (simp add: f data)
qed

lemma framed_output_recovered_witness:
  "stripDockerLogHeaders (frame (1, ''done'') @ frame (2, ''warning'')) = ''donewarning''"
  using framed_output_recovered [of "[(1, ''done''), (2, ''warning'')]"] by simp

section \<open>Containers are removed\<close>

definition removals :: "docker_call list \<Rightarrow> string list" where
  "removals cs = List.map_filter (\<lambda>c. case c of ContainerRemove i \<Rightarrow> Some i | _ \<Rightarrow> None) cs"

lemma removals_simps [simp]:
  "removals [] = []"
  "removals (c # cs) = (case c of ContainerRemove i \<Rightarrow> i # removals cs | _ \<Rightarrow> removals cs)"
  "removals (cs @ ds) = removals cs @ removals ds"
  by (auto simp: removals_def List.map_filter_def split: docker_call.splits)

text \<open>however an execution ends, the container it created is removed once, by the last call, and no other one.\<close>

theorem container_removed_last:
  "removals (fst (ContainerExecute e da s params dryRun)) =
     (if da_pull da then (case da_create da of Some i \<Rightarrow> [i] | None \<Rightarrow> []) else []) \<and>
   last (fst (ContainerExecute e da s params dryRun)) =
     (if da_pull da
      then (case da_create da of
              Some i \<Rightarrow> ContainerRemove i
            | None \<Rightarrow> ContainerCreate (cc_Image (buildContainerConfig e s params dryRun)))
      else ImagePull (cc_Image (buildContainerConfig e s params dryRun)))"
  by (auto simp: ContainerExecute_def Let_def split: option.splits wait_answer.splits run_error.splits)

section \<open>What a workflow runs\<close>

text \<open>Step \<open>i\<close> of a workflow ran, with this result; a result that lets the workflow go on.\<close>

definition step_ran ::
  "(nat \<Rightarrow> bool) \<Rightarrow> (nat \<Rightarrow> script \<Rightarrow> params \<Rightarrow> 'e + execution_result) \<Rightarrow> (string, script) gomap \<Rightarrow> params
   \<Rightarrow> nat \<Rightarrow> workflow_step \<Rightarrow> execution_result \<Rightarrow> bool" where
  "step_ran cancelled exec scripts globals i step x \<longleftrightarrow>
     \<not> cancelled i \<and>
     (\<exists>s. get scripts (wk_ScriptID step) = Some s \<and> exec i s (mergeParams globals (wk_Parameters step)) = Inr x)"

definition step_succeeded :: "execution_result \<Rightarrow> bool" where
  "step_succeeded x \<longleftrightarrow> \<not> xr_Cancelled x \<and> \<not> xr_TimedOut x \<and> xr_ExitCode x = 0"

definition goes_on :: "workflow_step \<Rightarrow> execution_result \<Rightarrow> bool" where
  "goes_on step x \<longleftrightarrow>
     \<not> xr_Cancelled x \<and> \<not> xr_TimedOut x \<and> (xr_ExitCode x = 0 \<or> wk_OnFailure step \<noteq> ''stop'' \<and> wk_OnFailure step \<noteq> [])"

lemma workflow_loop_results:
  assumes "workflow_loop cancelled exec scripts globals i steps r = Inr r'"
  shows "\<exists>xs. wr_StepResults r' = wr_StepResults r @ xs \<and> length xs \<le> length steps \<and>
    (\<forall>j < length xs. step_ran cancelled exec scripts globals (i + j) (steps ! j) (xs ! j) \<and>
       (Suc j < length xs \<longrightarrow> goes_on (steps ! j) (xs ! j))) \<and>
    wr_StepsRun r' = (if xs = [] then wr_StepsRun r else i + length xs) \<and>
    (wr_Status r' = XCompleted \<longleftrightarrow>
       \<not> wr_HadFailure r \<and> length xs = length steps \<and> (\<forall>x \<in> set xs. step_succeeded x))"
  using assms
proof (induction cancelled exec scripts globals i steps r arbitrary: r' rule: workflow_loop.induct)
  case (1 cancelled exec scripts globals i r)
  then show ?case by (intro exI [of _ "[]"]) auto
next
  case (2 cancelled exec scripts globals i step steps r)
  show ?case
  proof (cases "cancelled i")
    case True
    with "2.prems" show ?thesis by (intro exI [of _ "[]"]) auto
  next
    case False
    then obtain s x where s: "get scripts (wk_ScriptID step) = Some s"
      and x: "exec i s (mergeParams globals (wk_Parameters step)) = Inr x"
      using "2.prems" by (auto split: option.splits sum.splits)
    have ran: "step_ran cancelled exec scripts globals i step x" using False s x by (simp add: step_ran_def)
    show ?thesis
    proof (cases "goes_on step x")
      case False
      with "2.prems" \<open>\<not> cancelled i\<close> s x ran show ?thesis
        by (intro exI [of _ "[x]"]) (auto simp: goes_on_def step_succeeded_def Let_def split: if_splits)
    next
      case True
      obtain r2 where r2: "workflow_loop cancelled exec scripts globals (i + 1) steps r2 = Inr r'"
        "wr_StepResults r2 = wr_StepResults r @ [x]" "wr_StepsRun r2 = i + 1"
        "wr_HadFailure r2 \<longleftrightarrow> wr_HadFailure r \<or> xr_ExitCode x \<noteq> 0"
        "\<And>r3. workflow_loop cancelled exec scripts globals (i + 1) steps r2 = Inr r3 \<Longrightarrow> \<exists>xs. wr_StepResults r3 = wr_StepResults r2 @ xs \<and> length xs \<le> length steps \<and>
    (\<forall>j < length xs. step_ran cancelled exec scripts globals (i + 1 + j) (steps ! j) (xs ! j) \<and>
       (Suc j < length xs \<longrightarrow> goes_on (steps ! j) (xs ! j))) \<and>
    wr_StepsRun r3 = (if xs = [] then wr_StepsRun r2 else i + 1 + length xs) \<and>
    (wr_Status r3 = XCompleted \<longleftrightarrow>
       \<not> wr_HadFailure r2 \<and> length xs = length steps \<and> (\<forall>x \<in> set xs. step_succeeded x))"
        using "2.prems" "2.IH" \<open>\<not> cancelled i\<close> s x True
        by (cases "xr_ExitCode x = 0") (auto simp: goes_on_def Let_def)
      from r2(5) [OF r2(1)] obtain xs where xs: "wr_StepResults r' = wr_StepResults r2 @ xs" "length xs \<le> length steps"
        "\<And>j. j < length xs \<Longrightarrow> step_ran cancelled exec scripts globals (i + 1 + j) (steps ! j) (xs ! j)"
        "\<And>j. Suc j < length xs \<Longrightarrow> goes_on (steps ! j) (xs ! j)"
        "wr_StepsRun r' = (if xs = [] then wr_StepsRun r2 else i + 1 + length xs)"
        "wr_Status r' = XCompleted \<longleftrightarrow> \<not> wr_HadFailure r2 \<and> length xs = length steps \<and> (\<forall>x \<in> set xs. step_succeeded x)"
        by (auto dest: Suc_lessD)
      have "step_ran cancelled exec scripts globals (i + j) ((step # steps) ! j) ((x # xs) ! j)" if "j < Suc (length xs)" for j
        using that ran xs(3) [of "j - 1"] by (cases j) auto
      moreover have "goes_on ((step # steps) ! j) ((x # xs) ! j)" if "j < length xs" for j
        using that True xs(4) [of "j - 1"] by (cases j) auto
      ultimately show ?thesis
        using xs(1,2,5,6) r2(2-4) True
        by (intro exI [of _ "x # xs"]) (auto simp: goes_on_def step_succeeded_def)
    qed
  qed
qed

text \<open>the results a workflow reports are those of its first steps in order, each run on the script it names with
  its own parameters over the global ones, and all but the last let the workflow go on; the workflow is reported completed
  exactly when all of its steps ran and succeeded.\<close>

theorem workflow_results:
  assumes "WorkflowExecute cancelled exec steps scripts globals = Inr r"
  shows "wr_StepsRun r = length (wr_StepResults r) \<and> wr_StepsRun r \<le> length steps \<and>
    (\<forall>j < wr_StepsRun r. step_ran cancelled exec scripts globals j (steps ! j) (wr_StepResults r ! j)) \<and>
    (\<forall>j. Suc j < wr_StepsRun r \<longrightarrow> goes_on (steps ! j) (wr_StepResults r ! j)) \<and>
    (wr_Status r = XCompleted \<longleftrightarrow>
       wr_StepsRun r = length steps \<and> (\<forall>x \<in> set (wr_StepResults r). step_succeeded x))"
proof -
  from workflow_loop_results [OF assms [unfolded WorkflowExecute_def]] show ?thesis by (auto dest: Suc_lessD)
qed

definition sample_script :: "string \<Rightarrow> script" where
  "sample_script i =
     \<lparr>sc_ID = i, sc_Name = i, sc_Description = [], sc_Category = [], sc_ScriptPath = i @ ''.sh'', sc_ScriptType = ScriptShell,
      sc_TimeoutSeconds = 60, sc_Parameters = [], sc_Environment = [], sc_AllowedScopes = [], sc_DryRunCommand = [],
      sc_CreatedBy = [], sc_CreatedAt = 0, sc_UpdatedAt = 0\<rparr>"

lemma workflow_results_witness:
  "\<exists>r. WorkflowExecute (\<lambda>i. False)
     (\<lambda>i s p. Inr \<lparr>xr_ExitCode = (if i = 0 then 3 else 0), xr_Output = get_zero [] p ''x'', xr_TimedOut = False, xr_Cancelled = False\<rparr>)
     [\<lparr>wk_ScriptID = ''a'', wk_Parameters = [(''x'', ''1'')], wk_OnFailure = ''continue''\<rparr>,
      \<lparr>wk_ScriptID = ''a'', wk_Parameters = [], wk_OnFailure = []\<rparr>] [(''a'', sample_script ''a'')] [(''x'', ''0'')] =
     (Inr r :: nat workflow_error + workflow_result) \<and>
   wr_StepsRun r = length (wr_StepResults r) \<and> map xr_Output (wr_StepResults r) = [''1'', ''0''] \<and> wr_Status r \<noteq> XCompleted"
  (is "\<exists>r. ?run = Inr r \<and> _")
proof -
  have "case ?run of Inr r \<Rightarrow> wr_StepsRun r = 2 \<and> map xr_Output (wr_StepResults r) = [''1'', ''0''] \<and>
      (\<exists>x \<in> set (wr_StepResults r). \<not> step_succeeded x) | Inl e \<Rightarrow> False"
    by code_simp
  then obtain r where r: "?run = Inr r" "map xr_Output (wr_StepResults r) = [''1'', ''0'']"
      "\<exists>x \<in> set (wr_StepResults r). \<not> step_succeeded x"
    by (auto split: sum.splits)
  have "wr_StepsRun r = length (wr_StepResults r)" "wr_Status r \<noteq> XCompleted"
    using workflow_results [OF r(1)] r(3) by blast+
  with r show ?thesis by (intro exI [of _ r] conjI)
qed

end
