(* ===== verification/ScriptStore.thy ===== *)
theory ScriptStore
  imports Scripts Store "HOL-Library.Option_ord"
begin

text \<open>
  The tables of scripts, executions, workflows and schedules (\<open>internal/storage/scripts.go\<close>, its schema in
  \<open>storage.go\<close>).  As in the other tables a row is the value of the key's entry, a column with JSON text holds the
  decoded value, and every statement has its connection.  A column without a value and an empty text are read as the same
  Go value, so nullable texts are texts here; the nullable numbers and times are options.  The order of times is that of
  the driver's rendering of them, an argument.
\<close>

section \<open>Rows\<close>

record execution =
  ex_ScriptID :: string
  ex_WorkflowID :: string
  ex_WorkflowExID :: string
  ex_Status :: execution_status
  ex_IsDryRun :: bool
  ex_TriggeredBy :: string
  ex_TriggeredIP :: string
  ex_Parameters :: params
  ex_Output :: string
  ex_ExitCode :: "int option"
  ex_ErrorMessage :: string
  ex_StartedAt :: "gotime option"
  ex_CompletedAt :: "gotime option"
  ex_CreatedAt :: gotime

record workflow =
  wf_Name :: string
  wf_Description :: string
  wf_Steps :: "workflow_step list"
  wf_AllowedScopes :: "string list"
  wf_CreatedBy :: string
  wf_CreatedAt :: gotime
  wf_UpdatedAt :: gotime

record workflow_execution =
  we_WorkflowID :: string
  we_Status :: execution_status
  we_CurrentStep :: int
  we_TriggeredBy :: string
  we_StartedAt :: "gotime option"
  we_CompletedAt :: "gotime option"
  we_CreatedAt :: gotime

record schedule =
  sh_ScriptID :: string
  sh_WorkflowID :: string
  sh_CronExpression :: string
  sh_Parameters :: params
  sh_Enabled :: bool
  sh_LastRunAt :: "gotime option"
  sh_NextRunAt :: "gotime option"
  sh_CreatedBy :: string
  sh_CreatedAt :: gotime

record script_db =
  sd_scripts :: "(string, script) gomap"
  sd_executions :: "(string, execution) gomap"
  sd_workflows :: "(string, workflow) gomap"
  sd_workflow_executions :: "(string, workflow_execution) gomap"
  sd_schedules :: "(string, schedule) gomap"

definition empty_script_db :: script_db where
  "empty_script_db =
     \<lparr>sd_scripts = [], sd_executions = [], sd_workflows = [], sd_workflow_executions = [], sd_schedules = []\<rparr>"

section \<open>Scripts\<close>

text \<open>On a conflict the row keeps who created it and when, and is updated now.\<close>

definition SaveScript :: "conn \<Rightarrow> script_db \<Rightarrow> script \<Rightarrow> db_error + script_db" where
  "SaveScript c db s =
     (if \<not> cn_ok c then Inl DbFault
      else Inr (db\<lparr>sd_scripts := put (sc_ID s)
             (case get (sd_scripts db) (sc_ID s) of
                None \<Rightarrow> s
              | Some old \<Rightarrow> s\<lparr>sc_CreatedBy := sc_CreatedBy old, sc_CreatedAt := sc_CreatedAt old, sc_UpdatedAt := cn_now c\<rparr>)
             (sd_scripts db)\<rparr>))"

definition GetScript :: "conn \<Rightarrow> script_db \<Rightarrow> string \<Rightarrow> db_error + script option" where
  "GetScript c db i = (if \<not> cn_ok c then Inl DbFault else Inr (get (sd_scripts db) i))"

definition ListScripts :: "conn \<Rightarrow> script_db \<Rightarrow> db_error + script list" where
  "ListScripts c db = (if \<not> cn_ok c then Inl DbFault else Inr (sort_key sc_Name (map snd (sd_scripts db))))"

definition ListScriptsByCategory :: "conn \<Rightarrow> script_db \<Rightarrow> string \<Rightarrow> db_error + script list" where
  "ListScriptsByCategory c db cat =
     (if \<not> cn_ok c then Inl DbFault
      else Inr (sort_key sc_Name (filter (\<lambda>s. sc_Category s = cat) (map snd (sd_scripts db)))))"

text \<open>The executions of a script go with it where foreign keys are enforced.\<close>

definition DeleteScript :: "conn \<Rightarrow> script_db \<Rightarrow> string \<Rightarrow> db_error + script_db" where
  "DeleteScript c db i =
     (if \<not> cn_ok c then Inl DbFault
      else Inr (db\<lparr>sd_scripts := del i (sd_scripts db),
                   sd_executions := (if cn_fk c then del_if (\<lambda>_ x. ex_ScriptID x = i) (sd_executions db)
                                     else sd_executions db)\<rparr>))"

section \<open>Executions\<close>

definition SaveExecution :: "conn \<Rightarrow> script_db \<Rightarrow> string \<Rightarrow> execution \<Rightarrow> db_error + script_db" where
  "SaveExecution c db i x =
     (if \<not> cn_ok c then Inl DbFault
      else case get (sd_executions db) i of
        None \<Rightarrow>
          (if cn_fk c \<and> \<not> has (sd_scripts db) (ex_ScriptID x) then Inl ForeignKeyFailed
           else Inr (db\<lparr>sd_executions := put i x (sd_executions db)\<rparr>))
      | Some old \<Rightarrow>
          Inr (db\<lparr>sd_executions := put i
             (old\<lparr>ex_Status := ex_Status x, ex_Output := ex_Output x, ex_ExitCode := ex_ExitCode x,
                  ex_ErrorMessage := ex_ErrorMessage x, ex_StartedAt := ex_StartedAt x, ex_CompletedAt := ex_CompletedAt x\<rparr>)
             (sd_executions db)\<rparr>))"

definition GetExecution :: "conn \<Rightarrow> script_db \<Rightarrow> string \<Rightarrow> db_error + execution option" where
  "GetExecution c db i = (if \<not> cn_ok c then Inl DbFault else Inr (get (sd_executions db) i))"

text \<open>\<open>COALESCE\<close>: what is given replaces the column, what is not leaves it.\<close>

definition coalesce :: "'a option \<Rightarrow> 'a option \<Rightarrow> 'a option" where
  "coalesce new old = (if new = None then old else new)"

definition coalesce_text :: "string \<Rightarrow> string \<Rightarrow> string" where
  "coalesce_text new old = (if new = [] then old else new)"

definition UpdateExecutionStatus ::
  "conn \<Rightarrow> script_db \<Rightarrow> string \<Rightarrow> execution_status \<Rightarrow> gotime option \<Rightarrow> gotime option \<Rightarrow> int option \<Rightarrow> string option \<Rightarrow> string
   \<Rightarrow> db_error + script_db" where
  "UpdateExecutionStatus c db i status startedAt completedAt exitCode output errorMessage =
     (if \<not> cn_ok c then Inl DbFault
      else Inr (db\<lparr>sd_executions := adjust i
             (\<lambda>x. x\<lparr>ex_Status := status, ex_StartedAt := coalesce startedAt (ex_StartedAt x),
                    ex_CompletedAt := coalesce completedAt (ex_CompletedAt x),
                    ex_ExitCode := coalesce exitCode (ex_ExitCode x),
                    ex_Output := coalesce_text (case output of None \<Rightarrow> [] | Some s \<Rightarrow> s) (ex_Output x),
                    ex_ErrorMessage := coalesce_text errorMessage (ex_ErrorMessage x)\<rparr>)
             (sd_executions db)\<rparr>))"

text \<open>The newest first; \<open>exec_status_text\<close> is the text of a status in the table.\<close>

fun exec_status_text :: "execution_status \<Rightarrow> string" where
  "exec_status_text XPending = ''pending''"
| "exec_status_text XRunning = ''running''"
| "exec_status_text XCompleted = ''completed''"
| "exec_status_text XFailed = ''failed''"
| "exec_status_text XCancelled = ''cancelled''"
| "exec_status_text XTimeout = ''timeout''"

definition ListExecutions ::
  "(gotime \<Rightarrow> string) \<Rightarrow> conn \<Rightarrow> script_db \<Rightarrow> string \<Rightarrow> string \<Rightarrow> nat \<Rightarrow> nat \<Rightarrow> db_error + (string \<times> execution) list" where
  "ListExecutions dt c db scriptID status lim off =
     (if \<not> cn_ok c then Inl DbFault
      else Inr (take lim (drop off (rev (sort_key (\<lambda>(i, x). dt (ex_CreatedAt x))
             (filter (\<lambda>(i, x). (scriptID = [] \<or> ex_ScriptID x = scriptID) \<and> (status = [] \<or> exec_status_text (ex_Status x) = status))
                (sd_executions db)))))))"

section \<open>Workflows\<close>

definition SaveWorkflow :: "conn \<Rightarrow> script_db \<Rightarrow> string \<Rightarrow> workflow \<Rightarrow> db_error + script_db" where
  "SaveWorkflow c db i w =
     (if \<not> cn_ok c then Inl DbFault
      else Inr (db\<lparr>sd_workflows := put i
             (case get (sd_workflows db) i of
                None \<Rightarrow> w
              | Some old \<Rightarrow> w\<lparr>wf_CreatedBy := wf_CreatedBy old, wf_CreatedAt := wf_CreatedAt old, wf_UpdatedAt := cn_now c\<rparr>)
             (sd_workflows db)\<rparr>))"

definition GetWorkflow :: "conn \<Rightarrow> script_db \<Rightarrow> string \<Rightarrow> db_error + workflow option" where
  "GetWorkflow c db i = (if \<not> cn_ok c then Inl DbFault else Inr (get (sd_workflows db) i))"

definition ListWorkflows :: "conn \<Rightarrow> script_db \<Rightarrow> db_error + (string \<times> workflow) list" where
  "ListWorkflows c db = (if \<not> cn_ok c then Inl DbFault else Inr (sort_key (\<lambda>(i, w). wf_Name w) (sd_workflows db)))"

definition DeleteWorkflow :: "conn \<Rightarrow> script_db \<Rightarrow> string \<Rightarrow> db_error + script_db" where
  "DeleteWorkflow c db i =
     (if \<not> cn_ok c then Inl DbFault
      else Inr (db\<lparr>sd_workflows := del i (sd_workflows db),
                   sd_workflow_executions :=
                     (if cn_fk c then del_if (\<lambda>_ x. we_WorkflowID x = i) (sd_workflow_executions db)
                      else sd_workflow_executions db)\<rparr>))"

definition SaveWorkflowExecution :: "conn \<Rightarrow> script_db \<Rightarrow> string \<Rightarrow> workflow_execution \<Rightarrow> db_error + script_db" where
  "SaveWorkflowExecution c db i x =
     (if \<not> cn_ok c then Inl DbFault
      else case get (sd_workflow_executions db) i of
        None \<Rightarrow>
          (if cn_fk c \<and> \<not> has (sd_workflows db) (we_WorkflowID x) then Inl ForeignKeyFailed
           else Inr (db\<lparr>sd_workflow_executions := put i x (sd_workflow_executions db)\<rparr>))
      | Some old \<Rightarrow>
          Inr (db\<lparr>sd_workflow_executions := put i
             (old\<lparr>we_Status := we_Status x, we_CurrentStep := we_CurrentStep x, we_StartedAt := we_StartedAt x,
                  we_CompletedAt := we_CompletedAt x\<rparr>)
             (sd_workflow_executions db)\<rparr>))"

definition GetWorkflowExecution :: "conn \<Rightarrow> script_db \<Rightarrow> string \<Rightarrow> db_error + workflow_execution option" where
  "GetWorkflowExecution c db i = (if \<not> cn_ok c then Inl DbFault else Inr (get (sd_workflow_executions db) i))"

definition UpdateWorkflowExecutionStep :: "conn \<Rightarrow> script_db \<Rightarrow> string \<Rightarrow> int \<Rightarrow> execution_status \<Rightarrow> db_error + script_db" where
  "UpdateWorkflowExecutionStep c db i step status =
     (if \<not> cn_ok c then Inl DbFault
      else Inr (db\<lparr>sd_workflow_executions := adjust i (\<lambda>x. x\<lparr>we_CurrentStep := step, we_Status := status\<rparr>)
             (sd_workflow_executions db)\<rparr>))"

section \<open>Schedules\<close>

definition SaveSchedule :: "conn \<Rightarrow> script_db \<Rightarrow> string \<Rightarrow> schedule \<Rightarrow> db_error + script_db" where
  "SaveSchedule c db i s =
     (if \<not> cn_ok c then Inl DbFault
      else Inr (db\<lparr>sd_schedules := put i
             (case get (sd_schedules db) i of
                None \<Rightarrow> s
              | Some old \<Rightarrow> s\<lparr>sh_CreatedBy := sh_CreatedBy old, sh_CreatedAt := sh_CreatedAt old\<rparr>)
             (sd_schedules db)\<rparr>))"

definition GetSchedule :: "conn \<Rightarrow> script_db \<Rightarrow> string \<Rightarrow> db_error + schedule option" where
  "GetSchedule c db i = (if \<not> cn_ok c then Inl DbFault else Inr (get (sd_schedules db) i))"

definition ListSchedules :: "(gotime \<Rightarrow> string) \<Rightarrow> conn \<Rightarrow> script_db \<Rightarrow> db_error + (string \<times> schedule) list" where
  "ListSchedules dt c db =
     (if \<not> cn_ok c then Inl DbFault else Inr (sort_key (\<lambda>(i, s). dt (sh_CreatedAt s)) (sd_schedules db)))"

text \<open>Rows without a next run come first.\<close>

definition ListEnabledSchedules :: "(gotime \<Rightarrow> string) \<Rightarrow> conn \<Rightarrow> script_db \<Rightarrow> db_error + (string \<times> schedule) list" where
  "ListEnabledSchedules dt c db =
     (if \<not> cn_ok c then Inl DbFault
      else Inr (sort_key (\<lambda>(i, s). map_option dt (sh_NextRunAt s)) (filter (\<lambda>(i, s). sh_Enabled s) (sd_schedules db))))"

definition UpdateScheduleLastRun :: "conn \<Rightarrow> script_db \<Rightarrow> string \<Rightarrow> gotime \<Rightarrow> gotime \<Rightarrow> db_error + script_db" where
  "UpdateScheduleLastRun c db i lastRun nextRun =
     (if \<not> cn_ok c then Inl DbFault
      else Inr (db\<lparr>sd_schedules := adjust i (\<lambda>s. s\<lparr>sh_LastRunAt := Some lastRun, sh_NextRunAt := Some nextRun\<rparr>) (sd_schedules db)\<rparr>))"

definition DeleteSchedule :: "conn \<Rightarrow> script_db \<Rightarrow> string \<Rightarrow> db_error + script_db" where
  "DeleteSchedule c db i =
     (if \<not> cn_ok c then Inl DbFault else Inr (db\<lparr>sd_schedules := del i (sd_schedules db)\<rparr>))"

end
