(* ===== verification/Cron.thy ===== *)
theory Cron
  imports Numbers
begin

text \<open>
  Cron expressions (\<open>internal/scripts/scheduler.go\<close>): parsing the five fields into lists of values, and the search for
  the next matching minute.  Go's \<open>int\<close> is written out with its wrap-around where the parser counts with numbers
  it has not checked; a loop that does not return has the value \<open>None\<close>.  The calendar of the local time zone is an
  argument.
\<close>

section \<open>Fields\<close>

text \<open>\<open>strings.Fields\<close>: the words between white space.\<close>

fun words_from :: "string \<Rightarrow> string \<Rightarrow> string list" where
  "words_from w [] = (if w = [] then [] else [w])"
| "words_from w (c # cs) =
     (if is_space c then (if w = [] then words_from [] cs else w # words_from [] cs) else words_from (w @ [c]) cs)"

definition Fields :: "string \<Rightarrow> string list" where
  "Fields s = words_from [] s"

text \<open>The number \<open>Atoi\<close> returns beside an error: the nearest \<open>int\<close> when the number is out of range, 0 when there
  is no number.\<close>

definition Atoi_value :: "string \<Rightarrow> int" where
  "Atoi_value s =
     (case ParseInt s of
        Some v \<Rightarrow> v
      | None \<Rightarrow>
          (let ds = (if s \<noteq> [] \<and> hd s \<in> {CHR ''-'', CHR ''+''} then tl s else s)
           in if ds \<noteq> [] \<and> list_all is_digit ds then if hd s = CHR ''-'' then - (2 ^ 63) else 2 ^ 63 - 1 else 0))"

datatype cron_error =
    FieldCount nat
  | StepFormat string
  | StepValue string
  | RangeFormat string
  | RangeStart string
  | RangeEnd string
  | RangeBounds string
  | BadValue string
  | ValueRange int
  | NoValues string

text \<open>The loop of a step: the counter runs up to the end, and around when it overflows.\<close>

partial_function (option) step_values :: "int \<Rightarrow> int \<Rightarrow> int \<Rightarrow> int \<Rightarrow> int \<Rightarrow> int list \<Rightarrow> int list option" where
  "step_values mn mx step end i vals =
     (if i \<le> end
      then step_values mn mx step end (wrap64 (i + step)) (if mn \<le> i \<and> i \<le> mx then vals @ [i] else vals)
      else Some vals)"

definition parse_step :: "int \<Rightarrow> int \<Rightarrow> string \<Rightarrow> int list \<Rightarrow> (cron_error + int list) option" where
  "parse_step mn mx part vals =
     (let stepParts = Split (CHR ''/'') part in
      if length stepParts \<noteq> 2 then Some (Inl (StepFormat part))
      else case ParseInt (stepParts ! 1) of
        None \<Rightarrow> Some (Inl (StepValue (stepParts ! 1)))
      | Some step \<Rightarrow>
          (if step \<le> 0 then Some (Inl (StepValue (stepParts ! 1)))
           else (case (if stepParts ! 0 = ''*'' then (mn, mx)
                       else if CHR ''-'' \<in> set (stepParts ! 0)
                       then (let rangeParts = Split (CHR ''-'') (stepParts ! 0)
                             in (Atoi_value (rangeParts ! 0), Atoi_value (rangeParts ! 1)))
                       else (Atoi_value (stepParts ! 0), mx)) of
                   (start, end) \<Rightarrow> map_option Inr (step_values mn mx step end start vals))))"

definition parse_range :: "int \<Rightarrow> int \<Rightarrow> string \<Rightarrow> int list \<Rightarrow> cron_error + int list" where
  "parse_range mn mx part vals =
     (let rangeParts = Split (CHR ''-'') part in
      if length rangeParts \<noteq> 2 then Inl (RangeFormat part)
      else case ParseInt (rangeParts ! 0) of
        None \<Rightarrow> Inl (RangeStart (rangeParts ! 0))
      | Some start \<Rightarrow>
          (case ParseInt (rangeParts ! 1) of
             None \<Rightarrow> Inl (RangeEnd (rangeParts ! 1))
           | Some end \<Rightarrow>
               if start < mn \<or> end > mx \<or> start > end then Inl (RangeBounds part) else Inr (vals @ [start..end])))"

definition parse_value :: "int \<Rightarrow> int \<Rightarrow> string \<Rightarrow> int list \<Rightarrow> cron_error + int list" where
  "parse_value mn mx part vals =
     (case ParseInt part of
        None \<Rightarrow> Inl (BadValue part)
      | Some val \<Rightarrow> if val < mn \<or> val > mx then Inl (ValueRange val) else Inr (vals @ [val]))"

fun parse_parts :: "int \<Rightarrow> int \<Rightarrow> string list \<Rightarrow> int list \<Rightarrow> (cron_error + int list) option" where
  "parse_parts mn mx [] vals = Some (Inr vals)"
| "parse_parts mn mx (part # parts) vals =
     (case (if CHR ''/'' \<in> set part then parse_step mn mx part vals
            else if CHR ''-'' \<in> set part then Some (parse_range mn mx part vals)
            else Some (parse_value mn mx part vals)) of
        None \<Rightarrow> None
      | Some (Inl e) \<Rightarrow> Some (Inl e)
      | Some (Inr vals') \<Rightarrow> parse_parts mn mx parts vals')"

definition parseCronField :: "string \<Rightarrow> int \<Rightarrow> int \<Rightarrow> (cron_error + int list) option" where
  "parseCronField field mn mx =
     (if field = ''*'' then Some (Inr [mn..mx])
      else case parse_parts mn mx (Split (CHR '','') field) [] of
        None \<Rightarrow> None
      | Some (Inl e) \<Rightarrow> Some (Inl e)
      | Some (Inr vals) \<Rightarrow> if length vals = 0 then Some (Inl (NoValues field)) else Some (Inr vals))"

section \<open>Expressions\<close>

record cron_expression =
  cx_Minutes :: "int list"
  cx_Hours :: "int list"
  cx_DaysOfMonth :: "int list"
  cx_Months :: "int list"
  cx_DaysOfWeek :: "int list"

text \<open>The fields with their bounds, parsed in order; the first error ends the parse.\<close>

definition cron_bounds :: "(int \<times> int) list" where
  "cron_bounds = [(0, 59), (0, 23), (1, 31), (1, 12), (0, 6)]"

fun parse_fields :: "(string \<times> int \<times> int) list \<Rightarrow> (cron_error + int list list) option" where
  "parse_fields [] = Some (Inr [])"
| "parse_fields ((f, mn, mx) # fs) =
     (case parseCronField f mn mx of
        None \<Rightarrow> None
      | Some (Inl e) \<Rightarrow> Some (Inl e)
      | Some (Inr vals) \<Rightarrow>
          (case parse_fields fs of
             None \<Rightarrow> None
           | Some (Inl e) \<Rightarrow> Some (Inl e)
           | Some (Inr vss) \<Rightarrow> Some (Inr (vals # vss))))"

definition ParseCronExpression :: "string \<Rightarrow> (cron_error + cron_expression) option" where
  "ParseCronExpression expr =
     (let fields = Fields expr in
      if length fields \<noteq> 5 then Some (Inl (FieldCount (length fields)))
      else case parse_fields (zip fields cron_bounds) of
        None \<Rightarrow> None
      | Some (Inl e) \<Rightarrow> Some (Inl e)
      | Some (Inr vss) \<Rightarrow>
          Some (Inr \<lparr>cx_Minutes = vss ! 0, cx_Hours = vss ! 1, cx_DaysOfMonth = vss ! 2, cx_Months = vss ! 3,
                     cx_DaysOfWeek = vss ! 4\<rparr>))"

section \<open>The next run\<close>

text \<open>What a clock on the wall shows: \<open>Minute\<close>, \<open>Hour\<close>, \<open>Day\<close>, \<open>Month\<close> and \<open>Weekday\<close> of a time.\<close>

record civil =
  cv_Minute :: int
  cv_Hour :: int
  cv_Day :: int
  cv_Month :: int
  cv_Weekday :: int

definition cron_matches :: "cron_expression \<Rightarrow> civil \<Rightarrow> bool" where
  "cron_matches c t \<longleftrightarrow>
     cv_Minute t \<in> set (cx_Minutes c) \<and> cv_Hour t \<in> set (cx_Hours c) \<and> cv_Day t \<in> set (cx_DaysOfMonth c) \<and>
     cv_Month t \<in> set (cx_Months c) \<and> cv_Weekday t \<in> set (cx_DaysOfWeek c)"

fun next_match :: "(gotime \<Rightarrow> bool) \<Rightarrow> nat \<Rightarrow> gotime \<Rightarrow> gotime option" where
  "next_match P 0 t = None"
| "next_match P (Suc n) t = (if P t then Some t else next_match P n (t + minute))"

definition maxIterations :: nat where "maxIterations = 365 * 24 * 60 * 4"

definition NextRun :: "(gotime \<Rightarrow> civil) \<Rightarrow> cron_expression \<Rightarrow> gotime \<Rightarrow> gotime" where
  "NextRun clock c after =
     (case next_match (\<lambda>t. cron_matches c (clock t)) maxIterations (after div minute * minute + minute) of
        Some t \<Rightarrow> t
      | None \<Rightarrow> after + minute)"


section \<open>Parsed vals lie within the bounds\<close>

lemma step_values_bounds:
  "step_values mn mx step en i vals = Some vs \<Longrightarrow> set vals \<subseteq> {mn..mx} \<longrightarrow> set vs \<subseteq> {mn..mx}"
proof (rule step_values.raw_induct [where P = "\<lambda>mn mx step en i vals vs. set vals \<subseteq> {mn..mx} \<longrightarrow> set vs \<subseteq> {mn..mx}"])
  fix f :: "int \<Rightarrow> int \<Rightarrow> int \<Rightarrow> int \<Rightarrow> int \<Rightarrow> int list \<Rightarrow> int list option" and mn mx step en i vals vs
  assume IH: "\<And>mn mx step en i vals vs. f mn mx step en i vals = Some vs \<Longrightarrow> set vals \<subseteq> {mn..mx} \<longrightarrow> set vs \<subseteq> {mn..mx}"
    and e: "(if i \<le> en then f mn mx step en (wrap64 (i + step)) (if mn \<le> i \<and> i \<le> mx then vals @ [i] else vals) else Some vals) = Some vs"
  have "set vals \<subseteq> {mn..mx} \<Longrightarrow> set (if mn \<le> i \<and> i \<le> mx then vals @ [i] else vals) \<subseteq> {mn..mx}" by simp
  with e IH show "set vals \<subseteq> {mn..mx} \<longrightarrow> set vs \<subseteq> {mn..mx}" by (cases "i \<le> en") (simp_all only: if_True if_False option.inject, blast+)
qed

lemma parse_parts_bounds:
  assumes "parse_parts mn mx parts vals = Some (Inr vs)" "set vals \<subseteq> {mn..mx}"
  shows "set vs \<subseteq> {mn..mx}"
  using assms
proof (induction parts arbitrary: vals)
  case (Cons w ws)
  let ?r = "(if CHR ''/'' \<in> set w then parse_step mn mx w vals
            else if CHR ''-'' \<in> set w then Some (parse_range mn mx w vals)
            else Some (parse_value mn mx w vals))"
  obtain vals' where r: "?r = Some (Inr vals')" and p: "parse_parts mn mx ws vals' = Some (Inr vs)"
    using Cons.prems(1) by (auto split: option.splits sum.splits)
  have "set vals' \<subseteq> {mn..mx}"
    using r Cons.prems(2)
    by (auto simp: parse_step_def parse_range_def parse_value_def Let_def subset_iff
      dest!: step_values_bounds split: if_splits option.splits)
  with Cons.IH p show ?case by blast
qed simp

lemma parseCronField_bounds:
  assumes "parseCronField field mn mx = Some (Inr vs)" "mn \<le> mx"
  shows "vs \<noteq> [] \<and> set vs \<subseteq> {mn..mx}"
  using assms parse_parts_bounds [of mn mx "Split (CHR '','') field" "[]"]
  by (auto simp: parseCronField_def split: if_splits option.splits sum.splits)

lemma parse_fields_bounds:
  assumes "parse_fields fs = Some (Inr vss)" "\<forall>(f, mn, mx) \<in> set fs. mn \<le> mx"
  shows "list_all2 (\<lambda>(f, mn, mx) vs. vs \<noteq> [] \<and> set vs \<subseteq> {mn..mx}) fs vss"
  using assms
proof (induction fs arbitrary: vss)
  case (Cons x fs)
  obtain f mn mx where x: "x = (f, mn, mx)" by (cases x)
  from Cons.prems(1) obtain vs vss' where "parseCronField f mn mx = Some (Inr vs)" "parse_fields fs = Some (Inr vss')" "vss = vs # vss'"
    by (auto simp: x split: option.splits sum.splits)
  with Cons.IH [of vss'] Cons.prems(2) parseCronField_bounds [of f mn mx vs] show ?case by (simp add: x)
qed simp

text \<open>an expression that parses has at least one value in each field, and only minutes, hours, days, months and
  weekdays that exist, whatever numbers its steps and ranges are made of.\<close>

theorem cron_values_in_bounds:
  assumes "ParseCronExpression expr = Some (Inr c)"
  shows "cx_Minutes c \<noteq> [] \<and> set (cx_Minutes c) \<subseteq> {0..59} \<and> cx_Hours c \<noteq> [] \<and> set (cx_Hours c) \<subseteq> {0..23} \<and>
    cx_DaysOfMonth c \<noteq> [] \<and> set (cx_DaysOfMonth c) \<subseteq> {1..31} \<and> cx_Months c \<noteq> [] \<and> set (cx_Months c) \<subseteq> {1..12} \<and>
    cx_DaysOfWeek c \<noteq> [] \<and> set (cx_DaysOfWeek c) \<subseteq> {0..6}"
proof -
  obtain vss where l: "length (Fields expr) = 5" and p: "parse_fields (zip (Fields expr) cron_bounds) = Some (Inr vss)"
    and c: "c = \<lparr>cx_Minutes = vss ! 0, cx_Hours = vss ! 1, cx_DaysOfMonth = vss ! 2, cx_Months = vss ! 3, cx_DaysOfWeek = vss ! 4\<rparr>"
    using assms by (auto simp: ParseCronExpression_def Let_def split: if_splits option.splits sum.splits)
  obtain f0 f1 f2 f3 f4 where f: "Fields expr = [f0, f1, f2, f3, f4]"
    using l by (auto simp: length_Suc_conv eval_nat_numeral)
  have "list_all2 (\<lambda>(f, mn, mx) vs. vs \<noteq> [] \<and> set vs \<subseteq> {mn..mx}) (zip (Fields expr) cron_bounds) vss"
    by (rule parse_fields_bounds [OF p]) (simp add: f cron_bounds_def)
  then show ?thesis
    by (auto simp: f cron_bounds_def c list_all2_Cons1 eval_nat_numeral)
qed

declare step_values.simps [code]

lemma cron_values_in_bounds_witness:
  "\<exists>c. ParseCronExpression ''*/15 9-17 1,15 * 1-5'' = Some (Inr c) \<and> cx_Hours c \<noteq> [] \<and> set (cx_Hours c) \<subseteq> {0..23}"
proof -
  let ?r = "ParseCronExpression ''*/15 9-17 1,15 * 1-5''"
  have "case ?r of Some (Inr c) \<Rightarrow> True | _ \<Rightarrow> False" by code_simp
  then obtain c where c: "?r = Some (Inr c)" by (auto split: option.splits sum.splits)
  with cron_values_in_bounds [OF this] show ?thesis by blast
qed

section \<open>When parsing returns\<close>

lemma step_values_returns:
  assumes "0 < step" "- (2 ^ 63) \<le> i" "en + step < 2 ^ 63"
  shows "\<exists>vs. step_values mn mx step en i vals = Some vs"
  using assms(2)
proof (induction "nat (en + 1 - i)" arbitrary: i vals rule: less_induct)
  case less
  show ?case
  proof (cases "i \<le> en")
    case True
    then have w: "wrap64 (i + step) = i + step" using assms(1,3) less.prems by (intro wrap64_id) linarith+
    have "\<exists>vs. step_values mn mx step en (i + step) vals' = Some vs" for vals'
      by (rule less.hyps) (use True assms(1) less.prems in linarith)+
    with True show ?thesis by (subst step_values.simps) (simp add: w)
  next
    case False
    then show ?thesis by (subst step_values.simps) simp
  qed
qed

text \<open>With the largest number as its end a step never ends: every number the counter can hold lies below.\<close>

lemma wrap64_le: "wrap64 i \<le> 2 ^ 63 - 1"
  unfolding wrap64_def using pos_mod_bound [of "2 ^ 64" "i + 2 ^ 63"] by simp

lemma step_values_forever:
  assumes "i \<le> 2 ^ 63 - 1"
  shows "step_values mn mx step (2 ^ 63 - 1) i vals = None"
proof -
  have "step_values mn mx step en i vals = Some vs \<Longrightarrow> en = 2 ^ 63 - 1 \<longrightarrow> \<not> i \<le> en" for mn mx step en i vals vs
    by (rule step_values.raw_induct [where P = "\<lambda>mn mx step en i vals vs. en = 2 ^ 63 - 1 \<longrightarrow> \<not> i \<le> en"])
      (fastforce simp: wrap64_le [simplified] split: if_splits)
  with assms show ?thesis by (cases "step_values mn mx step (2 ^ 63 - 1) i vals") blast+
qed


lemma dec_val_less: "list_all is_digit ds \<Longrightarrow> dec_val ds < 10 ^ length ds"
proof (induction ds rule: rev_induct)
  case (snoc d ds)
  then have "dec_val ds < 10 ^ length ds" "digit_val d < 10" by (auto simp: is_digit_def digit_val_def Let_def)
  then show ?case by (simp add: dec_val_def)
qed (simp add: dec_val_def)

lemma short_number:
  assumes "length s \<le> 18"
  shows "ParseInt s = Some v \<Longrightarrow> \<bar>v\<bar> < 10 ^ 18" "\<bar>Atoi_value s\<bar> < 10 ^ 18"
proof -
  let ?ds = "if s \<noteq> [] \<and> hd s \<in> {CHR ''-'', CHR ''+''} then tl s else s"
  have "length ?ds \<le> 18" using assms by auto
  then have p: "(10 :: nat) ^ length ?ds \<le> 10 ^ 18" by (rule power_increasing) simp
  have small: "int (dec_val ?ds) < 10 ^ 18" if "list_all is_digit ?ds"
  proof -
    have "dec_val ?ds < 10 ^ 18" using dec_val_less [OF that] p by (rule order_less_le_trans)
    then show ?thesis by simp
  qed
  show v: "\<bar>v\<bar> < 10 ^ 18" if "ParseInt s = Some v" for v
    using that small by (auto simp: ParseInt_def Let_def split: if_splits)
  show "\<bar>Atoi_value s\<bar> < 10 ^ 18"
  proof (cases "ParseInt s")
    case None
    have "\<not> (?ds \<noteq> [] \<and> list_all is_digit ?ds)"
    proof
      assume d: "?ds \<noteq> [] \<and> list_all is_digit ?ds"
      with small have "int (dec_val ?ds) < 10 ^ 18" by blast
      with d None show False unfolding ParseInt_def Let_def by (auto split: if_splits)
    qed
    then show ?thesis using None unfolding Atoi_value_def Let_def by auto
  next
    case (Some w)
    with v show ?thesis by (simp add: Atoi_value_def)
  qed
qed

lemma length_Split: "w \<in> set (Split c s) \<Longrightarrow> length w \<le> length s"
  by (induction s arbitrary: w) (fastforce split: if_splits list.splits)+

lemma parse_step_returns:
  assumes "length w \<le> 18" "0 \<le> mn" "mx < 100"
  shows "parse_step mn mx w vals \<noteq> None"
proof (cases "length (Split (CHR ''/'') w) = 2")
  case True
  let ?p = "Split (CHR ''/'') w"
  have in_p: "?p ! 0 \<in> set ?p" "?p ! 1 \<in> set ?p" using True by auto
  then have l: "length (?p ! 0) \<le> 18" "length (?p ! 1) \<le> 18" using assms(1) length_Split by (meson le_trans)+
  show ?thesis
  proof (cases "ParseInt (?p ! 1)")
    case (Some step)
    let ?r = "Split (CHR ''-'') (?p ! 0)"
    let ?b = "(if ?p ! 0 = ''*'' then (mn, mx) else if CHR ''-'' \<in> set (?p ! 0) then (Atoi_value (?r ! 0), Atoi_value (?r ! 1))
        else (Atoi_value (?p ! 0), mx))"
    obtain start en where b: "?b = (start, en)" by (cases ?b)
    have r: "\<bar>Atoi_value (?r ! 0)\<bar> < 10 ^ 18" "\<bar>Atoi_value (?r ! 1)\<bar> < 10 ^ 18" if "CHR ''-'' \<in> set (?p ! 0)"
    proof -
      have "length ?r \<noteq> 0" "length ?r \<noteq> 1"
        using that Split_no_sep [of "?p ! 0" "CHR ''-''" "?p ! 0"] Join_Split [of "CHR ''-''" "?p ! 0"] by (auto simp: length_Suc_conv)
      then have "1 < length ?r" by linarith
      then have "?r ! 0 \<in> set ?r" "?r ! 1 \<in> set ?r" by (auto intro: nth_mem)
      then show "\<bar>Atoi_value (?r ! 0)\<bar> < 10 ^ 18" "\<bar>Atoi_value (?r ! 1)\<bar> < 10 ^ 18"
        using l(1) length_Split by (meson le_trans short_number(2))+
    qed
    have "- (2 ^ 63) \<le> start \<and> en < 10 ^ 18"
      using b assms(2,3) r short_number(2) [OF l(1)] by (auto split: if_splits)
    moreover have "\<bar>step\<bar> < 10 ^ 18" by (rule short_number(1) [OF l(2) Some])
    ultimately have "0 < step \<Longrightarrow> \<exists>vs. step_values mn mx step en start vals = Some vs"
      by (intro step_values_returns) auto
    then show ?thesis using True Some b by (auto simp: parse_step_def Let_def)
  qed (use True in \<open>simp add: parse_step_def Let_def\<close>)
qed (simp add: parse_step_def Let_def)

lemma parseCronField_returns:
  assumes "length field \<le> 18" "0 \<le> mn" "mx < 100"
  shows "parseCronField field mn mx \<noteq> None"
proof -
  have "\<forall>w \<in> set ws. length w \<le> 18 \<Longrightarrow> parse_parts mn mx ws vals \<noteq> None" for ws vals
  proof (induction ws arbitrary: vals)
    case (Cons a ws)
    then have "parse_step mn mx a vals \<noteq> None" by (intro parse_step_returns [OF _ assms(2,3)]) simp
    with Cons show ?case by (auto split: option.split sum.split)
  qed simp
  moreover have "\<forall>w \<in> set (Split (CHR '','') field). length w \<le> 18" using length_Split assms(1) by (meson le_trans)
  ultimately have "parse_parts mn mx (Split (CHR '','') field) [] \<noteq> None" by blast
  then show ?thesis by (auto simp: parseCronField_def split: option.split sum.split)
qed

text \<open>C38: parsing returns, with an expression or an error, for every text of which no field is longer than
  eighteen characters; and there is a text on which it does not return.\<close>

theorem cron_parsing_returns:
  "((\<forall>f \<in> set (Fields expr). length f \<le> 18) \<longrightarrow> ParseCronExpression expr \<noteq> None) \<and>
   ParseCronExpression ''0-9223372036854775807/1 * * * *'' = None"
proof (rule conjI)
  show "(\<forall>f \<in> set (Fields expr). length f \<le> 18) \<longrightarrow> ParseCronExpression expr \<noteq> None"
  proof
    assume f: "\<forall>f \<in> set (Fields expr). length f \<le> 18"
    have "(\<forall>(f, mn, mx) \<in> set fs. length f \<le> 18 \<and> 0 \<le> mn \<and> mx < 100) \<Longrightarrow> parse_fields fs \<noteq> None" for fs
    proof (induction fs)
      case (Cons x fs)
      obtain g mn mx where x: "x = (g, mn, mx)" by (cases x)
      with Cons show ?case using parseCronField_returns [of g mn mx] by (auto simp: x split: option.split sum.split)
    qed simp
    moreover have "length g \<le> 18 \<and> 0 \<le> mn \<and> mx < 100" if z: "(g, mn, mx) \<in> set (zip (Fields expr) cron_bounds)" for g mn mx
      using f set_zip_leftD [OF z] set_zip_rightD [OF z] by (auto simp: cron_bounds_def)
    ultimately have "parse_fields (zip (Fields expr) cron_bounds) \<noteq> None" by fast
    then show "ParseCronExpression expr \<noteq> None" by (auto simp: ParseCronExpression_def Let_def split: option.split sum.split)
  qed
next
  have f: "Fields ''0-9223372036854775807/1 * * * *'' = [''0-9223372036854775807/1'', ''*'', ''*'', ''*'', ''*'']" by code_simp
  have s: "Split (CHR '','') ''0-9223372036854775807/1'' = [''0-9223372036854775807/1'']"
    "Split (CHR ''/'') ''0-9223372036854775807/1'' = [''0-9223372036854775807'', ''1'']"
    "Split (CHR ''-'') ''0-9223372036854775807'' = [''0'', ''9223372036854775807'']"
    "ParseInt ''1'' = Some 1" "Atoi_value ''0'' = 0" by code_simp+
  have e: "Atoi_value ''9223372036854775807'' = 2 ^ 63 - 1"
    by (simp add: Atoi_value_def ParseInt_def dec_val_def digit_val_def is_digit_def Let_def)
  have "parseCronField ''0-9223372036854775807/1'' 0 59 = None"
    using step_values_forever [of 0 0 59 1 "[]"] by (simp add: parseCronField_def s e parse_step_def)
  then have "parse_fields (zip [''0-9223372036854775807/1'', ''*'', ''*'', ''*'', ''*''] cron_bounds) = None"
    by (simp only: cron_bounds_def zip_Cons_Cons parse_fields.simps option.case)
  then show "ParseCronExpression ''0-9223372036854775807/1 * * * *'' = None"
    unfolding ParseCronExpression_def f Let_def by simp
qed


lemma cron_parsing_returns_witness: "ParseCronExpression ''a-b/c 61 x 1-2-3 7'' \<noteq> None"
proof -
  have "\<forall>f \<in> set (Fields ''a-b/c 61 x 1-2-3 7''). length f \<le> 18" by code_simp
  with cron_parsing_returns [of "''a-b/c 61 x 1-2-3 7''"] show ?thesis by blast
qed

section \<open>What the search finds\<close>

lemma next_match_Some:
  "next_match P n t = Some u \<Longrightarrow> \<exists>k < n. u = t + int k * minute \<and> P u \<and> (\<forall>j < k. \<not> P (t + int j * minute))"
proof (induction n arbitrary: t)
  case (Suc n)
  show ?case
  proof (cases "P t")
    case True
    with Suc.prems show ?thesis by (intro exI [of _ 0]) auto
  next
    case False
    with Suc obtain k where k: "k < n" "u = t + minute + int k * minute" "P u" "\<forall>j < k. \<not> P (t + minute + int j * minute)"
      by fastforce
    have "\<not> P (t + int j * minute)" if "j < Suc k" for j
      using that False k(4) by (cases j) (auto simp: algebra_simps)
    with k show ?thesis by (intro exI [of _ "Suc k"]) (auto simp: algebra_simps)
  qed
qed simp

lemma next_match_None: "next_match P n t = None \<Longrightarrow> k < n \<Longrightarrow> \<not> P (t + int k * minute)"
proof (induction n arbitrary: t k)
  case (Suc n)
  then have n: "\<not> P t" "next_match P n (t + minute) = None" by (auto split: if_splits)
  show ?case
  proof (cases k)
    case (Suc j)
    with Suc.IH [OF n(2), of j] Suc.prems(2) show ?thesis by (simp add: algebra_simps)
  qed (use n in simp)
qed simp

text \<open>The whole minutes after a time, counted from 0.\<close>

definition minute_after :: "gotime \<Rightarrow> nat \<Rightarrow> gotime" where
  "minute_after after k = after div minute * minute + minute + int k * minute"

text \<open>the next run is the first whole minute after the given time that the expression matches, if there is one
  within four years of 365 days; if there is none, as for the thirtieth of February, it is one minute later.\<close>

theorem NextRun_first_match:
  "(\<exists>k < maxIterations. NextRun clock c after = minute_after after k \<and> after < minute_after after k \<and>
      cron_matches c (clock (minute_after after k)) \<and> (\<forall>j < k. \<not> cron_matches c (clock (minute_after after j)))) \<or>
   (NextRun clock c after = after + minute \<and> (\<forall>k < maxIterations. \<not> cron_matches c (clock (minute_after after k))))"
proof (cases "next_match (\<lambda>t. cron_matches c (clock t)) maxIterations (after div minute * minute + minute)")
  case None
  then show ?thesis using next_match_None [OF None] by (simp add: NextRun_def minute_after_def)
next
  case (Some u)
  have "after < after div minute * minute + minute" using pos_mod_bound [of minute after]
    by (simp add: minute_def second_def flip: minus_mod_eq_div_mult)
  then have later: "after < minute_after after k" for k by (simp add: minute_after_def minute_def second_def)
  from next_match_Some [OF Some] show ?thesis
    using Some later by (auto simp: NextRun_def minute_after_def)
qed

lemma NextRun_first_match_witness:
  "NextRun (\<lambda>t. \<lparr>cv_Minute = t div minute mod 60, cv_Hour = 0, cv_Day = 1, cv_Month = 1, cv_Weekday = 0\<rparr>)
     \<lparr>cx_Minutes = [1], cx_Hours = [0], cx_DaysOfMonth = [1], cx_Months = [1], cx_DaysOfWeek = [0]\<rparr> 0 = minute"
  (is "NextRun ?clock ?c 0 = minute")
proof -
  have m: "cron_matches ?c (?clock (minute_after 0 0))" by (simp add: cron_matches_def minute_after_def minute_def second_def)
  have "k = 0" if "\<forall>j < k. \<not> cron_matches ?c (?clock (minute_after 0 j))" for k
    using m that by (cases k) auto
  moreover have "0 < maxIterations" by (simp add: maxIterations_def)
  ultimately show ?thesis
    using NextRun_first_match [of ?clock ?c 0] m by (auto simp: minute_after_def)
qed

lemma thirtieth_of_February:
  assumes "\<forall>t. cv_Month (clock t) = 2 \<longrightarrow> cv_Day (clock t) \<le> 29" "ParseCronExpression ''0 0 30 2 *'' = Some (Inr c)"
  shows "NextRun clock c after = after + minute"
proof -
  have "ParseCronExpression ''0 0 30 2 *'' =
      Some (Inr \<lparr>cx_Minutes = [0], cx_Hours = [0], cx_DaysOfMonth = [30], cx_Months = [2], cx_DaysOfWeek = [0, 1, 2, 3, 4, 5, 6]\<rparr>)"
    by code_simp
  with assms have "\<not> cron_matches c (clock t)" for t by (force simp: cron_matches_def)
  then show ?thesis using NextRun_first_match [of clock c after] by blast
qed

end
