(* ===== verification/ScriptRuns.thy ===== *)
theory ScriptRuns
  imports ScriptStore Cron Notifications
begin

text \<open>
  Running scripts: the pool of workers behind asynchronous executions (\<open>internal/scripts/runner.go\<close>), the
  messages about them (\<open>notifier.go\<close>) and the scheduler (\<open>scheduler.go\<close>).  The executor is an argument; it
  answers with the text of its error or with a result.
\<close>

section \<open>Messages\<close>

datatype exec_note =
    NoteStarted string string string gotime
  | NoteCompleted string string execution_status string "duration option" gotime "int option"
  | NoteFailed string string execution_status string string "duration option" gotime "int option"

record notifier_config =
  nc_TTL :: duration
  nc_MaxRetries :: int
  nc_MaxOutputInNotif :: int

definition NewWebSocketNotifier :: "notifier_config \<Rightarrow> notifier_config" where
  "NewWebSocketNotifier cfg =
     \<lparr>nc_TTL = (if nc_TTL cfg = 0 then 24 * hour else nc_TTL cfg),
      nc_MaxRetries = (if nc_MaxRetries cfg = 0 then 3 else nc_MaxRetries cfg),
      nc_MaxOutputInNotif = (if nc_MaxOutputInNotif cfg = 0 then 10 * 1024 else nc_MaxOutputInNotif cfg)\<rparr>"

text \<open>The connections and the queue, where configured.\<close>

record 'd channels =
  ch_ws :: "ws_manager option"
  ch_queue :: "'d notif_queue option"

text \<open>\<open>marshal\<close> renders a message; \<open>raw\<close> and \<open>parsed\<close> are the data of the live message that carries it.\<close>

record rendering =
  rd_marshal :: "exec_note \<Rightarrow> string"
  rd_raw :: "string \<Rightarrow> ws_data"
  rd_parsed :: "string \<Rightarrow> ws_data"

definition timed_msg :: "gotime \<Rightarrow> string \<Rightarrow> ws_data \<Rightarrow> ws_message" where
  "timed_msg now ty d = (ws_msg ty d)\<lparr>ms_Timestamp := now\<rparr>"

text \<open>Started from a web page: everybody hears of it.  A reliable message goes through the queue; when that fails or for
  the others, a live one is sent.\<close>

definition notify_send ::
  "rendering \<Rightarrow> notifier_config \<Rightarrow> conn \<Rightarrow> gotime \<Rightarrow> string \<Rightarrow> string \<Rightarrow> exec_note \<Rightarrow> bool \<Rightarrow> 'd channels \<Rightarrow> 'd channels" where
  "notify_send rd cfg c now deviceID msgType note reliable ch =
     (let payload = rd_marshal rd note;
          live = (\<lambda>ch. case ch_ws ch of
              None \<Rightarrow> ch
            | Some wm \<Rightarrow> ch\<lparr>ch_ws := Some (fst (SendToDevice deviceID (timed_msg now msgType (rd_raw rd payload)) wm))\<rparr>)
      in if HasPrefix deviceID ''web:''
         then ch\<lparr>ch_ws := map_option (Broadcast (timed_msg now msgType (rd_parsed rd payload))) (ch_ws ch)\<rparr>
         else case (reliable, ch_queue ch) of
           (True, Some q) \<Rightarrow>
             (case Enqueue c now q deviceID msgType payload (nc_TTL cfg) (nc_MaxRetries cfg) of
                (q', None) \<Rightarrow> ch\<lparr>ch_queue := Some q'\<rparr>
              | (q', Some e) \<Rightarrow> live (ch\<lparr>ch_queue := Some q'\<rparr>))
         | _ \<Rightarrow> live ch)"

definition no_device :: "string \<Rightarrow> bool" where
  "no_device d \<longleftrightarrow> d = [] \<or> d = ''scheduler''"

definition NotifyExecutionStarted ::
  "rendering \<Rightarrow> notifier_config \<Rightarrow> conn \<Rightarrow> gotime \<Rightarrow> string \<Rightarrow> string \<Rightarrow> string \<Rightarrow> string \<Rightarrow> 'd channels \<Rightarrow> 'd channels" where
  "NotifyExecutionStarted rd cfg c now deviceID executionID scriptID scriptName ch =
     (if no_device deviceID then ch
      else notify_send rd cfg c now deviceID ''execution_started'' (NoteStarted executionID scriptID scriptName now) False ch)"

definition shortened :: "notifier_config \<Rightarrow> string \<Rightarrow> string" where
  "shortened cfg out =
     (if nc_MaxOutputInNotif cfg > 0 \<and> int (length out) > nc_MaxOutputInNotif cfg
      then take (nat (nc_MaxOutputInNotif cfg)) out @ [char_of (10 :: nat)] @ ''... [output truncated]'' else out)"

definition run_time :: "execution \<Rightarrow> duration option" where
  "run_time x = (case (ex_StartedAt x, ex_CompletedAt x) of (Some a, Some b) \<Rightarrow> Some (b - a) | _ \<Rightarrow> None)"

definition NotifyExecutionCompleted ::
  "rendering \<Rightarrow> notifier_config \<Rightarrow> conn \<Rightarrow> gotime \<Rightarrow> string \<Rightarrow> string \<Rightarrow> execution \<Rightarrow> 'd channels \<Rightarrow> 'd channels" where
  "NotifyExecutionCompleted rd cfg c now deviceID i x ch =
     (if no_device deviceID then ch
      else notify_send rd cfg c now deviceID ''execution_completed''
        (NoteCompleted i (ex_ScriptID x) (ex_Status x) (shortened cfg (ex_Output x)) (run_time x) now (ex_ExitCode x)) True ch)"

definition NotifyExecutionFailed ::
  "rendering \<Rightarrow> notifier_config \<Rightarrow> conn \<Rightarrow> gotime \<Rightarrow> string \<Rightarrow> string \<Rightarrow> execution \<Rightarrow> string \<Rightarrow> 'd channels \<Rightarrow> 'd channels" where
  "NotifyExecutionFailed rd cfg c now deviceID i x errorMsg ch =
     (if no_device deviceID then ch
      else notify_send rd cfg c now deviceID ''execution_failed''
        (NoteFailed i (ex_ScriptID x) (ex_Status x) (shortened cfg (ex_Output x)) errorMsg (run_time x) now (ex_ExitCode x)) True ch)"

section \<open>How a run is recorded\<close>

type_synonym run_answer = "string + execution_result"

text \<open>Status, exit code, output and message; \<open>msgs\<close> are the messages for a time-out and for an exit code.\<close>

definition run_outcome :: "string \<times> string \<Rightarrow> run_answer \<Rightarrow> execution_status \<times> int option \<times> string option \<times> string" where
  "run_outcome msgs a =
     (case a of
        Inl e \<Rightarrow> (XFailed, None, None, e)
      | Inr r \<Rightarrow>
          if xr_TimedOut r then (XTimeout, None, Some (xr_Output r), fst msgs)
          else if xr_Cancelled r then (XCancelled, None, Some (xr_Output r), [])
          else if xr_ExitCode r \<noteq> 0 then (XFailed, Some (xr_ExitCode r), Some (xr_Output r), snd msgs)
          else (XCompleted, Some (xr_ExitCode r), Some (xr_Output r), []))"

text \<open>A statement whose failure is only logged.\<close>

definition db_logged :: "(script_db \<Rightarrow> db_error + script_db) \<Rightarrow> script_db \<Rightarrow> script_db" where
  "db_logged f db = (case f db of Inl e \<Rightarrow> db | Inr db' \<Rightarrow> db')"

definition mark_running :: "conn \<Rightarrow> string \<Rightarrow> gotime \<Rightarrow> script_db \<Rightarrow> script_db" where
  "mark_running c i start = db_logged (\<lambda>db. UpdateExecutionStatus c db i XRunning (Some start) None None None [])"

definition record_run :: "conn \<Rightarrow> string \<Rightarrow> gotime \<Rightarrow> execution_status \<times> int option \<times> string option \<times> string \<Rightarrow> script_db \<Rightarrow> script_db" where
  "record_run c i done_at o4 =
     (case o4 of (status, code, out, msg) \<Rightarrow>
        db_logged (\<lambda>db. UpdateExecutionStatus c db i status None (Some done_at) code out msg))"

section \<open>The runner\<close>

record job =
  jb_ExecutionID :: string
  jb_Script :: script
  jb_Parameters :: params
  jb_DryRun :: bool
  jb_TriggeredBy :: string

text \<open>\<open>rn_busy\<close> are the jobs the workers hold, one each.\<close>

record runner =
  rn_WorkerCount :: nat
  rn_QueueSize :: nat
  rn_started :: bool
  rn_queue :: "job list"
  rn_busy :: "job list"

definition NewRunner :: "int \<Rightarrow> int \<Rightarrow> runner" where
  "NewRunner workers qsize =
     \<lparr>rn_WorkerCount = (if workers \<le> 0 then 3 else nat workers), rn_QueueSize = (if qsize \<le> 0 then 100 else nat qsize),
      rn_started = False, rn_queue = [], rn_busy = []\<rparr>"

datatype runner_error = QueueFull | RunnerNotStarted | RunnerAlreadyStarted

definition runner_Start :: "runner \<Rightarrow> runner \<times> runner_error option" where
  "runner_Start r = (if rn_started r then (r, Some RunnerAlreadyStarted) else (r\<lparr>rn_started := True\<rparr>, None))"

definition Submit :: "job \<Rightarrow> runner \<Rightarrow> runner \<times> runner_error option" where
  "Submit j r =
     (if \<not> rn_started r then (r, Some RunnerNotStarted)
      else if length (rn_queue r) < rn_QueueSize r then (r\<lparr>rn_queue := rn_queue r @ [j]\<rparr>, None)
      else (r, Some QueueFull))"

definition QueueLength :: "runner \<Rightarrow> nat" where "QueueLength r = length (rn_queue r)"

text \<open>The two halves of \<open>executeJob\<close>, before and after the script ran; the messages need a notifier.\<close>

record run_env =
  re_running :: conn
  re_result :: conn
  re_read :: conn
  re_notify :: conn
  re_start :: gotime
  re_end :: gotime

definition begin_job ::
  "rendering \<Rightarrow> notifier_config option \<Rightarrow> run_env \<Rightarrow> job \<Rightarrow> script_db \<times> 'd channels \<Rightarrow> script_db \<times> 'd channels" where
  "begin_job rd nf env j s =
     (mark_running (re_running env) (jb_ExecutionID j) (re_start env) (fst s),
      case nf of
        Some cfg \<Rightarrow> (if jb_TriggeredBy j = [] then snd s
                     else NotifyExecutionStarted rd cfg (re_notify env) (re_start env) (jb_TriggeredBy j) (jb_ExecutionID j)
                            (sc_ID (jb_Script j)) (sc_Name (jb_Script j)) (snd s))
      | None \<Rightarrow> snd s)"

definition job_messages :: "string \<times> string" where
  "job_messages = (''script timed out'', ''script exited with non-zero code'')"

definition finish_job ::
  "rendering \<Rightarrow> notifier_config option \<Rightarrow> run_env \<Rightarrow> job \<Rightarrow> run_answer \<Rightarrow> script_db \<times> 'd channels \<Rightarrow> script_db \<times> 'd channels" where
  "finish_job rd nf env j a s =
     (let o4 = run_outcome job_messages a; d = jb_TriggeredBy j;
          db = record_run (re_result env) (jb_ExecutionID j) (re_end env) o4 (fst s)
      in (db,
          case nf of
            None \<Rightarrow> snd s
          | Some cfg \<Rightarrow>
              (if d = [] \<or> d = ''scheduler'' then snd s
               else case GetExecution (re_read env) db (jb_ExecutionID j) of
                 Inr (Some x) \<Rightarrow>
                   (if fst o4 = XCompleted
                    then NotifyExecutionCompleted rd cfg (re_notify env) (re_end env) d (jb_ExecutionID j) x (snd s)
                    else NotifyExecutionFailed rd cfg (re_notify env) (re_end env) d (jb_ExecutionID j) x (snd (snd (snd o4))) (snd s))
               | _ \<Rightarrow> snd s)))"

section \<open>The scheduler\<close>

text \<open>The clocks and statements of one scheduled run, the ID it draws and the executor's answer.\<close>

record sched_env =
  se_save :: conn
  se_running :: conn
  se_result :: conn
  se_update :: conn
  se_id :: string
  se_created :: gotime
  se_start :: gotime
  se_end :: gotime
  se_next :: gotime
  se_answer :: "script \<Rightarrow> params \<Rightarrow> run_answer"

definition scheduled_execution :: "sched_env \<Rightarrow> string \<Rightarrow> schedule \<Rightarrow> execution" where
  "scheduled_execution env i sh =
     \<lparr>ex_ScriptID = sh_ScriptID sh, ex_WorkflowID = [], ex_WorkflowExID = [], ex_Status = XPending, ex_IsDryRun = False,
      ex_TriggeredBy = ''scheduler:'' @ i, ex_TriggeredIP = [], ex_Parameters = sh_Parameters sh, ex_Output = [],
      ex_ExitCode = None, ex_ErrorMessage = [], ex_StartedAt = None, ex_CompletedAt = None, ex_CreatedAt = se_created env\<rparr>"

text \<open>\<open>None\<close>: the parser of the expression does not return.\<close>

definition executeSchedule ::
  "(gotime \<Rightarrow> civil) \<Rightarrow> (string, script) gomap \<Rightarrow> sched_env \<Rightarrow> string \<Rightarrow> schedule \<Rightarrow> script_db \<Rightarrow> script_db option" where
  "executeSchedule clock scripts env i sh db =
     (case get scripts (sh_ScriptID sh) of
        None \<Rightarrow> Some db
      | Some script \<Rightarrow>
          (case SaveExecution (se_save env) db (se_id env) (scheduled_execution env i sh) of
             Inl e \<Rightarrow> Some db
           | Inr db1 \<Rightarrow>
               (let db2 = mark_running (se_running env) (se_id env) (se_start env) db1;
                    db3 = record_run (se_result env) (se_id env) (se_end env)
                            (run_outcome ([], []) (se_answer env script (sh_Parameters sh))) db2
                in case ParseCronExpression (sh_CronExpression sh) of
                  None \<Rightarrow> None
                | Some (Inl e) \<Rightarrow> Some db3
                | Some (Inr c) \<Rightarrow>
                    Some (db_logged (\<lambda>db. UpdateScheduleLastRun (se_update env) db i (se_created env)
                                        (NextRun clock c (se_next env))) db3))))"

definition due :: "gotime \<Rightarrow> schedule \<Rightarrow> bool" where
  "due now sh \<longleftrightarrow> sh_Enabled sh \<and> (case sh_NextRunAt sh of None \<Rightarrow> True | Some t \<Rightarrow> \<not> After t now)"

fun execute_due ::
  "(gotime \<Rightarrow> civil) \<Rightarrow> (string, script) gomap \<Rightarrow> (nat \<Rightarrow> sched_env) \<Rightarrow> gotime \<Rightarrow> nat \<Rightarrow> (string \<times> schedule) list \<Rightarrow> script_db
   \<Rightarrow> script_db option" where
  "execute_due clock scripts envs now k [] db = Some db"
| "execute_due clock scripts envs now k ((i, sh) # rest) db =
     (if due now sh
      then (case executeSchedule clock scripts (envs k) i sh db of
              None \<Rightarrow> None
            | Some db' \<Rightarrow> execute_due clock scripts envs now (Suc k) rest db')
      else execute_due clock scripts envs now (Suc k) rest db)"

definition checkSchedules ::
  "(gotime \<Rightarrow> string) \<Rightarrow> (gotime \<Rightarrow> civil) \<Rightarrow> (string, script) gomap \<Rightarrow> conn \<Rightarrow> gotime \<Rightarrow> (nat \<Rightarrow> sched_env) \<Rightarrow> script_db
   \<Rightarrow> script_db option" where
  "checkSchedules dt clock scripts c now envs db =
     (case ListEnabledSchedules dt c db of
        Inl e \<Rightarrow> Some db
      | Inr schedules \<Rightarrow> execute_due clock scripts envs now 0 schedules db)"

section \<open>Due schedules run once\<close>

text \<open>The record of a scheduled run when all its statements were carried out.\<close>

definition run_row :: "(string, script) gomap \<Rightarrow> sched_env \<Rightarrow> string \<Rightarrow> schedule \<Rightarrow> execution" where
  "run_row scripts env i sh =
     (case run_outcome ([], []) (se_answer env (the (get scripts (sh_ScriptID sh))) (sh_Parameters sh)) of
        (status, code, out, msg) \<Rightarrow>
          (scheduled_execution env i sh)\<lparr>ex_Status := status, ex_StartedAt := Some (se_start env),
             ex_CompletedAt := Some (se_end env), ex_ExitCode := code, ex_Output := (case out of None \<Rightarrow> [] | Some t \<Rightarrow> t),
             ex_ErrorMessage := msg\<rparr>)"

definition sched_env_ok :: "sched_env \<Rightarrow> bool" where
  "sched_env_ok env \<longleftrightarrow> cn_ok (se_save env) \<and> cn_ok (se_running env) \<and> cn_ok (se_result env) \<and> cn_ok (se_update env)"

definition rescheduled :: "(gotime \<Rightarrow> civil) \<Rightarrow> sched_env \<Rightarrow> schedule \<Rightarrow> schedule" where
  "rescheduled clock env sh =
     (case ParseCronExpression (sh_CronExpression sh) of
        Some (Inr c) \<Rightarrow> sh\<lparr>sh_LastRunAt := Some (se_created env), sh_NextRunAt := Some (NextRun clock c (se_next env))\<rparr>
      | _ \<Rightarrow> sh)"

definition parses :: "schedule \<Rightarrow> bool" where
  "parses sh \<longleftrightarrow> (\<exists>c. ParseCronExpression (sh_CronExpression sh) = Some (Inr c))"

lemma adjust_put_new: "\<not> has m i \<Longrightarrow> adjust i f (m @ [(i, v)]) = m @ [(i, f v)]"
  by (force simp: adjust_def has_iff intro: map_idI)

lemma adjust_cong:
  assumes "get m i = Some v" "wf_map m" "f v = g v"
  shows "adjust i f m = adjust i g m"
proof -
  have "f w = g w" if "(i, w) \<in> set m" for w using that assms get_iff_in [OF assms(2), of i w] by simp
  then show ?thesis by (auto simp: adjust_def)
qed

lemma executeSchedule_runs:
  assumes "get scripts (sh_ScriptID sh) = Some s" "sched_env_ok env" "\<not> has (sd_executions db) (se_id env)"
    and "has (sd_scripts db) (sh_ScriptID sh)" "parses sh" "get (sd_schedules db) i = Some sh" "wf_map (sd_schedules db)"
  shows "executeSchedule clock scripts env i sh db =
    Some (db\<lparr>sd_executions := sd_executions db @ [(se_id env, run_row scripts env i sh)],
             sd_schedules := adjust i (rescheduled clock env) (sd_schedules db)\<rparr>)"
proof -
  obtain c where c: "ParseCronExpression (sh_CronExpression sh) = Some (Inr c)" using assms(5) by (auto simp: parses_def)
  obtain status code out msg
    where o: "run_outcome ([], []) (se_answer env s (sh_Parameters sh)) = (status, code, out, msg)"
    using prod_cases4 by blast
  have a: "adjust i (rescheduled clock env) (sd_schedules db) =
      adjust i (\<lambda>t. t\<lparr>sh_LastRunAt := Some (se_created env), sh_NextRunAt := Some (NextRun clock c (se_next env))\<rparr>) (sd_schedules db)"
    by (rule adjust_cong [OF assms(6,7)]) (simp add: rescheduled_def c)
  have k: "get (sd_executions db) (se_id env) = None" using assms(3) by (simp add: has_def)
  show ?thesis
    using assms(1-4)
    by (simp add: executeSchedule_def SaveExecution_def k scheduled_execution_def mark_running_def record_run_def
        db_logged_def UpdateExecutionStatus_def UpdateScheduleLastRun_def sched_env_ok_def c o a run_row_def put_new
        adjust_put_new coalesce_def coalesce_text_def)
qed

fun due_runs :: "(string, script) gomap \<Rightarrow> gotime \<Rightarrow> nat \<Rightarrow> (string \<times> schedule) list \<Rightarrow> (nat \<times> string \<times> schedule) list" where
  "due_runs scripts now k [] = []"
| "due_runs scripts now k ((i, sh) # rest) =
     (if due now sh \<and> has scripts (sh_ScriptID sh) then (k, i, sh) # due_runs scripts now (Suc k) rest
      else due_runs scripts now (Suc k) rest)"

lemma due_runs_from: "(k', i, sh) \<in> set (due_runs scripts now k l) \<Longrightarrow> k \<le> k'"
  by (induction l arbitrary: k) (fastforce split: if_splits)+

lemma due_runs_in:
  "(k', i, sh) \<in> set (due_runs scripts now k l) \<Longrightarrow> (i, sh) \<in> set l \<and> due now sh \<and> has scripts (sh_ScriptID sh)"
  by (induction l arbitrary: k) (force split: if_splits)+

lemma due_runs_all:
  "(i, sh) \<in> set l \<Longrightarrow> due now sh \<Longrightarrow> has scripts (sh_ScriptID sh) \<Longrightarrow> \<exists>k'. (k', i, sh) \<in> set (due_runs scripts now k l)"
  by (induction l arbitrary: k) fastforce+

lemma due_runs_sub: "set (map (\<lambda>(k, i, sh). i) (due_runs scripts now k l)) \<subseteq> fst ` set l"
  using due_runs_in [of _ _ _ scripts now k l] by (force simp: image_iff)

lemma due_runs_distinct: "distinct (map fst l) \<Longrightarrow> distinct (map (\<lambda>(k, i, sh). i) (due_runs scripts now k l))"
proof (induction l arbitrary: k)
  case (Cons p l)
  then show ?case using due_runs_sub [of scripts now "Suc k" l] by (cases p) auto
qed simp

definition reschedule_all ::
  "(gotime \<Rightarrow> civil) \<Rightarrow> (nat \<Rightarrow> sched_env) \<Rightarrow> (nat \<times> string \<times> schedule) list \<Rightarrow> (string, schedule) gomap \<Rightarrow> (string, schedule) gomap" where
  "reschedule_all clock envs = fold (\<lambda>(k, i, sh). adjust i (rescheduled clock (envs k)))"

lemma get_reschedule_all:
  assumes "distinct (map (\<lambda>(k, i, sh). i) rs)"
  shows "get (reschedule_all clock envs rs m) j =
    (case find (\<lambda>(k, i, sh). i = j) rs of None \<Rightarrow> get m j | Some (k, i, sh) \<Rightarrow> map_option (rescheduled clock (envs k)) (get m j))"
  using assms
proof (induction rs arbitrary: m)
  case (Cons r rs)
  obtain k i sh where r: "r = (k, i, sh)" by (cases r)
  have "find (\<lambda>(k, i, sh). i = j) rs = None" if "i = j"
    using Cons.prems that by (force simp: r find_None_iff)
  with Cons show ?case by (auto simp: r reschedule_all_def get_adjust split: option.splits)
qed (simp add: reschedule_all_def)

lemma execute_due_runs:
  assumes "\<And>k. sched_env_ok (envs k)" "inj (\<lambda>k. se_id (envs k))" "\<And>k'. k \<le> k' \<Longrightarrow> \<not> has (sd_executions db) (se_id (envs k'))"
    and "wf_map (sd_schedules db)" "distinct (map fst l)" "\<And>i sh. (i, sh) \<in> set l \<Longrightarrow> get (sd_schedules db) i = Some sh \<and> parses sh"
    and "\<And>i sh. (i, sh) \<in> set l \<Longrightarrow> has scripts (sh_ScriptID sh) \<Longrightarrow> has (sd_scripts db) (sh_ScriptID sh)"
  shows "execute_due clock scripts envs now k l db =
    Some (db\<lparr>sd_executions := sd_executions db @
               map (\<lambda>(k, i, sh). (se_id (envs k), run_row scripts (envs k) i sh)) (due_runs scripts now k l),
             sd_schedules := reschedule_all clock envs (due_runs scripts now k l) (sd_schedules db)\<rparr>)"
  using assms(3-)
proof (induction l arbitrary: k db)
  case Nil
  then show ?case by (simp add: reschedule_all_def)
next
  case (Cons p l)
  obtain i sh where p: "p = (i, sh)" by (cases p)
  show ?case
  proof (cases "due now sh \<and> has scripts (sh_ScriptID sh)")
    case False
    have "executeSchedule clock scripts (envs k) i sh db = Some db" if "due now sh"
      using that False by (simp add: executeSchedule_def has_def)
    moreover have "execute_due clock scripts envs now (Suc k) l db =
        Some (db\<lparr>sd_executions := sd_executions db @
               map (\<lambda>(k, i, sh). (se_id (envs k), run_row scripts (envs k) i sh)) (due_runs scripts now (Suc k) l),
             sd_schedules := reschedule_all clock envs (due_runs scripts now (Suc k) l) (sd_schedules db)\<rparr>)"
    proof (rule Cons.IH)
      fix j t assume "(j, t) \<in> set l" "has scripts (sh_ScriptID t)"
      then show "has (sd_scripts db) (sh_ScriptID t)" using Cons.prems(5) [of j t] by simp
    qed (use Cons.prems in auto)
    ultimately show ?thesis using False by (auto simp: p)
  next
    case True
    then obtain s where s: "get scripts (sh_ScriptID sh) = Some s" by (auto simp: has_def)
    let ?db = "db\<lparr>sd_executions := sd_executions db @ [(se_id (envs k), run_row scripts (envs k) i sh)],
                  sd_schedules := adjust i (rescheduled clock (envs k)) (sd_schedules db)\<rparr>"
    have e: "executeSchedule clock scripts (envs k) i sh db = Some ?db"
      using Cons.prems(1) [of k] Cons.prems(2) Cons.prems(4) [of i sh] Cons.prems(5) [of i sh] True
      by (intro executeSchedule_runs [OF s assms(1)]) (auto simp: p)
    have other: "j \<noteq> i" if "(j, t) \<in> set l" for j t using Cons.prems(3) that by (force simp: p)
    have "execute_due clock scripts envs now (Suc k) l ?db =
        Some (?db\<lparr>sd_executions := sd_executions ?db @
               map (\<lambda>(k, i, sh). (se_id (envs k), run_row scripts (envs k) i sh)) (due_runs scripts now (Suc k) l),
             sd_schedules := reschedule_all clock envs (due_runs scripts now (Suc k) l) (sd_schedules ?db)\<rparr>)"
    proof (rule Cons.IH)
      fix k' assume k': "Suc k \<le> k'"
      then have "se_id (envs k') \<noteq> se_id (envs k)" using injD [OF assms(2), of k' k] by auto
      with k' Cons.prems(1) [of k'] show "\<not> has (sd_executions ?db) (se_id (envs k'))" by (auto simp: has_iff)
    next
      fix j t assume "(j, t) \<in> set l" "has scripts (sh_ScriptID t)"
      then show "has (sd_scripts ?db) (sh_ScriptID t)" using Cons.prems(5) [of j t] by simp
    next
      fix j t assume j: "(j, t) \<in> set l"
      show "get (sd_schedules ?db) j = Some t \<and> parses t"
        using j Cons.prems(4) [of j t] other [OF j] by (simp add: get_adjust)
    qed (use Cons.prems in \<open>auto simp: p\<close>)
    then show ?thesis using True by (simp add: p e reschedule_all_def)
  qed
qed

text \<open>What the scheduler added for a schedule.\<close>

definition runs_of :: "string \<Rightarrow> script_db \<Rightarrow> script_db \<Rightarrow> (string \<times> execution) list" where
  "runs_of i db db' =
     filter (\<lambda>(e, x). ex_TriggeredBy x = ''scheduler:'' @ i) (drop (length (sd_executions db)) (sd_executions db'))"

lemma filter_unique:
  "distinct (map f xs) \<Longrightarrow> x \<in> set xs \<Longrightarrow> filter (\<lambda>y. f y = f x) xs = [x]"
  by (induction xs) (auto simp: filter_empty_conv image_iff)

lemma find_filter: "filter P xs = [x] \<Longrightarrow> find P xs = Some x"
  by (induction xs) (auto split: if_splits)

lemma distinct_map_sort: "distinct (map f xs) \<Longrightarrow> distinct (map f (sort_key g xs))"
  by (simp add: distinct_map)

lemma NextRun_later: "after < NextRun clock c after"
proof -
  have "after < after div minute * minute + minute" using pos_mod_bound [of minute after]
    by (simp add: minute_def second_def flip: minus_mod_eq_div_mult)
  then have later: "after < minute_after after k" for k by (simp add: minute_after_def minute_def second_def)
  show ?thesis
  proof (cases "next_match (\<lambda>t. cron_matches c (clock t)) maxIterations (after div minute * minute + minute)")
    case None
    then show ?thesis by (simp add: NextRun_def minute_def second_def)
  next
    case (Some u)
    from next_match_Some [OF Some] show ?thesis using later by (auto simp: Some NextRun_def minute_after_def)
  qed
qed

lemma run_row_TriggeredBy [simp]: "ex_TriggeredBy (run_row scripts env i sh) = ''scheduler:'' @ i"
  by (simp add: run_row_def scheduled_execution_def split: prod.splits)


definition sample_sched_env :: "nat \<Rightarrow> sched_env" where
  "sample_sched_env k =
     (let c = \<lparr>cn_ok = True, cn_fk = True, cn_now = 0\<rparr> in
      \<lparr>se_save = c, se_running = c, se_result = c, se_update = c, se_id = replicate (Suc k) CHR ''x'', se_created = 7 * minute,
       se_start = 7 * minute, se_end = 8 * minute, se_next = 8 * minute,
       se_answer = (\<lambda>s p. Inr \<lparr>xr_ExitCode = 0, xr_Output = ''ok'', xr_TimedOut = False, xr_Cancelled = False\<rparr>)\<rparr>)"

definition sample_schedule :: schedule where
  "sample_schedule =
     \<lparr>sh_ScriptID = ''a'', sh_WorkflowID = [], sh_CronExpression = ''*/5 * * * *'', sh_Parameters = [], sh_Enabled = True,
      sh_LastRunAt = None, sh_NextRunAt = Some (5 * minute), sh_CreatedBy = [], sh_CreatedAt = 0\<rparr>"


end
