(* ===== verification/ScriptPages.thy ===== *)
theory ScriptPages
  imports ScriptRuns
begin

text \<open>
  The pages for scripts, executions, workflows and schedules (\<open>internal/handlers/scripts.go\<close>).  Bodies are given
  decoded, \<open>None\<close> when they do not decode; the file system, the regular expressions and the executor are arguments.
\<close>

section \<open>The handler\<close>

record 'd script_app =
  pa_db :: script_db
  pa_runner :: "runner option"
  pa_channels :: "'d channels"

datatype 'a page = Refuse int string | Page int 'a

definition generateScriptID :: "string \<Rightarrow> string" where
  "generateScriptID name =
     filter (\<lambda>c. CHR ''a'' \<le> c \<and> c \<le> CHR ''z'' \<or> CHR ''0'' \<le> c \<and> c \<le> CHR ''9'' \<or> c = CHR ''-'')
       (map (\<lambda>c. if c = CHR '' '' then CHR ''-'' else c) (ToLower name))"

text \<open>What the request carries about its sender: the two values of its context under these very names, the address of
  the peer and the forwarding header.\<close>

record sender =
  sr_deviceID :: "string option"
  sr_apiKeyID :: "string option"
  sr_RemoteAddr :: string
  sr_Forwarded :: string

definition getTriggeredBy :: "sender \<Rightarrow> string" where
  "getTriggeredBy r =
     (case sr_deviceID r of
        Some d \<Rightarrow> d
      | None \<Rightarrow>
          (case sr_apiKeyID r of
             Some k \<Rightarrow> ''api_key:'' @ k
           | None \<Rightarrow>
               (let ip = (if sr_Forwarded r \<noteq> [] then sr_Forwarded r else sr_RemoteAddr r)
                in ''web:'' @ (case SplitHostPort ip of Some (h, p) \<Rightarrow> h | None \<Rightarrow> ip))))"

section \<open>Scripts\<close>

definition page_ListScripts :: "conn \<Rightarrow> string \<Rightarrow> 'd script_app \<Rightarrow> script list page" where
  "page_ListScripts c category a =
     (case (if category \<noteq> [] then ListScriptsByCategory c (pa_db a) category else ListScripts c (pa_db a)) of
        Inl e \<Rightarrow> Refuse 500 ''LIST_FAILED'' | Inr l \<Rightarrow> Page 200 l)"

definition page_ListAvailableScripts ::
  "conn \<Rightarrow> string \<Rightarrow> file_stat \<Rightarrow> (string \<times> string) list option \<Rightarrow> 'd script_app \<Rightarrow> available_script list page" where
  "page_ListAvailableScripts c dir st files a =
     (case ScanDirectory dir st files of
        None \<Rightarrow> Refuse 500 ''SCAN_FAILED''
      | Some found \<Rightarrow>
          (case ListScripts c (pa_db a) of
             Inl e \<Rightarrow> Refuse 500 ''LIST_FAILED''
           | Inr registered \<Rightarrow> Page 200 (filter (\<lambda>v. av_Path v \<notin> sc_ScriptPath ` set registered) found)))"

definition page_GetScript :: "conn \<Rightarrow> string \<Rightarrow> 'd script_app \<Rightarrow> script page" where
  "page_GetScript c i a =
     (if i = [] then Refuse 400 ''MISSING_SCRIPT_ID''
      else case GetScript c (pa_db a) i of
        Inl e \<Rightarrow> Refuse 500 ''GET_FAILED'' | Inr None \<Rightarrow> Refuse 404 ''SCRIPT_NOT_FOUND'' | Inr (Some s) \<Rightarrow> Page 200 s)"

text \<open>Absent lists and maps of the body are \<open>None\<close>.\<close>

record register_request =
  rg_Name :: string
  rg_Description :: string
  rg_Category :: string
  rg_ScriptPath :: string
  rg_TimeoutSeconds :: int
  rg_Parameters :: "script_parameter list option"
  rg_Environment :: "params option"
  rg_AllowedScopes :: "string list option"
  rg_DryRunCommand :: string

definition or_nil :: "'a list option \<Rightarrow> 'a list" where
  "or_nil l = (case l of None \<Rightarrow> [] | Some xs \<Rightarrow> xs)"

definition RegisterScript ::
  "file_system \<Rightarrow> string \<Rightarrow> conn \<Rightarrow> conn \<Rightarrow> gotime \<Rightarrow> register_request option \<Rightarrow> 'd script_app \<Rightarrow> 'd script_app \<times> script page" where
  "RegisterScript fs dir c1 c2 now body a =
     (case body of
        None \<Rightarrow> (a, Refuse 400 ''INVALID_JSON'')
      | Some q \<Rightarrow>
          if rg_Name q = [] then (a, Refuse 400 ''MISSING_NAME'')
          else if rg_ScriptPath q = [] then (a, Refuse 400 ''MISSING_PATH'')
          else (let i = generateScriptID (rg_Name q) in
            case GetScript c1 (pa_db a) i of
              Inr (Some s) \<Rightarrow> (a, Refuse 409 ''SCRIPT_EXISTS'')
            | _ \<Rightarrow>
                (let s = \<lparr>sc_ID = i, sc_Name = rg_Name q, sc_Description = rg_Description q,
                          sc_Category = (if rg_Category q = [] then ''general'' else rg_Category q),
                          sc_ScriptPath = rg_ScriptPath q, sc_ScriptType = DetectScriptType (rg_ScriptPath q),
                          sc_TimeoutSeconds = (if rg_TimeoutSeconds q = 0 then 300 else rg_TimeoutSeconds q),
                          sc_Parameters = or_nil (rg_Parameters q), sc_Environment = or_nil (rg_Environment q),
                          sc_AllowedScopes = or_nil (rg_AllowedScopes q), sc_DryRunCommand = rg_DryRunCommand q,
                          sc_CreatedBy = [], sc_CreatedAt = now, sc_UpdatedAt = now\<rparr>
                 in if ValidateScriptExists fs dir s \<noteq> None then (a, Refuse 400 ''SCRIPT_NOT_FOUND'')
                    else case SaveScript c2 (pa_db a) s of
                      Inl e \<Rightarrow> (a, Refuse 500 ''SAVE_FAILED'')
                    | Inr db \<Rightarrow> (a\<lparr>pa_db := db\<rparr>, Page 201 s))))"

definition updated_script :: "gotime \<Rightarrow> register_request \<Rightarrow> script \<Rightarrow> script" where
  "updated_script now q s =
     s\<lparr>sc_Name := (if rg_Name q \<noteq> [] then rg_Name q else sc_Name s),
       sc_Description := (if rg_Description q \<noteq> [] then rg_Description q else sc_Description s),
       sc_Category := (if rg_Category q \<noteq> [] then rg_Category q else sc_Category s),
       sc_ScriptPath := (if rg_ScriptPath q \<noteq> [] then rg_ScriptPath q else sc_ScriptPath s),
       sc_ScriptType := (if rg_ScriptPath q \<noteq> [] then DetectScriptType (rg_ScriptPath q) else sc_ScriptType s),
       sc_TimeoutSeconds := (if rg_TimeoutSeconds q > 0 then rg_TimeoutSeconds q else sc_TimeoutSeconds s),
       sc_Parameters := (case rg_Parameters q of Some p \<Rightarrow> p | None \<Rightarrow> sc_Parameters s),
       sc_Environment := (case rg_Environment q of Some e \<Rightarrow> e | None \<Rightarrow> sc_Environment s),
       sc_AllowedScopes := (case rg_AllowedScopes q of Some l \<Rightarrow> l | None \<Rightarrow> sc_AllowedScopes s),
       sc_DryRunCommand := (if rg_DryRunCommand q \<noteq> [] then rg_DryRunCommand q else sc_DryRunCommand s),
       sc_UpdatedAt := now\<rparr>"

definition UpdateScript ::
  "file_system \<Rightarrow> string \<Rightarrow> conn \<Rightarrow> conn \<Rightarrow> gotime \<Rightarrow> string \<Rightarrow> register_request option \<Rightarrow> 'd script_app \<Rightarrow> 'd script_app \<times> script page" where
  "UpdateScript fs dir c1 c2 now i body a =
     (if i = [] then (a, Refuse 400 ''MISSING_SCRIPT_ID'')
      else case GetScript c1 (pa_db a) i of
        Inl e \<Rightarrow> (a, Refuse 500 ''GET_FAILED'')
      | Inr None \<Rightarrow> (a, Refuse 404 ''SCRIPT_NOT_FOUND'')
      | Inr (Some old) \<Rightarrow>
          (case body of
             None \<Rightarrow> (a, Refuse 400 ''INVALID_JSON'')
           | Some q \<Rightarrow>
               (let s = updated_script now q old in
                if ValidateScriptExists fs dir s \<noteq> None then (a, Refuse 400 ''SCRIPT_NOT_FOUND'')
                else case SaveScript c2 (pa_db a) s of
                  Inl e \<Rightarrow> (a, Refuse 500 ''SAVE_FAILED'')
                | Inr db \<Rightarrow> (a\<lparr>pa_db := db\<rparr>, Page 200 s))))"

definition page_DeleteScript :: "conn \<Rightarrow> conn \<Rightarrow> string \<Rightarrow> 'd script_app \<Rightarrow> 'd script_app \<times> unit page" where
  "page_DeleteScript c1 c2 i a =
     (if i = [] then (a, Refuse 400 ''MISSING_SCRIPT_ID'')
      else case GetScript c1 (pa_db a) i of
        Inl e \<Rightarrow> (a, Refuse 500 ''GET_FAILED'')
      | Inr None \<Rightarrow> (a, Refuse 404 ''SCRIPT_NOT_FOUND'')
      | Inr (Some s) \<Rightarrow>
          (case DeleteScript c2 (pa_db a) i of
             Inl e \<Rightarrow> (a, Refuse 500 ''DELETE_FAILED'')
           | Inr db \<Rightarrow> (a\<lparr>pa_db := db\<rparr>, Page 204 ())))"

section \<open>Executions\<close>

text \<open>The statements, clocks and the ID of one request; \<open>xn_answer\<close> is the executor when it runs the script.\<close>

record exec_env =
  xn_get :: conn
  xn_save :: conn
  xn_run :: run_env
  xn_id :: string
  xn_now :: gotime
  xn_sender :: sender
  xn_answer :: "script \<Rightarrow> params \<Rightarrow> bool \<Rightarrow> run_answer"

datatype exec_page = Queued string | Executed "execution option" | DryRunResult int string

definition new_execution :: "exec_env \<Rightarrow> string \<Rightarrow> bool \<Rightarrow> params \<Rightarrow> execution" where
  "new_execution env i dry ps =
     \<lparr>ex_ScriptID = i, ex_WorkflowID = [], ex_WorkflowExID = [], ex_Status = XPending, ex_IsDryRun = dry,
      ex_TriggeredBy = getTriggeredBy (xn_sender env), ex_TriggeredIP = sr_RemoteAddr (xn_sender env), ex_Parameters = ps,
      ex_Output = [], ex_ExitCode = None, ex_ErrorMessage = [], ex_StartedAt = None, ex_CompletedAt = None,
      ex_CreatedAt = xn_now env\<rparr>"

definition execution_job :: "exec_env \<Rightarrow> script \<Rightarrow> bool \<Rightarrow> params \<Rightarrow> job" where
  "execution_job env s dry ps =
     \<lparr>jb_ExecutionID = xn_id env, jb_Script = s, jb_Parameters = ps, jb_DryRun = dry,
      jb_TriggeredBy = getTriggeredBy (xn_sender env)\<rparr>"

definition run_now :: "exec_env \<Rightarrow> script \<Rightarrow> bool \<Rightarrow> params \<Rightarrow> script_db \<Rightarrow> script_db" where
  "run_now env s dry ps db =
     record_run (re_result (xn_run env)) (xn_id env) (re_end (xn_run env)) (run_outcome ([], []) (xn_answer env s ps dry))
       (mark_running (re_running (xn_run env)) (xn_id env) (re_start (xn_run env)) db)"

definition ExecuteScript ::
  "(string \<Rightarrow> string \<Rightarrow> bool option) \<Rightarrow> exec_env \<Rightarrow> string \<Rightarrow> (params \<times> bool) option \<Rightarrow> bool \<Rightarrow> 'd script_app
   \<Rightarrow> 'd script_app \<times> exec_page page" where
  "ExecuteScript regex env i body async a =
     (if i = [] then (a, Refuse 400 ''MISSING_SCRIPT_ID'')
      else case GetScript (xn_get env) (pa_db a) i of
        Inl e \<Rightarrow> (a, Refuse 500 ''GET_FAILED'')
      | Inr None \<Rightarrow> (a, Refuse 404 ''SCRIPT_NOT_FOUND'')
      | Inr (Some s) \<Rightarrow>
          (case body of
             None \<Rightarrow> (a, Refuse 400 ''INVALID_JSON'')
           | Some (given, dry) \<Rightarrow>
               if ValidateParameters regex (sc_Parameters s) given \<noteq> None then (a, Refuse 400 ''INVALID_PARAMS'')
               else (let ps = ApplyDefaults (sc_Parameters s) given in
                 case SaveExecution (xn_save env) (pa_db a) (xn_id env) (new_execution env i dry ps) of
                   Inl e \<Rightarrow> (a, Refuse 500 ''SAVE_FAILED'')
                 | Inr db \<Rightarrow>
                     (case (async, pa_runner a) of
                        (True, Some r) \<Rightarrow>
                          (case Submit (execution_job env s dry ps) r of
                             (r', None) \<Rightarrow> (a\<lparr>pa_db := db, pa_runner := Some r'\<rparr>, Page 202 (Queued (xn_id env)))
                           | (r', Some QueueFull) \<Rightarrow> (a\<lparr>pa_db := db\<rparr>, Refuse 503 ''QUEUE_FULL'')
                           | (r', Some e) \<Rightarrow> (a\<lparr>pa_db := db\<rparr>, Refuse 500 ''SUBMIT_FAILED''))
                      | _ \<Rightarrow>
                          (let db' = run_now env s dry ps db in
                           (a\<lparr>pa_db := db'\<rparr>,
                            Page 200 (Executed (case GetExecution (re_read (xn_run env)) db' (xn_id env) of
                                                  Inl e \<Rightarrow> None | Inr x \<Rightarrow> x))))))))"

definition DryRunScript ::
  "(string \<Rightarrow> string \<Rightarrow> bool option) \<Rightarrow> exec_env \<Rightarrow> string \<Rightarrow> (params \<times> bool) option \<Rightarrow> 'd script_app \<Rightarrow> exec_page page" where
  "DryRunScript regex env i body a =
     (if i = [] then Refuse 400 ''MISSING_SCRIPT_ID''
      else case GetScript (xn_get env) (pa_db a) i of
        Inl e \<Rightarrow> Refuse 500 ''GET_FAILED''
      | Inr None \<Rightarrow> Refuse 404 ''SCRIPT_NOT_FOUND''
      | Inr (Some s) \<Rightarrow>
          (case body of
             None \<Rightarrow> Refuse 400 ''INVALID_JSON''
           | Some (given, dry) \<Rightarrow>
               if ValidateParameters regex (sc_Parameters s) given \<noteq> None then Refuse 400 ''INVALID_PARAMS''
               else (case xn_answer env s (ApplyDefaults (sc_Parameters s) given) True of
                       Inl e \<Rightarrow> Refuse 500 ''EXECUTION_FAILED''
                     | Inr r \<Rightarrow> Page 200 (DryRunResult (xr_ExitCode r) (xr_Output r)))))"

definition page_ListExecutions ::
  "(gotime \<Rightarrow> string) \<Rightarrow> conn \<Rightarrow> string \<Rightarrow> string \<Rightarrow> string \<Rightarrow> string \<Rightarrow> 'd script_app \<Rightarrow> (string \<times> execution) list page" where
  "page_ListExecutions dt c scriptID status l off a =
     (let lim = (case ParseInt l of Some n \<Rightarrow> if n > 0 \<and> n \<le> 100 then nat n else 50 | None \<Rightarrow> 50);
          skip = (case ParseInt off of Some n \<Rightarrow> if n \<ge> 0 then nat n else 0 | None \<Rightarrow> 0)
      in case ListExecutions dt c (pa_db a) scriptID status lim skip of
           Inl e \<Rightarrow> Refuse 500 ''LIST_FAILED'' | Inr xs \<Rightarrow> Page 200 xs)"

definition page_GetExecution :: "conn \<Rightarrow> string \<Rightarrow> 'd script_app \<Rightarrow> execution page" where
  "page_GetExecution c i a =
     (if i = [] then Refuse 400 ''MISSING_EXECUTION_ID''
      else case GetExecution c (pa_db a) i of
        Inl e \<Rightarrow> Refuse 500 ''GET_FAILED'' | Inr None \<Rightarrow> Refuse 404 ''EXECUTION_NOT_FOUND'' | Inr (Some x) \<Rightarrow> Page 200 x)"

section \<open>Workflows and schedules\<close>

definition page_ListWorkflows :: "conn \<Rightarrow> 'd script_app \<Rightarrow> (string \<times> workflow) list page" where
  "page_ListWorkflows c a = (case ListWorkflows c (pa_db a) of Inl e \<Rightarrow> Refuse 500 ''LIST_FAILED'' | Inr l \<Rightarrow> Page 200 l)"

definition page_GetWorkflow :: "conn \<Rightarrow> string \<Rightarrow> 'd script_app \<Rightarrow> workflow page" where
  "page_GetWorkflow c i a =
     (if i = [] then Refuse 400 ''MISSING_WORKFLOW_ID''
      else case GetWorkflow c (pa_db a) i of
        Inl e \<Rightarrow> Refuse 500 ''GET_FAILED'' | Inr None \<Rightarrow> Refuse 404 ''WORKFLOW_NOT_FOUND'' | Inr (Some w) \<Rightarrow> Page 200 w)"

record workflow_request =
  wq_Name :: string
  wq_Description :: string
  wq_Steps :: "workflow_step list"
  wq_AllowedScopes :: "string list"

definition CreateWorkflow ::
  "conn \<Rightarrow> gotime \<Rightarrow> workflow_request option \<Rightarrow> 'd script_app \<Rightarrow> 'd script_app \<times> (string \<times> workflow) page" where
  "CreateWorkflow c now body a =
     (case body of
        None \<Rightarrow> (a, Refuse 400 ''INVALID_JSON'')
      | Some q \<Rightarrow>
          if wq_Name q = [] then (a, Refuse 400 ''MISSING_NAME'')
          else if length (wq_Steps q) = 0 then (a, Refuse 400 ''MISSING_STEPS'')
          else (let i = generateScriptID (wq_Name q);
                    w = \<lparr>wf_Name = wq_Name q, wf_Description = wq_Description q, wf_Steps = wq_Steps q,
                         wf_AllowedScopes = wq_AllowedScopes q, wf_CreatedBy = [], wf_CreatedAt = now, wf_UpdatedAt = now\<rparr>
                in case SaveWorkflow c (pa_db a) i w of
                     Inl e \<Rightarrow> (a, Refuse 500 ''SAVE_FAILED'')
                   | Inr db \<Rightarrow> (a\<lparr>pa_db := db\<rparr>, Page 201 (i, w))))"

definition page_DeleteWorkflow :: "conn \<Rightarrow> string \<Rightarrow> 'd script_app \<Rightarrow> 'd script_app \<times> unit page" where
  "page_DeleteWorkflow c i a =
     (if i = [] then (a, Refuse 400 ''MISSING_WORKFLOW_ID'')
      else case DeleteWorkflow c (pa_db a) i of
        Inl e \<Rightarrow> (a, Refuse 500 ''DELETE_FAILED'') | Inr db \<Rightarrow> (a\<lparr>pa_db := db\<rparr>, Page 204 ()))"

definition page_ListSchedules :: "(gotime \<Rightarrow> string) \<Rightarrow> conn \<Rightarrow> 'd script_app \<Rightarrow> (string \<times> schedule) list page" where
  "page_ListSchedules dt c a = (case ListSchedules dt c (pa_db a) of Inl e \<Rightarrow> Refuse 500 ''LIST_FAILED'' | Inr l \<Rightarrow> Page 200 l)"

definition page_GetSchedule :: "conn \<Rightarrow> string \<Rightarrow> 'd script_app \<Rightarrow> schedule page" where
  "page_GetSchedule c i a =
     (if i = [] then Refuse 400 ''MISSING_SCHEDULE_ID''
      else case GetSchedule c (pa_db a) i of
        Inl e \<Rightarrow> Refuse 500 ''GET_FAILED'' | Inr None \<Rightarrow> Refuse 404 ''SCHEDULE_NOT_FOUND'' | Inr (Some s) \<Rightarrow> Page 200 s)"

record schedule_request =
  sq_ScriptID :: string
  sq_WorkflowID :: string
  sq_CronExpression :: string
  sq_Parameters :: params
  sq_Enabled :: bool

text \<open>\<open>None\<close>: the parser of the expression does not return.\<close>

definition CreateSchedule ::
  "(gotime \<Rightarrow> civil) \<Rightarrow> conn \<Rightarrow> string \<Rightarrow> gotime \<Rightarrow> gotime \<Rightarrow> schedule_request option \<Rightarrow> 'd script_app
   \<Rightarrow> ('d script_app \<times> (string \<times> schedule) page) option" where
  "CreateSchedule clock c i now1 now2 body a =
     (case body of
        None \<Rightarrow> Some (a, Refuse 400 ''INVALID_JSON'')
      | Some q \<Rightarrow>
          if sq_ScriptID q = [] \<and> sq_WorkflowID q = [] then Some (a, Refuse 400 ''MISSING_TARGET'')
          else if sq_CronExpression q = [] then Some (a, Refuse 400 ''MISSING_CRON'')
          else case ParseCronExpression (sq_CronExpression q) of
            None \<Rightarrow> None
          | Some (Inl e) \<Rightarrow> Some (a, Refuse 400 ''INVALID_CRON'')
          | Some (Inr cron) \<Rightarrow>
              (let s = \<lparr>sh_ScriptID = sq_ScriptID q, sh_WorkflowID = sq_WorkflowID q, sh_CronExpression = sq_CronExpression q,
                        sh_Parameters = sq_Parameters q, sh_Enabled = sq_Enabled q, sh_LastRunAt = None,
                        sh_NextRunAt = Some (NextRun clock cron now1), sh_CreatedBy = [], sh_CreatedAt = now2\<rparr>
               in case SaveSchedule c (pa_db a) i s of
                    Inl e \<Rightarrow> Some (a, Refuse 500 ''SAVE_FAILED'')
                  | Inr db \<Rightarrow> Some (a\<lparr>pa_db := db\<rparr>, Page 201 (i, s))))"

definition page_DeleteSchedule :: "conn \<Rightarrow> string \<Rightarrow> 'd script_app \<Rightarrow> 'd script_app \<times> unit page" where
  "page_DeleteSchedule c i a =
     (if i = [] then (a, Refuse 400 ''MISSING_SCHEDULE_ID'')
      else case DeleteSchedule c (pa_db a) i of
        Inl e \<Rightarrow> (a, Refuse 500 ''DELETE_FAILED'') | Inr db \<Rightarrow> (a\<lparr>pa_db := db\<rparr>, Page 204 ()))"

section \<open>Every accepted execution is settled\<close>

text \<open>The runs: requests, workers that take the next job and finish the one they hold, deletions of scripts.\<close>

datatype script_op =
    ExecOp exec_env string "(params \<times> bool) option" bool
  | TakeOp run_env
  | FinishOp nat run_env run_answer
  | RegisterOp conn conn gotime "register_request option"
  | UpdateOp conn conn gotime string "register_request option"
  | DeleteOp conn conn string

record script_setup =
  su_regex :: "string \<Rightarrow> string \<Rightarrow> bool option"
  su_fs :: file_system
  su_dir :: string
  su_rendering :: rendering
  su_notifier :: "notifier_config option"

definition take_job :: "script_setup \<Rightarrow> run_env \<Rightarrow> 'd script_app \<Rightarrow> 'd script_app" where
  "take_job su env a =
     (case pa_runner a of
        None \<Rightarrow> a
      | Some r \<Rightarrow>
          (case rn_queue r of
             [] \<Rightarrow> a
           | j # js \<Rightarrow>
               if length (rn_busy r) < rn_WorkerCount r
               then (case begin_job (su_rendering su) (su_notifier su) env j (pa_db a, pa_channels a) of
                       (db, ch) \<Rightarrow> a\<lparr>pa_db := db, pa_channels := ch, pa_runner := Some (r\<lparr>rn_queue := js, rn_busy := rn_busy r @ [j]\<rparr>)\<rparr>)
               else a))"

definition complete_job :: "script_setup \<Rightarrow> nat \<Rightarrow> run_env \<Rightarrow> run_answer \<Rightarrow> 'd script_app \<Rightarrow> 'd script_app" where
  "complete_job su k env ans a =
     (case pa_runner a of
        None \<Rightarrow> a
      | Some r \<Rightarrow>
          if k < length (rn_busy r)
          then (case finish_job (su_rendering su) (su_notifier su) env (rn_busy r ! k) ans (pa_db a, pa_channels a) of
                  (db, ch) \<Rightarrow> a\<lparr>pa_db := db, pa_channels := ch,
                    pa_runner := Some (r\<lparr>rn_busy := take k (rn_busy r) @ drop (Suc k) (rn_busy r)\<rparr>)\<rparr>)
          else a)"

fun script_step :: "script_setup \<Rightarrow> 'd script_app \<Rightarrow> script_op \<Rightarrow> 'd script_app" where
  "script_step su a (ExecOp env i body async) = fst (ExecuteScript (su_regex su) env i body async a)"
| "script_step su a (TakeOp env) = take_job su env a"
| "script_step su a (FinishOp k env ans) = complete_job su k env ans a"
| "script_step su a (RegisterOp c1 c2 now body) = fst (RegisterScript (su_fs su) (su_dir su) c1 c2 now body a)"
| "script_step su a (UpdateOp c1 c2 now i body) = fst (UpdateScript (su_fs su) (su_dir su) c1 c2 now i body a)"
| "script_step su a (DeleteOp c1 c2 i) = fst (page_DeleteScript c1 c2 i a)"

definition script_run :: "script_setup \<Rightarrow> script_op list \<Rightarrow> 'd script_app \<Rightarrow> 'd script_app" where
  "script_run su ops a = foldl (script_step su) a ops"

text \<open>The IDs of executions whose request was answered with a server error.\<close>

fun rejected :: "script_setup \<Rightarrow> script_op list \<Rightarrow> 'd script_app \<Rightarrow> string set" where
  "rejected su [] a = {}"
| "rejected su (op # ops) a =
     (case op of
        ExecOp env i body async \<Rightarrow>
          (case snd (ExecuteScript (su_regex su) env i body async a) of
             Refuse code m \<Rightarrow> if code \<ge> 500 then {xn_id env} else {} | _ \<Rightarrow> {})
      | _ \<Rightarrow> {}) \<union> rejected su ops (script_step su a op)"

text \<open>All statements that record how a script runs are carried out.\<close>

fun op_recorded :: "script_op \<Rightarrow> bool" where
  "op_recorded (ExecOp env i body async) \<longleftrightarrow> cn_ok (re_running (xn_run env)) \<and> cn_ok (re_result (xn_run env))"
| "op_recorded (TakeOp env) \<longleftrightarrow> cn_ok (re_running env)"
| "op_recorded (FinishOp k env ans) \<longleftrightarrow> cn_ok (re_result env)"
| "op_recorded op \<longleftrightarrow> True"

definition queued_ids :: "'d script_app \<Rightarrow> string set" where
  "queued_ids a = (case pa_runner a of None \<Rightarrow> {} | Some r \<Rightarrow> jb_ExecutionID ` set (rn_queue r))"

definition busy_ids :: "'d script_app \<Rightarrow> string set" where
  "busy_ids a = (case pa_runner a of None \<Rightarrow> {} | Some r \<Rightarrow> jb_ExecutionID ` set (rn_busy r))"

definition settled :: "execution_status \<Rightarrow> bool" where
  "settled st \<longleftrightarrow> st \<noteq> XPending \<and> st \<noteq> XRunning"

definition accounted :: "string set \<Rightarrow> 'd script_app \<Rightarrow> bool" where
  "accounted S a \<longleftrightarrow>
     (\<forall>i x. get (sd_executions (pa_db a)) i = Some x \<longrightarrow>
        (ex_Status x = XPending \<longrightarrow> i \<in> queued_ids a \<union> S) \<and> (ex_Status x = XRunning \<longrightarrow> i \<in> busy_ids a))"

lemma run_outcome_settled: "settled (fst (run_outcome msgs ans))"
  by (auto simp: run_outcome_def settled_def split: sum.splits)

lemma status_after_running:
  assumes "cn_ok c" "get (sd_executions (mark_running c i t db)) j = Some x"
  obtains y where "get (sd_executions db) j = Some y" "ex_Status x = (if j = i then XRunning else ex_Status y)"
  using assms by (auto simp: mark_running_def db_logged_def UpdateExecutionStatus_def get_adjust split: if_splits)

lemma status_after_outcome:
  assumes "cn_ok c" "get (sd_executions (record_run c i t o4 db)) j = Some x"
  obtains y where "get (sd_executions db) j = Some y" "ex_Status x = (if j = i then fst o4 else ex_Status y)"
  using assms
  by (auto simp: record_run_def db_logged_def UpdateExecutionStatus_def get_adjust split: if_splits prod.splits)

lemma accounted_same_executions:
  assumes "accounted S a" "\<And>i x. get (sd_executions (pa_db a')) i = Some x \<Longrightarrow> get (sd_executions (pa_db a)) i = Some x"
    and "pa_runner a' = pa_runner a"
  shows "accounted S a'"
proof -
  have "queued_ids a' = queued_ids a" "busy_ids a' = busy_ids a" using assms(3) by (simp_all add: queued_ids_def busy_ids_def)
  with assms(1,2) show ?thesis unfolding accounted_def by metis
qed

lemma accounted_take:
  assumes "accounted S a" "cn_ok (re_running env)"
  shows "accounted S (take_job su env a)"
proof (cases "take_job su env a = a")
  case False
  then obtain r j js where r: "pa_runner a = Some r" "rn_queue r = j # js"
    and t: "sd_executions (pa_db (take_job su env a)) =
        sd_executions (mark_running (re_running env) (jb_ExecutionID j) (re_start env) (pa_db a))"
      "queued_ids (take_job su env a) = jb_ExecutionID ` set js"
      "busy_ids (take_job su env a) = insert (jb_ExecutionID j) (jb_ExecutionID ` set (rn_busy r))"
    by (auto simp: take_job_def begin_job_def queued_ids_def busy_ids_def split: option.splits list.splits if_splits)
  show ?thesis unfolding accounted_def
  proof (intro allI impI)
    fix i x assume "get (sd_executions (pa_db (take_job su env a))) i = Some x"
    then have g: "get (sd_executions (mark_running (re_running env) (jb_ExecutionID j) (re_start env) (pa_db a))) i = Some x"
      by (simp only: t)
    show "(ex_Status x = XPending \<longrightarrow> i \<in> queued_ids (take_job su env a) \<union> S) \<and> (ex_Status x = XRunning \<longrightarrow> i \<in> busy_ids (take_job su env a))"
      using assms(1) r t(2,3) by (rule_tac status_after_running [OF assms(2) g])
        (auto simp: accounted_def queued_ids_def busy_ids_def split: if_splits)
  qed
qed (use assms in simp)

lemma accounted_complete:
  assumes "accounted S a" "cn_ok (re_result env)"
  shows "accounted S (complete_job su k env ans a)"
proof (cases "complete_job su k env ans a = a")
  case False
  then obtain r where r: "pa_runner a = Some r" "k < length (rn_busy r)"
    and t: "sd_executions (pa_db (complete_job su k env ans a)) =
        sd_executions (record_run (re_result env) (jb_ExecutionID (rn_busy r ! k)) (re_end env) (run_outcome job_messages ans) (pa_db a))"
      "queued_ids (complete_job su k env ans a) = queued_ids a"
      "busy_ids (complete_job su k env ans a) = jb_ExecutionID ` set (take k (rn_busy r) @ drop (Suc k) (rn_busy r))"
    by (auto simp: complete_job_def finish_job_def Let_def queued_ids_def busy_ids_def split: option.splits if_splits)
  have b: "busy_ids a \<subseteq> insert (jb_ExecutionID (rn_busy r ! k)) (busy_ids (complete_job su k env ans a))"
  proof -
    have "set (rn_busy r) = insert (rn_busy r ! k) (set (take k (rn_busy r) @ drop (Suc k) (rn_busy r)))"
      using r(2) by (subst id_take_nth_drop [OF r(2)]) auto
    then show ?thesis unfolding t(3) by (simp add: busy_ids_def r(1))
  qed
  show ?thesis unfolding accounted_def
  proof (intro allI impI)
    fix i x assume "get (sd_executions (pa_db (complete_job su k env ans a))) i = Some x"
    then have g: "get (sd_executions (record_run (re_result env) (jb_ExecutionID (rn_busy r ! k)) (re_end env)
        (run_outcome job_messages ans) (pa_db a))) i = Some x" by (simp only: t)
    show "(ex_Status x = XPending \<longrightarrow> i \<in> queued_ids (complete_job su k env ans a) \<union> S) \<and>
        (ex_Status x = XRunning \<longrightarrow> i \<in> busy_ids (complete_job su k env ans a))"
      using assms(1) b t(2) run_outcome_settled [of job_messages ans] by (rule_tac status_after_outcome [OF assms(2) g])
        (auto simp: accounted_def settled_def split: if_splits)
  qed
qed (use assms in simp)

lemma status_after_save:
  assumes "SaveExecution c db i new = Inr db'" "get (sd_executions db') j = Some x"
  shows "if j = i then ex_Status x = ex_Status new else get (sd_executions db) j = Some x"
  using assms by (auto simp: SaveExecution_def get_put split: if_splits option.splits)

lemma Submit_result:
  "Submit j r = (r', None) \<Longrightarrow> rn_queue r' = rn_queue r @ [j] \<and> rn_busy r' = rn_busy r"
  by (auto simp: Submit_def split: if_splits)

lemma accounted_weaken: "accounted S a \<Longrightarrow> S \<subseteq> T \<Longrightarrow> accounted T a"
  by (fastforce simp: accounted_def)

lemma ExecuteScript_cases:
  assumes "cn_ok (re_running (xn_run env))"
  obtains (Unchanged) "fst (ExecuteScript regex env i body async a) = a"
  | (Queued) db x r r' j where "SaveExecution (xn_save env) (pa_db a) (xn_id env) x = Inr db" "ex_Status x = XPending"
      "pa_runner a = Some r" "Submit j r = (r', None)" "jb_ExecutionID j = xn_id env"
      "fst (ExecuteScript regex env i body async a) = a\<lparr>pa_db := db, pa_runner := Some r'\<rparr>"
  | (Rejected) db x code m where "SaveExecution (xn_save env) (pa_db a) (xn_id env) x = Inr db" "ex_Status x = XPending"
      "ExecuteScript regex env i body async a = (a\<lparr>pa_db := db\<rparr>, Refuse code m)" "code \<ge> 500"
  | (Ran) db x s dry ps where "SaveExecution (xn_save env) (pa_db a) (xn_id env) x = Inr db"
      "fst (ExecuteScript regex env i body async a) = a\<lparr>pa_db := run_now env s dry ps db\<rparr>"
proof (cases "fst (ExecuteScript regex env i body async a) = a")
  case False
  obtain s given dry db where *: "i \<noteq> []" "GetScript (xn_get env) (pa_db a) i = Inr (Some s)" "body = Some (given, dry)"
    "ValidateParameters regex (sc_Parameters s) given = None"
    "SaveExecution (xn_save env) (pa_db a) (xn_id env) (new_execution env i dry (ApplyDefaults (sc_Parameters s) given)) = Inr db"
    using False by (auto simp: ExecuteScript_def Let_def split: if_splits option.splits sum.splits prod.splits)
  let ?ps = "ApplyDefaults (sc_Parameters s) given"
  have pending: "ex_Status (new_execution env i dry ?ps) = XPending" by (simp add: new_execution_def)
  show ?thesis
  proof (cases "\<exists>r. async \<and> pa_runner a = Some r")
    case False
    then show ?thesis using * by (intro Ran) (auto simp: ExecuteScript_def Let_def split: bool.splits option.splits)
  next
    case True
    then obtain r where r: "async" "pa_runner a = Some r" by blast
    obtain r' e where sub: "Submit (execution_job env s dry ?ps) r = (r', e)" by fastforce
    show ?thesis
    proof (cases e)
      case None
      then show ?thesis using * r sub pending by (intro Queued) (auto simp: ExecuteScript_def execution_job_def)
    next
      case (Some err)
      then have "ExecuteScript regex env i body async a =
          (a\<lparr>pa_db := db\<rparr>, if err = QueueFull then Refuse 503 ''QUEUE_FULL'' else Refuse 500 ''SUBMIT_FAILED'')"
        using * r sub by (cases err) (simp_all add: ExecuteScript_def)
      then show ?thesis using Rejected [OF *(5) pending] by (cases "err = QueueFull") simp_all
    qed
  qed
qed (rule Unchanged)

lemma accounted_execute:
  assumes "accounted S a" "cn_ok (re_running (xn_run env))" "cn_ok (re_result (xn_run env))"
  shows "accounted (S \<union> rejected su [ExecOp env i body async] a) (fst (ExecuteScript (su_regex su) env i body async a))"
  using assms(2)
proof (cases rule: ExecuteScript_cases [consumes 1, case_names Unchanged Queued Rejected Ran, where regex = "su_regex su" and i = i and body = body and async = async and a = a])
  case Unchanged
  then show ?thesis using assms(1) by (simp add: accounted_weaken)
next
  case (Queued db x r r' j)
  have "accounted S (a\<lparr>pa_db := db, pa_runner := Some r'\<rparr>)"
    unfolding accounted_def
  proof (intro allI impI)
    fix e y assume "get (sd_executions (pa_db (a\<lparr>pa_db := db, pa_runner := Some r'\<rparr>))) e = Some y"
    then have "if e = xn_id env then ex_Status y = XPending else get (sd_executions (pa_db a)) e = Some y"
      using status_after_save [OF Queued(1)] Queued(2) by simp
    then show "(ex_Status y = XPending \<longrightarrow> e \<in> queued_ids (a\<lparr>pa_db := db, pa_runner := Some r'\<rparr>) \<union> S) \<and>
        (ex_Status y = XRunning \<longrightarrow> e \<in> busy_ids (a\<lparr>pa_db := db, pa_runner := Some r'\<rparr>))"
      using assms(1) Submit_result [OF Queued(4)] Queued(3,5)
      by (auto simp: accounted_def queued_ids_def busy_ids_def split: if_splits)
  qed
  then show ?thesis unfolding Queued(6) by (rule accounted_weaken) simp
next
  case (Rejected db x code m)
  have "accounted (insert (xn_id env) S) (a\<lparr>pa_db := db\<rparr>)"
    unfolding accounted_def
  proof (intro allI impI)
    fix e y assume "get (sd_executions (pa_db (a\<lparr>pa_db := db\<rparr>))) e = Some y"
    then have "if e = xn_id env then ex_Status y = XPending else get (sd_executions (pa_db a)) e = Some y"
      using status_after_save [OF Rejected(1)] Rejected(2) by simp
    then show "(ex_Status y = XPending \<longrightarrow> e \<in> queued_ids (a\<lparr>pa_db := db\<rparr>) \<union> insert (xn_id env) S) \<and>
        (ex_Status y = XRunning \<longrightarrow> e \<in> busy_ids (a\<lparr>pa_db := db\<rparr>))"
      using assms(1) by (auto simp: accounted_def queued_ids_def busy_ids_def split: if_splits)
  qed
  then show ?thesis using Rejected(3,4) by simp
next
  case (Ran db x s dry ps)
  have "accounted S (a\<lparr>pa_db := run_now env s dry ps db\<rparr>)"
    unfolding accounted_def
  proof (intro allI impI)
    fix e y assume "get (sd_executions (pa_db (a\<lparr>pa_db := run_now env s dry ps db\<rparr>))) e = Some y"
    then have "get (sd_executions (run_now env s dry ps db)) e = Some y" by simp
    then obtain y1 where g: "get (sd_executions (mark_running (re_running (xn_run env)) (xn_id env) (re_start (xn_run env)) db)) e = Some y1"
      and y: "ex_Status y = (if e = xn_id env then fst (run_outcome ([], []) (xn_answer env s ps dry)) else ex_Status y1)"
      unfolding run_now_def by (rule status_after_outcome [OF assms(3)])
    obtain y2 where "get (sd_executions db) e = Some y2" "ex_Status y1 = (if e = xn_id env then XRunning else ex_Status y2)"
      by (rule status_after_running [OF assms(2) g])
    with status_after_save [OF Ran(1), of e y2] y run_outcome_settled [of "([], [])" "xn_answer env s ps dry"]
    show "(ex_Status y = XPending \<longrightarrow> e \<in> queued_ids (a\<lparr>pa_db := run_now env s dry ps db\<rparr>) \<union> S) \<and>
        (ex_Status y = XRunning \<longrightarrow> e \<in> busy_ids (a\<lparr>pa_db := run_now env s dry ps db\<rparr>))"
      using assms(1) by (auto simp: accounted_def settled_def queued_ids_def busy_ids_def split: if_splits)
  qed
  then show ?thesis unfolding Ran(2) by (rule accounted_weaken) simp
qed

definition same_runs :: "'d script_app \<Rightarrow> 'd script_app \<Rightarrow> bool" where
  "same_runs a b \<longleftrightarrow> pa_runner b = pa_runner a \<and> sd_executions (pa_db b) = sd_executions (pa_db a)"

lemma same_runs_if: "same_runs a (fst x) \<Longrightarrow> same_runs a (fst y) \<Longrightarrow> same_runs a (fst (if b then x else y))"
  by simp

lemma same_runs_option:
  "same_runs a (fst f) \<Longrightarrow> (\<And>s. same_runs a (fst (g s))) \<Longrightarrow> same_runs a (fst (case r of None \<Rightarrow> f | Some s \<Rightarrow> g s))"
  by (cases r) simp_all

lemma same_runs_sum:
  "(\<And>e. same_runs a (fst (f e))) \<Longrightarrow> (\<And>s. same_runs a (fst (g s))) \<Longrightarrow>
   same_runs a (fst (case r of Inl e \<Rightarrow> f e | Inr s \<Rightarrow> g s))"
  by (cases r) simp_all

lemma same_runs_save:
  "same_runs a (fst (case SaveScript c (pa_db a) s of Inl e \<Rightarrow> (a, f e) | Inr db \<Rightarrow> (a\<lparr>pa_db := db\<rparr>, g db)))"
  by (auto simp: same_runs_def SaveScript_def)

lemma same_runs_refl: "same_runs a (fst (a, r))"
  by (simp add: same_runs_def)

lemmas same_runs_intros = same_runs_save same_runs_if same_runs_option same_runs_sum same_runs_refl

lemma RegisterScript_frame:
  "pa_runner (fst (RegisterScript fs dir c1 c2 now body a)) = pa_runner a \<and>
   sd_executions (pa_db (fst (RegisterScript fs dir c1 c2 now body a))) = sd_executions (pa_db a)"
  unfolding same_runs_def [symmetric] RegisterScript_def Let_def by (intro same_runs_intros)

lemma UpdateScript_frame:
  "pa_runner (fst (UpdateScript fs dir c1 c2 now i body a)) = pa_runner a \<and>
   sd_executions (pa_db (fst (UpdateScript fs dir c1 c2 now i body a))) = sd_executions (pa_db a)"
  unfolding same_runs_def [symmetric] UpdateScript_def Let_def by (intro same_runs_intros)

lemma page_DeleteScript_frame:
  "pa_runner (fst (page_DeleteScript c1 c2 i a)) = pa_runner a"
  "wf_map (sd_executions (pa_db a)) \<Longrightarrow> get (sd_executions (pa_db (fst (page_DeleteScript c1 c2 i a)))) e = Some x \<Longrightarrow>
   get (sd_executions (pa_db a)) e = Some x"
  by (auto simp: page_DeleteScript_def DeleteScript_def get_del_if split: if_splits option.splits sum.splits)

lemma wf_db_logged: "wf_map (sd_executions db) \<Longrightarrow> wf_map (sd_executions (mark_running c i t db)) \<and> wf_map (sd_executions (record_run c i t o4 db))"
  by (auto simp: mark_running_def record_run_def db_logged_def UpdateExecutionStatus_def split: prod.splits)

lemma wf_script_step:
  assumes "wf_map (sd_executions (pa_db a))"
  shows "wf_map (sd_executions (pa_db (script_step su a op)))"
proof (cases op)
  case (ExecOp env i body async)
  have "SaveExecution c (pa_db a) e x = Inr db \<Longrightarrow> wf_map (sd_executions db)" for c e x db
    using assms by (auto simp: SaveExecution_def split: if_splits option.splits)
  then show ?thesis using assms wf_db_logged
    by (auto simp: ExecOp ExecuteScript_def run_now_def Let_def
        split: option.splits sum.splits prod.splits bool.splits runner_error.splits)
next
  case (TakeOp env)
  then show ?thesis using assms wf_db_logged
    by (auto simp: take_job_def begin_job_def split: option.splits list.splits prod.splits)
next
  case (FinishOp k env ans)
  then show ?thesis using assms wf_db_logged
    by (auto simp: complete_job_def finish_job_def Let_def split: option.splits prod.splits)
qed (use assms in
    \<open>auto simp: RegisterScript_frame UpdateScript_frame page_DeleteScript_def DeleteScript_def split: option.splits sum.splits\<close>)

lemma accounted_step:
  assumes "accounted S a" "op_recorded op" "wf_map (sd_executions (pa_db a))"
  shows "accounted (S \<union> rejected su [op] a) (script_step su a op)"
proof (cases op)
  case (ExecOp env i body async)
  then show ?thesis using accounted_execute [OF assms(1), of env su i body async] assms(2) by simp
next
  case (TakeOp env)
  then show ?thesis using accounted_take [OF assms(1)] assms(2) by simp
next
  case (FinishOp k env ans)
  then show ?thesis using accounted_complete [OF assms(1)] assms(2) by simp
next
  case (RegisterOp c1 c2 now body)
  then show ?thesis by (auto intro!: accounted_same_executions [OF assms(1)] simp: RegisterScript_frame)
next
  case (UpdateOp c1 c2 now i body)
  then show ?thesis by (auto intro!: accounted_same_executions [OF assms(1)] simp: UpdateScript_frame)
next
  case (DeleteOp c1 c2 i)
  then show ?thesis
    by (auto intro!: accounted_same_executions [OF assms(1)] simp: page_DeleteScript_frame(1) dest: page_DeleteScript_frame(2) [OF assms(3)])
qed

lemma accounted_run:
  assumes "accounted S a" "\<forall>op \<in> set ops. op_recorded op" "wf_map (sd_executions (pa_db a))"
  shows "accounted (S \<union> rejected su ops a) (script_run su ops a)"
  using assms
proof (induction ops arbitrary: S a)
  case (Cons op ops)
  have "accounted (S \<union> rejected su [op] a \<union> rejected su ops (script_step su a op)) (script_run su ops (script_step su a op))"
    using Cons.prems by (intro Cons.IH accounted_step wf_script_step) auto
  then show ?case by (simp add: script_run_def Un_assoc)
qed (simp add: script_run_def)


definition demo_script_setup :: script_setup where
  "demo_script_setup =
     \<lparr>su_regex = (\<lambda>p v. Some True), su_fs = (\<lambda>p. RegularFile 493), su_dir = ''/scripts'',
      su_rendering = \<lparr>rd_marshal = (\<lambda>n. []), rd_raw = (\<lambda>s. WebSocket.Fields []), rd_parsed = (\<lambda>s. WebSocket.Fields [])\<rparr>,
      su_notifier = None\<rparr>"

definition demo_exec_env :: "string \<Rightarrow> exec_env" where
  "demo_exec_env i =
     (let c = \<lparr>cn_ok = True, cn_fk = True, cn_now = 0\<rparr> in
      \<lparr>xn_get = c, xn_save = c, xn_run = \<lparr>re_running = c, re_result = c, re_read = c, re_notify = c, re_start = 1, re_end = 2\<rparr>,
       xn_id = i, xn_now = 0,
       xn_sender = \<lparr>sr_deviceID = None, sr_apiKeyID = None, sr_RemoteAddr = ''10.0.0.7:5000'', sr_Forwarded = []\<rparr>,
       xn_answer = (\<lambda>s ps dry. Inl ''not run'')\<rparr>)"

definition demo_script_ops :: "script_op list" where
  "demo_script_ops =
     (let c = \<lparr>cn_ok = True, cn_fk = True, cn_now = 0\<rparr> in
      [RegisterOp c c 0 (Some \<lparr>rg_Name = ''Back up'', rg_Description = [], rg_Category = [], rg_ScriptPath = ''b.sh'',
          rg_TimeoutSeconds = 0, rg_Parameters = None, rg_Environment = None, rg_AllowedScopes = None, rg_DryRunCommand = []\<rparr>),
       ExecOp (demo_exec_env ''e1'') ''back-up'' (Some ([], False)) True,
       ExecOp (demo_exec_env ''e2'') ''back-up'' (Some ([], False)) True,
       TakeOp (xn_run (demo_exec_env ''e1''))])"

definition demo_script_app :: "unit script_app" where
  "demo_script_app = \<lparr>pa_db = empty_script_db, pa_runner = Some (fst (runner_Start (NewRunner 1 1))),
     pa_channels = \<lparr>ch_ws = None, ch_queue = None\<rparr>\<rparr>"


lemma refused_execution_stays_pending:
  "map_option ex_Status (get (sd_executions (pa_db (script_run demo_script_setup demo_script_ops demo_script_app))) ''e2'') = Some XPending \<and>
   ''e2'' \<notin> queued_ids (script_run demo_script_setup demo_script_ops demo_script_app)"
  by code_simp

end
