(* ===== verification/DockerWorker.thy ===== *)
theory DockerWorker
  imports Discovery
begin

text \<open>
  The Docker discovery worker (\<open>internal/discovery/docker.go\<close>): from the containers the daemon lists to proposals.
  The daemon's answers, the HTTP probes and the order in which Go walks a map are arguments.  Confidences are kept in
  hundredths.  Letters and digits beyond ASCII are told by an argument; patterns that ignore case do so on ASCII.
\<close>

section \<open>Containers\<close>

record docker_port =
  dp_PrivatePort :: int
  dp_PublicPort :: int
  dp_Type :: string

text \<open>Networks by name with the address, which may be empty; the settings or one network can be \<open>nil\<close>.\<close>

record docker_container =
  dc_ID :: string
  dc_Names :: "string list"
  dc_Image :: string
  dc_State :: string
  dc_Labels :: "(string, string) gomap"
  dc_Ports :: "docker_port list"
  dc_Networks :: "(string, string option) gomap option"

record docker_worker =
  dw_debouncer :: debouncer
  dw_includeNetworks :: "string list"
  dw_excludeNetworks :: "string list"
  dw_networkMode :: string
  dw_selfContainerID :: string
  dw_selfContainerName :: string

definition NewDockerDiscoveryWorker :: "gotime \<Rightarrow> docker_worker" where
  "NewDockerDiscoveryWorker now =
     \<lparr>dw_debouncer = newDebouncer now (30 * second), dw_includeNetworks = [], dw_excludeNetworks = [],
      dw_networkMode = ''all'', dw_selfContainerID = [], dw_selfContainerName = []\<rparr>"

definition SetNetworkConfig :: "string list \<Rightarrow> string list \<Rightarrow> string \<Rightarrow> docker_worker \<Rightarrow> docker_worker" where
  "SetNetworkConfig incl excl mode w =
     w\<lparr>dw_includeNetworks := incl, dw_excludeNetworks := excl,
       dw_networkMode := (if mode \<noteq> [] then mode else dw_networkMode w)\<rparr>"

definition SetSelfIdentity :: "(string \<times> string) option \<Rightarrow> docker_worker \<Rightarrow> docker_worker" where
  "SetSelfIdentity ident w =
     (case ident of None \<Rightarrow> w | Some (i, n) \<Rightarrow> w\<lparr>dw_selfContainerID := i, dw_selfContainerName := n\<rparr>)"

section \<open>Who we are\<close>

definition isHexString :: "string \<Rightarrow> bool" where
  "isHexString s \<longleftrightarrow> list_all (\<lambda>c. (CHR ''0'' \<le> c \<and> c \<le> CHR ''9'') \<or> (CHR ''a'' \<le> c \<and> c \<le> CHR ''f'') \<or> (CHR ''A'' \<le> c \<and> c \<le> CHR ''F'')) s"

text \<open>The part of a line after the first \<open>/docker/\<close>, up to the second.\<close>

fun after_marker :: "string \<Rightarrow> string \<Rightarrow> string option" where
  "after_marker m s =
     (if HasPrefix s m then Some (drop (length m) s) else case s of [] \<Rightarrow> None | c # cs \<Rightarrow> after_marker m cs)"

declare after_marker.simps [simp del]

fun before_marker :: "string \<Rightarrow> string \<Rightarrow> string" where
  "before_marker m s =
     (if s = [] \<or> HasPrefix s m then [] else hd s # before_marker m (tl s))"

declare before_marker.simps [simp del]

fun id_from_cgroup :: "string list \<Rightarrow> string" where
  "id_from_cgroup [] = []"
| "id_from_cgroup (line # ls) =
     (if Contains line ''/docker/''
      then (let t = TrimSpace (case after_marker ''/docker/'' line of None \<Rightarrow> [] | Some r \<Rightarrow> before_marker ''/docker/'' r);
                i = (if t \<noteq> [] \<and> hd t \<noteq> CHR ''/'' then takeWhile (\<lambda>c. c \<noteq> CHR ''/'') t else t)
            in if length i \<ge> 12 then take 12 i else id_from_cgroup ls)
      else if Contains line ''/kubepods/''
      then (let p = TrimSuffix (last (Split (CHR ''/'') line)) ''.scope'' in
            if length p \<ge> 12 \<and> isHexString (take 12 p) then take 12 p else id_from_cgroup ls)
      else id_from_cgroup ls)"

definition detectContainerIDFromCgroup :: "string option \<Rightarrow> string" where
  "detectContainerIDFromCgroup file =
     (case file of None \<Rightarrow> [] | Some s \<Rightarrow> id_from_cgroup (Split (char_of (10 :: nat)) s))"

text \<open>The ID and the name; \<open>env\<close> is the variable \<open>HOSTNAME\<close>.\<close>

definition DetectSelfIdentity :: "string option \<Rightarrow> string \<Rightarrow> string \<times> string" where
  "DetectSelfIdentity file env =
     (let i = detectContainerIDFromCgroup file in
      if env = [] then (i, [])
      else (if length env \<ge> 12 \<and> isHexString (take 12 env) \<and> i = [] then env else i,
            if isHexString env then [] else env))"

section \<open>Labels and names\<close>

definition container_label :: "docker_container \<Rightarrow> string \<Rightarrow> string \<Rightarrow> string" where
  "container_label c key dflt = (case get (dc_Labels c) key of Some v \<Rightarrow> if v \<noteq> [] then v else dflt | None \<Rightarrow> dflt)"

definition raw_label :: "docker_container \<Rightarrow> string \<Rightarrow> string" where
  "raw_label c key = get_zero [] (dc_Labels c) key"

definition isValidAppID :: "(string \<Rightarrow> bool) \<Rightarrow> string \<Rightarrow> bool" where
  "isValidAppID wide s \<longleftrightarrow> length s \<noteq> 0 \<and> length s \<le> 64 \<and>
     list_all (\<lambda>c. alphanumeric c \<or> c = CHR ''-'' \<or> c = CHR ''_'' \<or> (of_char c :: nat) \<ge> 128) s \<and> wide s"

definition validateLabels :: "(string \<Rightarrow> bool) \<Rightarrow> docker_container \<Rightarrow> bool" where
  "validateLabels wide c \<longleftrightarrow>
     (let i = container_label c ''nekzus.app.id'' []; p = container_label c ''nekzus.route.path'' []
      in (i = [] \<or> isValidAppID wide i) \<and> (p = [] \<or> HasPrefix p ''/''))"

definition getServiceName :: "docker_container \<Rightarrow> string" where
  "getServiceName c =
     (if raw_label c ''nekzus.app.name'' \<noteq> [] then raw_label c ''nekzus.app.name''
      else case dc_Names c of
        n # ns \<Rightarrow> TrimPrefix n ''/''
      | [] \<Rightarrow> last (Split (CHR ''/'') (hd (Split (CHR '':'') (dc_Image c)))))"

definition getContainerName :: "docker_container \<Rightarrow> string" where
  "getContainerName c = (case dc_Names c of n # ns \<Rightarrow> TrimPrefix n ''/'' | [] \<Rightarrow> [])"

definition isSelfContainer :: "docker_worker \<Rightarrow> docker_container \<Rightarrow> bool" where
  "isSelfContainer w c \<longleftrightarrow>
     dw_selfContainerID w \<noteq> [] \<and> dc_ID c \<noteq> [] \<and>
       (take 12 (dc_ID c) = take 12 (dw_selfContainerID w) \<or> HasPrefix (dc_ID c) (dw_selfContainerID w) \<or>
        HasPrefix (dw_selfContainerID w) (dc_ID c)) \<or>
     dw_selfContainerName w \<noteq> [] \<and> list_ex (\<lambda>n. TrimPrefix n ''/'' = dw_selfContainerName w) (dc_Names c)"

text \<open>The second pattern, for the proxy's containers, only matches what the first does.\<close>

definition isSystemContainer :: "docker_container \<Rightarrow> bool" where
  "isSystemContainer c \<longleftrightarrow>
     raw_label c ''nekzus.test'' = [] \<and>
     (raw_label c ''nekzus.skip'' = ''true'' \<or>
      list_ex (\<lambda>n. Contains (ToLower (TrimPrefix n ''/'')) ''nekzus'') (dc_Names c) \<or>
      Contains (ToLower (dc_Image c)) ''nekzus'' \<or>
      list_ex (Contains (ToLower (dc_Image c)))
        [''k8s.gcr.io/'', ''gcr.io/k8s'', ''rancher/'', ''portainer/'', ''traefik:'', ''caddy:''])"

section \<open>Networks\<close>

definition getContainerIPs :: "docker_container \<Rightarrow> (string, string) gomap" where
  "getContainerIPs c =
     (case dc_Networks c of
        None \<Rightarrow> []
      | Some ns \<Rightarrow> List.map_filter (\<lambda>(n, a). case a of Some ip \<Rightarrow> if ip \<noteq> [] then Some (n, ip) else None | None \<Rightarrow> None) ns)"

text \<open>\<open>order\<close> is the order of one walk over a map.\<close>

type_synonym walk = "(string, string) gomap \<Rightarrow> (string, string) gomap"

definition filterNetworks :: "walk \<Rightarrow> docker_worker \<Rightarrow> (string, string) gomap \<Rightarrow> (string, string) gomap" where
  "filterNetworks order w networks =
     (let filtered =
        (if length (dw_includeNetworks w) > 0
         then foldl (\<lambda>m n. case get networks n of
                 Some ip \<Rightarrow> if n \<in> set (dw_excludeNetworks w) then m else put n ip m
               | None \<Rightarrow> m) [] (dw_includeNetworks w)
         else filter (\<lambda>(n, ip). n \<notin> set (dw_excludeNetworks w)) networks)
      in if dw_networkMode w = ''first'' then take 1 (order filtered)
         else if dw_networkMode w = ''preferred''
         then (case find (has filtered) (dw_includeNetworks w) of
                 Some n \<Rightarrow> [(n, get_zero [] filtered n)]
               | None \<Rightarrow> take 1 (order filtered))
         else filtered)"

section \<open>Ports\<close>

text \<open>\<open>Sscanf\<close> with \<open>%d\<close>: blanks, a sign, digits; what follows is not read.\<close>

definition scan_int :: "string \<Rightarrow> int option" where
  "scan_int s =
     (let t = dropWhile (\<lambda>c. is_space c \<and> c \<noteq> char_of (10 :: nat)) s;
          sign = (if t \<noteq> [] \<and> hd t \<in> {CHR ''-'', CHR ''+''} then [hd t] else [])
      in ParseInt (sign @ takeWhile is_digit (drop (length sign) t)))"

fun merge_exposed :: "int set \<Rightarrow> docker_port list \<Rightarrow> docker_port list" where
  "merge_exposed seen [] = []"
| "merge_exposed seen (p # ps) =
     (if dp_Type p = ''tcp'' \<and> dp_PrivatePort p \<notin> seen then p # merge_exposed (insert (dp_PrivatePort p) seen) ps
      else merge_exposed seen ps)"

definition mergePorts :: "docker_port list \<Rightarrow> docker_port list \<Rightarrow> docker_port list" where
  "mergePorts mapped exposed =
     (let m = filter (\<lambda>p. dp_Type p = ''tcp'') mapped
      in m @ merge_exposed (dp_PrivatePort ` set m) exposed)"

definition knownNonHTTPPorts :: "int list" where
  "knownNonHTTPPorts = [21, 22, 23, 25, 53, 110, 143, 389, 636, 1883, 3306, 5432, 5672, 6379, 11211, 27017]"

definition probed_port :: "docker_port \<Rightarrow> int" where
  "probed_port p = (if dp_PublicPort p = 0 then dp_PrivatePort p else dp_PublicPort p)"

definition filterPorts ::
  "(string \<Rightarrow> int \<Rightarrow> bool) \<Rightarrow> docker_port list \<Rightarrow> docker_container \<Rightarrow> string \<Rightarrow> docker_port list" where
  "filterPorts probe ports c probeHost =
     (if raw_label c ''nekzus.primary_port'' \<noteq> []
      then (case scan_int (raw_label c ''nekzus.primary_port'') of
              None \<Rightarrow> []
            | Some n \<Rightarrow> (case find (\<lambda>p. dp_Type p = ''tcp'' \<and> dp_PrivatePort p = n) ports of None \<Rightarrow> [] | Some p \<Rightarrow> [p]))
      else if raw_label c ''nekzus.discover.all_ports'' = ''true'' then filter (\<lambda>p. dp_Type p = ''tcp'') ports
      else filter (\<lambda>p. dp_Type p = ''tcp'' \<and> probed_port p \<notin> set knownNonHTTPPorts \<and>
                       probeHost \<noteq> [] \<and> probe probeHost (probed_port p)) ports)"

definition guessScheme :: "int \<Rightarrow> string" where
  "guessScheme port = (if port = 443 \<or> port = 8443 then ''https'' else ''http'')"

section \<open>What a proposal says\<close>

definition image_tags :: "string \<Rightarrow> string list" where
  "image_tags img =
     (let has_any = list_ex (Contains img) in
      if has_any [''postgres'', ''mysql'', ''mongo''] then [''database'']
      else if has_any [''nginx'', ''apache'', ''httpd''] then [''web'', ''http'']
      else if has_any [''redis'', ''memcached''] then [''cache'']
      else if has_any [''grafana'', ''prometheus''] then [''monitoring'']
      else [])"

definition port_tag :: "int \<Rightarrow> string list" where
  "port_tag n =
     (if n \<in> {80, 8080, 8000, 3000} then [''http''] else if n \<in> {443, 8443} then [''https'']
      else if n = 5432 then [''postgres''] else if n = 3306 then [''mysql''] else if n = 6379 then [''redis'']
      else if n = 27017 then [''mongodb''] else [])"

definition unique :: "string list \<Rightarrow> string list" where
  "unique xs = foldl (\<lambda>ys x. if x \<in> set ys then ys else ys @ [x]) [] xs"

definition getTags :: "docker_container \<Rightarrow> string list" where
  "getTags c =
     (if raw_label c ''nekzus.app.tags'' \<noteq> [] then Split (CHR '','') (raw_label c ''nekzus.app.tags'')
      else unique (''docker'' # image_tags (ToLower (dc_Image c)) @ concat (map (\<lambda>p. port_tag (dp_PrivatePort p)) (dc_Ports c))))"

definition getScopes :: "docker_container \<Rightarrow> string list" where
  "getScopes c =
     (if raw_label c ''nekzus.route.scopes'' \<noteq> [] then Split (CHR '','') (raw_label c ''nekzus.route.scopes'')
      else if container_label c ''nekzus.app.id'' [] \<noteq> [] then [''access:'' @ container_label c ''nekzus.app.id'' []]
      else [])"

definition wellKnownImages :: "string list" where
  "wellKnownImages = [''nginx'', ''grafana'', ''prometheus'', ''postgres'', ''mysql'', ''redis'', ''mongo'', ''elasticsearch'',
     ''kibana'', ''jenkins'', ''gitlab'', ''nextcloud'', ''wordpress'', ''ghost'', ''plex'']"

definition calculateConfidence :: "docker_container \<Rightarrow> int" where
  "calculateConfidence c =
     (let enabled = (raw_label c ''nekzus.enable'' = ''true'');
          c0 = (if enabled then 95 else if raw_label c ''nekzus.app.id'' \<noteq> [] then 85 else 50);
          c1 = c0 + (if list_ex (Contains (ToLower (dc_Image c))) wellKnownImages then 20 else 0);
          c2 = c1 + (if list_ex (\<lambda>p. dp_PrivatePort p \<in> {80, 8080, 3000}) (dc_Ports c) then 10 else 0);
          c3 = c2 + (if raw_label c ''traefik.enable'' = ''true'' \<or> raw_label c ''caddy'' \<noteq> [] then 15 else 0);
          c4 = (if \<not> enabled \<and> c3 > 85 then 85 else c3)
      in if c4 > 100 then 100 else c4)"

definition getSecurityNotes :: "string \<Rightarrow> string \<Rightarrow> string list" where
  "getSecurityNotes scheme host =
     [''Discovered via Docker API'', ''JWT required''] @
     (if scheme = ''http'' then [''Upstream uses HTTP (unencrypted)''] else []) @
     (if HasPrefix host ''127.'' \<or> HasPrefix host ''172.'' \<or> HasPrefix host ''192.168.'' then [''Private network address''] else [])"

definition target_url :: "string \<Rightarrow> string \<Rightarrow> int \<Rightarrow> string" where
  "target_url scheme host port = scheme @ ''://'' @ host @ '':'' @ Itoa port"

definition docker_icon :: string where "docker_icon = map char_of [240, 159, 147, 166 :: nat]"

section \<open>A scan\<close>

text \<open>What the daemon and the network answer while one container is processed: the exposed ports its inspection shows, the
  probes, the walks over the networks, and the clock.\<close>

record docker_env =
  de_exposed :: "string \<Rightarrow> docker_port list option"
  de_probe :: "string \<Rightarrow> int \<Rightarrow> bool"
  de_filter_walk :: walk
  de_probe_walk :: walk
  de_host_walk :: walk
  de_wide :: "string \<Rightarrow> bool"
  de_now :: gotime

definition first_ip :: "walk \<Rightarrow> (string, string) gomap \<Rightarrow> string" where
  "first_ip order m = (case order m of [] \<Rightarrow> [] | (n, ip) # r \<Rightarrow> ip)"

definition skipped :: "docker_env \<Rightarrow> docker_worker \<Rightarrow> docker_container \<Rightarrow> bool" where
  "skipped env w c \<longleftrightarrow>
     isSelfContainer w c \<or> isSystemContainer c \<or> container_label c ''nekzus.enable'' [] = ''false'' \<or>
     getServiceName c = [] \<or> \<not> validateLabels (de_wide env) c"

definition docker_proposal :: "docker_env \<Rightarrow> docker_container \<Rightarrow> (string, string) gomap \<Rightarrow> docker_port list \<Rightarrow> proposal" where
  "docker_proposal env c ips ports =
     (let name = getServiceName c;
          appID = container_label c ''nekzus.app.id'' (sanitize name);
          options = map (\<lambda>p. \<lparr>po_Port = dp_PrivatePort p,
                              po_Scheme = container_label c ''nekzus.scheme'' (guessScheme (dp_PrivatePort p))\<rparr>) ports;
          primary = hd options; scheme = po_Scheme primary; port = po_Port primary;
          h0 = first_ip (de_host_walk env) ips;
          h1 = (if h0 = [] then getContainerName c else h0);
          host = (if h1 = [] then ''127.0.0.1'' else h1);
          cname = (if getContainerName c = [] then take 12 (dc_ID c) else getContainerName c);
          to = target_url scheme host port
      in \<lparr>pr_ID = generateProposalID ''docker'' scheme cname port, pr_Source = ''docker'', pr_DetectedScheme = scheme,
          pr_DetectedHost = host, pr_DetectedPort = port, pr_AvailablePorts = options, pr_Confidence = calculateConfidence c,
          pr_SuggestedApp = zero_app\<lparr>app_ID := appID, app_Name := container_label c ''nekzus.app.name'' name,
            app_Icon := container_label c ''nekzus.app.icon'' docker_icon, app_Tags := getTags c,
            app_Endpoints := [(''lan'', to)],
            app_DiscoveryMeta := Some \<lparr>dm_Source = ''docker'', dm_ContainerID = take 12 (dc_ID c), dm_PodName = [], dm_ServiceName = []\<rparr>\<rparr>,
          pr_SuggestedRoute = zero_route\<lparr>RouteID := ''route:'' @ appID, AppID := appID,
            PathBase := container_label c ''nekzus.route.path'' (''/apps/'' @ appID @ ''/''), To := to,
            ContainerID := take 12 (dc_ID c), Scopes := getScopes c,
            StripPrefix := container_label c ''nekzus.route.strip_prefix'' ''true'' = ''true'',
            RewriteHTML := container_label c ''nekzus.route.rewrite_html'' ''true'' = ''true'',
            Websocket := container_label c ''nekzus.route.websocket'' ''false'' = ''true'',
            SkipHealthCheck := container_label c ''nekzus.health.skip'' ''false'' = ''true''\<rparr>,
          pr_Tags = [], pr_LastSeen = [], pr_SecurityNotes = getSecurityNotes scheme host\<rparr>)"

definition usable_ports :: "docker_env \<Rightarrow> docker_container \<Rightarrow> (string, string) gomap \<Rightarrow> docker_port list" where
  "usable_ports env c ips =
     (let h = first_ip (de_probe_walk env) ips;
          probeHost = (if h = [] then getContainerName c else h);
          ports = (case de_exposed env (dc_ID c) of
                     Some e \<Rightarrow> if length e > 0 then mergePorts (dc_Ports c) e else dc_Ports c
                   | None \<Rightarrow> dc_Ports c)
      in filterPorts (de_probe env) ports c probeHost)"

definition processContainer :: "docker_env \<Rightarrow> docker_container \<Rightarrow> docker_worker \<times> discovery \<Rightarrow> docker_worker \<times> discovery" where
  "processContainer env c s =
     (case s of (w, dm) \<Rightarrow>
        if skipped env w c then s
        else (let ips = filterNetworks (de_filter_walk env) w (getContainerIPs c) in
          if length ips = 0 then s
          else (let ports = usable_ports env c ips in
            if length ports = 0 then s
            else (let p = docker_proposal env c ips ports in
              case ShouldProcess (de_now env) (pr_ID p) (dw_debouncer w) of
                (d, False) \<Rightarrow> (w\<lparr>dw_debouncer := d\<rparr>, dm)
              | (d, True) \<Rightarrow> (w\<lparr>dw_debouncer := d\<rparr>, SubmitProposal p dm)))))"

text \<open>\<open>None\<close>: the daemon's list failed.\<close>

definition docker_scan ::
  "(docker_env \<times> docker_container) list option \<Rightarrow> docker_worker \<times> discovery \<Rightarrow> (docker_worker \<times> discovery) option" where
  "docker_scan containers s =
     map_option (foldl (\<lambda>s (env, c). if dc_State c = ''running'' then processContainer env c s else s) s) containers"

section \<open>What is proposed\<close>

definition walk_ok :: "walk \<Rightarrow> bool" where
  "walk_ok order \<longleftrightarrow> (\<forall>m. set (order m) = set m)"

definition docker_env_ok :: "docker_env \<Rightarrow> bool" where
  "docker_env_ok env \<longleftrightarrow> walk_ok (de_filter_walk env) \<and> walk_ok (de_probe_walk env) \<and> walk_ok (de_host_walk env)"

text \<open>A network of the container the worker may use, with its address there.\<close>

definition usable_address :: "docker_worker \<Rightarrow> docker_container \<Rightarrow> string \<Rightarrow> bool" where
  "usable_address w c ip \<longleftrightarrow> ip \<noteq> [] \<and>
     (\<exists>ns n. dc_Networks c = Some ns \<and> (n, Some ip) \<in> set ns \<and> n \<notin> set (dw_excludeNetworks w) \<and>
        (dw_includeNetworks w = [] \<or> n \<in> set (dw_includeNetworks w)))"

definition offers_port :: "docker_env \<Rightarrow> docker_container \<Rightarrow> int \<Rightarrow> bool" where
  "offers_port env c port \<longleftrightarrow>
     (\<exists>q. (q \<in> set (dc_Ports c) \<or> (\<exists>e. de_exposed env (dc_ID c) = Some e \<and> q \<in> set e)) \<and> dp_Type q = ''tcp'' \<and>
        port = dp_PrivatePort q)"

lemma getContainerIPs_in:
  "(n, ip) \<in> set (getContainerIPs c) \<longleftrightarrow> (\<exists>ns. dc_Networks c = Some ns \<and> (n, Some ip) \<in> set ns \<and> ip \<noteq> [])"
  by (force simp: getContainerIPs_def List.map_filter_def split: option.splits if_splits)

lemma in_put: "(n, v) \<in> set (put k u m) \<Longrightarrow> (n, v) \<in> set m \<or> n = k \<and> v = u"
  by (induction m) (auto split: if_splits)

definition included :: "string list \<Rightarrow> (string, string) gomap \<Rightarrow> string list \<Rightarrow> (string, string) gomap \<Rightarrow> (string, string) gomap" where
  "included excl networks ns m =
     foldl (\<lambda>m n. case get networks n of Some ip \<Rightarrow> if n \<in> set excl then m else put n ip m | None \<Rightarrow> m) m ns"

lemma included_in:
  "(n, ip) \<in> set (included excl networks ns m) \<Longrightarrow>
   (n, ip) \<in> set m \<or> (n, ip) \<in> set networks \<and> n \<notin> set excl \<and> n \<in> set ns"
proof (induction ns arbitrary: m)
  case (Cons x ns)
  show ?case
  proof (cases "get networks x")
    case None
    with Cons show ?thesis by (auto simp: included_def)
  next
    case (Some v)
    with Cons.prems have "(n, ip) \<in> set (included excl networks ns (if x \<in> set excl then m else put x v m))"
      by (simp add: included_def)
    from Cons.IH [OF this] get_Some_in [OF Some] show ?thesis by (auto split: if_splits dest: in_put)
  qed
qed (simp add: included_def)

lemma filterNetworks_in:
  assumes "walk_ok order" "(n, ip) \<in> set (filterNetworks order w networks)"
  shows "(n, ip) \<in> set networks \<and> n \<notin> set (dw_excludeNetworks w) \<and>
    (dw_includeNetworks w = [] \<or> n \<in> set (dw_includeNetworks w))"
proof -
  define m where "m = (if length (dw_includeNetworks w) > 0
    then included (dw_excludeNetworks w) networks (dw_includeNetworks w) []
    else filter (\<lambda>(n, ip). n \<notin> set (dw_excludeNetworks w)) networks)"
  have f: "filterNetworks order w networks =
    (if dw_networkMode w = ''first'' then take 1 (order m)
     else if dw_networkMode w = ''preferred''
     then (case find (has m) (dw_includeNetworks w) of Some n \<Rightarrow> [(n, get_zero [] m n)] | None \<Rightarrow> take 1 (order m))
     else m)"
    by (simp only: filterNetworks_def m_def included_def Let_def)
  have t: "set (take 1 (order m)) \<subseteq> set m" using set_take_subset [of 1 "order m"] assms(1) by (auto simp: walk_ok_def)
  have p: "(k, get_zero [] m k) \<in> set m" if "find (has m) ks = Some k" for k ks
    using that by (auto simp: find_Some_iff has_def get_zero_def dest: get_Some_in)
  have "(n, ip) \<in> set m"
    using assms(2) t p unfolding f by (auto split: if_splits option.splits)
  then show ?thesis
    by (auto simp: m_def split: if_splits dest: included_in)
qed

lemma find_in: "find P xs = Some x \<Longrightarrow> x \<in> set xs \<and> P x"
  by (auto simp: find_Some_iff)

lemma merge_exposed_in: "p \<in> set (merge_exposed seen ps) \<Longrightarrow> p \<in> set ps"
  by (induction ps arbitrary: seen) (auto split: if_splits)

lemma filterPorts_in: "p \<in> set (filterPorts probe ports c h) \<Longrightarrow> p \<in> set ports \<and> dp_Type p = ''tcp''"
  by (auto simp: filterPorts_def split: if_splits option.splits dest: find_in [OF sym])

lemma usable_ports_offered:
  assumes "p \<in> set (usable_ports env c ips)"
  shows "offers_port env c (dp_PrivatePort p)"
proof -
  from assms obtain ports where "p \<in> set ports" "dp_Type p = ''tcp''"
    and "ports = dc_Ports c \<or> (\<exists>e. de_exposed env (dc_ID c) = Some e \<and> ports = mergePorts (dc_Ports c) e)"
    by (auto simp: usable_ports_def Let_def dest!: filterPorts_in split: option.splits if_splits)
  then show ?thesis by (fastforce simp: offers_port_def mergePorts_def Let_def dest: merge_exposed_in)
qed

text \<open>The worker's configuration does not change while it scans.\<close>

definition same_config :: "docker_worker \<Rightarrow> docker_worker \<Rightarrow> bool" where
  "same_config w w' \<longleftrightarrow> w' = w\<lparr>dw_debouncer := dw_debouncer w'\<rparr>"

text \<open>What a container can be proposed as.\<close>

definition proposable :: "docker_env \<Rightarrow> docker_worker \<Rightarrow> docker_container \<Rightarrow> proposal \<Rightarrow> bool" where
  "proposable env w c p \<longleftrightarrow>
     \<not> isSelfContainer w c \<and> \<not> isSystemContainer c \<and> container_label c ''nekzus.enable'' [] \<noteq> ''false'' \<and>
     usable_address w c (pr_DetectedHost p) \<and> offers_port env c (pr_DetectedPort p) \<and>
     To (pr_SuggestedRoute p) = target_url (pr_DetectedScheme p) (pr_DetectedHost p) (pr_DetectedPort p) \<and>
     AppID (pr_SuggestedRoute p) = app_ID (pr_SuggestedApp p) \<and>
     HasPrefix (PathBase (pr_SuggestedRoute p)) ''/'' \<and>
     (\<forall>o' \<in> set (pr_AvailablePorts p). offers_port env c (po_Port o'))"

lemma docker_proposal_proposable:
  assumes "docker_env_ok env" "\<not> skipped env w c" "ips = filterNetworks (de_filter_walk env) w (getContainerIPs c)"
    and "ips \<noteq> []" "ports = usable_ports env c ips" "ports \<noteq> []"
  shows "proposable env w c (docker_proposal env c ips ports)"
proof -
  have walk: "set (de_host_walk env ips) = set ips" "walk_ok (de_filter_walk env)" using assms(1) by (auto simp: docker_env_ok_def walk_ok_def)
  with assms(4) obtain n ip r where r: "de_host_walk env ips = (n, ip) # r" by (cases "de_host_walk env ips") auto
  then have "(n, ip) \<in> set ips" using walk by auto
  with filterNetworks_in [OF walk(2)] assms(3)
  have i: "(n, ip) \<in> set (getContainerIPs c)" "n \<notin> set (dw_excludeNetworks w)"
    "dw_includeNetworks w = [] \<or> n \<in> set (dw_includeNetworks w)" by blast+
  then have a: "usable_address w c ip" by (auto simp: usable_address_def getContainerIPs_in)
  then have host: "pr_DetectedHost (docker_proposal env c ips ports) = ip"
    by (simp add: docker_proposal_def Let_def first_ip_def r usable_address_def)
  have offered: "\<forall>p \<in> set ports. offers_port env c (dp_PrivatePort p)"
    using usable_ports_offered assms(5) by blast
  have "pr_DetectedPort (docker_proposal env c ips ports) = dp_PrivatePort (hd ports)"
    using assms(6) by (cases ports) (simp_all add: docker_proposal_def Let_def)
  moreover have "hd ports \<in> set ports" using assms(6) by simp
  ultimately have port: "offers_port env c (pr_DetectedPort (docker_proposal env c ips ports))" using offered by simp
  have path: "HasPrefix (PathBase (pr_SuggestedRoute (docker_proposal env c ips ports))) ''/''"
    using assms(2) by (auto simp: skipped_def validateLabels_def docker_proposal_def Let_def container_label_def HasPrefix_def
        split: option.splits if_splits)
  have rest: "To (pr_SuggestedRoute (docker_proposal env c ips ports)) =
      target_url (pr_DetectedScheme (docker_proposal env c ips ports)) (pr_DetectedHost (docker_proposal env c ips ports))
        (pr_DetectedPort (docker_proposal env c ips ports))"
    "AppID (pr_SuggestedRoute (docker_proposal env c ips ports)) = app_ID (pr_SuggestedApp (docker_proposal env c ips ports))"
    "map po_Port (pr_AvailablePorts (docker_proposal env c ips ports)) = map (\<lambda>p. dp_PrivatePort p) ports"
    by (simp_all add: docker_proposal_def Let_def comp_def)
  have "\<forall>o' \<in> set (pr_AvailablePorts (docker_proposal env c ips ports)). offers_port env c (po_Port o')"
    using offered by (simp add: docker_proposal_def Let_def)
  then show ?thesis using a host port path rest assms(2) unfolding proposable_def by (simp add: skipped_def)
qed

lemma processContainer_submits:
  assumes "docker_env_ok env" "processContainer env c (w, dm) = (w', dm')"
  shows "same_config w w' \<and> (\<forall>p. p \<in> set (dm_proposalCh dm') \<longrightarrow> p \<in> set (dm_proposalCh dm) \<or> proposable env w c p)"
proof -
  let ?ips = "filterNetworks (de_filter_walk env) w (getContainerIPs c)"
  let ?p = "docker_proposal env c ?ips (usable_ports env c ?ips)"
  have sub: "p \<in> set (dm_proposalCh (SubmitProposal q dm)) \<Longrightarrow> p \<in> set (dm_proposalCh dm) \<or> p = q" for p q
    by (auto simp: SubmitProposal_def split: if_splits)
  show ?thesis
  proof (cases "skipped env w c \<or> ?ips = [] \<or> usable_ports env c ?ips = []")
    case True
    with assms(2) show ?thesis by (auto simp: processContainer_def same_config_def Let_def split: if_splits)
  next
    case False
    then have p: "proposable env w c ?p" by (intro docker_proposal_proposable [OF assms(1)]) auto
    obtain d ok where "ShouldProcess (de_now env) (pr_ID ?p) (dw_debouncer w) = (d, ok)" by fastforce
    then have "w' = w\<lparr>dw_debouncer := d\<rparr>" "dm' = (if ok then SubmitProposal ?p dm else dm)"
      using False assms(2) by (auto simp: processContainer_def Let_def split: if_splits bool.splits)
    with p sub show ?thesis by (auto simp: same_config_def split: if_splits)
  qed
qed

lemma proposable_config: "same_config w w' \<Longrightarrow> proposable env w' c p \<longleftrightarrow> proposable env w c p"
proof -
  assume "same_config w w'"
  then have "dw_selfContainerID w' = dw_selfContainerID w" "dw_selfContainerName w' = dw_selfContainerName w"
    "dw_includeNetworks w' = dw_includeNetworks w" "dw_excludeNetworks w' = dw_excludeNetworks w"
    unfolding same_config_def by (metis docker_worker.simps docker_worker.surjective docker_worker.update_convs(1))+
  then show ?thesis by (simp add: proposable_def isSelfContainer_def usable_address_def)
qed

text \<open>C30: every proposal a scan of the Docker daemon submits is for a running container that is not the gateway's own, no
  system container and not disabled; it points to an address of the container on a network the configuration allows
  and to a TCP port the container has; and its route leads there, under an absolute path.\<close>

theorem docker_proposals_point_to_containers:
  assumes "docker_scan (Some cs) (w, dm) = Some (w', dm')" "\<forall>(env, c) \<in> set cs. docker_env_ok env"
    and "p \<in> set (dm_proposalCh dm')" "p \<notin> set (dm_proposalCh dm)"
  shows "\<exists>(env, c) \<in> set cs. dc_State c = ''running'' \<and> proposable env w c p"
proof -
  have "(\<forall>(env, c) \<in> set cs. docker_env_ok env) \<Longrightarrow>
    foldl (\<lambda>s (env, c). if dc_State c = ''running'' then processContainer env c s else s) (v, dm) cs = (v', dm') \<Longrightarrow>
    p \<in> set (dm_proposalCh dm') \<Longrightarrow> same_config w v \<Longrightarrow>
    p \<in> set (dm_proposalCh dm) \<or> (\<exists>(env, c) \<in> set cs. dc_State c = ''running'' \<and> proposable env w c p)" for v v' dm
  proof (induction cs arbitrary: v dm)
    case (Cons x cs)
    obtain env c where x: "x = (env, c)" by (cases x)
    obtain v1 dm1 where s: "(if dc_State c = ''running'' then processContainer env c (v, dm) else (v, dm)) = (v1, dm1)"
      by fastforce
    have "same_config v v1 \<and> (p \<in> set (dm_proposalCh dm1) \<longrightarrow> p \<in> set (dm_proposalCh dm) \<or>
        dc_State c = ''running'' \<and> proposable env v c p)"
      using s processContainer_submits [of env c v dm v1 dm1] Cons.prems(1) by (auto simp: x same_config_def split: if_splits)
    moreover from this have "same_config w v1" using Cons.prems(4) unfolding same_config_def by (metis docker_worker.update_convs(1) docker_worker.surjective)
    moreover have "p \<in> set (dm_proposalCh dm1) \<or> (\<exists>(env, c) \<in> set cs. dc_State c = ''running'' \<and> proposable env w c p)"
      using Cons.IH [of v1 dm1] Cons.prems s \<open>same_config w v1\<close> by (simp add: x)
    ultimately show ?case using proposable_config [OF Cons.prems(4)] by (auto simp: x)
  qed simp
  from this [of w dm w'] assms show ?thesis by (auto simp: docker_scan_def same_config_def)
qed

definition demo_container :: docker_container where
  "demo_container =
     \<lparr>dc_ID = ''0123456789abcdef'', dc_Names = [''/grafana''], dc_Image = ''grafana/grafana:11'', dc_State = ''running'',
      dc_Labels = [], dc_Ports = [\<lparr>dp_PrivatePort = 3000, dp_PublicPort = 0, dp_Type = ''tcp''\<rparr>],
      dc_Networks = Some [(''apps'', Some ''172.18.0.5'')]\<rparr>"

definition demo_docker_env :: docker_env where
  "demo_docker_env =
     \<lparr>de_exposed = (\<lambda>i. None), de_probe = (\<lambda>h n. h = ''172.18.0.5'' \<and> n = 3000), de_filter_walk = id, de_probe_walk = id,
      de_host_walk = id, de_wide = (\<lambda>s. True), de_now = 0\<rparr>"

lemma docker_proposals_point_to_containers_witness:
  "\<exists>w dm p. docker_scan (Some [(demo_docker_env, demo_container)]) (NewDockerDiscoveryWorker 0, NewDiscoveryManager False) = Some (w, dm) \<and>
     dm_proposalCh dm = [p] \<and> proposable demo_docker_env (NewDockerDiscoveryWorker 0) demo_container p"
proof -
  let ?r = "docker_scan (Some [(demo_docker_env, demo_container)]) (NewDockerDiscoveryWorker 0, NewDiscoveryManager False)"
  have "case ?r of Some (w, dm) \<Rightarrow> length (dm_proposalCh dm) = 1 | None \<Rightarrow> False" by code_simp
  then obtain w dm where "?r = Some (w, dm)" "length (dm_proposalCh dm) = 1" by (auto split: option.splits)
  then obtain p where r: "?r = Some (w, dm)" "dm_proposalCh dm = [p]" by (auto simp: length_Suc_conv)
  have e: "\<forall>(env, c) \<in> set [(demo_docker_env, demo_container)]. docker_env_ok env"
    by (simp add: docker_env_ok_def walk_ok_def demo_docker_env_def)
  have "p \<in> set (dm_proposalCh dm)" "p \<notin> set (dm_proposalCh (NewDiscoveryManager False))"
    using r(2) by (simp_all add: NewDiscoveryManager_def)
  from docker_proposals_point_to_containers [OF r(1) e this] r show ?thesis by auto
qed

text \<open>A port that is published on the host under another number is probed under that number at the container's own
  address, where only the private port listens: the container is not found.\<close>

lemma published_port_not_found:
  "map_option (\<lambda>(w, dm). dm_proposalCh dm)
     (docker_scan (Some [(demo_docker_env, demo_container\<lparr>dc_Ports := [\<lparr>dp_PrivatePort = 3000, dp_PublicPort = 8000, dp_Type = ''tcp''\<rparr>]\<rparr>)])
        (NewDockerDiscoveryWorker 0, NewDiscoveryManager False)) = Some []"
  by code_simp

lemma disabled_elsewhere:
  "proposable env w c p \<Longrightarrow> raw_label c ''nekzus.skip'' = ''true'' \<Longrightarrow> raw_label c ''nekzus.test'' \<noteq> []"
  by (auto simp: proposable_def isSystemContainer_def)

end
