(* ===== verification/KubeWorker.thy ===== *)
theory KubeWorker
  imports DockerWorker
begin

text \<open>
  The Kubernetes discovery worker (\<open>internal/discovery/kubernetes.go\<close>): from the services and ingresses the API server
  lists to proposals.  What the server answers and the clock when the debouncer is asked about a key are arguments.
  Confidences are kept in hundredths.
\<close>

section \<open>What the API server lists\<close>

record k8s_port =
  kp_Name :: string
  kp_Protocol :: string
  kp_Port :: int

record k8s_service =
  ks_Name :: string
  ks_Namespace :: string
  ks_Labels :: "(string, string) gomap"
  ks_Annotations :: "(string, string) gomap"
  ks_ClusterIP :: string
  ks_Type :: string
  ks_Ports :: "k8s_port list"

text \<open>A path of a rule with the name and the port number of its backend service, if the backend is one.\<close>

record ingress_path =
  ip_Path :: string
  ip_Backend :: "(string \<times> int) option"

record k8s_ingress =
  ki_Name :: string
  ki_Namespace :: string
  ki_Labels :: "(string, string) gomap"
  ki_Annotations :: "(string, string) gomap"
  ki_TLS :: nat
  ki_Rules :: "(string \<times> ingress_path list option) list"

text \<open>Of a cached namespace only the labels are read.\<close>

record k8s_worker =
  kw_debouncer :: debouncer
  kw_namespaces :: "string list"
  kw_namespaceCache :: "(string, (string, string) gomap) gomap"

definition NamespaceAll :: string where "NamespaceAll = []"

definition NewKubernetesDiscoveryWorker :: "gotime \<Rightarrow> string list \<Rightarrow> k8s_worker" where
  "NewKubernetesDiscoveryWorker now namespaces =
     \<lparr>kw_debouncer = newDebouncer now (30 * second),
      kw_namespaces = (if length namespaces = 0 then [NamespaceAll] else namespaces), kw_namespaceCache = []\<rparr>"

section \<open>Labels\<close>

definition slabel :: "k8s_service \<Rightarrow> string \<Rightarrow> string" where
  "slabel s key = get_zero [] (ks_Labels s) key"

definition sannotation :: "k8s_service \<Rightarrow> string \<Rightarrow> string" where
  "sannotation s key = get_zero [] (ks_Annotations s) key"

definition ilabel :: "k8s_ingress \<Rightarrow> string \<Rightarrow> string" where
  "ilabel i key = get_zero [] (ki_Labels i) key"

definition iannotation :: "k8s_ingress \<Rightarrow> string \<Rightarrow> string" where
  "iannotation i key = get_zero [] (ki_Annotations i) key"

definition getNamespaceFromCache :: "k8s_worker \<Rightarrow> string \<Rightarrow> (string, string) gomap option" where
  "getNamespaceFromCache w n = get (kw_namespaceCache w) n"

text \<open>A label of the cached namespace; empty when the namespace is not cached or has no such label.\<close>

definition nlabel :: "k8s_worker \<Rightarrow> string \<Rightarrow> string \<Rightarrow> string" where
  "nlabel w n key = (case getNamespaceFromCache w n of None \<Rightarrow> [] | Some labels \<Rightarrow> get_zero [] labels key)"

definition k8s_label :: "k8s_worker \<Rightarrow> k8s_service \<Rightarrow> string \<Rightarrow> string \<Rightarrow> string" where
  "k8s_label w s key dflt =
     (if slabel s key \<noteq> [] then slabel s key
      else if sannotation s key \<noteq> [] then sannotation s key
      else if nlabel w (ks_Namespace s) key \<noteq> [] then nlabel w (ks_Namespace s) key
      else if key = ''nekzus.app.id'' \<and> slabel s ''app.kubernetes.io/name'' \<noteq> [] then sanitize (slabel s ''app.kubernetes.io/name'')
      else if key = ''nekzus.app.id'' \<and> slabel s ''app'' \<noteq> [] then sanitize (slabel s ''app'')
      else dflt)"

section \<open>Which services are proposed\<close>

definition systemNamespaces :: "string list" where
  "systemNamespaces = [''kube-system'', ''kube-public'', ''kube-node-lease'']"

definition hasIstioSidecar :: "k8s_worker \<Rightarrow> k8s_service \<Rightarrow> bool" where
  "hasIstioSidecar w s \<longleftrightarrow>
     nlabel w (ks_Namespace s) ''istio-injection'' = ''enabled'' \<or>
     slabel s ''istio-injection'' = ''enabled'' \<or> slabel s ''istio.io/rev'' \<noteq> [] \<or>
     slabel s ''service.istio.io/canonical-name'' \<noteq> [] \<or> sannotation s ''sidecar.istio.io/inject'' = ''true''"

definition chart_base :: "string \<Rightarrow> string" where
  "chart_base chart = hd (Split (CHR ''-'') chart)"

definition backendCharts :: "string list" where
  "backendCharts = [''postgresql'', ''postgres'', ''mysql'', ''mariadb'', ''mongodb'', ''mongo'', ''redis'', ''memcached'',
     ''elasticsearch'', ''cassandra'', ''kafka'', ''rabbitmq'', ''nats'', ''etcd'', ''consul'', ''vault'']"

definition isUserFacingHelmChart :: "k8s_service \<Rightarrow> bool" where
  "isUserFacingHelmChart s \<longleftrightarrow>
     slabel s ''helm.sh/chart'' \<noteq> [] \<and> chart_base (slabel s ''helm.sh/chart'') \<notin> set backendCharts"

definition hasIdentifyingLabel :: "k8s_service \<Rightarrow> bool" where
  "hasIdentifyingLabel s \<longleftrightarrow>
     has (ks_Labels s) ''app.kubernetes.io/name'' \<or> has (ks_Labels s) ''app'' \<or> has (ks_Labels s) ''app.kubernetes.io/instance''"

text \<open>What is inferred for a service no explicit label decides.\<close>

definition inferred :: "k8s_worker \<Rightarrow> k8s_service \<Rightarrow> bool" where
  "inferred w s \<longleftrightarrow>
     (let component = slabel s ''app.kubernetes.io/component'' in
      hasIstioSidecar w s \<or>
      ks_Type s \<in> {''LoadBalancer'', ''NodePort''} \<and> hasIdentifyingLabel s \<or>
      component \<in> {''frontend'', ''ui'', ''web''} \<or>
      has (ks_Labels s) ''app.kubernetes.io/name'' \<and>
        (component \<in> {''frontend'', ''ui'', ''web'', ''dashboard''} \<or> isUserFacingHelmChart s))"

definition isEnabled :: "k8s_worker \<Rightarrow> k8s_service \<Rightarrow> bool" where
  "isEnabled w s =
     (let own = slabel s ''nekzus.enable'';
          rest = (if own = ''true'' then True else if own = ''false'' then False
                  else if ks_Namespace s \<in> set systemNamespaces then False else inferred w s)
      in case getNamespaceFromCache w (ks_Namespace s) of
           None \<Rightarrow> rest
         | Some labels \<Rightarrow>
             (let inherited = get_zero [] labels ''nekzus.enable'' in
              if inherited = ''false'' \<and> own \<noteq> ''true'' then False
              else if inherited = ''true'' then (if own = ''false'' then False else True)
              else rest))"

section \<open>Names, tags, scopes\<close>

definition helm_table :: "(string \<times> string \<times> string list) list" where
  "helm_table =
     [(''grafana'', ''Grafana'', [''monitoring'', ''grafana'']),
      (''prometheus'', ''Prometheus'', [''monitoring'', ''prometheus'']),
      (''argocd'', ''ArgoCD'', [''cicd'', ''argocd'']),
      (''argo'', ''ArgoCD'', [''cicd'', ''argocd'']),
      (''loki'', ''Loki'', [''logging'', ''loki'']),
      (''tempo'', ''Tempo'', [''tracing'', ''tempo'']),
      (''jaeger'', ''Jaeger'', [''tracing'', ''jaeger'']),
      (''nginx'', ''NGINX Ingress Controller'', [''ingress'', ''nginx'']),
      (''ingress'', ''NGINX Ingress Controller'', [''ingress'', ''nginx'']),
      (''cert'', ''Cert Manager'', [''certificates'', ''cert-manager'']),
      (''external'', ''External DNS'', [''dns'']),
      (''harbor'', ''Harbor'', [''registry'', ''harbor'']),
      (''vault'', ''Vault'', [''secrets'', ''vault'']),
      (''consul'', ''Consul'', [''service-mesh'', ''consul'']),
      (''linkerd'', ''Linkerd'', [''service-mesh'', ''linkerd'']),
      (''jenkins'', ''Jenkins'', [''cicd'', ''jenkins'']),
      (''gitlab'', ''GitLab'', [''cicd'', ''gitlab'']),
      (''sonarqube'', ''SonarQube'', [''cicd'', ''sonarqube'']),
      (''nexus'', ''Nexus Repository'', [''artifacts'', ''nexus'']),
      (''artifactory'', ''Artifactory'', [''artifacts'', ''artifactory''])]"

definition getHelmChartFriendlyName :: "string \<Rightarrow> string" where
  "getHelmChartFriendlyName chart = (case get helm_table (chart_base chart) of Some (name, tags) \<Rightarrow> name | None \<Rightarrow> [])"

definition getHelmChartTags :: "string \<Rightarrow> string list" where
  "getHelmChartTags chart = (case get helm_table (chart_base chart) of Some (name, tags) \<Rightarrow> tags | None \<Rightarrow> [])"

definition k8s_name :: "k8s_service \<Rightarrow> string" where
  "k8s_name s =
     (if slabel s ''nekzus.app.name'' \<noteq> [] then slabel s ''nekzus.app.name''
      else if sannotation s ''nekzus.app.name'' \<noteq> [] then sannotation s ''nekzus.app.name''
      else if slabel s ''app.kubernetes.io/name'' \<noteq> [] then slabel s ''app.kubernetes.io/name''
      else if slabel s ''app'' \<noteq> [] then slabel s ''app''
      else if slabel s ''helm.sh/chart'' \<noteq> [] \<and> getHelmChartFriendlyName (slabel s ''helm.sh/chart'') \<noteq> []
      then getHelmChartFriendlyName (slabel s ''helm.sh/chart'')
      else ks_Name s)"

definition buildServiceDNS :: "k8s_service \<Rightarrow> string" where
  "buildServiceDNS s = ks_Name s @ ''.'' @ ks_Namespace s @ ''.svc.cluster.local''"

text \<open>Append the tags that are not there yet.\<close>

definition add_new :: "string list \<Rightarrow> string list \<Rightarrow> string list" where
  "add_new tags new = foldl (\<lambda>ts t. if t \<in> set ts then ts else ts @ [t]) tags new"

definition k8s_port_tags :: "string list \<Rightarrow> k8s_port \<Rightarrow> string list" where
  "k8s_port_tags tags p =
     (let named = (if kp_Name p = [] then tags else tags @ [ToLower (kp_Name p)]); n = kp_Port p in
      if n \<in> {80, 8080, 8000, 3000} then add_new named [''http'']
      else if n \<in> {443, 8443} then add_new named [''https'']
      else if n = 5432 then named @ [''postgres''] else if n = 3306 then named @ [''mysql'']
      else if n = 6379 then named @ [''redis''] else if n = 27017 then named @ [''mongodb'']
      else if n = 9090 then add_new named [''prometheus''] else if n = 3100 then named @ [''loki'']
      else named)"

definition k8s_auto_tags :: "k8s_worker \<Rightarrow> k8s_service \<Rightarrow> string list" where
  "k8s_auto_tags w s =
     (let t1 = ''kubernetes'' # (if hasIstioSidecar w s then [''istio''] else []);
          ns = nlabel w (ks_Namespace s) ''nekzus.app.tags'';
          t2 = (if ns = [] then t1 else add_new t1 (Split (CHR '','') ns));
          component = slabel s ''app.kubernetes.io/component'';
          t3 = (if component = [] then t2 else t2 @ [component]);
          chart = slabel s ''helm.sh/chart'';
          t4 = (if chart = [] then t3 else add_new (t3 @ [''helm'']) (getHelmChartTags chart));
          t5 = (if slabel s ''app.kubernetes.io/managed-by'' = ''Helm'' then add_new t4 [''helm''] else t4);
          t6 = (if ks_Namespace s = ''default'' then t5 else t5 @ [ks_Namespace s]);
          t7 = (if ks_Type s = ''LoadBalancer'' then t6 @ [''loadbalancer'']
                else if ks_Type s = ''NodePort'' then t6 @ [''nodeport'']
                else if ks_Type s = ''ClusterIP'' then t6 @ [''clusterip''] else t6)
      in unique (foldl k8s_port_tags t7 (ks_Ports s)))"

definition k8s_tags :: "k8s_worker \<Rightarrow> k8s_service \<Rightarrow> string list" where
  "k8s_tags w s =
     (let a = sannotation s ''nekzus.app.tags''; l = slabel s ''nekzus.app.tags'' in
      if a \<noteq> [] then add_new [''kubernetes''] (Split (CHR '','') a)
      else if l \<noteq> [] then add_new [''kubernetes''] (Split (CHR '','') l)
      else k8s_auto_tags w s)"

definition k8s_scopes :: "k8s_worker \<Rightarrow> k8s_service \<Rightarrow> string list" where
  "k8s_scopes w s =
     (let key = ''nekzus.route.scopes'' in
      if sannotation s key \<noteq> [] then Split (CHR '','') (sannotation s key)
      else if slabel s key \<noteq> [] then Split (CHR '','') (slabel s key)
      else if nlabel w (ks_Namespace s) key \<noteq> [] then Split (CHR '','') (nlabel w (ks_Namespace s) key)
      else if k8s_label w s ''nekzus.app.id'' [] \<noteq> [] then [''access:'' @ k8s_label w s ''nekzus.app.id'' []]
      else [])"

definition k8s_scheme :: "int \<Rightarrow> string \<Rightarrow> string" where
  "k8s_scheme port name =
     (if Contains (ToLower name) ''https'' \<or> Contains (ToLower name) ''tls'' then ''https''
      else if port = 443 \<or> port = 8443 then ''https'' else ''http'')"

definition k8s_confidence :: "k8s_worker \<Rightarrow> k8s_service \<Rightarrow> int" where
  "k8s_confidence w s =
     (let c0 = (if slabel s ''nekzus.enable'' = ''true'' then 95 else if slabel s ''nekzus.app.id'' \<noteq> [] then 85 else 50);
          c1 = c0 + (if hasIstioSidecar w s then 20 else 0);
          chart = slabel s ''helm.sh/chart'';
          c2 = c1 + (if chart \<noteq> [] \<and> getHelmChartFriendlyName chart \<noteq> [] then 20 else 0);
          c3 = c2 + (if ks_Type s = ''LoadBalancer'' \<or> ks_Type s = ''NodePort'' then 10 else 0);
          c4 = c3 + (if list_ex (\<lambda>p. kp_Port p \<in> {80, 8080, 3000, 443}) (ks_Ports s) then 10 else 0)
      in if c4 > 100 then 100 else c4)"

definition k8s_notes :: "k8s_worker \<Rightarrow> string \<Rightarrow> k8s_service \<Rightarrow> string list" where
  "k8s_notes w scheme s =
     [''Discovered via Kubernetes API'', ''JWT required'', ''Namespace: '' @ ks_Namespace s] @
     (if hasIstioSidecar w s then [''Service mesh (Istio) enabled - mTLS enforced between services''] else []) @
     (if scheme = ''http'' then [''Upstream uses HTTP (unencrypted)''] else []) @
     (if ks_Type s = ''LoadBalancer'' then [''LoadBalancer service (may be externally accessible)''] else []) @
     (if ks_Type s = ''NodePort'' then [''NodePort service (accessible on all nodes)''] else [])"

text \<open>Ask the debouncer about a proposal and submit it if it lets it through.\<close>

definition submit_debounced :: "gotime \<Rightarrow> proposal \<Rightarrow> k8s_worker \<times> discovery \<Rightarrow> k8s_worker \<times> discovery" where
  "submit_debounced now p s =
     (case s of (w, dm) \<Rightarrow>
        case ShouldProcess now (pr_ID p) (kw_debouncer w) of
          (d, ok) \<Rightarrow> (w\<lparr>kw_debouncer := d\<rparr>, if ok then SubmitProposal p dm else dm))"

section \<open>Services\<close>

definition service_proposal :: "k8s_worker \<Rightarrow> k8s_service \<Rightarrow> k8s_port \<Rightarrow> proposal" where
  "service_proposal w s p =
     (let name = k8s_name s;
          appID = k8s_label w s ''nekzus.app.id'' (sanitize name);
          scheme = k8s_label w s ''nekzus.scheme'' (k8s_scheme (kp_Port p) (kp_Name p));
          host = buildServiceDNS s;
          to = target_url scheme host (kp_Port p)
      in \<lparr>pr_ID = generateProposalID ''kubernetes'' scheme (ks_Namespace s @ ''/'' @ ks_Name s) (kp_Port p),
          pr_Source = ''kubernetes'', pr_DetectedScheme = scheme, pr_DetectedHost = host, pr_DetectedPort = kp_Port p,
          pr_AvailablePorts = [], pr_Confidence = k8s_confidence w s,
          pr_SuggestedApp = zero_app\<lparr>app_ID := appID, app_Name := k8s_label w s ''nekzus.app.name'' name,
            app_Icon := k8s_label w s ''nekzus.app.icon'' [], app_Tags := k8s_tags w s, app_Endpoints := [(''cluster'', to)]\<rparr>,
          pr_SuggestedRoute = zero_route\<lparr>RouteID := ''route:'' @ appID, AppID := appID,
            PathBase := k8s_label w s ''nekzus.route.path'' (''/apps/'' @ appID @ ''/''), To := to, Scopes := k8s_scopes w s\<rparr>,
          pr_Tags = [], pr_LastSeen = [], pr_SecurityNotes = k8s_notes w scheme s\<rparr>)"

definition headless :: "k8s_service \<Rightarrow> bool" where
  "headless s \<longleftrightarrow> ks_ClusterIP s = ''None'' \<or> ks_ClusterIP s = []"

definition processService :: "(string \<Rightarrow> gotime) \<Rightarrow> k8s_service \<Rightarrow> k8s_worker \<times> discovery \<Rightarrow> k8s_worker \<times> discovery" where
  "processService clock s st =
     (if \<not> isEnabled (fst st) s then st
      else if headless s then st
      else foldl (\<lambda>(w, dm) p.
             if kp_Protocol p \<noteq> ''TCP'' then (w, dm)
             else (let q = service_proposal w s p in submit_debounced (clock (pr_ID q)) q (w, dm))) st (ks_Ports s))"

section \<open>Ingresses\<close>

definition isIngressEnabled :: "k8s_ingress \<Rightarrow> bool" where
  "isIngressEnabled i \<longleftrightarrow>
     (if ilabel i ''nekzus.enable'' = ''true'' then True
      else if ilabel i ''nekzus.enable'' = ''false'' then False
      else if ki_Namespace i \<in> set systemNamespaces then False
      else has (ki_Labels i) ''app.kubernetes.io/name'')"

definition findService :: "k8s_service list \<Rightarrow> string \<Rightarrow> string \<Rightarrow> k8s_service option" where
  "findService services name namespace = find (\<lambda>s. ks_Name s = name \<and> ks_Namespace s = namespace) services"

definition getIngressAppID :: "k8s_worker \<Rightarrow> k8s_ingress \<Rightarrow> k8s_service \<Rightarrow> string \<Rightarrow> string" where
  "getIngressAppID w i s dflt =
     (if ilabel i ''nekzus.app.id'' \<noteq> [] then ilabel i ''nekzus.app.id''
      else if iannotation i ''nekzus.app.id'' \<noteq> [] then iannotation i ''nekzus.app.id''
      else k8s_label w s ''nekzus.app.id'' (sanitize dflt))"

definition getIngressAppName :: "k8s_ingress \<Rightarrow> k8s_service \<Rightarrow> string" where
  "getIngressAppName i s =
     (if ilabel i ''nekzus.app.name'' \<noteq> [] then ilabel i ''nekzus.app.name''
      else if iannotation i ''nekzus.app.name'' \<noteq> [] then iannotation i ''nekzus.app.name''
      else if ilabel i ''app.kubernetes.io/name'' \<noteq> [] then ilabel i ''app.kubernetes.io/name''
      else k8s_name s)"

definition getIngressLabel :: "k8s_worker \<Rightarrow> k8s_ingress \<Rightarrow> k8s_service \<Rightarrow> string \<Rightarrow> string \<Rightarrow> string" where
  "getIngressLabel w i s key dflt =
     (if ilabel i key \<noteq> [] then ilabel i key
      else if iannotation i key \<noteq> [] then iannotation i key
      else k8s_label w s key dflt)"

definition getIngressTags :: "k8s_worker \<Rightarrow> k8s_ingress \<Rightarrow> k8s_service \<Rightarrow> string list" where
  "getIngressTags w i s =
     (let tags = [''kubernetes'', ''ingress''] @ (if ki_Namespace i = ''default'' then [] else [ki_Namespace i]) @
                 (if ki_TLS i > 0 then [''tls''] else [])
      in foldl (\<lambda>ts t. if t \<noteq> ''kubernetes'' \<and> t \<notin> set ts then ts @ [t] else ts) tags (k8s_tags w s))"

definition getIngressScopes :: "k8s_worker \<Rightarrow> k8s_ingress \<Rightarrow> k8s_service \<Rightarrow> string list" where
  "getIngressScopes w i s =
     (if iannotation i ''nekzus.route.scopes'' \<noteq> [] then Split (CHR '','') (iannotation i ''nekzus.route.scopes'')
      else k8s_scopes w s)"

definition calculateIngressConfidence :: "k8s_ingress \<Rightarrow> int" where
  "calculateIngressConfidence i =
     (let c0 = (if ilabel i ''nekzus.enable'' = ''true'' then 95 else 80);
          c1 = c0 + (if ki_TLS i > 0 then 5 else 0)
      in if c1 > 100 then 100 else c1)"

definition getIngressSecurityNotes :: "string \<Rightarrow> k8s_ingress \<Rightarrow> k8s_service \<Rightarrow> string list" where
  "getIngressSecurityNotes scheme i s =
     [''Discovered via Ingress'', ''JWT required'', ''Namespace: '' @ ki_Namespace i] @
     (if scheme = ''https'' then [''TLS termination at Ingress''] else [''No TLS configured (HTTP only)'']) @
     (case ks_Ports s of
        [] \<Rightarrow> []
      | p # ps \<Rightarrow> (let b = k8s_scheme (kp_Port p) (kp_Name p) in
                   if b = scheme then [] else [''Backend service uses '' @ b]))"

definition ingress_proposal :: "k8s_worker \<Rightarrow> k8s_ingress \<Rightarrow> string \<Rightarrow> string \<Rightarrow> string \<Rightarrow> int \<Rightarrow> k8s_service \<Rightarrow> proposal" where
  "ingress_proposal w i ruleHost path name port s =
     (let appID = getIngressAppID w i s name;
          pathBase = (if path = [] \<or> path = ''/'' then ''/apps/'' @ appID @ ''/'' else path);
          explicit = k8s_label w s ''nekzus.scheme'' [];
          scheme = (if explicit \<noteq> [] then explicit else if ki_TLS i > 0 then ''https'' else ''http'');
          host = (if ruleHost \<noteq> [] then ruleHost else buildServiceDNS s);
          to = target_url scheme (buildServiceDNS s) port
      in \<lparr>pr_ID = generateProposalID ''kubernetes-ingress'' scheme (ki_Namespace i @ ''/'' @ ki_Name i @ pathBase) port,
          pr_Source = ''kubernetes'', pr_DetectedScheme = scheme, pr_DetectedHost = host, pr_DetectedPort = port,
          pr_AvailablePorts = [], pr_Confidence = calculateIngressConfidence i,
          pr_SuggestedApp = zero_app\<lparr>app_ID := appID, app_Name := getIngressAppName i s,
            app_Icon := getIngressLabel w i s ''nekzus.app.icon'' [], app_Tags := getIngressTags w i s,
            app_Endpoints := [(''cluster'', to)]\<rparr>,
          pr_SuggestedRoute = zero_route\<lparr>RouteID := ''route:'' @ appID, AppID := appID, PathBase := pathBase, To := to,
            Scopes := getIngressScopes w i s\<rparr>,
          pr_Tags = [], pr_LastSeen = [], pr_SecurityNotes = getIngressSecurityNotes scheme i s\<rparr>)"

definition processIngressPath ::
  "(string \<Rightarrow> gotime) \<Rightarrow> k8s_ingress \<Rightarrow> k8s_service list \<Rightarrow> string \<Rightarrow> ingress_path \<Rightarrow>
   k8s_worker \<times> discovery \<Rightarrow> k8s_worker \<times> discovery" where
  "processIngressPath clock i services ruleHost path st =
     (case ip_Backend path of
        None \<Rightarrow> st
      | Some (name, port) \<Rightarrow>
          (case findService services name (ki_Namespace i) of
             None \<Rightarrow> st
           | Some s \<Rightarrow> (let q = ingress_proposal (fst st) i ruleHost (ip_Path path) name port s
                        in submit_debounced (clock (pr_ID q)) q st)))"

definition processIngress ::
  "(string \<Rightarrow> gotime) \<Rightarrow> k8s_ingress \<Rightarrow> k8s_service list \<Rightarrow> k8s_worker \<times> discovery \<Rightarrow> k8s_worker \<times> discovery" where
  "processIngress clock i services st =
     (if \<not> isIngressEnabled i then st
      else foldl (\<lambda>st (host, paths).
             case paths of
               None \<Rightarrow> st
             | Some ps \<Rightarrow> foldl (\<lambda>st path. processIngressPath clock i services host path st) st ps) st (ki_Rules i))"

section \<open>A scan\<close>

text \<open>What the server answers about one of the worker's namespaces: the labels of the namespace, the services, the
  ingresses; \<open>None\<close> is an error.\<close>

record k8s_answers =
  ka_namespace :: "(string, string) gomap option"
  ka_services :: "k8s_service list option"
  ka_ingresses :: "k8s_ingress list option"
  ka_clock :: "string \<Rightarrow> gotime"

definition cache_namespace :: "k8s_answers \<Rightarrow> string \<Rightarrow> k8s_worker \<Rightarrow> k8s_worker" where
  "cache_namespace a n w =
     (if n = NamespaceAll then w
      else case ka_namespace a of
        None \<Rightarrow> w
      | Some labels \<Rightarrow> w\<lparr>kw_namespaceCache := put n labels (kw_namespaceCache w)\<rparr>)"

definition scan_namespace :: "k8s_answers \<Rightarrow> string \<Rightarrow> k8s_worker \<times> discovery \<Rightarrow> k8s_worker \<times> discovery" where
  "scan_namespace a n st =
     (let st1 = (cache_namespace a n (fst st), snd st) in
      case ka_services a of
        None \<Rightarrow> st1
      | Some services \<Rightarrow>
          (let st2 = foldl (\<lambda>st s. processService (ka_clock a) s st) st1 services in
           case ka_ingresses a of
             None \<Rightarrow> st2
           | Some ingresses \<Rightarrow> foldl (\<lambda>st i. processIngress (ka_clock a) i services st) st2 ingresses))"

definition k8s_scan :: "(string \<Rightarrow> k8s_answers) \<Rightarrow> k8s_worker \<times> discovery \<Rightarrow> k8s_worker \<times> discovery" where
  "k8s_scan answers st = foldl (\<lambda>st n. scan_namespace (answers n) n st) st (kw_namespaces (fst st))"

section \<open>Who decides\<close>

text \<open>The label of the service decides, then that of its namespace, and inference is only asked when neither says
  anything.\<close>

lemma isEnabled_precedence:
  "isEnabled w s \<longleftrightarrow>
     (let own = slabel s ''nekzus.enable''; inherited = nlabel w (ks_Namespace s) ''nekzus.enable'' in
      if own \<in> {''true'', ''false''} then own = ''true''
      else if inherited \<in> {''true'', ''false''} then inherited = ''true''
      else ks_Namespace s \<notin> set systemNamespaces \<and> inferred w s)"
proof (cases "getNamespaceFromCache w (ks_Namespace s)")
  case (Some labels)
  then show ?thesis
    by (cases "slabel s ''nekzus.enable'' = ''true''"; cases "slabel s ''nekzus.enable'' = ''false''";
        cases "get_zero [] labels ''nekzus.enable'' = ''true''"; cases "get_zero [] labels ''nekzus.enable'' = ''false''")
      (simp_all add: isEnabled_def nlabel_def Let_def)
qed (simp add: isEnabled_def nlabel_def Let_def)

lemma not_disabled: "isEnabled w s \<Longrightarrow> slabel s ''nekzus.enable'' \<noteq> ''false''"
  by (simp add: isEnabled_precedence Let_def split: if_splits)

section \<open>What is proposed\<close>

text \<open>A step keeps the worker's namespaces and submits only proposals of which \<open>P\<close> holds.\<close>

definition adds :: "(proposal \<Rightarrow> bool) \<Rightarrow> k8s_worker \<times> discovery \<Rightarrow> k8s_worker \<times> discovery \<Rightarrow> bool" where
  "adds P st st' \<longleftrightarrow> kw_namespaces (fst st') = kw_namespaces (fst st) \<and>
     set (dm_proposalCh (snd st')) \<subseteq> set (dm_proposalCh (snd st)) \<union> {p. P p}"

lemma adds_refl [simp]: "adds P st st"
  by (simp add: adds_def)

lemma adds_trans: "adds P st st' \<Longrightarrow> adds P st' st'' \<Longrightarrow> adds P st st''"
  by (auto simp: adds_def)

lemma adds_mono: "adds P st st' \<Longrightarrow> (\<And>p. P p \<Longrightarrow> Q p) \<Longrightarrow> adds Q st st'"
  by (auto simp: adds_def)

lemma adds_foldl: "(\<And>x st. x \<in> set xs \<Longrightarrow> adds P st (f st x)) \<Longrightarrow> adds P st (foldl f st xs)"
proof (induction xs arbitrary: st)
  case (Cons x xs)
  have "adds P (f st x) (foldl f (f st x) xs)" by (rule Cons.IH) (simp add: Cons.prems)
  moreover have "adds P st (f st x)" by (simp add: Cons.prems)
  ultimately show ?case by (simp add: adds_trans [of P st "f st x"])
qed simp

lemma adds_submit: "P p \<Longrightarrow> adds P st (submit_debounced now p st)"
  by (auto simp: adds_def submit_debounced_def SubmitProposal_def split: prod.split)

text \<open>The suggestion leads to the service's name in the cluster and is tagged as coming from there.\<close>

definition leads_to :: "k8s_service \<Rightarrow> proposal \<Rightarrow> bool" where
  "leads_to s p \<longleftrightarrow>
     To (pr_SuggestedRoute p) = target_url (pr_DetectedScheme p) (buildServiceDNS s) (pr_DetectedPort p) \<and>
     app_Endpoints (pr_SuggestedApp p) = [(''cluster'', To (pr_SuggestedRoute p))] \<and>
     AppID (pr_SuggestedRoute p) = app_ID (pr_SuggestedApp p) \<and> ''kubernetes'' \<in> set (app_Tags (pr_SuggestedApp p))"

definition from_service :: "k8s_service \<Rightarrow> proposal \<Rightarrow> bool" where
  "from_service s p \<longleftrightarrow>
     leads_to s p \<and> \<not> headless s \<and> slabel s ''nekzus.enable'' \<noteq> ''false'' \<and> pr_DetectedHost p = buildServiceDNS s \<and>
     (\<exists>q \<in> set (ks_Ports s). kp_Protocol q = ''TCP'' \<and> kp_Port q = pr_DetectedPort p)"

definition from_ingress :: "k8s_ingress \<Rightarrow> k8s_service \<Rightarrow> proposal \<Rightarrow> bool" where
  "from_ingress i s p \<longleftrightarrow>
     leads_to s p \<and> isIngressEnabled i \<and> ks_Namespace s = ki_Namespace i \<and>
     (\<exists>(host, paths) \<in> set (ki_Rules i). \<exists>ps. paths = Some ps \<and>
        (\<exists>path \<in> set ps. ip_Backend path = Some (ks_Name s, pr_DetectedPort p)))"

lemma set_add_new: "set (add_new tags new) = set tags \<union> set new"
  unfolding add_new_def by (induction new arbitrary: tags) auto

lemma set_unique: "set (unique xs) = set xs"
proof -
  have "set (foldl (\<lambda>ys x. if x \<in> set ys then ys else ys @ [x]) zs xs) = set zs \<union> set xs" for zs
    by (induction xs arbitrary: zs) auto
  from this [of "[]"] show ?thesis by (simp add: unique_def)
qed

lemma k8s_port_tags_keep: "t \<in> set tags \<Longrightarrow> t \<in> set (foldl k8s_port_tags tags ps)"
proof (induction ps arbitrary: tags)
  case (Cons p ps)
  then have "t \<in> set (k8s_port_tags tags p)" by (simp add: k8s_port_tags_def Let_def set_add_new)
  then show ?case using Cons.IH by simp
qed simp

lemma k8s_tags_kubernetes: "''kubernetes'' \<in> set (k8s_tags w s)"
proof -
  have tags: "''kubernetes'' \<in> set t \<Longrightarrow> (\<And>x. ''kubernetes'' \<in> set x \<Longrightarrow> ''kubernetes'' \<in> set (f x)) \<Longrightarrow>
      ''kubernetes'' \<in> set (Let t f)" for t :: "string list" and f :: "string list \<Rightarrow> string list" by simp
  have txt_let: "(\<And>x. ''kubernetes'' \<in> set (f x)) \<Longrightarrow> ''kubernetes'' \<in> set (Let t f)"
    for t :: string and f :: "string \<Rightarrow> string list" by simp
  have "''kubernetes'' \<in> set (k8s_auto_tags w s)"
    unfolding k8s_auto_tags_def by (intro tags txt_let) (simp_all add: set_add_new set_unique k8s_port_tags_keep)
  then show ?thesis by (simp add: k8s_tags_def Let_def set_add_new)
qed

lemma getIngressTags_kubernetes: "''kubernetes'' \<in> set (getIngressTags w i s)"
proof -
  have "t \<in> set ts \<Longrightarrow> t \<in> set (foldl (\<lambda>ts t. if t \<noteq> ''kubernetes'' \<and> t \<notin> set ts then ts @ [t] else ts) ts us)" for t ts us
    by (induction us arbitrary: ts) auto
  then show ?thesis by (simp add: getIngressTags_def)
qed

lemma service_proposal_from:
  assumes "isEnabled w s" "\<not> headless s" "q \<in> set (ks_Ports s)" "kp_Protocol q = ''TCP''"
  shows "from_service s (service_proposal w s q)"
  using assms not_disabled
  by (auto simp: from_service_def leads_to_def service_proposal_def Let_def k8s_tags_kubernetes)

lemma ingress_proposal_leads: "leads_to s (ingress_proposal w i h path n port s)"
  by (simp add: leads_to_def ingress_proposal_def Let_def getIngressTags_kubernetes)

lemma isEnabled_kept: "isEnabled (w\<lparr>kw_debouncer := d\<rparr>) s = isEnabled w s"
proof -
  have "nlabel (w\<lparr>kw_debouncer := d\<rparr>) = nlabel w" by (intro ext) (simp add: nlabel_def getNamespaceFromCache_def)
  then show ?thesis by (simp only: isEnabled_precedence inferred_def hasIstioSidecar_def)
qed

text \<open>While a service is processed only the debouncer changes.\<close>

lemma processService_adds: "adds (from_service s) st (processService clock s st)"
proof (cases "isEnabled (fst st) s \<and> \<not> headless s")
  case True
  have "(\<And>q. q \<in> set ps \<Longrightarrow> q \<in> set (ks_Ports s)) \<Longrightarrow> isEnabled w s \<Longrightarrow>
    adds (from_service s) (w, dm) (foldl (\<lambda>(w, dm) p.
       if kp_Protocol p \<noteq> ''TCP'' then (w, dm)
       else (let q = service_proposal w s p in submit_debounced (clock (pr_ID q)) q (w, dm))) (w, dm) ps)" for w dm ps
  proof (induction ps arbitrary: w dm)
    case (Cons p ps)
    show ?case
    proof (cases "kp_Protocol p = ''TCP''")
      case tcp: True
      let ?q = "service_proposal w s p"
      obtain d ok where d: "ShouldProcess (clock (pr_ID ?q)) (pr_ID ?q) (kw_debouncer w) = (d, ok)" by fastforce
      have one: "submit_debounced (clock (pr_ID ?q)) ?q (w, dm) = (w\<lparr>kw_debouncer := d\<rparr>, if ok then SubmitProposal ?q dm else dm)"
        by (simp add: submit_debounced_def d)
      have "adds (from_service s) (w, dm) (submit_debounced (clock (pr_ID ?q)) ?q (w, dm))"
        using Cons.prems True tcp by (intro adds_submit service_proposal_from) auto
      moreover have "isEnabled (w\<lparr>kw_debouncer := d\<rparr>) s"
        using Cons.prems(2) by (simp only: isEnabled_kept)
      ultimately show ?thesis
        using tcp Cons.IH [of "w\<lparr>kw_debouncer := d\<rparr>" "if ok then SubmitProposal ?q dm else dm"] Cons.prems(1)
        by (auto simp: one Let_def intro: adds_trans)
    qed (use Cons in simp)
  qed simp
  from this [of "ks_Ports s" "fst st" "snd st"] True show ?thesis by (simp add: processService_def)
qed (auto simp: processService_def)

lemma processIngress_adds:
  "adds (\<lambda>p. \<exists>s \<in> set services. from_ingress i s p) st (processIngress clock i services st)"
proof (cases "isIngressEnabled i")
  case True
  have path: "adds (\<lambda>p. \<exists>s \<in> set services. from_ingress i s p) st (processIngressPath clock i services h path st)"
    if "(h, Some ps) \<in> set (ki_Rules i)" "path \<in> set ps" for h ps path st
  proof (cases "ip_Backend path")
    case (Some b)
    obtain n port where b: "b = (n, port)" by (cases b)
    show ?thesis
    proof (cases "findService services n (ki_Namespace i)")
      case None
      then show ?thesis by (simp add: processIngressPath_def Some b)
    next
      case s: (Some s)
      then have "s \<in> set services" "ks_Name s = n" "ks_Namespace s = ki_Namespace i"
        by (auto simp: findService_def find_Some_iff)
      moreover have "pr_DetectedPort (ingress_proposal (fst st) i h (ip_Path path) n port s) = port"
        by (simp add: ingress_proposal_def Let_def)
      ultimately have "from_ingress i s (ingress_proposal (fst st) i h (ip_Path path) n port s)"
        using True that Some ingress_proposal_leads unfolding from_ingress_def b by fastforce
      with \<open>s \<in> set services\<close> show ?thesis
        by (auto simp: processIngressPath_def Some b s Let_def intro!: adds_submit)
    qed
  qed (simp add: processIngressPath_def)
  show ?thesis
    unfolding processIngress_def using True path by (auto intro!: adds_foldl split: option.split)
qed (simp add: processIngress_def)

text \<open>A proposal that comes from what the server answers about one namespace.\<close>

definition from_answers :: "k8s_answers \<Rightarrow> proposal \<Rightarrow> bool" where
  "from_answers a p \<longleftrightarrow>
     (\<exists>services. ka_services a = Some services \<and>
       (\<exists>s \<in> set services. from_service s p \<or>
          (\<exists>ingresses. ka_ingresses a = Some ingresses \<and> (\<exists>i \<in> set ingresses. from_ingress i s p))))"

lemma scan_namespace_adds: "adds (from_answers a) st (scan_namespace a n st)"
proof -
  have c: "adds (from_answers a) st (cache_namespace a n (fst st), snd st)"
    by (simp add: adds_def cache_namespace_def split: option.split)
  show ?thesis
  proof (cases "ka_services a")
    case None
    with c show ?thesis by (simp add: scan_namespace_def)
  next
    case (Some services)
    have 1: "adds (from_answers a) st1 (foldl (\<lambda>st s. processService (ka_clock a) s st) st1 services)" for st1
      by (intro adds_foldl adds_mono [OF processService_adds]) (use Some in \<open>auto simp: from_answers_def\<close>)
    have 2: "adds (from_answers a) st2 (foldl (\<lambda>st i. processIngress (ka_clock a) i services st) st2 ingresses)"
      if "ka_ingresses a = Some ingresses" for st2 ingresses
      by (intro adds_foldl adds_mono [OF processIngress_adds]) (use Some that in \<open>auto simp: from_answers_def\<close>)
    show ?thesis
    proof (cases "ka_ingresses a")
      case None
      with adds_trans [OF c 1] show ?thesis by (simp add: scan_namespace_def Some)
    next
      case i: (Some ingresses)
      from adds_trans [OF adds_trans [OF c 1] 2 [OF i]] show ?thesis by (simp add: scan_namespace_def Some i)
    qed
  qed
qed

text \<open>C31: every proposal a scan of the cluster submits leads to the cluster name of a service the server listed for one of
  the worker's namespaces and is tagged \<open>kubernetes\<close>; the service itself is not disabled, not headless and has that TCP
  port, or an enabled ingress of its namespace names it and the port as its backend.\<close>

theorem kubernetes_proposals_lead_to_services:
  assumes "k8s_scan answers (w, dm) = (w', dm')" "p \<in> set (dm_proposalCh dm')" "p \<notin> set (dm_proposalCh dm)"
  shows "\<exists>n \<in> set (kw_namespaces w). from_answers (answers n) p"
proof -
  have "adds (\<lambda>p. \<exists>n \<in> set (kw_namespaces w). from_answers (answers n) p) (w, dm) (k8s_scan answers (w, dm))"
    unfolding k8s_scan_def by (rule adds_foldl) (auto intro: adds_mono [OF scan_namespace_adds])
  with assms show ?thesis by (auto simp: adds_def)
qed

definition demo_service :: k8s_service where
  "demo_service =
     \<lparr>ks_Name = ''grafana'', ks_Namespace = ''monitoring'', ks_Labels = [(''app.kubernetes.io/component'', ''ui'')],
      ks_Annotations = [], ks_ClusterIP = ''10.0.0.7'', ks_Type = ''ClusterIP'',
      ks_Ports = [\<lparr>kp_Name = ''http'', kp_Protocol = ''TCP'', kp_Port = 3000\<rparr>]\<rparr>"

definition demo_answers :: "k8s_service list \<Rightarrow> k8s_ingress list \<Rightarrow> (string, string) gomap \<Rightarrow> string \<Rightarrow> k8s_answers" where
  "demo_answers services ingresses labels n =
     \<lparr>ka_namespace = Some labels, ka_services = Some services, ka_ingresses = Some ingresses, ka_clock = (\<lambda>k. 0)\<rparr>"

lemma kubernetes_proposals_lead_to_services_witness:
  "\<exists>w dm p. k8s_scan (demo_answers [demo_service] [] []) (NewKubernetesDiscoveryWorker 0 [], NewDiscoveryManager False) = (w, dm) \<and>
     dm_proposalCh dm = [p] \<and> from_answers (demo_answers [demo_service] [] [] []) p"
proof -
  let ?r = "k8s_scan (demo_answers [demo_service] [] []) (NewKubernetesDiscoveryWorker 0 [], NewDiscoveryManager False)"
  have l: "length (dm_proposalCh (snd ?r)) = 1" by code_simp
  obtain w dm where "?r = (w, dm)" by fastforce
  with l obtain p where r: "?r = (w, dm)" "dm_proposalCh dm = [p]" by (auto simp: length_Suc_conv)
  have "p \<in> set (dm_proposalCh dm)" "p \<notin> set (dm_proposalCh (NewDiscoveryManager False))"
    using r(2) by (simp_all add: NewDiscoveryManager_def)
  from kubernetes_proposals_lead_to_services [OF r(1) this] r show ?thesis
    by (auto simp: NewKubernetesDiscoveryWorker_def NamespaceAll_def)
qed

text \<open>A worker that watches all namespaces never caches one, so its services inherit nothing from their namespaces.\<close>

lemma submit_debounced_cache [simp]:
  "kw_namespaceCache (fst (submit_debounced now p st)) = kw_namespaceCache (fst st)"
  by (simp add: submit_debounced_def split: prod.split)

lemma foldl_cache:
  "(\<And>x st. kw_namespaceCache (fst (f st x)) = kw_namespaceCache (fst st)) \<Longrightarrow>
   kw_namespaceCache (fst (foldl f st xs)) = kw_namespaceCache (fst st)"
  by (induction xs arbitrary: st) simp_all

lemma processService_cache [simp]: "kw_namespaceCache (fst (processService c s st)) = kw_namespaceCache (fst st)"
  by (auto simp: processService_def Let_def split: prod.split intro!: foldl_cache)

lemma processIngressPath_cache [simp]:
  "kw_namespaceCache (fst (processIngressPath c i services h path st)) = kw_namespaceCache (fst st)"
  by (simp add: processIngressPath_def Let_def split: option.split prod.split)

lemma processIngress_cache [simp]: "kw_namespaceCache (fst (processIngress c i services st)) = kw_namespaceCache (fst st)"
  by (auto simp: processIngress_def foldl_cache split: option.split intro!: foldl_cache)

lemma scan_namespace_cache:
  "kw_namespaceCache (fst (scan_namespace a n st)) = kw_namespaceCache (cache_namespace a n (fst st))"
  by (simp add: scan_namespace_def Let_def foldl_cache split: option.split)

lemma k8s_scan_narrow:
  assumes "kw_namespaces (fst st) = [NamespaceAll]" "kw_namespaceCache (fst st) = []"
  shows "kw_namespaces (fst (k8s_scan a st)) = [NamespaceAll] \<and> kw_namespaceCache (fst (k8s_scan a st)) = []"
  using assms scan_namespace_adds [of "a NamespaceAll" st NamespaceAll]
  by (simp add: k8s_scan_def adds_def scan_namespace_cache cache_namespace_def)

lemma all_namespaces_inherit_nothing:
  "nlabel (fst (foldl (\<lambda>st a. k8s_scan a st) (NewKubernetesDiscoveryWorker now [], dm) scans)) n key = []"
proof -
  have "kw_namespaces (fst st) = [NamespaceAll] \<Longrightarrow> kw_namespaceCache (fst st) = [] \<Longrightarrow>
    kw_namespaceCache (fst (foldl (\<lambda>st a. k8s_scan a st) st scans)) = []" for st
  proof (induction scans arbitrary: st)
    case (Cons a scans)
    then show ?case using k8s_scan_narrow [OF Cons.prems] by simp
  qed simp
  from this [of "(NewKubernetesDiscoveryWorker now [], dm)"]
  show ?thesis by (simp add: NewKubernetesDiscoveryWorker_def nlabel_def getNamespaceFromCache_def)
qed

text \<open>The proposals of different services can have the same ID: the second one is held back by the debouncer.\<close>

text \<open>A service that is disabled by its label is proposed all the same when an enabled ingress leads to it.\<close>

lemma disabled_service_exposed_by_ingress:
  "let s = demo_service\<lparr>ks_Labels := [(''nekzus.enable'', ''false'')]\<rparr>;
       i = \<lparr>ki_Name = ''web'', ki_Namespace = ''monitoring'', ki_Labels = [(''app.kubernetes.io/name'', ''web'')], ki_Annotations = [],
            ki_TLS = 1, ki_Rules = [(''g.example.org'', Some [\<lparr>ip_Path = ''/g'', ip_Backend = Some (''grafana'', 0)\<rparr>])]\<rparr>
   in map (\<lambda>p. To (pr_SuggestedRoute p)) (dm_proposalCh (snd
        (k8s_scan (demo_answers [s] [i] []) (NewKubernetesDiscoveryWorker 0 [], NewDiscoveryManager False)))) =
      [''https://grafana.monitoring.svc.cluster.local:0'']"
  by code_simp

lemma ids_of_services_collide:
  "generateProposalID ''kubernetes'' scheme ''a-b/c'' port = generateProposalID ''kubernetes'' scheme ''a/b-c'' port"
  by (simp add: generateProposalID_def sanitize_map alphanumeric_def)

end
