(* ===== verification/Exports.thy ===== *)
theory Exports
  imports Numbers "HOL-Library.List_Lexorder" "HOL-Library.Char_ord" "HOL-Library.Multiset"
begin

text \<open>
  The export of containers to Docker Compose (\<open>internal/export/export.go\<close>) and its pages
  (\<open>internal/handlers/export.go\<close>).  The YAML and ZIP encoders and the daemon's inspections are arguments.  A nil and an empty
  map or slice are one value, as in the YAML, which omits both.  A map is given in the order in which it is walked.
\<close>

section \<open>Durations as text\<close>

text \<open>\<open>Duration.String\<close> of a positive duration: the fraction loses its trailing zeros.\<close>

definition fraction_text :: "int \<Rightarrow> nat \<Rightarrow> string" where
  "fraction_text v digits =
     (let f = rev (dropWhile (\<lambda>c. c = CHR ''0'') (map (\<lambda>i. digit_char (nat (v div 10 ^ i mod 10))) [0..<digits]))
      in if f = [] then [] else CHR ''.'' # f)"

definition duration_text :: "duration \<Rightarrow> string" where
  "duration_text d =
     (if d < 1000 then Itoa d @ ''ns''
      else if d < 1000000 then Itoa (d div 1000) @ fraction_text (d mod 1000) 3 @ map char_of [194, 181 :: nat] @ ''s''
      else if d < second then Itoa (d div 1000000) @ fraction_text (d mod 1000000) 6 @ ''ms''
      else (let s = d div second; secs = Itoa (s mod 60) @ fraction_text (d mod second) 9 @ ''s'' in
            if s < 60 then secs
            else if s < 3600 then Itoa (s div 60) @ ''m'' @ secs
            else Itoa (s div 3600) @ ''h'' @ Itoa (s div 60 mod 60) @ ''m'' @ secs))"

lemma duration_text_examples:
  "duration_text (90 * second) = ''1m30s''" "duration_text (hour + 500000000) = ''1h0m0.5s''" "duration_text 1500000 = ''1.5ms''"
  by code_simp+

section \<open>Containers\<close>

record docker_health =
  hk_Test :: "string list"
  hk_Interval :: duration
  hk_Timeout :: duration
  hk_StartPeriod :: duration
  hk_Retries :: int

record docker_config =
  cc_Image :: string
  cc_Env :: "string list"
  cc_Labels :: "(string, string) gomap"
  cc_User :: string
  cc_WorkingDir :: string
  cc_Entrypoint :: "string list"
  cc_Cmd :: "string list"
  cc_Healthcheck :: "docker_health option"

text \<open>A published port: number and protocol in the container, then the bindings as host address and port.\<close>

record host_config =
  hc_PortBindings :: "((string \<times> string) \<times> (string \<times> string) list) list"
  hc_RestartName :: string
  hc_MaximumRetryCount :: int
  hc_Privileged :: bool
  hc_CapAdd :: "string list"
  hc_CapDrop :: "string list"

record mount_point =
  mt_Type :: string
  mt_Name :: string
  mt_Source :: string
  mt_Destination :: string
  mt_RW :: bool

record docker_inspection =
  in_Name :: string
  in_Config :: "docker_config option"
  in_HostConfig :: "host_config option"
  in_Mounts :: "mount_point list"
  in_Networks :: "(string, string list option) gomap option"

record export_options =
  SanitizeSecrets :: bool
  IncludeVolumes :: bool
  IncludeNetworks :: bool

section \<open>The compose file\<close>

record volume_config =
  vc_Type :: string
  vc_Source :: string
  vc_Target :: string
  vc_ReadOnly :: bool

record health_check_config =
  hx_Test :: "string list"
  hx_Interval :: string
  hx_Timeout :: string
  hx_Retries :: int
  hx_StartPeriod :: string

record compose_service =
  sc_Image :: string
  sc_ContainerName :: string
  sc_Environment :: "(string, string) gomap"
  sc_Ports :: "string list"
  sc_Volumes :: "volume_config list"
  sc_Networks :: "(string, string list) gomap"
  sc_Restart :: string
  sc_Labels :: "(string, string) gomap"
  sc_HealthCheck :: "health_check_config option"
  sc_Privileged :: bool
  sc_CapAdd :: "string list"
  sc_CapDrop :: "string list"
  sc_User :: string
  sc_WorkingDir :: string
  sc_Entrypoint :: "string list"
  sc_Command :: "string list"

record compose_file =
  cf_Services :: "(string, compose_service) gomap"
  cf_Volumes :: "(string, (string, string) gomap) gomap"
  cf_Networks :: "(string, (string, string) gomap) gomap"

record export_result =
  er_Format :: string
  er_Content :: string
  er_Filename :: string
  er_Warnings :: "string list"
  er_EnvContent :: string
  er_EnvFilename :: string

section \<open>Secrets\<close>

definition sensitiveKeyPatterns :: "string list" where
  "sensitiveKeyPatterns = [''PASSWORD'', ''PASSWD'', ''PWD'', ''SECRET'', ''PRIVATE_KEY'', ''API_KEY'', ''ACCESS_KEY'',
     ''TOKEN'', ''AUTH'', ''CREDENTIAL'', ''CERTIFICATE'', ''CERT'']"

definition IsSensitiveKey :: "string \<Rightarrow> bool" where
  "IsSensitiveKey key \<longleftrightarrow> list_ex (Contains (ToUpper key)) sensitiveKeyPatterns"

text \<open>\<open>SplitN(e, "=", 2)\<close> when it has two parts.\<close>

definition env_split :: "string \<Rightarrow> (string \<times> string) option" where
  "env_split e =
     (if CHR ''='' \<in> set e
      then Some (takeWhile (\<lambda>c. c \<noteq> CHR ''='') e, tl (dropWhile (\<lambda>c. c \<noteq> CHR ''='') e)) else None)"

definition CollectSensitiveVars :: "string list \<Rightarrow> (string, string) gomap" where
  "CollectSensitiveVars env =
     foldl (\<lambda>m e. case env_split e of Some (k, v) \<Rightarrow> if IsSensitiveKey k then put k v m else m | None \<Rightarrow> m) [] env"

text \<open>The sort: every later key that is smaller changes places with the one at the front.\<close>

fun select :: "string \<Rightarrow> string list \<Rightarrow> string \<times> string list" where
  "select x [] = (x, [])"
| "select x (y # ys) =
     (if x > y then (case select y ys of (m, r) \<Rightarrow> (m, x # r)) else (case select x ys of (m, r) \<Rightarrow> (m, y # r)))"

lemma length_select: "length (snd (select x ys)) = length ys"
proof (induction ys arbitrary: x)
  case (Cons y ys)
  then show ?case by (cases "select x ys"; cases "select y ys") (metis length_Cons select.simps(2) snd_conv case_prod_conv)
qed simp

function sort_keys :: "string list \<Rightarrow> string list" where
  "sort_keys [] = []"
| "sort_keys (x # xs) = (case select x xs of (m, r) \<Rightarrow> m # sort_keys r)"
  by pat_completeness auto

termination
proof (relation "measure length")
  show "((r, x # xs) \<in> measure length)" if "(m, r) = select x xs" for x xs m r
    using length_select [of x xs] that by (metis in_measure length_Cons lessI snd_conv)
qed simp

definition newline :: char where "newline = char_of (10 :: nat)"

definition env_header :: string where
  "env_header = ''# Environment variables for Docker Compose'' @ [newline] @
     ''# IMPORTANT: Replace CHANGE_ME values with actual secrets before use'' @ [newline] @
     ''# Do not commit this file to version control with real values'' @ [newline, newline]"

definition GenerateEnvFile :: "(string, string) gomap \<Rightarrow> string" where
  "GenerateEnvFile vars =
     (if length vars = 0 then []
      else env_header @ concat (map (\<lambda>k. k @ ''=CHANGE_ME'' @ [newline]) (sort_keys (map fst vars))))"

definition SanitizeContainerName :: "string \<Rightarrow> string" where
  "SanitizeContainerName name = TrimPrefix name ''/''"

section \<open>The parts of a service\<close>

definition MapEnvironmentWithEnvFile :: "string list \<Rightarrow> bool \<Rightarrow> (string, string) gomap \<times> (string, string) gomap" where
  "MapEnvironmentWithEnvFile env sanitizeSecrets =
     foldl (\<lambda>(m, s) e. case env_split e of
           None \<Rightarrow> (m, s)
         | Some (k, v) \<Rightarrow>
             if sanitizeSecrets \<and> IsSensitiveKey k then (put k (''${'' @ k @ ''}'') m, put k v s) else (put k v m, s))
       ([], []) env"

definition MapEnvironment :: "string list \<Rightarrow> bool \<Rightarrow> (string, string) gomap \<times> string list" where
  "MapEnvironment env sanitizeSecrets =
     foldl (\<lambda>(m, ws) e. case env_split e of
           None \<Rightarrow> (m, ws)
         | Some (k, v) \<Rightarrow>
             if sanitizeSecrets \<and> IsSensitiveKey k
             then (put k (''${'' @ k @ '':?Required}'') m,
                   ws @ [''Environment variable '' @ [CHR 0x27] @ k @ [CHR 0x27] @ '' was redacted for security''])
             else (put k v m, ws))
       ([], []) env"

definition MapVolumes :: "mount_point list \<Rightarrow> volume_config list" where
  "MapVolumes mounts =
     map (\<lambda>m. \<lparr>vc_Type = mt_Type m,
               vc_Source = (if mt_Type m = ''volume'' then mt_Name m else if mt_Type m = ''tmpfs'' then [] else mt_Source m),
               vc_Target = mt_Destination m, vc_ReadOnly = (\<not> mt_RW m)\<rparr>) mounts"

definition MapPorts :: "((string \<times> string) \<times> (string \<times> string) list) list \<Rightarrow> string list" where
  "MapPorts bindings =
     concat (map (\<lambda>((port, proto), bs). map (\<lambda>(ip, hostPort).
       (if ip \<noteq> [] \<and> ip \<noteq> ''0.0.0.0'' then ip @ '':'' @ hostPort @ '':'' @ port else hostPort @ '':'' @ port) @
       (if proto \<noteq> ''tcp'' then ''/'' @ proto else [])) bs) bindings)"

definition MapRestartPolicy :: "string \<Rightarrow> int \<Rightarrow> string" where
  "MapRestartPolicy name retries =
     (if name = ''on-failure'' then (if retries > 0 then ''on-failure:'' @ Itoa retries else ''on-failure'')
      else if name = ''no'' \<or> name = [] then ''no'' else name)"

definition MapNetworks :: "(string, string list option) gomap \<Rightarrow> (string, string list) gomap" where
  "MapNetworks networks =
     map (\<lambda>(n, s). (n, case s of None \<Rightarrow> [] | Some aliases \<Rightarrow> aliases)) (filter (\<lambda>(n, s). n \<noteq> ''bridge'') networks)"

definition MapHealthCheck :: "docker_health option \<Rightarrow> health_check_config option" where
  "MapHealthCheck h =
     (case h of
        None \<Rightarrow> None
      | Some h \<Rightarrow>
          if length (hk_Test h) = 0 then None
          else Some \<lparr>hx_Test = hk_Test h,
                     hx_Interval = (if hk_Interval h > 0 then duration_text (hk_Interval h) else []),
                     hx_Timeout = (if hk_Timeout h > 0 then duration_text (hk_Timeout h) else []),
                     hx_Retries = hk_Retries h,
                     hx_StartPeriod = (if hk_StartPeriod h > 0 then duration_text (hk_StartPeriod h) else [])\<rparr>)"

definition CollectTopLevelVolumes :: "volume_config list \<Rightarrow> (string, (string, string) gomap) gomap" where
  "CollectTopLevelVolumes volumes =
     foldl (\<lambda>m v. if vc_Type v = ''volume'' \<and> vc_Source v \<noteq> [] then put (vc_Source v) [] m else m) [] volumes"

definition CollectTopLevelNetworks :: "(string, string list) gomap \<Rightarrow> (string, (string, string) gomap) gomap" where
  "CollectTopLevelNetworks networks = foldl (\<lambda>m (n, a). put n [] m) [] networks"

section \<open>One service\<close>

text \<open>The environment, the warnings and the variables for the file beside the compose file; only the exporters with such a file
  collect the latter, and they give no warnings.\<close>

definition map_env :: "bool \<Rightarrow> bool \<Rightarrow> string list \<Rightarrow> (string, string) gomap \<times> string list \<times> (string, string) gomap" where
  "map_env withEnv sanitizeSecrets env =
     (if withEnv \<and> sanitizeSecrets
      then (case MapEnvironmentWithEnvFile env True of (m, s) \<Rightarrow> (m, [], s))
      else (case MapEnvironment env (\<not> withEnv \<and> sanitizeSecrets) of (m, ws) \<Rightarrow> (m, ws, [])))"

definition blank_service :: "string \<Rightarrow> compose_service" where
  "blank_service name =
     \<lparr>sc_Image = [], sc_ContainerName = name, sc_Environment = [], sc_Ports = [], sc_Volumes = [], sc_Networks = [],
      sc_Restart = [], sc_Labels = [], sc_HealthCheck = None, sc_Privileged = False, sc_CapAdd = [], sc_CapDrop = [],
      sc_User = [], sc_WorkingDir = [], sc_Entrypoint = [], sc_Command = []\<rparr>"

definition apply_config :: "bool \<Rightarrow> bool \<Rightarrow> docker_config \<Rightarrow> compose_service \<Rightarrow> compose_service" where
  "apply_config withEnv sanitizeSecrets cfg s =
     s\<lparr>sc_Image := cc_Image cfg, sc_Environment := fst (map_env withEnv sanitizeSecrets (cc_Env cfg)),
       sc_Labels := filter (\<lambda>(k, v). \<not> HasPrefix k ''com.docker.compose.'') (cc_Labels cfg),
       sc_User := cc_User cfg, sc_WorkingDir := cc_WorkingDir cfg, sc_Entrypoint := cc_Entrypoint cfg,
       sc_Command := cc_Cmd cfg, sc_HealthCheck := MapHealthCheck (cc_Healthcheck cfg)\<rparr>"

definition apply_host_config :: "host_config \<Rightarrow> compose_service \<Rightarrow> compose_service" where
  "apply_host_config h s =
     s\<lparr>sc_Ports := MapPorts (hc_PortBindings h), sc_Restart := MapRestartPolicy (hc_RestartName h) (hc_MaximumRetryCount h),
       sc_Privileged := hc_Privileged h, sc_CapAdd := hc_CapAdd h, sc_CapDrop := hc_CapDrop h\<rparr>"

definition build_service :: "bool \<Rightarrow> export_options \<Rightarrow> docker_inspection \<Rightarrow> compose_service" where
  "build_service withEnv opts c =
     (let s0 = blank_service (SanitizeContainerName (in_Name c));
          s1 = (case in_Config c of None \<Rightarrow> s0 | Some cfg \<Rightarrow> apply_config withEnv (SanitizeSecrets opts) cfg s0);
          s2 = (case in_HostConfig c of None \<Rightarrow> s1 | Some h \<Rightarrow> apply_host_config h s1);
          s3 = (if IncludeVolumes opts then s2\<lparr>sc_Volumes := MapVolumes (in_Mounts c)\<rparr> else s2)
      in case in_Networks c of
           Some ns \<Rightarrow> if IncludeNetworks opts then s3\<lparr>sc_Networks := MapNetworks ns\<rparr> else s3
         | None \<Rightarrow> s3)"

definition service_warnings :: "bool \<Rightarrow> export_options \<Rightarrow> string \<Rightarrow> docker_inspection \<Rightarrow> string list" where
  "service_warnings withEnv opts privileged c =
     (case in_Config c of None \<Rightarrow> [] | Some cfg \<Rightarrow> fst (snd (map_env withEnv (SanitizeSecrets opts) (cc_Env cfg)))) @
     (case in_HostConfig c of None \<Rightarrow> [] | Some h \<Rightarrow> if hc_Privileged h then [privileged] else [])"

definition service_secrets :: "bool \<Rightarrow> export_options \<Rightarrow> docker_inspection \<Rightarrow> (string, string) gomap" where
  "service_secrets withEnv opts c =
     (case in_Config c of None \<Rightarrow> [] | Some cfg \<Rightarrow> snd (snd (map_env withEnv (SanitizeSecrets opts) (cc_Env cfg))))"

section \<open>The exporters\<close>

datatype export_error = NoInspection | NoContainers | MarshalFailed

type_synonym yaml = "compose_file \<Rightarrow> string option"

definition compose_one :: "bool \<Rightarrow> export_options \<Rightarrow> docker_inspection \<Rightarrow> compose_file" where
  "compose_one withEnv opts c =
     (let s = build_service withEnv opts c in
      \<lparr>cf_Services = [(SanitizeContainerName (in_Name c), s)], cf_Volumes = CollectTopLevelVolumes (sc_Volumes s),
       cf_Networks = CollectTopLevelNetworks (sc_Networks s)\<rparr>)"

definition privileged_text :: string where
  "privileged_text = ''Container runs in privileged mode (security risk)''"

definition ExportToCompose :: "yaml \<Rightarrow> docker_inspection option \<Rightarrow> export_options \<Rightarrow> export_error + export_result" where
  "ExportToCompose yaml c opts =
     (case c of
        None \<Rightarrow> Inl NoInspection
      | Some c \<Rightarrow>
          (case yaml (compose_one False opts c) of
             None \<Rightarrow> Inl MarshalFailed
           | Some t \<Rightarrow> Inr \<lparr>er_Format = ''compose'', er_Content = t,
               er_Filename = SanitizeContainerName (in_Name c) @ ''-compose.yml'',
               er_Warnings = service_warnings False opts privileged_text c, er_EnvContent = [], er_EnvFilename = []\<rparr>))"

text \<open>The file beside the compose file, when there are variables for it.\<close>

definition with_env_file :: "(string, string) gomap \<Rightarrow> export_result \<Rightarrow> export_result" where
  "with_env_file secrets r =
     (if length secrets > 0 then r\<lparr>er_EnvContent := GenerateEnvFile secrets, er_EnvFilename := ''.env.example''\<rparr> else r)"

definition ExportToComposeWithEnv :: "yaml \<Rightarrow> docker_inspection option \<Rightarrow> export_options \<Rightarrow> export_error + export_result" where
  "ExportToComposeWithEnv yaml c opts =
     (case c of
        None \<Rightarrow> Inl NoInspection
      | Some c \<Rightarrow>
          (case yaml (compose_one True opts c) of
             None \<Rightarrow> Inl MarshalFailed
           | Some t \<Rightarrow> Inr (with_env_file (service_secrets True opts c)
               \<lparr>er_Format = ''compose'', er_Content = t, er_Filename = SanitizeContainerName (in_Name c) @ ''-compose.yml'',
                er_Warnings = service_warnings True opts privileged_text c, er_EnvContent = [], er_EnvFilename = []\<rparr>)))"

subsection \<open>Several containers\<close>

lemma Itoa_inj: "inj Itoa"
proof (rule injI)
  fix i j :: int
  have h: "show_nat n \<noteq> CHR ''-'' # ds" "CHR ''-'' # ds \<noteq> show_nat n" for n ds
    using show_nat_digits [of n] digit_no_sign [of "CHR ''-''"] by (metis list.pred_inject(2))+
  have n: "show_nat m = show_nat n \<Longrightarrow> m = n" for m n by (metis dec_val_show_nat)
  assume "Itoa i = Itoa j"
  then show "i = j" by (auto simp: Itoa_def h dest!: n split: if_splits)
qed

text \<open>The first free name of the form \<open>orig-k\<close>.\<close>

function next_free :: "string list \<Rightarrow> string \<Rightarrow> int \<Rightarrow> string" where
  "next_free used orig k =
     (let n = orig @ ''-'' @ Itoa k in if n \<in> set used then next_free used orig (k + 1) else n)"
  by pat_completeness auto

termination
proof (relation "measure (\<lambda>(used, orig, k). card {j. k \<le> j \<and> orig @ ''-'' @ Itoa j \<in> set used})")
  fix used orig k n
  assume "n = orig @ ''-'' @ Itoa k" "n \<in> set used"
  moreover have "inj (\<lambda>j. orig @ ''-'' @ Itoa j)" using Itoa_inj by (auto intro!: injI dest: injD)
  then have "finite {j. orig @ ''-'' @ Itoa j \<in> set used}" using finite_vimageI [of "set used"] by (auto simp: vimage_def)
  then have "finite {j. k \<le> j \<and> orig @ ''-'' @ Itoa j \<in> set used}" by (rule rev_finite_subset) auto
  moreover have "{j. k + 1 \<le> j \<and> orig @ ''-'' @ Itoa j \<in> set used} \<subseteq> {j. k \<le> j \<and> orig @ ''-'' @ Itoa j \<in> set used}"
    and "k \<notin> {j. k + 1 \<le> j \<and> orig @ ''-'' @ Itoa j \<in> set used}" by auto
  moreover have "k \<in> {j. k \<le> j \<and> orig @ ''-'' @ Itoa j \<in> set used}" using calculation(1,2) by simp
  ultimately have "card {j. k + 1 \<le> j \<and> orig @ ''-'' @ Itoa j \<in> set used} < card {j. k \<le> j \<and> orig @ ''-'' @ Itoa j \<in> set used}"
    by (metis (no_types, lifting) psubsetI psubset_card_mono)
  then show "((used, orig, k + 1), (used, orig, k)) \<in> measure (\<lambda>(used, orig, k). card {j. k \<le> j \<and> orig @ ''-'' @ Itoa j \<in> set used})"
    by simp
qed simp

declare next_free.simps [simp del]

definition free_name :: "string list \<Rightarrow> string \<Rightarrow> string" where
  "free_name used orig = (if orig \<in> set used then next_free used orig 1 else orig)"

record batch =
  b_Services :: "(string, compose_service) gomap"
  b_Volumes :: "(string, (string, string) gomap) gomap"
  b_Networks :: "(string, (string, string) gomap) gomap"
  b_Used :: "string list"
  b_Warnings :: "string list"
  b_Secrets :: "(string, string) gomap"

definition put_all :: "('k, 'v) gomap \<Rightarrow> ('k, 'v) gomap \<Rightarrow> ('k, 'v) gomap" where
  "put_all m new = foldl (\<lambda>m (k, v). put k v m) m new"

definition batch_step :: "bool \<Rightarrow> export_options \<Rightarrow> batch \<Rightarrow> docker_inspection option \<Rightarrow> batch" where
  "batch_step withEnv opts b c =
     (case c of
        None \<Rightarrow> b
      | Some c \<Rightarrow>
          (let orig = SanitizeContainerName (in_Name c); name = free_name (b_Used b) orig;
               s = build_service withEnv opts c;
               priv = ''Container '' @ [CHR 0x27] @ orig @ [CHR 0x27] @ '' runs in privileged mode (security risk)''
           in \<lparr>b_Services = put name s (b_Services b),
               b_Volumes = put_all (b_Volumes b) (CollectTopLevelVolumes (sc_Volumes s)),
               b_Networks = put_all (b_Networks b) (CollectTopLevelNetworks (sc_Networks s)),
               b_Used = name # b_Used b, b_Warnings = b_Warnings b @ service_warnings withEnv opts priv c,
               b_Secrets = put_all (b_Secrets b) (service_secrets withEnv opts c)\<rparr>))"

definition empty_batch :: batch where
  "empty_batch = \<lparr>b_Services = [], b_Volumes = [], b_Networks = [], b_Used = [], b_Warnings = [], b_Secrets = []\<rparr>"

definition run_batch :: "bool \<Rightarrow> export_options \<Rightarrow> docker_inspection option list \<Rightarrow> batch" where
  "run_batch withEnv opts cs = foldl (batch_step withEnv opts) empty_batch cs"

definition batch_file :: "batch \<Rightarrow> compose_file" where
  "batch_file b = \<lparr>cf_Services = b_Services b, cf_Volumes = b_Volumes b, cf_Networks = b_Networks b\<rparr>"

text \<open>Without a stack name the file is named after the first service of a walk over the map.\<close>

definition batch_result :: "((string, compose_service) gomap \<Rightarrow> string list) \<Rightarrow> batch \<Rightarrow> string \<Rightarrow> string \<Rightarrow> export_result" where
  "batch_result walk b t stackName =
     \<lparr>er_Format = ''compose'', er_Content = t,
      er_Filename = (if stackName \<noteq> [] then stackName else case walk (b_Services b) of [] \<Rightarrow> [] | n # ns \<Rightarrow> n) @ ''-compose.yml'',
      er_Warnings = b_Warnings b, er_EnvContent = [], er_EnvFilename = []\<rparr>"

definition BatchExportToCompose ::
  "yaml \<Rightarrow> ((string, compose_service) gomap \<Rightarrow> string list) \<Rightarrow> docker_inspection option list \<Rightarrow> export_options \<Rightarrow> string \<Rightarrow>
   export_error + export_result" where
  "BatchExportToCompose yaml walk cs opts stackName =
     (if length cs = 0 then Inl NoContainers
      else (let b = run_batch False opts cs in
        case yaml (batch_file b) of None \<Rightarrow> Inl MarshalFailed | Some t \<Rightarrow> Inr (batch_result walk b t stackName)))"

definition BatchExportToComposeWithEnv ::
  "yaml \<Rightarrow> ((string, compose_service) gomap \<Rightarrow> string list) \<Rightarrow> docker_inspection option list \<Rightarrow> export_options \<Rightarrow> string \<Rightarrow>
   export_error + export_result" where
  "BatchExportToComposeWithEnv yaml walk cs opts stackName =
     (if length cs = 0 then Inl NoContainers
      else (let b = run_batch True opts cs in
        case yaml (batch_file b) of
          None \<Rightarrow> Inl MarshalFailed
        | Some t \<Rightarrow> Inr (with_env_file (b_Secrets b) (batch_result walk b t stackName))))"

text \<open>The files of the archive, which the ZIP library packs (or fails to), and its name.\<close>

definition CreateZipBundle ::
  "((string \<times> string) list \<Rightarrow> string option) \<Rightarrow> export_result option \<Rightarrow> string \<Rightarrow> (string \<times> string) option" where
  "CreateZipBundle zip_files r stackName =
     (case r of
        None \<Rightarrow> None
      | Some r \<Rightarrow>
          map_option (\<lambda>data. (data, stackName @ ''.zip''))
            (zip_files ((er_Filename r, er_Content r) #
               (if er_EnvContent r \<noteq> [] \<and> er_EnvFilename r \<noteq> [] then [(er_EnvFilename r, er_EnvContent r)] else []))))"

section \<open>The pages\<close>

text \<open>\<open>None\<close> is a field the request does not have.\<close>

record export_request =
  xq_SanitizeSecrets :: "bool option"
  xq_IncludeVolumes :: "bool option"
  xq_IncludeNetworks :: "bool option"

record batch_request = export_request +
  xq_ContainerIDs :: "string list"
  xq_StackName :: string

definition options_of :: "'a export_request_scheme \<Rightarrow> export_options" where
  "options_of q =
     (let opt = (\<lambda>x. case x of None \<Rightarrow> True | Some b \<Rightarrow> b) in
      \<lparr>SanitizeSecrets = opt (xq_SanitizeSecrets q), IncludeVolumes = opt (xq_IncludeVolumes q),
       IncludeNetworks = opt (xq_IncludeNetworks q)\<rparr>)"

text \<open>An inspection fails because there is no such container, or with another error.\<close>

datatype inspect_error = ContainerNotFound string | InspectFailed string

fun inspect_text :: "inspect_error \<Rightarrow> string" where
  "inspect_text (ContainerNotFound t) = t"
| "inspect_text (InspectFailed t) = t"

datatype export_answer =
    ExportRefused int string
  | ExportJSON int export_result
  | ExportZip string string

definition extractContainerIDForPreview :: "string \<Rightarrow> string" where
  "extractContainerIDForPreview path =
     (let parts = Split (CHR ''/'') (TrimSuffix path ''/'') in
      if length parts < 7 then []
      else if parts ! (length parts - 1) \<noteq> ''preview'' \<or> parts ! (length parts - 2) \<noteq> ''export'' then []
      else parts ! 4)"

definition extractContainerIDForExport :: "string \<Rightarrow> string" where
  "extractContainerIDForExport path =
     (let parts = Split (CHR ''/'') (TrimSuffix path ''/'') in
      if length parts < 6 then [] else if parts ! (length parts - 1) \<noteq> ''export'' then [] else parts ! 4)"

definition blank_request :: export_request where
  "blank_request = \<lparr>xq_SanitizeSecrets = None, xq_IncludeVolumes = None, xq_IncludeNetworks = None\<rparr>"

text \<open>What both pages for one container do; they differ in how the container is named in the path and in the code of a failed
  export.  \<open>body\<close> is \<open>None\<close> when there is none, and then what it decodes to.\<close>

definition export_page ::
  "(string \<Rightarrow> inspect_error + docker_inspection) \<Rightarrow> yaml \<Rightarrow> string \<Rightarrow> string \<Rightarrow> string \<Rightarrow> export_request option option \<Rightarrow> export_answer" where
  "export_page inspect yaml failed meth cid body =
     (if meth \<noteq> ''POST'' then ExportRefused 405 ''METHOD_NOT_ALLOWED''
      else if cid = [] then ExportRefused 400 ''INVALID_CONTAINER_ID''
      else case (case body of None \<Rightarrow> Some blank_request | Some q \<Rightarrow> q) of
        None \<Rightarrow> ExportRefused 400 ''INVALID_REQUEST_BODY''
      | Some q \<Rightarrow>
          (case inspect cid of
             Inl (ContainerNotFound t) \<Rightarrow> ExportRefused 404 ''CONTAINER_NOT_FOUND''
           | Inl (InspectFailed t) \<Rightarrow> ExportRefused 500 ''CONTAINER_INSPECT_FAILED''
           | Inr c \<Rightarrow>
               (case ExportToComposeWithEnv yaml (Some c) (options_of q) of
                  Inl e \<Rightarrow> ExportRefused 500 failed
                | Inr r \<Rightarrow> ExportJSON 200 r)))"

definition HandleExportContainer ::
  "(string \<Rightarrow> inspect_error + docker_inspection) \<Rightarrow> yaml \<Rightarrow> string \<Rightarrow> string \<Rightarrow> export_request option option \<Rightarrow> export_answer" where
  "HandleExportContainer inspect yaml meth path body =
     export_page inspect yaml ''EXPORT_FAILED'' meth (extractContainerIDForExport path) body"

definition HandlePreviewExport ::
  "(string \<Rightarrow> inspect_error + docker_inspection) \<Rightarrow> yaml \<Rightarrow> string \<Rightarrow> string \<Rightarrow> export_request option option \<Rightarrow> export_answer" where
  "HandlePreviewExport inspect yaml meth path body =
     export_page inspect yaml ''PREVIEW_FAILED'' meth (extractContainerIDForPreview path) body"

text \<open>The containers that could be inspected, and a warning for each of the others.\<close>

fun inspect_all :: "(string \<Rightarrow> inspect_error + docker_inspection) \<Rightarrow> string list \<Rightarrow> docker_inspection list \<times> string list" where
  "inspect_all inspect [] = ([], [])"
| "inspect_all inspect (i # ids) =
     (case inspect_all inspect ids of
        (cs, ws) \<Rightarrow>
          (case inspect i of
             Inl e \<Rightarrow> (cs, (''Failed to inspect container '' @ [CHR 0x27] @ i @ [CHR 0x27] @ '': '' @ inspect_text e) # ws)
           | Inr c \<Rightarrow> (c # cs, ws)))"

definition batch_page ::
  "(string \<Rightarrow> inspect_error + docker_inspection) \<Rightarrow> yaml \<Rightarrow> string \<Rightarrow> string \<Rightarrow> batch_request option \<Rightarrow>
   export_answer + (export_result \<times> string \<times> bool)" where
  "batch_page inspect yaml failed meth body =
     (if meth \<noteq> ''POST'' then Inl (ExportRefused 405 ''METHOD_NOT_ALLOWED'')
      else case body of
        None \<Rightarrow> Inl (ExportRefused 400 ''INVALID_REQUEST_BODY'')
      | Some q \<Rightarrow>
          if length (xq_ContainerIDs q) = 0 then Inl (ExportRefused 400 ''INVALID_REQUEST'')
          else (case inspect_all inspect (xq_ContainerIDs q) of
            (cs, ws) \<Rightarrow>
              if length cs = 0 then Inl (ExportRefused 404 ''ALL_CONTAINERS_FAILED'')
              else (let stackName = (if xq_StackName q = [] then ''exported-stack'' else xq_StackName q) in
                case BatchExportToComposeWithEnv yaml (\<lambda>m. []) (map Some cs) (options_of q) stackName of
                  Inl e \<Rightarrow> Inl (ExportRefused 500 failed)
                | Inr r \<Rightarrow> Inr (r\<lparr>er_Warnings := ws @ er_Warnings r\<rparr>, stackName, ws \<noteq> []))))"

definition HandleBatchExport ::
  "(string \<Rightarrow> inspect_error + docker_inspection) \<Rightarrow> yaml \<Rightarrow> ((string \<times> string) list \<Rightarrow> string option) \<Rightarrow> string \<Rightarrow> string \<Rightarrow>
   batch_request option \<Rightarrow> export_answer" where
  "HandleBatchExport inspect yaml zip_files meth format body =
     (case batch_page inspect yaml ''BATCH_EXPORT_FAILED'' meth body of
        Inl a \<Rightarrow> a
      | Inr (r, stackName, someFailed) \<Rightarrow>
          if format = ''zip''
          then (case CreateZipBundle zip_files (Some r) stackName of
                  None \<Rightarrow> ExportRefused 500 ''ZIP_CREATION_FAILED''
                | Some (data, name) \<Rightarrow> ExportZip name data)
          else ExportJSON (if someFailed then 206 else 200) r)"

definition HandleBatchPreviewExport ::
  "(string \<Rightarrow> inspect_error + docker_inspection) \<Rightarrow> yaml \<Rightarrow> string \<Rightarrow> batch_request option \<Rightarrow> export_answer" where
  "HandleBatchPreviewExport inspect yaml meth body =
     (case batch_page inspect yaml ''PREVIEW_FAILED'' meth body of
        Inl a \<Rightarrow> a
      | Inr (r, stackName, someFailed) \<Rightarrow> ExportJSON 200 r)"

section \<open>The sort\<close>

lemma select_spec: "select x ys = (m, r) \<Longrightarrow> mset (m # r) = mset (x # ys) \<and> (\<forall>z \<in> set r. m \<le> z)"
proof (induction ys arbitrary: x m r)
  case (Cons y ys)
  show ?case
  proof (cases "x > y")
    case True
    with Cons.prems obtain r' where r': "select y ys = (m, r')" "r = x # r'" by (auto split: prod.splits)
    note IH = Cons.IH [OF r'(1)]
    then have "y \<in> set (m # r')" by (metis list.set_intros(1) set_mset_mset)
    with IH have "m \<le> y" by auto
    with IH True r'(2) show ?thesis by auto
  next
    case False
    with Cons.prems obtain r' where r': "select x ys = (m, r')" "r = y # r'" by (auto split: prod.splits)
    note IH = Cons.IH [OF r'(1)]
    then have "x \<in> set (m # r')" by (metis list.set_intros(1) set_mset_mset)
    with IH have "m \<le> x" by auto
    with IH False r'(2) show ?thesis by auto
  qed
qed simp

lemma sort_keys_spec: "mset (sort_keys xs) = mset xs \<and> sorted (sort_keys xs)"
proof (induction xs rule: sort_keys.induct)
  case (2 x xs)
  obtain m r where mr: "select x xs = (m, r)" by fastforce
  note IH = 2 [OF mr [symmetric]]
  from IH have "set (sort_keys r) = set r" by (metis set_mset_mset)
  with IH select_spec [OF mr] show ?case by (simp add: mr)
qed simp

lemma sort_keys_distinct: "distinct xs \<Longrightarrow> sort_keys xs = sorted_list_of_set (set xs)"
proof -
  assume "distinct xs"
  then have "distinct (sort_keys xs)" "set (sort_keys xs) = set xs"
    using sort_keys_spec [of xs] by (metis mset_eq_imp_distinct_iff, metis set_mset_mset)
  then show ?thesis using sort_keys_spec [of xs] by (metis sorted_list_of_set.idem_if_sorted_distinct)
qed

section \<open>Redacted environments\<close>

lemma has_put_iff: "has (put k v m) k' \<longleftrightarrow> k' = k \<or> has m k'"
  by (simp add: has_def get_put)

text \<open>Every key of the environment is in the map; a sensitive one only as a reference, and it is recorded.\<close>

lemma env_file_spec:
  assumes "MapEnvironmentWithEnvFile env True = (m, s)"
  shows "wf_map m \<and> wf_map s \<and> (\<forall>k. has s k \<longleftrightarrow> IsSensitiveKey k \<and> has m k) \<and>
    (\<forall>k v. get m k = Some v \<longrightarrow> IsSensitiveKey k \<longrightarrow> v = ''${'' @ k @ ''}'')"
proof -
  let ?f = "\<lambda>(m, s) e. case env_split e of
           None \<Rightarrow> (m, s)
         | Some (k, v) \<Rightarrow>
             if True \<and> IsSensitiveKey k then (put k (''${'' @ k @ ''}'') m, put k v s) else (put k v m, s)"
  let ?I = "\<lambda>(m, s). wf_map m \<and> wf_map s \<and> (\<forall>k. has s k \<longleftrightarrow> IsSensitiveKey k \<and> has m k) \<and>
    (\<forall>k v. get m k = Some v \<longrightarrow> IsSensitiveKey k \<longrightarrow> v = ''${'' @ k @ ''}'')"
  have step: "?I (?f (m, s) e)" if "?I (m, s)" for m s :: "(string, string) gomap" and e
    using that by (auto simp: has_put_iff get_put split: option.split)
  have "?I (foldl ?f (m, s) env)" if "?I (m, s)" for m s :: "(string, string) gomap"
    using that
  proof (induction env arbitrary: m s)
    case (Cons e env)
    show ?case using Cons.IH step [OF Cons.prems, of e] by (cases "?f (m, s) e") simp
  qed simp
  from this [of "[]" "[]"] assms show ?thesis by (simp add: MapEnvironmentWithEnvFile_def has_def)
qed

lemma build_service_env:
  assumes "SanitizeSecrets opts"
  shows "wf_map (service_secrets True opts c) \<and> wf_map (sc_Environment (build_service True opts c)) \<and>
    (\<forall>k. has (service_secrets True opts c) k \<longleftrightarrow> IsSensitiveKey k \<and> has (sc_Environment (build_service True opts c)) k) \<and>
    (\<forall>k v. get (sc_Environment (build_service True opts c)) k = Some v \<longrightarrow> IsSensitiveKey k \<longrightarrow> v = ''${'' @ k @ ''}'')"
proof (cases "in_Config c")
  case None
  then have "sc_Environment (build_service True opts c) = []"
    by (simp add: build_service_def blank_service_def apply_host_config_def Let_def split: option.split)
  then show ?thesis using None by (simp add: service_secrets_def has_def)
next
  case (Some cfg)
  obtain m s where ms: "MapEnvironmentWithEnvFile (cc_Env cfg) True = (m, s)" by fastforce
  then have "sc_Environment (build_service True opts c) = m"
    using Some assms
    by (simp add: build_service_def apply_config_def apply_host_config_def map_env_def Let_def split: option.split)
  moreover have "service_secrets True opts c = s" using Some assms ms by (simp add: service_secrets_def map_env_def)
  ultimately show ?thesis using env_file_spec [OF ms] by simp
qed

section \<open>A batch\<close>

lemma next_free_unused: "next_free used orig k \<notin> set used"
proof (induction used orig k rule: next_free.induct)
  case (1 used orig k)
  then show ?case by (subst next_free.simps) (simp add: Let_def)
qed

lemma free_name_unused: "free_name used orig \<notin> set used"
  by (simp add: free_name_def next_free_unused)

lemma has_put_all: "has (put_all m new) k \<longleftrightarrow> has m k \<or> has new k"
  unfolding put_all_def by (induction new arbitrary: m) (auto simp: has_def get_put split: if_splits)

lemma wf_put_all: "wf_map m \<Longrightarrow> wf_map (put_all m new)"
  unfolding put_all_def by (induction new arbitrary: m) auto

lemma has_top_volumes:
  "v \<in> set vs \<Longrightarrow> vc_Type v = ''volume'' \<Longrightarrow> vc_Source v \<noteq> [] \<Longrightarrow> has (CollectTopLevelVolumes vs) (vc_Source v)"
proof -
  have "has (foldl (\<lambda>m v. if vc_Type v = ''volume'' \<and> vc_Source v \<noteq> [] then put (vc_Source v) [] m else m) m vs) k \<longleftrightarrow>
      has m k \<or> (\<exists>v \<in> set vs. vc_Type v = ''volume'' \<and> vc_Source v \<noteq> [] \<and> vc_Source v = k)"
    for m :: "(string, (string, string) gomap) gomap" and k
    by (induction vs arbitrary: m) (auto simp: has_put_iff)
  then show "v \<in> set vs \<Longrightarrow> vc_Type v = ''volume'' \<Longrightarrow> vc_Source v \<noteq> [] \<Longrightarrow> has (CollectTopLevelVolumes vs) (vc_Source v)"
    by (auto simp: CollectTopLevelVolumes_def)
qed

lemma has_top_networks: "has (CollectTopLevelNetworks ns) k \<longleftrightarrow> k \<in> fst ` set ns"
proof -
  have "has (foldl (\<lambda>m (n, a). put n [] m) m ns) k \<longleftrightarrow> has m k \<or> k \<in> fst ` set ns"
    for m :: "(string, (string, string) gomap) gomap"
    by (induction ns arbitrary: m) (auto simp: has_put_iff)
  from this [of "[]"] show ?thesis by (simp add: CollectTopLevelNetworks_def has_def)
qed

text \<open>What a service refers to is declared at the top level.\<close>

definition declared :: "compose_file \<Rightarrow> bool" where
  "declared cf \<longleftrightarrow> (\<forall>(n, s) \<in> set (cf_Services cf).
     (\<forall>v \<in> set (sc_Volumes s). vc_Type v = ''volume'' \<and> vc_Source v \<noteq> [] \<longrightarrow> has (cf_Volumes cf) (vc_Source v)) \<and>
     (\<forall>m \<in> fst ` set (sc_Networks s). has (cf_Networks cf) m))"

lemma run_batch_spec:
  "\<exists>names. distinct names \<and> length names = length cs \<and> set (b_Used (run_batch w opts (map Some cs))) = set names \<and>
     b_Services (run_batch w opts (map Some cs)) = zip names (map (build_service w opts) cs) \<and>
     declared (batch_file (run_batch w opts (map Some cs)))"
proof (induction cs rule: rev_induct)
  case Nil
  show ?case by (intro exI [of _ "[]"]) (simp add: run_batch_def empty_batch_def declared_def batch_file_def)
next
  case (snoc c cs)
  define b where "b = run_batch w opts (map Some cs)"
  define s where "s = build_service w opts c"
  define n where "n = free_name (b_Used b) (SanitizeContainerName (in_Name c))"
  obtain names where N: "distinct names" "length names = length cs" "set (b_Used b) = set names"
    "b_Services b = zip names (map (build_service w opts) cs)" "declared (batch_file b)"
    using snoc unfolding b_def by blast
  have new: "n \<notin> set names" using free_name_unused N(3) unfolding n_def by metis
  then have "\<not> has (b_Services b) n" using N(2,4) by (auto simp: has_iff set_zip)
  then have P: "put n s (b_Services b) = zip names (map (build_service w opts) cs) @ [(n, s)]"
    by (simp add: put_new N(4))
  define b' where "b' = run_batch w opts (map Some (cs @ [c]))"
  have r: "b' = batch_step w opts b (Some c)"
    by (simp add: b_def b'_def run_batch_def)
  have S: "b_Services b' = zip names (map (build_service w opts) cs) @ [(n, s)]"
    using P unfolding r by (simp add: batch_step_def Let_def n_def s_def)
  have V: "b_Volumes b' = put_all (b_Volumes b) (CollectTopLevelVolumes (sc_Volumes s))"
    "b_Networks b' = put_all (b_Networks b) (CollectTopLevelNetworks (sc_Networks s))"
    "b_Used b' = n # b_Used b"
    unfolding r by (simp_all add: batch_step_def Let_def n_def s_def)
  have "declared (batch_file b')"
    using N(5) unfolding declared_def batch_file_def
    by (auto simp: S V has_put_all has_top_volumes has_top_networks N(4) Ball_def split: prod.splits)
  then show ?case using N new S V unfolding b'_def [symmetric]
    by (intro exI [of _ "names @ [n]"]) (simp add: s_def)
qed

lemma wf_secrets: "wf_map (b_Secrets (run_batch True opts (map Some cs)))"
proof (induction cs rule: rev_induct)
  case (snoc c cs)
  then show ?case by (simp add: run_batch_def batch_step_def Let_def wf_put_all)
qed (simp add: run_batch_def empty_batch_def)

lemma has_secrets:
  assumes "SanitizeSecrets opts"
  shows "has (b_Secrets (run_batch True opts (map Some cs))) k \<longleftrightarrow>
    IsSensitiveKey k \<and> (\<exists>c \<in> set cs. has (sc_Environment (build_service True opts c)) k)"
proof (induction cs rule: rev_induct)
  case (snoc c cs)
  have "b_Secrets (run_batch True opts (map Some (cs @ [c]))) =
    put_all (b_Secrets (run_batch True opts (map Some cs))) (service_secrets True opts c)"
    by (simp add: run_batch_def batch_step_def Let_def)
  then show ?case using snoc build_service_env [OF assms, of c] by (auto simp: has_put_all)
qed (simp add: run_batch_def empty_batch_def has_def)

section \<open>What the pages answer\<close>

text \<open>The containers the page could inspect.\<close>

definition inspected :: "(string \<Rightarrow> inspect_error + docker_inspection) \<Rightarrow> string list \<Rightarrow> docker_inspection list" where
  "inspected inspect ids = List.map_filter (\<lambda>i. case inspect i of Inl e \<Rightarrow> None | Inr c \<Rightarrow> Some c) ids"

lemma inspect_all_spec:
  assumes "inspect_all inspect ids = (cs, ws)"
  shows "cs = inspected inspect ids \<and> length cs + length ws = length ids"
  using assms
  by (induction ids arbitrary: cs ws) (auto simp: inspected_def List.map_filter_simps split: prod.splits sum.splits)

definition env_text :: "string list \<Rightarrow> string" where
  "env_text keys = (if keys = [] then [] else env_header @ concat (map (\<lambda>k. k @ ''=CHANGE_ME'' @ [newline]) keys))"

lemma GenerateEnvFile_sorted: "wf_map m \<Longrightarrow> GenerateEnvFile m = env_text (sorted_list_of_set {k. has m k})"
proof -
  assume "wf_map m"
  then have "sort_keys (map fst m) = sorted_list_of_set (set (map fst m))" by (intro sort_keys_distinct) (simp add: wf_map_def)
  moreover have "{k. has m k} = set (map fst m)" by (auto simp: has_iff)
  ultimately show ?thesis by (cases m) (auto simp: GenerateEnvFile_def env_text_def)
qed

text \<open>The secret variables of a compose file.\<close>

definition secret_keys :: "compose_file \<Rightarrow> string set" where
  "secret_keys cf = {k. IsSensitiveKey k \<and> (\<exists>(n, s) \<in> set (cf_Services cf). has (sc_Environment s) k)}"

lemma HandleBatchExport_runs:
  assumes "HandleBatchExport inspect yaml zf meth fmt (Some q) = ExportJSON code r"
  shows "\<exists>cs. cs = inspected inspect (xq_ContainerIDs q) \<and> cs \<noteq> [] \<and>
    yaml (batch_file (run_batch True (options_of q) (map Some cs))) = Some (er_Content r) \<and>
    er_EnvContent r = GenerateEnvFile (b_Secrets (run_batch True (options_of q) (map Some cs))) \<and>
    code = (if length cs = length (xq_ContainerIDs q) then 200 else 206)"
proof -
  obtain cs ws where i: "inspect_all inspect (xq_ContainerIDs q) = (cs, ws)" by fastforce
  note I = inspect_all_spec [OF i]
  let ?b = "run_batch True (options_of q) (map Some cs)"
  from assms obtain t where t: "cs \<noteq> []" "yaml (batch_file ?b) = Some t"
    and r: "er_Content r = er_Content (with_env_file (b_Secrets ?b) (batch_result (\<lambda>m. []) ?b t
        (if xq_StackName q = [] then ''exported-stack'' else xq_StackName q)))"
      "er_EnvContent r = er_EnvContent (with_env_file (b_Secrets ?b) (batch_result (\<lambda>m. []) ?b t
        (if xq_StackName q = [] then ''exported-stack'' else xq_StackName q)))"
    and c: "code = (if ws \<noteq> [] then 206 else 200)"
    by (auto simp: HandleBatchExport_def batch_page_def i BatchExportToComposeWithEnv_def Let_def
        split: if_splits sum.splits option.splits prod.splits)
  have "er_Content r = t" "er_EnvContent r = GenerateEnvFile (b_Secrets ?b)"
    using r by (simp_all add: with_env_file_def batch_result_def GenerateEnvFile_def)
  moreover have "length cs = length (xq_ContainerIDs q) \<longleftrightarrow> ws = []" using I by (cases ws) auto
  ultimately show ?thesis using t c I by auto
qed

definition demo_database :: docker_inspection where
  "demo_database =
     \<lparr>in_Name = ''/db'',
      in_Config = Some \<lparr>cc_Image = ''postgres'', cc_Env = [''TZ=UTC'', ''POSTGRES_PASSWORD=hunter2''], cc_Labels = [], cc_User = [],
        cc_WorkingDir = [], cc_Entrypoint = [], cc_Cmd = [], cc_Healthcheck = None\<rparr>,
      in_HostConfig = None, in_Mounts = [\<lparr>mt_Type = ''volume'', mt_Name = ''data'', mt_Source = [], mt_Destination = ''/data'', mt_RW = True\<rparr>],
      in_Networks = None\<rparr>"

definition demo_inspect :: "string \<Rightarrow> inspect_error + docker_inspection" where
  "demo_inspect i = (if i = ''a'' \<or> i = ''b'' then Inr demo_database else Inl (ContainerNotFound ''no such container''))"

definition demo_yaml :: yaml where
  "demo_yaml cf = Some (Join '','' (map fst (cf_Services cf)))"

definition demo_batch_request :: batch_request where
  "demo_batch_request =
     \<lparr>xq_SanitizeSecrets = None, xq_IncludeVolumes = None, xq_IncludeNetworks = None, xq_ContainerIDs = [''a'', ''x'', ''b''],
      xq_StackName = []\<rparr>"

lemma demo_export:
  "\<exists>r. HandleBatchExport demo_inspect demo_yaml (\<lambda>files. None) ''POST'' [] (Some demo_batch_request) = ExportJSON 206 r \<and>
     er_Content r = ''db,db-1'' \<and> er_EnvContent r = env_text [''POSTGRES_PASSWORD'']"
proof -
  have "case HandleBatchExport demo_inspect demo_yaml (\<lambda>files. None) ''POST'' [] (Some demo_batch_request) of
      ExportJSON c r \<Rightarrow> c = 206 \<and> er_Content r = ''db,db-1'' \<and> er_EnvContent r = env_text [''POSTGRES_PASSWORD''] | _ \<Rightarrow> False"
    by code_simp
  then show ?thesis by (auto split: export_answer.splits)
qed

text \<open>C32: unless the request asks for them, no secret is in the answer to a batch export: every variable with a sensitive name is
  only a reference to the file beside the compose file, and that file has a line for each of them, sorted, and no other.\<close>

theorem exported_secrets_redacted:
  assumes "HandleBatchExport inspect yaml zf meth fmt (Some q) = ExportJSON code r" "xq_SanitizeSecrets q \<noteq> Some False"
  shows "\<exists>cf. yaml cf = Some (er_Content r) \<and>
    (\<forall>(n, s) \<in> set (cf_Services cf). \<forall>(k, v) \<in> set (sc_Environment s). IsSensitiveKey k \<longrightarrow> v = ''${'' @ k @ ''}'') \<and>
    er_EnvContent r = env_text (sorted_list_of_set (secret_keys cf))"
proof -
  from HandleBatchExport_runs [OF assms(1)] obtain cs where
    y: "yaml (batch_file (run_batch True (options_of q) (map Some cs))) = Some (er_Content r)"
    "er_EnvContent r = GenerateEnvFile (b_Secrets (run_batch True (options_of q) (map Some cs)))" by blast
  have S: "SanitizeSecrets (options_of q)" using assms(2) by (auto simp: options_of_def split: option.split)
  from run_batch_spec [where w = True and opts = "options_of q" and cs = cs] obtain names where
    N: "length names = length cs"
    "b_Services (run_batch True (options_of q) (map Some cs)) = zip names (map (build_service True (options_of q)) cs)" by blast
  have svc: "s \<in> build_service True (options_of q) ` set cs \<longleftrightarrow>
    (\<exists>n. (n, s) \<in> set (cf_Services (batch_file (run_batch True (options_of q) (map Some cs)))))" for s
  proof -
    have "snd ` set (zip names (map (build_service True (options_of q)) cs)) = build_service True (options_of q) ` set cs"
      using N(1) by (metis length_map map_snd_zip set_map)
    then show ?thesis unfolding batch_file_def compose_file.simps N(2) by force
  qed
  have "secret_keys (batch_file (run_batch True (options_of q) (map Some cs))) =
    {k. has (b_Secrets (run_batch True (options_of q) (map Some cs))) k}"
  proof -
    have "(\<exists>(n, s) \<in> set (cf_Services (batch_file (run_batch True (options_of q) (map Some cs)))). has (sc_Environment s) k) \<longleftrightarrow>
      (\<exists>s \<in> build_service True (options_of q) ` set cs. has (sc_Environment s) k)" for k
      unfolding Bex_def svc by auto
    then show ?thesis by (simp add: secret_keys_def has_secrets [OF S])
  qed
  moreover have "v = ''${'' @ k @ ''}''"
    if "(n, s) \<in> set (cf_Services (batch_file (run_batch True (options_of q) (map Some cs))))" "(k, v) \<in> set (sc_Environment s)"
      "IsSensitiveKey k" for n s k v
  proof -
    from svc that(1) obtain c where "s = build_service True (options_of q) c" by blast
    with build_service_env [OF S, of c] that(2,3) show ?thesis by (metis get_iff_in)
  qed
  ultimately show ?thesis
    using y GenerateEnvFile_sorted [OF wf_secrets] by (intro exI conjI) auto
qed

lemma exported_secrets_redacted_witness:
  "\<exists>r cf. HandleBatchExport demo_inspect demo_yaml (\<lambda>files. None) ''POST'' [] (Some demo_batch_request) = ExportJSON 206 r \<and>
     demo_yaml cf = Some ''db,db-1'' \<and> env_text [''POSTGRES_PASSWORD''] = env_text (sorted_list_of_set (secret_keys cf)) \<and>
     (\<forall>(n, s) \<in> set (cf_Services cf). \<forall>(k, v) \<in> set (sc_Environment s). IsSensitiveKey k \<longrightarrow> v = ''${'' @ k @ ''}'')"
proof -
  from demo_export obtain r where
    r: "HandleBatchExport demo_inspect demo_yaml (\<lambda>files. None) ''POST'' [] (Some demo_batch_request) = ExportJSON 206 r"
    "er_Content r = ''db,db-1''" "er_EnvContent r = env_text [''POSTGRES_PASSWORD'']" by blast
  have "xq_SanitizeSecrets demo_batch_request \<noteq> Some False" by (simp add: demo_batch_request_def)
  from exported_secrets_redacted [OF r(1) this] r show ?thesis by auto
qed

text \<open>the answer to a batch export has exactly one service for every container that could be inspected, in order and under
  distinct names, also when containers have the same name; every named volume and network a service uses is declared;
  and the status tells whether a container is missing.\<close>

theorem batch_export_complete:
  assumes "HandleBatchExport inspect yaml zf meth fmt (Some q) = ExportJSON code r"
  shows "\<exists>cf names. yaml cf = Some (er_Content r) \<and> distinct names \<and>
    length names = length (inspected inspect (xq_ContainerIDs q)) \<and>
    cf_Services cf = zip names (map (build_service True (options_of q)) (inspected inspect (xq_ContainerIDs q))) \<and>
    declared cf \<and>
    code = (if length names = length (xq_ContainerIDs q) then 200 else 206)"
proof -
  from HandleBatchExport_runs [OF assms] obtain cs where
    y: "cs = inspected inspect (xq_ContainerIDs q)"
    "yaml (batch_file (run_batch True (options_of q) (map Some cs))) = Some (er_Content r)"
    "code = (if length cs = length (xq_ContainerIDs q) then 200 else 206)" by blast
  from run_batch_spec [where w = True and opts = "options_of q" and cs = cs] obtain names where
    N: "distinct names" "length names = length cs"
    "b_Services (run_batch True (options_of q) (map Some cs)) = zip names (map (build_service True (options_of q)) cs)"
    "declared (batch_file (run_batch True (options_of q) (map Some cs)))" by blast
  show ?thesis
    using y N by (intro exI [of _ "batch_file (run_batch True (options_of q) (map Some cs))"] exI [of _ names])
      (simp add: batch_file_def)
qed

lemma batch_export_complete_witness:
  "\<exists>cf names. demo_yaml cf = Some ''db,db-1'' \<and> distinct names \<and> length names = 2 \<and> declared cf \<and>
     cf_Services cf = zip names [build_service True (options_of demo_batch_request) demo_database,
       build_service True (options_of demo_batch_request) demo_database]"
proof -
  from demo_export obtain r where
    r: "HandleBatchExport demo_inspect demo_yaml (\<lambda>files. None) ''POST'' [] (Some demo_batch_request) = ExportJSON 206 r"
    "er_Content r = ''db,db-1''" by blast
  have "inspected demo_inspect (xq_ContainerIDs demo_batch_request) = [demo_database, demo_database]"
    by (simp add: inspected_def demo_inspect_def demo_batch_request_def List.map_filter_simps)
  with batch_export_complete [OF r(1)] r(2) obtain cf names where
    "demo_yaml cf = Some ''db,db-1''" "distinct names" "length names = length [demo_database, demo_database]" "declared cf"
    "cf_Services cf = zip names (map (build_service True (options_of demo_batch_request)) [demo_database, demo_database])"
    by metis
  then show ?thesis by (intro exI [of _ cf] exI [of _ names]) simp
qed

text \<open>Two containers with the same variable get one line in the file for their different secrets.\<close>

lemma secrets_of_containers_merged:
  "b_Secrets (run_batch True (options_of demo_batch_request) (map Some [demo_database,
     demo_database\<lparr>in_Config := map_option (\<lambda>c. c\<lparr>cc_Env := [''POSTGRES_PASSWORD=other'']\<rparr>) (in_Config demo_database)\<rparr>])) =
   [(''POSTGRES_PASSWORD'', ''other'')]"
  by code_simp

text \<open>As an archive the answer does not tell that a container is missing.\<close>

lemma archive_hides_failures:
  "HandleBatchExport demo_inspect demo_yaml (\<lambda>files. Some (concat (map fst files))) ''POST'' ''zip'' (Some demo_batch_request) =
   ExportZip ''exported-stack.zip'' ''exported-stack-compose.yml.env.example''"
  by code_simp

end
