(* ===== verification/Certs.thy ===== *)
theory Certs
  imports Store Net
begin

text \<open>
  The certificate manager (\<open>internal/certmanager\<close>), its tables in \<open>internal/storage/storage.go\<close> and its pages
  (\<open>cmd/nekzus/cert_handlers.go\<close>).  The X.509 and TLS libraries are arguments: how a pair of PEM texts is read, what a
  DER certificate says, and how a key and a certificate are made.  The clock stands still during one call, and \<open>cs i\<close> is
  the connection of the \<open>i\<close>th statement of a call.
\<close>

section \<open>Certificates\<close>

text \<open>A TLS certificate is its chain of DER certificates, the leaf first.\<close>

type_synonym tls_cert = "string list"

text \<open>What the library reads in a DER certificate; the pin is the hash of the public key, if it can be encoded.\<close>

record x509_info =
  xi_IssuerCN :: string
  xi_SubjectCN :: string
  xi_NotBefore :: gotime
  xi_NotAfter :: gotime
  xi_DNSNames :: "string list"
  xi_Pin :: "string option"

record x509_lib =
  xl_KeyPair :: "string \<Rightarrow> string \<Rightarrow> tls_cert option"
  xl_Parse :: "string \<Rightarrow> x509_info option"

definition leaf :: "x509_lib \<Rightarrow> tls_cert \<Rightarrow> x509_info option" where
  "leaf lib chain = (case chain of [] \<Rightarrow> None | d # ds \<Rightarrow> xl_Parse lib d)"

record certificate =
  ct_Domain :: string
  ct_TLSCert :: tls_cert
  ct_CertPEM :: string
  ct_KeyPEM :: string
  ct_Issuer :: string
  ct_NotBefore :: gotime
  ct_NotAfter :: gotime
  ct_SANs :: "string list"
  ct_Fingerprint :: string

definition cert_IsExpired :: "gotime \<Rightarrow> certificate \<Rightarrow> bool" where
  "cert_IsExpired now c \<longleftrightarrow> After now (ct_NotAfter c)"

record generate_options =
  go_ValidityDays :: int
  go_KeyType :: string
  go_KeySize :: int

definition generate_SetDefaults :: "generate_options \<Rightarrow> generate_options" where
  "generate_SetDefaults opts =
     (let o1 = (if go_ValidityDays opts = 0 then opts\<lparr>go_ValidityDays := 365\<rparr> else opts);
          o2 = (if go_KeyType o1 = [] then o1\<lparr>go_KeyType := ''ecdsa''\<rparr> else o1)
      in if go_KeySize o2 = 0 then o2\<lparr>go_KeySize := (if go_KeyType o2 = ''ecdsa'' then 256 else 2048)\<rparr> else o2)"

record generate_request =
  gr_Domains :: "string list"
  gr_Provider :: string
  gr_Options :: generate_options
  gr_RequestedBy :: string

definition no_options :: generate_options where
  "no_options = \<lparr>go_ValidityDays = 0, go_KeyType = [], go_KeySize = 0\<rparr>"

section \<open>The tables\<close>

text \<open>A row by its domain; the number of the row and the columns on renewal attempts are never used.\<close>

record cert_row =
  cw_CertPEM :: string
  cw_KeyPEM :: string
  cw_Issuer :: string
  cw_NotBefore :: gotime
  cw_NotAfter :: gotime
  cw_SANs :: "string list"
  cw_Fingerprint :: string
  cw_CreatedAt :: gotime
  cw_UpdatedAt :: gotime

record cert_history =
  ch_Domain :: string
  ch_Action :: string
  ch_Issuer :: string
  ch_Fingerprint :: string
  ch_CreatedAt :: gotime
  ch_CreatedBy :: string

record cert_db =
  cd_certs :: "(string, cert_row) gomap"
  cd_history :: "cert_history list"

definition StoreCertificate :: "conn \<Rightarrow> cert_db \<Rightarrow> string \<Rightarrow> cert_row \<Rightarrow> db_error + cert_db" where
  "StoreCertificate c db domain row =
     (if \<not> cn_ok c then Inl DbFault
      else (let created = (case get (cd_certs db) domain of None \<Rightarrow> cn_now c | Some old \<Rightarrow> cw_CreatedAt old)
            in Inr (db\<lparr>cd_certs := put domain (row\<lparr>cw_CreatedAt := created, cw_UpdatedAt := cn_now c\<rparr>) (cd_certs db)\<rparr>)))"

definition db_GetCertificate :: "conn \<Rightarrow> cert_db \<Rightarrow> string \<Rightarrow> db_error + cert_row option" where
  "db_GetCertificate c db domain = (if \<not> cn_ok c then Inl DbFault else Inr (get (cd_certs db) domain))"

definition ListCertificates :: "conn \<Rightarrow> cert_db \<Rightarrow> db_error + (string \<times> cert_row) list" where
  "ListCertificates c db = (if \<not> cn_ok c then Inl DbFault else Inr (sort_key fst (cd_certs db)))"

definition db_DeleteCertificate :: "conn \<Rightarrow> cert_db \<Rightarrow> string \<Rightarrow> db_error + cert_db" where
  "db_DeleteCertificate c db domain =
     (if \<not> cn_ok c then Inl DbFault
      else if \<not> has (cd_certs db) domain then Inl NotFound
      else Inr (db\<lparr>cd_certs := del domain (cd_certs db)\<rparr>))"

definition AddCertificateHistory :: "conn \<Rightarrow> cert_db \<Rightarrow> cert_history \<Rightarrow> db_error + cert_db" where
  "AddCertificateHistory c db h = (if \<not> cn_ok c then Inl DbFault else Inr (db\<lparr>cd_history := cd_history db @ [h]\<rparr>))"

definition ToCertificate :: "x509_lib \<Rightarrow> string \<Rightarrow> cert_row \<Rightarrow> certificate option" where
  "ToCertificate lib domain r =
     (case xl_KeyPair lib (cw_CertPEM r) (cw_KeyPEM r) of
        None \<Rightarrow> None
      | Some chain \<Rightarrow>
          map_option (\<lambda>x. \<lparr>ct_Domain = domain, ct_TLSCert = chain, ct_CertPEM = cw_CertPEM r, ct_KeyPEM = cw_KeyPEM r,
            ct_Issuer = cw_Issuer r, ct_NotBefore = cw_NotBefore r, ct_NotAfter = cw_NotAfter r,
            ct_SANs = xi_DNSNames x, ct_Fingerprint = cw_Fingerprint r\<rparr>) (leaf lib chain))"

definition toStoredCertificate :: "gotime \<Rightarrow> certificate \<Rightarrow> cert_row" where
  "toStoredCertificate now c =
     \<lparr>cw_CertPEM = ct_CertPEM c, cw_KeyPEM = ct_KeyPEM c, cw_Issuer = ct_Issuer c, cw_NotBefore = ct_NotBefore c,
      cw_NotAfter = ct_NotAfter c, cw_SANs = ct_SANs c, cw_Fingerprint = ct_Fingerprint c, cw_CreatedAt = now, cw_UpdatedAt = now\<rparr>"

section \<open>The self-signed provider\<close>

record cert_template =
  tp_CommonName :: string
  tp_NotBefore :: gotime
  tp_NotAfter :: gotime
  tp_IPAddresses :: "string list"
  tp_DNSNames :: "string list"

text \<open>How the library makes a key of a type and size and signs a template with it; the PEM texts of certificate and key.\<close>

type_synonym issuance = "string \<Rightarrow> int \<Rightarrow> cert_template \<Rightarrow> (string \<times> string) option"

definition self_template :: "gotime \<Rightarrow> string list \<Rightarrow> generate_options \<Rightarrow> cert_template" where
  "self_template now domains opts =
     \<lparr>tp_CommonName = hd domains, tp_NotBefore = now, tp_NotAfter = now + wrap64 (go_ValidityDays opts * 24 * hour),
      tp_IPAddresses = filter (\<lambda>d. ParseIP d \<noteq> None) domains, tp_DNSNames = filter (\<lambda>d. ParseIP d = None) domains\<rparr>"

definition self_Generate :: "x509_lib \<Rightarrow> issuance \<Rightarrow> gotime \<Rightarrow> string list \<Rightarrow> generate_options \<Rightarrow> certificate option" where
  "self_Generate lib issue now domains opts0 =
     (if length domains = 0 then None
      else (let opts = generate_SetDefaults opts0 in
        case issue (if go_KeyType opts = ''rsa'' then ''rsa'' else ''ecdsa'') (go_KeySize opts) (self_template now domains opts) of
          None \<Rightarrow> None
        | Some (certPEM, keyPEM) \<Rightarrow>
            (case xl_KeyPair lib certPEM keyPEM of
               None \<Rightarrow> None
             | Some chain \<Rightarrow>
                 (case leaf lib chain of
                    None \<Rightarrow> None
                  | Some x \<Rightarrow>
                      map_option (\<lambda>pin. \<lparr>ct_Domain = hd domains, ct_TLSCert = chain, ct_CertPEM = certPEM, ct_KeyPEM = keyPEM,
                        ct_Issuer = ''self-signed'', ct_NotBefore = xi_NotBefore x, ct_NotAfter = xi_NotAfter x,
                        ct_SANs = domains, ct_Fingerprint = pin\<rparr>) (xi_Pin x)))))"

section \<open>The manager\<close>

text \<open>The source has one implementation of the interface \<open>Provider\<close>.\<close>

datatype provider = SelfSignedProvider

fun provider_Name :: "provider \<Rightarrow> string" where
  "provider_Name SelfSignedProvider = ''self-signed''"

fun provider_Validate :: "provider \<Rightarrow> string list \<Rightarrow> bool" where
  "provider_Validate SelfSignedProvider domains \<longleftrightarrow> length domains \<noteq> 0"

fun provider_Generate :: "provider \<Rightarrow> x509_lib \<Rightarrow> issuance \<Rightarrow> gotime \<Rightarrow> string list \<Rightarrow> generate_options \<Rightarrow> certificate option" where
  "provider_Generate SelfSignedProvider lib issue now domains opts = self_Generate lib issue now domains opts"

record cert_manager =
  cm_certs :: "(string, certificate) gomap"
  cm_storage :: "cert_db option"
  cm_providers :: "(string, provider) gomap"
  cm_defaultProvider :: string
  cm_fallbackCert :: "tls_cert option"

definition NewCertManager :: "string \<Rightarrow> cert_db option \<Rightarrow> cert_manager" where
  "NewCertManager dflt storage =
     \<lparr>cm_certs = [], cm_storage = storage, cm_providers = [], cm_defaultProvider = dflt, cm_fallbackCert = None\<rparr>"

definition RegisterProvider :: "provider \<Rightarrow> cert_manager \<Rightarrow> cert_manager" where
  "RegisterProvider p m = m\<lparr>cm_providers := put (provider_Name p) p (cm_providers m)\<rparr>"

definition SetFallbackCertificate :: "tls_cert \<Rightarrow> cert_manager \<Rightarrow> cert_manager" where
  "SetFallbackCertificate chain m = m\<lparr>cm_fallbackCert := Some chain\<rparr>"

text \<open>What a look-up of one row in the storage gives: \<open>None\<close> without storage, on a fault and when there is no row.\<close>

definition stored_row :: "conn \<Rightarrow> cert_manager \<Rightarrow> string \<Rightarrow> cert_row option" where
  "stored_row c m domain =
     (case cm_storage m of
        None \<Rightarrow> None
      | Some db \<Rightarrow> (case db_GetCertificate c db domain of Inl e \<Rightarrow> None | Inr r \<Rightarrow> r))"

definition stored_cert :: "x509_lib \<Rightarrow> conn \<Rightarrow> cert_manager \<Rightarrow> string \<Rightarrow> certificate option" where
  "stored_cert lib c m domain = Option.bind (stored_row c m domain) (ToCertificate lib domain)"

definition stored_rows :: "conn \<Rightarrow> cert_manager \<Rightarrow> (string \<times> cert_row) list" where
  "stored_rows c m =
     (case cm_storage m of
        None \<Rightarrow> []
      | Some db \<Rightarrow> (case ListCertificates c db of Inl e \<Rightarrow> [] | Inr rs \<Rightarrow> rs))"

definition HasAnyCertificate :: "conn \<Rightarrow> cert_manager \<Rightarrow> bool" where
  "HasAnyCertificate c m \<longleftrightarrow> cm_fallbackCert m \<noteq> None \<or> length (cm_certs m) > 0 \<or> length (stored_rows c m) > 0"

text \<open>The certificates in memory come in the order of a walk over the map.\<close>

type_synonym cert_walk = "(string, certificate) gomap \<Rightarrow> (string, certificate) gomap"

definition preferredDomains :: "string list" where "preferredDomains = [''localhost'', ''localhost.local'']"

definition valid_at :: "gotime \<Rightarrow> certificate option \<Rightarrow> certificate option" where
  "valid_at now c = (case c of None \<Rightarrow> None | Some c \<Rightarrow> if cert_IsExpired now c then None else Some c)"

fun first_some :: "'a option list \<Rightarrow> 'a option" where
  "first_some [] = None"
| "first_some (None # xs) = first_some xs"
| "first_some (Some x # xs) = Some x"

definition GetFirstAvailableCertificate ::
  "x509_lib \<Rightarrow> cert_walk \<Rightarrow> (nat \<Rightarrow> conn) \<Rightarrow> gotime \<Rightarrow> cert_manager \<Rightarrow> tls_cert option" where
  "GetFirstAvailableCertificate lib order cs now m =
     (case first_some (
         map (\<lambda>d. valid_at now (get (cm_certs m) d)) preferredDomains @
         map (\<lambda>(d, c). valid_at now (Some c)) (order (cm_certs m)) @
         [valid_at now (stored_cert lib (cs 0) m ''localhost''), valid_at now (stored_cert lib (cs 1) m ''localhost.local'')] @
         map (\<lambda>(d, r). valid_at now (ToCertificate lib d r)) (stored_rows (cs 2) m)) of
        Some c \<Rightarrow> Some (ct_TLSCert c)
      | None \<Rightarrow> cm_fallbackCert m)"

datatype cert_error =
    DomainRequired
  | ProviderNotFound
  | DomainsRefused
  | GenerationFailed
  | CertNotFound
  | CertUnreadable
  | ReplacementFailed cert_error
  | PEMRequired
  | KeyRequired
  | InvalidKeyPair
  | AlreadyExpired
  | DeleteFailed db_error
  | FingerprintPanic

text \<open>A statement whose failure is only logged.\<close>

definition cert_logged :: "(cert_db \<Rightarrow> db_error + cert_db) \<Rightarrow> cert_manager \<Rightarrow> cert_manager" where
  "cert_logged f m =
     (case cm_storage m of
        None \<Rightarrow> m
      | Some db \<Rightarrow> (case f db of Inl e \<Rightarrow> m | Inr db' \<Rightarrow> m\<lparr>cm_storage := Some db'\<rparr>))"

definition history_of :: "string \<Rightarrow> string \<Rightarrow> certificate \<Rightarrow> gotime \<Rightarrow> string \<Rightarrow> cert_history" where
  "history_of domain action c now by' =
     \<lparr>ch_Domain = domain, ch_Action = action, ch_Issuer = ct_Issuer c, ch_Fingerprint = ct_Fingerprint c,
      ch_CreatedAt = now, ch_CreatedBy = by'\<rparr>"

text \<open>Keep a new certificate in memory, and in the storage if it works, with an entry of the history.\<close>

definition keep_certificate :: "(nat \<Rightarrow> conn) \<Rightarrow> gotime \<Rightarrow> certificate \<Rightarrow> string \<Rightarrow> string \<Rightarrow> cert_manager \<Rightarrow> cert_manager" where
  "keep_certificate cs now c action by' m =
     cert_logged (\<lambda>db. AddCertificateHistory (cs 1) db (history_of (ct_Domain c) action c now by'))
       (cert_logged (\<lambda>db. StoreCertificate (cs 0) db (ct_Domain c) (toStoredCertificate now c))
          (m\<lparr>cm_certs := put (ct_Domain c) c (cm_certs m)\<rparr>))"

definition Generate ::
  "x509_lib \<Rightarrow> issuance \<Rightarrow> (nat \<Rightarrow> conn) \<Rightarrow> gotime \<Rightarrow> generate_request \<Rightarrow> cert_manager \<Rightarrow>
   cert_manager \<times> (cert_error + certificate)" where
  "Generate lib issue cs now req m =
     (if length (gr_Domains req) = 0 then (m, Inl DomainRequired)
      else (let name = (if gr_Provider req = [] then cm_defaultProvider m else gr_Provider req) in
        case get (cm_providers m) name of
          None \<Rightarrow> (m, Inl ProviderNotFound)
        | Some p \<Rightarrow>
            if \<not> provider_Validate p (gr_Domains req) then (m, Inl DomainsRefused)
            else (case provider_Generate p lib issue now (gr_Domains req) (generate_SetDefaults (gr_Options req)) of
                    None \<Rightarrow> (m, Inl GenerationFailed)
                  | Some c \<Rightarrow> (keep_certificate cs now c ''generated'' (gr_RequestedBy req) m, Inr c))))"

text \<open>Called by the TLS library with the name the client asks for.\<close>

definition GetCertificate ::
  "x509_lib \<Rightarrow> cert_walk \<Rightarrow> (nat \<Rightarrow> conn) \<Rightarrow> gotime \<Rightarrow> string \<Rightarrow> cert_manager \<Rightarrow> cert_manager \<times> tls_cert option" where
  "GetCertificate lib order cs now domain m =
     (case valid_at now (get (cm_certs m) domain) of
        Some c \<Rightarrow> (m, Some (ct_TLSCert c))
      | None \<Rightarrow>
          (case valid_at now (stored_cert lib (cs 0) m domain) of
             Some c \<Rightarrow> (m\<lparr>cm_certs := put domain c (cm_certs m)\<rparr>, Some (ct_TLSCert c))
           | None \<Rightarrow>
               (case cm_fallbackCert m of
                  Some f \<Rightarrow> (m, Some f)
                | None \<Rightarrow> (m, GetFirstAvailableCertificate lib order (\<lambda>i. cs (Suc i)) now m))))"

definition cert_Get :: "string \<Rightarrow> cert_manager \<Rightarrow> certificate option" where
  "cert_Get domain m = get (cm_certs m) domain"

definition cert_List :: "cert_walk \<Rightarrow> cert_manager \<Rightarrow> certificate list" where
  "cert_List order m = map snd (order (cm_certs m))"

definition DeleteCert :: "(nat \<Rightarrow> conn) \<Rightarrow> gotime \<Rightarrow> string \<Rightarrow> cert_manager \<Rightarrow> cert_manager \<times> cert_error option" where
  "DeleteCert cs now domain m =
     (let m1 = m\<lparr>cm_certs := del domain (cm_certs m)\<rparr> in
      case cm_storage m of
        None \<Rightarrow> (m1, None)
      | Some db \<Rightarrow>
          (case db_DeleteCertificate (cs 0) db domain of
             Inl e \<Rightarrow> (m1, Some (DeleteFailed e))
           | Inr db' \<Rightarrow>
               (cert_logged (\<lambda>db. AddCertificateHistory (cs 1) db
                    \<lparr>ch_Domain = domain, ch_Action = ''revoked'', ch_Issuer = [], ch_Fingerprint = [], ch_CreatedAt = now,
                     ch_CreatedBy = ''system''\<rparr>)
                  (m1\<lparr>cm_storage := Some db'\<rparr>), None)))"

definition LoadFromStorage :: "x509_lib \<Rightarrow> conn \<Rightarrow> gotime \<Rightarrow> cert_manager \<Rightarrow> cert_manager" where
  "LoadFromStorage lib c now m =
     m\<lparr>cm_certs := foldl (\<lambda>certs (d, r). case valid_at now (ToCertificate lib d r) of None \<Rightarrow> certs | Some c \<Rightarrow> put d c certs)
         (cm_certs m) (stored_rows c m)\<rparr>"

definition chain_pin :: "x509_lib \<Rightarrow> tls_cert \<Rightarrow> string" where
  "chain_pin lib chain = (case leaf lib chain of None \<Rightarrow> [] | Some x \<Rightarrow> (case xi_Pin x of None \<Rightarrow> [] | Some p \<Rightarrow> p))"

definition add_pin :: "string list \<Rightarrow> string \<Rightarrow> string list" where
  "add_pin pins p = (if p \<noteq> [] \<and> p \<notin> set pins then pins @ [p] else pins)"

fun managed_pins :: "x509_lib \<Rightarrow> string list \<Rightarrow> certificate list \<Rightarrow> string list" where
  "managed_pins lib pins [] = pins"
| "managed_pins lib pins (c # cs) =
     (let pins' = add_pin pins (chain_pin lib (ct_TLSCert c)) in if length pins' \<ge> 2 then pins' else managed_pins lib pins' cs)"

definition GetSPKIPins :: "x509_lib \<Rightarrow> cert_walk \<Rightarrow> cert_manager \<Rightarrow> string list" where
  "GetSPKIPins lib order m =
     (let pins = managed_pins lib [] (cert_List order m) in
      if length pins \<ge> 2 then pins
      else case cm_fallbackCert m of None \<Rightarrow> pins | Some f \<Rightarrow> add_pin pins (chain_pin lib f))"

record rotation =
  ro_OldCert :: "certificate option"
  ro_NewCert :: certificate
  ro_OldSPKI :: string
  ro_NewSPKI :: string
  ro_SPKIChanged :: bool

text \<open>The first statement is the look-up, two are those of the generation, the last is the history.  The log line takes the first
  20 characters of both fingerprints.\<close>

definition renewal_source :: "x509_lib \<Rightarrow> conn \<Rightarrow> string \<Rightarrow> cert_manager \<Rightarrow> cert_error + certificate" where
  "renewal_source lib c domain m =
     (case get (cm_certs m) domain of
        Some c \<Rightarrow> Inr c
      | None \<Rightarrow> (case stored_row c m domain of
                  None \<Rightarrow> Inl CertNotFound
                | Some r \<Rightarrow> (case ToCertificate lib domain r of None \<Rightarrow> Inl CertUnreadable | Some c \<Rightarrow> Inr c)))"

definition Renew ::
  "x509_lib \<Rightarrow> issuance \<Rightarrow> (nat \<Rightarrow> conn) \<Rightarrow> gotime \<Rightarrow> string \<Rightarrow> string \<Rightarrow> cert_manager \<Rightarrow>
   cert_manager \<times> (cert_error + rotation)" where
  "Renew lib issue cs now domain by' m =
     (if domain = [] then (m, Inl DomainRequired)
      else case renewal_source lib (cs 0) domain m of
        Inl e \<Rightarrow> (m, Inl e)
      | Inr old \<Rightarrow>
          (case Generate lib issue (\<lambda>i. cs (Suc i)) now
              \<lparr>gr_Domains = ct_SANs old, gr_Provider = cm_defaultProvider m, gr_Options = no_options, gr_RequestedBy = by'\<rparr> m of
             (m1, Inl e) \<Rightarrow> (m1, Inl (ReplacementFailed e))
           | (m1, Inr new) \<Rightarrow>
               (let m2 = cert_logged (\<lambda>db. AddCertificateHistory (cs 3) db (history_of domain ''renewed'' new now by')) m1 in
                if length (ct_Fingerprint old) < 20 \<or> length (ct_Fingerprint new) < 20 then (m2, Inl FingerprintPanic)
                else (m2, Inr \<lparr>ro_OldCert = Some old, ro_NewCert = new, ro_OldSPKI = ct_Fingerprint old,
                               ro_NewSPKI = ct_Fingerprint new, ro_SPKIChanged = (ct_Fingerprint old \<noteq> ct_Fingerprint new)\<rparr>))))"

record replace_request =
  rp_Domain :: string
  rp_CertificatePEM :: string
  rp_PrivateKeyPEM :: string
  rp_RequestedBy :: string

definition Replace ::
  "x509_lib \<Rightarrow> (nat \<Rightarrow> conn) \<Rightarrow> gotime \<Rightarrow> replace_request \<Rightarrow> cert_manager \<Rightarrow> cert_manager \<times> (cert_error + rotation)" where
  "Replace lib cs now req m =
     (if rp_Domain req = [] then (m, Inl DomainRequired)
      else if length (rp_CertificatePEM req) = 0 then (m, Inl PEMRequired)
      else if length (rp_PrivateKeyPEM req) = 0 then (m, Inl KeyRequired)
      else case xl_KeyPair lib (rp_CertificatePEM req) (rp_PrivateKeyPEM req) of
        None \<Rightarrow> (m, Inl InvalidKeyPair)
      | Some chain \<Rightarrow>
          (case leaf lib chain of
             None \<Rightarrow> (m, Inl CertUnreadable)
           | Some x \<Rightarrow>
               if After now (xi_NotAfter x) then (m, Inl AlreadyExpired)
               else (let newSPKI = (case xi_Pin x of None \<Rightarrow> [] | Some p \<Rightarrow> p);
                         old = (case get (cm_certs m) (rp_Domain req) of
                                  Some c \<Rightarrow> Some c
                                | None \<Rightarrow> stored_cert lib (cs 0) m (rp_Domain req));
                         oldSPKI = (case old of None \<Rightarrow> [] | Some c \<Rightarrow> ct_Fingerprint c);
                         new = \<lparr>ct_Domain = rp_Domain req, ct_TLSCert = chain, ct_CertPEM = rp_CertificatePEM req,
                                ct_KeyPEM = rp_PrivateKeyPEM req, ct_Issuer = xi_IssuerCN x, ct_NotBefore = xi_NotBefore x,
                                ct_NotAfter = xi_NotAfter x, ct_SANs = xi_DNSNames x, ct_Fingerprint = newSPKI\<rparr>
                     in (keep_certificate (\<lambda>i. cs (Suc i)) now new (if old = None then ''imported'' else ''replaced'')
                           (rp_RequestedBy req) m,
                         Inr \<lparr>ro_OldCert = old, ro_NewCert = new, ro_OldSPKI = oldSPKI, ro_NewSPKI = newSPKI,
                              ro_SPKIChanged = (oldSPKI \<noteq> [] \<and> oldSPKI \<noteq> newSPKI)\<rparr>))))"

definition IsActiveCertificate ::
  "x509_lib \<Rightarrow> cert_walk \<Rightarrow> (nat \<Rightarrow> conn) \<Rightarrow> gotime \<Rightarrow> string \<Rightarrow> cert_manager \<Rightarrow> bool" where
  "IsActiveCertificate lib order cs now domain m =
     (case GetFirstAvailableCertificate lib order cs now m of
        None \<Rightarrow> False
      | Some chain \<Rightarrow>
          (case leaf lib chain of None \<Rightarrow> False | Some x \<Rightarrow> xi_SubjectCN x = domain \<or> domain \<in> set (xi_DNSNames x)))"

section \<open>The validator of domains\<close>

record domain_validator =
  vd_allowPublicDomains :: bool
  vd_allowedDomains :: "string list"

definition alnum :: "char \<Rightarrow> bool" where
  "alnum c \<longleftrightarrow> (CHR ''a'' \<le> c \<and> c \<le> CHR ''z'') \<or> (CHR ''A'' \<le> c \<and> c \<le> CHR ''Z'') \<or> (CHR ''0'' \<le> c \<and> c \<le> CHR ''9'')"

text \<open>The expression for a label: letters and digits, with hyphens inside, 63 characters at most.\<close>

definition label_ok :: "string \<Rightarrow> bool" where
  "label_ok l \<longleftrightarrow> l \<noteq> [] \<and> length l \<le> 63 \<and> list_all (\<lambda>c. alnum c \<or> c = CHR ''-'') l \<and> alnum (hd l) \<and> alnum (last l)"

definition validateDomainFormat :: "string \<Rightarrow> bool" where
  "validateDomainFormat domain \<longleftrightarrow> list_all label_ok (Split (CHR ''.'') domain)"

definition validateWildcardDomain :: "string \<Rightarrow> bool" where
  "validateWildcardDomain domain \<longleftrightarrow>
     (let base = TrimPrefix domain ''*.'' in \<not> Contains base ''*'' \<and> validateDomainFormat base)"

definition isLocalDomain :: "string \<Rightarrow> bool" where
  "isLocalDomain domain \<longleftrightarrow>
     list_ex (\<lambda>p. HasSuffix (ToLower domain) p \<or> ToLower domain = TrimPrefix p ''.'')
       [''.local'', ''.localhost'', ''.internal'', ''.lan'', ''.home'', ''localhost'']"

definition isAllowedDomain :: "domain_validator \<Rightarrow> string \<Rightarrow> bool" where
  "isAllowedDomain v domain \<longleftrightarrow>
     (let d = ToLower domain in
      list_ex (\<lambda>a0. let a = ToLower a0; base = TrimPrefix a ''*.'' in
        d = a \<or> (HasPrefix a ''*.'' \<and> (HasSuffix d (''.'' @ base) \<or> d = base)) \<or> HasSuffix d (''.'' @ a))
        (vd_allowedDomains v))"

definition validateSingleDomain :: "domain_validator \<Rightarrow> string \<Rightarrow> bool" where
  "validateSingleDomain v domain \<longleftrightarrow>
     (if domain = [] then False
      else if Contains domain ''..'' \<or> Contains domain ''/'' \<or> Contains domain [CHR 0x5C] then False
      else if length domain > 253 then False
      else if ParseIP domain \<noteq> None then True
      else if HasPrefix domain ''*.'' then validateWildcardDomain domain
      else if \<not> validateDomainFormat domain then False
      else if length (vd_allowedDomains v) > 0 \<and> \<not> isAllowedDomain v domain then False
      else if isLocalDomain domain then True
      else vd_allowPublicDomains v)"

definition ValidateDomains :: "domain_validator \<Rightarrow> string list \<Rightarrow> bool" where
  "ValidateDomains v domains \<longleftrightarrow> length domains \<noteq> 0 \<and> list_all (validateSingleDomain v) domains"

text \<open>What the validator of the pages lets through: addresses, wildcards, and well-formed local names.\<close>

lemma ValidateDomains_local:
  "ValidateDomains \<lparr>vd_allowPublicDomains = False, vd_allowedDomains = []\<rparr> domains \<Longrightarrow> d \<in> set domains \<Longrightarrow>
   ParseIP d \<noteq> None \<or> HasPrefix d ''*.'' \<or> isLocalDomain d \<and> validateDomainFormat d"
  by (auto simp: ValidateDomains_def list_all_iff validateSingleDomain_def split: if_splits)

text \<open>But a wildcard skips the test for local names and the list of allowed ones, and the end of a name is not tested at a dot.\<close>

lemma public_wildcard_accepted:
  "validateSingleDomain \<lparr>vd_allowPublicDomains = False, vd_allowedDomains = [''home.lan'']\<rparr> ''*.example.com''"
  by code_simp

lemma public_name_accepted:
  "validateSingleDomain \<lparr>vd_allowPublicDomains = False, vd_allowedDomains = []\<rparr> ''not-localhost''"
  by code_simp

section \<open>Runs\<close>

datatype cert_op =
    OpGenerate issuance "nat \<Rightarrow> conn" gotime generate_request
  | OpReplace "nat \<Rightarrow> conn" gotime replace_request
  | OpRenew issuance "nat \<Rightarrow> conn" gotime string string
  | OpDelete "nat \<Rightarrow> conn" gotime string
  | OpServe cert_walk "nat \<Rightarrow> conn" gotime string
  | OpFallback tls_cert
  | OpRestart conn gotime

definition start_certs :: "cert_db option \<Rightarrow> cert_manager" where
  "start_certs storage = RegisterProvider SelfSignedProvider (NewCertManager ''self-signed'' storage)"

fun cert_step :: "x509_lib \<Rightarrow> cert_op \<Rightarrow> cert_manager \<Rightarrow> cert_manager" where
  "cert_step lib (OpGenerate issue cs now req) m = fst (Generate lib issue cs now req m)"
| "cert_step lib (OpReplace cs now req) m = fst (Replace lib cs now req m)"
| "cert_step lib (OpRenew issue cs now domain by') m = fst (Renew lib issue cs now domain by' m)"
| "cert_step lib (OpDelete cs now domain) m = fst (DeleteCert cs now domain m)"
| "cert_step lib (OpServe order cs now domain) m = fst (GetCertificate lib order cs now domain m)"
| "cert_step lib (OpFallback chain) m = SetFallbackCertificate chain m"
| "cert_step lib (OpRestart c now) m = LoadFromStorage lib c now (start_certs (cm_storage m))"

fun run_certs :: "x509_lib \<Rightarrow> cert_op list \<Rightarrow> cert_manager \<Rightarrow> cert_manager" where
  "run_certs lib [] m = m"
| "run_certs lib (op # ops) m = run_certs lib ops (cert_step lib op m)"

text \<open>Whether an operation is about the certificate of a domain; a renewal is about the first name of the old certificate.\<close>

fun cert_touches :: "x509_lib \<Rightarrow> string \<Rightarrow> cert_op \<Rightarrow> cert_manager \<Rightarrow> bool" where
  "cert_touches lib d (OpGenerate issue cs now req) m \<longleftrightarrow> gr_Domains req \<noteq> [] \<and> hd (gr_Domains req) = d"
| "cert_touches lib d (OpReplace cs now req) m \<longleftrightarrow> rp_Domain req = d"
| "cert_touches lib d (OpRenew issue cs now domain by') m \<longleftrightarrow>
     (case renewal_source lib (cs 0) domain m of Inl e \<Rightarrow> False | Inr old \<Rightarrow> ct_SANs old \<noteq> [] \<and> hd (ct_SANs old) = d)"
| "cert_touches lib d (OpDelete cs now domain) m \<longleftrightarrow> domain = d"
| "cert_touches lib d _ m \<longleftrightarrow> False"

fun spared_cert :: "x509_lib \<Rightarrow> string \<Rightarrow> cert_op list \<Rightarrow> cert_manager \<Rightarrow> bool" where
  "spared_cert lib d [] m \<longleftrightarrow> True"
| "spared_cert lib d (op # ops) m \<longleftrightarrow> \<not> cert_touches lib d op m \<and> spared_cert lib d ops (cert_step lib op m)"

text \<open>The table keeps its keys distinct.\<close>

definition wf_certs :: "cert_manager \<Rightarrow> bool" where
  "wf_certs m \<longleftrightarrow> wf_map (cm_certs m) \<and> (\<forall>db. cm_storage m = Some db \<longrightarrow> wf_map (cd_certs db))"

text \<open>What one domain has: the row of the table, if there is a table, and the certificate in memory.\<close>

definition row_of :: "cert_manager \<Rightarrow> string \<Rightarrow> cert_row option" where
  "row_of m d = (case cm_storage m of None \<Rightarrow> None | Some db \<Rightarrow> get (cd_certs db) d)"

text \<open>An operation that is not about a domain leaves its row alone, and can only bring its certificate into memory from the row.\<close>

definition cert_alone :: "x509_lib \<Rightarrow> string \<Rightarrow> cert_manager \<Rightarrow> cert_manager \<Rightarrow> bool" where
  "cert_alone lib d m m' \<longleftrightarrow> row_of m' d = row_of m d \<and>
     (\<forall>c. get (cm_certs m') d = Some c \<longrightarrow>
        get (cm_certs m) d = Some c \<or> (\<exists>r. row_of m d = Some r \<and> ToCertificate lib d r = Some c))"

lemma leaves_alone_refl [simp]: "cert_alone lib d m m"
  by (simp add: cert_alone_def)

lemma leaves_alone_trans: "cert_alone lib d m m' \<Longrightarrow> cert_alone lib d m' m'' \<Longrightarrow> cert_alone lib d m m''"
  by (auto simp: cert_alone_def)

lemma db_logged_history [simp]:
  "row_of (cert_logged (\<lambda>db. AddCertificateHistory c db h) m) d = row_of m d"
  "cm_certs (cert_logged f m) = cm_certs m"
  "wf_certs (cert_logged (\<lambda>db. AddCertificateHistory c db h) m) = wf_certs m"
  by (auto simp: row_of_def cert_logged_def AddCertificateHistory_def wf_certs_def split: option.split sum.split)

lemma keep_certificate_row:
  "row_of (keep_certificate cs now c a b m) d =
     (if d = ct_Domain c \<and> cm_storage m \<noteq> None \<and> cn_ok (cs 0)
      then Some ((toStoredCertificate now c)\<lparr>cw_CreatedAt := (case row_of m d of None \<Rightarrow> cn_now (cs 0) | Some r \<Rightarrow> cw_CreatedAt r),
                   cw_UpdatedAt := cn_now (cs 0)\<rparr>)
      else row_of m d)"
  by (auto simp: keep_certificate_def cert_logged_def StoreCertificate_def row_of_def get_put Let_def AddCertificateHistory_def
      split: option.split)

lemma keep_certificate_certs [simp]: "cm_certs (keep_certificate cs now c a b m) = put (ct_Domain c) c (cm_certs m)"
  by (simp add: keep_certificate_def)

lemma keep_certificate_wf: "wf_certs m \<Longrightarrow> wf_certs (keep_certificate cs now c a b m)"
  by (auto simp: keep_certificate_def wf_certs_def cert_logged_def StoreCertificate_def AddCertificateHistory_def Let_def split: option.splits)

lemma keep_certificate_alone: "d \<noteq> ct_Domain c \<Longrightarrow> cert_alone lib d m (keep_certificate cs now c a b m)"
  by (simp add: cert_alone_def keep_certificate_row get_put)

text \<open>A certificate that was made or imported can be read back from its texts.\<close>

definition readable :: "x509_lib \<Rightarrow> certificate \<Rightarrow> bool" where
  "readable lib c \<longleftrightarrow> xl_KeyPair lib (ct_CertPEM c) (ct_KeyPEM c) = Some (ct_TLSCert c) \<and> leaf lib (ct_TLSCert c) \<noteq> None"

lemma self_Generate_readable:
  "self_Generate lib issue now domains opts = Some c \<Longrightarrow> readable lib c \<and> ct_Domain c = hd domains \<and> domains \<noteq> []"
  by (auto simp: self_Generate_def readable_def Let_def split: if_splits option.splits)

lemma Generate_cases:
  "(\<exists>c. Generate lib issue cs now req m = (keep_certificate cs now c ''generated'' (gr_RequestedBy req) m, Inr c) \<and>
        readable lib c \<and> ct_Domain c = hd (gr_Domains req) \<and> gr_Domains req \<noteq> []) \<or>
   (\<exists>e. Generate lib issue cs now req m = (m, Inl e))"
proof -
  have p: "provider_Generate p lib issue now ds opts = self_Generate lib issue now ds opts" for p ds opts
    by (cases p) simp
  show ?thesis
    by (auto simp: Generate_def Let_def p split: option.split dest: self_Generate_readable)
qed

lemma Replace_cases:
  "(\<exists>c r a. Replace lib cs now req m = (keep_certificate (\<lambda>i. cs (Suc i)) now c a (rp_RequestedBy req) m, Inr r) \<and>
        ro_NewCert r = c \<and> readable lib c \<and> ct_Domain c = rp_Domain req) \<or>
   (\<exists>e. Replace lib cs now req m = (m, Inl e))"
  by (auto simp: Replace_def Let_def readable_def split: option.split)

lemma stored_row_of: "stored_row c m d = (if cn_ok c then row_of m d else None)"
  by (simp add: stored_row_def row_of_def db_GetCertificate_def split: option.split)

lemma serve_alone: "cert_alone lib d m (fst (GetCertificate lib order cs now n m)) \<and> (wf_certs m \<longrightarrow> wf_certs (fst (GetCertificate lib order cs now n m)))"
proof -
  have "fst (GetCertificate lib order cs now n m) = m \<or>
      (\<exists>c. valid_at now (stored_cert lib (cs 0) m n) = Some c \<and>
           fst (GetCertificate lib order cs now n m) = m\<lparr>cm_certs := put n c (cm_certs m)\<rparr>)"
    by (simp add: GetCertificate_def split: option.split)
  then show ?thesis
  proof
    assume "\<exists>c. valid_at now (stored_cert lib (cs 0) m n) = Some c \<and>
      fst (GetCertificate lib order cs now n m) = m\<lparr>cm_certs := put n c (cm_certs m)\<rparr>"
    then obtain c where c: "valid_at now (stored_cert lib (cs 0) m n) = Some c"
      and g: "fst (GetCertificate lib order cs now n m) = m\<lparr>cm_certs := put n c (cm_certs m)\<rparr>" by blast
    from c obtain r where "row_of m n = Some r" "ToCertificate lib n r = Some c"
      by (auto simp: valid_at_def stored_cert_def stored_row_of Option.bind_eq_Some_conv split: option.splits if_splits)
    then show ?thesis unfolding g by (auto simp: cert_alone_def row_of_def get_put wf_certs_def)
  qed (simp add: wf_certs_def)
qed

lemma load_put:
  "get (foldl (\<lambda>certs (d, r). case valid_at now (ToCertificate lib d r) of None \<Rightarrow> certs | Some c \<Rightarrow> put d c certs) m rs) d = Some c \<Longrightarrow>
   get m d = Some c \<or> (\<exists>r. (d, r) \<in> set rs \<and> ToCertificate lib d r = Some c)"
proof (induction rs arbitrary: m)
  case (Cons x rs)
  then show ?case by (cases x) (fastforce simp: valid_at_def get_put split: option.splits if_splits)
qed simp

lemma load_wf:
  "wf_map m \<Longrightarrow>
   wf_map (foldl (\<lambda>certs (d, r). case valid_at now (ToCertificate lib d r) of None \<Rightarrow> certs | Some c \<Rightarrow> put d c certs) m rs)"
  by (induction rs arbitrary: m) (auto split: option.split)

lemma restart_alone:
  assumes "wf_certs m"
  shows "cert_alone lib d m (LoadFromStorage lib c now (start_certs (cm_storage m)))"
proof -
  have rows: "(d, r) \<in> set (stored_rows c (start_certs (cm_storage m))) \<Longrightarrow> row_of m d = Some r" for r
    using assms
    by (cases "cm_storage m") (auto simp: stored_rows_def start_certs_def RegisterProvider_def NewCertManager_def ListCertificates_def row_of_def wf_certs_def
        get_iff_in split: option.splits if_splits)
  have "row_of (LoadFromStorage lib c now (start_certs (cm_storage m))) d = row_of m d"
    by (simp add: LoadFromStorage_def start_certs_def RegisterProvider_def NewCertManager_def row_of_def)
  moreover have "\<exists>r. row_of m d = Some r \<and> ToCertificate lib d r = Some x"
    if "get (cm_certs (LoadFromStorage lib c now (start_certs (cm_storage m)))) d = Some x" for x
    using that rows
    by (auto simp: LoadFromStorage_def dest!: load_put) (simp add: start_certs_def RegisterProvider_def NewCertManager_def)
  ultimately show ?thesis by (auto simp: cert_alone_def)
qed

lemma restart_wf: "wf_certs m \<Longrightarrow> wf_certs (LoadFromStorage lib c now (start_certs (cm_storage m)))"
  by (auto simp: wf_certs_def LoadFromStorage_def start_certs_def RegisterProvider_def NewCertManager_def load_wf)

lemma Delete_wf: "wf_certs m \<Longrightarrow> wf_certs (fst (DeleteCert cs now n m))"
  by (auto simp: DeleteCert_def db_DeleteCertificate_def wf_certs_def Let_def cert_logged_def AddCertificateHistory_def
      split: option.split sum.split if_splits)

lemma Delete_alone: "n \<noteq> d \<Longrightarrow> cert_alone lib d m (fst (DeleteCert cs now n m))"
  by (auto simp: DeleteCert_def db_DeleteCertificate_def cert_alone_def row_of_def get_del Let_def cert_logged_def AddCertificateHistory_def
      split: option.splits sum.splits if_splits)

lemma Generate_wf: "wf_certs m \<Longrightarrow> wf_certs (fst (Generate lib issue cs now req m))"
  using Generate_cases [of lib issue cs now req m] keep_certificate_wf [of m] by auto

lemma Generate_alone:
  "gr_Domains req = [] \<or> hd (gr_Domains req) \<noteq> d \<Longrightarrow> cert_alone lib d m (fst (Generate lib issue cs now req m))"
  using Generate_cases [of lib issue cs now req m] keep_certificate_alone [of d] by auto

lemma Renew_step:
  "fst (Renew lib issue cs now domain by' m) = m \<or>
   (\<exists>old h. renewal_source lib (cs 0) domain m = Inr old \<and>
     (\<exists>req. gr_Domains req = ct_SANs old \<and>
       (fst (Renew lib issue cs now domain by' m) = fst (Generate lib issue (\<lambda>i. cs (Suc i)) now req m) \<or>
        fst (Renew lib issue cs now domain by' m) =
          cert_logged (\<lambda>db. AddCertificateHistory (cs 3) db h) (fst (Generate lib issue (\<lambda>i. cs (Suc i)) now req m)))))"
proof (cases "domain = [] \<or> (\<exists>e. renewal_source lib (cs 0) domain m = Inl e)")
  case True
  then show ?thesis by (auto simp: Renew_def)
next
  case False
  then obtain old where old: "renewal_source lib (cs 0) domain m = Inr old" "domain \<noteq> []"
    by (cases "renewal_source lib (cs 0) domain m") auto
  let ?req = "\<lparr>gr_Domains = ct_SANs old, gr_Provider = cm_defaultProvider m, gr_Options = no_options, gr_RequestedBy = by'\<rparr>"
  obtain m1 r where g: "Generate lib issue (\<lambda>i. cs (Suc i)) now ?req m = (m1, r)" by fastforce
  have "fst (Renew lib issue cs now domain by' m) = m1 \<or>
    (\<exists>h. fst (Renew lib issue cs now domain by' m) = cert_logged (\<lambda>db. AddCertificateHistory (cs 3) db h) m1)"
    using old g by (cases r) (auto simp: Renew_def Let_def)
  with old g show ?thesis by (intro disjI2) (metis fst_conv generate_request.select_convs(1))
qed

lemma logged_alone: "cert_alone lib d m m' \<Longrightarrow> cert_alone lib d m (cert_logged (\<lambda>db. AddCertificateHistory c db h) m')"
  by (simp add: cert_alone_def)

lemma cert_step_wf: "wf_certs m \<Longrightarrow> wf_certs (cert_step lib op m)"
proof (cases op)
  case (OpRenew issue cs now domain by')
  assume "wf_certs m"
  with OpRenew Renew_step [of lib issue cs now domain by' m] Generate_wf show ?thesis by auto
next
  case (OpReplace cs now req)
  assume "wf_certs m"
  with OpReplace Replace_cases [of lib cs now req m] keep_certificate_wf show ?thesis by auto
next
  case (OpFallback chain)
  then show "wf_certs m \<Longrightarrow> ?thesis" by (simp add: SetFallbackCertificate_def wf_certs_def)
qed (simp_all add: Generate_wf Delete_wf serve_alone restart_wf)

lemma cert_step_alone: "wf_certs m \<Longrightarrow> \<not> cert_touches lib d op m \<Longrightarrow> cert_alone lib d m (cert_step lib op m)"
proof (cases op)
  case (OpRenew issue cs now domain by')
  assume t: "\<not> cert_touches lib d op m"
  show ?thesis using Renew_step [of lib issue cs now domain by' m]
  proof (elim disjE exE conjE)
    fix old h and req :: generate_request
    assume "renewal_source lib (cs 0) domain m = Inr old" "gr_Domains req = ct_SANs old"
    with t OpRenew have "cert_alone lib d m (fst (Generate lib issue (\<lambda>i. cs (Suc i)) now req m))"
      by (intro Generate_alone) auto
    moreover assume "fst (Renew lib issue cs now domain by' m) =
        cert_logged (\<lambda>db. AddCertificateHistory (cs 3) db h) (fst (Generate lib issue (\<lambda>i. cs (Suc i)) now req m))"
    ultimately show ?thesis using OpRenew by (simp add: logged_alone)
  next
    fix old h and req :: generate_request
    assume "renewal_source lib (cs 0) domain m = Inr old" "gr_Domains req = ct_SANs old"
    with t OpRenew have "cert_alone lib d m (fst (Generate lib issue (\<lambda>i. cs (Suc i)) now req m))"
      by (intro Generate_alone) auto
    moreover assume "fst (Renew lib issue cs now domain by' m) = fst (Generate lib issue (\<lambda>i. cs (Suc i)) now req m)"
    ultimately show ?thesis using OpRenew by simp
  qed (use OpRenew in simp)
next
  case (OpReplace cs now req)
  assume "\<not> cert_touches lib d op m"
  with OpReplace Replace_cases [of lib cs now req m] keep_certificate_alone [of d] show ?thesis by auto
next
  case (OpGenerate issue cs now req)
  assume "\<not> cert_touches lib d op m"
  with OpGenerate show ?thesis by (auto intro!: Generate_alone)
next
  case (OpRestart c now)
  assume "wf_certs m"
  with OpRestart show ?thesis by (simp add: restart_alone)
next
  case (OpFallback chain)
  then show ?thesis by (simp add: cert_alone_def SetFallbackCertificate_def row_of_def)
qed (simp_all add: Delete_alone serve_alone)

lemma run_certs_wf: "wf_certs m \<Longrightarrow> wf_certs (run_certs lib ops m)"
  by (induction ops arbitrary: m) (simp_all add: cert_step_wf)

lemma run_certs_alone: "wf_certs m \<Longrightarrow> spared_cert lib d ops m \<Longrightarrow> cert_alone lib d m (run_certs lib ops m)"
proof (induction ops arbitrary: m)
  case (Cons op ops)
  then show ?case using cert_step_alone [of m lib d op] cert_step_wf [of m lib op] leaves_alone_trans by fastforce
qed simp

lemma start_certs_wf: "wf_map (cd_certs db) \<Longrightarrow> wf_certs (start_certs (Some db))"
  by (simp add: wf_certs_def start_certs_def RegisterProvider_def NewCertManager_def)

section \<open>Certificates live as long as they should\<close>

text \<open>Making a certificate or importing one.\<close>

definition obtain_cert ::
  "x509_lib \<Rightarrow> issuance \<Rightarrow> (nat \<Rightarrow> conn) \<Rightarrow> gotime \<Rightarrow> generate_request + replace_request \<Rightarrow> cert_manager \<Rightarrow>
   cert_manager \<times> certificate option" where
  "obtain_cert lib issue cs now what m =
     (case what of
        Inl req \<Rightarrow> (case Generate lib issue cs now req m of (m', Inr c) \<Rightarrow> (m', Some c) | (m', Inl e) \<Rightarrow> (m', None))
      | Inr req \<Rightarrow> (case Replace lib cs now req m of (m', Inr r) \<Rightarrow> (m', Some (ro_NewCert r)) | (m', Inl e) \<Rightarrow> (m', None)))"

lemma obtain_cert_keeps:
  assumes "obtain_cert lib issue cs now what m = (m', Some c)" "\<forall>i. cn_ok (cs i)" "cm_storage m = Some db"
  shows "readable lib c \<and> get (cm_certs m') (ct_Domain c) = Some c \<and>
    (\<exists>r. row_of m' (ct_Domain c) = Some r \<and> cw_CertPEM r = ct_CertPEM c \<and> cw_KeyPEM r = ct_KeyPEM c \<and> cw_NotAfter r = ct_NotAfter c)"
proof -
  have k: "get (cm_certs (keep_certificate cs' now c a b m)) (ct_Domain c) = Some c \<and>
    (\<exists>r. row_of (keep_certificate cs' now c a b m) (ct_Domain c) = Some r \<and> cw_CertPEM r = ct_CertPEM c \<and>
      cw_KeyPEM r = ct_KeyPEM c \<and> cw_NotAfter r = ct_NotAfter c)" if "cn_ok (cs' 0)" for cs' a b
    using that assms(3) by (simp add: keep_certificate_row toStoredCertificate_def get_put)
  show ?thesis
  proof (cases what)
    case (Inl req)
    with assms(1) Generate_cases [of lib issue cs now req m] k [of cs] assms(2) show ?thesis
      by (auto simp: obtain_cert_def split: sum.splits)
  next
    case (Inr req)
    with assms(1) Replace_cases [of lib cs now req m] k [of "\<lambda>i. cs (Suc i)"] assms(2) show ?thesis
      by (auto simp: obtain_cert_def split: sum.splits)
  qed
qed

lemma obtain_cert_wf: "wf_certs m \<Longrightarrow> wf_certs (fst (obtain_cert lib issue cs now what m))"
proof (cases what)
  case (Inl req)
  assume "wf_certs m"
  with Inl Generate_wf [of m lib issue cs now req] show ?thesis by (auto simp: obtain_cert_def split: sum.splits prod.splits)
next
  case (Inr req)
  assume "wf_certs m"
  with Inr Replace_cases [of lib cs now req m] keep_certificate_wf show ?thesis
    by (auto simp: obtain_cert_def split: sum.splits prod.splits)
qed

lemma storage_stays: "cm_storage m \<noteq> None \<Longrightarrow> cm_storage (cert_step lib op m) \<noteq> None"
proof -
  assume s: "cm_storage m \<noteq> None"
  have l: "cm_storage m' \<noteq> None \<Longrightarrow> cm_storage (cert_logged f m') \<noteq> None" for f m'
    by (auto simp: cert_logged_def split: option.split sum.split)
  have k: "cm_storage (keep_certificate cs now c a b m) \<noteq> None" for cs now c a b
    using s unfolding keep_certificate_def by (intro l) simp
  have g: "cm_storage (fst (Generate lib issue cs now req m)) \<noteq> None" for issue cs now req
    using Generate_cases [of lib issue cs now req m] k s by auto
  show ?thesis
  proof (cases op)
    case (OpRenew issue cs now domain by')
    with Renew_step [of lib issue cs now domain by' m] g l s show ?thesis by auto
  next
    case (OpReplace cs now req)
    with Replace_cases [of lib cs now req m] k s show ?thesis by auto
  next
    case (OpDelete cs now domain)
    then show ?thesis using s by (auto simp: DeleteCert_def Let_def cert_logged_def split: option.split sum.split)
  next
    case (OpRestart c now)
    then show ?thesis using s by (simp add: LoadFromStorage_def start_certs_def RegisterProvider_def NewCertManager_def)
  qed (use s g in \<open>auto simp: SetFallbackCertificate_def GetCertificate_def split: option.split\<close>)
qed

lemma storage_stays_run: "cm_storage m \<noteq> None \<Longrightarrow> cm_storage (run_certs lib ops m) \<noteq> None"
proof (induction ops arbitrary: m)
  case (Cons op ops)
  from Cons.IH [OF storage_stays [OF Cons.prems]] show ?case by simp
qed simp

lemma serve_from_row:
  assumes "row_of m d = Some r" "ToCertificate lib d r = Some cc" "\<not> cert_IsExpired t cc" "cn_ok (cs 0)"
    and "\<And>c. get (cm_certs m) d = Some c \<Longrightarrow> ct_TLSCert c = ct_TLSCert cc \<and> ct_NotAfter c = ct_NotAfter cc"
  shows "snd (GetCertificate lib order cs t d m) = Some (ct_TLSCert cc)"
proof -
  have s: "valid_at t (stored_cert lib (cs 0) m d) = Some cc"
    using assms(1-4) by (simp add: valid_at_def stored_cert_def stored_row_of)
  show ?thesis
  proof (cases "get (cm_certs m) d")
    case None
    with s show ?thesis by (simp add: GetCertificate_def valid_at_def [of t None])
  next
    case (Some c)
    with assms(5) [OF Some] assms(3) show ?thesis by (simp add: GetCertificate_def valid_at_def [of t "Some c"] cert_IsExpired_def)
  qed
qed

text \<open>C26: a certificate that was made or imported while the database works is the one a client gets that asks for its domain, until it
  expires, after any operations on other domains, restarts included, whatever of the database's statements fail meanwhile.\<close>

theorem certificate_survives:
  assumes "wf_map (cd_certs db)"
    and "obtain_cert lib issue cs now what (run_certs lib ops0 (start_certs (Some db))) = (m, Some c)" "\<forall>i. cn_ok (cs i)"
    and "spared_cert lib (ct_Domain c) ops m" "cn_ok (cs' 0)" "t \<le> ct_NotAfter c"
  shows "snd (GetCertificate lib order cs' t (ct_Domain c) (run_certs lib ops m)) = Some (ct_TLSCert c)"
proof -
  have w: "wf_certs (run_certs lib ops0 (start_certs (Some db)))" using assms(1) by (intro run_certs_wf start_certs_wf)
  have wm: "wf_certs m" using obtain_cert_wf [OF w, of lib issue cs now what] assms(2) by simp
  have "cm_storage (start_certs (Some db)) \<noteq> None"
    by (simp add: start_certs_def RegisterProvider_def NewCertManager_def)
  then obtain db' where "cm_storage (run_certs lib ops0 (start_certs (Some db))) = Some db'" using storage_stays_run by blast
  from obtain_cert_keeps [OF assms(2,3) this] obtain r x where
    r: "row_of m (ct_Domain c) = Some r" "cw_CertPEM r = ct_CertPEM c" "cw_KeyPEM r = ct_KeyPEM c" "cw_NotAfter r = ct_NotAfter c"
    and mem: "get (cm_certs m) (ct_Domain c) = Some c"
    and c: "xl_KeyPair lib (ct_CertPEM c) (ct_KeyPEM c) = Some (ct_TLSCert c)" "leaf lib (ct_TLSCert c) = Some x"
    by (auto simp: readable_def)
  then obtain cc where cc: "ToCertificate lib (ct_Domain c) r = Some cc" "ct_TLSCert cc = ct_TLSCert c" "ct_NotAfter cc = ct_NotAfter c"
    by (simp add: ToCertificate_def)
  note alone = run_certs_alone [OF wm assms(4), unfolded cert_alone_def]
  have "row_of (run_certs lib ops m) (ct_Domain c) = Some r" using alone r(1) by simp
  moreover have "ct_TLSCert c' = ct_TLSCert cc \<and> ct_NotAfter c' = ct_NotAfter cc"
    if "get (cm_certs (run_certs lib ops m)) (ct_Domain c) = Some c'" for c'
    using alone that r(1) cc mem by (metis option.inject)
  moreover have "\<not> cert_IsExpired t cc" using cc(3) assms(6) by (simp add: cert_IsExpired_def After_def)
  ultimately show ?thesis
    using serve_from_row [of "run_certs lib ops m" "ct_Domain c" r lib cc t cs' order] cc assms(5) by simp
qed

text \<open>once a certificate is deleted, no operations on other domains bring it back, restarts included: neither the memory of the
  manager nor the table has one for its domain.\<close>

theorem deleted_certificate_gone:
  assumes "wf_map (cd_certs db)" "DeleteCert cs now d (run_certs lib ops0 (start_certs (Some db))) = (m, None)"
    and "spared_cert lib d ops m"
  shows "cert_Get d (run_certs lib ops m) = None \<and> row_of (run_certs lib ops m) d = None"
proof -
  have w: "wf_certs (run_certs lib ops0 (start_certs (Some db)))" using assms(1) by (intro run_certs_wf start_certs_wf)
  then have "wf_certs m" using Delete_wf [OF w, of cs now d] assms(2) by simp
  moreover have "get (cm_certs m) d = None \<and> row_of m d = None"
    using assms(2)
    by (auto simp: DeleteCert_def db_DeleteCertificate_def row_of_def get_del Let_def cert_logged_def AddCertificateHistory_def
        split: option.splits sum.splits if_splits)
  ultimately show ?thesis using run_certs_alone [of m lib d ops] assms(3) by (cases "get (cm_certs (run_certs lib ops m)) d") (auto simp: cert_alone_def cert_Get_def)
qed

text \<open>Concrete data: a library that reads the name in the text of a certificate.\<close>

definition demo_x509 :: x509_lib where
  "demo_x509 =
     \<lparr>xl_KeyPair = (\<lambda>c k. if HasPrefix c ''C:'' \<and> HasPrefix k ''K:'' then Some [c] else None),
      xl_Parse = (\<lambda>d. Some \<lparr>xi_IssuerCN = ''demo'', xi_SubjectCN = drop 2 d, xi_NotBefore = 0, xi_NotAfter = 1000,
        xi_DNSNames = (if ParseIP (drop 2 d) = None then [drop 2 d] else []), xi_Pin = Some (''sha256/0123456789abcdef'' @ drop 2 d)\<rparr>)\<rparr>"

definition demo_issue :: issuance where
  "demo_issue kt n tpl = Some (''C:'' @ tp_CommonName tpl, ''K:'' @ kt)"

definition works :: "nat \<Rightarrow> conn" where "works i = \<lparr>cn_ok = True, cn_fk = True, cn_now = 0\<rparr>"

definition fails :: "nat \<Rightarrow> conn" where "fails i = \<lparr>cn_ok = False, cn_fk = True, cn_now = 0\<rparr>"

definition empty_cert_db :: cert_db where "empty_cert_db = \<lparr>cd_certs = [], cd_history = []\<rparr>"

definition demo_generate :: "string \<Rightarrow> generate_request" where
  "demo_generate d = \<lparr>gr_Domains = [d], gr_Provider = [], gr_Options = no_options, gr_RequestedBy = ''phone''\<rparr>"

definition demo_certs :: "string \<Rightarrow> cert_manager" where
  "demo_certs d = cert_step demo_x509 (OpGenerate demo_issue works 0 (demo_generate d)) (start_certs (Some empty_cert_db))"

lemma certificate_survives_witness:
  "snd (GetCertificate demo_x509 id works 500 ''gate.lan''
     (run_certs demo_x509 [OpRestart (fails 0) 5, OpGenerate demo_issue fails 6 (demo_generate ''b.lan'')] (demo_certs ''gate.lan''))) =
   Some [''C:gate.lan'']"
proof -
  let ?r = "obtain_cert demo_x509 demo_issue works 0 (Inl (demo_generate ''gate.lan'')) (run_certs demo_x509 [] (start_certs (Some empty_cert_db)))"
  let ?ops = "[OpRestart (fails 0) 5, OpGenerate demo_issue fails 6 (demo_generate ''b.lan'')]"
  have "case ?r of (m, Some c) \<Rightarrow> ct_Domain c = ''gate.lan'' \<and> ct_TLSCert c = [''C:gate.lan''] \<and> ct_NotAfter c = 1000 | _ \<Rightarrow> False"
    by code_simp
  then obtain m c where r: "?r = (m, Some c)" "ct_Domain c = ''gate.lan''" "ct_TLSCert c = [''C:gate.lan'']" "ct_NotAfter c = 1000"
    by (auto split: prod.splits option.splits)
  have m: "m = demo_certs ''gate.lan''"
  proof -
    have "fst ?r = demo_certs ''gate.lan''" by (simp add: obtain_cert_def demo_certs_def split: prod.split sum.split)
    then show ?thesis using r(1) by simp
  qed
  have s: "spared_cert demo_x509 ''gate.lan'' ?ops (demo_certs ''gate.lan'')" by (simp add: demo_generate_def)
  show ?thesis
    using certificate_survives [of empty_cert_db demo_x509 demo_issue works 0 "Inl (demo_generate ''gate.lan'')" "[]" m c ?ops works 500 id] r m s
    by (simp add: empty_cert_db_def works_def)
qed

lemma deleted_certificate_gone_witness:
  "cert_Get ''gate.lan'' (run_certs demo_x509 [OpRestart (works 0) 5] (fst (DeleteCert works 1 ''gate.lan'' (demo_certs ''gate.lan'')))) = None"
proof -
  let ?d = "DeleteCert works 1 ''gate.lan'' (run_certs demo_x509 [OpGenerate demo_issue works 0 (demo_generate ''gate.lan'')] (start_certs (Some empty_cert_db)))"
  have "snd ?d = None" by code_simp
  then have d: "?d = (fst ?d, None)" by (simp add: prod_eq_iff)
  from deleted_certificate_gone [OF _ d, where ops = "[OpRestart (works 0) 5]"] show ?thesis
    by (simp add: empty_cert_db_def demo_certs_def)
qed

text \<open>A renewal makes a certificate for the names in the old one: the certificate of another domain when the old one was imported
  under a name it does not list first, and none when it was for an address and was read back from the table.\<close>

lemma renewal_leaves_old_certificate:
  "let m = fst (Replace demo_x509 works 0 \<lparr>rp_Domain = ''a.lan'', rp_CertificatePEM = ''C:b.lan'', rp_PrivateKeyPEM = ''K:'', rp_RequestedBy = []\<rparr>
         (start_certs (Some empty_cert_db)));
       (m', r) = Renew demo_x509 demo_issue works 1 ''a.lan'' ''phone'' m
   in (case r of Inr ro \<Rightarrow> True | Inl e \<Rightarrow> False) \<and> cert_Get ''a.lan'' m' = cert_Get ''a.lan'' m \<and> map fst (cm_certs m') = [''a.lan'', ''b.lan'']"
  by code_simp

lemma address_not_renewed_after_restart:
  "snd (Renew demo_x509 demo_issue works 6 ''10.0.0.5'' ''phone'' (demo_certs ''10.0.0.5'')) \<noteq> Inl (ReplacementFailed DomainRequired) \<and>
   snd (Renew demo_x509 demo_issue works 6 ''10.0.0.5'' ''phone''
     (cert_step demo_x509 (OpRestart (works 0) 5) (demo_certs ''10.0.0.5''))) = Inl (ReplacementFailed DomainRequired)"
  by code_simp

text \<open>A deletion that fails has already emptied the memory, and the next client brings the certificate back from the table.\<close>

lemma failed_deletion_undone:
  "let m = fst (DeleteCert fails 1 ''gate.lan'' (demo_certs ''gate.lan'')) in
   cert_Get ''gate.lan'' m = None \<and> snd (GetCertificate demo_x509 id works 2 ''gate.lan'' m) = Some [''C:gate.lan'']"
  by code_simp

text \<open>A certificate for all names under a domain is not the one a client gets that asks for such a name.\<close>

lemma wildcard_not_matched:
  "snd (GetCertificate demo_x509 id works 2 ''app.lan'' (SetFallbackCertificate [''F''] (demo_certs ''*.lan''))) = Some [''F'']"
  by code_simp

text \<open>What the TLS library is given for a name is the fallback or was not expired, in memory or in the table.\<close>

definition known_cert :: "x509_lib \<Rightarrow> cert_manager \<Rightarrow> certificate \<Rightarrow> bool" where
  "known_cert lib m c \<longleftrightarrow> (\<exists>d. get (cm_certs m) d = Some c) \<or> (\<exists>d r. row_of m d = Some r \<and> ToCertificate lib d r = Some c)"

lemma first_some_in: "first_some xs = Some x \<Longrightarrow> Some x \<in> set xs"
  by (induction xs rule: first_some.induct) auto

lemma served_not_expired:
  assumes "wf_certs m" "\<forall>ms. set (order ms) = set ms" "snd (GetCertificate lib order cs now d m) = Some chain"
  shows "cm_fallbackCert m = Some chain \<or> (\<exists>c. known_cert lib m c \<and> \<not> cert_IsExpired now c \<and> ct_TLSCert c = chain)"
proof -
  have s: "stored_cert lib c m d = Some x \<Longrightarrow> known_cert lib m x" for c d x
    by (auto simp: stored_cert_def stored_row_of known_cert_def Option.bind_eq_Some_conv split: if_splits)
  have rows: "(d, r) \<in> set (stored_rows c m) \<Longrightarrow> row_of m d = Some r" for c d r
    using assms(1) by (cases "cm_storage m")
      (auto simp: stored_rows_def ListCertificates_def row_of_def wf_certs_def get_iff_in split: if_splits)
  have v: "Some c = valid_at now z \<longleftrightarrow> z = Some c \<and> \<not> cert_IsExpired now c" for c z
    by (auto simp: valid_at_def split: option.split)
  have first: "cm_fallbackCert m = Some chain \<or> (\<exists>c. known_cert lib m c \<and> \<not> cert_IsExpired now c \<and> ct_TLSCert c = chain)"
    if "GetFirstAvailableCertificate lib order cs' now m = Some chain" for cs'
  proof -
    have "known_cert lib m c" if "get (cm_certs m) d = Some c" for c d using that by (auto simp: known_cert_def)
    moreover have "known_cert lib m c" if "(d, c) \<in> set (cm_certs m)" for c d
      using that assms(1) by (auto simp: known_cert_def wf_certs_def get_iff_in)
    moreover have "known_cert lib m c" if "(d, r) \<in> set (stored_rows cc m)" "ToCertificate lib d r = Some c" for c d r cc
      using that rows by (auto simp: known_cert_def)
    ultimately show ?thesis
      using \<open>GetFirstAvailableCertificate lib order cs' now m = Some chain\<close> assms(2) s
      unfolding GetFirstAvailableCertificate_def
      by (auto split: option.splits dest!: first_some_in simp: v) blast+
  qed
  show ?thesis
    using assms(3) first s
    unfolding GetCertificate_def
    by (auto split: option.splits simp: v [symmetric] known_cert_def) (metis v)+
qed

end
