(* ===== verification/CertPages.thy ===== *)
theory CertPages
  imports Certs
begin

text \<open>
  The pages of the certificate manager (\<open>cmd/nekzus/cert_handlers.go\<close>) with the switch to TLS they can ask for
  (\<open>cmd/nekzus/main.go\<close>).  What the JWT library makes of a token is an argument, and so is whether the notices could be
  queued; a notice is its payload without the texts and the time.
\<close>

section \<open>The application\<close>

record cert_notice =
  cn_Reason :: string
  cn_Domain :: string
  cn_OldSPKI :: string
  cn_NewSPKI :: string
  cn_BaseURL :: string

record cert_app =
  ca_mgr :: cert_manager
  ca_baseURL :: string
  ca_tlsEnabled :: bool
  ca_tlsUpgrade :: bool
  ca_notifier :: bool
  ca_notices :: "cert_notice list"

text \<open>The claims of a valid token: the subject, if it is a text.\<close>

type_synonym subject_parser = "string \<Rightarrow> string option option"

datatype cert_answer =
    CertRefused int string
  | CertPanic
  | CertMade certificate bool
  | CertsListed "certificate list"
  | CertShown certificate
  | CertDeleted
  | CertRenewed rotation int
  | CertReplaced rotation int bool
  | DomainsSuggested "string list"

definition extractToken :: "string \<Rightarrow> string" where
  "extractToken auth =
     (if auth = [] then []
      else (let parts = Split (CHR '' '') auth in
        if length parts \<noteq> 2 \<or> parts ! 0 \<noteq> ''Bearer'' then [] else parts ! 1))"

text \<open>The upgrade is a signal to the main loop, which has room for one.\<close>

definition UpgradeToTLS :: "conn \<Rightarrow> cert_app \<Rightarrow> cert_app \<times> bool" where
  "UpgradeToTLS c a =
     (if ca_tlsEnabled a then (a, True)
      else if \<not> HasAnyCertificate c (ca_mgr a) then (a, False)
      else (a\<lparr>ca_tlsUpgrade := True\<rparr>, True))"

definition upgrade_if_needed :: "conn \<Rightarrow> cert_app \<Rightarrow> cert_app \<times> bool" where
  "upgrade_if_needed c a = (if ca_tlsEnabled a then (a, False) else UpgradeToTLS c a)"

fun to_https :: "string \<Rightarrow> string" where
  "to_https s =
     (if HasPrefix s ''http://'' then ''https://'' @ drop 7 s
      else case s of [] \<Rightarrow> [] | c # cs \<Rightarrow> c # to_https cs)"

declare to_https.simps [simp del]

definition UpdateBaseURL :: "cert_app \<Rightarrow> cert_app" where
  "UpdateBaseURL a = (if HasPrefix (ca_baseURL a) ''http://'' then a\<lparr>ca_baseURL := to_https (ca_baseURL a)\<rparr> else a)"

text \<open>Queue a notice for all devices; the answer is whether it worked.\<close>

definition notify_all :: "bool \<Rightarrow> cert_notice \<Rightarrow> cert_app \<Rightarrow> cert_app \<times> bool" where
  "notify_all ok n a = (if ca_notifier a then (a\<lparr>ca_notices := ca_notices a @ [n]\<rparr>, ok) else (a, False))"

section \<open>The pages\<close>

text \<open>\<open>auth\<close> is the header; a request's body is \<open>None\<close> when it is no JSON of the right kind.\<close>

definition handleGenerateCertificate ::
  "x509_lib \<Rightarrow> issuance \<Rightarrow> subject_parser \<Rightarrow> (nat \<Rightarrow> conn) \<Rightarrow> gotime \<Rightarrow> bool \<Rightarrow> string \<Rightarrow> (string list \<times> string) option \<Rightarrow> cert_app \<Rightarrow>
   cert_app \<times> cert_answer" where
  "handleGenerateCertificate lib issue jwt cs now sent auth body a =
     (case jwt (extractToken auth) of
        None \<Rightarrow> (a, CertRefused 401 ''UNAUTHORIZED'')
      | Some sub \<Rightarrow>
          (case body of
             None \<Rightarrow> (a, CertRefused 400 ''INVALID_REQUEST'')
           | Some (domains, provider) \<Rightarrow>
               if length domains = 0 then (a, CertRefused 400 ''INVALID_DOMAINS'')
               else if \<not> ValidateDomains \<lparr>vd_allowPublicDomains = False, vd_allowedDomains = []\<rparr> domains
               then (a, CertRefused 400 ''INVALID_DOMAIN'')
               else case sub of
                 None \<Rightarrow> (a, CertPanic)
               | Some who \<Rightarrow>
                   (case Generate lib issue cs now
                       \<lparr>gr_Domains = domains, gr_Provider = provider, gr_Options = no_options, gr_RequestedBy = who\<rparr> (ca_mgr a) of
                      (m, Inl e) \<Rightarrow> (a\<lparr>ca_mgr := m\<rparr>, CertRefused 400 ''CERT_GENERATION_FAILED'')
                    | (m, Inr c) \<Rightarrow>
                        (case upgrade_if_needed (cs 2) (a\<lparr>ca_mgr := m\<rparr>) of
                           (a1, False) \<Rightarrow> (a1, CertMade c False)
                         | (a1, True) \<Rightarrow>
                             (fst (notify_all sent \<lparr>cn_Reason = ''tls_enabled'', cn_Domain = [], cn_OldSPKI = [], cn_NewSPKI = [],
                                                    cn_BaseURL = to_https (ca_baseURL a1)\<rparr> a1), CertMade c True)))))"

definition handleListCertificates :: "cert_walk \<Rightarrow> subject_parser \<Rightarrow> string \<Rightarrow> cert_app \<Rightarrow> cert_answer" where
  "handleListCertificates order jwt auth a =
     (case jwt (extractToken auth) of
        None \<Rightarrow> CertRefused 401 ''UNAUTHORIZED'' | Some sub \<Rightarrow> CertsListed (cert_List order (ca_mgr a)))"

definition page_domain :: "string \<Rightarrow> string" where
  "page_domain path = TrimPrefix path ''/api/certificates/''"

definition handleGetCertificate :: "subject_parser \<Rightarrow> string \<Rightarrow> string \<Rightarrow> cert_app \<Rightarrow> cert_answer" where
  "handleGetCertificate jwt auth path a =
     (case jwt (extractToken auth) of
        None \<Rightarrow> CertRefused 401 ''UNAUTHORIZED''
      | Some sub \<Rightarrow>
          if page_domain path = [] then CertRefused 400 ''INVALID_DOMAIN''
          else (case cert_Get (page_domain path) (ca_mgr a) of
                  None \<Rightarrow> CertRefused 404 ''CERT_NOT_FOUND'' | Some c \<Rightarrow> CertShown c))"

definition handleDeleteCertificate ::
  "x509_lib \<Rightarrow> cert_walk \<Rightarrow> subject_parser \<Rightarrow> (nat \<Rightarrow> conn) \<Rightarrow> gotime \<Rightarrow> bool \<Rightarrow> string \<Rightarrow> string \<Rightarrow> cert_app \<Rightarrow> cert_app \<times> cert_answer" where
  "handleDeleteCertificate lib order jwt cs now sent auth path a =
     (case jwt (extractToken auth) of
        None \<Rightarrow> (a, CertRefused 401 ''UNAUTHORIZED'')
      | Some sub \<Rightarrow>
          (let d = page_domain path; m = ca_mgr a in
           if d = [] then (a, CertRefused 400 ''INVALID_DOMAIN'')
           else if IsActiveCertificate lib order cs now d m \<and> length (cert_List order m) \<le> 1 then (a, CertRefused 409 ''CERT_IN_USE'')
           else (let oldSPKI = (case cert_Get d m of None \<Rightarrow> [] | Some c \<Rightarrow> ct_Fingerprint c) in
             case DeleteCert (\<lambda>i. cs (i + 3)) now d m of
               (m', Some e) \<Rightarrow> (a\<lparr>ca_mgr := m'\<rparr>, CertRefused 500 ''CERT_DELETE_FAILED'')
             | (m', None) \<Rightarrow>
                 (let a1 = a\<lparr>ca_mgr := m'\<rparr> in
                  (if oldSPKI \<noteq> []
                   then fst (notify_all sent \<lparr>cn_Reason = ''certificate_deleted'', cn_Domain = d, cn_OldSPKI = oldSPKI, cn_NewSPKI = [],
                                              cn_BaseURL = []\<rparr> a1)
                   else a1, CertDeleted)))))"

definition handleRenewCertificate ::
  "x509_lib \<Rightarrow> issuance \<Rightarrow> subject_parser \<Rightarrow> (nat \<Rightarrow> conn) \<Rightarrow> gotime \<Rightarrow> bool \<Rightarrow> string \<Rightarrow> string option \<Rightarrow> cert_app \<Rightarrow>
   cert_app \<times> cert_answer" where
  "handleRenewCertificate lib issue jwt cs now sent auth body a =
     (case jwt (extractToken auth) of
        None \<Rightarrow> (a, CertRefused 401 ''UNAUTHORIZED'')
      | Some sub \<Rightarrow>
          (case body of
             None \<Rightarrow> (a, CertRefused 400 ''INVALID_REQUEST'')
           | Some d \<Rightarrow>
               if d = [] then (a, CertRefused 400 ''INVALID_DOMAIN'')
               else case sub of
                 None \<Rightarrow> (a, CertPanic)
               | Some who \<Rightarrow>
                   (case Renew lib issue cs now d who (ca_mgr a) of
                      (m, Inl FingerprintPanic) \<Rightarrow> (a\<lparr>ca_mgr := m\<rparr>, CertPanic)
                    | (m, Inl e) \<Rightarrow> (a\<lparr>ca_mgr := m\<rparr>, CertRefused 400 ''CERT_RENEWAL_FAILED'')
                    | (m, Inr r) \<Rightarrow>
                        (let a1 = a\<lparr>ca_mgr := m\<rparr> in
                         if ro_SPKIChanged r
                         then (case notify_all sent \<lparr>cn_Reason = ''certificate_rotated'', cn_Domain = d, cn_OldSPKI = ro_OldSPKI r,
                                                     cn_NewSPKI = ro_NewSPKI r, cn_BaseURL = []\<rparr> a1 of
                                 (a2, ok) \<Rightarrow> (a2, CertRenewed r (if ok then -1 else 0)))
                         else (a1, CertRenewed r 0)))))"

definition handleReplaceCertificate ::
  "x509_lib \<Rightarrow> subject_parser \<Rightarrow> (nat \<Rightarrow> conn) \<Rightarrow> gotime \<Rightarrow> bool \<Rightarrow> string \<Rightarrow> (string \<times> string \<times> string) option \<Rightarrow> cert_app \<Rightarrow>
   cert_app \<times> cert_answer" where
  "handleReplaceCertificate lib jwt cs now sent auth body a =
     (case jwt (extractToken auth) of
        None \<Rightarrow> (a, CertRefused 401 ''UNAUTHORIZED'')
      | Some sub \<Rightarrow>
          (case body of
             None \<Rightarrow> (a, CertRefused 400 ''INVALID_REQUEST'')
           | Some (d, certPEM, keyPEM) \<Rightarrow>
               if d = [] then (a, CertRefused 400 ''INVALID_DOMAIN'')
               else if certPEM = [] then (a, CertRefused 400 ''INVALID_CERTIFICATE'')
               else if keyPEM = [] then (a, CertRefused 400 ''INVALID_KEY'')
               else case sub of
                 None \<Rightarrow> (a, CertPanic)
               | Some who \<Rightarrow>
                   (case Replace lib cs now
                       \<lparr>rp_Domain = d, rp_CertificatePEM = certPEM, rp_PrivateKeyPEM = keyPEM, rp_RequestedBy = who\<rparr> (ca_mgr a) of
                      (m, Inl e) \<Rightarrow> (a\<lparr>ca_mgr := m\<rparr>, CertRefused 400 ''CERT_REPLACE_FAILED'')
                    | (m, Inr r) \<Rightarrow>
                        (case upgrade_if_needed (cs 3) (a\<lparr>ca_mgr := m\<rparr>) of
                           (a1, upgraded) \<Rightarrow>
                             if ro_SPKIChanged r \<or> upgraded
                             then (case notify_all sent \<lparr>cn_Reason = (if upgraded then ''tls_enabled'' else ''certificate_replaced''),
                                       cn_Domain = d, cn_OldSPKI = ro_OldSPKI r, cn_NewSPKI = ro_NewSPKI r, cn_BaseURL = ca_baseURL a1\<rparr> a1 of
                                     (a2, ok) \<Rightarrow> (a2, CertReplaced r (if ok then -1 else 0) upgraded))
                             else (a1, CertReplaced r 0 upgraded)))))"

subsection \<open>Suggested domains\<close>

definition hex_string :: "string \<Rightarrow> bool" where
  "hex_string s \<longleftrightarrow> list_all (\<lambda>c. (CHR ''0'' \<le> c \<and> c \<le> CHR ''9'') \<or> (CHR ''a'' \<le> c \<and> c \<le> CHR ''f'') \<or> (CHR ''A'' \<le> c \<and> c \<le> CHR ''F'')) s"

definition isValidLocalHostname :: "string \<Rightarrow> bool" where
  "isValidLocalHostname h \<longleftrightarrow>
     (if h = [] then False
      else if list_ex (HasSuffix (ToLower h)) [''.local'', ''.lan'', ''.home'', ''.internal''] then True
      else if length h \<ge> 12 \<and> hex_string h then False
      else list_ex (\<lambda>c. (CHR ''g'' \<le> c \<and> c \<le> CHR ''z'') \<or> (CHR ''G'' \<le> c \<and> c \<le> CHR ''Z'')) h \<or> length h < 8)"

text \<open>The host's name, if it is known, and the addresses of its interfaces with whether they are loopback; only IPv4 addresses are
  suggested.\<close>

definition getSuggestedDomains :: "string option \<Rightarrow> (ip \<times> string \<times> bool) list \<Rightarrow> string list" where
  "getSuggestedDomains hostname addrs =
     [''localhost''] @
     (case hostname of
        None \<Rightarrow> []
      | Some h \<Rightarrow>
          if h \<noteq> [] \<and> isValidLocalHostname h
          then [h] @ (if HasSuffix (ToLower h) ''.local'' then [] else [h @ ''.local'']) else []) @
     List.map_filter (\<lambda>(i, s, loopback). if loopback then None else case i of IPv4 p q r t \<Rightarrow> Some s | IPv6 g \<Rightarrow> None) addrs"

definition handleSuggestCertDomains ::
  "subject_parser \<Rightarrow> string \<Rightarrow> string option \<Rightarrow> (ip \<times> string \<times> bool) list \<Rightarrow> cert_answer" where
  "handleSuggestCertDomains jwt auth hostname addrs =
     (case jwt (extractToken auth) of
        None \<Rightarrow> CertRefused 401 ''UNAUTHORIZED'' | Some sub \<Rightarrow> DomainsSuggested (getSuggestedDomains hostname addrs))"

section \<open>What the pages keep\<close>

text \<open>Without a valid token no page changes anything.\<close>

lemma certificate_pages_need_token:
  assumes "jwt (extractToken auth) = None"
  shows "handleGenerateCertificate lib issue jwt cs now sent auth b1 a = (a, CertRefused 401 ''UNAUTHORIZED'')"
    and "handleDeleteCertificate lib order jwt cs now sent auth path a = (a, CertRefused 401 ''UNAUTHORIZED'')"
    and "handleRenewCertificate lib issue jwt cs now sent auth b2 a = (a, CertRefused 401 ''UNAUTHORIZED'')"
    and "handleReplaceCertificate lib jwt cs now sent auth b3 a = (a, CertRefused 401 ''UNAUTHORIZED'')"
  by (simp_all add: handleGenerateCertificate_def handleDeleteCertificate_def handleRenewCertificate_def
      handleReplaceCertificate_def assms)

text \<open>A page that reports a rotation has told the devices the old and the new pin.\<close>

lemma rotation_announced:
  assumes "handleRenewCertificate lib issue jwt cs now sent auth (Some d) a = (a', CertRenewed r n)"
    and "ca_notifier a" "ro_SPKIChanged r"
  shows "\<exists>x. ca_notices a' = ca_notices a @ [x] \<and> cn_Domain x = d \<and> cn_OldSPKI x = ro_OldSPKI r \<and> cn_NewSPKI x = ro_NewSPKI r \<and>
    cn_OldSPKI x \<noteq> cn_NewSPKI x"
proof -
  have "ro_SPKIChanged r \<longleftrightarrow> ro_OldSPKI r \<noteq> ro_NewSPKI r" if "Renew lib issue cs now d who m = (m', Inr r)" for who m m'
    using that by (auto simp: Renew_def Let_def split: if_splits sum.splits prod.splits)
  then show ?thesis
    using assms
    by (auto simp: handleRenewCertificate_def notify_all_def Let_def
        split: option.splits if_splits prod.splits sum.splits cert_error.splits)
qed

definition demo_cert_app :: "cert_manager \<Rightarrow> bool \<Rightarrow> cert_app" where
  "demo_cert_app m tls =
     \<lparr>ca_mgr = m, ca_baseURL = ''http://gate.lan'', ca_tlsEnabled = tls, ca_tlsUpgrade = False, ca_notifier = True, ca_notices = []\<rparr>"

definition demo_jwt :: subject_parser where
  "demo_jwt t = (if t = ''good'' then Some (Some ''phone'') else None)"

text \<open>Generating a certificate for a domain that has one changes the pin, and the devices are not told.\<close>

lemma regenerated_certificate_not_announced:
  "let m = fst (Replace demo_x509 works 0 \<lparr>rp_Domain = ''gate.lan'', rp_CertificatePEM = ''C:old.lan'', rp_PrivateKeyPEM = ''K:'', rp_RequestedBy = []\<rparr>
         (start_certs (Some empty_cert_db)));
       (a, r) = handleGenerateCertificate demo_x509 demo_issue demo_jwt works 1 True ''Bearer good'' (Some ([''gate.lan''], [])) (demo_cert_app m True)
   in (case r of CertMade c up \<Rightarrow> True | _ \<Rightarrow> False) \<and> ca_notices a = [] \<and>
      map_option ct_Fingerprint (cert_Get ''gate.lan'' (ca_mgr a)) \<noteq> map_option ct_Fingerprint (cert_Get ''gate.lan'' m)"
  by code_simp

text \<open>The notice of a replacement that turns TLS on has the address without TLS.\<close>

lemma replacement_announces_plain_address:
  "map (\<lambda>n. (cn_Reason n, cn_BaseURL n)) (ca_notices (fst (handleReplaceCertificate demo_x509 demo_jwt works 1 True ''Bearer good''
     (Some (''gate.lan'', ''C:gate.lan'', ''K:'')) (demo_cert_app (start_certs (Some empty_cert_db)) False)))) =
   [(''tls_enabled'', ''http://gate.lan'')]"
  by code_simp

text \<open>Any other certificate in memory, an expired one too, makes the active one deletable.\<close>

definition aging_x509 :: x509_lib where
  "aging_x509 =
     demo_x509\<lparr>xl_Parse := (\<lambda>d. map_option (\<lambda>x. if xi_SubjectCN x = ''old.lan'' then x\<lparr>xi_NotAfter := 10\<rparr> else x) (xl_Parse demo_x509 d))\<rparr>"

lemma last_valid_certificate_deleted:
  "let m = run_certs aging_x509 [OpGenerate demo_issue works 0 (demo_generate ''old.lan''), OpGenerate demo_issue works 0 (demo_generate ''gate.lan'')]
         (start_certs (Some empty_cert_db));
       (a, r) = handleDeleteCertificate aging_x509 id demo_jwt works 20 True ''Bearer good'' ''/api/certificates/gate.lan'' (demo_cert_app m True)
   in r = CertDeleted \<and> snd (GetCertificate aging_x509 id works 20 ''gate.lan'' (ca_mgr a)) = None"
  by code_simp

end
