(* ===== verification/Runtimes.thy ===== *)
theory Runtimes
  imports Complex_Main Numbers
begin

text \<open>
  Container runtimes (\<open>internal/runtime\<close>): the types and errors, the registry, and the two runtimes over what the Docker
  daemon and the Kubernetes API answer.  The clients are parameters: functions of a state \<open>'w\<close> of the world outside, which
  the operations that change it return.  A float64 is an exact rational here; its rounding is not modelled.
\<close>

section \<open>Types\<close>

definition RuntimeDocker :: string where "RuntimeDocker = ''docker''"
definition RuntimeKubernetes :: string where "RuntimeKubernetes = ''kubernetes''"

record container_id =
  id_Runtime :: string
  id_ID :: string
  id_Namespace :: string

definition id_String :: "container_id \<Rightarrow> string" where
  "id_String c =
     (if id_Namespace c \<noteq> [] then id_Runtime c @ ''/'' @ id_Namespace c @ ''/'' @ id_ID c
      else id_Runtime c @ ''/'' @ id_ID c)"

definition short_id :: "string \<Rightarrow> string" where
  "short_id s = (if length s > 12 then take 12 s else s)"

definition ShortID :: "container_id \<Rightarrow> string" where
  "ShortID c = short_id (id_ID c)"

definition StateRunning :: string where "StateRunning = ''running''"
definition StateStopped :: string where "StateStopped = ''stopped''"
definition StatePaused :: string where "StatePaused = ''paused''"
definition StateRestarting :: string where "StateRestarting = ''restarting''"
definition StatePending :: string where "StatePending = ''pending''"
definition StateFailed :: string where "StateFailed = ''failed''"
definition StateCreated :: string where "StateCreated = ''created''"
definition StateExited :: string where "StateExited = ''exited''"

record rt_port =
  pb_IP :: string
  pb_PrivatePort :: int
  pb_PublicPort :: int
  pb_Protocol :: string

record rt_container =
  rc_ID :: container_id
  rc_Name :: string
  rc_Image :: string
  rc_State :: string
  rc_Status :: string
  rc_Created :: int
  rc_Ports :: "rt_port list"
  rc_Labels :: "(string, string) gomap"

record rt_stats =
  st_ID :: container_id
  st_CPUUsage :: rat
  st_CoresUsed :: rat
  st_TotalCores :: rat
  st_MemUsage :: rat
  st_MemUsed :: "64 word"
  st_MemLimit :: "64 word"
  st_MemAvailable :: "64 word"
  st_RxBytes :: "64 word"
  st_TxBytes :: "64 word"
  st_Timestamp :: int

record rt_mount =
  rm_Type :: string
  rm_Source :: string
  rm_Destination :: string
  rm_ReadOnly :: bool

text \<open>Of a network of a container its address, gateway and ID.\<close>

record network_settings =
  nt_IPAddress :: string
  nt_Gateway :: string
  nt_Networks :: "(string, string \<times> string \<times> string) gomap"

record rt_config =
  rg_Env :: "string list"
  rg_Cmd :: "string list"
  rg_WorkingDir :: string
  rg_User :: string

text \<open>Whether the raw answer of the runtime is kept, not the answer itself.\<close>

record rt_details =
  rd_Container :: rt_container
  rd_Config :: rt_config
  rd_Network :: "network_settings option"
  rd_Mounts :: "rt_mount list"
  rd_Raw :: bool

record list_options =
  lo_All :: bool
  lo_Namespace :: string

section \<open>Errors\<close>

text \<open>The errors of the package, errors of other packages with their text, and the two ways of wrapping.\<close>

datatype rt_error =
    ErrContainerNotFound
  | ErrRuntimeUnavailable
  | ErrMetricsUnavailable
  | ErrRuntimeAlreadyRegistered
  | ErrNilRuntime
  | Foreign string
  | Suffixed rt_error string
  | RuntimeError string string "container_id option" rt_error

primrec Error :: "rt_error \<Rightarrow> string" where
  "Error ErrContainerNotFound = ''container not found''"
| "Error ErrRuntimeUnavailable = ''runtime unavailable''"
| "Error ErrMetricsUnavailable = ''metrics unavailable''"
| "Error ErrRuntimeAlreadyRegistered = ''runtime already registered''"
| "Error ErrNilRuntime = ''runtime cannot be nil''"
| "Error (Foreign s) = s"
| "Error (Suffixed e s) = Error e @ '': '' @ s"
| "Error (RuntimeError rt op c e) =
     (case c of None \<Rightarrow> rt @ '': '' @ op @ '': '' @ Error e
      | Some i \<Rightarrow> rt @ '': '' @ op @ '' on '' @ id_String i @ '': '' @ Error e)"

primrec Unwrap :: "rt_error \<Rightarrow> rt_error option" where
  "Unwrap ErrContainerNotFound = None"
| "Unwrap ErrRuntimeUnavailable = None"
| "Unwrap ErrMetricsUnavailable = None"
| "Unwrap ErrRuntimeAlreadyRegistered = None"
| "Unwrap ErrNilRuntime = None"
| "Unwrap (Foreign s) = None"
| "Unwrap (Suffixed e s) = Some e"
| "Unwrap (RuntimeError rt op c e) = Some e"

text \<open>\<open>errors.Is\<close> for the errors of the package.\<close>

primrec errors_Is :: "rt_error \<Rightarrow> rt_error \<Rightarrow> bool" where
  "errors_Is ErrContainerNotFound t \<longleftrightarrow> t = ErrContainerNotFound"
| "errors_Is ErrRuntimeUnavailable t \<longleftrightarrow> t = ErrRuntimeUnavailable"
| "errors_Is ErrMetricsUnavailable t \<longleftrightarrow> t = ErrMetricsUnavailable"
| "errors_Is ErrRuntimeAlreadyRegistered t \<longleftrightarrow> t = ErrRuntimeAlreadyRegistered"
| "errors_Is ErrNilRuntime t \<longleftrightarrow> t = ErrNilRuntime"
| "errors_Is (Foreign s) t \<longleftrightarrow> False"
| "errors_Is (Suffixed e s) t \<longleftrightarrow> errors_Is e t"
| "errors_Is (RuntimeError rt op c e) t \<longleftrightarrow> errors_Is e t"

definition NewRuntimeError :: "string \<Rightarrow> string \<Rightarrow> rt_error \<Rightarrow> rt_error" where
  "NewRuntimeError rt op e = RuntimeError rt op None e"

definition NewContainerError :: "string \<Rightarrow> string \<Rightarrow> container_id \<Rightarrow> rt_error \<Rightarrow> rt_error" where
  "NewContainerError rt op i e = RuntimeError rt op (Some i) e"

definition IsNotFoundError :: "rt_error \<Rightarrow> bool" where
  "IsNotFoundError e = errors_Is e ErrContainerNotFound"

definition IsUnavailableError :: "rt_error \<Rightarrow> bool" where
  "IsUnavailableError e \<longleftrightarrow> errors_Is e ErrRuntimeUnavailable \<or> errors_Is e ErrMetricsUnavailable"

text \<open>The texts by which a missing container is recognised.\<close>

definition not_found_text :: "string \<Rightarrow> bool" where
  "not_found_text s \<longleftrightarrow> Contains (ToLower s) ''no such container'' \<or> Contains (ToLower s) ''not found''"

section \<open>Runtimes and their registry\<close>

record 'w runtime =
  rt_Name :: string
  rt_Type :: string
  rt_Ping :: "'w \<Rightarrow> rt_error option"
  rt_Close :: "'w \<Rightarrow> 'w \<times> rt_error option"
  rt_List :: "list_options \<Rightarrow> 'w \<Rightarrow> rt_error + rt_container list"
  rt_Start :: "container_id \<Rightarrow> 'w \<Rightarrow> 'w \<times> rt_error option"
  rt_Stop :: "container_id \<Rightarrow> duration option \<Rightarrow> 'w \<Rightarrow> 'w \<times> rt_error option"
  rt_Restart :: "container_id \<Rightarrow> duration option \<Rightarrow> 'w \<Rightarrow> 'w \<times> rt_error option"
  rt_GetStats :: "container_id \<Rightarrow> 'w \<Rightarrow> rt_error + rt_stats"
  rt_Inspect :: "container_id \<Rightarrow> 'w \<Rightarrow> rt_error + rt_details"

record 'w rt_registry =
  rr_runtimes :: "(string, 'w runtime) gomap"
  rr_primary :: string

definition rt_NewRegistry :: "'w rt_registry" where
  "rt_NewRegistry = \<lparr>rr_runtimes = [], rr_primary = []\<rparr>"

definition rt_Register :: "'w runtime option \<Rightarrow> 'w rt_registry \<Rightarrow> 'w rt_registry \<times> rt_error option" where
  "rt_Register rt r =
     (case rt of
        None \<Rightarrow> (r, Some ErrNilRuntime)
      | Some x \<Rightarrow>
          if has (rr_runtimes r) (rt_Type x) then (r, Some (Suffixed ErrRuntimeAlreadyRegistered (rt_Type x)))
          else (r\<lparr>rr_runtimes := put (rt_Type x) x (rr_runtimes r),
                  rr_primary := (if rr_primary r = [] then rt_Type x else rr_primary r)\<rparr>, None))"

definition rt_Get :: "string \<Rightarrow> 'w rt_registry \<Rightarrow> rt_error + 'w runtime" where
  "rt_Get t r = (case get (rr_runtimes r) t of None \<Rightarrow> Inl (Suffixed ErrRuntimeUnavailable t) | Some x \<Rightarrow> Inr x)"

definition GetPrimary :: "'w rt_registry \<Rightarrow> 'w runtime option" where
  "GetPrimary r = (if rr_primary r = [] then None else get (rr_runtimes r) (rr_primary r))"

definition SetPrimary :: "string \<Rightarrow> 'w rt_registry \<Rightarrow> 'w rt_registry \<times> rt_error option" where
  "SetPrimary t r =
     (if \<not> has (rr_runtimes r) t then (r, Some (Suffixed ErrRuntimeUnavailable t)) else (r\<lparr>rr_primary := t\<rparr>, None))"

definition SelectForContainer :: "container_id \<Rightarrow> 'w rt_registry \<Rightarrow> rt_error + 'w runtime" where
  "SelectForContainer i r = rt_Get (id_Runtime i) r"

definition Available :: "'w rt_registry \<Rightarrow> string list" where
  "Available r = map fst (rr_runtimes r)"

text \<open>Closing goes on after an error; the answer says whether there was one.\<close>

fun close_all :: "'w runtime list \<Rightarrow> 'w \<Rightarrow> 'w \<times> bool" where
  "close_all [] w = (w, True)"
| "close_all (x # xs) w =
     (case rt_Close x w of (w1, e) \<Rightarrow> case close_all xs w1 of (w2, ok) \<Rightarrow> (w2, e = None \<and> ok))"

definition rt_Close_all :: "'w rt_registry \<Rightarrow> 'w \<Rightarrow> 'w \<times> bool" where
  "rt_Close_all r w = close_all (map snd (rr_runtimes r)) w"

section \<open>The Docker runtime\<close>

text \<open>What the daemon's list says of a container, and its answer to an inspection.\<close>

record docker_item =
  di_ID :: string
  di_Names :: "string list"
  di_Image :: string
  di_State :: string
  di_Status :: string
  di_Created :: int
  di_Ports :: "(string \<times> int \<times> int \<times> string) list"
  di_Labels :: "(string, string) gomap"

record docker_json =
  dj_ID :: string
  dj_Name :: string
  dj_Config :: "(string \<times> rt_config \<times> (string, string) gomap) option"
  dj_Status :: "string option"
  dj_Network :: "network_settings option"
  dj_Mounts :: "(string \<times> string \<times> string \<times> bool) list"

record docker_sample =
  ds_TotalUsage :: "64 word"
  ds_Percpu :: nat
  ds_SystemUsage :: "64 word"
  ds_MemUsage :: "64 word"
  ds_MemLimit :: "64 word"
  ds_Networks :: "(string, 64 word \<times> 64 word) gomap"

text \<open>A failed call gives the text of its error.  Statistics are a stream, of which two samples are read:
  each is decoded or the stream fails there.\<close>

record 'w docker_client =
  dk_Ping :: "'w \<Rightarrow> bool"
  dk_Close :: "'w \<Rightarrow> 'w \<times> string option"
  dk_List :: "bool \<Rightarrow> 'w \<Rightarrow> string + docker_item list"
  dk_Start :: "string \<Rightarrow> 'w \<Rightarrow> 'w \<times> string option"
  dk_Stop :: "string \<Rightarrow> int option \<Rightarrow> 'w \<Rightarrow> 'w \<times> string option"
  dk_Restart :: "string \<Rightarrow> int option \<Rightarrow> 'w \<Rightarrow> 'w \<times> string option"
  dk_Inspect :: "string \<Rightarrow> 'w \<Rightarrow> string + docker_json"
  dk_Stats :: "string \<Rightarrow> 'w \<Rightarrow> string + (string + docker_sample) \<times> (string + docker_sample)"
  dk_now :: "'w \<Rightarrow> int"

definition convertDockerState :: "string \<Rightarrow> string" where
  "convertDockerState state =
     (let s = ToLower state in
      if s = ''running'' then StateRunning else if s = ''created'' then StateCreated
      else if s = ''paused'' then StatePaused else if s = ''restarting'' then StateRestarting
      else if s = ''exited'' then StateExited else StateStopped)"

definition docker_name :: "string list \<Rightarrow> string" where
  "docker_name names = (case names of [] \<Rightarrow> ''unknown'' | n # ns \<Rightarrow> TrimPrefix n ''/'')"

definition convertContainer :: "docker_item \<Rightarrow> rt_container" where
  "convertContainer c =
     \<lparr>rc_ID = \<lparr>id_Runtime = RuntimeDocker, id_ID = di_ID c, id_Namespace = []\<rparr>,
      rc_Name = docker_name (di_Names c), rc_Image = di_Image c, rc_State = convertDockerState (di_State c),
      rc_Status = di_Status c, rc_Created = di_Created c,
      rc_Ports = map (\<lambda>(ip, priv, pub, ty). \<lparr>pb_IP = ip, pb_PrivatePort = priv, pb_PublicPort = pub, pb_Protocol = ty\<rparr>) (di_Ports c),
      rc_Labels = di_Labels c\<rparr>"

definition no_config :: rt_config where
  "no_config = \<lparr>rg_Env = [], rg_Cmd = [], rg_WorkingDir = [], rg_User = []\<rparr>"

definition convertContainerDetails :: "docker_json \<Rightarrow> rt_details" where
  "convertContainerDetails c =
     \<lparr>rd_Container =
        \<lparr>rc_ID = \<lparr>id_Runtime = RuntimeDocker, id_ID = dj_ID c, id_Namespace = []\<rparr>,
         rc_Name = TrimPrefix (dj_Name c) ''/'',
         rc_Image = (case dj_Config c of None \<Rightarrow> [] | Some (img, cfg, labels) \<Rightarrow> img),
         rc_State = (case dj_Status c of None \<Rightarrow> [] | Some s \<Rightarrow> convertDockerState s),
         rc_Status = (case dj_Status c of None \<Rightarrow> [] | Some s \<Rightarrow> s),
         rc_Created = 0, rc_Ports = [],
         rc_Labels = (case dj_Config c of None \<Rightarrow> [] | Some (img, cfg, labels) \<Rightarrow> labels)\<rparr>,
      rd_Config = (case dj_Config c of None \<Rightarrow> no_config | Some (img, cfg, labels) \<Rightarrow> cfg),
      rd_Network = dj_Network c,
      rd_Mounts = map (\<lambda>(ty, src, dst, rw). \<lparr>rm_Type = ty, rm_Source = src, rm_Destination = dst, rm_ReadOnly = \<not> rw\<rparr>) (dj_Mounts c),
      rd_Raw = True\<rparr>"

text \<open>Differences of counters are taken on 64-bit words, before they become floats.\<close>

definition float64 :: "64 word \<Rightarrow> rat" where "float64 x = of_nat (unat x)"

definition cpu_share :: "64 word \<Rightarrow> 64 word \<Rightarrow> rat" where
  "cpu_share cpuDelta systemDelta =
     (if float64 systemDelta > 0 \<and> float64 cpuDelta > 0 then float64 cpuDelta / float64 systemDelta else 0)"

definition memory_available :: "64 word \<Rightarrow> 64 word \<Rightarrow> 64 word" where
  "memory_available limit usage = (if limit > 0 \<and> limit > usage then limit - usage else 0)"

definition calculateStats :: "int \<Rightarrow> container_id \<Rightarrow> docker_sample \<Rightarrow> docker_sample \<Rightarrow> rt_stats" where
  "calculateStats now i prev cur =
     (let share = cpu_share (ds_TotalUsage cur - ds_TotalUsage prev) (ds_SystemUsage cur - ds_SystemUsage prev);
          cpus = (if ds_Percpu cur = 0 then 1 else ds_Percpu cur)
      in \<lparr>st_ID = i, st_CPUUsage = share * of_nat cpus * 100, st_CoresUsed = share * of_nat cpus, st_TotalCores = of_nat cpus,
          st_MemUsage = (if ds_MemLimit cur > 0 then float64 (ds_MemUsage cur) / float64 (ds_MemLimit cur) * 100 else 0),
          st_MemUsed = ds_MemUsage cur, st_MemLimit = ds_MemLimit cur,
          st_MemAvailable = memory_available (ds_MemLimit cur) (ds_MemUsage cur),
          st_RxBytes = sum_list (map (fst \<circ> snd) (ds_Networks cur)),
          st_TxBytes = sum_list (map (snd \<circ> snd) (ds_Networks cur)), st_Timestamp = now\<rparr>)"

definition docker_error :: "string \<Rightarrow> container_id \<Rightarrow> string \<Rightarrow> rt_error" where
  "docker_error op i msg =
     NewContainerError RuntimeDocker op i (if not_found_text msg then ErrContainerNotFound else Foreign msg)"

definition docker_List :: "'w docker_client \<Rightarrow> list_options \<Rightarrow> 'w \<Rightarrow> rt_error + rt_container list" where
  "docker_List cl opts w =
     (case dk_List cl (lo_All opts) w of
        Inl msg \<Rightarrow> Inl (NewRuntimeError RuntimeDocker ''list'' (Foreign msg))
      | Inr cs \<Rightarrow> Inr (map convertContainer cs))"

definition docker_Start :: "'w docker_client \<Rightarrow> container_id \<Rightarrow> 'w \<Rightarrow> 'w \<times> rt_error option" where
  "docker_Start cl i w = (case dk_Start cl (id_ID i) w of (w1, e) \<Rightarrow> (w1, map_option (docker_error ''start'' i) e))"

text \<open>Whole seconds of a duration, towards zero.\<close>

definition whole_seconds :: "duration \<Rightarrow> int" where
  "whole_seconds d = (if d < 0 then - ((- d) div second) else d div second)"

definition docker_Stop :: "'w docker_client \<Rightarrow> container_id \<Rightarrow> duration option \<Rightarrow> 'w \<Rightarrow> 'w \<times> rt_error option" where
  "docker_Stop cl i t w =
     (case dk_Stop cl (id_ID i) (map_option whole_seconds t) w of (w1, e) \<Rightarrow> (w1, map_option (docker_error ''stop'' i) e))"

definition docker_Restart :: "'w docker_client \<Rightarrow> container_id \<Rightarrow> duration option \<Rightarrow> 'w \<Rightarrow> 'w \<times> rt_error option" where
  "docker_Restart cl i t w =
     (case dk_Restart cl (id_ID i) (map_option whole_seconds t) w of (w1, e) \<Rightarrow> (w1, map_option (docker_error ''restart'' i) e))"

definition docker_Inspect :: "'w docker_client \<Rightarrow> container_id \<Rightarrow> 'w \<Rightarrow> rt_error + rt_details" where
  "docker_Inspect cl i w =
     (case dk_Inspect cl (id_ID i) w of Inl msg \<Rightarrow> Inl (docker_error ''inspect'' i msg) | Inr c \<Rightarrow> Inr (convertContainerDetails c))"

definition docker_GetStats :: "'w docker_client \<Rightarrow> container_id \<Rightarrow> 'w \<Rightarrow> rt_error + rt_stats" where
  "docker_GetStats cl i w =
     (case dk_Stats cl (id_ID i) w of
        Inl msg \<Rightarrow> Inl (docker_error ''stats'' i msg)
      | Inr (Inl msg, _) \<Rightarrow> Inl (NewContainerError RuntimeDocker ''stats'' i (Foreign msg))
      | Inr (Inr prev, Inl msg) \<Rightarrow> Inl (NewContainerError RuntimeDocker ''stats'' i (Foreign msg))
      | Inr (Inr prev, Inr cur) \<Rightarrow> Inr (calculateStats (dk_now cl w) i prev cur))"

definition docker_runtime :: "'w docker_client \<Rightarrow> 'w runtime" where
  "docker_runtime cl =
     \<lparr>rt_Name = ''Docker'', rt_Type = RuntimeDocker,
      rt_Ping = (\<lambda>w. if dk_Ping cl w then None else Some (NewRuntimeError RuntimeDocker ''ping'' ErrRuntimeUnavailable)),
      rt_Close = (\<lambda>w. case dk_Close cl w of (w1, e) \<Rightarrow> (w1, map_option Foreign e)),
      rt_List = docker_List cl, rt_Start = docker_Start cl, rt_Stop = docker_Stop cl, rt_Restart = docker_Restart cl,
      rt_GetStats = docker_GetStats cl, rt_Inspect = docker_Inspect cl\<rparr>"

text \<open>Statistics of several containers: those that fail are left out.\<close>

definition GetBatchStats :: "'w runtime \<Rightarrow> container_id list \<Rightarrow> 'w \<Rightarrow> rt_stats list" where
  "GetBatchStats rt is w = List.map_filter (\<lambda>i. case rt_GetStats rt i w of Inl e \<Rightarrow> None | Inr s \<Rightarrow> Some s) is"

section \<open>The Kubernetes runtime\<close>

record k8s_volume_mount =
  vm_Name :: string
  vm_Path :: string
  vm_ReadOnly :: bool

text \<open>Of a variable: name, value and whether it comes from elsewhere; limits are 0 when there are none.\<close>

record pod_container =
  px_Image :: string
  px_Ports :: "(int \<times> string) list"
  px_Env :: "(string \<times> string \<times> bool) list"
  px_Command :: "string list"
  px_WorkingDir :: string
  px_Mounts :: "k8s_volume_mount list"
  px_CPULimit :: int
  px_MemLimit :: int

datatype volume_kind = Claim string | ConfigMap string | Secret string | EmptyDir | HostPath string | OtherVolume

record container_status =
  cst_Ready :: bool
  cst_Waiting :: "string option"
  cst_Terminated :: "string option"

text \<open>An owner is its kind and name.\<close>

record k8s_pod =
  pod_Name :: string
  pod_Namespace :: string
  pod_Owners :: "(string \<times> string) list"
  pod_Phase :: string
  pod_Created :: int
  pod_Labels :: "(string, string) gomap"
  pod_Containers :: "pod_container list"
  pod_Statuses :: "container_status list"
  pod_IP :: string
  pod_Volumes :: "(string \<times> volume_kind) list"

record k8s_deployment =
  dep_Name :: string
  dep_Namespace :: string
  dep_Replicas :: "int option"

record api_error =
  ae_NotFound :: bool
  ae_Text :: string

text \<open>The API server: the first argument is the namespace.  Of a replica set only its owners are read, of metrics the
  milli-cores and bytes of each container; there may be no metrics server.\<close>

record 'w k8s_client =
  kc_Ping :: "'w \<Rightarrow> bool"
  kc_ListPods :: "string \<Rightarrow> 'w \<Rightarrow> api_error + k8s_pod list"
  kc_GetPod :: "string \<Rightarrow> string \<Rightarrow> 'w \<Rightarrow> api_error + k8s_pod"
  kc_DeletePod :: "string \<Rightarrow> string \<Rightarrow> 'w \<Rightarrow> 'w \<times> api_error option"
  kc_GetReplicaSet :: "string \<Rightarrow> string \<Rightarrow> 'w \<Rightarrow> api_error + (string \<times> string) list"
  kc_GetDeployment :: "string \<Rightarrow> string \<Rightarrow> 'w \<Rightarrow> api_error + k8s_deployment"
  kc_UpdateDeployment :: "k8s_deployment \<Rightarrow> 'w \<Rightarrow> 'w \<times> api_error option"
  kc_PodMetrics :: "(string \<Rightarrow> string \<Rightarrow> 'w \<Rightarrow> api_error + (int \<times> int) list) option"
  kc_now :: "'w \<Rightarrow> int"

definition PodRunning :: string where "PodRunning = ''Running''"

definition convertPodPhase :: "string \<Rightarrow> string" where
  "convertPodPhase phase =
     (if phase = PodRunning then StateRunning else if phase = ''Pending'' then StatePending
      else if phase = ''Failed'' then StateFailed else StateStopped)"

fun waiting_reason :: "container_status list \<Rightarrow> string option" where
  "waiting_reason [] = None"
| "waiting_reason (cs # r) =
     (case cst_Waiting cs of Some reason \<Rightarrow> Some reason
      | None \<Rightarrow> (case cst_Terminated cs of Some reason \<Rightarrow> Some (''Terminated: '' @ reason) | None \<Rightarrow> waiting_reason r))"

definition buildPodStatus :: "k8s_pod \<Rightarrow> string" where
  "buildPodStatus p =
     (if pod_Phase p = PodRunning
      then ''Running ('' @ Itoa (int (length (filter cst_Ready (pod_Statuses p)))) @ ''/'' @ Itoa (int (length (pod_Statuses p))) @ '' ready)''
      else case waiting_reason (pod_Statuses p) of Some s \<Rightarrow> s | None \<Rightarrow> pod_Phase p)"

definition convertPod :: "k8s_pod \<Rightarrow> rt_container" where
  "convertPod p =
     \<lparr>rc_ID = \<lparr>id_Runtime = RuntimeKubernetes, id_ID = pod_Name p, id_Namespace = pod_Namespace p\<rparr>,
      rc_Name = pod_Name p, rc_Image = (case pod_Containers p of [] \<Rightarrow> [] | c # cs \<Rightarrow> px_Image c),
      rc_State = convertPodPhase (pod_Phase p), rc_Status = buildPodStatus p, rc_Created = pod_Created p,
      rc_Ports = concat (map (\<lambda>c. map (\<lambda>(port, proto). \<lparr>pb_IP = [], pb_PrivatePort = port, pb_PublicPort = 0,
                                                            pb_Protocol = proto\<rparr>) (px_Ports c)) (pod_Containers p)),
      rc_Labels = pod_Labels p\<rparr>"

definition getVolumeType :: "string \<times> volume_kind \<Rightarrow> string" where
  "getVolumeType v =
     (case snd v of Claim n \<Rightarrow> ''persistentVolumeClaim'' | ConfigMap n \<Rightarrow> ''configMap'' | Secret n \<Rightarrow> ''secret''
      | EmptyDir \<Rightarrow> ''emptyDir'' | HostPath n \<Rightarrow> ''hostPath'' | OtherVolume \<Rightarrow> ''unknown'')"

definition getVolumeSource :: "string \<times> volume_kind \<Rightarrow> string" where
  "getVolumeSource v =
     (case snd v of Claim n \<Rightarrow> n | ConfigMap n \<Rightarrow> n | Secret n \<Rightarrow> n | HostPath n \<Rightarrow> n | _ \<Rightarrow> fst v)"

text \<open>Each container that mounts the volume sets the destination, by its first mount; the last one stays.\<close>

fun volume_mount :: "string \<Rightarrow> pod_container list \<Rightarrow> string \<times> bool \<Rightarrow> string \<times> bool" where
  "volume_mount n [] m = m"
| "volume_mount n (c # cs) m =
     volume_mount n cs (case find (\<lambda>v. vm_Name v = n) (px_Mounts c) of None \<Rightarrow> m | Some v \<Rightarrow> (vm_Path v, vm_ReadOnly v))"

definition pod_env :: "(string \<times> string \<times> bool) list \<Rightarrow> string list" where
  "pod_env es =
     List.map_filter (\<lambda>(n, v, from). if v \<noteq> [] then Some (n @ ''='' @ v) else if from then Some (n @ ''=(from secret/configmap)'') else None) es"

definition convertPodDetails :: "k8s_pod \<Rightarrow> rt_details" where
  "convertPodDetails p =
     \<lparr>rd_Container = convertPod p,
      rd_Config = (case pod_Containers p of [] \<Rightarrow> no_config
         | c # cs \<Rightarrow> \<lparr>rg_Env = pod_env (px_Env c), rg_Cmd = px_Command c, rg_WorkingDir = px_WorkingDir c, rg_User = []\<rparr>),
      rd_Network = Some \<lparr>nt_IPAddress = pod_IP p, nt_Gateway = [], nt_Networks = []\<rparr>,
      rd_Mounts = map (\<lambda>v. case volume_mount (fst v) (pod_Containers p) ([], False) of
          (dst, ro) \<Rightarrow> \<lparr>rm_Type = getVolumeType v, rm_Source = getVolumeSource v, rm_Destination = dst, rm_ReadOnly = ro\<rparr>) (pod_Volumes p),
      rd_Raw = True\<rparr>"

definition owner_of :: "string \<Rightarrow> (string \<times> string) list \<Rightarrow> string option" where
  "owner_of kind owners = map_option snd (find (\<lambda>(k, n). k = kind) owners)"

definition owner_deployment :: "'w k8s_client \<Rightarrow> string \<Rightarrow> (string \<times> string) list \<Rightarrow> 'w \<Rightarrow> api_error + k8s_deployment option" where
  "owner_deployment cl ns owners w =
     (case owner_of ''Deployment'' owners of
        None \<Rightarrow> Inr None
      | Some n \<Rightarrow> (case kc_GetDeployment cl ns n w of Inl e \<Rightarrow> Inl e | Inr d \<Rightarrow> Inr (Some d)))"

definition findOwnerDeployment :: "'w k8s_client \<Rightarrow> k8s_pod \<Rightarrow> 'w \<Rightarrow> api_error + k8s_deployment option" where
  "findOwnerDeployment cl p w =
     (case owner_of ''ReplicaSet'' (pod_Owners p) of
        None \<Rightarrow> owner_deployment cl (pod_Namespace p) (pod_Owners p) w
      | Some rs \<Rightarrow>
          if rs = [] then owner_deployment cl (pod_Namespace p) (pod_Owners p) w
          else (case kc_GetReplicaSet cl (pod_Namespace p) rs w of
                  Inl e \<Rightarrow> Inl e
                | Inr owners \<Rightarrow> owner_deployment cl (pod_Namespace p) owners w))"

definition k8s_error :: "string \<Rightarrow> container_id \<Rightarrow> api_error \<Rightarrow> rt_error" where
  "k8s_error op i e =
     NewContainerError RuntimeKubernetes op i (if ae_NotFound e then ErrContainerNotFound else Foreign (ae_Text e))"

text \<open>An error where a missing object is not told apart.\<close>

definition k8s_failure :: "string \<Rightarrow> container_id \<Rightarrow> api_error \<Rightarrow> rt_error" where
  "k8s_failure op i e = NewContainerError RuntimeKubernetes op i (Foreign (ae_Text e))"

definition kubernetes_List :: "'w k8s_client \<Rightarrow> list_options \<Rightarrow> 'w \<Rightarrow> rt_error + rt_container list" where
  "kubernetes_List cl opts w =
     (case kc_ListPods cl (lo_Namespace opts) w of
        Inl e \<Rightarrow> Inl (NewRuntimeError RuntimeKubernetes ''list'' (Foreign (ae_Text e)))
      | Inr pods \<Rightarrow> Inr (map convertPod (filter (\<lambda>p. lo_All opts \<or> pod_Phase p = PodRunning) pods)))"

definition scale_deployment :: "'w k8s_client \<Rightarrow> string \<Rightarrow> container_id \<Rightarrow> k8s_deployment \<Rightarrow> int \<Rightarrow> 'w \<Rightarrow> 'w \<times> rt_error option" where
  "scale_deployment cl op i d n w =
     (case kc_UpdateDeployment cl (d\<lparr>dep_Replicas := Some n\<rparr>) w of (w1, e) \<Rightarrow> (w1, map_option (k8s_failure op i) e))"

definition kubernetes_Start :: "'w k8s_client \<Rightarrow> container_id \<Rightarrow> 'w \<Rightarrow> 'w \<times> rt_error option" where
  "kubernetes_Start cl i w =
     (case kc_GetPod cl (id_Namespace i) (id_ID i) w of
        Inl e \<Rightarrow> (w, Some (k8s_error ''start'' i e))
      | Inr p \<Rightarrow>
          (case findOwnerDeployment cl p w of
             Inl e \<Rightarrow> (w, Some (k8s_failure ''start'' i e))
           | Inr None \<Rightarrow>
               (w, Some (NewContainerError RuntimeKubernetes ''start'' i (Foreign ''pod has no deployment owner, cannot scale_deployment'')))
           | Inr (Some d) \<Rightarrow> scale_deployment cl ''start'' i d 1 w))"

definition kubernetes_Stop :: "'w k8s_client \<Rightarrow> container_id \<Rightarrow> duration option \<Rightarrow> 'w \<Rightarrow> 'w \<times> rt_error option" where
  "kubernetes_Stop cl i timeout w =
     (case kc_GetPod cl (id_Namespace i) (id_ID i) w of
        Inl e \<Rightarrow> (w, Some (k8s_error ''stop'' i e))
      | Inr p \<Rightarrow>
          (case findOwnerDeployment cl p w of
             Inl e \<Rightarrow> (w, Some (k8s_failure ''stop'' i e))
           | Inr None \<Rightarrow>
               (case kc_DeletePod cl (id_Namespace i) (id_ID i) w of (w1, e) \<Rightarrow> (w1, map_option (k8s_failure ''stop'' i) e))
           | Inr (Some d) \<Rightarrow> scale_deployment cl ''stop'' i d 0 w))"

definition kubernetes_Restart :: "'w k8s_client \<Rightarrow> container_id \<Rightarrow> duration option \<Rightarrow> 'w \<Rightarrow> 'w \<times> rt_error option" where
  "kubernetes_Restart cl i timeout w =
     (case kc_DeletePod cl (id_Namespace i) (id_ID i) w of (w1, e) \<Rightarrow> (w1, map_option (k8s_error ''restart'' i) e))"

definition kubernetes_Inspect :: "'w k8s_client \<Rightarrow> container_id \<Rightarrow> 'w \<Rightarrow> rt_error + rt_details" where
  "kubernetes_Inspect cl i w =
     (case kc_GetPod cl (id_Namespace i) (id_ID i) w of Inl e \<Rightarrow> Inl (k8s_error ''inspect'' i e) | Inr p \<Rightarrow> Inr (convertPodDetails p))"

definition int64_sum :: "int list \<Rightarrow> int" where "int64_sum xs = wrap64 (sum_list xs)"

definition pod_stats :: "int \<Rightarrow> container_id \<Rightarrow> k8s_pod \<Rightarrow> (int \<times> int) list \<Rightarrow> rt_stats" where
  "pod_stats now i p ms =
     (let cpu = int64_sum (map fst ms); mem = int64_sum (map snd ms);
          cpuLimit = int64_sum (map px_CPULimit (pod_Containers p)); memLimit = int64_sum (map px_MemLimit (pod_Containers p))
      in \<lparr>st_ID = i, st_CPUUsage = (if cpuLimit > 0 then of_int cpu / of_int cpuLimit * 100 else 0),
          st_CoresUsed = of_int cpu / 1000, st_TotalCores = of_int cpuLimit / 1000,
          st_MemUsage = (if memLimit > 0 then of_int mem / of_int memLimit * 100 else 0),
          st_MemUsed = word_of_int mem, st_MemLimit = word_of_int memLimit,
          st_MemAvailable = (if memLimit > 0 \<and> memLimit > mem then word_of_int (wrap64 (memLimit - mem)) else 0),
          st_RxBytes = 0, st_TxBytes = 0, st_Timestamp = now\<rparr>)"

definition kubernetes_GetStats :: "'w k8s_client \<Rightarrow> container_id \<Rightarrow> 'w \<Rightarrow> rt_error + rt_stats" where
  "kubernetes_GetStats cl i w =
     (case kc_PodMetrics cl of
        None \<Rightarrow> Inl (NewContainerError RuntimeKubernetes ''stats'' i ErrMetricsUnavailable)
      | Some metrics \<Rightarrow>
          (case kc_GetPod cl (id_Namespace i) (id_ID i) w of
             Inl e \<Rightarrow> Inl (k8s_error ''stats'' i e)
           | Inr p \<Rightarrow>
               (case metrics (id_Namespace i) (id_ID i) w of
                  Inl e \<Rightarrow> Inl (NewContainerError RuntimeKubernetes ''stats'' i
                                 (if ae_NotFound e then ErrMetricsUnavailable else Foreign (ae_Text e)))
                | Inr ms \<Rightarrow> Inr (pod_stats (kc_now cl w) i p ms))))"

definition kubernetes_runtime :: "'w k8s_client \<Rightarrow> 'w runtime" where
  "kubernetes_runtime cl =
     \<lparr>rt_Name = ''Kubernetes'', rt_Type = RuntimeKubernetes,
      rt_Ping = (\<lambda>w. if kc_Ping cl w then None else Some (NewRuntimeError RuntimeKubernetes ''ping'' ErrRuntimeUnavailable)),
      rt_Close = (\<lambda>w. (w, None)),
      rt_List = kubernetes_List cl, rt_Start = kubernetes_Start cl, rt_Stop = kubernetes_Stop cl,
      rt_Restart = kubernetes_Restart cl, rt_GetStats = kubernetes_GetStats cl, rt_Inspect = kubernetes_Inspect cl\<rparr>"

section \<open>Errors are recognised by their text\<close>

lemma Contains_mid: "Contains s p \<Longrightarrow> Contains (a @ s @ b) p"
proof -
  assume "Contains s p"
  then obtain x y where "s = x @ p @ y" by (auto simp: Contains_iff)
  then have "a @ s @ b = (a @ x) @ p @ (y @ b)" by simp
  then show ?thesis unfolding Contains_iff by blast
qed

lemma Error_not_found: "errors_Is e ErrContainerNotFound \<Longrightarrow> Contains (ToLower (Error e)) ''not found''"
proof (induction e)
  case ErrContainerNotFound
  show ?case by code_simp
next
  case (Suffixed e s)
  then have "Contains (ToLower (Error e)) ''not found''" by simp
  from Contains_mid [OF this, of "[]"] show ?case by (simp add: ToLower_def)
next
  case (RuntimeError rt op c e)
  then have "Contains (ToLower (Error e)) ''not found''" by simp
  note mid = Contains_mid [OF this, of _ "[]"]
  show ?case
  proof (cases c)
    case None
    then show ?thesis using mid [of "ToLower (rt @ '': '' @ op @ '': '')"] by (simp add: ToLower_def)
  next
    case (Some i)
    then show ?thesis using mid [of "ToLower (rt @ '': '' @ op @ '' on '' @ id_String i @ '': '')"] by (simp add: ToLower_def)
  qed
qed simp_all

lemma missing_container_recognised: "IsNotFoundError e \<Longrightarrow> not_found_text (Error e)"
  using Error_not_found by (simp add: IsNotFoundError_def not_found_text_def)

section \<open>The registry\<close>

text \<open>Runtimes are filed under their type, and there is a primary as soon as there is one.\<close>

definition registry_ok :: "'w rt_registry \<Rightarrow> bool" where
  "registry_ok r \<longleftrightarrow>
     wf_map (rr_runtimes r) \<and> (\<forall>(t, x) \<in> set (rr_runtimes r). rt_Type x = t \<and> t \<noteq> []) \<and>
     (rr_runtimes r \<noteq> [] \<longrightarrow> has (rr_runtimes r) (rr_primary r)) \<and> (rr_runtimes r = [] \<longrightarrow> rr_primary r = [])"

lemma registry_ok_new: "registry_ok rt_NewRegistry"
  by (simp add: registry_ok_def rt_NewRegistry_def)

lemma registry_ok_Register: "registry_ok r \<Longrightarrow> rt_Type x \<noteq> [] \<Longrightarrow> registry_ok (fst (rt_Register (Some x) r))"
proof -
  assume r: "registry_ok r" and x: "rt_Type x \<noteq> []"
  show ?thesis
  proof (cases "has (rr_runtimes r) (rt_Type x)")
    case True
    with r show ?thesis by (simp add: rt_Register_def)
  next
    case False
    have "[] \<notin> fst ` set (rr_runtimes r)" using r by (auto simp: registry_ok_def)
    then have "rr_runtimes r \<noteq> [] \<Longrightarrow> rr_primary r \<noteq> []" using r by (auto simp: registry_ok_def has_iff)
    moreover have "set (put (rt_Type x) x (rr_runtimes r)) = insert (rt_Type x, x) (set (rr_runtimes r))"
      using put_new [OF False] by simp
    moreover have "has (put (rt_Type x) x m) t \<longleftrightarrow> t = rt_Type x \<or> has m t" for m t
      by (simp add: has_def get_put)
    ultimately show ?thesis using r x False
      using wf_map_put [of "rr_runtimes r" "rt_Type x" x] has_def [of "[(rt_Type x, x)]" "rt_Type x"]
      by (cases "rr_runtimes r = []") (auto simp: registry_ok_def rt_Register_def)
  qed
qed

lemma registry_ok_SetPrimary: "registry_ok r \<Longrightarrow> registry_ok (fst (SetPrimary t r))"
  by (auto simp: registry_ok_def SetPrimary_def has_def)

lemma registered_type:
  assumes "registry_ok r" "get (rr_runtimes r) t = Some x"
  shows "rt_Type x = t \<and> t \<noteq> []"
proof -
  have "\<forall>(t, x) \<in> set (rr_runtimes r). rt_Type x = t \<and> t \<noteq> []" using assms(1) by (simp add: registry_ok_def)
  from bspec [OF this get_Some_in [OF assms(2)]] show ?thesis by simp
qed

lemma GetPrimary_None: "registry_ok r \<Longrightarrow> GetPrimary r = None \<longleftrightarrow> rr_runtimes r = []"
proof (cases "rr_runtimes r = []")
  case False
  assume r: "registry_ok r"
  with False obtain x where "get (rr_runtimes r) (rr_primary r) = Some x" by (auto simp: registry_ok_def has_def)
  with registered_type [OF r this] False show ?thesis by (simp add: GetPrimary_def)
qed (simp add: GetPrimary_def registry_ok_def)

lemma GetPrimary_Some:
  assumes "registry_ok r" "GetPrimary r = Some x"
  shows "rt_Get (rt_Type x) r = Inr x"
proof -
  have "get (rr_runtimes r) (rr_primary r) = Some x" using assms(2) by (simp add: GetPrimary_def split: if_splits)
  with registered_type [OF assms(1) this] show ?thesis by (simp add: rt_Get_def)
qed

section \<open>What every runtime promises\<close>

text \<open>Listed containers carry the type of the runtime that listed them, and a failed operation names the runtime and
  the container it was asked for.\<close>

locale container_runtime =
  fixes rt :: "'w runtime"
  assumes listed_type: "rt_List rt opts w = Inr cs \<Longrightarrow> c \<in> set cs \<Longrightarrow> id_Runtime (rc_ID c) = rt_Type rt"
    and failed_start: "rt_Start rt i w = (w1, Some e) \<Longrightarrow> \<exists>e0. e = RuntimeError (rt_Type rt) ''start'' (Some i) e0"
    and failed_stop: "rt_Stop rt i t w = (w1, Some e) \<Longrightarrow> \<exists>e0. e = RuntimeError (rt_Type rt) ''stop'' (Some i) e0"
    and failed_restart: "rt_Restart rt i t w = (w1, Some e) \<Longrightarrow> \<exists>e0. e = RuntimeError (rt_Type rt) ''restart'' (Some i) e0"
begin

lemma listed_container_selected:
  assumes "get (rr_runtimes r) (rt_Type rt) = Some rt" "rt_List rt opts w = Inr cs" "c \<in> set cs"
  shows "SelectForContainer (rc_ID c) r = Inr rt"
  using assms listed_type by (simp add: SelectForContainer_def rt_Get_def)

lemma operation_error_runtime:
  assumes "rt_Start rt i w = (w1, Some e) \<or> rt_Stop rt i t w = (w1, Some e) \<or> rt_Restart rt i t w = (w1, Some e)"
  shows "\<exists>op e0. e = RuntimeError (rt_Type rt) op (Some i) e0"
  using assms failed_start failed_stop failed_restart by blast

end

interpretation docker: container_runtime "docker_runtime cl" for cl :: "'w docker_client"
  by unfold_locales
    (auto simp: docker_runtime_def docker_List_def docker_Start_def docker_Stop_def docker_Restart_def convertContainer_def
       docker_error_def NewContainerError_def split: sum.splits prod.splits)

interpretation kubernetes: container_runtime "kubernetes_runtime cl" for cl :: "'w k8s_client"
  by unfold_locales
    (auto simp: kubernetes_runtime_def kubernetes_List_def kubernetes_Start_def kubernetes_Stop_def kubernetes_Restart_def
       convertPod_def k8s_error_def k8s_failure_def scale_deployment_def NewContainerError_def
       split: sum.splits prod.splits option.splits)

section \<open>Statistics\<close>

text \<open>A counter that was reset between the samples is taken for one that ran almost all the way round.\<close>

lemma counter_reset_wraps:
  fixes prev cur :: "64 word"
  assumes "cur < prev"
  shows "float64 (cur - prev) = 2 ^ 64 - (float64 prev - float64 cur)" and "0 < float64 (cur - prev)"
proof -
  have "unat cur < unat prev" using assms by (simp add: word_less_nat_alt)
  moreover have "unat prev < 2 ^ 64" using unsigned_less [of prev, where ?'a = nat] by simp
  ultimately have u: "\<not> unat prev \<le> unat cur" "unat cur < unat prev" "unat prev < 2 ^ 64" by simp_all
  have "unat (cur - prev) = unat cur + 2 ^ LENGTH(64) - unat prev"
    by (simp only: unat_sub_if' u(1) if_False)
  then have "int (unat (cur - prev)) = 2 ^ 64 - (int (unat prev) - int (unat cur))" using u by simp
  then have "(of_int (int (unat (cur - prev))) :: rat) = of_int (2 ^ 64 - (int (unat prev) - int (unat cur)))" by (rule arg_cong)
  then show "float64 (cur - prev) = 2 ^ 64 - (float64 prev - float64 cur)" by (simp add: float64_def)
  have "unat (cur - prev) \<noteq> 0" using assms by (simp add: unat_eq_zero)
  then show "0 < float64 (cur - prev)" unfolding float64_def by (simp only: of_nat_0_less_iff neq0_conv)
qed

lemma memory_available_bound:
  "unat (memory_available limit usage) = unat limit - unat usage"
proof (cases "usage < limit")
  case True
  then have "unat (limit - usage) = unat limit - unat usage" by (simp add: unat_sub order_less_imp_le)
  moreover have "0 < limit" using True by (rule order.strict_trans1 [OF word_zero_le])
  ultimately show ?thesis using True by (simp add: memory_available_def)
next
  case False
  then show ?thesis by (auto simp: memory_available_def word_less_nat_alt)
qed

section \<open>Starting and stopping on Kubernetes\<close>

lemma owner_deployment_found:
  "owner_deployment cl ns owners w = Inr (Some d) \<Longrightarrow>
   \<exists>n. (''Deployment'', n) \<in> set owners \<and> kc_GetDeployment cl ns n w = Inr d"
  by (auto simp: owner_deployment_def owner_of_def find_Some_iff split: option.splits sum.splits) (metis nth_mem)

text \<open>A successful start or stop on Kubernetes writes one deployment, the one found through the owners of the pod, with
  its replicas set to 1 or 0 and nothing else changed; only a stop of a pod without deployment deletes that pod.\<close>

lemma kubernetes_Start_writes:
  assumes "kubernetes_Start cl i w = (w1, None)"
  obtains p d where "kc_GetPod cl (id_Namespace i) (id_ID i) w = Inr p" "findOwnerDeployment cl p w = Inr (Some d)"
    "kc_UpdateDeployment cl (d\<lparr>dep_Replicas := Some 1\<rparr>) w = (w1, None)"
  using assms by (auto simp: kubernetes_Start_def scale_deployment_def split: sum.splits option.splits prod.splits)

lemma kubernetes_Stop_writes:
  assumes "kubernetes_Stop cl i t w = (w1, None)"
  obtains p d where "kc_GetPod cl (id_Namespace i) (id_ID i) w = Inr p" "findOwnerDeployment cl p w = Inr (Some d)"
      "kc_UpdateDeployment cl (d\<lparr>dep_Replicas := Some 0\<rparr>) w = (w1, None)"
  | p where "kc_GetPod cl (id_Namespace i) (id_ID i) w = Inr p" "findOwnerDeployment cl p w = Inr None"
      "kc_DeletePod cl (id_Namespace i) (id_ID i) w = (w1, None)"
  using assms by (auto simp: kubernetes_Stop_def scale_deployment_def split: sum.splits option.splits prod.splits)

lemma kubernetes_Start_needs_pod:
  "kc_GetPod cl (id_Namespace i) (id_ID i) w = Inl e \<Longrightarrow> kubernetes_Start cl i w = (w, Some (k8s_error ''start'' i e))"
  by (simp add: kubernetes_Start_def)

lemma k8s_error_not_found: "ae_NotFound e \<Longrightarrow> IsNotFoundError (k8s_error op i e)"
  by (simp add: k8s_error_def NewContainerError_def IsNotFoundError_def)

lemma docker_error_not_found: "not_found_text msg \<Longrightarrow> IsNotFoundError (docker_error op i msg)"
  by (simp add: docker_error_def NewContainerError_def IsNotFoundError_def)

text \<open>Without metrics the statistics of a pod are unavailable, whatever the pod.\<close>

lemma kubernetes_no_metrics:
  "kc_PodMetrics cl = None \<Longrightarrow> \<exists>e. kubernetes_GetStats cl i w = Inl e \<and> IsUnavailableError e"
  by (simp add: kubernetes_GetStats_def NewContainerError_def IsUnavailableError_def)

text \<open>A small cluster: its deployments with their replicas; a deployment's pods are named after it and numbered, and its
  replica set has its name.\<close>

type_synonym toy_cluster = "(string \<times> nat) list"

definition toy_deployment :: "string \<Rightarrow> string" where
  "toy_deployment pod = takeWhile (\<lambda>c. c \<noteq> CHR ''-'') pod"

definition toy_pod :: "string \<Rightarrow> k8s_pod" where
  "toy_pod n =
     \<lparr>pod_Name = n, pod_Namespace = ''apps'', pod_Owners = [(''ReplicaSet'', toy_deployment n)], pod_Phase = PodRunning,
      pod_Created = 0, pod_Labels = [(''nekzus.app.id'', toy_deployment n)], pod_Containers = [], pod_Statuses = [], pod_IP = [],
      pod_Volumes = []\<rparr>"

definition toy_pods :: "toy_cluster \<Rightarrow> string list" where
  "toy_pods w = concat (map (\<lambda>(d, n). map (\<lambda>k. d @ ''-'' @ Itoa (int k)) [0..<n]) w)"

definition missing_object :: api_error where "missing_object = \<lparr>ae_NotFound = True, ae_Text = ''not found''\<rparr>"

definition toy_client :: "toy_cluster k8s_client" where
  "toy_client =
     \<lparr>kc_Ping = (\<lambda>w. True),
      kc_ListPods = (\<lambda>ns w. Inr (map toy_pod (toy_pods w))),
      kc_GetPod = (\<lambda>ns n w. if ns = ''apps'' \<and> n \<in> set (toy_pods w) then Inr (toy_pod n) else Inl missing_object),
      kc_DeletePod = (\<lambda>ns n w. (w, if ns = ''apps'' \<and> n \<in> set (toy_pods w) then None else Some missing_object)),
      kc_GetReplicaSet = (\<lambda>ns n w. if has w n then Inr [(''Deployment'', n)] else Inl missing_object),
      kc_GetDeployment = (\<lambda>ns n w. case get w n of None \<Rightarrow> Inl missing_object
         | Some k \<Rightarrow> Inr \<lparr>dep_Name = n, dep_Namespace = ns, dep_Replicas = Some (int k)\<rparr>),
      kc_UpdateDeployment = (\<lambda>d w. (put (dep_Name d) (case dep_Replicas d of None \<Rightarrow> 1 | Some k \<Rightarrow> nat k) w, None)),
      kc_PodMetrics = None, kc_now = (\<lambda>w. 0)\<rparr>"

definition toy_id :: "string \<Rightarrow> container_id" where
  "toy_id n = \<lparr>id_Runtime = RuntimeKubernetes, id_ID = n, id_Namespace = ''apps''\<rparr>"

text \<open>What was stopped cannot be started again: the pod by which its deployment is looked up is gone with the replicas.  And
  a start takes a deployment of several replicas down to one.\<close>

lemma stopped_pod_cannot_start:
  "case kubernetes_Stop toy_client (toy_id ''web-0'') None [(''web'', 1)] of (w, e) \<Rightarrow>
     e = None \<and> w = [(''web'', 0)] \<and>
     kubernetes_Start toy_client (toy_id ''web-0'') w =
       (w, Some (NewContainerError RuntimeKubernetes ''start'' (toy_id ''web-0'') ErrContainerNotFound))"
  by code_simp

lemma start_scales_down: "kubernetes_Start toy_client (toy_id ''web-0'') [(''web'', 3)] = ([(''web'', 1)], None)"
  by code_simp

end
