(* ===== verification/Containers.thy ===== *)
theory Containers
  imports Runtimes
begin

text \<open>
  The container pages (\<open>internal/handlers/containers.go\<close>): which runtime a request goes to, the operations that run
  after the answer and report to the device, inspection and statistics.
\<close>

section \<open>The handler and its requests\<close>

text \<open>The legacy client and the registry may be missing; \<open>ch_apps\<close> is what the storage lists as apps (\<open>None\<close>: no
  storage, \<open>Some None\<close>: the list fails), the last two whether a notifier is set.\<close>

record 'w container_handler =
  ch_client :: "'w docker_client option"
  ch_runtimes :: "'w rt_registry option"
  ch_apps :: "string list option option"
  ch_notifier :: bool
  ch_healthNotifier :: bool

definition getPrimaryRuntime :: "'w container_handler \<Rightarrow> 'w runtime option" where
  "getPrimaryRuntime h = (case ch_runtimes h of None \<Rightarrow> None | Some r \<Rightarrow> GetPrimary r)"

definition hasRuntime :: "'w container_handler \<Rightarrow> bool" where
  "hasRuntime h \<longleftrightarrow> (case ch_runtimes h of None \<Rightarrow> False | Some r \<Rightarrow> GetPrimary r \<noteq> None)"

definition registered :: "'w container_handler \<Rightarrow> string \<Rightarrow> rt_error + 'w runtime" where
  "registered h t = (case ch_runtimes h of None \<Rightarrow> Inl (Suffixed ErrRuntimeUnavailable t) | Some r \<Rightarrow> rt_Get t r)"

record container_request =
  cq_Method :: string
  cq_Path :: string
  cq_Query :: "(string, string) gomap"
  cq_Device :: string

definition query :: "container_request \<Rightarrow> string \<Rightarrow> string" where
  "query q k = get_zero [] (cq_Query q) k"

definition isContainerAction :: "string \<Rightarrow> bool" where
  "isContainerAction s \<longleftrightarrow> s \<in> set [''start'', ''stop'', ''restart'', ''stats'', ''logs'']"

definition parseContainerRequest :: "container_request \<Rightarrow> string \<times> string \<times> string" where
  "parseContainerRequest q =
     (let rt = query q ''runtime''; ns = query q ''namespace'';
          parts = Split (CHR ''/'') (TrimSuffix (cq_Path q) ''/'')
      in if length parts < 5 then ([], rt, ns)
         else if length parts \<ge> 7 \<and> isContainerAction (last parts)
         then (parts ! 5, if rt = [] then RuntimeKubernetes else rt, if ns = [] then parts ! 4 else ns)
         else (parts ! 4, rt, ns))"

definition extractContainerIDFromPath :: "string \<Rightarrow> string" where
  "extractContainerIDFromPath path =
     (let parts = Split (CHR ''/'') (TrimSuffix path ''/'') in if length parts < 5 then [] else parts ! 4)"

definition isContainerNotFoundError :: "rt_error option \<Rightarrow> bool" where
  "isContainerNotFoundError e = (case e of None \<Rightarrow> False | Some x \<Rightarrow> not_found_text (Error x))"

section \<open>Operations in the background\<close>

text \<open>Where an operation goes: the runtime that was asked for, else the primary one, else the legacy client.\<close>

datatype 'w destination = NoRuntime | Unavailable rt_error | OnClient "'w docker_client" | OnRuntime "'w runtime" container_id

definition op_target :: "'w container_handler \<Rightarrow> string \<Rightarrow> string \<Rightarrow> string \<Rightarrow> 'w destination" where
  "op_target h cid rtype ns =
     (if hasRuntime h \<and> rtype \<noteq> [] then
        (case registered h rtype of
           Inl e \<Rightarrow> Unavailable e
         | Inr rt \<Rightarrow> OnRuntime rt \<lparr>id_Runtime = rtype, id_ID = cid, id_Namespace = ns\<rparr>)
      else case getPrimaryRuntime h of
        Some rt \<Rightarrow> OnRuntime rt \<lparr>id_Runtime = rt_Type rt, id_ID = cid, id_Namespace = ns\<rparr>
      | None \<Rightarrow> (case ch_client h of Some cl \<Rightarrow> OnClient cl | None \<Rightarrow> NoRuntime))"

definition no_runtime :: rt_error where "no_runtime = Foreign ''No runtime configured''"

text \<open>A notice to the device: how it ended, with the error's code or the new status.\<close>

record container_notice =
  co_Type :: string
  co_ContainerID :: string
  co_Outcome :: "string + string"

datatype container_event = SendToDevice string container_notice | MarkUnhealthy string string

definition to_device :: "'w container_handler \<Rightarrow> string \<Rightarrow> container_notice \<Rightarrow> container_event list" where
  "to_device h device n = (if ch_notifier h \<and> device \<noteq> [] then [SendToDevice device n] else [])"

definition timeout_duration :: "int option \<Rightarrow> duration option" where
  "timeout_duration t = map_option (\<lambda>s. wrap64 (s * second)) t"

definition start_error :: "rt_error \<Rightarrow> string" where
  "start_error e =
     (if not_found_text (Error e) then ''CONTAINER_NOT_FOUND''
      else if Contains (Error e) ''already started'' then ''CONTAINER_ALREADY_STARTED'' else ''CONTAINER_START_FAILED'')"

definition stop_error :: "rt_error \<Rightarrow> string" where
  "stop_error e =
     (if not_found_text (Error e) then ''CONTAINER_NOT_FOUND''
      else if Contains (Error e) ''already stopped'' then ''CONTAINER_ALREADY_STOPPED'' else ''CONTAINER_STOP_FAILED'')"

definition restart_error :: "rt_error \<Rightarrow> string" where
  "restart_error e = (if not_found_text (Error e) then ''CONTAINER_NOT_FOUND'' else ''CONTAINER_RESTART_FAILED'')"

definition executeContainerStart ::
  "'w container_handler \<Rightarrow> string \<Rightarrow> string \<Rightarrow> string \<Rightarrow> string \<Rightarrow> 'w \<Rightarrow> 'w \<times> container_event list" where
  "executeContainerStart h cid device rtype ns w =
     (case (case op_target h cid rtype ns of
              NoRuntime \<Rightarrow> (w, Some no_runtime)
            | Unavailable e \<Rightarrow> (w, Some e)
            | OnRuntime rt i \<Rightarrow> rt_Start rt i w
            | OnClient cl \<Rightarrow> (case dk_Start cl cid w of (w1, e) \<Rightarrow> (w1, map_option Foreign e))) of
        (w1, Some e) \<Rightarrow>
          (w1, to_device h device \<lparr>co_Type = ''container.start.failed'', co_ContainerID = cid, co_Outcome = Inl (start_error e)\<rparr>)
      | (w1, None) \<Rightarrow>
          (w1, to_device h device \<lparr>co_Type = ''container.start.completed'', co_ContainerID = cid, co_Outcome = Inr ''started''\<rparr>))"

definition getAppIDFromContainer :: "'w runtime \<Rightarrow> container_id \<Rightarrow> 'w \<Rightarrow> string" where
  "getAppIDFromContainer rt i w =
     (case rt_Inspect rt i w of Inl e \<Rightarrow> [] | Inr d \<Rightarrow> get_zero [] (rc_Labels (rd_Container d)) ''nekzus.app.id'')"

definition client_app_id :: "'w docker_client \<Rightarrow> string \<Rightarrow> 'w \<Rightarrow> string" where
  "client_app_id cl cid w =
     (case dk_Inspect cl cid w of
        Inl e \<Rightarrow> []
      | Inr j \<Rightarrow> (case dj_Config j of None \<Rightarrow> [] | Some (img, cfg, labels) \<Rightarrow> get_zero [] labels ''nekzus.app.id''))"

text \<open>The app of a container is read before it is stopped.\<close>

definition executeContainerStop ::
  "'w container_handler \<Rightarrow> string \<Rightarrow> int option \<Rightarrow> string \<Rightarrow> string \<Rightarrow> string \<Rightarrow> 'w \<Rightarrow> 'w \<times> container_event list" where
  "executeContainerStop h cid timeout device rtype ns w =
     (case (case op_target h cid rtype ns of
              NoRuntime \<Rightarrow> ([], w, Some no_runtime)
            | Unavailable e \<Rightarrow> ([], w, Some e)
            | OnRuntime rt i \<Rightarrow> (getAppIDFromContainer rt i w, rt_Stop rt i (timeout_duration timeout) w)
            | OnClient cl \<Rightarrow> (client_app_id cl cid w, case dk_Stop cl cid timeout w of (w1, e) \<Rightarrow> (w1, map_option Foreign e))) of
        (app, w1, Some e) \<Rightarrow>
          (w1, to_device h device \<lparr>co_Type = ''container.stop.failed'', co_ContainerID = cid, co_Outcome = Inl (stop_error e)\<rparr>)
      | (app, w1, None) \<Rightarrow>
          (w1, (if ch_healthNotifier h \<and> app \<noteq> [] then [MarkUnhealthy app ''Container stopped''] else []) @
               to_device h device \<lparr>co_Type = ''container.stop.completed'', co_ContainerID = cid, co_Outcome = Inr ''stopped''\<rparr>))"

definition executeContainerRestart ::
  "'w container_handler \<Rightarrow> string \<Rightarrow> int option \<Rightarrow> string \<Rightarrow> string \<Rightarrow> string \<Rightarrow> 'w \<Rightarrow> 'w \<times> container_event list" where
  "executeContainerRestart h cid timeout device rtype ns w =
     (case (case op_target h cid rtype ns of
              NoRuntime \<Rightarrow> (w, Some no_runtime)
            | Unavailable e \<Rightarrow> (w, Some e)
            | OnRuntime rt i \<Rightarrow> rt_Restart rt i (timeout_duration timeout) w
            | OnClient cl \<Rightarrow> (case dk_Restart cl cid timeout w of (w1, e) \<Rightarrow> (w1, map_option Foreign e))) of
        (w1, Some e) \<Rightarrow>
          (w1, to_device h device \<lparr>co_Type = ''container.restart.failed'', co_ContainerID = cid, co_Outcome = Inl (restart_error e)\<rparr>)
      | (w1, None) \<Rightarrow>
          (w1, to_device h device \<lparr>co_Type = ''container.restart.completed'', co_ContainerID = cid, co_Outcome = Inr ''restarted''\<rparr>))"

section \<open>The pages\<close>

text \<open>The answer of an accepted operation, and the operation that then runs.\<close>

record accepted =
  ac_ContainerID :: string
  ac_Timeout :: "int option"
  ac_Runtime :: string
  ac_Namespace :: string

datatype container_job =
    StartJob string string string string
  | StopJob string "int option" string string string
  | RestartJob string "int option" string string string

fun run_job :: "'w container_handler \<Rightarrow> container_job \<Rightarrow> 'w \<Rightarrow> 'w \<times> container_event list" where
  "run_job h (StartJob cid device rtype ns) w = executeContainerStart h cid device rtype ns w"
| "run_job h (StopJob cid t device rtype ns) w = executeContainerStop h cid t device rtype ns w"
| "run_job h (RestartJob cid t device rtype ns) w = executeContainerRestart h cid t device rtype ns w"

record list_entry =
  le_ID :: string
  le_Name :: string
  le_Image :: string
  le_State :: string
  le_Status :: string
  le_Created :: int
  le_Ports :: "rt_port list"
  le_Labels :: "(string, string) gomap"
  le_Runtime :: string
  le_Namespace :: string

text \<open>Statistics as the pages show them: the ID as a text, the numbers as the runtime gave them.  An inspection says whether
  the raw answer is shown instead of the details.\<close>

record stats_entry =
  se_ContainerID :: string
  se_Stats :: rt_stats

datatype container_answer =
    CRefused int string
  | CPanic
  | CAccepted accepted "container_job option"
  | CListed "list_entry list"
  | CInspected bool rt_details
  | CStats stats_entry
  | CBatchStats "stats_entry list"

definition minTimeout :: int where "minTimeout = 1"
definition maxTimeout :: int where "maxTimeout = 300"

text \<open>A timeout that is no number is as good as none.\<close>

definition parse_timeout :: "container_request \<Rightarrow> string + int option" where
  "parse_timeout q =
     (if query q ''timeout'' = [] then Inr None
      else case ParseInt (query q ''timeout'') of
        None \<Rightarrow> Inr None
      | Some t \<Rightarrow> if t < minTimeout \<or> t > maxTimeout then Inl ''INVALID_TIMEOUT'' else Inr (Some t))"

text \<open>The operation is started only if the answer could be \<open>written\<close>.\<close>

definition HandleStartContainer :: "bool \<Rightarrow> container_request \<Rightarrow> container_answer" where
  "HandleStartContainer written q =
     (if cq_Method q \<noteq> ''POST'' then CRefused 405 ''METHOD_NOT_ALLOWED''
      else case parseContainerRequest q of (cid, rtype, ns) \<Rightarrow>
        if cid = [] then CRefused 400 ''INVALID_CONTAINER_ID''
        else CAccepted \<lparr>ac_ContainerID = cid, ac_Timeout = None, ac_Runtime = rtype, ac_Namespace = ns\<rparr>
               (if written then Some (StartJob cid (cq_Device q) rtype ns) else None))"

definition HandleStopContainer :: "bool \<Rightarrow> container_request \<Rightarrow> container_answer" where
  "HandleStopContainer written q =
     (if cq_Method q \<noteq> ''POST'' then CRefused 405 ''METHOD_NOT_ALLOWED''
      else case parseContainerRequest q of (cid, rtype, ns) \<Rightarrow>
        if cid = [] then CRefused 400 ''INVALID_CONTAINER_ID''
        else case parse_timeout q of
          Inl code \<Rightarrow> CRefused 400 code
        | Inr t \<Rightarrow> CAccepted \<lparr>ac_ContainerID = cid, ac_Timeout = t, ac_Runtime = rtype, ac_Namespace = ns\<rparr>
               (if written then Some (StopJob cid t (cq_Device q) rtype ns) else None))"

definition HandleRestartContainer :: "bool \<Rightarrow> container_request \<Rightarrow> container_answer" where
  "HandleRestartContainer written q =
     (if cq_Method q \<noteq> ''POST'' then CRefused 405 ''METHOD_NOT_ALLOWED''
      else case parseContainerRequest q of (cid, rtype, ns) \<Rightarrow>
        if cid = [] then CRefused 400 ''INVALID_CONTAINER_ID''
        else case parse_timeout q of
          Inl code \<Rightarrow> CRefused 400 code
        | Inr t \<Rightarrow> CAccepted \<lparr>ac_ContainerID = cid, ac_Timeout = t, ac_Runtime = rtype, ac_Namespace = ns\<rparr>
               (if written then Some (RestartJob cid t (cq_Device q) rtype ns) else None))"

definition to_list_entry :: "rt_container \<Rightarrow> list_entry" where
  "to_list_entry c =
     \<lparr>le_ID = ShortID (rc_ID c), le_Name = rc_Name c, le_Image = rc_Image c, le_State = rc_State c, le_Status = rc_Status c,
      le_Created = rc_Created c, le_Ports = rc_Ports c, le_Labels = rc_Labels c, le_Runtime = id_Runtime (rc_ID c),
      le_Namespace = id_Namespace (rc_ID c)\<rparr>"

definition listContainersWithRuntime :: "'w rt_registry \<Rightarrow> container_request \<Rightarrow> 'w \<Rightarrow> container_answer" where
  "listContainersWithRuntime r q w =
     (let opts = \<lparr>lo_All = True, lo_Namespace = query q ''namespace''\<rparr>; f = query q ''runtime''
      in if f \<noteq> [] then
           (case rt_Get f r of
              Inl e \<Rightarrow> CRefused 400 ''INVALID_RUNTIME''
            | Inr rt \<Rightarrow> (case rt_List rt opts w of
                           Inl e \<Rightarrow> CRefused 500 ''CONTAINER_LIST_FAILED'' | Inr cs \<Rightarrow> CListed (map to_list_entry cs)))
         else CListed (map to_list_entry (concat (map (\<lambda>t. case rt_Get t r of
                Inl e \<Rightarrow> []
              | Inr rt \<Rightarrow> (case rt_List rt opts w of Inl e \<Rightarrow> [] | Inr cs \<Rightarrow> cs)) (Available r)))))"

definition listContainersWithDockerClient :: "'w docker_client \<Rightarrow> 'w \<Rightarrow> container_answer" where
  "listContainersWithDockerClient cl w =
     (case dk_List cl True w of
        Inl e \<Rightarrow> CRefused 500 ''CONTAINER_LIST_FAILED''
      | Inr cs \<Rightarrow> CListed (map (\<lambda>c.
          \<lparr>le_ID = short_id (di_ID c), le_Name = docker_name (di_Names c), le_Image = di_Image c, le_State = di_State c,
           le_Status = di_Status c, le_Created = di_Created c, le_Ports = rc_Ports (convertContainer c), le_Labels = di_Labels c,
           le_Runtime = RuntimeDocker, le_Namespace = []\<rparr>) cs))"

definition HandleListContainers :: "'w container_handler \<Rightarrow> container_request \<Rightarrow> 'w \<Rightarrow> container_answer" where
  "HandleListContainers h q w =
     (if cq_Method q \<noteq> ''GET'' then CRefused 405 ''METHOD_NOT_ALLOWED''
      else case ch_runtimes h of
        Some r \<Rightarrow>
          (if GetPrimary r \<noteq> None then listContainersWithRuntime r q w
           else case ch_client h of Some cl \<Rightarrow> listContainersWithDockerClient cl w | None \<Rightarrow> CPanic)
      | None \<Rightarrow> (case ch_client h of Some cl \<Rightarrow> listContainersWithDockerClient cl w | None \<Rightarrow> CPanic))"

definition inspect_on :: "'w runtime \<Rightarrow> string \<Rightarrow> string \<Rightarrow> 'w \<Rightarrow> container_answer" where
  "inspect_on rt cid ns w =
     (case rt_Inspect rt \<lparr>id_Runtime = rt_Type rt, id_ID = cid, id_Namespace = ns\<rparr> w of
        Inl e \<Rightarrow> if not_found_text (Error e) then CRefused 404 ''CONTAINER_NOT_FOUND'' else CRefused 500 ''CONTAINER_INSPECT_FAILED''
      | Inr d \<Rightarrow> CInspected (rt_Type rt = RuntimeDocker \<and> rd_Raw d) d)"

definition HandleInspectContainer :: "'w container_handler \<Rightarrow> container_request \<Rightarrow> 'w \<Rightarrow> container_answer" where
  "HandleInspectContainer h q w =
     (if cq_Method q \<noteq> ''GET'' then CRefused 405 ''METHOD_NOT_ALLOWED''
      else case parseContainerRequest q of (cid, rtype, ns) \<Rightarrow>
        if cid = [] then CRefused 400 ''INVALID_CONTAINER_ID''
        else case getPrimaryRuntime h of
          None \<Rightarrow> CRefused 503 ''RUNTIME_UNAVAILABLE''
        | Some primary \<Rightarrow>
            if rtype = [] then inspect_on primary cid ns w
            else (case registered h rtype of
                    Inl e \<Rightarrow> CRefused 400 ''INVALID_RUNTIME'' | Inr rt \<Rightarrow> inspect_on rt cid ns w))"

definition getContainerStatsWithRuntime ::
  "'w container_handler \<Rightarrow> string \<Rightarrow> string \<Rightarrow> string \<Rightarrow> 'w \<Rightarrow> rt_error + stats_entry" where
  "getContainerStatsWithRuntime h cid rtype ns w =
     (case registered h rtype of
        Inl e \<Rightarrow> Inl e
      | Inr rt \<Rightarrow>
          (case rt_GetStats rt \<lparr>id_Runtime = rtype, id_ID = cid, id_Namespace = ns\<rparr> w of
             Inl e \<Rightarrow> Inl e
           | Inr s \<Rightarrow> Inr \<lparr>se_ContainerID = short_id cid, se_Stats = s\<rparr>))"

definition HandleContainerStats :: "'w container_handler \<Rightarrow> container_request \<Rightarrow> 'w \<Rightarrow> container_answer" where
  "HandleContainerStats h q w =
     (if cq_Method q \<noteq> ''GET'' then CRefused 405 ''METHOD_NOT_ALLOWED''
      else case parseContainerRequest q of (cid, rtype, ns) \<Rightarrow>
        if cid = [] then CRefused 400 ''INVALID_CONTAINER_ID''
        else case getPrimaryRuntime h of
          None \<Rightarrow> CRefused 503 ''RUNTIME_UNAVAILABLE''
        | Some primary \<Rightarrow>
            (case getContainerStatsWithRuntime h cid (if rtype \<noteq> [] then rtype else rt_Type primary) ns w of
               Inl e \<Rightarrow> if not_found_text (Error e) then CRefused 404 ''CONTAINER_NOT_FOUND'' else CRefused 500 ''CONTAINER_STATS_FAILED''
             | Inr s \<Rightarrow> CStats s))"

text \<open>Only running containers are measured, and with a storage only those of approved apps.\<close>

definition approved :: "'w container_handler \<Rightarrow> rt_container \<Rightarrow> bool" where
  "approved h c =
     (case ch_apps h of
        None \<Rightarrow> True
      | Some apps \<Rightarrow> (case get (rc_Labels c) ''nekzus.app.id'' of None \<Rightarrow> False
                     | Some a \<Rightarrow> (case apps of None \<Rightarrow> False | Some ids \<Rightarrow> a \<in> set ids)))"

definition HandleBatchContainerStats :: "'w container_handler \<Rightarrow> container_request \<Rightarrow> 'w \<Rightarrow> container_answer" where
  "HandleBatchContainerStats h q w =
     (if cq_Method q \<noteq> ''GET'' then CRefused 405 ''METHOD_NOT_ALLOWED''
      else case getPrimaryRuntime h of
        None \<Rightarrow> CRefused 503 ''RUNTIME_UNAVAILABLE''
      | Some rt \<Rightarrow>
          (case rt_List rt \<lparr>lo_All = True, lo_Namespace = []\<rparr> w of
             Inl e \<Rightarrow> CRefused 500 ''CONTAINER_LIST_FAILED''
           | Inr cs \<Rightarrow> CBatchStats (List.map_filter (\<lambda>c.
               if rc_State c = StateRunning \<and> approved h c then
                 (case rt_GetStats rt (rc_ID c) w of
                    Inl e \<Rightarrow> None | Inr s \<Rightarrow> Some \<lparr>se_ContainerID = id_ID (rc_ID c), se_Stats = s\<rparr>)
               else None) cs)))"

definition calculateCPUPercent :: "docker_sample \<Rightarrow> docker_sample \<Rightarrow> rat" where
  "calculateCPUPercent pre cur =
     cpu_share (ds_TotalUsage cur - ds_TotalUsage pre) (ds_SystemUsage cur - ds_SystemUsage pre) * of_nat (ds_Percpu cur) * 100"

section \<open>Paths\<close>

definition container_path :: "string list \<Rightarrow> string" where
  "container_path ws = ''/api/v1/containers/'' @ Join ''/'' ws"

lemma container_path_parts:
  assumes "ws \<noteq> []" "\<forall>w \<in> set ws. w \<noteq> [] \<and> CHR ''/'' \<notin> set w"
  shows "Split (CHR ''/'') (TrimSuffix (container_path ws) ''/'') = [[], ''api'', ''v1'', ''containers''] @ ws"
proof -
  have j: "container_path ws = Join ''/'' ([[], ''api'', ''v1'', ''containers''] @ ws)"
    using assms(1) by (cases ws) (simp_all add: container_path_def)
  have "Join ''/'' ws \<noteq> [] \<and> last (Join ''/'' ws) \<noteq> CHR ''/''"
    using assms
  proof (induction "''/''" ws rule: Join.induct)
    case (2 w)
    then show ?case using last_in_set [of w] by fastforce
  next
    case (3 w v ws)
    then show ?case by simp
  qed simp
  then have "last (container_path ws) \<noteq> CHR ''/''" by (simp add: container_path_def)
  moreover have "HasSuffix u ''/'' \<Longrightarrow> last u = CHR ''/''" for u by (auto simp: HasSuffix_iff)
  ultimately have "\<not> HasSuffix (container_path ws) ''/''" by blast
  then have "TrimSuffix (container_path ws) ''/'' = container_path ws" by (simp add: TrimSuffix_def)
  then show ?thesis unfolding j using assms(2) by (simp only:) (rule Split_Join, auto)
qed

text \<open>What the two forms of a path stand for.\<close>

lemma parse_docker_path:
  assumes "cq_Path q = container_path (cid # rest)" "length rest \<le> 1" "\<forall>w \<in> set (cid # rest). w \<noteq> [] \<and> CHR ''/'' \<notin> set w"
  shows "parseContainerRequest q = (cid, query q ''runtime'', query q ''namespace'')"
  using container_path_parts [of "cid # rest"] assms by (simp add: parseContainerRequest_def Let_def)

lemma parse_k8s_path:
  assumes "cq_Path q = container_path [ns, pod, act]" "isContainerAction act"
    "\<forall>w \<in> {ns, pod}. w \<noteq> [] \<and> CHR ''/'' \<notin> set w"
  shows "parseContainerRequest q =
    (pod, if query q ''runtime'' = [] then RuntimeKubernetes else query q ''runtime'',
     if query q ''namespace'' = [] then ns else query q ''namespace'')"
proof -
  have "act \<noteq> [] \<and> CHR ''/'' \<notin> set act" using assms(2) by (auto simp: isContainerAction_def)
  then show ?thesis
    using container_path_parts [of "[ns, pod, act]"] assms by (simp add: parseContainerRequest_def Let_def)
qed

text \<open>The inspection of a pod by such a path asks for a container with the name of the namespace.\<close>

lemma pod_path_inspects_namespace:
  assumes "cq_Path q = container_path [ns, pod]" "\<forall>w \<in> {ns, pod}. w \<noteq> [] \<and> CHR ''/'' \<notin> set w"
  shows "parseContainerRequest q = (ns, query q ''runtime'', query q ''namespace'')"
  using parse_docker_path [of q ns "[pod]"] assms by simp

section \<open>From the request to the daemon and back\<close>

lemma timeout_exact: "1 \<le> t \<Longrightarrow> t \<le> 300 \<Longrightarrow> whole_seconds (wrap64 (t * second)) = t"
  by (simp add: whole_seconds_def wrap64_def second_def)

lemma primary_has: "getPrimaryRuntime h = Some rt \<Longrightarrow> hasRuntime h"
  by (simp add: getPrimaryRuntime_def hasRuntime_def split: option.splits)

lemma docker_error_recognised: "not_found_text msg \<Longrightarrow> not_found_text (Error (docker_error op i msg))"
  by (rule missing_container_recognised) (rule docker_error_not_found)

text \<open>The app a container belongs to, by its labels.\<close>

definition app_of :: "'w docker_client \<Rightarrow> string \<Rightarrow> 'w \<Rightarrow> string" where
  "app_of cl cid w = (case dk_Inspect cl cid w of Inl e \<Rightarrow> [] | Inr j \<Rightarrow>
     (case dj_Config j of None \<Rightarrow> [] | Some (img, cfg, labels) \<Rightarrow> get_zero [] labels ''nekzus.app.id''))"

lemma app_of_docker: "getAppIDFromContainer (docker_runtime cl) i w = app_of cl (id_ID i) w"
  by (simp add: getAppIDFromContainer_def app_of_def docker_runtime_def docker_Inspect_def convertContainerDetails_def get_zero_def
      split: sum.split option.split)

lemma stop_page:
  assumes "cq_Method q = ''POST''" "cq_Path q = container_path [cid, ''stop'']" "cid \<noteq> []" "CHR ''/'' \<notin> set cid"
    "query q ''timeout'' = Itoa t" "1 \<le> t" "t \<le> 300"
  shows "HandleStopContainer written q =
    CAccepted \<lparr>ac_ContainerID = cid, ac_Timeout = Some t, ac_Runtime = query q ''runtime'', ac_Namespace = query q ''namespace''\<rparr>
      (if written then Some (StopJob cid (Some t) (cq_Device q) (query q ''runtime'') (query q ''namespace'')) else None)"
proof -
  have p: "parseContainerRequest q = (cid, query q ''runtime'', query q ''namespace'')"
    using parse_docker_path [of q cid "[''stop'']"] assms(2-4) by simp
  have "ParseInt (Itoa t) = Some t" using assms(6,7) by (intro ParseInt_Itoa) simp_all
  moreover from this have "Itoa t \<noteq> []" by (auto simp: ParseInt_def)
  ultimately have "parse_timeout q = Inr (Some t)" using assms(5-7) by (simp add: parse_timeout_def minTimeout_def maxTimeout_def)
  with p assms(1,3) show ?thesis by (simp add: HandleStopContainer_def)
qed

text \<open>C20: A request to stop a container is answered at once; then the daemon is asked once, for the container of the path and
  with the timeout of the query in seconds.  The device gets one notice, that the container was stopped or why not, a
  missing container being told apart; only after a stop that worked is the container's app reported unhealthy.\<close>

theorem stop_request_reaches_docker:
  assumes "cq_Method q = ''POST''" "cq_Path q = container_path [cid, ''stop'']" "cid \<noteq> []" "CHR ''/'' \<notin> set cid"
    and "query q ''timeout'' = Itoa t" "1 \<le> t" "t \<le> 300" "query q ''runtime'' = []"
    and "getPrimaryRuntime h = Some (docker_runtime cl)" "ch_notifier h" "ch_healthNotifier h" "cq_Device q \<noteq> []"
  shows "\<exists>a job code. HandleStopContainer True q = CAccepted a (Some job) \<and> ac_ContainerID a = cid \<and>
    run_job h job w =
      (case dk_Stop cl cid (Some t) w of
         (w1, None) \<Rightarrow>
           (w1, (if app_of cl cid w = [] then [] else [MarkUnhealthy (app_of cl cid w) ''Container stopped'']) @
                [SendToDevice (cq_Device q) \<lparr>co_Type = ''container.stop.completed'', co_ContainerID = cid, co_Outcome = Inr ''stopped''\<rparr>])
       | (w1, Some msg) \<Rightarrow>
           (w1, [SendToDevice (cq_Device q) \<lparr>co_Type = ''container.stop.failed'', co_ContainerID = cid, co_Outcome = Inl code\<rparr>])) \<and>
    (case dk_Stop cl cid (Some t) w of (w1, Some msg) \<Rightarrow> not_found_text msg \<longrightarrow> code = ''CONTAINER_NOT_FOUND'' | _ \<Rightarrow> True)"
proof -
  let ?ns = "query q ''namespace''"
  let ?i = "\<lparr>id_Runtime = RuntimeDocker, id_ID = cid, id_Namespace = ?ns\<rparr>"
  obtain w1 e where d: "dk_Stop cl cid (Some t) w = (w1, e)" by fastforce
  have target: "op_target h cid [] ?ns = OnRuntime (docker_runtime cl) ?i"
    by (simp add: op_target_def assms(9) docker_runtime_def)
  have stop: "rt_Stop (docker_runtime cl) ?i (timeout_duration (Some t)) w = (w1, map_option (docker_error ''stop'' ?i) e)"
    using d by (simp add: docker_runtime_def docker_Stop_def timeout_duration_def timeout_exact [OF assms(6,7)])
  define code where "code = (case e of None \<Rightarrow> [] | Some msg \<Rightarrow> stop_error (docker_error ''stop'' ?i msg))"
  have "not_found_text msg \<Longrightarrow> e = Some msg \<Longrightarrow> code = ''CONTAINER_NOT_FOUND''" for msg
    by (simp add: code_def stop_error_def docker_error_recognised)
  moreover have "run_job h (StopJob cid (Some t) (cq_Device q) [] ?ns) w =
      (case e of
         None \<Rightarrow> (w1, (if app_of cl cid w = [] then [] else [MarkUnhealthy (app_of cl cid w) ''Container stopped'']) @
           [SendToDevice (cq_Device q) \<lparr>co_Type = ''container.stop.completed'', co_ContainerID = cid, co_Outcome = Inr ''stopped''\<rparr>])
       | Some msg \<Rightarrow> (w1, [SendToDevice (cq_Device q)
           \<lparr>co_Type = ''container.stop.failed'', co_ContainerID = cid, co_Outcome = Inl code\<rparr>]))"
    using assms(10-12)
    by (simp add: executeContainerStop_def target stop app_of_docker to_device_def code_def split: option.split)
  ultimately show ?thesis
    unfolding stop_page [OF assms(1-7)] assms(8) d
    by (intro exI conjI) (auto split: option.split)
qed

text \<open>A daemon whose world is the list of its running containers, each with an app of its name.\<close>

definition toy_item :: "string \<Rightarrow> docker_item" where
  "toy_item n = \<lparr>di_ID = n, di_Names = [CHR ''/'' # n], di_Image = ''img'', di_State = ''running'', di_Status = ''Up'',
     di_Created = 0, di_Ports = [], di_Labels = [(''nekzus.app.id'', n)]\<rparr>"

definition toy_docker :: "string list docker_client" where
  "toy_docker =
     \<lparr>dk_Ping = (\<lambda>w. True), dk_Close = (\<lambda>w. (w, None)), dk_List = (\<lambda>all w. Inr (map toy_item w)),
      dk_Start = (\<lambda>c w. (if c \<in> set w then w else w @ [c], None)),
      dk_Stop = (\<lambda>c t w. if c \<in> set w then (removeAll c w, None) else (w, Some ''No such container'')),
      dk_Restart = (\<lambda>c t w. (w, if c \<in> set w then None else Some ''No such container'')),
      dk_Inspect = (\<lambda>c w. if c \<in> set w then Inr \<lparr>dj_ID = c, dj_Name = CHR ''/'' # c,
           dj_Config = Some (''img'', no_config, [(''nekzus.app.id'', c)]), dj_Status = Some ''running'', dj_Network = None, dj_Mounts = []\<rparr>
         else Inl ''No such container''),
      dk_Stats = (\<lambda>c w. Inl ''none''), dk_now = (\<lambda>w. 0)\<rparr>"

definition toy_handler :: "string list container_handler" where
  "toy_handler =
     \<lparr>ch_client = None, ch_runtimes = Some (fst (rt_Register (Some (docker_runtime toy_docker)) rt_NewRegistry)), ch_apps = None,
      ch_notifier = True, ch_healthNotifier = True\<rparr>"

lemma toy_primary: "getPrimaryRuntime toy_handler = Some (docker_runtime toy_docker)"
  by (simp add: getPrimaryRuntime_def toy_handler_def rt_Register_def rt_NewRegistry_def GetPrimary_def has_def
      docker_runtime_def RuntimeDocker_def)

definition toy_stop :: "string \<Rightarrow> container_request" where
  "toy_stop cid = \<lparr>cq_Method = ''POST'', cq_Path = container_path [cid, ''stop''], cq_Query = [(''timeout'', ''10'')], cq_Device = ''phone''\<rparr>"

lemma stop_request_reaches_docker_witness:
  "\<exists>job. HandleStopContainer True (toy_stop ''web'') =
       CAccepted \<lparr>ac_ContainerID = ''web'', ac_Timeout = Some 10, ac_Runtime = [], ac_Namespace = []\<rparr> (Some job) \<and>
     run_job toy_handler job [''web'', ''db''] = ([''db''], [MarkUnhealthy ''web'' ''Container stopped'',
       SendToDevice ''phone'' \<lparr>co_Type = ''container.stop.completed'', co_ContainerID = ''web'', co_Outcome = Inr ''stopped''\<rparr>])"
proof -
  let ?q = "toy_stop ''web''"
  have t: "query ?q ''timeout'' = Itoa 10" "query ?q ''runtime'' = []" "CHR ''/'' \<notin> set ''web''" by code_simp+
  have h: "cq_Method ?q = ''POST''" "cq_Path ?q = container_path [''web'', ''stop'']" "ch_notifier toy_handler"
    "ch_healthNotifier toy_handler" "cq_Device ?q \<noteq> []"
    by (simp_all add: toy_stop_def toy_handler_def)
  have s: "dk_Stop toy_docker ''web'' (Some 10) [''web'', ''db''] = ([''db''], None)" "app_of toy_docker ''web'' [''web'', ''db''] = ''web''"
    by code_simp+
  from stop_request_reaches_docker [OF h(1,2) _ t(3,1) _ _ t(2) toy_primary h(3,4,5), of "[''web'', ''db'']"]
  obtain a job where "HandleStopContainer True ?q = CAccepted a (Some job)"
    "run_job toy_handler job [''web'', ''db''] = ([''db''], [MarkUnhealthy ''web'' ''Container stopped'',
       SendToDevice ''phone'' \<lparr>co_Type = ''container.stop.completed'', co_ContainerID = ''web'', co_Outcome = Inr ''stopped''\<rparr>])"
    using s h(5) by (auto simp: toy_stop_def)
  moreover have "HandleStopContainer True ?q =
       CAccepted \<lparr>ac_ContainerID = ''web'', ac_Timeout = Some 10, ac_Runtime = [], ac_Namespace = []\<rparr> (Some (StopJob ''web'' (Some 10) ''phone'' [] []))"
    by code_simp
  ultimately show ?thesis by auto
qed

section \<open>Where the pages go astray\<close>

text \<open>The list cuts IDs to twelve characters, which Docker completes; the pods of a cluster are not found by it, and
  several can be listed with the same ID.\<close>

definition toy_k8s_handler :: "toy_cluster container_handler" where
  "toy_k8s_handler =
     \<lparr>ch_client = None, ch_runtimes = Some (fst (rt_Register (Some (kubernetes_runtime toy_client)) rt_NewRegistry)), ch_apps = None,
      ch_notifier = True, ch_healthNotifier = True\<rparr>"

lemma listed_pods_not_found:
  "(case HandleListContainers toy_k8s_handler \<lparr>cq_Method = ''GET'', cq_Path = [], cq_Query = [], cq_Device = []\<rparr> [(''frontendserver'', 2)] of
      CListed es \<Rightarrow> map le_ID es = [''frontendserv'', ''frontendserv''] | _ \<Rightarrow> False) \<and>
   snd (kubernetes_Stop toy_client (toy_id ''frontendserv'') None [(''frontendserver'', 2)]) =
     Some (NewContainerError RuntimeKubernetes ''stop'' (toy_id ''frontendserv'') ErrContainerNotFound)"
  by (rule conjI; code_simp)

text \<open>A runtime that does not exist is the client's error for the inspection and the server's for the statistics.\<close>

lemma unknown_runtime_answers:
  assumes "cq_Method q = ''GET''" "parseContainerRequest q = (cid, rtype, ns)" "cid \<noteq> []" "rtype \<noteq> []" "hasRuntime h"
    "registered h rtype = Inl e" "\<not> not_found_text (Error e)"
  shows "HandleInspectContainer h q w = CRefused 400 ''INVALID_RUNTIME''"
    "HandleContainerStats h q w = CRefused 500 ''CONTAINER_STATS_FAILED''"
  using assms
  by (auto simp: HandleInspectContainer_def HandleContainerStats_def getContainerStatsWithRuntime_def hasRuntime_def
      getPrimaryRuntime_def split: option.splits)

end
