(* ===== verification/ContainersBulk.thy ===== *)
theory ContainersBulk
  imports Containers
begin

text \<open>
  Operations on many containers at once (\<open>internal/handlers/containers_bulk.go\<close>).  Each container has a goroutine of its
  own; a semaphore lets five of them work at a time.  Their steps interleave freely: a step is to enter the semaphore, to
  carry out the operation, or to record the result and leave.
\<close>

section \<open>The containers of a bulk operation\<close>

datatype bulk_op = BulkRestart | BulkStop | BulkStart

record 'w bulk_container =
  bc_id :: string
  bc_name :: string
  bc_target :: "('w runtime \<times> container_id) option"

record bulk_result =
  br_ID :: string
  br_Name :: string
  br_Success :: bool
  br_Error :: string

record bulk_response =
  bp_Message :: string
  bp_Total :: nat
  bp_Success :: nat
  bp_Failed :: nat
  bp_Results :: "bulk_result list"

text \<open>All containers are restarted, the running ones are stopped, those that do not run are started.\<close>

definition runtime_containers :: "bulk_op \<Rightarrow> 'w runtime \<Rightarrow> 'w \<Rightarrow> rt_error + 'w bulk_container list" where
  "runtime_containers op rt w =
     (case rt_List rt \<lparr>lo_All = (op \<noteq> BulkStop), lo_Namespace = []\<rparr> w of
        Inl e \<Rightarrow> Inl e
      | Inr cs \<Rightarrow> Inr (map (\<lambda>c. \<lparr>bc_id = id_ID (rc_ID c), bc_name = rc_Name c, bc_target = Some (rt, rc_ID c)\<rparr>)
                         (filter (\<lambda>c. op = BulkStart \<longrightarrow> rc_State c \<noteq> StateRunning) cs)))"

definition client_containers :: "bulk_op \<Rightarrow> 'w docker_client \<Rightarrow> 'w \<Rightarrow> rt_error + 'w bulk_container list" where
  "client_containers op cl w =
     (case dk_List cl (op \<noteq> BulkStop) w of
        Inl e \<Rightarrow> Inl (Foreign e)
      | Inr cs \<Rightarrow> Inr (map (\<lambda>c. \<lparr>bc_id = di_ID c, bc_name = docker_name (di_Names c), bc_target = None\<rparr>)
                         (filter (\<lambda>c. op = BulkStart \<longrightarrow> di_State c \<noteq> ''running'') cs)))"

definition bulk_containers :: "bulk_op \<Rightarrow> 'w container_handler \<Rightarrow> 'w \<Rightarrow> (rt_error + 'w bulk_container list) option" where
  "bulk_containers op h w =
     (case getPrimaryRuntime h of
        Some rt \<Rightarrow> Some (runtime_containers op rt w)
      | None \<Rightarrow> map_option (\<lambda>cl. client_containers op cl w) (ch_client h))"

text \<open>What a goroutine does between entering and leaving: the operation and its result.\<close>

type_synonym 'w task = "'w \<Rightarrow> 'w \<times> bulk_result"

definition make_result :: "string \<Rightarrow> string \<Rightarrow> rt_error option \<Rightarrow> bulk_result" where
  "make_result cid name e =
     \<lparr>br_ID = short_id cid, br_Name = name, br_Success = (e = None), br_Error = (case e of None \<Rightarrow> [] | Some x \<Rightarrow> Error x)\<rparr>"

definition runtime_op :: "bulk_op \<Rightarrow> 'w runtime \<Rightarrow> container_id \<Rightarrow> duration \<Rightarrow> 'w \<Rightarrow> 'w \<times> rt_error option" where
  "runtime_op op rt i timeout w =
     (case op of BulkRestart \<Rightarrow> rt_Restart rt i (Some timeout) w | BulkStop \<Rightarrow> rt_Stop rt i (Some timeout) w | BulkStart \<Rightarrow> rt_Start rt i w)"

definition client_op :: "bulk_op \<Rightarrow> 'w docker_client \<Rightarrow> string \<Rightarrow> int \<Rightarrow> 'w \<Rightarrow> 'w \<times> rt_error option" where
  "client_op op cl cid timeout w =
     (case (case op of BulkRestart \<Rightarrow> dk_Restart cl cid (Some timeout) w | BulkStop \<Rightarrow> dk_Stop cl cid (Some timeout) w
            | BulkStart \<Rightarrow> dk_Start cl cid w) of
        (w1, e) \<Rightarrow> (w1, map_option Foreign e))"

definition bulk_task :: "bulk_op \<Rightarrow> 'w container_handler \<Rightarrow> 'w bulk_container \<Rightarrow> 'w task" where
  "bulk_task op h c w =
     (case (case bc_target c of
              Some (rt, i) \<Rightarrow> runtime_op op rt i (10 * second) w
            | None \<Rightarrow> (case ch_client h of Some cl \<Rightarrow> client_op op cl (bc_id c) 10 w | None \<Rightarrow> (w, None))) of
        (w1, e) \<Rightarrow> (w1, make_result (bc_id c) (bc_name c) e))"

section \<open>The goroutines\<close>

definition maxConcurrentBulkOps :: nat where "maxConcurrentBulkOps = 5"

datatype bulk_phase = Waiting | Holding | Operated bulk_result | Released

record 'w bulk_state =
  bk_phase :: "bulk_phase list"
  bk_results :: "bulk_result option list"
  bk_success :: nat
  bk_world :: 'w

definition bulk_start :: "'w task list \<Rightarrow> 'w \<Rightarrow> 'w bulk_state" where
  "bulk_start ts w =
     \<lparr>bk_phase = replicate (length ts) Waiting, bk_results = replicate (length ts) None, bk_success = 0, bk_world = w\<rparr>"

definition holds_slot :: "bulk_phase \<Rightarrow> bool" where
  "holds_slot p \<longleftrightarrow> p \<noteq> Waiting \<and> p \<noteq> Released"

definition slots_taken :: "'w bulk_state \<Rightarrow> nat" where
  "slots_taken s = length (filter holds_slot (bk_phase s))"

text \<open>The next step of goroutine \<open>i\<close>, if it has one.\<close>

definition advance :: "'w task list \<Rightarrow> nat \<Rightarrow> 'w bulk_state \<Rightarrow> 'w bulk_state option" where
  "advance ts i s =
     (case bk_phase s ! i of
        Waiting \<Rightarrow> if slots_taken s < maxConcurrentBulkOps then Some (s\<lparr>bk_phase := (bk_phase s)[i := Holding]\<rparr>) else None
      | Holding \<Rightarrow> (case (ts ! i) (bk_world s) of
                      (w1, r) \<Rightarrow> Some (s\<lparr>bk_world := w1, bk_phase := (bk_phase s)[i := Operated r]\<rparr>))
      | Operated r \<Rightarrow> Some (s\<lparr>bk_success := (if br_Success r then bk_success s + 1 else bk_success s),
                              bk_results := (bk_results s)[i := Some r], bk_phase := (bk_phase s)[i := Released]\<rparr>)
      | Released \<Rightarrow> None)"

inductive bulk_step :: "'w task list \<Rightarrow> 'w bulk_state \<Rightarrow> 'w bulk_state \<Rightarrow> bool" for ts where
  goroutine: "i < length ts \<Longrightarrow> advance ts i s = Some s' \<Longrightarrow> bulk_step ts s s'"

inductive_cases bulk_stepE: "bulk_step ts s s'"

text \<open>The answer after all have finished; a result that was never stored would be an empty one.\<close>

definition empty_result :: bulk_result where
  "empty_result = \<lparr>br_ID = [], br_Name = [], br_Success = False, br_Error = []\<rparr>"

definition make_response :: "string \<Rightarrow> 'w task list \<Rightarrow> 'w bulk_state \<Rightarrow> bulk_response" where
  "make_response msg ts s =
     \<lparr>bp_Message = msg, bp_Total = length ts, bp_Success = bk_success s, bp_Failed = length ts - bk_success s,
      bp_Results = map (\<lambda>r. case r of None \<Rightarrow> empty_result | Some x \<Rightarrow> x) (bk_results s)\<rparr>"

section \<open>The pages\<close>

text \<open>A page refuses with a status and a code, or runs its tasks and answers with the response.\<close>

definition bulk_page :: "bulk_op \<Rightarrow> 'w container_handler \<Rightarrow> string \<Rightarrow> 'w \<Rightarrow> (int \<times> string) + 'w task list" where
  "bulk_page op h meth w =
     (if meth \<noteq> ''POST'' then Inl (405, ''METHOD_NOT_ALLOWED'')
      else case bulk_containers op h w of
        None \<Rightarrow> Inl (500, ''NO_RUNTIME'')
      | Some (Inl e) \<Rightarrow> Inl (500, ''CONTAINER_LIST_FAILED'')
      | Some (Inr cs) \<Rightarrow> Inr (map (bulk_task op h) cs))"

definition HandleRestartAll :: "'w container_handler \<Rightarrow> string \<Rightarrow> 'w \<Rightarrow> (int \<times> string) + 'w task list" where
  "HandleRestartAll = bulk_page BulkRestart"

definition HandleStopAll :: "'w container_handler \<Rightarrow> string \<Rightarrow> 'w \<Rightarrow> (int \<times> string) + 'w task list" where
  "HandleStopAll = bulk_page BulkStop"

definition HandleStartAll :: "'w container_handler \<Rightarrow> string \<Rightarrow> 'w \<Rightarrow> (int \<times> string) + 'w task list" where
  "HandleStartAll = bulk_page BulkStart"

record bulk_request =
  bq_Action :: string
  bq_ContainerIDs :: "string list"
  bq_Timeout :: "int option"

definition bulk_action :: "string \<Rightarrow> bulk_op option" where
  "bulk_action a =
     (if a = ''start'' then Some BulkStart else if a = ''stop'' then Some BulkStop
      else if a = ''restart'' then Some BulkRestart else None)"

text \<open>The name is asked for first; the client of the fallback is there when no runtime is.\<close>

definition batch_task :: "'w container_handler \<Rightarrow> bulk_op \<Rightarrow> int \<Rightarrow> string \<Rightarrow> 'w task" where
  "batch_task h op timeout cid w =
     (case getPrimaryRuntime h of
        Some rt \<Rightarrow>
          (let i = \<lparr>id_Runtime = rt_Type rt, id_ID = cid, id_Namespace = []\<rparr>;
               name = (case rt_Inspect rt i w of Inl e \<Rightarrow> cid | Inr d \<Rightarrow> rc_Name (rd_Container d))
           in case runtime_op op rt i (wrap64 (timeout * second)) w of (w1, e) \<Rightarrow> (w1, make_result cid name e))
      | None \<Rightarrow>
          (case ch_client h of
             None \<Rightarrow> (w, make_result cid cid None)
           | Some cl \<Rightarrow>
               (let name = (case dk_Inspect cl cid w of Inl e \<Rightarrow> cid | Inr j \<Rightarrow> TrimPrefix (dj_Name j) ''/'')
                in case client_op op cl cid timeout w of (w1, e) \<Rightarrow> (w1, make_result cid name e))))"

definition HandleBatchOperation ::
  "'w container_handler \<Rightarrow> string \<Rightarrow> bulk_request option \<Rightarrow> (int \<times> string) + 'w task list" where
  "HandleBatchOperation h meth body =
     (if meth \<noteq> ''POST'' then Inl (405, ''METHOD_NOT_ALLOWED'')
      else case body of
        None \<Rightarrow> Inl (400, ''INVALID_REQUEST_BODY'')
      | Some q \<Rightarrow>
          (case bulk_action (bq_Action q) of
             None \<Rightarrow> Inl (400, ''INVALID_ACTION'')
           | Some op \<Rightarrow>
               if bq_ContainerIDs q = [] then Inl (400, ''EMPTY_CONTAINER_LIST'')
               else if \<not> hasRuntime h \<and> ch_client h = None then Inl (500, ''NO_RUNTIME'')
               else Inr (map (batch_task h op (case bq_Timeout q of None \<Rightarrow> 10 | Some t \<Rightarrow> t)) (bq_ContainerIDs q))))"

section \<open>Every interleaving does each operation once\<close>

text \<open>The worlds a sequence of operations goes through.\<close>

definition after_ops :: "'w task list \<Rightarrow> nat list \<Rightarrow> 'w \<Rightarrow> 'w" where
  "after_ops ts seq w = fold (\<lambda>i v. fst ((ts ! i) v)) seq w"

definition op_outcome :: "'w bulk_state \<Rightarrow> nat \<Rightarrow> bulk_result option" where
  "op_outcome s i =
     (case bk_phase s ! i of Operated r \<Rightarrow> Some r | Released \<Rightarrow> bk_results s ! i | _ \<Rightarrow> None)"

fun steps_left :: "bulk_phase \<Rightarrow> nat" where
  "steps_left Waiting = 3"
| "steps_left Holding = 2"
| "steps_left (Operated r) = 1"
| "steps_left Released = 0"

text \<open>The operations were carried out in the order \<open>is\<close>, each once, and each result is that of its operation.\<close>

definition ran :: "'w task list \<Rightarrow> 'w \<Rightarrow> nat list \<Rightarrow> 'w bulk_state \<Rightarrow> bool" where
  "ran ts w seq s \<longleftrightarrow>
     distinct seq \<and> set seq = {i. i < length ts \<and> op_outcome s i \<noteq> None} \<and> bk_world s = after_ops ts seq w \<and>
     (\<forall>k < length seq. op_outcome s (seq ! k) = Some (snd ((ts ! (seq ! k)) (after_ops ts (take k seq) w))))"

definition bulk_ok :: "'w task list \<Rightarrow> 'w bulk_state \<Rightarrow> bool" where
  "bulk_ok ts s \<longleftrightarrow>
     length (bk_phase s) = length ts \<and> length (bk_results s) = length ts \<and> slots_taken s \<le> maxConcurrentBulkOps \<and>
     (\<forall>i < length ts. bk_results s ! i \<noteq> None \<longleftrightarrow> bk_phase s ! i = Released) \<and>
     bk_success s = length (filter (\<lambda>r. case r of None \<Rightarrow> False | Some x \<Rightarrow> br_Success x) (bk_results s))"

lemma length_filter_update:
  "i < length xs \<Longrightarrow> length (filter P (xs[i := y])) + (if P (xs ! i) then 1 else 0) = length (filter P xs) + (if P y then 1 else 0)"
proof (induction xs arbitrary: i)
  case (Cons x xs)
  then show ?case by (cases i) auto
qed simp

lemma bulk_ok_start: "bulk_ok ts (bulk_start ts w)"
  by (simp add: bulk_ok_def bulk_start_def slots_taken_def holds_slot_def)

lemma ran_start: "ran ts w [] (bulk_start ts w)"
  by (auto simp: ran_def bulk_start_def op_outcome_def after_ops_def)

lemma bulk_ok_advance:
  assumes "bulk_ok ts s" "i < length ts" "advance ts i s = Some s'"
  shows "bulk_ok ts s'"
proof -
  have l: "i < length (bk_phase s)" "i < length (bk_results s)" using assms(1,2) by (simp_all add: bulk_ok_def)
  note lf = length_filter_update [OF l(1), of holds_slot]
  have r: "bk_results s ! i \<noteq> None \<longleftrightarrow> bk_phase s ! i = Released" using assms(1,2) by (simp add: bulk_ok_def)
  show ?thesis
  proof (cases "bk_phase s ! i")
    case Waiting
    then have s': "s' = s\<lparr>bk_phase := (bk_phase s)[i := Holding]\<rparr>" "slots_taken s < maxConcurrentBulkOps"
      using assms(3) by (auto simp: advance_def split: if_splits)
    then show ?thesis using assms(1,2) l Waiting r lf [of Holding]
      by (auto simp: bulk_ok_def slots_taken_def holds_slot_def nth_list_update)
  next
    case Holding
    obtain w1 x where w: "(ts ! i) (bk_world s) = (w1, x)" by fastforce
    then have s': "s' = s\<lparr>bk_world := w1, bk_phase := (bk_phase s)[i := Operated x]\<rparr>"
      using assms(3) Holding by (simp add: advance_def)
    then show ?thesis using assms(1,2) l Holding r lf [of "Operated x"]
      by (auto simp: bulk_ok_def slots_taken_def holds_slot_def nth_list_update)
  next
    case (Operated x)
    let ?g = "\<lambda>r. case r of None \<Rightarrow> False | Some x \<Rightarrow> br_Success x"
    have s': "s' = s\<lparr>bk_success := (if br_Success x then bk_success s + 1 else bk_success s),
        bk_results := (bk_results s)[i := Some x], bk_phase := (bk_phase s)[i := Released]\<rparr>"
      using assms(3) Operated by (simp add: advance_def)
    have "length (filter ?g ((bk_results s)[i := Some x])) = length (filter ?g (bk_results s)) + (if br_Success x then 1 else 0)"
      using length_filter_update [OF l(2), of ?g "Some x"] r Operated by simp
    then show ?thesis using assms(1,2) l Operated lf [of Released] unfolding s'
      by (auto simp: bulk_ok_def slots_taken_def holds_slot_def nth_list_update)
  next
    case Released
    with assms(3) show ?thesis by (simp add: advance_def)
  qed
qed

lemma ran_advance:
  assumes "bulk_ok ts s" "ran ts w seq s" "i < length ts" "advance ts i s = Some s'"
  shows "\<exists>js. ran ts w js s'"
proof -
  have l: "i < length (bk_phase s)" "i < length (bk_results s)" using assms(1,3) by (simp_all add: bulk_ok_def)
  show ?thesis
  proof (cases "bk_phase s ! i")
    case Waiting
    then have s': "s' = s\<lparr>bk_phase := (bk_phase s)[i := Holding]\<rparr>"
      using assms(4) by (auto simp: advance_def split: if_splits)
    have "op_outcome s' = op_outcome s" using l Waiting by (intro ext) (auto simp: s' op_outcome_def nth_list_update split: bulk_phase.split)
    with assms(2) have "ran ts w seq s'" by (simp add: ran_def s')
    then show ?thesis ..
  next
    case Holding
    obtain w1 x where w: "(ts ! i) (bk_world s) = (w1, x)" by fastforce
    then have s': "s' = s\<lparr>bk_world := w1, bk_phase := (bk_phase s)[i := Operated x]\<rparr>"
      using assms(4) Holding by (simp add: advance_def)
    have o: "op_outcome s' = (op_outcome s)(i := Some x)" using l by (intro ext) (auto simp: s' op_outcome_def nth_list_update split: bulk_phase.split)
    have none: "op_outcome s i = None" using Holding by (simp add: op_outcome_def)
    then have "i \<notin> set seq" using assms(2) by (auto simp: ran_def)
    moreover have "set (seq @ [i]) = {j. j < length ts \<and> op_outcome s' j \<noteq> None}"
      using assms(2,3) none by (auto simp: ran_def o)
    moreover have "bk_world s' = after_ops ts (seq @ [i]) w" using assms(2) w by (simp add: ran_def s' after_ops_def)
    moreover have "op_outcome s' ((seq @ [i]) ! k) = Some (snd ((ts ! ((seq @ [i]) ! k)) (after_ops ts (take k (seq @ [i])) w)))"
      if "k < length (seq @ [i])" for k
    proof (cases "k < length seq")
      case True
      then have "seq ! k \<noteq> i" using \<open>i \<notin> set seq\<close> nth_mem by fastforce
      then show ?thesis using True assms(2) by (simp add: ran_def o nth_append)
    next
      case False
      then have "k = length seq" using that by simp
      then show ?thesis using assms(2) w by (simp add: ran_def o)
    qed
    ultimately have "ran ts w (seq @ [i]) s'" using assms(2) by (auto simp: ran_def)
    then show ?thesis ..
  next
    case (Operated x)
    have s': "s' = s\<lparr>bk_success := (if br_Success x then bk_success s + 1 else bk_success s),
        bk_results := (bk_results s)[i := Some x], bk_phase := (bk_phase s)[i := Released]\<rparr>"
      using assms(4) Operated by (simp add: advance_def)
    have "op_outcome s' = op_outcome s" using l Operated by (intro ext) (auto simp: s' op_outcome_def nth_list_update split: bulk_phase.split)
    with assms(2) have "ran ts w seq s'" by (simp add: ran_def s')
    then show ?thesis ..
  next
    case Released
    with assms(4) show ?thesis by (simp add: advance_def)
  qed
qed

lemma advance_steps_left:
  assumes "length (bk_phase s) = length ts" "i < length ts" "advance ts i s = Some s'"
  shows "sum_list (map steps_left (bk_phase s)) = Suc (sum_list (map steps_left (bk_phase s')))"
proof -
  have "bk_phase s' = (bk_phase s)[i := bk_phase s' ! i] \<and> steps_left (bk_phase s ! i) = Suc (steps_left (bk_phase s' ! i))"
    using assms by (cases "bk_phase s ! i") (auto simp: advance_def split: if_splits prod.splits)
  then obtain p where p: "bk_phase s' = (bk_phase s)[i := p]" "steps_left (bk_phase s ! i) = Suc (steps_left p)" by blast
  have "i < length xs \<Longrightarrow> sum_list (map steps_left xs) + steps_left p = sum_list (map steps_left (xs[i := p])) + steps_left (xs ! i)"
    for xs i
  proof (induction xs arbitrary: i)
    case (Cons x xs)
    then show ?case by (cases i) auto
  qed simp
  from this [of i "bk_phase s"] assms(1,2) p show ?thesis by simp
qed

text \<open>What holds after \<open>k\<close> steps of any interleaving.\<close>

lemma bulk_run:
  "(bulk_step ts ^^ k) (bulk_start ts w) s \<Longrightarrow>
   bulk_ok ts s \<and> (\<exists>seq. ran ts w seq s) \<and> k + sum_list (map steps_left (bk_phase s)) = 3 * length ts"
proof (induction k arbitrary: s)
  case 0
  then have "s = bulk_start ts w" by simp
  moreover have "sum_list (map steps_left (bk_phase (bulk_start ts w))) = 3 * length ts"
    by (simp add: bulk_start_def sum_list_replicate map_replicate_const)
  ultimately show ?case using bulk_ok_start ran_start by fastforce
next
  case (Suc k)
  then obtain s0 where s0: "(bulk_step ts ^^ k) (bulk_start ts w) s0" "bulk_step ts s0 s" by auto
  from s0(2) obtain i where i: "i < length ts" "advance ts i s0 = Some s" by (rule bulk_stepE)
  from Suc.IH [OF s0(1)] obtain seq where IH: "bulk_ok ts s0" "ran ts w seq s0"
    "k + sum_list (map steps_left (bk_phase s0)) = 3 * length ts" by blast
  moreover have "length (bk_phase s0) = length ts" using IH(1) by (simp add: bulk_ok_def)
  ultimately show ?case
    using bulk_ok_advance [OF IH(1) i] ran_advance [OF IH(1,2) i] advance_steps_left [OF _ i] by simp
qed

lemma bulk_progress:
  assumes "bulk_ok ts s" "i < length ts" "bk_phase s ! i \<noteq> Released"
  shows "\<exists>s'. bulk_step ts s s'"
proof (cases "slots_taken s < maxConcurrentBulkOps \<or> bk_phase s ! i \<noteq> Waiting")
  case True
  then obtain s' where "advance ts i s = Some s'"
    using assms(3) by (cases "bk_phase s ! i") (auto simp: advance_def case_prod_unfold)
  with assms(2) show ?thesis by (blast intro: bulk_step.goroutine)
next
  case False
  then have "filter holds_slot (bk_phase s) \<noteq> []"
    by (auto simp: slots_taken_def maxConcurrentBulkOps_def)
  then obtain p where "p \<in> set (bk_phase s)" "holds_slot p" by (auto simp: filter_empty_conv)
  then obtain j where j: "j < length ts" "holds_slot (bk_phase s ! j)"
    using assms(1) by (auto simp: in_set_conv_nth bulk_ok_def)
  then obtain s' where "advance ts j s = Some s'"
    by (cases "bk_phase s ! j") (auto simp: advance_def holds_slot_def case_prod_unfold)
  with j(1) show ?thesis by (blast intro: bulk_step.goroutine)
qed

lemma all_finished_iff:
  "length ps = n \<Longrightarrow> sum_list (map steps_left ps) = 0 \<longleftrightarrow> (\<forall>i < n. ps ! i = Released)"
proof -
  assume n: "length ps = n"
  have "sum_list (map steps_left ps) = 0 \<longleftrightarrow> (\<forall>p \<in> set ps. steps_left p = 0)" by simp
  moreover have "steps_left p = 0 \<longleftrightarrow> p = Released" for p by (cases p) simp_all
  ultimately show ?thesis using n by (auto simp: all_set_conv_all_nth)
qed

text \<open>A response in which every operation is accounted for: \<open>is\<close> is the order in which they were carried out.\<close>

definition accounted_for :: "'w task list \<Rightarrow> 'w \<Rightarrow> 'w \<Rightarrow> bulk_response \<Rightarrow> bool" where
  "accounted_for ts w w' r \<longleftrightarrow>
     bp_Total r = length ts \<and> length (bp_Results r) = length ts \<and>
     bp_Success r = length (filter br_Success (bp_Results r)) \<and>
     bp_Failed r = length (filter (\<lambda>x. \<not> br_Success x) (bp_Results r)) \<and>
     (\<exists>seq. distinct seq \<and> set seq = {..<length ts} \<and> w' = after_ops ts seq w \<and>
        (\<forall>k < length ts. bp_Results r ! (seq ! k) = snd ((ts ! (seq ! k)) (after_ops ts (take k seq) w))))"

lemma finished_accounted:
  assumes "bulk_ok ts s" "ran ts w seq s" "\<forall>i < length ts. bk_phase s ! i = Released"
  shows "accounted_for ts w (bk_world s) (make_response msg ts s)"
proof -
  let ?R = "bk_results s" and ?f = "\<lambda>r. case r of None \<Rightarrow> empty_result | Some x \<Rightarrow> x"
  have l: "length ?R = length ts" using assms(1) by (simp add: bulk_ok_def)
  have some: "?R ! i \<noteq> None" if "i < length ts" for i using assms(1,3) that by (simp add: bulk_ok_def)
  then have all: "\<forall>r \<in> set ?R. r \<noteq> None" using l by (auto simp: all_set_conv_all_nth)
  have o: "op_outcome s i = ?R ! i" if "i < length ts" for i using assms(3) that by (simp add: op_outcome_def)
  have ord: "distinct seq" "set seq = {..<length ts}" using assms(2) some by (auto simp: ran_def o)
  have len: "length seq = length ts" using distinct_card [OF ord(1)] ord(2) by simp
  have nth: "bp_Results (make_response msg ts s) ! (seq ! k) = snd ((ts ! (seq ! k)) (after_ops ts (take k seq) w))" if "k < length ts" for k
  proof -
    have k: "seq ! k < length ts" using ord(2) that len nth_mem by fastforce
    with assms(2) that len have "?R ! (seq ! k) = Some (snd ((ts ! (seq ! k)) (after_ops ts (take k seq) w)))"
      by (simp add: ran_def flip: o)
    with k l show ?thesis by (simp add: make_response_def)
  qed
  have succ: "bk_success s = length (filter br_Success (map ?f ?R))"
  proof -
    have "filter (\<lambda>r. case r of None \<Rightarrow> False | Some x \<Rightarrow> br_Success x) ?R = filter (\<lambda>r. br_Success (?f r)) ?R"
      using all by (intro filter_cong) auto
    then show ?thesis using assms(1) by (simp add: bulk_ok_def filter_map comp_def)
  qed
  have "length (filter br_Success (map ?f ?R)) + length (filter (\<lambda>x. \<not> br_Success x) (map ?f ?R)) = length ts"
    using sum_length_filter_compl [of br_Success "map ?f ?R"] l by simp
  then have "length ts - bk_success s = length (filter (\<lambda>x. \<not> br_Success x) (map ?f ?R))" using succ by simp
  moreover have "bk_world s = after_ops ts seq w" using assms(2) by (simp add: ran_def)
  ultimately show ?thesis
    unfolding accounted_for_def using ord nth l succ by (auto simp: make_response_def)
qed

text \<open>C19: Every interleaving of the goroutines of a bulk or batch page ends after three steps for each container, and until then one
  of them can go on; at most five hold the semaphore; the answer counts every container once as a success or a failure,
  in the order of the list, and the operations took effect one after another, each once, with the results they had.\<close>

theorem bulk_operations_accounted:
  assumes "bulk_page op h meth w = Inr ts \<or> HandleBatchOperation h meth body = Inr ts"
    and "(bulk_step ts ^^ k) (bulk_start ts w) s"
  shows "k \<le> 3 * length ts \<and> slots_taken s \<le> maxConcurrentBulkOps \<and>
     (if k < 3 * length ts then \<exists>s'. bulk_step ts s s' else accounted_for ts w (bk_world s) (make_response msg ts s))"
proof -
  from bulk_run [OF assms(2)] obtain seq where r: "bulk_ok ts s" "ran ts w seq s"
    "k + sum_list (map steps_left (bk_phase s)) = 3 * length ts" by blast
  have l: "length (bk_phase s) = length ts" and slots: "slots_taken s \<le> maxConcurrentBulkOps" using r(1) by (simp_all add: bulk_ok_def)
  show ?thesis
  proof (cases "k < 3 * length ts")
    case True
    with r(3) have "sum_list (map steps_left (bk_phase s)) \<noteq> 0" by linarith
    then obtain i where "i < length ts" "bk_phase s ! i \<noteq> Released" unfolding all_finished_iff [OF l] by blast
    from bulk_progress [OF r(1) this] True slots show ?thesis by simp
  next
    case False
    with r(3) have "sum_list (map steps_left (bk_phase s)) = 0" by linarith
    then have "\<forall>i < length ts. bk_phase s ! i = Released" unfolding all_finished_iff [OF l] .
    from finished_accounted [OF r(1,2) this] False r(3) slots show ?thesis by simp
  qed
qed

text \<open>The results of a bulk page carry the containers of the list, in its order.\<close>

lemma bulk_results_named:
  assumes "bulk_page op h meth w = Inr ts" "accounted_for ts w w' r"
  obtains cs where "bulk_containers op h w = Some (Inr cs)" "bp_Total r = length cs"
    "map br_ID (bp_Results r) = map (\<lambda>c. short_id (bc_id c)) cs" "map br_Name (bp_Results r) = map bc_name cs"
proof -
  from assms(1) obtain cs where cs: "bulk_containers op h w = Some (Inr cs)" "ts = map (bulk_task op h) cs"
    by (auto simp: bulk_page_def split: if_splits option.splits sum.splits)
  have task: "br_ID (snd (bulk_task op h c v)) = short_id (bc_id c) \<and> br_Name (snd (bulk_task op h c v)) = bc_name c" for c v
    by (simp add: bulk_task_def make_result_def split: prod.split)
  have l: "bp_Total r = length cs" "length (bp_Results r) = length cs" using assms(2) cs(2) by (simp_all add: accounted_for_def)
  from assms(2) obtain seq where seq: "distinct seq" "set seq = {..<length ts}"
    and nth: "\<forall>k < length ts. bp_Results r ! (seq ! k) = snd ((ts ! (seq ! k)) (after_ops ts (take k seq) w))"
    unfolding accounted_for_def by blast
  then have len: "length seq = length cs" using distinct_card [OF seq(1)] by (simp add: cs(2))
  have "\<exists>v. bp_Results r ! j = snd (bulk_task op h (cs ! j) v)" if "j < length cs" for j
  proof -
    have "j \<in> set seq" using that by (simp add: seq(2) cs(2))
    then obtain k where k: "k < length seq" "seq ! k = j" unfolding in_set_conv_nth by blast
    with len that have "k < length ts" by (simp add: cs(2))
    with nth k(2) have "bp_Results r ! j = snd ((ts ! j) (after_ops ts (take k seq) w))" by blast
    then show ?thesis using that by (auto simp: cs(2))
  qed
  then have "br_ID (bp_Results r ! j) = short_id (bc_id (cs ! j)) \<and> br_Name (bp_Results r ! j) = bc_name (cs ! j)" if "j < length cs" for j
    using that task by metis
  with l show ?thesis by (intro that [OF cs(1) l(1)]) (auto intro!: nth_equalityI)
qed

text \<open>A schedule says which goroutine takes the next step.\<close>

fun run_schedule :: "'w task list \<Rightarrow> nat list \<Rightarrow> 'w bulk_state \<Rightarrow> 'w bulk_state option" where
  "run_schedule ts [] s = Some s"
| "run_schedule ts (i # sched) s =
     (if i < length ts then (case advance ts i s of None \<Rightarrow> None | Some s' \<Rightarrow> run_schedule ts sched s') else None)"

lemma run_schedule_steps: "run_schedule ts sched s = Some s' \<Longrightarrow> (bulk_step ts ^^ length sched) s s'"
proof (induction sched arbitrary: s)
  case (Cons i sched)
  then obtain s1 where "i < length ts" "advance ts i s = Some s1" "run_schedule ts sched s1 = Some s'"
    by (auto split: if_splits option.splits)
  then have "bulk_step ts s s1" "(bulk_step ts ^^ length sched) s1 s'" using Cons.IH by (auto intro: bulk_step.goroutine)
  then have "(bulk_step ts ^^ Suc (length sched)) s s'" by (rule relpowp_Suc_I2)
  then show ?case by (simp only: length_Cons)
qed simp

lemma bulk_operations_accounted_witness:
  "\<exists>ts s. HandleStopAll toy_handler ''POST'' [''web'', ''db''] = Inr ts \<and> bk_world s = [] \<and>
     accounted_for ts [''web'', ''db''] [] (make_response ''done'' ts s)"
proof -
  let ?w = "[''web'', ''db'']" and ?sched = "[1, 0, 0, 1, 1, 0] :: nat list"
  have "case bulk_page BulkStop toy_handler ''POST'' ?w of Inl e \<Rightarrow> False
      | Inr ts \<Rightarrow> length ts = 2 \<and> (case run_schedule ts ?sched (bulk_start ts ?w) of None \<Rightarrow> False | Some s \<Rightarrow> bk_world s = [])"
    by code_simp
  then obtain ts s where ts: "bulk_page BulkStop toy_handler ''POST'' ?w = Inr ts" "length ts = 2" "bk_world s = []"
    and s: "run_schedule ts ?sched (bulk_start ts ?w) = Some s"
    by (auto split: sum.splits option.splits)
  have "length ?sched = 6" by simp
  from run_schedule_steps [OF s, unfolded this] have "(bulk_step ts ^^ 6) (bulk_start ts ?w) s" .
  from bulk_operations_accounted [OF disjI1 [OF ts(1)] this, of "''done''"] ts
  show ?thesis by (auto simp: HandleStopAll_def)
qed

section \<open>Where the pages go astray\<close>

text \<open>Stopping or restarting all means all: also the container the gateway itself runs in.\<close>

lemma stop_all_spares_none:
  assumes "getPrimaryRuntime h = Some rt" "rt_List rt \<lparr>lo_All = False, lo_Namespace = []\<rparr> w = Inr cs"
  shows "HandleStopAll h ''POST'' w =
    Inr (map (\<lambda>c. bulk_task BulkStop h \<lparr>bc_id = id_ID (rc_ID c), bc_name = rc_Name c, bc_target = Some (rt, rc_ID c)\<rparr>) cs)"
  using assms by (simp add: HandleStopAll_def bulk_page_def bulk_containers_def runtime_containers_def comp_def)

text \<open>A batch names no namespaces, and the API server finds no pod without one.\<close>

lemma batch_fails_on_kubernetes:
  assumes "getPrimaryRuntime h = Some (kubernetes_runtime cl)"
    and "\<And>n. \<exists>e. kc_GetPod cl [] n w = Inl e" "\<And>n. \<exists>e. kc_DeletePod cl [] n w = (w, Some e)"
  shows "fst (batch_task h op t cid w) = w \<and> \<not> br_Success (snd (batch_task h op t cid w))"
proof -
  obtain e1 e2 where e: "kc_GetPod cl [] cid w = Inl e1" "kc_DeletePod cl [] cid w = (w, Some e2)" using assms(2,3) by blast
  show ?thesis
    using assms(1) e
    by (cases op) (simp_all add: batch_task_def runtime_op_def kubernetes_runtime_def kubernetes_Start_def kubernetes_Stop_def
        kubernetes_Restart_def make_result_def Let_def)
qed

text \<open>The timeout of a batch is not held to the bounds of the single operations, and a large one wraps around.\<close>

lemma batch_timeout_wraps: "whole_seconds (wrap64 (9223372037 * second)) < 0"
  by (simp add: whole_seconds_def wrap64_def second_def)

end
