(* ===== verification/Spec2Isabelle.thy ===== *)
theory Spec2Isabelle
  imports Peers QoS WsHandlers Proposals RateLimits ApiKeys Cookies Users Webhooks ScriptPages KubeWorker Exports CertPages ContainersBulk
begin

text \<open>
  \<^bold>\<open>Nekzus\<close> is a gateway for self-hosted applications: it discovers services (Docker, Kubernetes, mDNS),
  keeps a catalog of apps and routes, pairs devices, lets their requests through to the backends, and pushes events to
  them over WebSockets.  This library models its Go code under \<open>src/\<close> as HOL functions and proves what
  the parts promise.  This header says which theory models what, how state and operations correspond to the
  code, and what is left out.

  \<^bold>\<open>Conventions.\<close>  A struct is a \<open>record\<close>, an enumeration or a tagged answer a \<open>datatype\<close>; a method is a function of the
  receiver's state that returns the new one, its errors are values of a sum or an option, and a handler returns the
  answer with its status code.  Names are the source's where HOL allows it; \<open>page_X\<close> is the handler \<open>X\<close> where a store
  function has the name \<open>X\<close>.  Go maps are association lists with distinct keys, and the theorems quantify over all of
  them, so they hold for every order of a \<open>range\<close> loop.  Strings are byte strings.  Times and durations count
  nanoseconds; Go's \<open>int\<close> and \<open>Duration\<close> are integers with the wrap-around written out (\<open>wrap64\<close>) where the code can
  overflow, vector clocks are 64-bit words.  A method that holds a lock is one step; where the code gives up the lock, or
  several statements of a database can be overtaken, the steps are separate.  Each database statement takes the
  connection it runs on (\<open>conn\<close>): whether it is carried out, whether that connection enforces foreign keys, and its
  clock; a theorem without a hypothesis on connections holds under every fault.

  \<^bold>\<open>Theories\<close>, in the order of the imports:

  \<^item> \<open>Prelude\<close>, \<open>Numbers\<close>, \<open>Durations\<close>, \<open>Net\<close>, \<open>Paths\<close>, \<open>Json\<close>: what the sources use of Go's library (maps, \<open>strings\<close>,
    \<open>strconv\<close>, \<open>time\<close>, \<open>net\<close>, \<open>path\<close>, \<open>encoding/json\<close>) with the shared lemmas; \<open>Net\<close> also holds \<open>router/subdomain.go\<close> and the
    address test of \<open>middleware/ipauth.go\<close>.  \<open>Types\<close> has the types of \<open>types/types.go\<close>, \<open>Store\<close> the tables of
    \<open>storage/storage.go\<close> for apps, routes, devices and notifications.
  \<^item> \<open>Radix\<close>, \<open>Registry\<close>, \<open>Routing\<close>: \<open>internal/router\<close>.  The tree refines a map from paths to routes with
    longest-prefix search; the locale \<open>route_index\<close> states that contract, the registry's lemmas are proved inside it, and the
    tree interprets it.  \<open>Routing\<close> has the reachable registries and the properties of upsert, removal, look-up and
    restart.
  \<^item> \<open>Expiry\<close>, \<open>Auth\<close>, \<open>Pairing\<close>: \<open>internal/auth\<close>.  The locale \<open>expiring_store\<close> is the contract of a table with expiries,
    interpreted by the revocation list (tokens and devices) and the short-lived bootstrap tokens; then scopes, the manager
    of the JWTs and the pairing codes.
  \<^item> \<open>Health\<close>, \<open>Access\<close>: \<open>health/service_checker.go\<close>; the middleware, pairing, device and proxy handlers.
    \<open>RateLimits\<close>, \<open>ApiKeys\<close>, \<open>Users\<close>, \<open>Cookies\<close>: rate limiting, API keys, dashboard accounts, and the session cookies kept for
    devices.
  \<^item> \<open>Topics\<close>, \<open>WebSocket\<close>, \<open>QoS\<close>, \<open>WsHandlers\<close>: \<open>internal/websocket\<close> and its handler.  Clients are pointers two tables share, so
    there is a heap of clients.
  \<^item> \<open>Notifications\<close>, \<open>NotifAdmin\<close>, \<open>Webhooks\<close>: \<open>internal/notifications\<close>, its pages, and incoming webhooks.  The locale \<open>delivery\<close>
    is what the queue relies on of its deliverer, interpreted by the WebSocket deliverer.
  \<^item> \<open>Discovery\<close>, \<open>Security\<close>, \<open>Activity\<close>, \<open>Proposals\<close>: the discovery manager, port exposure, the activity feed, and the pages
    that approve or dismiss proposals.  \<open>DockerWorker\<close> (\<open>discovery/docker.go\<close>, \<open>selfident.go\<close>) and \<open>KubeWorker\<close>
    (\<open>discovery/kubernetes.go\<close>) are the workers that submit them.
  \<^item> \<open>Certs\<close>, \<open>CertPages\<close>: \<open>internal/certmanager\<close> with its tables and its pages: making, importing, renewing, deleting and
    choosing TLS certificates.
  \<^item> \<open>Exports\<close>: \<open>internal/export\<close> and its pages, from inspected containers to a compose file and the file of its secrets.
  \<^item> \<open>Runtimes\<close>, \<open>Containers\<close>, \<open>ContainersBulk\<close>: \<open>internal/runtime\<close> and the container pages
    (\<open>handlers/containers.go\<close>, \<open>containers_bulk.go\<close>).  The locale \<open>container_runtime\<close> is what the pages rely on of a runtime,
    interpreted by the Docker and the Kubernetes one; the goroutines of a bulk operation are a step relation that
    allows every interleaving.
  \<^item> \<open>Federation\<close>, \<open>Peers\<close>: \<open>internal/federation\<close>: vector clocks, conflict resolution, the catalog syncer, the peer manager.
  \<^item> \<open>Cron\<close>, \<open>Scripts\<close>, \<open>ScriptStore\<close>, \<open>ScriptRuns\<close>, \<open>ScriptPages\<close>: \<open>internal/scripts\<close>, its tables and its pages.

  \<^bold>\<open>How the parts meet.\<close>  A request passes the rate limiter and the authentication middleware (\<open>Access\<close>, \<open>ApiKeys\<close>),
  which ask the manager and its revocation list (\<open>Auth\<close>); the proxy handlers look the route up in the registry
  (\<open>Routing\<close>), ask the health checker (\<open>Health\<close>) and add the cookies of the device (\<open>Cookies\<close>).  Discovery submits
  proposals; approving one writes to the registry, whose callbacks tell the syncer of the federation.  Notifications, webhooks and
  the runner of scripts enqueue messages, which the queue delivers over the WebSocket manager until they are
  acknowledged.  These compositions are modelled: \<open>Proposals\<close> over registry, discovery manager and queue,
  \<open>NotifAdmin\<close> over queue, tracker, connections and pages, \<open>Webhooks\<close> over queue, store and connections, \<open>ScriptPages\<close> over
  tables, runner and executor.

  \<^bold>\<open>What the lemmas show.\<close>  Each theory has first the invariant of its state and that every operation keeps it, then
  frame lemmas (what an operation leaves alone), then the properties of runs.  A numbered claim stands right after the text that
  states it, its witness after it: the claim applied to concrete data, with its hypotheses discharged by evaluation.

  \<^bold>\<open>Fuel and bounds.\<close>  \<open>parse_v6_loop\<close> (in \<open>Net\<close>) takes 9 rounds, one more than an address has groups; \<open>duration_loop\<close> as many
  as there are characters, and every round consumes one; \<open>next_match\<close> (in \<open>Cron\<close>) runs for the code's own bound of four years of
  minutes.  \<open>step_values\<close> is a \<open>partial_function\<close>: the loop of a cron step need not end, and then has the value
  \<open>None\<close>; \<open>cron_parsing_returns\<close> says when it does.  Everything else terminates by structural recursion or a
  measure.

  \<^bold>\<open>Parameters.\<close>  Code that is not under \<open>src/\<close> is an argument of the definitions that use it: the JWT library (signing and
  parsing), bcrypt, AES-GCM, the hash of API keys, uuid and random bytes, the token bucket, SQLite's rendering and order of
  times, \<open>url.Parse\<close>, the X.509 library, the parser of cookie dates, regular expressions, the calendar of the time zone, the file system and
  processes, the YAML and ZIP encoders, the Docker daemon's and the Kubernetes API server's answers, \<open>IsUnexpectedCloseError\<close> of gorilla/websocket,
  memberlist's members, HTTP probes; and the order of Go's walks over maps where the result depends on it.
  Hypotheses on them state their documented behaviour (\<open>jwt_library_ok\<close>: what was signed parses to its claims until it
  expires) and each has a concrete instance in a witness.

  \<^bold>\<open>Not modelled.\<close>  Logging, metrics (\<open>internal/metrics\<close>), audit and configuration loading; starting and stopping of
  goroutines, tickers and servers (their ticks are operations); the transport of proxied requests and of WebSocket
  frames; TLS itself, the certificate authority and the files of certificates (\<open>certmanager/ca.go\<close>, \<open>tlsutil\<close>, \<open>certvolume\<close>); the streaming of container logs, the manifests of
  \<open>runtime/kubernetes/export.go\<close>, backups and the toolbox, which mostly pass calls to Docker or Kubernetes; the rewriting of HTML (\<open>proxy/html_rewriter.go\<close>, which is a parser library's work); the mDNS worker, whose scan is a
  placeholder that finds nothing; the wiring in \<open>cmd/nekzus/main.go\<close> beyond the adapters of the discovery manager; the web
  interface.
\<close>

end
